(* ===== verification/Prelude.thy ===== *)
theory Prelude
  imports Main "HOL-Library.Sublist" "HOL-Library.AList"
begin

text \<open>
  Shared ground of the development: the parts of the Go language and of its standard
  library that the repository's code uses (byte strings, decimal integers, machine
  integers, loops), the lemma collections, and generic facts about lists.  Go strings are byte
  sequences, so they are HOL strings, one \<^verbatim>\<open>char\<close> per byte.  Go's \<^verbatim>\<open>int\<close>, \<^verbatim>\<open>int64\<close> and \<^verbatim>\<open>int32\<close> are \<^verbatim>\<open>int\<close> with the
  wrap-around written out by \<open>wrap64\<close> and \<open>wrap32\<close>.
\<close>

named_theorems go_str \<open>simplification rules for the string functions\<close>
named_theorems go_err \<open>simplification rules for error values\<close>

section \<open>Package strings\<close>

abbreviation hasPrefix :: "string \<Rightarrow> string \<Rightarrow> bool" where
  "hasPrefix s p \<equiv> prefix p s"

abbreviation hasSuffix :: "string \<Rightarrow> string \<Rightarrow> bool" where
  "hasSuffix s p \<equiv> suffix p s"

text \<open>\<^verbatim>\<open>strings.Contains\<close>, \<^verbatim>\<open>strings.CutSuffix\<close>, \<^verbatim>\<open>strings.TrimSuffix\<close>.\<close>

fun containsStr :: "string \<Rightarrow> string \<Rightarrow> bool" where
  "containsStr [] sub = (sub = [])"
| "containsStr (c # s) sub = (prefix sub (c # s) \<or> containsStr s sub)"

definition cutSuffix :: "string \<Rightarrow> string \<Rightarrow> string \<times> bool" where
  "cutSuffix s suf =
     (if suffix suf s then (take (length s - length suf) s, True) else (s, False))"

definition trimSuffix :: "string \<Rightarrow> string \<Rightarrow> string" where
  "trimSuffix s suf = fst (cutSuffix s suf)"

text \<open>\<^verbatim>\<open>strings.Cut\<close> around a one-byte separator.\<close>

definition cutChar :: "char \<Rightarrow> string \<Rightarrow> string \<times> string \<times> bool" where
  "cutChar c s =
     (case dropWhile (\<lambda>x. x \<noteq> c) s of
        [] \<Rightarrow> (s, [], False)
      | _ # r \<Rightarrow> (takeWhile (\<lambda>x. x \<noteq> c) s, r, True))"

text \<open>\<^verbatim>\<open>strings.Split\<close> around a one-byte separator and \<^verbatim>\<open>strings.Join\<close>.\<close>

fun splitChar :: "char \<Rightarrow> string \<Rightarrow> string list" where
  "splitChar c [] = [[]]"
| "splitChar c (x # xs) =
     (if x = c then [] # splitChar c xs
      else (case splitChar c xs of [] \<Rightarrow> [[x]] | p # ps \<Rightarrow> (x # p) # ps))"

fun joinStr :: "string list \<Rightarrow> string \<Rightarrow> string" where
  "joinStr [] sep = []"
| "joinStr [x] sep = x"
| "joinStr (x # y # r) sep = x @ sep @ joinStr (y # r) sep"

text \<open>\<^verbatim>\<open>s[:strings.LastIndex(s, c)]\<close> when the byte occurs, \<open>s\<close> otherwise.\<close>

definition beforeLast :: "char \<Rightarrow> string \<Rightarrow> string" where
  "beforeLast c s =
     (if c \<in> set s then rev (tl (dropWhile (\<lambda>x. x \<noteq> c) (rev s))) else s)"

lemma containsStr_iff: "containsStr s sub \<longleftrightarrow> (\<exists>u v. s = u @ sub @ v)"
proof (induction s)
  case Nil
  then show ?case by auto
next
  case step: (Cons c s)
  show ?case
  proof
    assume "containsStr (c # s) sub"
    then consider "prefix sub (c # s)" | "containsStr s sub" by auto
    then show "\<exists>u v. c # s = u @ sub @ v"
    proof cases
      case 1
      then obtain v where "c # s = sub @ v" by (auto simp: prefix_def)
      then have "c # s = [] @ sub @ v" by simp
      then show ?thesis by blast
    next
      case 2
      then obtain u v where "s = u @ sub @ v" using step.IH by blast
      then have "c # s = (c # u) @ sub @ v" by simp
      then show ?thesis by blast
    qed
  next
    assume "\<exists>u v. c # s = u @ sub @ v"
    then obtain u v where uv: "c # s = u @ sub @ v" by blast
    show "containsStr (c # s) sub"
    proof (cases u)
      case Nil
      with uv have "prefix sub (c # s)" by simp
      then show ?thesis by simp
    next
      case (Cons a u')
      with uv have "s = u' @ sub @ v" by simp
      then have "containsStr s sub" using step.IH by blast
      then show ?thesis by simp
    qed
  qed
qed

lemma containsStr_char [go_str]: "containsStr s [c] \<longleftrightarrow> c \<in> set s"
  by (simp add: containsStr_iff in_set_conv_decomp)

lemma cutSuffix_True: "cutSuffix s suf = (p, True) \<longleftrightarrow> s = p @ suf"
  by (auto simp: cutSuffix_def suffix_def)

lemma cutSuffix_snd: "snd (cutSuffix s suf) \<longleftrightarrow> suffix suf s"
  by (simp add: cutSuffix_def)

lemma cutChar_absent: "c \<notin> set s \<Longrightarrow> cutChar c s = (s, [], False)"
  by (auto simp: cutChar_def split: list.splits)
     (metis (mono_tags, lifting) dropWhile_eq_Nil_conv list.distinct(1))

lemma cutChar_append [go_str]: "c \<notin> set p \<Longrightarrow> cutChar c (p @ c # r) = (p, r, True)"
proof -
  assume a: "c \<notin> set p"
  then have "dropWhile (\<lambda>x. x \<noteq> c) (p @ c # r) = c # r"
    by (induction p) auto
  moreover from a have "takeWhile (\<lambda>x. x \<noteq> c) (p @ c # r) = p"
    by (induction p) auto
  ultimately show ?thesis by (simp add: cutChar_def)
qed

lemma cutChar_found:
  assumes "cutChar c s = (p, r, True)"
  shows "s = p @ c # r \<and> c \<notin> set p"
proof -
  from assms obtain x where d: "dropWhile (\<lambda>x. x \<noteq> c) s = x # r"
    and p: "p = takeWhile (\<lambda>x. x \<noteq> c) s"
    by (auto simp: cutChar_def split: list.splits)
  from d have "x = c" by (metis (mono_tags, lifting) dropWhile_eq_Cons_conv)
  with d p have "s = p @ c # r" by (metis takeWhile_dropWhile_id)
  moreover from p have "c \<notin> set p" by (auto dest: set_takeWhileD)
  ultimately show ?thesis by blast
qed

lemma splitChar_nonempty [simp]: "splitChar c s \<noteq> []"
  by (induction s) (auto split: list.splits)

lemma splitChar_join: "joinStr (splitChar c s) [c] = s"
proof (induction s)
  case Nil
  then show ?case by simp
next
  case (Cons x s)
  obtain p ps where sp: "splitChar c s = p # ps"
    using splitChar_nonempty by (meson list.exhaust)
  show ?case
    using Cons sp by (cases ps) auto
qed

lemma splitChar_no_sep: "p \<in> set (splitChar c s) \<Longrightarrow> c \<notin> set p"
  by (induction s arbitrary: p) (fastforce split: if_splits list.splits)+

section \<open>Package strconv: decimal integers\<close>

definition digitChar :: "nat \<Rightarrow> char" where
  "digitChar d = char_of (48 + d)"

definition isDigit :: "char \<Rightarrow> bool" where
  "isDigit c \<longleftrightarrow> (48 :: nat) \<le> of_char c \<and> (of_char c :: nat) \<le> 57"

definition digitVal :: "char \<Rightarrow> nat" where
  "digitVal c = of_char c - 48"

fun showNat :: "nat \<Rightarrow> string" where
  "showNat n = (if n < 10 then [digitChar n] else showNat (n div 10) @ [digitChar (n mod 10)])"

declare showNat.simps [simp del]

definition showInt :: "int \<Rightarrow> string" where
  "showInt i = (if i < 0 then CHR ''-'' # showNat (nat (- i)) else showNat (nat i))"

definition readNat :: "string \<Rightarrow> nat" where
  "readNat s = foldl (\<lambda>n c. 10 * n + digitVal c) 0 s"

lemma of_char_digitChar: "d < 10 \<Longrightarrow> of_char (digitChar d) = (48 + d :: nat)"
  by (simp add: digitChar_def)

lemma isDigit_digitChar [simp]: "d < 10 \<Longrightarrow> isDigit (digitChar d)"
  by (simp add: isDigit_def of_char_digitChar)

lemma digitVal_digitChar [simp]: "d < 10 \<Longrightarrow> digitVal (digitChar d) = d"
  by (simp add: digitVal_def of_char_digitChar)

lemma showNat_nonempty [simp]: "showNat n \<noteq> []"
  by (subst showNat.simps) simp

lemma showNat_digits: "c \<in> set (showNat n) \<Longrightarrow> isDigit c"
proof (induction n rule: showNat.induct)
  case (1 n)
  show ?case
  proof (cases "n < 10")
    case True
    with "1.prems" show ?thesis by (subst (asm) showNat.simps) simp
  next
    case False
    with "1.prems" have "c \<in> set (showNat (n div 10)) \<or> c = digitChar (n mod 10)"
      by (subst (asm) showNat.simps) auto
    with "1.IH" False show ?thesis by auto
  qed
qed

lemma readNat_showNat: "readNat (showNat n) = n"
proof (induction n rule: showNat.induct)
  case (1 n)
  show ?case
  proof (cases "n < 10")
    case True
    then show ?thesis by (subst showNat.simps) (simp add: readNat_def)
  next
    case False
    have "readNat (showNat (n div 10)) = n div 10"
      using "1.IH" False by simp
    then have "readNat (showNat n) = 10 * (n div 10) + n mod 10"
      using False by (subst showNat.simps) (simp add: readNat_def)
    then show ?thesis by simp
  qed
qed

lemma isDigit_not_sign: "isDigit c \<Longrightarrow> c \<noteq> CHR ''-'' \<and> c \<noteq> CHR ''+'' \<and> c \<noteq> CHR ''.''"
  by (auto simp: isDigit_def)

lemma showInt_no_dot: "CHR ''.'' \<notin> set (showInt i)"
  using showNat_digits isDigit_not_sign by (auto simp: showInt_def)

text \<open>
  \<^verbatim>\<open>strconv.ParseInt(s, 10, 64)\<close>: an optional sign, then at least one digit and nothing
  else; a value outside \<^verbatim>\<open>int64\<close> is an error.
\<close>

definition parseSign :: "string \<Rightarrow> bool \<times> string" where
  "parseSign s =
     (case s of [] \<Rightarrow> (False, [])
      | c # r \<Rightarrow> if c = CHR ''-'' then (True, r) else if c = CHR ''+'' then (False, r)
                else (False, c # r))"

definition parseInt64 :: "string \<Rightarrow> int option" where
  "parseInt64 s =
     (case parseSign s of (neg, ds) \<Rightarrow>
        if ds = [] \<or> \<not> list_all isDigit ds then None
        else let n = int (readNat ds); v = (if neg then - n else n)
             in if - (2 ^ 63) \<le> v \<and> v < 2 ^ 63 then Some v else None)"

lemma parseSign_digit: "s \<noteq> [] \<Longrightarrow> isDigit (hd s) \<Longrightarrow> parseSign s = (False, s)"
  by (cases s) (auto simp: parseSign_def dest: isDigit_not_sign)

lemma parseInt64_showInt:
  assumes "- (2 ^ 63) \<le> i" and "i < 2 ^ 63"
  shows "parseInt64 (showInt i) = Some i"
proof (cases "i < 0")
  case True
  have "list_all isDigit (showNat (nat (- i)))"
    by (auto simp: list_all_iff dest: showNat_digits)
  with True assms show ?thesis
    by (simp add: parseInt64_def showInt_def parseSign_def readNat_showNat)
next
  case False
  have "isDigit (hd (showNat (nat i)))"
    by (meson hd_in_set showNat_digits showNat_nonempty)
  then have "parseSign (showNat (nat i)) = (False, showNat (nat i))"
    by (simp add: parseSign_digit)
  moreover have "list_all isDigit (showNat (nat i))"
    by (auto simp: list_all_iff dest: showNat_digits)
  ultimately show ?thesis
    using False assms by (simp add: parseInt64_def showInt_def readNat_showNat)
qed

lemma parseInt64_range: "parseInt64 s = Some i \<Longrightarrow> - (2 ^ 63) \<le> i \<and> i < 2 ^ 63"
  by (auto simp: parseInt64_def Let_def split: prod.splits if_splits)

section \<open>Machine integers\<close>

definition wrapInt :: "nat \<Rightarrow> int \<Rightarrow> int" where
  "wrapInt w i = (i + 2 ^ (w - 1)) mod 2 ^ w - 2 ^ (w - 1)"

abbreviation wrap64 :: "int \<Rightarrow> int" where
  "wrap64 \<equiv> wrapInt 64"

abbreviation wrap32 :: "int \<Rightarrow> int" where
  "wrap32 \<equiv> wrapInt 32"

lemma wrap64_id: "- (2 ^ 63) \<le> i \<Longrightarrow> i < 2 ^ 63 \<Longrightarrow> wrap64 i = i"
  by (simp add: wrapInt_def)

lemma wrap32_id: "- (2 ^ 31) \<le> i \<Longrightarrow> i < 2 ^ 31 \<Longrightarrow> wrap32 i = i"
  by (simp add: wrapInt_def)

lemma wrap64_range: "- (2 ^ 63) \<le> wrap64 i \<and> wrap64 i < 2 ^ 63"
  using pos_mod_bound [of "2 ^ 64" "i + 2 ^ 63"] pos_mod_sign [of "2 ^ 64" "i + 2 ^ 63"]
  by (simp add: wrapInt_def)

lemma wrap32_range: "- (2 ^ 31) \<le> wrap32 i \<and> wrap32 i < 2 ^ 31"
  using pos_mod_bound [of "2 ^ 32" "i + 2 ^ 31"] pos_mod_sign [of "2 ^ 32" "i + 2 ^ 31"]
  by (simp add: wrapInt_def)

text \<open>Go's integer division truncates towards zero.\<close>

definition truncDiv :: "int \<Rightarrow> int \<Rightarrow> int" where
  "truncDiv a b = (if (a < 0) = (b < 0) then \<bar>a\<bar> div \<bar>b\<bar> else - (\<bar>a\<bar> div \<bar>b\<bar>))"

lemma truncDiv_pos: "0 \<le> a \<Longrightarrow> 0 < b \<Longrightarrow> truncDiv a b = a div b"
  by (simp add: truncDiv_def)

text \<open>Durations are nanoseconds, as \<^verbatim>\<open>time.Duration\<close>.\<close>

abbreviation second :: int where "second \<equiv> 1000000000"

section \<open>Bytes in hexadecimal and quoted strings\<close>

definition hexDigit :: "nat \<Rightarrow> char" where
  "hexDigit n = (if n < 10 then digitChar n else char_of (87 + n))"

text \<open>\<^verbatim>\<open>hex.EncodeToString\<close>, two lower-case digits per byte.\<close>

definition hexEncode :: "string \<Rightarrow> string" where
  "hexEncode s =
     concat (map (\<lambda>c. [hexDigit (of_char c div 16), hexDigit (of_char c mod 16)]) s)"

lemma of_char_bound: "(of_char c :: nat) < 256"
  by simp

lemma hexDigit_not_dot: "n < 16 \<Longrightarrow> hexDigit n \<noteq> CHR ''.''"
proof
  assume n: "n < 16" and eq: "hexDigit n = CHR ''.''"
  have "of_char (hexDigit n) = (if n < 10 then 48 + n else 87 + n :: nat)"
    using n by (simp add: hexDigit_def of_char_digitChar)
  with eq show False by (simp split: if_splits)
qed

lemma hexEncode_no_dot: "CHR ''.'' \<notin> set (hexEncode s)"
proof
  assume "CHR ''.'' \<in> set (hexEncode s)"
  then obtain c where
    "CHR ''.'' = hexDigit (of_char c div 16) \<or> CHR ''.'' = hexDigit (of_char c mod 16)"
    by (auto simp: hexEncode_def)
  moreover have "(of_char c :: nat) div 16 < 16"
    using of_char_bound [of c] by (simp add: less_mult_imp_div_less)
  ultimately show False
    by (metis hexDigit_not_dot mod_less_divisor zero_less_numeral)
qed

text \<open>
  \<^verbatim>\<open>strconv.Quote\<close>, the \<^verbatim>\<open>%q\<close> verb, on the bytes below 128; bytes of a multi-byte
  UTF-8 sequence are kept, as Go keeps a printable character.
\<close>

definition quoteByte :: "char \<Rightarrow> string" where
  "quoteByte c =
     (let n = of_char c :: nat in
      if n = 34 \<or> n = 92 then [char_of (92 :: nat), c]
      else if n = 7 then [char_of (92 :: nat), CHR ''a'']
      else if n = 8 then [char_of (92 :: nat), CHR ''b'']
      else if n = 9 then [char_of (92 :: nat), CHR ''t'']
      else if n = 10 then [char_of (92 :: nat), CHR ''n'']
      else if n = 11 then [char_of (92 :: nat), CHR ''v'']
      else if n = 12 then [char_of (92 :: nat), CHR ''f'']
      else if n = 13 then [char_of (92 :: nat), CHR ''r'']
      else if n < 32 \<or> n = 127 then char_of (92 :: nat) # CHR ''x'' # hexEncode [c]
      else [c])"

definition goQuote :: "string \<Rightarrow> string" where
  "goQuote s = char_of (34 :: nat) # concat (map quoteByte s) @ [char_of (34 :: nat)]"

lemma case_sum_Some [simp]:
  "(case x of Inl e \<Rightarrow> None | Inr c \<Rightarrow> Some c) = Some y \<longleftrightarrow> x = Inr y"
  by (cases x) auto

lemma pair_left_cases:
  obtains a b c where "p = ((a, b), c)"
proof (cases p)
  case (Pair x c)
  then show ?thesis using that by (cases x) simp
qed

section \<open>Loops with a seen-set\<close>

text \<open>
  The idiom \<^verbatim>\<open>if _, ok := seen[k]; !ok { seen[k] = struct{}{}; keys = append(keys, k) }\<close>
  keeps the first occurrence of each key; the keys appended so far are the seen-set.
\<close>

fun collectOnce :: "'a list \<Rightarrow> 'a list \<Rightarrow> 'a list" where
  "collectOnce acc [] = acc"
| "collectOnce acc (x # xs) = collectOnce (if x \<in> set acc then acc else acc @ [x]) xs"

lemma set_collectOnce [simp]: "set (collectOnce acc xs) = set acc \<union> set xs"
  by (induction acc xs rule: collectOnce.induct) auto

lemma distinct_collectOnce: "distinct acc \<Longrightarrow> distinct (collectOnce acc xs)"
  by (induction acc xs rule: collectOnce.induct) auto

text \<open>\<^verbatim>\<open>for i, x := range xs\<close>: the elements with their indices.\<close>

definition indexed :: "'a list \<Rightarrow> (nat \<times> 'a) list" where
  "indexed xs = zip [0..<length xs] xs"

lemma map_snd_indexed [simp]: "map snd (indexed xs) = xs"
  by (simp add: indexed_def)

lemma indexed_Nil [simp]: "indexed [] = []"
  by (simp add: indexed_def)

lemma set_indexed: "(i, x) \<in> set (indexed xs) \<longleftrightarrow> i < length xs \<and> xs ! i = x"
  unfolding indexed_def set_zip
  by (auto intro: exI [of _ i])

lemma concat_eq_Nil_iff: "concat xss = [] \<longleftrightarrow> (\<forall>xs\<in>set xss. xs = [])"
  by auto

text \<open>The first element satisfying a predicate, as the loops with an early return find it.\<close>

lemma find_filter: "find P xs = (case filter P xs of [] \<Rightarrow> None | x # _ \<Rightarrow> Some x)"
  by (induction xs) auto

lemma find_Some_D: "find P xs = Some x \<Longrightarrow> x \<in> set xs \<and> P x"
  by (auto simp: find_Some_iff)

end
