(* ===== verification/GoErrors.thy ===== *)
theory GoErrors
  imports Prelude
begin

text \<open>
  Go \<^verbatim>\<open>error\<close> values as the repository tells them apart: by \<^verbatim>\<open>errors.Is\<close> and
  \<^verbatim>\<open>errors.As\<close> along the chain of wrapped errors, and by the text of \<^verbatim>\<open>Error()\<close>.  A
  fallible function returns \<open>go_error + 'a\<close>; one that returns only an error returns
  \<open>go_error option\<close>.
\<close>

datatype kube_reason = KNotFound | KConflict | KAlreadyExists | KOtherReason

datatype go_error =
    ErrText string                 \<comment> \<open>\<^verbatim>\<open>errors.New\<close>, \<^verbatim>\<open>fmt.Errorf\<close> without \<^verbatim>\<open>%w\<close>\<close>
  | ErrWrap string go_error        \<comment> \<open>\<^verbatim>\<open>fmt.Errorf\<close> of the text, then the wrapped error\<close>
  | ErrCanceled                    \<comment> \<open>\<^verbatim>\<open>context.Canceled\<close>\<close>
  | ErrDeadlineExceeded            \<comment> \<open>\<^verbatim>\<open>context.DeadlineExceeded\<close>\<close>
  | ErrUnexpectedEOF               \<comment> \<open>\<^verbatim>\<open>io.ErrUnexpectedEOF\<close>\<close>
  | ErrCloudflare int string       \<comment> \<open>the SDK's API error: HTTP status and text\<close>
  | ErrKube kube_reason string     \<comment> \<open>a Kubernetes API status error: reason and text\<close>
  | ErrTerminal go_error           \<comment> \<open>controller-runtime's \<^verbatim>\<open>reconcile.TerminalError\<close>\<close>

text \<open>The chain \<^verbatim>\<open>errors.Is\<close> and \<^verbatim>\<open>errors.As\<close> walk.\<close>

fun errChain :: "go_error \<Rightarrow> go_error list" where
  "errChain (ErrWrap s e) = ErrWrap s e # errChain e"
| "errChain (ErrTerminal e) = ErrTerminal e # errChain e"
| "errChain e = [e]"

definition errIs :: "go_error \<Rightarrow> go_error \<Rightarrow> bool" where
  "errIs e target \<longleftrightarrow> target \<in> set (errChain e)"

text \<open>\<^verbatim>\<open>errors.As\<close> with the SDK's error type: the status of the first one in the chain.\<close>

fun errCloudflareStatus :: "go_error \<Rightarrow> int option" where
  "errCloudflareStatus (ErrCloudflare s m) = Some s"
| "errCloudflareStatus (ErrWrap m e) = errCloudflareStatus e"
| "errCloudflareStatus (ErrTerminal e) = errCloudflareStatus e"
| "errCloudflareStatus e = None"

text \<open>\<^verbatim>\<open>apierrors.IsNotFound\<close> and its kin look at the first status error of the chain.\<close>

fun errKubeReason :: "go_error \<Rightarrow> kube_reason option" where
  "errKubeReason (ErrKube r m) = Some r"
| "errKubeReason (ErrWrap m e) = errKubeReason e"
| "errKubeReason (ErrTerminal e) = errKubeReason e"
| "errKubeReason e = None"

definition errNotFound :: "go_error \<Rightarrow> bool" where
  "errNotFound e \<longleftrightarrow> errKubeReason e = Some KNotFound"

definition errAlreadyExists :: "go_error \<Rightarrow> bool" where
  "errAlreadyExists e \<longleftrightarrow> errKubeReason e = Some KAlreadyExists"

text \<open>\<^verbatim>\<open>client.IgnoreNotFound\<close>.\<close>

definition ignoreNotFound :: "go_error option \<Rightarrow> go_error option" where
  "ignoreNotFound eo = (case eo of None \<Rightarrow> None | Some e \<Rightarrow> if errNotFound e then None else Some e)"

text \<open>\<^verbatim>\<open>errors.Is(err, reconcile.TerminalError(nil))\<close>: a terminal error is in the chain.\<close>

fun errTerminal :: "go_error \<Rightarrow> bool" where
  "errTerminal (ErrTerminal e) = True"
| "errTerminal (ErrWrap m e) = errTerminal e"
| "errTerminal e = False"

text \<open>
  \<^verbatim>\<open>Error()\<close>.  How controller-runtime renders a terminal error is not under src/: it is the
  parameter \<open>tt\<close>, applied to the text of the wrapped error.
\<close>

fun errMsg :: "(string \<Rightarrow> string) \<Rightarrow> go_error \<Rightarrow> string" where
  "errMsg tt (ErrText s) = s"
| "errMsg tt (ErrWrap s e) = s @ errMsg tt e"
| "errMsg tt ErrCanceled = ''context canceled''"
| "errMsg tt ErrDeadlineExceeded = ''context deadline exceeded''"
| "errMsg tt ErrUnexpectedEOF = ''unexpected EOF''"
| "errMsg tt (ErrCloudflare s m) = m"
| "errMsg tt (ErrKube r m) = m"
| "errMsg tt (ErrTerminal e) = tt (errMsg tt e)"

lemma errIs_Wrap [go_err]: "errIs (ErrWrap s e) t \<longleftrightarrow> t = ErrWrap s e \<or> errIs e t"
  by (auto simp: errIs_def)

lemma errTerminal_chain: "errTerminal e \<longleftrightarrow> (\<exists>e'. ErrTerminal e' \<in> set (errChain e))"
  by (induction e) auto

lemma errCloudflareStatus_chain:
  "errCloudflareStatus e = Some s \<Longrightarrow> \<exists>m. ErrCloudflare s m \<in> set (errChain e)"
  by (induction e) auto

text \<open>A result that is an error, and its error.\<close>

fun resErr :: "go_error + 'a \<Rightarrow> go_error option" where
  "resErr (Inl e) = Some e"
| "resErr (Inr x) = None"

end
