(* ===== verification/ProxyConfig.thy ===== *)
theory ProxyConfig
  imports GoErrors
begin

text \<open>
  internal/proxy/config.go and the event handler of internal/proxy/configmap_watcher.go: the
  routing table of the tunnel process and how it is loaded.  \<open>urlParse\<close> is \<^verbatim>\<open>url.Parse\<close> (the
  scheme and host are what the proxy reads of its result), \<open>sha256\<close> gives the 32 bytes of
  the digest, \<open>parseDuration\<close> is \<^verbatim>\<open>time.ParseDuration\<close>; \<open>unmarshal\<close> is \<^verbatim>\<open>yaml.Unmarshal\<close>.
  The index \<^verbatim>\<open>routesByHost\<close> holds pointers into \<^verbatim>\<open>Routes\<close>: positions in the route list.
\<close>

section \<open>Types\<close>

record url =
  urlScheme :: string
  urlHost :: string

record session_persistence =
  spType :: string
  spSessionName :: string
  spAbsoluteTimeout :: string
  spIdleTimeout :: string
  spCookieLifetimeType :: string
  spAbsolute :: int
  spIdle :: int

record backend =
  beService :: string
  beWeight :: int
  beURL :: "url option"
  beID :: string

record route =
  roHostname :: string
  roPathPrefix :: string
  roProtocol :: string
  roOwner :: string
  roOwnerKind :: string
  roBackends :: "backend list"
  roSession :: "session_persistence option"
  roTotalWeight :: int

record proxy_config =
  cfgRoutes :: "route list"
  cfgByHost :: "string \<Rightarrow> nat list"

section \<open>Parse\<close>

definition backendID :: "(string \<Rightarrow> string) \<Rightarrow> string \<Rightarrow> string" where
  "backendID sha256 service = take 16 (hexEncode (sha256 service))"

text \<open>The loop over a route's backends, with the index and the weight summed so far.\<close>

fun parseBackends ::
  "(string \<Rightarrow> go_error + url) \<Rightarrow> (string \<Rightarrow> string) \<Rightarrow> nat \<Rightarrow> string \<Rightarrow> nat \<Rightarrow> int \<Rightarrow> backend list
     \<Rightarrow> go_error + backend list \<times> int" where
  "parseBackends urlParse sha256 i host j tw [] = Inr ([], tw)"
| "parseBackends urlParse sha256 i host j tw (b # bs) =
     (case urlParse (beService b) of
        Inl err \<Rightarrow>
          Inl (ErrWrap (''route '' @ showNat i @ '' ('' @ host @ '') backend '' @ showNat j
                 @ '': invalid service URL '' @ goQuote (beService b) @ '': '') err)
      | Inr u \<Rightarrow>
          (case parseBackends urlParse sha256 i host (j + 1) (wrap32 (tw + beWeight b)) bs of
             Inl err \<Rightarrow> Inl err
           | Inr (bs', tw') \<Rightarrow>
               Inr (b\<lparr>beURL := Some u, beID := backendID sha256 (beService b)\<rparr> # bs', tw')))"

text \<open>Each timeout that is set is parsed, the absolute one first.\<close>

definition parseTimeout ::
  "(string \<Rightarrow> go_error + int) \<Rightarrow> nat \<Rightarrow> string \<Rightarrow> string \<Rightarrow> string \<Rightarrow> int \<Rightarrow> go_error + int" where
  "parseTimeout parseDuration i host field val old =
     (if val = [] then Inr old
      else case parseDuration val of
             Inl err \<Rightarrow>
               Inl (ErrWrap (''route '' @ showNat i @ '' ('' @ host @ ''): invalid '' @ field
                      @ '' '' @ goQuote val @ '': '') err)
           | Inr d \<Rightarrow> Inr d)"

definition parseSession ::
  "(string \<Rightarrow> go_error + int) \<Rightarrow> nat \<Rightarrow> string \<Rightarrow> session_persistence option
     \<Rightarrow> go_error + session_persistence option" where
  "parseSession parseDuration i host sp =
     (case sp of
        None \<Rightarrow> Inr None
      | Some s \<Rightarrow>
          (case parseTimeout parseDuration i host ''absoluteTimeout'' (spAbsoluteTimeout s)
                  (spAbsolute s) of
             Inl err \<Rightarrow> Inl err
           | Inr da \<Rightarrow>
               (case parseTimeout parseDuration i host ''idleTimeout'' (spIdleTimeout s)
                       (spIdle s) of
                  Inl err \<Rightarrow> Inl err
                | Inr di \<Rightarrow> Inr (Some (s\<lparr>spAbsolute := da, spIdle := di\<rparr>)))))"

definition parseRoute ::
  "(string \<Rightarrow> go_error + url) \<Rightarrow> (string \<Rightarrow> string) \<Rightarrow> (string \<Rightarrow> go_error + int) \<Rightarrow> nat \<Rightarrow> route
     \<Rightarrow> go_error + route" where
  "parseRoute urlParse sha256 parseDuration i r =
     (case parseBackends urlParse sha256 i (roHostname r) 0 0 (roBackends r) of
        Inl err \<Rightarrow> Inl err
      | Inr (bs, tw) \<Rightarrow>
          (case parseSession parseDuration i (roHostname r) (roSession r) of
             Inl err \<Rightarrow> Inl err
           | Inr sp \<Rightarrow> Inr (r\<lparr>roBackends := bs, roTotalWeight := tw, roSession := sp\<rparr>)))"

fun parseRoutes ::
  "(string \<Rightarrow> go_error + url) \<Rightarrow> (string \<Rightarrow> string) \<Rightarrow> (string \<Rightarrow> go_error + int) \<Rightarrow> nat \<Rightarrow> route list
     \<Rightarrow> go_error + route list" where
  "parseRoutes urlParse sha256 parseDuration i [] = Inr []"
| "parseRoutes urlParse sha256 parseDuration i (r # rs) =
     (case parseRoute urlParse sha256 parseDuration i r of
        Inl err \<Rightarrow> Inl err
      | Inr r' \<Rightarrow>
          (case parseRoutes urlParse sha256 parseDuration (i + 1) rs of
             Inl err \<Rightarrow> Inl err
           | Inr rs' \<Rightarrow> Inr (r' # rs')))"

text \<open>\<^verbatim>\<open>c.routesByHost[h] = append(c.routesByHost[h], &c.Routes[i])\<close>.\<close>

fun indexHosts :: "nat \<Rightarrow> route list \<Rightarrow> (string \<Rightarrow> nat list) \<Rightarrow> (string \<Rightarrow> nat list)" where
  "indexHosts i [] m = m"
| "indexHosts i (r # rs) m =
     indexHosts (i + 1) rs (m(roHostname r := m (roHostname r) @ [i]))"

definition configParse ::
  "(string \<Rightarrow> go_error + url) \<Rightarrow> (string \<Rightarrow> string) \<Rightarrow> (string \<Rightarrow> go_error + int) \<Rightarrow> proxy_config
     \<Rightarrow> go_error + proxy_config" where
  "configParse urlParse sha256 parseDuration c =
     (case parseRoutes urlParse sha256 parseDuration 0 (cfgRoutes c) of
        Inl err \<Rightarrow> Inl err
      | Inr rs \<Rightarrow> Inr \<lparr>cfgRoutes = rs, cfgByHost = indexHosts 0 rs (\<lambda>h. [])\<rparr>)"

section \<open>The ConfigMap watcher\<close>

text \<open>The objects an informer delivers, and the proxy's configuration pointer.\<close>

datatype watch_object = ConfigMapObj "string \<Rightarrow> string option" | OtherObj

definition watchHandler ::
  "(string \<Rightarrow> go_error + proxy_config) \<Rightarrow> (proxy_config \<Rightarrow> go_error + proxy_config) \<Rightarrow> string
     \<Rightarrow> watch_object \<Rightarrow> proxy_config option \<Rightarrow> proxy_config option" where
  "watchHandler unmarshal parse configMapKey obj st =
     (case obj of
        OtherObj \<Rightarrow> st
      | ConfigMapObj cmData \<Rightarrow>
          (case cmData configMapKey of
             None \<Rightarrow> st
           | Some text \<Rightarrow>
               (case unmarshal text of
                  Inl err \<Rightarrow> st
                | Inr cfg \<Rightarrow>
                    (case parse cfg of
                       Inl err \<Rightarrow> st
                     | Inr cfg' \<Rightarrow> Some cfg'))))"

text \<open>The informer's events: additions and updates are handled, deletions are not.\<close>

datatype informer_event = AddEvent watch_object | UpdateEvent watch_object watch_object
  | DeleteEvent watch_object

fun watchStep ::
  "(string \<Rightarrow> go_error + proxy_config) \<Rightarrow> (proxy_config \<Rightarrow> go_error + proxy_config) \<Rightarrow> string
     \<Rightarrow> informer_event \<Rightarrow> proxy_config option \<Rightarrow> proxy_config option" where
  "watchStep unmarshal parse key (AddEvent obj) st = watchHandler unmarshal parse key obj st"
| "watchStep unmarshal parse key (UpdateEvent old new) st = watchHandler unmarshal parse key new st"
| "watchStep unmarshal parse key (DeleteEvent obj) st = st"

section \<open>Lemmas\<close>

lemma wrap32_wrap32_add: "wrap32 (wrap32 a + b) = wrap32 (a + b)"
  by (simp add: wrapInt_def algebra_simps mod_simps)

lemma parseBackends_Inr:
  "parseBackends up sha i h j t bs = Inr (bs', t') \<Longrightarrow>
     list_all2 (\<lambda>b b'. \<exists>u. up (beService b) = Inr u \<and>
        b' = b\<lparr>beURL := Some u, beID := backendID sha (beService b)\<rparr>) bs bs' \<and>
     (bs \<noteq> [] \<longrightarrow> t' = wrap32 (t + sum_list (map beWeight bs)))"
proof (induction bs arbitrary: j t bs' t')
  case (Cons b bs)
  then obtain u bs2 where u: "up (beService b) = Inr u"
    and p: "parseBackends up sha i h (j + 1) (wrap32 (t + beWeight b)) bs = Inr (bs2, t')"
    and b': "bs' = b\<lparr>beURL := Some u, beID := backendID sha (beService b)\<rparr> # bs2"
    by (auto split: sum.splits)
  have "t' = wrap32 (t + (beWeight b + sum_list (map beWeight bs)))"
  proof (cases "bs = []")
    case True
    with p show ?thesis by simp
  next
    case False
    with Cons.IH [OF p] show ?thesis
      by (simp add: wrap32_wrap32_add add.assoc)
  qed
  with Cons.IH [OF p] u b' show ?case by auto
qed simp

lemma parseBackends_Inl:
  "isl (parseBackends up sha i h j t bs) \<longleftrightarrow> (\<exists>b\<in>set bs. isl (up (beService b)))"
proof (induction bs arbitrary: j t)
  case (Cons b bs)
  show ?case
    using Cons.IH [of "j + 1" "wrap32 (t + beWeight b)"]
    by (cases "parseBackends up sha i h (j + 1) (wrap32 (t + beWeight b)) bs";
        cases "up (beService b)")
       auto
qed simp

text \<open>What parsing a route guarantees of the result.\<close>

definition parsedBackend ::
  "(string \<Rightarrow> go_error + url) \<Rightarrow> (string \<Rightarrow> string) \<Rightarrow> backend \<Rightarrow> bool" where
  "parsedBackend urlParse sha256 b \<longleftrightarrow>
     (\<exists>u. urlParse (beService b) = Inr u \<and> beURL b = Some u) \<and>
     beID b = backendID sha256 (beService b)"

definition parsedRoute ::
  "(string \<Rightarrow> go_error + url) \<Rightarrow> (string \<Rightarrow> string) \<Rightarrow> route \<Rightarrow> bool" where
  "parsedRoute urlParse sha256 r \<longleftrightarrow>
     list_all (parsedBackend urlParse sha256) (roBackends r) \<and>
     roTotalWeight r = wrap32 (sum_list (map beWeight (roBackends r)))"

definition hostIndex :: "route list \<Rightarrow> string \<Rightarrow> nat list" where
  "hostIndex rs h = filter (\<lambda>i. roHostname (rs ! i) = h) [0..<length rs]"

definition parsedConfig ::
  "(string \<Rightarrow> go_error + url) \<Rightarrow> (string \<Rightarrow> string) \<Rightarrow> proxy_config \<Rightarrow> bool" where
  "parsedConfig urlParse sha256 c \<longleftrightarrow>
     list_all (parsedRoute urlParse sha256) (cfgRoutes c) \<and>
     cfgByHost c = hostIndex (cfgRoutes c)"

definition urlParseOk :: "(string \<Rightarrow> go_error + url) \<Rightarrow> backend \<Rightarrow> url \<Rightarrow> bool" where
  "urlParseOk urlParse b u \<longleftrightarrow> urlParse (beService b) = Inr u \<and> beURL b = Some u"

text \<open>The fields the ConfigMap carries, as they were unmarshalled.\<close>

definition sameSpec :: "route \<Rightarrow> route \<Rightarrow> bool" where
  "sameSpec r r' \<longleftrightarrow>
     roHostname r' = roHostname r \<and> roPathPrefix r' = roPathPrefix r \<and>
     roProtocol r' = roProtocol r \<and> roOwner r' = roOwner r \<and> roOwnerKind r' = roOwnerKind r \<and>
     map beService (roBackends r') = map beService (roBackends r) \<and>
     map beWeight (roBackends r') = map beWeight (roBackends r) \<and>
     (roSession r' = None \<longleftrightarrow> roSession r = None) \<and>
     map_option spType (roSession r') = map_option spType (roSession r) \<and>
     map_option spSessionName (roSession r') = map_option spSessionName (roSession r)"

lemma list_all2_map_eq:
  "list_all2 P xs ys \<Longrightarrow> (\<And>x y. P x y \<Longrightarrow> f y = f x) \<Longrightarrow> map f ys = map f xs"
  by (induction xs ys rule: list_all2_induct) auto

lemma list_all2_right:
  "list_all2 P xs ys \<Longrightarrow> (\<And>x y. P x y \<Longrightarrow> Q y) \<Longrightarrow> list_all Q ys"
  by (induction xs ys rule: list_all2_induct) auto

lemma parseRoute_Inr:
  assumes "parseRoute up sha pd i r = Inr r'"
  shows "parsedRoute up sha r' \<and> sameSpec r r'"
proof -
  obtain bs t sp where b: "parseBackends up sha i (roHostname r) 0 0 (roBackends r) = Inr (bs, t)"
    and s: "parseSession pd i (roHostname r) (roSession r) = Inr sp"
    and r': "r' = r\<lparr>roBackends := bs, roTotalWeight := t, roSession := sp\<rparr>"
    using assms by (auto simp: parseRoute_def split: sum.splits)
  note bi = parseBackends_Inr [OF b]
  have m: "map beService bs = map beService (roBackends r)" "map beWeight bs = map beWeight (roBackends r)"
    using bi by (auto intro: list_all2_map_eq)
  have "t = wrap32 (sum_list (map beWeight bs))"
    using bi b m by (cases "roBackends r") (auto simp: wrapInt_def)
  moreover have "list_all (parsedBackend up sha) bs"
    using bi by (auto intro!: list_all2_right [of _ "roBackends r" bs] simp: parsedBackend_def)
  moreover have "(sp = None \<longleftrightarrow> roSession r = None) \<and> map_option spType sp = map_option spType (roSession r)
      \<and> map_option spSessionName sp = map_option spSessionName (roSession r)"
    using s by (auto simp: parseSession_def split: option.splits sum.splits)
  ultimately show ?thesis using m by (simp add: r' parsedRoute_def sameSpec_def)
qed

lemma parseRoutes_Inr:
  "parseRoutes up sha pd i rs = Inr rs' \<Longrightarrow>
     list_all (parsedRoute up sha) rs' \<and> list_all2 sameSpec rs rs'"
  by (induction rs arbitrary: i rs') (auto split: sum.splits dest: parseRoute_Inr)

lemma indexHosts_filter:
  "indexHosts k rs m h = m h @ filter (\<lambda>i. roHostname (rs ! (i - k)) = h) [k..<k + length rs]"
proof (induction k rs m arbitrary: h rule: indexHosts.induct)
  case (1 i m)
  then show ?case by simp
next
  case (2 i r rs m)
  have "[i..<i + length (r # rs)] = i # [Suc i..<Suc i + length rs]"
    by (simp add: upt_rec)
  moreover have "filter (\<lambda>j. roHostname ((r # rs) ! (j - i)) = h) [Suc i..<Suc i + length rs] =
      filter (\<lambda>j. roHostname (rs ! (j - Suc i)) = h) [Suc i..<Suc i + length rs]"
    by (rule filter_cong) (auto simp: nth_Cons' diff_Suc split: nat.splits)
  ultimately show ?case using "2.IH" [of h] by (auto simp: fun_upd_def simp del: upt_Suc)
qed

lemma indexHosts_hostIndex: "indexHosts 0 rs (\<lambda>h. []) = hostIndex rs"
  by (auto simp: indexHosts_filter hostIndex_def fun_eq_iff)

lemma configParse_Inr:
  "configParse up sha pd c = Inr c' \<Longrightarrow>
     parsedConfig up sha c' \<and> list_all2 sameSpec (cfgRoutes c) (cfgRoutes c')"
  by (auto simp: configParse_def parsedConfig_def indexHosts_hostIndex split: sum.splits
      dest: parseRoutes_Inr)

text \<open>The routes \<^verbatim>\<open>Parse\<close> rejects.\<close>

definition invalidTimeout :: "(string \<Rightarrow> go_error + int) \<Rightarrow> string \<Rightarrow> bool" where
  "invalidTimeout parseDuration val \<longleftrightarrow> val \<noteq> [] \<and> isl (parseDuration val)"

definition invalidRoute ::
  "(string \<Rightarrow> go_error + url) \<Rightarrow> (string \<Rightarrow> go_error + int) \<Rightarrow> route \<Rightarrow> bool" where
  "invalidRoute urlParse parseDuration r \<longleftrightarrow>
     (\<exists>b\<in>set (roBackends r). isl (urlParse (beService b))) \<or>
     (case roSession r of None \<Rightarrow> False
      | Some s \<Rightarrow> invalidTimeout parseDuration (spAbsoluteTimeout s) \<or>
                 invalidTimeout parseDuration (spIdleTimeout s))"

lemma parseRoute_isl: "isl (parseRoute up sha pd i r) \<longleftrightarrow> invalidRoute up pd r"
proof -
  have s: "isl (parseSession pd i h sp) \<longleftrightarrow>
     (case sp of None \<Rightarrow> False
      | Some s \<Rightarrow> invalidTimeout pd (spAbsoluteTimeout s) \<or> invalidTimeout pd (spIdleTimeout s))"
    for h sp
    by (auto simp: parseSession_def parseTimeout_def invalidTimeout_def
        split: option.splits sum.splits)
  show ?thesis
    using parseBackends_Inl [of up sha i "roHostname r" 0 0 "roBackends r"]
      s [of "roHostname r" "roSession r"]
    by (cases "parseBackends up sha i (roHostname r) 0 0 (roBackends r)";
        cases "parseSession pd i (roHostname r) (roSession r)")
       (auto simp: parseRoute_def invalidRoute_def)
qed

lemma parseRoutes_isl:
  "isl (parseRoutes up sha pd i rs) \<longleftrightarrow> (\<exists>r\<in>set rs. invalidRoute up pd r)"
proof (induction rs arbitrary: i)
  case (Cons r rs)
  show ?case
    using Cons.IH [of "i + 1"] parseRoute_isl [of up sha pd i r]
    by (cases "parseRoute up sha pd i r"; cases "parseRoutes up sha pd (i + 1) rs") auto
qed simp

section \<open>Properties\<close>

text \<open>
  C5. \<^verbatim>\<open>Config.Parse\<close> fails exactly when some route has a backend whose URL does not parse or
  a timeout, when set, that does not; otherwise every route keeps the fields of the
  ConfigMap in their order, every backend has its parsed URL and the ID that is the first 16
  hex digits of the digest of its service, the total weight is the sum of the backends'
  weights in \<^verbatim>\<open>int32\<close>, and the host index lists, for every hostname, exactly the routes of
  that hostname in the order of the ConfigMap.
\<close>

theorem configParse_correct:
  "isl (configParse up sha pd c) = (\<exists>r\<in>set (cfgRoutes c). invalidRoute up pd r)
   \<and> (\<forall>c'. configParse up sha pd c = Inr c' \<longrightarrow>
        list_all2 sameSpec (cfgRoutes c) (cfgRoutes c')
      \<and> (\<forall>r\<in>set (cfgRoutes c').
           roTotalWeight r = wrap32 (sum_list (map beWeight (roBackends r)))
         \<and> (\<forall>b\<in>set (roBackends r). (\<exists>u. urlParseOk up b u) \<and>
              beID b = take 16 (hexEncode (sha (beService b)))))
      \<and> (\<forall>h. sorted (cfgByHost c' h) \<and> distinct (cfgByHost c' h) \<and>
           set (cfgByHost c' h) =
             {i. i < length (cfgRoutes c) \<and> roHostname (cfgRoutes c' ! i) = h}))"
proof (intro conjI allI impI)
  show "isl (configParse up sha pd c) = (\<exists>r\<in>set (cfgRoutes c). invalidRoute up pd r)"
    using parseRoutes_isl [of up sha pd 0 "cfgRoutes c"]
    by (cases "parseRoutes up sha pd 0 (cfgRoutes c)") (auto simp: configParse_def)
next
  fix c' assume p: "configParse up sha pd c = Inr c'"
  note ok = configParse_Inr [OF p]
  show "list_all2 sameSpec (cfgRoutes c) (cfgRoutes c')" using ok by simp
  show "\<forall>r\<in>set (cfgRoutes c').
           roTotalWeight r = wrap32 (sum_list (map beWeight (roBackends r)))
         \<and> (\<forall>b\<in>set (roBackends r). (\<exists>u. urlParseOk up b u) \<and>
              beID b = take 16 (hexEncode (sha (beService b))))"
    using ok by (auto simp: parsedConfig_def parsedRoute_def parsedBackend_def list_all_iff
        backendID_def urlParseOk_def)
  fix h
  have "length (cfgRoutes c') = length (cfgRoutes c)"
    using ok by (auto dest: list_all2_lengthD)
  then show "sorted (cfgByHost c' h)" "distinct (cfgByHost c' h)"
    "set (cfgByHost c' h) = {i. i < length (cfgRoutes c) \<and> roHostname (cfgRoutes c' ! i) = h}"
    using ok by (auto simp: parsedConfig_def hostIndex_def sorted_wrt_filter)
qed

text \<open>A table with a route of two backends, and a parser that fails on an empty URL.\<close>

definition demoURL :: "string \<Rightarrow> go_error + url" where
  "demoURL s = (if s = [] then Inl (ErrText ''empty url'')
                else Inr \<lparr>urlScheme = ''http'', urlHost = s\<rparr>)"

definition demoBackend :: "string \<Rightarrow> int \<Rightarrow> backend" where
  "demoBackend s k = \<lparr>beService = s, beWeight = k, beURL = None, beID = []\<rparr>"

definition demoRoute :: "string \<Rightarrow> string \<Rightarrow> backend list \<Rightarrow> route" where
  "demoRoute h p bs =
     \<lparr>roHostname = h, roPathPrefix = p, roProtocol = [], roOwner = ''ns/r'',
      roOwnerKind = ''HTTPRoute'', roBackends = bs, roSession = None, roTotalWeight = 0\<rparr>"

definition demoConfig :: proxy_config where
  "demoConfig =
     \<lparr>cfgRoutes = [demoRoute ''a'' ''/x'' [demoBackend ''s1'' 1, demoBackend ''s2'' 3],
                   demoRoute ''b'' [] [demoBackend ''s3'' 1],
                   demoRoute ''a'' [] [demoBackend ''s4'' 2]],
      cfgByHost = (\<lambda>h. [])\<rparr>"

text \<open>A stand-in for a digest: the input, padded to 32 bytes.\<close>

definition demoDigest :: "string \<Rightarrow> string" where
  "demoDigest s = take 32 (s @ replicate 32 (CHR ''x''))"

abbreviation demoDuration :: "string \<Rightarrow> go_error + int" where
  "demoDuration \<equiv> \<lambda>s. Inr 0"

theorem configParse_correct_witness:
  "\<exists>c'. configParse demoURL demoDigest demoDuration demoConfig = Inr c' \<and>
     set (cfgByHost c' ''a'') = {0, 2} \<and> roTotalWeight (cfgRoutes c' ! 0) = 4"
proof -
  have valid: "\<not> (\<exists>r\<in>set (cfgRoutes demoConfig). invalidRoute demoURL demoDuration r)"
    by (simp add: demoConfig_def demoRoute_def demoBackend_def invalidRoute_def demoURL_def)
  note law = configParse_correct [of demoURL demoDigest demoDuration demoConfig]
  obtain c' where c': "configParse demoURL demoDigest demoDuration demoConfig = Inr c'"
    using law valid by (cases "configParse demoURL demoDigest demoDuration demoConfig") auto
  have all: "list_all2 sameSpec (cfgRoutes demoConfig) (cfgRoutes c')"
    using law c' by blast
  have len: "length (cfgRoutes demoConfig) = 3" by (simp add: demoConfig_def)
  then have same: "sameSpec (cfgRoutes demoConfig ! i) (cfgRoutes c' ! i)" if "i < 3" for i
    using list_all2_nthD [OF all] that by simp
  have h1: "length (cfgRoutes c') = 3"
    using list_all2_lengthD [OF all] len by simp
  have h2: "roHostname (cfgRoutes c' ! i) = roHostname (cfgRoutes demoConfig ! i)" if "i < 3" for i
    using same [OF that] unfolding sameSpec_def by blast
  have "map beWeight (roBackends (cfgRoutes c' ! 0)) =
      map beWeight (roBackends (cfgRoutes demoConfig ! 0))"
    using same [of 0] unfolding sameSpec_def by simp
  also have "\<dots> = [1, 3]" by (simp add: demoConfig_def demoRoute_def demoBackend_def)
  finally have h3: "map beWeight (roBackends (cfgRoutes c' ! 0)) = [1, 3]" .
  have host: "roHostname (cfgRoutes demoConfig ! 0) = ''a''"
    "roHostname (cfgRoutes demoConfig ! 1) = ''b''" "roHostname (cfgRoutes demoConfig ! 2) = ''a''"
    by (simp_all add: demoConfig_def demoRoute_def)
  have "set (cfgByHost c' ''a'') =
      {i. i < length (cfgRoutes demoConfig) \<and> roHostname (cfgRoutes c' ! i) = ''a''}"
    using law c' by blast
  also have "\<dots> = {0, 2}"
    using h2 [of 0] h2 [of 1] h2 [of 2] host len
    by (auto simp: less_Suc_eq numeral_3_eq_3 numeral_2_eq_2)
  finally have i: "set (cfgByHost c' ''a'') = {0, 2}" .
  have "cfgRoutes c' ! 0 \<in> set (cfgRoutes c')" using h1 by simp
  then have "roTotalWeight (cfgRoutes c' ! 0) =
      wrap32 (sum_list (map beWeight (roBackends (cfgRoutes c' ! 0))))"
    using law c' by blast
  with h3 have "roTotalWeight (cfgRoutes c' ! 0) = 4" by (simp add: wrapInt_def)
  with c' i show ?thesis by blast
qed

definition carriedConfig ::
  "(string \<Rightarrow> go_error + proxy_config) \<Rightarrow> (proxy_config \<Rightarrow> go_error + proxy_config) \<Rightarrow> string
     \<Rightarrow> informer_event \<Rightarrow> proxy_config option" where
  "carriedConfig unmarshal parse key ev =
     (let obj = (case ev of AddEvent x \<Rightarrow> Some x | UpdateEvent y x \<Rightarrow> Some x
                 | DeleteEvent x \<Rightarrow> None);
          text = Option.bind obj (\<lambda>x. case x of ConfigMapObj d \<Rightarrow> d key | OtherObj \<Rightarrow> None);
          cfg = Option.bind text (\<lambda>t. case unmarshal t of Inl e \<Rightarrow> None | Inr c \<Rightarrow> Some c)
      in Option.bind cfg (\<lambda>c. case parse c of Inl e \<Rightarrow> None | Inr c' \<Rightarrow> Some c'))"

lemma watchStep_carried:
  "watchStep unmarshal parse key ev st =
     (case carriedConfig unmarshal parse key ev of None \<Rightarrow> st | Some c \<Rightarrow> Some c)"
  by (cases ev)
     (auto simp: carriedConfig_def watchHandler_def
       split: watch_object.splits option.splits sum.splits)

lemma carriedConfig_parsed:
  "carriedConfig unmarshal (configParse up sha pd) key ev = Some c \<Longrightarrow> parsedConfig up sha c"
proof -
  assume "carriedConfig unmarshal (configParse up sha pd) key ev = Some c"
  then obtain c0 where "configParse up sha pd c0 = Inr c"
    unfolding carriedConfig_def Let_def bind_eq_Some_conv case_sum_Some by blast
  then show ?thesis by (auto dest: configParse_Inr)
qed

text \<open>
  C6. The watcher serves the last valid configuration: after any sequence of informer events
  the proxy holds what the last event with a valid configuration carried, or what it held
  before if none did; so a malformed or invalid ConfigMap, one without the key, and a
  deletion change nothing, every configuration served has passed \<^verbatim>\<open>Parse\<close>, and a proxy that
  has a configuration, and so passes its health check, never loses it.
\<close>

theorem watcher_serves_last_valid:
  "fold (watchStep unmarshal parse key) evs st =
     (case List.map_filter (carriedConfig unmarshal parse key) evs of
        [] \<Rightarrow> st | cs \<Rightarrow> Some (last cs))
   \<and> (\<forall>c. fold (watchStep unmarshal (configParse up sha pd) key) evs None = Some c
        \<longrightarrow> parsedConfig up sha c)
   \<and> (st \<noteq> None \<longrightarrow> fold (watchStep unmarshal parse key) evs st \<noteq> None)"
proof -
  have run: "fold (watchStep unmarshal parse key) evs st =
     (case List.map_filter (carriedConfig unmarshal parse key) evs of
        [] \<Rightarrow> st | cs \<Rightarrow> Some (last cs))" for parse st
    by (induction evs arbitrary: st)
       (auto simp: List.map_filter_simps watchStep_carried split: option.splits list.splits)
  have "parsedConfig up sha c"
    if "fold (watchStep unmarshal (configParse up sha pd) key) evs None = Some c" for c
  proof -
    let ?cs = "List.map_filter (carriedConfig unmarshal (configParse up sha pd) key) evs"
    have "?cs \<noteq> [] \<and> c = last ?cs" using that by (auto simp: run split: list.splits if_splits)
    then have "c \<in> set ?cs" by auto
    then show ?thesis
      unfolding List.map_filter_def using carriedConfig_parsed by fastforce
  qed
  moreover have "st \<noteq> None \<longrightarrow> fold (watchStep unmarshal parse key) evs st \<noteq> None"
    by (auto simp: run split: list.splits)
  ultimately show ?thesis using run by blast
qed

definition demoUnmarshal :: "string \<Rightarrow> go_error + proxy_config" where
  "demoUnmarshal t = (if t = ''bad'' then Inl (ErrText ''yaml'') else Inr demoConfig)"

definition badEvents :: "informer_event list" where
  "badEvents =
     [UpdateEvent OtherObj (ConfigMapObj [''config.yaml'' \<mapsto> ''bad'']),
      AddEvent (ConfigMapObj Map.empty), DeleteEvent OtherObj]"

theorem watcher_serves_last_valid_witness:
  "fold (watchStep demoUnmarshal (configParse demoURL demoDigest demoDuration) ''config.yaml'')
     badEvents (Some demoConfig) = Some demoConfig"
proof -
  have "List.map_filter (carriedConfig demoUnmarshal (configParse demoURL demoDigest demoDuration)
      ''config.yaml'') badEvents = []"
    by (simp add: badEvents_def List.map_filter_simps carriedConfig_def demoUnmarshal_def)
  then show ?thesis
    using watcher_serves_last_valid [where evs = badEvents and st = "Some demoConfig"
        and key = "''config.yaml''" and unmarshal = demoUnmarshal
        and parse = "configParse demoURL demoDigest demoDuration"]
    by simp
qed

end
