(* ===== verification/Proxy.thy ===== *)
theory Proxy
  imports ProxyConfig
begin

text \<open>
  internal/proxy/proxy.go: the reverse proxy of the tunnel process, from the request to the
  backend, the transport and the session cookie.  A pointer into the routing table is the
  route's position.  The clock is the argument \<open>now\<close> (Unix seconds), the random draw
  \<^verbatim>\<open>rand.Int32N\<close> is the argument \<open>draw\<close>; \<open>header\<close> is \<^verbatim>\<open>Header.Get\<close> and \<open>cookie\<close> the value
  \<^verbatim>\<open>Request.Cookie\<close> finds.  The forwarding itself is the HTTP library's: the model gives what
  the proxy hands to it.
\<close>

section \<open>Requests\<close>

record request =
  rqHost :: string
  rqPath :: string
  rqHeader :: "string \<Rightarrow> string"
  rqCookie :: "string \<Rightarrow> string option"

datatype transport = H2CTransport | NoKeepAliveTransport

datatype resolve_error = ErrConfigNotLoaded | ErrNoRoute | ErrNoBackend

fun resolveErrorText :: "resolve_error \<Rightarrow> string" where
  "resolveErrorText ErrConfigNotLoaded = ''no configuration loaded''"
| "resolveErrorText ErrNoRoute = ''no matching route''"
| "resolveErrorText ErrNoBackend = ''no available backend''"

abbreviation ProtocolGRPC :: string where "ProtocolGRPC \<equiv> ''grpc''"

definition isGRPC :: "request \<Rightarrow> bool" where
  "isGRPC r \<longleftrightarrow> hasPrefix (rqHeader r ''Content-Type'') ''application/grpc''"

definition transportForRoute :: "route \<Rightarrow> transport" where
  "transportForRoute r =
     (if roProtocol r = ProtocolGRPC then H2CTransport else NoKeepAliveTransport)"

section \<open>Route matching\<close>

definition routePrefix :: "route \<Rightarrow> string" where
  "routePrefix r = (if roPathPrefix r = [] then ''/'' else roPathPrefix r)"

text \<open>The loop over the routes of the host, with the best position and length so far.\<close>

fun matchLoop ::
  "route list \<Rightarrow> string \<Rightarrow> bool \<Rightarrow> nat list \<Rightarrow> nat option \<Rightarrow> int \<Rightarrow> nat option" where
  "matchLoop rs path grpc [] best bestLen = best"
| "matchLoop rs path grpc (i # is) best bestLen =
     (if grpc \<noteq> (roProtocol (rs ! i) = ProtocolGRPC) then matchLoop rs path grpc is best bestLen
      else if \<not> hasPrefix path (routePrefix (rs ! i)) then matchLoop rs path grpc is best bestLen
      else if int (length (routePrefix (rs ! i))) > bestLen
           then matchLoop rs path grpc is (Some i) (int (length (routePrefix (rs ! i))))
           else matchLoop rs path grpc is best bestLen)"

definition matchRoute :: "proxy_config \<Rightarrow> string \<Rightarrow> string \<Rightarrow> bool \<Rightarrow> nat option" where
  "matchRoute cfg host path grpc =
     matchLoop (cfgRoutes cfg) path grpc (cfgByHost cfg (beforeLast (CHR '':'') host)) None (- 1)"

section \<open>Backends\<close>

definition findBackendByID :: "route \<Rightarrow> string \<Rightarrow> backend option" where
  "findBackendByID r i = find (\<lambda>b. beID b = i \<and> beWeight b > 0) (roBackends r)"

fun pickLoop :: "backend list \<Rightarrow> int \<Rightarrow> int \<Rightarrow> backend option" where
  "pickLoop [] r cumulative = None"
| "pickLoop (b # bs) r cumulative =
     (let c = wrap32 (cumulative + beWeight b)
      in if r < c then Some b else pickLoop bs r c)"

definition pickBackend :: "(int \<Rightarrow> int) \<Rightarrow> route \<Rightarrow> backend option" where
  "pickBackend draw r =
     (if roTotalWeight r \<le> 0 then None
      else pickLoop (roBackends r) (draw (roTotalWeight r)) 0)"

section \<open>Session persistence\<close>

definition sessionCookieValue :: "int \<Rightarrow> string \<Rightarrow> int \<Rightarrow> bool \<Rightarrow> string" where
  "sessionCookieValue now bid createdAt withLastActivity =
     (if withLastActivity
      then bid @ ''.'' @ showInt createdAt @ ''.'' @ showInt now
      else bid @ ''.'' @ showInt createdAt)"

definition parseSessionCookie :: "string \<Rightarrow> (string \<times> int \<times> int) option" where
  "parseSessionCookie value =
     (case cutChar (CHR ''.'') value of (i, rest, found) \<Rightarrow>
        if \<not> found then None
        else (case cutChar (CHR ''.'') rest of (createdStr, lastActStr, hasLastAct) \<Rightarrow>
          (case parseInt64 createdStr of
             None \<Rightarrow> None
           | Some created \<Rightarrow>
               if \<not> hasLastAct then Some (i, created, created)
               else if CHR ''.'' \<in> set lastActStr then None
               else (case parseInt64 lastActStr of
                       None \<Rightarrow> None
                     | Some lastAct \<Rightarrow> Some (i, created, lastAct)))))"

text \<open>\<^verbatim>\<open>time.Duration(now-t) * time.Second\<close> in \<^verbatim>\<open>int64\<close>.\<close>

definition elapsedSince :: "int \<Rightarrow> int \<Rightarrow> int" where
  "elapsedSince now t = wrap64 (wrap64 (now - t) * second)"

definition resolveSession :: "int \<Rightarrow> route \<Rightarrow> request \<Rightarrow> (backend \<times> int) option" where
  "resolveSession now r q =
     (case roSession r of
        None \<Rightarrow> None
      | Some sp \<Rightarrow>
          if spType sp = ''Cookie'' then
            (case rqCookie q (spSessionName sp) of
               None \<Rightarrow> None
             | Some v \<Rightarrow>
                 (case parseSessionCookie v of
                    None \<Rightarrow> None
                  | Some (bid, createdAt, lastActivity) \<Rightarrow>
                      if spAbsolute sp > 0 \<and> elapsedSince now createdAt > spAbsolute sp then None
                      else if spIdle sp > 0 \<and> elapsedSince now lastActivity > spIdle sp then None
                      else (case findBackendByID r bid of
                              None \<Rightarrow> None
                            | Some b \<Rightarrow> Some (b, createdAt))))
          else if spType sp = ''Header'' then
            (let bid = rqHeader q (spSessionName sp)
             in if bid = [] then None
                else (case findBackendByID r bid of None \<Rightarrow> None | Some b \<Rightarrow> Some (b, 0)))
          else None)"

text \<open>
  \<^verbatim>\<open>int(d.Seconds())\<close>: \<^verbatim>\<open>Seconds\<close> adds the whole seconds and the fraction as \<^verbatim>\<open>float64\<close>, so
  the sum of \<open>s\<close> seconds and a fraction within half an ulp below the next second rounds up to
  it; with 53 bits that is a distance of at most \<open>2 ^ (e - 53)\<close> for \<open>2 ^ e \<le> s < 2 ^ (e + 1)\<close>.
\<close>

fun pow2Floor :: "nat \<Rightarrow> nat" where
  "pow2Floor n = (if n \<le> 1 then n else 2 * pow2Floor (n div 2))"

declare pow2Floor.simps [simp del]

definition durationSeconds :: "int \<Rightarrow> int" where
  "durationSeconds d =
     (let a = \<bar>d\<bar>; s = a div second; n = a mod second;
          up = (if (second - n) * 2 ^ 53 \<le> second * int (pow2Floor (nat s)) then 1 else 0)
      in sgn d * (s + up))"

definition cookieMaxAge :: "int \<Rightarrow> session_persistence \<Rightarrow> int \<Rightarrow> int" where
  "cookieMaxAge now sp createdAt =
     (let hasAbs = spAbsolute sp > 0; hasIdle = spIdle sp > 0
      in if hasAbs \<and> hasIdle then
           (let remaining = wrap64 (durationSeconds (spAbsolute sp) - wrap64 (now - createdAt));
                idleSec = durationSeconds (spIdle sp)
            in if remaining < idleSec then remaining else idleSec)
         else if hasAbs then durationSeconds (spAbsolute sp)
         else if hasIdle then durationSeconds (spIdle sp)
         else 0)"

definition needsSessionCookie :: "route \<Rightarrow> bool \<Rightarrow> bool" where
  "needsSessionCookie r sessionHit \<longleftrightarrow>
     (case roSession r of
        None \<Rightarrow> False
      | Some sp \<Rightarrow> spType sp = ''Cookie'' \<and> (\<not> sessionHit \<or> spIdle sp > 0))"

record http_cookie =
  ckName :: string
  ckValue :: string
  ckPath :: string
  ckHttpOnly :: bool
  ckSameSiteLax :: bool
  ckMaxAge :: int

definition sessionCookie ::
  "int \<Rightarrow> route \<Rightarrow> session_persistence \<Rightarrow> backend \<Rightarrow> bool \<Rightarrow> int \<Rightarrow> http_cookie" where
  "sessionCookie now r sp b sessionHit sessionCreatedAt =
     (let createdAt = (if \<not> sessionHit then now else sessionCreatedAt)
      in \<lparr>ckName = spSessionName sp,
          ckValue = sessionCookieValue now (beID b) createdAt (spIdle sp > 0),
          ckPath = (if roPathPrefix r = [] then ''/'' else roPathPrefix r),
          ckHttpOnly = True, ckSameSiteLax = True,
          ckMaxAge = (if spCookieLifetimeType sp = ''Permanent''
                      then cookieMaxAge now sp createdAt else 0)\<rparr>)"

text \<open>
  \<open>cookieString\<close> is \<^verbatim>\<open>Cookie.String\<close>, empty for an invalid cookie.  A response's headers are
  the list of those added.
\<close>

definition setSessionCookie ::
  "(http_cookie \<Rightarrow> string) \<Rightarrow> int \<Rightarrow> route \<Rightarrow> backend \<Rightarrow> bool \<Rightarrow> int \<Rightarrow> (string \<times> string) list
     \<Rightarrow> (string \<times> string) list" where
  "setSessionCookie cookieString now r b sessionHit sessionCreatedAt h =
     (case roSession r of
        None \<Rightarrow> h
      | Some sp \<Rightarrow>
          (let v = cookieString (sessionCookie now r sp b sessionHit sessionCreatedAt)
           in if v \<noteq> [] then h @ [(''Set-Cookie'', v)] else h))"

section \<open>From the request to the backend\<close>

definition resolveBackend ::
  "proxy_config option \<Rightarrow> int \<Rightarrow> (int \<Rightarrow> int) \<Rightarrow> request
     \<Rightarrow> resolve_error + route \<times> backend \<times> bool \<times> int" where
  "resolveBackend config now draw q =
     (case config of
        None \<Rightarrow> Inl ErrConfigNotLoaded
      | Some cfg \<Rightarrow>
          (case matchRoute cfg (rqHost q) (rqPath q) (isGRPC q) of
             None \<Rightarrow> Inl ErrNoRoute
           | Some i \<Rightarrow>
               (let r = cfgRoutes cfg ! i
                in case resolveSession now r q of
                     Some (b, createdAt) \<Rightarrow> Inr (r, b, True, createdAt)
                   | None \<Rightarrow>
                       (case pickBackend draw r of
                          None \<Rightarrow> Inl ErrNoBackend
                        | Some b \<Rightarrow> Inr (r, b, False, 0)))))"

text \<open>
  What \<^verbatim>\<open>ServeHTTP\<close> does: answer itself, or hand the request to a reverse proxy with the
  backend's scheme and host, the transport and the edit of the response's headers, which
  runs when the response is there and reads the clock again.  Reading
  the URL of a backend that was not parsed is a nil dereference.
\<close>

datatype serve_action =
    Respond int string "(string \<times> string) list"
  | ProxyTo string string transport "int \<Rightarrow> (string \<times> string) list \<Rightarrow> (string \<times> string) list"
  | NilDereference

definition ServeHTTP ::
  "(http_cookie \<Rightarrow> string) \<Rightarrow> proxy_config option \<Rightarrow> int \<Rightarrow> (int \<Rightarrow> int) \<Rightarrow> request \<Rightarrow> serve_action" where
  "ServeHTTP cookieString config now draw q =
     (case resolveBackend config now draw q of
        Inl ErrConfigNotLoaded \<Rightarrow>
          Respond 503 (resolveErrorText ErrConfigNotLoaded) [(''X-Proxy-Config-Not-Loaded'', ''true'')]
      | Inl ErrNoRoute \<Rightarrow> Respond 404 ''404 page not found'' []
      | Inl ErrNoBackend \<Rightarrow> Respond 502 (resolveErrorText ErrNoBackend) []
      | Inr (r, b, sessionHit, createdAt) \<Rightarrow>
          (case beURL b of
             None \<Rightarrow> NilDereference
           | Some u \<Rightarrow>
               ProxyTo (urlScheme u) (urlHost u) (transportForRoute r)
                 (\<lambda>after h. if needsSessionCookie r sessionHit
                    then setSessionCookie cookieString after r b sessionHit createdAt h else h)))"

text \<open>The health handler: 503 until a configuration is loaded, then cloudflared's own.\<close>

definition healthHandler :: "proxy_config option \<Rightarrow> int \<Rightarrow> int" where
  "healthHandler config cloudflaredHealth = (if config = None then 503 else cloudflaredHealth)"

section \<open>Lemmas on matching\<close>

definition eligible :: "route list \<Rightarrow> string \<Rightarrow> bool \<Rightarrow> nat \<Rightarrow> bool" where
  "eligible rs path grpc i \<longleftrightarrow>
     grpc = (roProtocol (rs ! i) = ProtocolGRPC) \<and> hasPrefix path (routePrefix (rs ! i))"

definition prefixLen :: "route list \<Rightarrow> nat \<Rightarrow> nat" where
  "prefixLen rs i = length (routePrefix (rs ! i))"

text \<open>The best position of a list: the longest prefix, the first among equals.\<close>

definition bestOf ::
  "route list \<Rightarrow> string \<Rightarrow> bool \<Rightarrow> nat list \<Rightarrow> nat option \<Rightarrow> int \<Rightarrow> bool" where
  "bestOf rs path grpc is best bestLen \<longleftrightarrow>
     (case best of
        None \<Rightarrow> bestLen = - 1 \<and> (\<forall>j\<in>set is. \<not> eligible rs path grpc j)
      | Some b \<Rightarrow> bestLen = int (prefixLen rs b) \<and> eligible rs path grpc b \<and>
          (\<exists>us vs. is = us @ b # vs \<and>
             (\<forall>j\<in>set us. eligible rs path grpc j \<longrightarrow> prefixLen rs j < prefixLen rs b) \<and>
             (\<forall>j\<in>set vs. eligible rs path grpc j \<longrightarrow> prefixLen rs j \<le> prefixLen rs b)))"

lemma bestOf_skip:
  assumes "bestOf rs path grpc js best bestLen"
    and "eligible rs path grpc i \<Longrightarrow> int (prefixLen rs i) \<le> bestLen"
  shows "bestOf rs path grpc (js @ [i]) best bestLen"
proof (cases best)
  case None
  then show ?thesis using assms by (auto simp: bestOf_def)
next
  case (Some b)
  then obtain us vs where *: "js = us @ b # vs" "bestLen = int (prefixLen rs b)"
    "eligible rs path grpc b"
    "\<forall>j\<in>set us. eligible rs path grpc j \<longrightarrow> prefixLen rs j < prefixLen rs b"
    "\<forall>j\<in>set vs. eligible rs path grpc j \<longrightarrow> prefixLen rs j \<le> prefixLen rs b"
    using assms(1) by (auto simp: bestOf_def)
  have "js @ [i] = us @ b # (vs @ [i])" using *(1) by simp
  moreover have "\<forall>j\<in>set (vs @ [i]). eligible rs path grpc j \<longrightarrow> prefixLen rs j \<le> prefixLen rs b"
    using *(2,5) assms(2) by auto
  ultimately show ?thesis
    using *(2-4) unfolding bestOf_def Some option.case by blast
qed

lemma bestOf_take:
  assumes "bestOf rs path grpc js best bestLen" and "eligible rs path grpc i"
    and "bestLen < int (prefixLen rs i)"
  shows "bestOf rs path grpc (js @ [i]) (Some i) (int (prefixLen rs i))"
proof -
  have "\<forall>j\<in>set js. eligible rs path grpc j \<longrightarrow> prefixLen rs j < prefixLen rs i"
    using assms by (fastforce simp: bestOf_def split: option.splits)
  then show ?thesis using assms(2) by (fastforce simp: bestOf_def)
qed

lemma matchLoop_bestOf:
  "bestOf rs path grpc js best bestLen \<Longrightarrow>
   \<exists>l. bestOf rs path grpc (js @ is) (matchLoop rs path grpc is best bestLen) l"
proof (induction "is" arbitrary: js best bestLen)
  case Nil
  then show ?case by auto
next
  case (Cons i "is")
  have step: "bestOf rs path grpc (js @ [i]) b' l' \<Longrightarrow>
      \<exists>l. bestOf rs path grpc (js @ i # is) (matchLoop rs path grpc is b' l') l" for b' l'
    using Cons.IH [of "js @ [i]" b' l'] by simp
  show ?case
  proof (cases "eligible rs path grpc i \<and> bestLen < int (prefixLen rs i)")
    case True
    then show ?thesis
      using step [OF bestOf_take [OF Cons.prems]]
      by (auto simp: eligible_def prefixLen_def)
  next
    case False
    then show ?thesis
      using step [OF bestOf_skip [OF Cons.prems]]
      by (auto simp: eligible_def prefixLen_def)
  qed
qed

text \<open>When a route of the table matches a request.\<close>

definition routeMatches :: "proxy_config \<Rightarrow> string \<Rightarrow> string \<Rightarrow> bool \<Rightarrow> nat \<Rightarrow> bool" where
  "routeMatches cfg host path grpc i \<longleftrightarrow>
     i < length (cfgRoutes cfg) \<and> roHostname (cfgRoutes cfg ! i) = beforeLast (CHR '':'') host \<and>
     grpc = (roProtocol (cfgRoutes cfg ! i) = ProtocolGRPC) \<and>
     hasPrefix path (routePrefix (cfgRoutes cfg ! i))"

lemma matchRoute_spec:
  assumes "parsedConfig up sha cfg"
  shows "case matchRoute cfg host path grpc of
      None \<Rightarrow> \<forall>i. \<not> routeMatches cfg host path grpc i
    | Some i \<Rightarrow> routeMatches cfg host path grpc i \<and>
        (\<forall>j. routeMatches cfg host path grpc j \<longrightarrow>
           prefixLen (cfgRoutes cfg) j < prefixLen (cfgRoutes cfg) i \<or>
           prefixLen (cfgRoutes cfg) j = prefixLen (cfgRoutes cfg) i \<and> i \<le> j)"
proof -
  let ?rs = "cfgRoutes cfg" and ?is = "cfgByHost cfg (beforeLast (CHR '':'') host)"
  have idx: "?is = hostIndex ?rs (beforeLast (CHR '':'') host)"
    using assms by (simp add: parsedConfig_def)
  have mem: "i \<in> set ?is \<and> eligible ?rs path grpc i \<longleftrightarrow> routeMatches cfg host path grpc i" for i
    by (auto simp: idx hostIndex_def routeMatches_def eligible_def)
  have sorted: "sorted ?is" by (simp add: idx hostIndex_def sorted_wrt_filter)
  obtain l where b: "bestOf ?rs path grpc ?is (matchRoute cfg host path grpc) l"
    using matchLoop_bestOf [of ?rs path grpc "[]" None "- 1" ?is]
    by (auto simp: matchRoute_def bestOf_def)
  show ?thesis
  proof (cases "matchRoute cfg host path grpc")
    case None
    then show ?thesis using b mem by (auto simp: bestOf_def)
  next
    case (Some i)
    then obtain us vs where u: "?is = us @ i # vs" "eligible ?rs path grpc i"
      "\<forall>j\<in>set us. eligible ?rs path grpc j \<longrightarrow> prefixLen ?rs j < prefixLen ?rs i"
      "\<forall>j\<in>set vs. eligible ?rs path grpc j \<longrightarrow> prefixLen ?rs j \<le> prefixLen ?rs i"
      using b by (auto simp: bestOf_def)
    have "\<forall>j\<in>set vs. i \<le> j" using sorted u(1) by (simp add: sorted_append)
    have "prefixLen ?rs j < prefixLen ?rs i \<or> prefixLen ?rs j = prefixLen ?rs i \<and> i \<le> j"
      if "routeMatches cfg host path grpc j" for j
    proof -
      from that mem have "j \<in> set us \<or> j = i \<or> j \<in> set vs" "eligible ?rs path grpc j"
        using u(1) by (auto simp flip: mem)
      then show ?thesis using u(3,4) \<open>\<forall>j\<in>set vs. i \<le> j\<close> by (metis le_neq_implies_less order_refl)
    qed
    moreover have "routeMatches cfg host path grpc i"
      using mem [of i] u(1,2) by simp
    ultimately show ?thesis using Some by simp
  qed
qed

section \<open>Lemmas on backends\<close>

lemma findBackendByID_Some:
  "findBackendByID r i = Some b \<Longrightarrow> b \<in> set (roBackends r) \<and> beID b = i \<and> beWeight b > 0"
  by (auto simp: findBackendByID_def find_Some_iff)

lemma findBackendByID_distinct:
  assumes "distinct (map beID (roBackends r))" "b \<in> set (roBackends r)" "beWeight b > 0"
  shows "findBackendByID r (beID b) = Some b"
proof (cases "findBackendByID r (beID b)")
  case None
  then show ?thesis using assms(2,3) by (auto simp: findBackendByID_def find_None_iff)
next
  case (Some x)
  then have "x \<in> set (roBackends r)" "beID x = beID b"
    using findBackendByID_Some by blast+
  then have "x = b" using assms(1,2) by (metis distinct_map inj_onD)
  with Some show ?thesis by simp
qed

definition weightsOk :: "route \<Rightarrow> bool" where
  "weightsOk r \<longleftrightarrow>
     list_all (\<lambda>b. 0 \<le> beWeight b) (roBackends r) \<and>
     sum_list (map beWeight (roBackends r)) < 2 ^ 31"

lemma sum_weights_nonneg: "list_all (\<lambda>b. 0 \<le> beWeight b) bs \<Longrightarrow> 0 \<le> sum_list (map beWeight bs)"
  by (induction bs) auto

lemma pickLoop_set:
  assumes "list_all (\<lambda>b. 0 \<le> beWeight b) bs" "0 \<le> c"
    and "c + sum_list (map beWeight bs) < 2 ^ 31"
  shows "(\<forall>n. c \<le> n \<and> n < c + sum_list (map beWeight bs) \<longrightarrow> pickLoop bs n c \<noteq> None) \<and>
    int (card {n. c \<le> n \<and> n < c + sum_list (map beWeight bs) \<and> pickLoop bs n c = Some x}) =
      sum_list (map beWeight (filter (\<lambda>b. b = x) bs))"
  using assms
proof (induction bs arbitrary: c)
  case Nil
  then show ?case by simp
next
  case (Cons b bs)
  let ?c = "c + beWeight b" and ?s = "sum_list (map beWeight bs)"
  have w: "wrap32 ?c = ?c"
    using Cons.prems sum_weights_nonneg [of bs] by (intro wrap32_id) auto
  have s: "0 \<le> ?s" "0 \<le> beWeight b" using Cons.prems sum_weights_nonneg by auto
  have IH: "(\<forall>n. ?c \<le> n \<and> n < ?c + ?s \<longrightarrow> pickLoop bs n ?c \<noteq> None) \<and>
    int (card {n. ?c \<le> n \<and> n < ?c + ?s \<and> pickLoop bs n ?c = Some x}) =
      sum_list (map beWeight (filter (\<lambda>b. b = x) bs))"
    using Cons.IH [of ?c] Cons.prems by (simp add: add.assoc)
  have split: "{n. c \<le> n \<and> n < c + sum_list (map beWeight (b # bs)) \<and> pickLoop (b # bs) n c = Some x}
     = (if b = x then {c..<?c} else {}) \<union>
       {n. ?c \<le> n \<and> n < ?c + ?s \<and> pickLoop bs n ?c = Some x}" (is "?L = ?A \<union> ?B")
    using s by (auto simp: Let_def w split: if_splits)
  have "card (?A \<union> ?B) = card ?A + card ?B"
    by (rule card_Un_disjoint) (auto intro: finite_subset [of _ "{?c..<?c + ?s}"])
  moreover have "int (card ?A) = (if b = x then beWeight b else 0)" using s by auto
  ultimately have "int (card ?L) = sum_list (map beWeight (filter (\<lambda>b. b = x) (b # bs)))"
    using IH unfolding split by auto
  moreover have "\<forall>n. c \<le> n \<and> n < c + sum_list (map beWeight (b # bs)) \<longrightarrow> pickLoop (b # bs) n c \<noteq> None"
    using IH by (auto simp: Let_def w)
  ultimately show ?case by blast
qed

lemma pickLoop_mem: "pickLoop bs n c = Some b \<Longrightarrow> b \<in> set bs"
  by (induction bs n c rule: pickLoop.induct) (auto simp: Let_def split: if_splits)

lemma pickBackend_Some:
  assumes "weightsOk r" "roTotalWeight r = wrap32 (sum_list (map beWeight (roBackends r)))"
    and "\<And>n. 0 < n \<Longrightarrow> 0 \<le> draw n \<and> draw n < n"
  shows "(pickBackend draw r = None \<longleftrightarrow> sum_list (map beWeight (roBackends r)) = 0)
    \<and> (\<forall>b. pickBackend draw r = Some b \<longrightarrow> b \<in> set (roBackends r) \<and> 0 < beWeight b)"
proof -
  let ?t = "sum_list (map beWeight (roBackends r))"
  have w: "list_all (\<lambda>b. 0 \<le> beWeight b) (roBackends r)" "?t < 2 ^ 31" "0 \<le> ?t"
    using assms(1) sum_weights_nonneg by (auto simp: weightsOk_def)
  have tot: "roTotalWeight r = ?t" using w assms(2) by (simp add: wrap32_id)
  note pick = pickLoop_set [OF w(1) order_refl, unfolded add_0, OF w(2)]
  have none: "pickBackend draw r = None \<longleftrightarrow> ?t = 0"
    using pick w(3) assms(3) [of ?t] by (auto simp: pickBackend_def tot)
  have "0 < beWeight b" if p: "pickBackend draw r = Some b" for b
  proof (rule ccontr)
    assume z: "\<not> 0 < beWeight b"
    have b: "b \<in> set (roBackends r)"
      using p by (auto simp: pickBackend_def dest: pickLoop_mem split: if_splits)
    then have "beWeight b = 0" using z w(1) by (auto simp: list_all_iff)
    then have "sum_list (map beWeight (filter (\<lambda>x. x = b) bs)) = 0" for bs
      by (induction bs) auto
    then have "card {n. 0 \<le> n \<and> n < ?t \<and> pickLoop (roBackends r) n 0 = Some b} = 0"
      using pick [of b] by simp
    moreover have "finite {n. 0 \<le> n \<and> n < ?t \<and> pickLoop (roBackends r) n 0 = Some b}"
      by (rule finite_subset [of _ "{0..<?t}"]) auto
    moreover have "draw ?t \<in> {n. 0 \<le> n \<and> n < ?t \<and> pickLoop (roBackends r) n 0 = Some b}"
      using p assms(3) [of ?t] by (auto simp: pickBackend_def tot split: if_splits)
    ultimately show False by auto
  qed
  moreover have "b \<in> set (roBackends r)" if "pickBackend draw r = Some b" for b
    using that by (auto simp: pickBackend_def dest: pickLoop_mem split: if_splits)
  ultimately show ?thesis using none by blast
qed

section \<open>Lemmas on sessions\<close>

lemma backendID_no_dot: "CHR ''.'' \<notin> set (backendID sha s)"
  using hexEncode_no_dot by (auto simp: backendID_def dest: in_set_takeD)

lemma parseSessionCookie_value:
  assumes "CHR ''.'' \<notin> set bid" "- (2 ^ 63) \<le> c" "c < 2 ^ 63" "- (2 ^ 63) \<le> now" "now < 2 ^ 63"
  shows "parseSessionCookie (sessionCookieValue now bid c la) =
     Some (bid, c, if la then now else c)"
proof (cases la)
  case True
  then show ?thesis
    using assms showInt_no_dot
    by (simp add: parseSessionCookie_def sessionCookieValue_def cutChar_append parseInt64_showInt)
next
  case False
  then show ?thesis
    using assms showInt_no_dot [of c]
    by (simp add: parseSessionCookie_def sessionCookieValue_def cutChar_append cutChar_absent
        parseInt64_showInt)
qed

lemma elapsedSince_exact:
  assumes "0 \<le> t" "t \<le> now" "now * second < 2 ^ 63"
  shows "elapsedSince now t = (now - t) * second"
proof -
  have "(now - t) * second < 2 ^ 63" using assms by (simp add: algebra_simps)
  moreover have "now - t < 2 ^ 63" using assms by simp
  ultimately show ?thesis using assms by (simp add: elapsedSince_def wrap64_id)
qed

lemma resolveSession_Some:
  "resolveSession now r q = Some (b, c) \<Longrightarrow> b \<in> set (roBackends r) \<and> 0 < beWeight b"
  by (auto simp: resolveSession_def Let_def split: option.splits if_splits prod.splits
      dest!: findBackendByID_Some)

lemma pow2Floor_le: "0 < n \<Longrightarrow> pow2Floor n \<le> n"
proof (induction n rule: pow2Floor.induct)
  case (1 n)
  then show ?case by (subst pow2Floor.simps) auto
qed

lemma durationSeconds_whole:
  assumes "0 \<le> k" "k < 2 ^ 40"
  shows "durationSeconds (k * second) = k"
proof -
  have "int (pow2Floor (nat k)) \<le> k"
  proof (cases "k = 0")
    case True
    then show ?thesis by (simp add: pow2Floor.simps)
  next
    case False
    then show ?thesis using assms pow2Floor_le [of "nat k"] by linarith
  qed
  then show ?thesis using assms by (auto simp: durationSeconds_def Let_def sgn_if)
qed

section \<open>Properties\<close>

text \<open>
  C1. Route matching over a parsed table: \<^verbatim>\<open>matchRoute\<close> finds no route exactly when none has
  the request's hostname (without port), its protocol and a prefix of its path; otherwise it
  finds one that does, with the longest prefix, and among those the first of the ConfigMap.
\<close>

theorem matchRoute_best:
  assumes "configParse up sha pd c = Inr cfg"
  shows "case matchRoute cfg host path grpc of
      None \<Rightarrow> \<forall>i. \<not> routeMatches cfg host path grpc i
    | Some i \<Rightarrow> routeMatches cfg host path grpc i \<and>
        (\<forall>j. routeMatches cfg host path grpc j \<longrightarrow>
           prefixLen (cfgRoutes cfg) j < prefixLen (cfgRoutes cfg) i \<or>
           prefixLen (cfgRoutes cfg) j = prefixLen (cfgRoutes cfg) i \<and> i \<le> j)"
  using configParse_Inr [OF assms] matchRoute_spec by blast

lemma demoConfig_parses:
  "\<exists>cfg. configParse demoURL demoDigest demoDuration demoConfig = Inr cfg \<and>
     matchRoute cfg ''a:80'' ''/x/y'' False = Some 0 \<and>
     (\<forall>r\<in>set (cfgRoutes cfg). weightsOk r) \<and>
     map beWeight (roBackends (cfgRoutes cfg ! 0)) = [1, 3]"
proof -
  have "\<forall>r\<in>set (cfgRoutes demoConfig). \<not> invalidRoute demoURL demoDuration r"
    by (simp add: demoConfig_def demoRoute_def demoBackend_def invalidRoute_def demoURL_def)
  then obtain rs where rs: "parseRoutes demoURL demoDigest demoDuration 0 (cfgRoutes demoConfig) = Inr rs"
    using parseRoutes_isl [of demoURL demoDigest demoDuration 0 "cfgRoutes demoConfig"]
    by (cases "parseRoutes demoURL demoDigest demoDuration 0 (cfgRoutes demoConfig)") auto
  then have "list_all2 sameSpec (cfgRoutes demoConfig) rs" by (simp add: parseRoutes_Inr)
  then obtain a b d where abd: "rs = [a, b, d]" "sameSpec (demoRoute ''a'' ''/x''
      [demoBackend ''s1'' 1, demoBackend ''s2'' 3]) a"
    "sameSpec (demoRoute ''b'' [] [demoBackend ''s3'' 1]) b"
    "sameSpec (demoRoute ''a'' [] [demoBackend ''s4'' 2]) d"
    by (auto simp: demoConfig_def list_all2_Cons1)
  moreover have "weightsOk r" if "map beWeight (roBackends r) \<in> {[1, 3], [1], [2]}" for r
    using that by (auto simp: weightsOk_def list_all_iff)
  ultimately show ?thesis
    using rs by (auto simp: configParse_def matchRoute_def beforeLast_def sameSpec_def demoRoute_def
        routePrefix_def demoBackend_def)
qed

theorem matchRoute_best_witness:
  "\<exists>cfg. configParse demoURL demoDigest demoDuration demoConfig = Inr cfg \<and>
     routeMatches cfg ''a:80'' ''/x/y'' False 0"
proof -
  obtain cfg where cfg: "configParse demoURL demoDigest demoDuration demoConfig = Inr cfg"
    "matchRoute cfg ''a:80'' ''/x/y'' False = Some 0"
    using demoConfig_parses by blast
  then show ?thesis
    using matchRoute_best [OF cfg(1), of "''a:80''" "''/x/y''" False] by auto
qed

text \<open>
  C2. Weighted selection is exact: for non-negative weights with a sum in \<^verbatim>\<open>int32\<close>, every draw
  of \<^verbatim>\<open>rand.Int32N(totalWeight)\<close> selects a backend, and the number of draws that select a
  given backend is its weight, out of the total; so a backend of weight 0 is never selected.
\<close>

theorem pickBackend_distribution:
  assumes "weightsOk r" and "roTotalWeight r = sum_list (map beWeight (roBackends r))"
  shows "(\<forall>n. 0 \<le> n \<and> n < roTotalWeight r \<longrightarrow> pickBackend (\<lambda>_. n) r \<noteq> None)
    \<and> int (card {n. 0 \<le> n \<and> n < roTotalWeight r \<and> pickBackend (\<lambda>_. n) r = Some b}) =
        sum_list (map beWeight (filter (\<lambda>x. x = b) (roBackends r)))"
proof -
  have w: "list_all (\<lambda>b. 0 \<le> beWeight b) (roBackends r)"
    "sum_list (map beWeight (roBackends r)) < 2 ^ 31"
    using assms(1) by (auto simp: weightsOk_def)
  note pick = pickLoop_set [OF w(1) order_refl, unfolded add_0, OF w(2)]
  have "{n. 0 \<le> n \<and> n < roTotalWeight r \<and> pickBackend (\<lambda>_. n) r = Some b} =
      {n. 0 \<le> n \<and> n < roTotalWeight r \<and> pickLoop (roBackends r) n 0 = Some b}"
    by (auto simp: pickBackend_def)
  then show ?thesis using pick assms(2) by (simp add: pickBackend_def)
qed

theorem pickBackend_distribution_witness:
  "int (card {n. 0 \<le> n \<and> n < 4 \<and> pickBackend (\<lambda>_. n)
      (demoRoute ''a'' [] [demoBackend ''s1'' 1, demoBackend ''s2'' 3]\<lparr>roTotalWeight := 4\<rparr>)
      = Some (demoBackend ''s2'' 3)}) = 3"
  using pickBackend_distribution [of
      "demoRoute ''a'' [] [demoBackend ''s1'' 1, demoBackend ''s2'' 3]\<lparr>roTotalWeight := 4\<rparr>"
      "demoBackend ''s2'' 3"]
  by (simp add: weightsOk_def demoRoute_def demoBackend_def)

text \<open>
  C3. Session affinity: the cookie the proxy sets for a backend of a parsed route brings a
  later request back to that backend with its original creation time, until the absolute
  timeout after the creation or the idle timeout after the cookie was issued has passed, and
  then to no session; re-issuing the cookie on a hit keeps the creation time.  Backend IDs
  are distinct and the backend still takes traffic; times are below the \<^verbatim>\<open>int64\<close> nanoseconds.
\<close>

theorem session_roundtrip:
  assumes "parsedRoute up sha r" and "roSession r = Some sp" and "spType sp = ''Cookie''"
    and "distinct (map beID (roBackends r))" and "b \<in> set (roBackends r)" and "0 < beWeight b"
    and "created = (if hit then c0 else now)" and "0 \<le> created" and "created \<le> now"
    and "now \<le> t" and "t * second < 2 ^ 63"
    and "rqCookie q (spSessionName sp) = Some (ckValue (sessionCookie now r sp b hit c0))"
  shows "resolveSession t r q =
     (if spAbsolute sp > 0 \<and> (t - created) * second > spAbsolute sp then None
      else if spIdle sp > 0 \<and> (t - now) * second > spIdle sp then None
      else Some (b, created))"
proof -
  have id: "beID b = backendID sha (beService b)"
    using assms(1,5) by (auto simp: parsedRoute_def parsedBackend_def list_all_iff)
  have range: "- (2 ^ 63) \<le> created" "created < 2 ^ 63" "- (2 ^ 63) \<le> now" "now < 2 ^ 63"
    using assms(8-11) by auto
  have val: "ckValue (sessionCookie now r sp b hit c0) =
      sessionCookieValue now (beID b) created (spIdle sp > 0)"
    using assms(7) by (simp add: sessionCookie_def)
  have parse: "parseSessionCookie (ckValue (sessionCookie now r sp b hit c0)) =
      Some (beID b, created, if spIdle sp > 0 then now else created)"
    unfolding val id by (rule parseSessionCookie_value [OF backendID_no_dot range])
  have elapsed: "elapsedSince t created = (t - created) * second"
    "elapsedSince t now = (t - now) * second"
    using assms(8-11) by (intro elapsedSince_exact; simp)+
  show ?thesis
    using assms(2,3,12) parse elapsed findBackendByID_distinct [OF assms(4-6)]
    by (simp add: resolveSession_def)
qed

definition stickyRoute :: route where
  "stickyRoute =
     demoRoute ''a'' [] [\<lparr>beService = ''s1'', beWeight = 1, beURL = Some \<lparr>urlScheme = ''http'',
         urlHost = ''s1''\<rparr>, beID = backendID demoDigest ''s1''\<rparr>]
       \<lparr>roTotalWeight := 1,
        roSession := Some \<lparr>spType = ''Cookie'', spSessionName = ''sid'', spAbsoluteTimeout = ''1h'',
          spIdleTimeout = ''1m'', spCookieLifetimeType = ''Permanent'',
          spAbsolute = 3600 * second, spIdle = 60 * second\<rparr>\<rparr>"

definition stickyRequest :: "string \<Rightarrow> request" where
  "stickyRequest v =
     \<lparr>rqHost = ''a'', rqPath = ''/'', rqHeader = (\<lambda>h. []), rqCookie = [''sid'' \<mapsto> v]\<rparr>"

theorem session_roundtrip_witness:
  "let b = hd (roBackends stickyRoute); sp = the (roSession stickyRoute);
       v = ckValue (sessionCookie 1000 stickyRoute sp b True 900)
   in resolveSession 1060 stickyRoute (stickyRequest v) = Some (b, 900) \<and>
      resolveSession 1061 stickyRoute (stickyRequest v) = None"
proof -
  let ?b = "hd (roBackends stickyRoute)" and ?sp = "the (roSession stickyRoute)"
  let ?v = "ckValue (sessionCookie 1000 stickyRoute ?sp ?b True 900)"
  have "parsedRoute demoURL demoDigest stickyRoute"
    by (simp add: parsedRoute_def parsedBackend_def stickyRoute_def demoRoute_def demoURL_def
        wrapInt_def)
  moreover have "roSession stickyRoute = Some ?sp" "spType ?sp = ''Cookie''"
    "distinct (map beID (roBackends stickyRoute))" "?b \<in> set (roBackends stickyRoute)" "0 < beWeight ?b"
    "rqCookie (stickyRequest ?v) (spSessionName ?sp) = Some ?v"
    "spAbsolute ?sp = 3600 * second" "spIdle ?sp = 60 * second"
    by (simp_all add: stickyRoute_def demoRoute_def stickyRequest_def)
  ultimately show ?thesis
    using session_roundtrip [of demoURL demoDigest stickyRoute ?sp ?b 900 True 900 1000 1060
        "stickyRequest ?v"]
      session_roundtrip [of demoURL demoDigest stickyRoute ?sp ?b 900 True 900 1000 1061
        "stickyRequest ?v"]
    by (simp add: Let_def)
qed

text \<open>A matched request gets a live backend of its route, unless all backends have weight 0.\<close>

lemma resolveBackend_matched:
  assumes "parsedConfig up sha cfg" and "\<forall>r\<in>set (cfgRoutes cfg). weightsOk r"
    and "\<And>n. 0 < n \<Longrightarrow> 0 \<le> draw n \<and> draw n < n"
    and "matchRoute cfg (rqHost q) (rqPath q) (isGRPC q) = Some i"
  shows "if \<forall>b\<in>set (roBackends (cfgRoutes cfg ! i)). beWeight b = 0
    then resolveBackend (Some cfg) now draw q = Inl ErrNoBackend
    else \<exists>b\<in>set (roBackends (cfgRoutes cfg ! i)). \<exists>u hit c. 0 < beWeight b \<and> beURL b = Some u \<and>
           resolveBackend (Some cfg) now draw q = Inr (cfgRoutes cfg ! i, b, hit, c)"
proof -
  let ?r = "cfgRoutes cfg ! i"
  have i: "i < length (cfgRoutes cfg)"
    using matchRoute_spec [OF assms(1), of "rqHost q" "rqPath q" "isGRPC q"] assms(4)
    by (auto simp: routeMatches_def)
  have r: "weightsOk ?r" "roTotalWeight ?r = wrap32 (sum_list (map beWeight (roBackends ?r)))"
    "list_all (parsedBackend up sha) (roBackends ?r)"
    using i assms(1,2) by (auto simp: parsedConfig_def parsedRoute_def list_all_iff)
  note pick = pickBackend_Some [of ?r draw, OF r(1,2) assms(3)]
  have zero: "sum_list (map beWeight (roBackends ?r)) = 0 \<longleftrightarrow>
      (\<forall>b\<in>set (roBackends ?r). beWeight b = 0)"
    using r(1) sum_list_nonneg_eq_0_iff [of "map beWeight (roBackends ?r)"]
    by (auto simp: weightsOk_def list_all_iff)
  have url: "\<exists>u. beURL b = Some u" if "b \<in> set (roBackends ?r)" for b
    using r(3) that by (auto simp: parsedBackend_def list_all_iff)
  have got: ?thesis if b: "b \<in> set (roBackends ?r)" "0 < beWeight b"
    and "resolveBackend (Some cfg) now draw q = Inr (?r, b, hit, c)" for b hit c
  proof -
    have ne: "\<not> (\<forall>b\<in>set (roBackends ?r). beWeight b = 0)" using b by force
    show ?thesis unfolding if_not_P [OF ne] using that url [OF b(1)] by blast
  qed
  show ?thesis
  proof (cases "resolveSession now ?r q")
    case sess: (Some bc)
    obtain b c where "bc = (b, c)" by (rule prod.exhaust)
    with sess show ?thesis using resolveSession_Some [of now ?r q b c] assms(4)
      by (intro got [of b True c]) (simp_all add: resolveBackend_def Let_def)
  next
    case none: None
    show ?thesis
    proof (cases "pickBackend draw ?r")
      case None
      then show ?thesis using none pick zero assms(4) by (simp add: resolveBackend_def Let_def)
    next
      case (Some b)
      then show ?thesis using none pick assms(4)
        by (intro got [of b False 0]) (simp_all add: resolveBackend_def Let_def)
    qed
  qed
qed

text \<open>
  C4. Every request gets a definite answer: with no configuration 503 and the marker header;
  with a parsed one whose weights are valid, 404 exactly when no route matches, 502 exactly
  when the best match has only backends of weight 0, and otherwise the request is proxied to
  a backend of that route with a positive weight, over HTTP/2 exactly for gRPC routes; the
  URL of the backend is always there.
\<close>

theorem ServeHTTP_outcomes:
  assumes "config = Some cfg" and "configParse up sha pd c = Inr cfg"
    and "\<forall>r\<in>set (cfgRoutes cfg). weightsOk r" and "\<forall>n. 0 < n \<longrightarrow> 0 \<le> draw n \<and> draw n < n"
  shows "(case matchRoute cfg (rqHost q) (rqPath q) (isGRPC q) of
      None \<Rightarrow> ServeHTTP cs config now draw q = Respond 404 ''404 page not found'' []
    | Some i \<Rightarrow>
        if \<forall>b\<in>set (roBackends (cfgRoutes cfg ! i)). beWeight b = 0
        then ServeHTTP cs config now draw q = Respond 502 ''no available backend'' []
        else \<exists>b\<in>set (roBackends (cfgRoutes cfg ! i)). \<exists>u edit. 0 < beWeight b \<and> beURL b = Some u \<and>
               ServeHTTP cs config now draw q =
                 ProxyTo (urlScheme u) (urlHost u)
                   (if isGRPC q then H2CTransport else NoKeepAliveTransport) edit)
    \<and> ServeHTTP cs None now draw q =
        Respond 503 ''no configuration loaded'' [(''X-Proxy-Config-Not-Loaded'', ''true'')]"
proof -
  have p: "parsedConfig up sha cfg" using configParse_Inr [OF assms(2)] by blast
  show ?thesis
  proof (cases "matchRoute cfg (rqHost q) (rqPath q) (isGRPC q)")
    case None
    then show ?thesis by (simp add: ServeHTTP_def resolveBackend_def assms(1))
  next
    case (Some i)
    have "isGRPC q = (roProtocol (cfgRoutes cfg ! i) = ProtocolGRPC)"
      using matchRoute_spec [OF p, of "rqHost q" "rqPath q" "isGRPC q"] Some by (auto simp: routeMatches_def)
    then have tr: "transportForRoute (cfgRoutes cfg ! i) = (if isGRPC q then H2CTransport else NoKeepAliveTransport)"
      by (simp add: transportForRoute_def)
    have "ServeHTTP cs None now draw q =
        Respond 503 ''no configuration loaded'' [(''X-Proxy-Config-Not-Loaded'', ''true'')]"
      by (simp add: ServeHTTP_def resolveBackend_def)
    moreover note resolveBackend_matched [where now = now, OF p assms(3) assms(4) [rule_format] Some]
    ultimately show ?thesis using Some tr assms(1)
      by (auto simp: ServeHTTP_def split: if_split_asm)
  qed
qed

definition demoRequest :: request where
  "demoRequest =
     \<lparr>rqHost = ''a:80'', rqPath = ''/x/y'', rqHeader = (\<lambda>h. []), rqCookie = (\<lambda>n. None)\<rparr>"

theorem ServeHTTP_outcomes_witness:
  "\<exists>cfg (u :: url) edit. configParse demoURL demoDigest demoDuration demoConfig = Inr cfg \<and>
     ServeHTTP (\<lambda>c. []) (Some cfg) 0 (\<lambda>n. n - 1) demoRequest =
       ProxyTo (urlScheme u) (urlHost u) NoKeepAliveTransport edit"
proof -
  obtain cfg where cfg: "configParse demoURL demoDigest demoDuration demoConfig = Inr cfg"
    "matchRoute cfg ''a:80'' ''/x/y'' False = Some 0" "\<forall>r\<in>set (cfgRoutes cfg). weightsOk r"
    "map beWeight (roBackends (cfgRoutes cfg ! 0)) = [1, 3]"
    using demoConfig_parses by (elim exE conjE)
  have w: "1 \<in> beWeight ` set (roBackends (cfgRoutes cfg ! 0))"
    using arg_cong [OF cfg(4), of set] by auto
  have q: "isGRPC demoRequest = False"
    "matchRoute cfg (rqHost demoRequest) (rqPath demoRequest) False = Some 0"
    using cfg(2) by (simp_all add: demoRequest_def isGRPC_def)
  have ne: "\<not> (\<forall>b\<in>set (roBackends (cfgRoutes cfg ! 0)). beWeight b = 0)" using w by force
  have draw: "\<forall>n :: int. 0 < n \<longrightarrow> 0 \<le> n - 1 \<and> n - 1 < n" by simp
  show ?thesis
    using ServeHTTP_outcomes [where draw = "\<lambda>n. n - 1" and q = demoRequest
        and cs = "\<lambda>c. []" and now = 0, OF refl cfg(1,3) draw] cfg(1)
    unfolding q option.case if_not_P [OF ne] if_False
    by (elim conjE bexE exE, intro exI conjI)
qed

text \<open>
  C8. The lifetime of a permanent cookie is what is left of the session: with both timeouts in
  whole seconds, \<^verbatim>\<open>Max-Age\<close> is the smaller of the remaining absolute timeout and the idle
  timeout, with one of them it is that timeout; it is never negative for a live session, but
  it is 0 in the session's last second, when the library omits the attribute and the
  permanent cookie becomes a session cookie.
\<close>

theorem cookieMaxAge_lifetime:
  assumes "spAbsolute sp = a * second" and "spIdle sp = i * second"
    and "0 \<le> a" and "0 \<le> i" and "a < 2 ^ 33" and "i < 2 ^ 33"
    and "0 \<le> created" and "created \<le> now" and "now < 2 ^ 33"
  shows "cookieMaxAge now sp created =
      (if 0 < a \<and> 0 < i then min (a - (now - created)) i else if 0 < a then a else i)
    \<and> (0 < a \<and> 0 < i \<and> now - created \<le> a \<longrightarrow>
         0 \<le> cookieMaxAge now sp created \<and>
         (cookieMaxAge now sp created = 0 \<longleftrightarrow> now = created + a))"
proof -
  have s: "durationSeconds (spAbsolute sp) = a" "durationSeconds (spIdle sp) = i"
    using durationSeconds_whole assms(1-6) by auto
  have "wrap64 (now - created) = now - created" "wrap64 (a - (now - created)) = a - (now - created)"
    using assms(3,5,7-9) by (simp_all add: wrap64_id)
  then show ?thesis
    using s assms(1-4) by (auto simp: cookieMaxAge_def Let_def min_def)
qed

theorem cookieMaxAge_lifetime_witness:
  "let sp = the (roSession stickyRoute)
   in cookieMaxAge 4500 sp 1000 = 60 \<and> cookieMaxAge 4590 sp 1000 = 10 \<and>
      cookieMaxAge 4600 sp 1000 = 0"
  using cookieMaxAge_lifetime [of "the (roSession stickyRoute)" 3600 60 1000 4500]
    cookieMaxAge_lifetime [of "the (roSession stickyRoute)" 3600 60 1000 4590]
    cookieMaxAge_lifetime [of "the (roSession stickyRoute)" 3600 60 1000 4600]
  by (simp add: Let_def stickyRoute_def demoRoute_def)

end
