(* ===== verification/Conditions.thy ===== *)
theory Conditions
  imports Prelude
begin

text \<open>
  internal/conditions/conditions.go and internal/predicates/condition_predicate.go: the
  lists of \<^verbatim>\<open>metav1.Condition\<close> every status of the controller carries.  A condition list
  is a HOL list; \<^verbatim>\<open>Upsert\<close> and \<^verbatim>\<open>Remove\<close>, which write through the slice, return the
  list as it is afterwards.  Time stamps are opaque numbers: they are only copied.
\<close>

text \<open>The fields of \<^verbatim>\<open>metav1.Condition\<close>; a status is \<^verbatim>\<open>True\<close>, \<^verbatim>\<open>False\<close> or \<^verbatim>\<open>Unknown\<close>.\<close>

record condition =
  condType :: string
  condStatus :: string
  condObservedGeneration :: int
  condLastTransitionTime :: int
  condReason :: string
  condMessage :: string

abbreviation ConditionTrue :: string where "ConditionTrue \<equiv> ''True''"
abbreviation ConditionFalse :: string where "ConditionFalse \<equiv> ''False''"
abbreviation ConditionUnknown :: string where "ConditionUnknown \<equiv> ''Unknown''"

section \<open>The operations\<close>

definition condFind :: "condition list \<Rightarrow> string \<Rightarrow> condition option" where
  "condFind conds t = find (\<lambda>c. condType c = t) conds"

definition condChanged ::
  "condition list \<Rightarrow> string \<Rightarrow> string \<Rightarrow> string \<Rightarrow> string \<Rightarrow> int \<Rightarrow> bool" where
  "condChanged existing t status reason message generation =
     (case condFind existing t of
        None \<Rightarrow> True
      | Some prev \<Rightarrow>
          condStatus prev \<noteq> status \<or> condReason prev \<noteq> reason \<or>
          condMessage prev \<noteq> message \<or> condObservedGeneration prev \<noteq> generation)"

text \<open>The \<^verbatim>\<open>LastTransitionTime\<close> a desired condition gets against the existing list.\<close>

definition keepTransition :: "condition list \<Rightarrow> condition \<Rightarrow> condition" where
  "keepTransition existing d =
     (case condFind existing (condType d) of
        None \<Rightarrow> d
      | Some prev \<Rightarrow>
          if condStatus prev = condStatus d
          then d\<lparr>condLastTransitionTime := condLastTransitionTime prev\<rparr> else d)"

fun condSetLoop :: "condition list \<Rightarrow> condition list \<Rightarrow> condition list \<Rightarrow> condition list" where
  "condSetLoop existing [] result = result"
| "condSetLoop existing (d # ds) result =
     condSetLoop existing ds (result @ [keepTransition existing d])"

definition condSet :: "condition list \<Rightarrow> condition list \<Rightarrow> condition list" where
  "condSet existing desired = condSetLoop existing desired []"

text \<open>\<^verbatim>\<open>*prev = desired\<close> overwrites the first condition of the type.\<close>

fun overwriteFirst :: "condition list \<Rightarrow> condition \<Rightarrow> condition list" where
  "overwriteFirst [] d = []"
| "overwriteFirst (c # cs) d =
     (if condType c = condType d then d # cs else c # overwriteFirst cs d)"

definition condUpsert :: "condition list \<Rightarrow> condition \<Rightarrow> condition list" where
  "condUpsert existing desired =
     (case condFind existing (condType desired) of
        Some prev \<Rightarrow> overwriteFirst existing (keepTransition existing desired)
      | None \<Rightarrow> existing @ [desired])"

fun condRemove :: "condition list \<Rightarrow> string \<Rightarrow> condition list" where
  "condRemove [] t = []"
| "condRemove (c # cs) t = (if condType c = t then cs else c # condRemove cs t)"

text \<open>The predicate of condition_predicate.go; a missing condition has the empty status.\<close>

fun conditionStatus :: "condition list \<Rightarrow> string \<Rightarrow> string" where
  "conditionStatus [] t = []"
| "conditionStatus (c # cs) t = (if condType c = t then condStatus c else conditionStatus cs t)"

definition conditionStatusChanged :: "string \<Rightarrow> condition list \<Rightarrow> condition list \<Rightarrow> bool" where
  "conditionStatusChanged t old new \<longleftrightarrow> conditionStatus old t \<noteq> conditionStatus new t"

section \<open>Lemmas\<close>

lemma condFind_Nil [simp]: "condFind [] t = None"
  by (simp add: condFind_def)

lemma condFind_Cons [simp]:
  "condFind (c # cs) t = (if condType c = t then Some c else condFind cs t)"
  by (simp add: condFind_def)

lemma condFind_append:
  "condFind (xs @ ys) t = (case condFind xs t of None \<Rightarrow> condFind ys t | Some c \<Rightarrow> Some c)"
  by (induction xs) auto

lemma condFind_type: "condFind cs t = Some c \<Longrightarrow> condType c = t \<and> c \<in> set cs"
  by (induction cs) (auto split: if_splits)

lemma condFind_None: "condFind cs t = None \<longleftrightarrow> t \<notin> condType ` set cs"
  by (induction cs) auto

lemma keepTransition_fields [simp]:
  "condType (keepTransition ex d) = condType d"
  "condStatus (keepTransition ex d) = condStatus d"
  "condReason (keepTransition ex d) = condReason d"
  "condMessage (keepTransition ex d) = condMessage d"
  "condObservedGeneration (keepTransition ex d) = condObservedGeneration d"
  by (auto simp: keepTransition_def split: option.splits)

lemma condSetLoop_map: "condSetLoop ex ds r = r @ map (keepTransition ex) ds"
  by (induction ex ds r rule: condSetLoop.induct) auto

lemma condSet_map: "condSet ex ds = map (keepTransition ex) ds"
  by (simp add: condSet_def condSetLoop_map)

lemma condFind_map_keep:
  "condFind (map (keepTransition ex) ds) t = map_option (keepTransition ex) (condFind ds t)"
  by (induction ds) auto

lemma condFind_mem_distinct:
  "distinct (map condType ds) \<Longrightarrow> d \<in> set ds \<Longrightarrow> condFind ds (condType d) = Some d"
  by (induction ds) (auto simp: rev_image_eqI)

lemma condFind_overwriteFirst:
  "condFind cs (condType d) \<noteq> None \<Longrightarrow>
   condFind (overwriteFirst cs d) t = (if t = condType d then Some d else condFind cs t)"
  by (induction cs) auto

lemma map_type_overwriteFirst: "map condType (overwriteFirst cs d) = map condType cs"
  by (induction cs) auto

lemma condFind_condUpsert:
  "condFind (condUpsert ex d) t =
     (if t = condType d then Some (keepTransition ex d) else condFind ex t)"
proof (cases "condFind ex (condType d)")
  case None
  then show ?thesis
    by (auto simp: condUpsert_def condFind_append keepTransition_def split: option.splits)
next
  case (Some p)
  then show ?thesis
    using condFind_overwriteFirst [of ex "keepTransition ex d" t]
    by (simp add: condUpsert_def)
qed

lemma condChanged_iff:
  "condChanged ex t s r m g \<longleftrightarrow>
     \<not> (\<exists>p. condFind ex t = Some p \<and> condStatus p = s \<and> condReason p = r \<and>
            condMessage p = m \<and> condObservedGeneration p = g)"
  by (auto simp: condChanged_def split: option.splits)

lemma conditionStatus_find:
  "conditionStatus cs t = (case condFind cs t of None \<Rightarrow> [] | Some c \<Rightarrow> condStatus c)"
  by (induction cs) auto

section \<open>Properties\<close>

text \<open>
  Writing the desired conditions with \<^verbatim>\<open>Set\<close> settles them: when the desired types are
  distinct, no desired condition counts as changed against the list that was written, so
  the reconcilers' guard \<^verbatim>\<open>if Changed { patch }\<close> does not patch again; the types of the list
  are exactly the desired ones, in order; and a condition keeps the old transition time
  exactly when a condition of its type had the same status before.
\<close>

lemma condSet_settles:
  assumes "distinct (map condType desired)" and "d \<in> set desired"
  shows "\<not> condChanged (condSet ex desired) (condType d) (condStatus d) (condReason d)
            (condMessage d) (condObservedGeneration d)
    \<and> map condType (condSet ex desired) = map condType desired
    \<and> (\<exists>c. condFind (condSet ex desired) (condType d) = Some c \<and>
         condLastTransitionTime c =
           (case condFind ex (condType d) of
              Some p \<Rightarrow> if condStatus p = condStatus d then condLastTransitionTime p
                        else condLastTransitionTime d
            | None \<Rightarrow> condLastTransitionTime d))"
proof -
  have f: "condFind (condSet ex desired) (condType d) = Some (keepTransition ex d)"
    using condFind_mem_distinct [OF assms] by (simp add: condSet_map condFind_map_keep)
  then have "\<not> condChanged (condSet ex desired) (condType d) (condStatus d) (condReason d)
            (condMessage d) (condObservedGeneration d)"
    by (simp add: condChanged_iff)
  moreover have "map condType (condSet ex desired) = map condType desired"
    by (simp add: condSet_map)
  moreover have "condLastTransitionTime (keepTransition ex d) =
      (case condFind ex (condType d) of
              Some p \<Rightarrow> if condStatus p = condStatus d then condLastTransitionTime p
                        else condLastTransitionTime d
            | None \<Rightarrow> condLastTransitionTime d)"
    by (auto simp: keepTransition_def split: option.splits)
  ultimately show ?thesis using f by blast
qed

definition readyCond :: "string \<Rightarrow> int \<Rightarrow> condition" where
  "readyCond status time =
     \<lparr>condType = ''Ready'', condStatus = status, condObservedGeneration = 3,
      condLastTransitionTime = time, condReason = ''R'', condMessage = ''m''\<rparr>"

theorem condSet_settles_witness:
  "\<not> condChanged (condSet [readyCond ''True'' 5] [readyCond ''True'' 9]) ''Ready'' ''True'' ''R''
       ''m'' 3
   \<and> (\<exists>c. condFind (condSet [readyCond ''True'' 5] [readyCond ''True'' 9]) ''Ready'' = Some c
        \<and> condLastTransitionTime c = 5)"
  using condSet_settles [of "[readyCond ''True'' 9]" "readyCond ''True'' 9" "[readyCond ''True'' 5]"]
  by (simp add: readyCond_def)

text \<open>
  \<^verbatim>\<open>Upsert\<close> writes one condition and no other: afterwards the condition of the upserted
  type is the desired one (with the transition time kept when the status is the same), every
  other type is found as before, the types already present keep their order, and a second
  \<^verbatim>\<open>Upsert\<close> of the same condition changes nothing.
\<close>

lemma condUpsert_correct:
  "condFind (condUpsert ex d) t =
     (if t = condType d then Some (keepTransition ex d) else condFind ex t)
   \<and> map condType (condUpsert ex d) =
       map condType ex @ (if condFind ex (condType d) = None then [condType d] else [])
   \<and> condUpsert (condUpsert ex d) d = condUpsert ex d"
proof -
  have ow: "overwriteFirst (overwriteFirst cs x) x = overwriteFirst cs x" for cs x
    by (induction cs) auto
  have ap: "condFind cs (condType x) = None \<Longrightarrow> overwriteFirst (cs @ [x]) x = cs @ [x]" for cs x
    by (induction cs) (auto split: if_splits)
  have keep: "keepTransition (condUpsert ex d) d = keepTransition ex d"
    using condFind_condUpsert [of ex d "condType d"]
    by (cases "condFind ex (condType d)") (auto simp: keepTransition_def)
  have "condUpsert (condUpsert ex d) d = overwriteFirst (condUpsert ex d) (keepTransition ex d)"
    using condFind_condUpsert [of ex d "condType d"] keep
    by (simp add: condUpsert_def [of "condUpsert ex d"])
  also have "\<dots> = condUpsert ex d"
  proof (cases "condFind ex (condType d)")
    case None
    then have "keepTransition ex d = d" by (simp add: keepTransition_def)
    with None ap show ?thesis by (simp add: condUpsert_def)
  next
    case (Some p)
    then show ?thesis using ow by (simp add: condUpsert_def)
  qed
  finally have idem: "condUpsert (condUpsert ex d) d = condUpsert ex d" .
  have types: "map condType (condUpsert ex d) =
       map condType ex @ (if condFind ex (condType d) = None then [condType d] else [])"
    by (cases "condFind ex (condType d)") (simp_all add: condUpsert_def map_type_overwriteFirst)
  show ?thesis using condFind_condUpsert types idem by blast
qed

end
