(* ===== verification/GatewayApi.thy ===== *)
theory GatewayApi
  imports Conditions GoErrors
begin

text \<open>
  The data the controller reads and writes.  The Kubernetes and Gateway API types are not
  under src/; the records below hold the fields the code uses, a pointer being an
  \<^verbatim>\<open>option\<close>.  The types of api/v1 (\<^verbatim>\<open>CloudflareGatewayParameters\<close>,
  \<^verbatim>\<open>CloudflareGatewayStatus\<close>) are the repository's own.  Annotations and labels are maps.
\<close>

section \<open>Gateway API objects\<close>

record label_selector =
  lsMatchLabels :: "(string \<times> string) list"
  lsMatchExpressions :: "(string \<times> string \<times> string list) list"

record route_group_kind =
  rgkGroup :: "string option"
  rgkKind :: string

record route_namespaces =
  rnFrom :: "string option"
  rnSelector :: "label_selector option"

record allowed_routes =
  arKinds :: "route_group_kind list"
  arNamespaces :: "route_namespaces option"

record listener =
  lName :: string
  lHostname :: "string option"
  lPort :: int
  lProtocol :: string
  lHasTLS :: bool
  lAllowedRoutes :: "allowed_routes option"

record params_ref =
  prefGroup :: string
  prefKind :: string
  prefName :: string

record infrastructure =
  infraLabels :: "(string \<times> string) list"
  infraAnnotations :: "(string \<times> string) list"
  infraParametersRef :: "params_ref option"

record status_address =
  saType :: "string option"
  saValue :: string

record listener_status =
  lsName :: string
  lsSupportedKinds :: "route_group_kind list"
  lsAttachedRoutes :: int
  lsConditions :: "condition list"

record gateway =
  gwName :: string
  gwNamespace :: string
  gwUID :: string
  gwGeneration :: int
  gwAnnotations :: "string \<Rightarrow> string option"
  gwDeleted :: bool
  gwFinalizers :: "string list"
  gwClassName :: string
  gwListeners :: "listener list"
  gwSpecAddresses :: "status_address list"
  gwInfrastructure :: "infrastructure option"
  gwConditions :: "condition list"
  gwStatusListeners :: "listener_status list"
  gwStatusAddresses :: "status_address list"

text \<open>Reading a Go map: a missing key gives the zero value.\<close>

definition mapGet :: "(string \<Rightarrow> string option) \<Rightarrow> string \<Rightarrow> string" where
  "mapGet m k = (case m k of None \<Rightarrow> [] | Some v \<Rightarrow> v)"

record parent_ref =
  prGroup :: "string option"
  prKind :: "string option"
  prNamespace :: "string option"
  prName :: string
  prSectionName :: "string option"
  prPort :: "int option"

record route_parent_status =
  rpsParentRef :: parent_ref
  rpsControllerName :: string
  rpsConditions :: "condition list"

record backend_ref =
  brGroup :: "string option"
  brKind :: "string option"
  brNamespace :: "string option"
  brName :: string
  brPort :: "int option"
  brWeight :: "int option"
  brFilters :: "string list"

record session_spec =
  ssType :: "string option"
  ssSessionName :: "string option"
  ssAbsoluteTimeout :: "string option"
  ssCookieConfig :: "string option option"

record path_match =
  pmType :: "string option"
  pmValue :: "string option"

record http_match =
  hmPath :: "path_match option"
  hmHeaders :: "string list"
  hmQueryParams :: "string list"
  hmMethod :: "string option"

record http_rule =
  hrMatches :: "http_match list"
  hrFilters :: "string list"
  hrHasTimeouts :: bool
  hrHasRetry :: bool
  hrBackendRefs :: "backend_ref list"
  hrSession :: "session_spec option"

record grpc_match =
  gmMethod :: "string option"
  gmHeaders :: "string list"

record grpc_rule =
  grMatches :: "grpc_match list"
  grFilters :: "string list"
  grBackendRefs :: "backend_ref list"
  grSession :: "session_spec option"

text \<open>The metadata, common spec fields and status of a route of either kind.\<close>

record route_common =
  rtNamespace :: string
  rtName :: string
  rtGeneration :: int
  rtDeleted :: bool
  rtParentRefs :: "parent_ref list"
  rtHostnames :: "string list"
  rtParents :: "route_parent_status list"

record http_route =
  htCommon :: route_common
  htRules :: "http_rule list"

record grpc_route =
  grtCommon :: route_common
  grtRules :: "grpc_rule list"

type_synonym namespaced_name = "string \<times> string"

section \<open>CloudflareGatewayParameters\<close>

record rotation_schedule =
  rsCron :: string
  rsTimeZone :: string

record rotation_config =
  rcEnabled :: "bool option"
  rcSchedule :: "rotation_schedule option"

record replica_config =
  repName :: string
  repZone :: string
  repNodeSelector :: "(string \<times> string) list"
  repAffinity :: "string option"

record autoscaling_config =
  asEnabled :: bool
  asMinAllowed :: "(string \<times> string) list"
  asMaxAllowed :: "(string \<times> string) list"
  asControlledResources :: "string list"
  asControlledValues :: "string option"

text \<open>\<open>tcToken\<close> is \<^verbatim>\<open>*TokenConfig\<close>, whose only field is \<^verbatim>\<open>Rotation\<close>; a nil replica list
  and an empty one mean different things, so \<open>tcReplicas\<close> is an option.\<close>

record tunnel_config =
  tcMinReadySeconds :: "int option"
  tcToken :: "rotation_config option option"
  tcResources :: "string option"
  tcAutoscaling :: "autoscaling_config option"
  tcPatches :: "(string \<times> string \<times> string \<times> string option) list"
  tcReplicas :: "replica_config list option"

record gateway_params =
  gpName :: string
  gpNamespace :: string
  gpSecretRef :: "string option"
  gpDNSZones :: "string list option"
  gpTunnel :: "tunnel_config option"

section \<open>CloudflareGatewayStatus\<close>

record token_rotation_status =
  trsLastHandledRotateAt :: string
  trsLastRotatedAt :: string
  trsNextRotation :: "int option"

record token_status =
  tsHash :: string
  tsRotation :: "token_rotation_status option"

record tunnel_status =
  tusName :: string
  tusID :: string
  tusToken :: "token_status option"

record resource_ref =
  rrAPIVersion :: string
  rrKind :: string
  rrName :: string

record cgs_status =
  cgsConditions :: "condition list"
  cgsTunnel :: "tunnel_status option"
  cgsInventory :: "resource_ref list"
  cgsLastHandledReconcileAt :: string

record cgs_object =
  cgsName :: string
  cgsNamespace :: string
  cgsDeleted :: bool
  cgsFinalizers :: "string list"
  cgsOwnerUID :: string
  cgsStatus :: cgs_status

end
