(* ===== verification/Naming.thy ===== *)
theory Naming
  imports GatewayApi
begin

text \<open>
  api/v1/meta_types.go and api/v1/groupversion_info.go: the names, labels and annotations
  the controller gives its resources, and the reconcile interval.  The package variable
  \<^verbatim>\<open>cfClusterName\<close> is the argument \<open>cluster\<close>.  The group name of the Gateway API and its
  GatewayClass finalizer are constants of the Gateway API module; they are written out.
\<close>

section \<open>Constants\<close>

definition ShortControllerName :: string where
  "ShortControllerName = ''cloudflare-gateway-controller''"

definition Group :: string where
  "Group = ShortControllerName @ ''.io''"

definition ControllerName :: string where
  "ControllerName = Group @ ''/controller''"

definition GroupGateways :: string where
  "GroupGateways = ''gateways.'' @ Group"

abbreviation GatewayGroupName :: string where
  "GatewayGroupName \<equiv> ''gateway.networking.k8s.io''"

abbreviation GatewayClassFinalizerGatewaysExist :: string where
  "GatewayClassFinalizerGatewaysExist \<equiv> ''gateway-exists-finalizer.gateway.networking.k8s.io''"

abbreviation KindGateway :: string where "KindGateway \<equiv> ''Gateway''"
abbreviation KindHTTPRoute :: string where "KindHTTPRoute \<equiv> ''HTTPRoute''"
abbreviation KindGRPCRoute :: string where "KindGRPCRoute \<equiv> ''GRPCRoute''"
abbreviation KindSecret :: string where "KindSecret \<equiv> ''Secret''"
abbreviation KindService :: string where "KindService \<equiv> ''Service''"
abbreviation KindDeployment :: string where "KindDeployment \<equiv> ''Deployment''"
abbreviation KindParameters :: string where
  "KindParameters \<equiv> ''CloudflareGatewayParameters''"

definition Finalizer :: string where
  "Finalizer = Group @ ''/finalizer''"

definition AnnotationReconcile :: string where
  "AnnotationReconcile = Group @ ''/reconcile''"

definition AnnotationReconcileEvery :: string where
  "AnnotationReconcileEvery = Group @ ''/reconcileEvery''"

definition AnnotationReconcileRequestedAt :: string where
  "AnnotationReconcileRequestedAt = Group @ ''/reconcileRequestedAt''"

definition AnnotationRotateTokenRequestedAt :: string where
  "AnnotationRotateTokenRequestedAt = GroupGateways @ ''/rotateTokenRequestedAt''"

definition AnnotationTokenHash :: string where
  "AnnotationTokenHash = GroupGateways @ ''/tokenHash''"

abbreviation AnnotationReconcileEnabled :: string where
  "AnnotationReconcileEnabled \<equiv> ''enabled''"

abbreviation AnnotationReconcileDisabled :: string where
  "AnnotationReconcileDisabled \<equiv> ''disabled''"

definition DefaultReconcileInterval :: int where
  "DefaultReconcileInterval = 10 * 60 * second"

section \<open>Names and labels\<close>

definition FinalizerGatewayClass :: "gateway \<Rightarrow> string" where
  "FinalizerGatewayClass gw =
     GatewayClassFinalizerGatewaysExist @ ''/'' @ gwName gw @ ''.'' @ gwNamespace gw"

definition GatewayResourceName :: "gateway \<Rightarrow> string" where
  "GatewayResourceName gw = ''gateway-'' @ gwName gw"

definition GatewayReplicaName :: "gateway \<Rightarrow> string \<Rightarrow> string" where
  "GatewayReplicaName gw replicaName = GatewayResourceName gw @ ''-'' @ replicaName"

definition GatewayResourceLabels :: "string \<Rightarrow> string list \<Rightarrow> (string \<Rightarrow> string option)" where
  "GatewayResourceLabels name component =
     (let lbls = [''app.kubernetes.io/name'' \<mapsto> ''cloudflared'',
                  ''app.kubernetes.io/managed-by'' \<mapsto> ShortControllerName,
                  ''app.kubernetes.io/instance'' \<mapsto> name]
      in case component of
           [] \<Rightarrow> lbls
         | c # _ \<Rightarrow> lbls(''app.kubernetes.io/component'' \<mapsto> c))"

definition TunnelName :: "string \<Rightarrow> gateway \<Rightarrow> string" where
  "TunnelName cluster gw =
     Group @ ''/clusters/'' @ cluster @ ''/namespaces/'' @ gwNamespace gw
       @ ''/gateways/'' @ gwName gw"

text \<open>
  \<^verbatim>\<open>ReconcileInterval\<close>; \<open>parseDuration\<close> is \<^verbatim>\<open>time.ParseDuration\<close>.
\<close>

definition ReconcileInterval ::
  "(string \<Rightarrow> go_error + int) \<Rightarrow> (string \<Rightarrow> string option) \<Rightarrow> go_error + int" where
  "ReconcileInterval parseDuration annotations =
     (if mapGet annotations AnnotationReconcile = AnnotationReconcileDisabled then Inr 0
      else case annotations AnnotationReconcileEvery of
             None \<Rightarrow> Inr DefaultReconcileInterval
           | Some val \<Rightarrow>
               (case parseDuration val of
                  Inl err \<Rightarrow> Inl (ErrWrap (''annotation '' @ AnnotationReconcileEvery
                                @ '' has invalid duration '' @ goQuote val @ '': '') err)
                | Inr interval \<Rightarrow> Inr interval))"

section \<open>Lemmas\<close>

lemma GatewayReplicaName_inj [simp]:
  "GatewayReplicaName gw r1 = GatewayReplicaName gw r2 \<longleftrightarrow> r1 = r2"
  by (simp add: GatewayReplicaName_def)

text \<open>A separator that does not occur before it determines both parts of a name.\<close>

lemma append_sep_inj:
  "c \<notin> set a \<Longrightarrow> c \<notin> set b \<Longrightarrow> a @ c # x = b @ c # y \<longleftrightarrow> a = b \<and> x = y"
proof (induction a arbitrary: b)
  case Nil
  then show ?case by (cases b) auto
next
  case (Cons h a)
  then show ?case by (cases b) auto
qed

section \<open>Properties\<close>

text \<open>
  The tunnel name and the GatewayClass finalizer identify the Gateway: two Gateways
  with the same tunnel name in a cluster are the same namespace and name, as long as
  namespaces have no slash (Kubernetes namespaces are DNS labels); and the finalizers of
  two Gateways are equal only for the same Gateway when namespaces have no dot.  Two Gateways
  so never share a tunnel or a finalizer.
\<close>

lemma TunnelName_injective:
  assumes "CHR ''/'' \<notin> set (gwNamespace g1)" and "CHR ''/'' \<notin> set (gwNamespace g2)"
    and "CHR ''.'' \<notin> set (gwNamespace g1)" and "CHR ''.'' \<notin> set (gwNamespace g2)"
  shows "(TunnelName cluster g1 = TunnelName cluster g2 \<longleftrightarrow>
            gwNamespace g1 = gwNamespace g2 \<and> gwName g1 = gwName g2)
    \<and> (FinalizerGatewayClass g1 = FinalizerGatewayClass g2 \<longleftrightarrow>
            gwNamespace g1 = gwNamespace g2 \<and> gwName g1 = gwName g2)"
proof -
  have t: "TunnelName cluster g1 = TunnelName cluster g2 \<longleftrightarrow>
      gwNamespace g1 = gwNamespace g2 \<and> gwName g1 = gwName g2"
    using append_sep_inj [OF assms(1,2)] by (simp add: TunnelName_def)
  have "gwName g1 @ ''.'' @ gwNamespace g1 = gwName g2 @ ''.'' @ gwNamespace g2 \<longleftrightarrow>
      rev (gwNamespace g1) @ CHR ''.'' # rev (gwName g1) =
      rev (gwNamespace g2) @ CHR ''.'' # rev (gwName g2)"
    by (metis append_Cons append_Nil append_eq_append_conv2 append_assoc rev_append rev_rev_ident rev_singleton_conv rev.simps(2))
  also have "\<dots> \<longleftrightarrow> gwNamespace g1 = gwNamespace g2 \<and> gwName g1 = gwName g2"
    using append_sep_inj [of "CHR ''.''" "rev (gwNamespace g1)" "rev (gwNamespace g2)"] assms(3,4)
    by simp
  finally show ?thesis using t by (simp add: FinalizerGatewayClass_def)
qed

definition namedGateway :: "string \<Rightarrow> string \<Rightarrow> gateway" where
  "namedGateway ns n =
     \<lparr>gwName = n, gwNamespace = ns, gwUID = n, gwGeneration = 1, gwAnnotations = Map.empty,
      gwDeleted = False, gwFinalizers = [], gwClassName = ''cloudflare'', gwListeners = [],
      gwSpecAddresses = [], gwInfrastructure = None, gwConditions = [], gwStatusListeners = [],
      gwStatusAddresses = []\<rparr>"

text \<open>The namespace \<^verbatim>\<open>a\<close> with the Gateway \<^verbatim>\<open>b.c\<close> and the namespace \<^verbatim>\<open>c\<close> with \<^verbatim>\<open>a.b\<close>.\<close>

theorem TunnelName_injective_witness:
  "TunnelName ''k'' (namedGateway ''a'' ''b.c'') \<noteq> TunnelName ''k'' (namedGateway ''c'' ''a.b'')
   \<and> FinalizerGatewayClass (namedGateway ''a'' ''b.c'')
       \<noteq> FinalizerGatewayClass (namedGateway ''c'' ''a.b'')"
  using TunnelName_injective [of "namedGateway ''a'' ''b.c''" "namedGateway ''c'' ''a.b''" "''k''"]
  by (simp add: namedGateway_def)

end
