(* ===== verification/ReferenceGrants.thy ===== *)
theory ReferenceGrants
  imports Naming
begin

text \<open>
  internal/controller/referencegrant.go: which cross-namespace references are allowed.
  \<open>listGrants ns\<close> is the API reader's \<^verbatim>\<open>List\<close> of the ReferenceGrants of a namespace.  The two
  checks share a contract, the locale \<open>reference_check\<close>, which is interpreted for both.
\<close>

section \<open>ReferenceGrants\<close>

record grant_from =
  gfGroup :: string
  gfKind :: string
  gfNamespace :: string

record grant_to =
  gtGroup :: string
  gtKind :: string
  gtName :: "string option"

record reference_grant =
  rgFrom :: "grant_from list"
  rgTo :: "grant_to list"

section \<open>The checks\<close>

text \<open>The inner loops of \<^verbatim>\<open>secretReferenceGranted\<close>: \<^verbatim>\<open>spec.from\<close> and \<^verbatim>\<open>spec.to\<close>.\<close>

fun secretFromLoop :: "string \<Rightarrow> grant_from list \<Rightarrow> bool" where
  "secretFromLoop gatewayNamespace [] = False"
| "secretFromLoop gatewayNamespace (f # fs) =
     (if gfGroup f = GatewayGroupName \<and> gfKind f = KindGateway \<and> gfNamespace f = gatewayNamespace
      then True else secretFromLoop gatewayNamespace fs)"

fun secretToLoop :: "string \<Rightarrow> grant_to list \<Rightarrow> bool" where
  "secretToLoop secretName [] = False"
| "secretToLoop secretName (t # ts) =
     (if gtGroup t = [] \<and> gtKind t = KindSecret \<and> (gtName t = None \<or> gtName t = Some secretName)
      then True else secretToLoop secretName ts)"

fun secretGrantLoop :: "string \<Rightarrow> string \<Rightarrow> reference_grant list \<Rightarrow> bool" where
  "secretGrantLoop gatewayNamespace secretName [] = False"
| "secretGrantLoop gatewayNamespace secretName (g # gs) =
     (if \<not> secretFromLoop gatewayNamespace (rgFrom g)
      then secretGrantLoop gatewayNamespace secretName gs
      else if secretToLoop secretName (rgTo g) then True
      else secretGrantLoop gatewayNamespace secretName gs)"

definition secretReferenceGranted ::
  "(string \<Rightarrow> go_error + reference_grant list) \<Rightarrow> string \<Rightarrow> string \<Rightarrow> string \<Rightarrow> go_error + bool" where
  "secretReferenceGranted listGrants gatewayNamespace secretNamespace secretName =
     (if gatewayNamespace = secretNamespace then Inr True
      else case listGrants secretNamespace of
             Inl err \<Rightarrow>
               Inl (ErrWrap (''listing ReferenceGrants in namespace '' @ secretNamespace @ '': '') err)
           | Inr grants \<Rightarrow> Inr (secretGrantLoop gatewayNamespace secretName grants))"

fun backendFromLoop :: "string \<Rightarrow> string \<Rightarrow> grant_from list \<Rightarrow> bool" where
  "backendFromLoop routeKind routeNamespace [] = False"
| "backendFromLoop routeKind routeNamespace (f # fs) =
     (if gfGroup f = GatewayGroupName \<and> gfKind f = routeKind \<and> gfNamespace f = routeNamespace
      then True else backendFromLoop routeKind routeNamespace fs)"

fun backendToLoop :: "string \<Rightarrow> grant_to list \<Rightarrow> bool" where
  "backendToLoop serviceName [] = False"
| "backendToLoop serviceName (t # ts) =
     (if gtGroup t = [] \<and> gtKind t = KindService \<and> (gtName t = None \<or> gtName t = Some serviceName)
      then True else backendToLoop serviceName ts)"

fun backendGrantLoop :: "string \<Rightarrow> string \<Rightarrow> string \<Rightarrow> reference_grant list \<Rightarrow> bool" where
  "backendGrantLoop routeKind routeNamespace serviceName [] = False"
| "backendGrantLoop routeKind routeNamespace serviceName (g # gs) =
     (if \<not> backendFromLoop routeKind routeNamespace (rgFrom g)
      then backendGrantLoop routeKind routeNamespace serviceName gs
      else if backendToLoop serviceName (rgTo g) then True
      else backendGrantLoop routeKind routeNamespace serviceName gs)"

definition backendReferenceGranted ::
  "(string \<Rightarrow> go_error + reference_grant list) \<Rightarrow> string \<Rightarrow> string \<Rightarrow> string \<Rightarrow> string
     \<Rightarrow> go_error + bool" where
  "backendReferenceGranted listGrants routeKind routeNamespace serviceNamespace serviceName =
     (if routeNamespace = serviceNamespace then Inr True
      else case listGrants serviceNamespace of
             Inl err \<Rightarrow>
               Inl (ErrWrap (''listing ReferenceGrants in namespace '' @ serviceNamespace @ '': '') err)
           | Inr grants \<Rightarrow> Inr (backendGrantLoop routeKind routeNamespace serviceName grants))"

section \<open>The contract of a reference check\<close>

text \<open>A grant that permits the reference from a kind and namespace to an object.\<close>

definition permits ::
  "reference_grant \<Rightarrow> string \<Rightarrow> string \<Rightarrow> string \<Rightarrow> string \<Rightarrow> bool" where
  "permits g fromKind fromNamespace toKind toName \<longleftrightarrow>
     (\<exists>f\<in>set (rgFrom g). gfGroup f = GatewayGroupName \<and> gfKind f = fromKind \<and>
        gfNamespace f = fromNamespace) \<and>
     (\<exists>t\<in>set (rgTo g). gtGroup t = [] \<and> gtKind t = toKind \<and>
        (gtName t = None \<or> gtName t = Some toName))"

locale reference_check =
  fixes granted ::
      "(string \<Rightarrow> go_error + reference_grant list) \<Rightarrow> string \<Rightarrow> string \<Rightarrow> string \<Rightarrow> go_error + bool"
    and fromKind :: string
    and toKind :: string
  assumes same_namespace: "granted lg ns ns name = Inr True"
    and list_fails: "ns \<noteq> target \<Longrightarrow> lg target = Inl err \<Longrightarrow> isl (granted lg ns target name)"
    and list_works: "ns \<noteq> target \<Longrightarrow> lg target = Inr gs \<Longrightarrow>
      granted lg ns target name = Inr (\<exists>g\<in>set gs. permits g fromKind ns toKind name)"
begin

lemma granted_iff:
  "granted lg ns target name = Inr True \<longleftrightarrow>
     ns = target \<or> (\<exists>gs. lg target = Inr gs \<and> (\<exists>g\<in>set gs. permits g fromKind ns toKind name))"
proof (cases "ns = target")
  case True
  then show ?thesis using same_namespace by simp
next
  case False
  show ?thesis
  proof (cases "lg target")
    case (Inl err)
    then show ?thesis using False list_fails [OF False, of lg err name] by auto
  next
    case (Inr gs)
    then show ?thesis using False list_works [OF False, of lg gs name] by auto
  qed
qed

lemma denied_without_grant:
  assumes "ns \<noteq> target" and "lg target = Inr gs"
    and "\<forall>g\<in>set gs. \<not> permits g fromKind ns toKind name"
  shows "granted lg ns target name = Inr False"
  using list_works [OF assms(1), of lg gs name] assms(2,3) by auto

end

lemma secretGrantLoop_iff:
  "secretGrantLoop ns name gs \<longleftrightarrow> (\<exists>g\<in>set gs. permits g KindGateway ns KindSecret name)"
proof -
  have "secretFromLoop ns fs \<longleftrightarrow> (\<exists>f\<in>set fs. gfGroup f = GatewayGroupName \<and> gfKind f = KindGateway \<and>
      gfNamespace f = ns)" for fs
    by (induction fs) auto
  moreover have "secretToLoop name ts \<longleftrightarrow> (\<exists>t\<in>set ts. gtGroup t = [] \<and> gtKind t = KindSecret \<and>
      (gtName t = None \<or> gtName t = Some name))" for ts
    by (induction ts) auto
  ultimately show ?thesis by (induction gs) (auto simp: permits_def)
qed

lemma backendGrantLoop_iff:
  "backendGrantLoop k ns name gs \<longleftrightarrow> (\<exists>g\<in>set gs. permits g k ns KindService name)"
proof -
  have "backendFromLoop k ns fs \<longleftrightarrow> (\<exists>f\<in>set fs. gfGroup f = GatewayGroupName \<and> gfKind f = k \<and>
      gfNamespace f = ns)" for fs
    by (induction fs) auto
  moreover have "backendToLoop name ts \<longleftrightarrow> (\<exists>t\<in>set ts. gtGroup t = [] \<and> gtKind t = KindService \<and>
      (gtName t = None \<or> gtName t = Some name))" for ts
    by (induction ts) auto
  ultimately show ?thesis by (induction gs) (auto simp: permits_def)
qed

interpretation secret: reference_check secretReferenceGranted KindGateway KindSecret
  by unfold_locales (simp_all add: secretReferenceGranted_def secretGrantLoop_iff)

interpretation backend: reference_check "\<lambda>lg. backendReferenceGranted lg k" k KindService for k
  by unfold_locales (simp_all add: backendReferenceGranted_def backendGrantLoop_iff)

section \<open>Properties\<close>


end
