(* ===== verification/RouteObjects.thy ===== *)
theory RouteObjects
  imports ReferenceGrants ProxyConfig
begin

text \<open>
  internal/controller/route.go and the route parsing of gateway_routes.go: HTTPRoutes and
  GRPCRoutes behind the interface \<^verbatim>\<open>routeObject\<close>, which features of them are supported, and
  the proxy routes they are turned into.  The interface is the datatype of its two
  implementations with one function per method; the pointer the Go methods mutate through is
  replaced by returning the changed object.  \<open>lg\<close> lists the ReferenceGrants of a namespace.
\<close>

section \<open>The interface\<close>

datatype routeObject = HTTPObj http_route | GRPCObj grpc_route

fun objCommon :: "routeObject \<Rightarrow> route_common" where
  "objCommon (HTTPObj h) = htCommon h"
| "objCommon (GRPCObj g) = grtCommon g"

fun routeKind :: "routeObject \<Rightarrow> string" where
  "routeKind (HTTPObj h) = KindHTTPRoute"
| "routeKind (GRPCObj g) = KindGRPCRoute"

definition routeKey :: "routeObject \<Rightarrow> namespaced_name" where
  "routeKey r = (rtNamespace (objCommon r), rtName (objCommon r))"

text \<open>\<^verbatim>\<open>NamespacedName.String\<close>, which the messages print.\<close>

definition keyString :: "routeObject \<Rightarrow> string" where
  "keyString r = rtNamespace (objCommon r) @ ''/'' @ rtName (objCommon r)"

definition generation :: "routeObject \<Rightarrow> int" where
  "generation r = rtGeneration (objCommon r)"

definition parentRefs :: "routeObject \<Rightarrow> parent_ref list" where
  "parentRefs r = rtParentRefs (objCommon r)"

definition hostnames :: "routeObject \<Rightarrow> string list" where
  "hostnames r = rtHostnames (objCommon r)"

definition routeParents :: "routeObject \<Rightarrow> route_parent_status list" where
  "routeParents r = rtParents (objCommon r)"

fun setRouteParents :: "routeObject \<Rightarrow> route_parent_status list \<Rightarrow> routeObject" where
  "setRouteParents (HTTPObj h) ps = HTTPObj (h\<lparr>htCommon := (htCommon h)\<lparr>rtParents := ps\<rparr>\<rparr>)"
| "setRouteParents (GRPCObj g) ps = GRPCObj (g\<lparr>grtCommon := (grtCommon g)\<lparr>rtParents := ps\<rparr>\<rparr>)"

section \<open>Paths and routing keys\<close>

fun pathFromMatches :: "http_match list \<Rightarrow> string" where
  "pathFromMatches [] = []"
| "pathFromMatches (m # ms) =
     (case hmPath m of
        None \<Rightarrow> pathFromMatches ms
      | Some p \<Rightarrow>
          if pmType p = None \<or> pmType p = Some ''PathPrefix''
          then (case pmValue p of Some v \<Rightarrow> v | None \<Rightarrow> pathFromMatches ms)
          else pathFromMatches ms)"

record hostnamePathKey =
  hpkHostname :: string
  hpkPath :: string
  hpkProtocol :: string

definition httpHostnamePathKeys :: "http_route \<Rightarrow> hostnamePathKey list" where
  "httpHostnamePathKeys h =
     concat (map (\<lambda>rule.
       map (\<lambda>hostname. \<lparr>hpkHostname = hostname, hpkPath = pathFromMatches (hrMatches rule),
                         hpkProtocol = []\<rparr>)
         (rtHostnames (htCommon h))) (htRules h))"

definition grpcHostnamePathKeys :: "grpc_route \<Rightarrow> hostnamePathKey list" where
  "grpcHostnamePathKeys g =
     concat (map (\<lambda>rule.
       map (\<lambda>hostname. \<lparr>hpkHostname = hostname, hpkPath = [], hpkProtocol = ''grpc''\<rparr>)
         (rtHostnames (grtCommon g))) (grtRules g))"

fun hostnamePathKeys :: "routeObject \<Rightarrow> hostnamePathKey list" where
  "hostnamePathKeys (HTTPObj h) = httpHostnamePathKeys h"
| "hostnamePathKeys (GRPCObj g) = grpcHostnamePathKeys g"

section \<open>Validation\<close>

definition parentRefIssues :: "parent_ref list \<Rightarrow> string list" where
  "parentRefIssues refs =
     concat (map (\<lambda>(i, ref). if prPort ref \<noteq> None
       then [''spec.parentRefs['' @ showNat i @ ''].port is not supported''] else []) (indexed refs))"

text \<open>The checks of one backendRef, the same in both validators.\<close>

definition backendRefIssues :: "nat \<Rightarrow> nat \<Rightarrow> backend_ref \<Rightarrow> string list" where
  "backendRefIssues i j ref =
     (let at = ''spec.rules['' @ showNat i @ ''].backendRefs['' @ showNat j @ '']'';
          grp = (case brGroup ref of None \<Rightarrow> [] | Some g \<Rightarrow> g);
          kind = (case brKind ref of None \<Rightarrow> KindService | Some k \<Rightarrow> k)
      in (if brFilters ref \<noteq> [] then [at @ ''.filters is not supported''] else [])
       @ (if grp \<noteq> [] \<or> kind \<noteq> KindService
          then [at @ '': only core Service backends are supported, got group='' @ goQuote grp
                  @ '' kind='' @ goQuote kind] else []))"

definition httpMatchIssues :: "nat \<Rightarrow> nat \<Rightarrow> http_match \<Rightarrow> string list" where
  "httpMatchIssues i j m =
     (let at = ''spec.rules['' @ showNat i @ ''].matches['' @ showNat j @ '']''
      in (if hmHeaders m \<noteq> [] then [at @ ''.headers is not supported''] else [])
       @ (if hmQueryParams m \<noteq> [] then [at @ ''.queryParams is not supported''] else [])
       @ (if hmMethod m \<noteq> None then [at @ ''.method is not supported''] else [])
       @ (case hmPath m of
            None \<Rightarrow> []
          | Some p \<Rightarrow>
              (case pmType p of
                 None \<Rightarrow> []
               | Some t \<Rightarrow> if t \<noteq> ''PathPrefix''
                   then [at @ ''.path.type '' @ goQuote t
                           @ '' is not supported; only PathPrefix is supported''] else [])))"

definition httpRuleIssues :: "nat \<Rightarrow> http_rule \<Rightarrow> string list" where
  "httpRuleIssues i rule =
     (let at = ''spec.rules['' @ showNat i @ '']''
      in (if hrFilters rule \<noteq> [] then [at @ ''.filters is not supported''] else [])
       @ (if hrHasTimeouts rule then [at @ ''.timeouts is not supported''] else [])
       @ (if hrHasRetry rule then [at @ ''.retry is not supported''] else [])
       @ (if hrBackendRefs rule = []
          then [at @ ''.backendRefs: at least one backend is required''] else [])
       @ concat (map (\<lambda>(j, ref). backendRefIssues i j ref) (indexed (hrBackendRefs rule)))
       @ concat (map (\<lambda>(j, m). httpMatchIssues i j m) (indexed (hrMatches rule))))"

definition validateHTTPRoute :: "http_route \<Rightarrow> string list" where
  "validateHTTPRoute h =
     parentRefIssues (rtParentRefs (htCommon h))
     @ concat (map (\<lambda>(i, rule). httpRuleIssues i rule) (indexed (htRules h)))"

definition grpcMatchIssues :: "nat \<Rightarrow> nat \<Rightarrow> grpc_match \<Rightarrow> string list" where
  "grpcMatchIssues i j m =
     (let at = ''spec.rules['' @ showNat i @ ''].matches['' @ showNat j @ '']''
      in (if gmMethod m \<noteq> None then [at @ ''.method is not supported''] else [])
       @ (if gmHeaders m \<noteq> [] then [at @ ''.headers is not supported''] else []))"

definition grpcRuleIssues :: "nat \<Rightarrow> grpc_rule \<Rightarrow> string list" where
  "grpcRuleIssues i rule =
     (let at = ''spec.rules['' @ showNat i @ '']''
      in (if grFilters rule \<noteq> [] then [at @ ''.filters is not supported''] else [])
       @ (if grBackendRefs rule = []
          then [at @ ''.backendRefs: at least one backend is required''] else [])
       @ concat (map (\<lambda>(j, ref). backendRefIssues i j ref) (indexed (grBackendRefs rule)))
       @ concat (map (\<lambda>(j, m). grpcMatchIssues i j m) (indexed (grMatches rule))))"

definition validateGRPCRoute :: "grpc_route \<Rightarrow> string list" where
  "validateGRPCRoute g =
     parentRefIssues (rtParentRefs (grtCommon g))
     @ concat (map (\<lambda>(i, rule). grpcRuleIssues i rule) (indexed (grtRules g)))"

fun validateRoute :: "routeObject \<Rightarrow> string list" where
  "validateRoute (HTTPObj h) = validateHTTPRoute h"
| "validateRoute (GRPCObj g) = validateGRPCRoute g"

section \<open>Proxy routes\<close>

definition resolveBackendRef ::
  "(string \<Rightarrow> go_error + reference_grant list) \<Rightarrow> string \<Rightarrow> string \<Rightarrow> string \<Rightarrow> backend_ref
     \<Rightarrow> go_error + backend option \<times> string" where
  "resolveBackendRef lg kind routeNamespace routeName ref =
     (let ns = (case brNamespace ref of None \<Rightarrow> routeNamespace | Some n \<Rightarrow> n)
      in case backendReferenceGranted lg kind routeNamespace ns (brName ref) of
           Inl err \<Rightarrow>
             Inl (ErrWrap (''checking ReferenceGrant for backendRef '' @ ns @ ''/'' @ brName ref
                    @ '' in '' @ kind @ '' '' @ routeNamespace @ ''/'' @ routeName @ '': '') err)
         | Inr granted \<Rightarrow>
             if \<not> granted then Inr (None, ns @ ''/'' @ brName ref)
             else
               (let port = (case brPort ref of None \<Rightarrow> 80 | Some p \<Rightarrow> p);
                    weight = (case brWeight ref of None \<Rightarrow> 1 | Some k \<Rightarrow> k);
                    service = ''http://'' @ brName ref @ ''.'' @ ns @ ''.svc.cluster.local:''
                                @ showInt port
                in Inr (Some \<lparr>beService = service, beWeight = weight, beURL = None, beID = []\<rparr>,
                        [])))"

text \<open>The loop over a rule's backendRefs: the backends, whether one was denied, the denied.\<close>

fun resolveRefsLoop ::
  "(string \<Rightarrow> go_error + reference_grant list) \<Rightarrow> string \<Rightarrow> string \<Rightarrow> string \<Rightarrow> backend_ref list
     \<Rightarrow> backend list \<Rightarrow> bool \<Rightarrow> string list \<Rightarrow> go_error + backend list \<times> bool \<times> string list" where
  "resolveRefsLoop lg kind ns name [] backends denied deniedRefs = Inr (backends, denied, deniedRefs)"
| "resolveRefsLoop lg kind ns name (ref # refs) backends denied deniedRefs =
     (case resolveBackendRef lg kind ns name ref of
        Inl err \<Rightarrow> Inl err
      | Inr (b, deniedRef) \<Rightarrow>
          if deniedRef \<noteq> []
          then resolveRefsLoop lg kind ns name refs backends True (deniedRefs @ [deniedRef])
          else resolveRefsLoop lg kind ns name refs (backends @ [the b]) denied deniedRefs)"

definition buildSessionPersistence :: "session_spec option \<Rightarrow> session_persistence option" where
  "buildSessionPersistence sp =
     (case sp of
        None \<Rightarrow> None
      | Some s \<Rightarrow>
          (let t = (case ssType s of None \<Rightarrow> ''Cookie'' | Some x \<Rightarrow> x);
               name = (case ssSessionName s of
                         Some n \<Rightarrow> n
                       | None \<Rightarrow> if t = ''Header'' then ''X-Cgw-Session'' else ''cgw-session'');
               lifetime = (case ssCookieConfig s of
                             Some (Some l) \<Rightarrow> l | _ \<Rightarrow> ''Session'')
           in Some \<lparr>spType = t, spSessionName = name,
                    spAbsoluteTimeout = (case ssAbsoluteTimeout s of None \<Rightarrow> [] | Some a \<Rightarrow> a),
                    spIdleTimeout = [], spCookieLifetimeType = lifetime,
                    spAbsolute = 0, spIdle = 0\<rparr>))"

text \<open>The loop over the rules of an HTTPRoute, with the routes and denied references so far.\<close>

fun httpRulesLoop ::
  "(string \<Rightarrow> go_error + reference_grant list) \<Rightarrow> route_common \<Rightarrow> http_rule list \<Rightarrow> route list
     \<Rightarrow> string list \<Rightarrow> go_error + route list \<times> string list" where
  "httpRulesLoop lg c [] routes denied = Inr (routes, denied)"
| "httpRulesLoop lg c (rule # rules) routes allDenied =
     (if hrBackendRefs rule = [] then httpRulesLoop lg c rules routes allDenied
      else case resolveRefsLoop lg KindHTTPRoute (rtNamespace c) (rtName c) (hrBackendRefs rule)
                  [] False allDenied of
             Inl err \<Rightarrow> Inl err
           | Inr (backends, denied, allDenied') \<Rightarrow>
               if denied \<or> backends = [] then httpRulesLoop lg c rules routes allDenied'
               else httpRulesLoop lg c rules
                      (routes @ map (\<lambda>hostname.
                         \<lparr>roHostname = hostname, roPathPrefix = pathFromMatches (hrMatches rule),
                          roProtocol = [], roOwner = rtNamespace c @ ''/'' @ rtName c,
                          roOwnerKind = KindHTTPRoute, roBackends = backends,
                          roSession = buildSessionPersistence (hrSession rule),
                          roTotalWeight = 0\<rparr>) (rtHostnames c))
                      allDenied')"

fun grpcRulesLoop ::
  "(string \<Rightarrow> go_error + reference_grant list) \<Rightarrow> route_common \<Rightarrow> grpc_rule list \<Rightarrow> route list
     \<Rightarrow> string list \<Rightarrow> go_error + route list \<times> string list" where
  "grpcRulesLoop lg c [] routes denied = Inr (routes, denied)"
| "grpcRulesLoop lg c (rule # rules) routes allDenied =
     (if grBackendRefs rule = [] then grpcRulesLoop lg c rules routes allDenied
      else case resolveRefsLoop lg KindGRPCRoute (rtNamespace c) (rtName c) (grBackendRefs rule)
                  [] False allDenied of
             Inl err \<Rightarrow> Inl err
           | Inr (backends, denied, allDenied') \<Rightarrow>
               if denied \<or> backends = [] then grpcRulesLoop lg c rules routes allDenied'
               else grpcRulesLoop lg c rules
                      (routes @ map (\<lambda>hostname.
                         \<lparr>roHostname = hostname, roPathPrefix = [], roProtocol = ''grpc'',
                          roOwner = rtNamespace c @ ''/'' @ rtName c,
                          roOwnerKind = KindGRPCRoute, roBackends = backends,
                          roSession = buildSessionPersistence (grSession rule),
                          roTotalWeight = 0\<rparr>) (rtHostnames c))
                      allDenied')"

fun buildProxyRoutes ::
  "(string \<Rightarrow> go_error + reference_grant list) \<Rightarrow> routeObject \<Rightarrow> go_error + route list \<times> string list" where
  "buildProxyRoutes lg (HTTPObj h) = httpRulesLoop lg (htCommon h) (htRules h) [] []"
| "buildProxyRoutes lg (GRPCObj g) = grpcRulesLoop lg (grtCommon g) (grtRules g) [] []"

section \<open>Attachment to a Gateway\<close>

definition parentRefMatches :: "parent_ref \<Rightarrow> gateway \<Rightarrow> string \<Rightarrow> bool" where
  "parentRefMatches ref gw routeNamespace =
     (if (case prGroup ref of None \<Rightarrow> False | Some g \<Rightarrow> g \<noteq> GatewayGroupName) then False
      else if (case prKind ref of None \<Rightarrow> False | Some k \<Rightarrow> k \<noteq> KindGateway) then False
      else if prName ref \<noteq> gwName gw then False
      else (case prNamespace ref of None \<Rightarrow> routeNamespace | Some n \<Rightarrow> n) = gwNamespace gw)"

fun kindAllowedLoop :: "string \<Rightarrow> route_group_kind list \<Rightarrow> bool" where
  "kindAllowedLoop kind [] = False"
| "kindAllowedLoop kind (k # ks) =
     (if (case rgkGroup k of None \<Rightarrow> GatewayGroupName | Some g \<Rightarrow> g) = GatewayGroupName \<and>
         rgkKind k = kind
      then True else kindAllowedLoop kind ks)"

definition listenerAllowsKind :: "listener \<Rightarrow> string \<Rightarrow> bool" where
  "listenerAllowsKind l kind =
     (case lAllowedRoutes l of
        None \<Rightarrow> kind = KindHTTPRoute \<or> kind = KindGRPCRoute
      | Some ar \<Rightarrow>
          if arKinds ar = [] then kind = KindHTTPRoute \<or> kind = KindGRPCRoute
          else kindAllowedLoop kind (arKinds ar))"

fun matchingListenerLoop :: "gateway \<Rightarrow> string \<Rightarrow> string \<Rightarrow> parent_ref list \<Rightarrow> bool" where
  "matchingListenerLoop gw ns kind [] = False"
| "matchingListenerLoop gw ns kind (ref # refs) =
     (if \<not> parentRefMatches ref gw ns then matchingListenerLoop gw ns kind refs
      else case prSectionName ref of
             None \<Rightarrow>
               if \<exists>l\<in>set (gwListeners gw). listenerAllowsKind l kind then True
               else matchingListenerLoop gw ns kind refs
           | Some s \<Rightarrow>
               if \<exists>l\<in>set (gwListeners gw). lName l = s \<and> listenerAllowsKind l kind then True
               else matchingListenerLoop gw ns kind refs)"

definition hasMatchingListener :: "gateway \<Rightarrow> routeObject \<Rightarrow> bool" where
  "hasMatchingListener gw r =
     matchingListenerLoop gw (rtNamespace (objCommon r)) (routeKind r) (parentRefs r)"

section \<open>Lemmas on validation\<close>

lemma indexed_nil_iff:
  assumes "\<And>i x. f i x = [] \<longleftrightarrow> P x"
  shows "concat (map (\<lambda>(i, x). f i x) (indexed xs)) = [] \<longleftrightarrow> (\<forall>x\<in>set xs. P x)"
proof -
  have "concat (map (\<lambda>(i, x). f i x) (indexed xs)) = [] \<longleftrightarrow> (\<forall>ix\<in>set (indexed xs). P (snd ix))"
    using assms by (auto simp: concat_eq_Nil_iff)
  also have "\<dots> \<longleftrightarrow> (\<forall>x\<in>set (map snd (indexed xs)). P x)"
    unfolding set_map by blast
  finally show ?thesis by simp
qed

definition coreService :: "backend_ref \<Rightarrow> bool" where
  "coreService ref \<longleftrightarrow>
     brFilters ref = [] \<and> brGroup ref \<in> {None, Some []} \<and> brKind ref \<in> {None, Some KindService}"

lemma backendRefIssues_nil: "backendRefIssues i j ref = [] \<longleftrightarrow> coreService ref"
  by (auto simp: backendRefIssues_def coreService_def Let_def split: option.splits)

definition supportedHTTPMatch :: "http_match \<Rightarrow> bool" where
  "supportedHTTPMatch m \<longleftrightarrow>
     hmHeaders m = [] \<and> hmQueryParams m = [] \<and> hmMethod m = None \<and>
     (\<forall>p. hmPath m = Some p \<longrightarrow> pmType p \<in> {None, Some ''PathPrefix''})"

lemma httpMatchIssues_nil: "httpMatchIssues i j m = [] \<longleftrightarrow> supportedHTTPMatch m"
  by (auto simp: httpMatchIssues_def supportedHTTPMatch_def Let_def split: option.splits)

definition supportedHTTPRule :: "http_rule \<Rightarrow> bool" where
  "supportedHTTPRule rule \<longleftrightarrow>
     hrFilters rule = [] \<and> \<not> hrHasTimeouts rule \<and> \<not> hrHasRetry rule \<and> hrBackendRefs rule \<noteq> [] \<and>
     list_all coreService (hrBackendRefs rule) \<and> list_all supportedHTTPMatch (hrMatches rule)"

lemma httpRuleIssues_nil: "httpRuleIssues i rule = [] \<longleftrightarrow> supportedHTTPRule rule"
  using indexed_nil_iff [of "backendRefIssues i" coreService "hrBackendRefs rule"]
    indexed_nil_iff [of "httpMatchIssues i" supportedHTTPMatch "hrMatches rule"]
  by (simp add: httpRuleIssues_def supportedHTTPRule_def Let_def list_all_iff
      backendRefIssues_nil httpMatchIssues_nil del: concat_eq_Nil_conv)

definition supportedGRPCRule :: "grpc_rule \<Rightarrow> bool" where
  "supportedGRPCRule rule \<longleftrightarrow>
     grFilters rule = [] \<and> grBackendRefs rule \<noteq> [] \<and> list_all coreService (grBackendRefs rule) \<and>
     list_all (\<lambda>m. gmMethod m = None \<and> gmHeaders m = []) (grMatches rule)"

lemma grpcRuleIssues_nil: "grpcRuleIssues i rule = [] \<longleftrightarrow> supportedGRPCRule rule"
proof -
  have "grpcMatchIssues i j m = [] \<longleftrightarrow> gmMethod m = None \<and> gmHeaders m = []" for j m
    by (simp add: grpcMatchIssues_def Let_def)
  then show ?thesis
    using indexed_nil_iff [of "backendRefIssues i" coreService "grBackendRefs rule"]
      indexed_nil_iff [of "grpcMatchIssues i" "\<lambda>m. gmMethod m = None \<and> gmHeaders m = []"
        "grMatches rule"]
    by (simp add: grpcRuleIssues_def supportedGRPCRule_def Let_def list_all_iff
        backendRefIssues_nil del: concat_eq_Nil_conv)
qed

lemma parentRefIssues_nil: "parentRefIssues refs = [] \<longleftrightarrow> (\<forall>ref\<in>set refs. prPort ref = None)"
  unfolding parentRefIssues_def by (rule indexed_nil_iff) simp

section \<open>Lemmas on proxy routes\<close>

definition refNamespace :: "string \<Rightarrow> backend_ref \<Rightarrow> string" where
  "refNamespace routeNs ref = (case brNamespace ref of None \<Rightarrow> routeNs | Some n \<Rightarrow> n)"

definition refGranted ::
  "(string \<Rightarrow> go_error + reference_grant list) \<Rightarrow> string \<Rightarrow> string \<Rightarrow> backend_ref \<Rightarrow> bool" where
  "refGranted lg kind ns ref \<longleftrightarrow>
     backendReferenceGranted lg kind ns (refNamespace ns ref) (brName ref) = Inr True"

definition refBackend :: "string \<Rightarrow> backend_ref \<Rightarrow> backend" where
  "refBackend ns ref =
     \<lparr>beService = ''http://'' @ brName ref @ ''.'' @ refNamespace ns ref @ ''.svc.cluster.local:''
         @ showInt (case brPort ref of None \<Rightarrow> 80 | Some p \<Rightarrow> p),
      beWeight = (case brWeight ref of None \<Rightarrow> 1 | Some k \<Rightarrow> k), beURL = None, beID = []\<rparr>"

definition refDescription :: "string \<Rightarrow> backend_ref \<Rightarrow> string" where
  "refDescription ns ref = refNamespace ns ref @ ''/'' @ brName ref"

lemma resolveBackendRef_Inr:
  assumes "resolveBackendRef lg kind ns name ref = Inr (b, d)"
  shows "if refGranted lg kind ns ref then b = Some (refBackend ns ref) \<and> d = []
         else d = refDescription ns ref \<and> d \<noteq> []"
  using assms
  by (auto simp: resolveBackendRef_def refGranted_def refBackend_def refDescription_def
      refNamespace_def Let_def split: sum.splits if_splits)

lemma resolveRefsLoop_Inr:
  "resolveRefsLoop lg kind ns name refs bs denied ds = Inr (bs', denied', ds') \<Longrightarrow>
     bs' = bs @ map (refBackend ns) (filter (refGranted lg kind ns) refs) \<and>
     denied' = (denied \<or> \<not> list_all (refGranted lg kind ns) refs) \<and>
     ds' = ds @ map (refDescription ns) (filter (\<lambda>r. \<not> refGranted lg kind ns r) refs)"
proof (induction refs arbitrary: bs denied ds)
  case Nil
  then show ?case by simp
next
  case (Cons ref refs)
  then obtain b d where r: "resolveBackendRef lg kind ns name ref = Inr (b, d)"
    by (auto split: sum.splits)
  show ?case
  proof (cases "refGranted lg kind ns ref")
    case True
    then have "b = Some (refBackend ns ref)" "d = []"
      using resolveBackendRef_Inr [OF r] by auto
    then show ?thesis
      using Cons.IH [of "bs @ [refBackend ns ref]" denied ds] Cons.prems True r by simp
  next
    case False
    then have "d = refDescription ns ref" "d \<noteq> []"
      using resolveBackendRef_Inr [OF r] by auto
    then show ?thesis
      using Cons.IH [of bs True "ds @ [refDescription ns ref]"] Cons.prems False r by simp
  qed
qed

text \<open>What the rules contribute: nothing when they have no backend or a denied one.\<close>

definition ruleServed ::
  "(string \<Rightarrow> go_error + reference_grant list) \<Rightarrow> string \<Rightarrow> string \<Rightarrow> backend_ref list \<Rightarrow> bool" where
  "ruleServed lg kind ns refs \<longleftrightarrow> refs \<noteq> [] \<and> list_all (refGranted lg kind ns) refs"

definition ruleDenied ::
  "(string \<Rightarrow> go_error + reference_grant list) \<Rightarrow> string \<Rightarrow> string \<Rightarrow> backend_ref list \<Rightarrow> string list" where
  "ruleDenied lg kind ns refs =
     map (refDescription ns) (filter (\<lambda>r. \<not> refGranted lg kind ns r) refs)"

definition proxyRoute ::
  "route_common \<Rightarrow> string \<Rightarrow> string \<Rightarrow> string \<Rightarrow> backend_ref list \<Rightarrow> session_spec option \<Rightarrow> string
     \<Rightarrow> route" where
  "proxyRoute c kind path protocol refs sess hostname =
     \<lparr>roHostname = hostname, roPathPrefix = path, roProtocol = protocol,
      roOwner = rtNamespace c @ ''/'' @ rtName c, roOwnerKind = kind,
      roBackends = map (refBackend (rtNamespace c)) refs,
      roSession = buildSessionPersistence sess, roTotalWeight = 0\<rparr>"

definition httpRuleRoutes ::
  "(string \<Rightarrow> go_error + reference_grant list) \<Rightarrow> route_common \<Rightarrow> http_rule \<Rightarrow> route list" where
  "httpRuleRoutes lg c rule =
     (if ruleServed lg KindHTTPRoute (rtNamespace c) (hrBackendRefs rule)
      then map (proxyRoute c KindHTTPRoute (pathFromMatches (hrMatches rule)) [] (hrBackendRefs rule)
                  (hrSession rule)) (rtHostnames c)
      else [])"

definition grpcRuleRoutes ::
  "(string \<Rightarrow> go_error + reference_grant list) \<Rightarrow> route_common \<Rightarrow> grpc_rule \<Rightarrow> route list" where
  "grpcRuleRoutes lg c rule =
     (if ruleServed lg KindGRPCRoute (rtNamespace c) (grBackendRefs rule)
      then map (proxyRoute c KindGRPCRoute [] ''grpc'' (grBackendRefs rule) (grSession rule))
             (rtHostnames c)
      else [])"

lemma resolveRefs_rule:
  assumes "resolveRefsLoop lg kind ns name refs [] False ds = Inr (bs, denied, ds')" "refs \<noteq> []"
  shows "ds' = ds @ ruleDenied lg kind ns refs" "denied \<or> bs = [] \<longleftrightarrow> \<not> ruleServed lg kind ns refs"
    "ruleServed lg kind ns refs \<Longrightarrow> bs = map (refBackend ns) refs"
proof -
  note r = resolveRefsLoop_Inr [OF assms(1)]
  have all: "list_all (refGranted lg kind ns) refs \<Longrightarrow> filter (refGranted lg kind ns) refs = refs"
    by (simp add: list_all_iff)
  show "ds' = ds @ ruleDenied lg kind ns refs" using r by (simp add: ruleDenied_def)
  show "ruleServed lg kind ns refs \<Longrightarrow> bs = map (refBackend ns) refs"
    using r all by (simp add: ruleServed_def)
  show "denied \<or> bs = [] \<longleftrightarrow> \<not> ruleServed lg kind ns refs"
    using r all assms(2) by (auto simp: ruleServed_def)
qed

lemma httpRulesLoop_Inr:
  "httpRulesLoop lg c rules rs ds = Inr (rs', ds') \<Longrightarrow>
     rs' = rs @ concat (map (httpRuleRoutes lg c) rules) \<and>
     ds' = ds @ concat (map (\<lambda>r. ruleDenied lg KindHTTPRoute (rtNamespace c) (hrBackendRefs r)) rules)"
proof (induction rules arbitrary: rs ds)
  case (Cons rule rules)
  show ?case
  proof (cases "hrBackendRefs rule = []")
    case True
    then show ?thesis
      using Cons.IH [of rs ds] Cons.prems
      by (simp add: httpRuleRoutes_def ruleServed_def ruleDenied_def)
  next
    case False
    then obtain bs denied ds1 where r: "resolveRefsLoop lg KindHTTPRoute (rtNamespace c) (rtName c)
        (hrBackendRefs rule) [] False ds = Inr (bs, denied, ds1)"
      using Cons.prems by (auto split: sum.splits)
    note rule = resolveRefs_rule [OF r False]
    let ?new = "httpRuleRoutes lg c rule"
    have "httpRulesLoop lg c (rule # rules) rs ds = httpRulesLoop lg c rules (rs @ ?new) ds1"
      using False r rule
      by (cases "ruleServed lg KindHTTPRoute (rtNamespace c) (hrBackendRefs rule)")
         (simp_all add: httpRuleRoutes_def proxyRoute_def [abs_def])
    then show ?thesis using Cons.IH [of "rs @ ?new" ds1] Cons.prems rule(1) by simp
  qed
qed simp

lemma grpcRulesLoop_Inr:
  "grpcRulesLoop lg c rules rs ds = Inr (rs', ds') \<Longrightarrow>
     rs' = rs @ concat (map (grpcRuleRoutes lg c) rules) \<and>
     ds' = ds @ concat (map (\<lambda>r. ruleDenied lg KindGRPCRoute (rtNamespace c) (grBackendRefs r)) rules)"
proof (induction rules arbitrary: rs ds)
  case (Cons rule rules)
  show ?case
  proof (cases "grBackendRefs rule = []")
    case True
    then show ?thesis
      using Cons.IH [of rs ds] Cons.prems
      by (simp add: grpcRuleRoutes_def ruleServed_def ruleDenied_def)
  next
    case False
    then obtain bs denied ds1 where r: "resolveRefsLoop lg KindGRPCRoute (rtNamespace c) (rtName c)
        (grBackendRefs rule) [] False ds = Inr (bs, denied, ds1)"
      using Cons.prems by (auto split: sum.splits)
    note rule = resolveRefs_rule [OF r False]
    let ?new = "grpcRuleRoutes lg c rule"
    have "grpcRulesLoop lg c (rule # rules) rs ds = grpcRulesLoop lg c rules (rs @ ?new) ds1"
      using False r rule
      by (cases "ruleServed lg KindGRPCRoute (rtNamespace c) (grBackendRefs rule)")
         (simp_all add: grpcRuleRoutes_def proxyRoute_def [abs_def])
    then show ?thesis using Cons.IH [of "rs @ ?new" ds1] Cons.prems rule(1) by simp
  qed
qed simp

text \<open>A reference whose check failed, which fails the whole route.\<close>

definition refFails ::
  "(string \<Rightarrow> go_error + reference_grant list) \<Rightarrow> string \<Rightarrow> string \<Rightarrow> backend_ref \<Rightarrow> bool" where
  "refFails lg kind ns ref \<longleftrightarrow>
     isl (backendReferenceGranted lg kind ns (refNamespace ns ref) (brName ref))"

lemma resolveBackendRef_isl:
  "isl (resolveBackendRef lg kind ns name ref) \<longleftrightarrow> refFails lg kind ns ref"
  by (auto simp: resolveBackendRef_def refFails_def refNamespace_def Let_def split: sum.splits)

lemma resolveRefsLoop_isl:
  "isl (resolveRefsLoop lg kind ns name refs bs denied ds) \<longleftrightarrow> list_ex (refFails lg kind ns) refs"
proof (induction refs arbitrary: bs denied ds)
  case (Cons ref refs)
  then show ?case
    using resolveBackendRef_isl [of lg kind ns name ref]
    by (cases "resolveBackendRef lg kind ns name ref") (auto split: if_splits)
qed simp

lemma httpRulesLoop_isl:
  "isl (httpRulesLoop lg c rules rs ds) \<longleftrightarrow>
     list_ex (\<lambda>rule. list_ex (refFails lg KindHTTPRoute (rtNamespace c)) (hrBackendRefs rule)) rules"
proof (induction rules arbitrary: rs ds)
  case (Cons rule rules)
  then show ?case
    using resolveRefsLoop_isl [of lg KindHTTPRoute "rtNamespace c" "rtName c" "hrBackendRefs rule"
        "[]" False ds]
    by (cases "resolveRefsLoop lg KindHTTPRoute (rtNamespace c) (rtName c) (hrBackendRefs rule)
          [] False ds") (auto split: if_splits)
qed simp

lemma grpcRulesLoop_isl:
  "isl (grpcRulesLoop lg c rules rs ds) \<longleftrightarrow>
     list_ex (\<lambda>rule. list_ex (refFails lg KindGRPCRoute (rtNamespace c)) (grBackendRefs rule)) rules"
proof (induction rules arbitrary: rs ds)
  case (Cons rule rules)
  then show ?case
    using resolveRefsLoop_isl [of lg KindGRPCRoute "rtNamespace c" "rtName c" "grBackendRefs rule"
        "[]" False ds]
    by (cases "resolveRefsLoop lg KindGRPCRoute (rtNamespace c) (rtName c) (grBackendRefs rule)
          [] False ds") (auto split: if_splits)
qed simp

section \<open>Properties\<close>

text \<open>
  The validators accept exactly the supported routes: no parent port and, for each rule,
  no filters, timeouts or retries, at least one backend, core Services without filters only,
  and for HTTP only path-prefix matches without headers, query parameters or method, for
  gRPC only matches without method or headers.
\<close>

lemma validateRoute_supported:
  "(validateRoute (HTTPObj h) = [] \<longleftrightarrow>
      list_all (\<lambda>ref. prPort ref = None) (rtParentRefs (htCommon h)) \<and>
      list_all supportedHTTPRule (htRules h))
   \<and> (validateRoute (GRPCObj g) = [] \<longleftrightarrow>
      list_all (\<lambda>ref. prPort ref = None) (rtParentRefs (grtCommon g)) \<and>
      list_all supportedGRPCRule (grtRules g))"
  using indexed_nil_iff [of httpRuleIssues supportedHTTPRule "htRules h"]
    indexed_nil_iff [of grpcRuleIssues supportedGRPCRule "grtRules g"]
  by (simp add: validateHTTPRoute_def validateGRPCRoute_def parentRefIssues_nil httpRuleIssues_nil
      grpcRuleIssues_nil list_all_iff del: concat_eq_Nil_conv)

text \<open>
  C10. What \<^verbatim>\<open>buildProxyRoutes\<close> serves: it fails exactly when some reference check fails;
  otherwise it gives, rule by rule and hostname by hostname, one proxy route to all the
  backends of the rule, in their order, with the path, session and owner of the route, but
  for a rule without backends or with any backend that is not granted it serves nothing, and
  it reports exactly the backends that were not granted.
\<close>

theorem buildProxyRoutes_served:
  "(case buildProxyRoutes lg (HTTPObj h) of
      Inl e \<Rightarrow> list_ex (\<lambda>rule. list_ex (refFails lg KindHTTPRoute (rtNamespace (htCommon h)))
                 (hrBackendRefs rule)) (htRules h)
    | Inr (rs, ds) \<Rightarrow>
        rs = concat (map (httpRuleRoutes lg (htCommon h)) (htRules h)) \<and>
        ds = concat (map (\<lambda>rule. ruleDenied lg KindHTTPRoute (rtNamespace (htCommon h))
               (hrBackendRefs rule)) (htRules h)) \<and>
        \<not> list_ex (\<lambda>rule. list_ex (refFails lg KindHTTPRoute (rtNamespace (htCommon h)))
             (hrBackendRefs rule)) (htRules h))
   \<and> (case buildProxyRoutes lg (GRPCObj g) of
      Inl e \<Rightarrow> list_ex (\<lambda>rule. list_ex (refFails lg KindGRPCRoute (rtNamespace (grtCommon g)))
                 (grBackendRefs rule)) (grtRules g)
    | Inr (rs, ds) \<Rightarrow>
        rs = concat (map (grpcRuleRoutes lg (grtCommon g)) (grtRules g)) \<and>
        ds = concat (map (\<lambda>rule. ruleDenied lg KindGRPCRoute (rtNamespace (grtCommon g))
               (grBackendRefs rule)) (grtRules g)) \<and>
        \<not> list_ex (\<lambda>rule. list_ex (refFails lg KindGRPCRoute (rtNamespace (grtCommon g)))
             (grBackendRefs rule)) (grtRules g))"
  using httpRulesLoop_isl [of lg "htCommon h" "htRules h" "[]" "[]"]
    grpcRulesLoop_isl [of lg "grtCommon g" "grtRules g" "[]" "[]"]
    httpRulesLoop_Inr [of lg "htCommon h" "htRules h" "[]" "[]"]
    grpcRulesLoop_Inr [of lg "grtCommon g" "grtRules g" "[]" "[]"]
  by (cases "buildProxyRoutes lg (HTTPObj h)"; cases "buildProxyRoutes lg (GRPCObj g)") auto

end
