(* ===== verification/DnsPolicy.thy ===== *)
theory DnsPolicy
  imports RouteObjects
begin

text \<open>
  The DNS policy of a Gateway: \<^verbatim>\<open>dnsPolicy\<close>, \<^verbatim>\<open>buildDNSPolicy\<close>, \<^verbatim>\<open>gatewayTunnelHosts\<close> and
  \<^verbatim>\<open>hostnameInZone\<close> of internal/controller/gateway_dns.go, and the per-route conditions and
  messages of gateway_routes.go that depend on it.
\<close>

abbreviation ConditionReady :: string where "ConditionReady \<equiv> ''Ready''"
abbreviation ConditionAccepted :: string where "ConditionAccepted \<equiv> ''Accepted''"
abbreviation ConditionProgrammed :: string where "ConditionProgrammed \<equiv> ''Programmed''"
abbreviation ConditionResolvedRefs :: string where "ConditionResolvedRefs \<equiv> ''ResolvedRefs''"
abbreviation ConditionDNSRecordsApplied :: string where
  "ConditionDNSRecordsApplied \<equiv> ''DNSRecordsApplied''"
abbreviation ConditionDNSManagement :: string where "ConditionDNSManagement \<equiv> ''DNSManagement''"
abbreviation ReasonReconciliationSucceeded :: string where
  "ReasonReconciliationSucceeded \<equiv> ''ReconciliationSucceeded''"
abbreviation ReasonReconciliationDisabled :: string where
  "ReasonReconciliationDisabled \<equiv> ''ReconciliationDisabled''"
abbreviation ReasonReconciliationFailed :: string where
  "ReasonReconciliationFailed \<equiv> ''ReconciliationFailed''"
abbreviation ReasonProgressingWithRetry :: string where
  "ReasonProgressingWithRetry \<equiv> ''ProgressingWithRetry''"
abbreviation ReasonEnabled :: string where "ReasonEnabled \<equiv> ''Enabled''"
abbreviation ReasonDisabled :: string where "ReasonDisabled \<equiv> ''Disabled''"

text \<open>The newline byte of the messages.\<close>

abbreviation nl :: string where "nl \<equiv> [char_of (10 :: nat)]"

section \<open>The policy\<close>

record dnsPolicy =
  dnsEnabled :: bool
  dnsZones :: "string list"

definition allZones :: "dnsPolicy \<Rightarrow> bool" where
  "allZones d \<longleftrightarrow> dnsEnabled d \<and> length (dnsZones d) = 0"

definition buildDNSPolicy :: "gateway_params option \<Rightarrow> dnsPolicy" where
  "buildDNSPolicy params =
     (case params of
        None \<Rightarrow> \<lparr>dnsEnabled = True, dnsZones = []\<rparr>
      | Some p \<Rightarrow>
          (case gpDNSZones p of
             None \<Rightarrow> \<lparr>dnsEnabled = True, dnsZones = []\<rparr>
           | Some zs \<Rightarrow>
               if length zs > 0 then \<lparr>dnsEnabled = True, dnsZones = zs\<rparr>
               else \<lparr>dnsEnabled = False, dnsZones = []\<rparr>))"

definition hostnameInZone :: "string \<Rightarrow> string \<Rightarrow> bool" where
  "hostnameInZone hostname zoneName =
     (case cutSuffix hostname (''.'' @ zoneName) of (p, ok) \<Rightarrow> ok \<and> \<not> containsStr p ''.'')"

text \<open>The loop over the status addresses; the hosts collected so far are the seen-set.\<close>

fun tunnelHostsLoop :: "status_address list \<Rightarrow> string list \<Rightarrow> string list" where
  "tunnelHostsLoop [] hosts = hosts"
| "tunnelHostsLoop (a # as) hosts =
     (if saValue a = [] then tunnelHostsLoop as hosts
      else if (case saType a of None \<Rightarrow> False | Some t \<Rightarrow> t \<noteq> ''Hostname'')
           then tunnelHostsLoop as hosts
      else if saValue a \<in> set hosts then tunnelHostsLoop as hosts
      else tunnelHostsLoop as (hosts @ [saValue a]))"

definition gatewayTunnelHosts :: "gateway \<Rightarrow> string list" where
  "gatewayTunnelHosts gw = tunnelHostsLoop (gwStatusAddresses gw) []"

section \<open>Messages and conditions of a route\<close>

definition bulletLines :: "string list \<Rightarrow> string" where
  "bulletLines hs = (if hs = [] then nl @ ''(none)'' else concat (map (\<lambda>h. nl @ ''- '' @ h) hs))"

definition routeDNSMessage :: "routeObject \<Rightarrow> dnsPolicy \<Rightarrow> string" where
  "routeDNSMessage r dns =
     (if allZones dns then ''Applied hostnames:'' @ bulletLines (hostnames r)
      else
        (let matched = (\<lambda>h. list_ex (hostnameInZone h) (dnsZones dns))
         in ''Applied hostnames:'' @ bulletLines (filter matched (hostnames r)) @ nl
            @ ''Skipped hostnames (not in any configured zone):''
            @ bulletLines (filter (\<lambda>h. \<not> matched h) (hostnames r))))"

record routeConditions =
  rcResolvedRefsStatus :: string
  rcResolvedRefsReason :: string
  rcResolvedRefsMsg :: string
  rcDNSEnabled :: bool
  rcDNSStatus :: string
  rcDNSReason :: string
  rcDNSMessage :: string
  rcReadyStatus :: string
  rcReadyReason :: string
  rcReadyMsg :: string

definition buildRouteConditions ::
  "routeObject \<Rightarrow> string list \<Rightarrow> dnsPolicy \<Rightarrow> string option \<Rightarrow> string \<Rightarrow> string \<Rightarrow> string
     \<Rightarrow> routeConditions" where
  "buildRouteConditions r deniedRefs dns dnsErr readyStatus readyReason readyMsg =
     (let denied = length deniedRefs > 0;
          downgrade = (readyStatus = ConditionTrue \<and> dnsErr \<noteq> None)
      in \<lparr>rcResolvedRefsStatus = (if denied then ConditionFalse else ConditionTrue),
          rcResolvedRefsReason = (if denied then ''RefNotPermitted'' else ''ResolvedRefs''),
          rcResolvedRefsMsg =
            (if denied
             then trimSuffix (''BackendRefs not permitted by ReferenceGrant:'' @ nl
                    @ concat (map (\<lambda>ref. ''- '' @ ref @ nl) deniedRefs)) nl
             else ''References resolved''),
          rcDNSEnabled = dnsEnabled dns,
          rcDNSStatus = (if dnsEnabled dns
             then (case dnsErr of Some e \<Rightarrow> ConditionUnknown | None \<Rightarrow> ConditionTrue) else []),
          rcDNSReason = (if dnsEnabled dns
             then (case dnsErr of Some e \<Rightarrow> ReasonProgressingWithRetry
                   | None \<Rightarrow> ReasonReconciliationSucceeded) else []),
          rcDNSMessage = (if dnsEnabled dns
             then (case dnsErr of Some e \<Rightarrow> e | None \<Rightarrow> routeDNSMessage r dns) else []),
          rcReadyStatus = (if downgrade then ConditionUnknown else readyStatus),
          rcReadyReason = (if downgrade then ReasonProgressingWithRetry else readyReason),
          rcReadyMsg = (if downgrade then the dnsErr else readyMsg)\<rparr>)"

section \<open>Lemmas\<close>

lemma hostnameInZone_iff:
  "hostnameInZone h z \<longleftrightarrow> (\<exists>label. CHR ''.'' \<notin> set label \<and> h = label @ ''.'' @ z)"
proof
  assume "hostnameInZone h z"
  then obtain p where "cutSuffix h (''.'' @ z) = (p, True)" "CHR ''.'' \<notin> set p"
    by (cases "cutSuffix h (''.'' @ z)") (auto simp: hostnameInZone_def containsStr_char)
  then show "\<exists>label. CHR ''.'' \<notin> set label \<and> h = label @ ''.'' @ z"
    using cutSuffix_True by metis
next
  assume "\<exists>label. CHR ''.'' \<notin> set label \<and> h = label @ ''.'' @ z"
  then obtain p where "cutSuffix h (''.'' @ z) = (p, True)" "CHR ''.'' \<notin> set p"
    using cutSuffix_True by metis
  then show "hostnameInZone h z"
    by (simp add: hostnameInZone_def containsStr_char)
qed

lemma tunnelHostsLoop_set:
  "set (tunnelHostsLoop as hosts) =
     set hosts \<union> {saValue a | a. a \<in> set as \<and> saValue a \<noteq> [] \<and> saType a \<in> {None, Some ''Hostname''}}"
  by (induction as hosts rule: tunnelHostsLoop.induct) (auto split: option.splits)

lemma tunnelHostsLoop_distinct: "distinct hosts \<Longrightarrow> distinct (tunnelHostsLoop as hosts)"
  by (induction as hosts rule: tunnelHostsLoop.induct) auto

section \<open>Properties\<close>

lemma hostnameInZone_inj: "hostnameInZone h z \<Longrightarrow> hostnameInZone h z' \<Longrightarrow> z = z'"
proof -
  assume "hostnameInZone h z" "hostnameInZone h z'"
  then obtain p q where "CHR ''.'' \<notin> set p" "CHR ''.'' \<notin> set q" "p @ ''.'' @ z = q @ ''.'' @ z'"
    unfolding hostnameInZone_iff by metis
  then show ?thesis using append_sep_inj [of "CHR ''.''" p q z z'] by simp
qed

text \<open>
  A hostname is in a zone exactly when it is one label without dots, a dot and the zone:
  the zone itself and deeper subdomains are not; so a hostname is in at most one zone, and
  the map from hostnames to zones does not depend on the order of the configured zones.
\<close>

lemma hostnameInZone_unique:
  "(hostnameInZone h z \<longleftrightarrow> (\<exists>label. CHR ''.'' \<notin> set label \<and> h = label @ ''.'' @ z))
   \<and> \<not> hostnameInZone z z
   \<and> (hostnameInZone h z \<and> hostnameInZone h z' \<longrightarrow> z = z')"
  using hostnameInZone_iff [of h z] hostnameInZone_iff [of z z] hostnameInZone_inj [of h z z']
  by simp

theorem hostnameInZone_unique_witness:
  "{z. hostnameInZone ''app.example.com'' z} = {''example.com''} \<and>
   \<not> hostnameInZone ''deep.app.example.com'' ''example.com''"
proof -
  have "hostnameInZone ''app.example.com'' ''example.com''"
    and "\<not> hostnameInZone ''deep.app.example.com'' ''example.com''"
    by code_simp+
  then show ?thesis
    using hostnameInZone_unique [of "''app.example.com''" "''example.com''"] by blast
qed

end
