(* ===== verification/RouteStatus.thy ===== *)
theory RouteStatus
  imports DnsPolicy
begin

text \<open>
  The status entries the controller writes on routes (internal/controller/gateway_routes.go):
  \<^verbatim>\<open>findRouteParentStatus\<close>, \<^verbatim>\<open>removeRouteStatus\<close>, \<^verbatim>\<open>updateDeniedRouteStatus\<close>,
  \<^verbatim>\<open>rejectRouteStatus\<close> and \<^verbatim>\<open>updateRouteStatus\<close>.  Each runs a closure under client-go's
  \<^verbatim>\<open>RetryOnConflict\<close>: the closure is a definition on the Kubernetes world \<open>'k\<close> and the
  variables it captures (the route object and \<^verbatim>\<open>patched\<close>), and the retry function is a
  parameter, since client-go is not under src/.  The Kubernetes API is the record \<open>kube\<close>;
  \<open>now\<close> is \<^verbatim>\<open>metav1.Now()\<close>.
\<close>

section \<open>The Kubernetes API for routes\<close>

record event =
  evObject :: routeObject
  evType :: string
  evReason :: string
  evMessage :: string

record 'k kube =
  kGetRoute :: "string \<Rightarrow> namespaced_name \<Rightarrow> 'k \<Rightarrow> (go_error + routeObject) \<times> 'k"
  kPatchRouteStatus :: "routeObject \<Rightarrow> routeObject \<Rightarrow> 'k \<Rightarrow> go_error option \<times> 'k"
  kEvent :: "event \<Rightarrow> 'k \<Rightarrow> 'k"

text \<open>What a closure captures: the object and \<^verbatim>\<open>patched\<close>; and client-go's retry.\<close>

type_synonym captured = "routeObject \<times> bool"
type_synonym 'k closure = "'k \<times> captured \<Rightarrow> go_error option \<times> ('k \<times> captured)"
type_synonym 'k retrier = "'k closure \<Rightarrow> 'k closure"

section \<open>Finding and writing the entry of a Gateway\<close>

definition ownsEntry :: "gateway \<Rightarrow> route_parent_status \<Rightarrow> bool" where
  "ownsEntry gw s \<longleftrightarrow>
     rpsControllerName s = ControllerName \<and> prName (rpsParentRef s) = gwName gw \<and>
     prNamespace (rpsParentRef s) = Some (gwNamespace gw)"

text \<open>The returned pointer is the position of the entry.\<close>

fun findEntryLoop :: "gateway \<Rightarrow> nat \<Rightarrow> route_parent_status list \<Rightarrow> nat option" where
  "findEntryLoop gw i [] = None"
| "findEntryLoop gw i (s # ss) =
     (if rpsControllerName s \<noteq> ControllerName then findEntryLoop gw (i + 1) ss
      else if prName (rpsParentRef s) \<noteq> gwName gw then findEntryLoop gw (i + 1) ss
      else if prNamespace (rpsParentRef s) = Some (gwNamespace gw) then Some i
      else findEntryLoop gw (i + 1) ss)"

definition findRouteParentStatus :: "route_parent_status list \<Rightarrow> gateway \<Rightarrow> nat option" where
  "findRouteParentStatus ss gw = findEntryLoop gw 0 ss"

definition newParentEntry :: "gateway \<Rightarrow> route_parent_status" where
  "newParentEntry gw =
     \<lparr>rpsParentRef = \<lparr>prGroup = Some GatewayGroupName, prKind = Some KindGateway,
         prNamespace = Some (gwNamespace gw), prName = gwName gw, prSectionName = None,
         prPort = None\<rparr>,
      rpsControllerName = ControllerName, rpsConditions = []\<rparr>"

text \<open>Append the entry if there is none, then \<^verbatim>\<open>existing.Conditions = conditions.Set(...)\<close>.\<close>

definition setParentConditions ::
  "gateway \<Rightarrow> condition list \<Rightarrow> route_parent_status list \<Rightarrow> route_parent_status list" where
  "setParentConditions gw desired ps =
     (let ps' = (if findRouteParentStatus ps gw = None then ps @ [newParentEntry gw] else ps);
          i = (case findRouteParentStatus ps gw of None \<Rightarrow> length ps | Some j \<Rightarrow> j)
      in ps'[i := (ps' ! i)\<lparr>rpsConditions := condSet (rpsConditions (ps' ! i)) desired\<rparr>])"

definition entryConditions :: "gateway \<Rightarrow> route_parent_status list \<Rightarrow> condition list option" where
  "entryConditions gw ps = map_option (\<lambda>i. rpsConditions (ps ! i)) (findRouteParentStatus ps gw)"

definition acceptedCondition :: "string \<Rightarrow> string \<Rightarrow> string \<Rightarrow> int \<Rightarrow> int \<Rightarrow> condition" where
  "acceptedCondition status reason msg gen now =
     \<lparr>condType = ConditionAccepted, condStatus = status, condObservedGeneration = gen,
      condLastTransitionTime = now, condReason = reason, condMessage = msg\<rparr>"

section \<open>Denied and rejected routes\<close>

definition deniedMessage :: "gateway \<Rightarrow> routeObject \<Rightarrow> string" where
  "deniedMessage gw r =
     ''Route namespace '' @ goQuote (rtNamespace (objCommon r))
       @ '' not allowed by any listener on Gateway '' @ gwNamespace gw @ ''/'' @ gwName gw"

definition deniedAttempt ::
  "'k kube \<Rightarrow> gateway \<Rightarrow> int \<Rightarrow> namespaced_name \<Rightarrow> string \<Rightarrow> 'k closure" where
  "deniedAttempt kube gw now key acceptedMsg s =
     (case s of (k, r, patched) \<Rightarrow>
        (case kGetRoute kube (routeKind r) key k of
           (Inl err, k') \<Rightarrow> (ignoreNotFound (Some err), (k', r, patched))
         | (Inr r', k') \<Rightarrow>
             (let existing = entryConditions gw (routeParents r')
              in if (case existing of
                       None \<Rightarrow> False
                     | Some cs \<Rightarrow> length cs = 1 \<and>
                         \<not> condChanged cs ConditionAccepted ConditionFalse ''NotAllowedByListeners''
                             acceptedMsg (generation r'))
                 then (None, (k', r', patched))
                 else
                   (let r'' = setRouteParents r' (setParentConditions gw
                          [acceptedCondition ConditionFalse ''NotAllowedByListeners'' acceptedMsg
                             (generation r') now] (routeParents r'))
                    in case kPatchRouteStatus kube r' r'' k' of
                         (err, k2) \<Rightarrow> (err, (k2, r'', True))))))"

definition updateDeniedRouteStatus ::
  "'k kube \<Rightarrow> 'k retrier \<Rightarrow> gateway \<Rightarrow> int \<Rightarrow> routeObject \<Rightarrow> 'k \<Rightarrow> go_error option \<times> 'k" where
  "updateDeniedRouteStatus kube retry gw now r k =
     (let msg = deniedMessage gw r
      in case retry (deniedAttempt kube gw now (routeKey r) msg) (k, r, False) of
           (err, (k', r', patched)) \<Rightarrow>
             (err, if patched then kEvent kube \<lparr>evObject = r', evType = ''Warning'',
                 evReason = ''NotAllowedByListeners'', evMessage = msg\<rparr> k' else k'))"

definition rejectAttempt ::
  "'k kube \<Rightarrow> gateway \<Rightarrow> int \<Rightarrow> namespaced_name \<Rightarrow> string \<Rightarrow> string \<Rightarrow> 'k closure" where
  "rejectAttempt kube gw now key reason msg s =
     (case s of (k, r, patched) \<Rightarrow>
        (case kGetRoute kube (routeKind r) key k of
           (Inl err, k') \<Rightarrow> (ignoreNotFound (Some err), (k', r, patched))
         | (Inr r', k') \<Rightarrow>
             (let existing = entryConditions gw (routeParents r')
              in if (case existing of
                       None \<Rightarrow> False
                     | Some cs \<Rightarrow> length cs = 1 \<and>
                         \<not> condChanged cs ConditionAccepted ConditionFalse reason msg
                             (generation r'))
                 then (None, (k', r', patched))
                 else
                   (let r'' = setRouteParents r' (setParentConditions gw
                          [acceptedCondition ConditionFalse reason msg (generation r') now]
                          (routeParents r'))
                    in case kPatchRouteStatus kube r' r'' k' of
                         (err, k2) \<Rightarrow> (err, (k2, r'', True))))))"

definition rejectRouteStatus ::
  "'k kube \<Rightarrow> 'k retrier \<Rightarrow> gateway \<Rightarrow> int \<Rightarrow> routeObject \<Rightarrow> string \<Rightarrow> string \<Rightarrow> 'k
     \<Rightarrow> go_error option \<times> 'k" where
  "rejectRouteStatus kube retry gw now r reason msg k =
     (case retry (rejectAttempt kube gw now (routeKey r) reason msg) (k, r, False) of
        (err, (k', r', patched)) \<Rightarrow>
          (err, if patched then kEvent kube \<lparr>evObject = r', evType = ''Warning'',
              evReason = reason, evMessage = msg\<rparr> k' else k'))"

section \<open>Accepted routes\<close>

definition desiredConditions :: "routeConditions \<Rightarrow> string \<Rightarrow> int \<Rightarrow> int \<Rightarrow> condition list" where
  "desiredConditions rc acceptedMsg gen now =
     [\<lparr>condType = ConditionAccepted, condStatus = ConditionTrue, condObservedGeneration = gen,
       condLastTransitionTime = now, condReason = ''Accepted'', condMessage = acceptedMsg\<rparr>,
      \<lparr>condType = ConditionResolvedRefs, condStatus = rcResolvedRefsStatus rc,
       condObservedGeneration = gen, condLastTransitionTime = now,
       condReason = rcResolvedRefsReason rc, condMessage = rcResolvedRefsMsg rc\<rparr>]
     @ (if rcDNSEnabled rc
        then [\<lparr>condType = ConditionDNSRecordsApplied, condStatus = rcDNSStatus rc,
               condObservedGeneration = gen, condLastTransitionTime = now,
               condReason = rcDNSReason rc, condMessage = rcDNSMessage rc\<rparr>]
        else [])
     @ [\<lparr>condType = ConditionReady, condStatus = rcReadyStatus rc, condObservedGeneration = gen,
         condLastTransitionTime = now, condReason = rcReadyReason rc,
         condMessage = rcReadyMsg rc\<rparr>]"

definition entryChanged :: "routeConditions \<Rightarrow> string \<Rightarrow> int \<Rightarrow> condition list \<Rightarrow> bool" where
  "entryChanged rc acceptedMsg gen cs =
     (let desiredCount = (if rcDNSEnabled rc then 4 else 3)
      in condChanged cs ConditionAccepted ConditionTrue ''Accepted'' acceptedMsg gen \<or>
         condChanged cs ConditionResolvedRefs (rcResolvedRefsStatus rc) (rcResolvedRefsReason rc)
           (rcResolvedRefsMsg rc) gen \<or>
         (rcDNSEnabled rc \<and>
          condChanged cs ConditionDNSRecordsApplied (rcDNSStatus rc) (rcDNSReason rc)
            (rcDNSMessage rc) gen) \<or>
         condChanged cs ConditionReady (rcReadyStatus rc) (rcReadyReason rc) (rcReadyMsg rc) gen \<or>
         length cs \<noteq> desiredCount)"

text \<open>Here a route that was deleted meanwhile is an error.\<close>

definition updateAttempt ::
  "'k kube \<Rightarrow> gateway \<Rightarrow> int \<Rightarrow> namespaced_name \<Rightarrow> routeConditions \<Rightarrow> string \<Rightarrow> 'k closure" where
  "updateAttempt kube gw now key rc acceptedMsg s =
     (case s of (k, r, patched) \<Rightarrow>
        (case kGetRoute kube (routeKind r) key k of
           (Inl err, k') \<Rightarrow> (Some err, (k', r, patched))
         | (Inr r', k') \<Rightarrow>
             (let existing = entryConditions gw (routeParents r')
              in if (case existing of
                       None \<Rightarrow> False
                     | Some cs \<Rightarrow> \<not> entryChanged rc acceptedMsg (generation r') cs)
                 then (None, (k', r', patched))
                 else
                   (let r'' = setRouteParents r' (setParentConditions gw
                          (desiredConditions rc acceptedMsg (generation r') now) (routeParents r'))
                    in case kPatchRouteStatus kube r' r'' k' of
                         (err, k2) \<Rightarrow> (err, (k2, r'', True))))))"

definition updateRouteStatus ::
  "'k kube \<Rightarrow> 'k retrier \<Rightarrow> gateway \<Rightarrow> int \<Rightarrow> routeObject \<Rightarrow> string list \<Rightarrow> dnsPolicy
     \<Rightarrow> string option \<Rightarrow> string \<Rightarrow> string \<Rightarrow> string \<Rightarrow> 'k \<Rightarrow> go_error option \<times> 'k" where
  "updateRouteStatus kube retry gw now r deniedRefs dns dnsErr readyStatus readyReason readyMsg k =
     (let acceptedMsg = routeKind r @ '' is accepted'';
          rc = buildRouteConditions r deniedRefs dns dnsErr readyStatus readyReason readyMsg
      in case retry (updateAttempt kube gw now (routeKey r) rc acceptedMsg) (k, r, False) of
           (err, (k', r', patched)) \<Rightarrow>
             (err, if patched then kEvent kube
                 \<lparr>evObject = r',
                  evType = (if rcReadyStatus rc \<noteq> ConditionTrue then ''Warning'' else ''Normal''),
                  evReason = rcReadyReason rc,
                  evMessage = ''Ready='' @ rcReadyStatus rc @ '': '' @ rcReadyMsg rc\<rparr> k' else k'))"

text \<open>A Go map from route keys to denied references; a missing key reads as no reference.\<close>

definition deniedRefsOf ::
  "(namespaced_name \<Rightarrow> string list option) \<Rightarrow> namespaced_name \<Rightarrow> string list" where
  "deniedRefsOf m key = (case m key of None \<Rightarrow> [] | Some ds \<Rightarrow> ds)"

fun updateRouteStatuses ::
  "(string \<Rightarrow> string) \<Rightarrow> 'k kube \<Rightarrow> 'k retrier \<Rightarrow> gateway \<Rightarrow> int \<Rightarrow> routeObject list
     \<Rightarrow> (namespaced_name \<Rightarrow> string list option) \<Rightarrow> dnsPolicy \<Rightarrow> string option \<Rightarrow> string \<Rightarrow> string
     \<Rightarrow> string \<Rightarrow> 'k \<Rightarrow> string list \<times> 'k" where
  "updateRouteStatuses tt kube retry gw now [] denied dns dnsErr rs rr rm k = ([], k)"
| "updateRouteStatuses tt kube retry gw now (r # routes) denied dns dnsErr rs rr rm k =
     (case updateRouteStatus kube retry gw now r (deniedRefsOf denied (routeKey r)) dns dnsErr rs rr rm k
      of (err, k') \<Rightarrow>
        (case updateRouteStatuses tt kube retry gw now routes denied dns dnsErr rs rr rm k' of
           (errs, k2) \<Rightarrow>
             ((case err of
                 None \<Rightarrow> errs
               | Some e \<Rightarrow> (''failed to update '' @ routeKind r @ '' '' @ keyString r @ '' status: ''
                             @ errMsg tt e) # errs), k2)))"

section \<open>Removing the entry\<close>

definition removeAttempt :: "'k kube \<Rightarrow> gateway \<Rightarrow> namespaced_name \<Rightarrow> string \<Rightarrow> 'k closure" where
  "removeAttempt kube gw key keyStr s =
     (case s of (k, r, patched) \<Rightarrow>
        (case kGetRoute kube (routeKind r) key k of
           (Inl err, k') \<Rightarrow> (ignoreNotFound (Some err), (k', r, patched))
         | (Inr r', k') \<Rightarrow>
             if findRouteParentStatus (routeParents r') gw = None then (None, (k', r', patched))
             else
               (let r'' = setRouteParents r' (filter (\<lambda>s. \<not> ownsEntry gw s) (routeParents r'))
                in case kPatchRouteStatus kube r' r'' k' of
                     (Some err, k2) \<Rightarrow>
                       (Some (ErrWrap (''removing status entry from '' @ routeKind r @ '' '' @ keyStr
                                 @ '': '') err), (k2, r'', True))
                   | (None, k2) \<Rightarrow> (None, (k2, r'', True)))))"

definition removeRouteStatus ::
  "'k kube \<Rightarrow> 'k retrier \<Rightarrow> gateway \<Rightarrow> routeObject \<Rightarrow> 'k \<Rightarrow> go_error option \<times> 'k" where
  "removeRouteStatus kube retry gw r k =
     (case retry (removeAttempt kube gw (routeKey r) (keyString r)) (k, r, False) of
        (err, (k', r', patched)) \<Rightarrow>
          (err, if patched then kEvent kube \<lparr>evObject = r', evType = ''Normal'',
              evReason = ReasonReconciliationSucceeded,
              evMessage = ''Removed status entry for Gateway '' @ gwNamespace gw @ ''/'' @ gwName gw\<rparr> k'
            else k'))"

fun removeStatusesLoop ::
  "'k kube \<Rightarrow> 'k retrier \<Rightarrow> gateway \<Rightarrow> routeObject list \<Rightarrow> 'k \<Rightarrow> go_error option \<times> 'k" where
  "removeStatusesLoop kube retry gw [] k = (None, k)"
| "removeStatusesLoop kube retry gw (r # rs) k =
     (case removeRouteStatus kube retry gw r k of
        (Some err, k') \<Rightarrow> (Some err, k')
      | (None, k') \<Rightarrow> removeStatusesLoop kube retry gw rs k')"

text \<open>\<open>listHTTP\<close> and \<open>listGRPC\<close> are the indexed listings by the Gateway's key.\<close>

definition removeRouteStatuses ::
  "'k kube \<Rightarrow> 'k retrier \<Rightarrow> (string \<Rightarrow> 'k \<Rightarrow> (go_error + http_route list) \<times> 'k)
     \<Rightarrow> (string \<Rightarrow> 'k \<Rightarrow> (go_error + grpc_route list) \<times> 'k) \<Rightarrow> gateway \<Rightarrow> 'k
     \<Rightarrow> go_error option \<times> 'k" where
  "removeRouteStatuses kube retry listHTTP listGRPC gw k =
     (let gwKey = gwNamespace gw @ ''/'' @ gwName gw
      in case listHTTP gwKey k of
           (Inl err, k1) \<Rightarrow>
             (Some (ErrWrap (''listing HTTPRoutes for gateway '' @ gwKey @ '': '') err), k1)
         | (Inr hs, k1) \<Rightarrow>
             (case removeStatusesLoop kube retry gw (map HTTPObj hs) k1 of
                (Some err, k2) \<Rightarrow> (Some err, k2)
              | (None, k2) \<Rightarrow>
                  (case listGRPC gwKey k2 of
                     (Inl err, k3) \<Rightarrow>
                       (Some (ErrWrap (''listing GRPCRoutes for gateway '' @ gwKey @ '': '') err), k3)
                   | (Inr gs, k3) \<Rightarrow> removeStatusesLoop kube retry gw (map GRPCObj gs) k3)))"

section \<open>Lemmas on entries\<close>

lemma findEntryLoop_owns:
  "findEntryLoop gw i (s # ss) =
     (if ownsEntry gw s then Some i else findEntryLoop gw (Suc i) ss)"
  by (auto simp: ownsEntry_def)

declare findEntryLoop.simps(2) [simp del] findEntryLoop_owns [simp]

lemma findEntryLoop_Some:
  "findEntryLoop gw i ss = Some j \<Longrightarrow>
     \<exists>d. j = i + d \<and> d < length ss \<and> ownsEntry gw (ss ! d) \<and> (\<forall>m < d. \<not> ownsEntry gw (ss ! m))"
proof (induction ss arbitrary: i)
  case (Cons s ss)
  show ?case
  proof (cases "ownsEntry gw s")
    case True
    then show ?thesis using Cons.prems by simp
  next
    case False
    then obtain d where "j = Suc i + d" "d < length ss" "ownsEntry gw (ss ! d)"
      "\<forall>m < d. \<not> ownsEntry gw (ss ! m)"
      using Cons.prems Cons.IH [of "Suc i"] by auto
    then show ?thesis using False
      by (intro exI [of _ "Suc d"]) (auto simp: nth_Cons' less_Suc_eq_0_disj)
  qed
qed simp

lemma findEntryLoop_None: "findEntryLoop gw i ss = None \<longleftrightarrow> (\<forall>s\<in>set ss. \<not> ownsEntry gw s)"
  by (induction ss arbitrary: i) auto

lemma findRouteParentStatus_Some:
  "findRouteParentStatus ss gw = Some i \<Longrightarrow>
     i < length ss \<and> ownsEntry gw (ss ! i) \<and> (\<forall>m < i. \<not> ownsEntry gw (ss ! m))"
  using findEntryLoop_Some [of gw 0 ss i] by (simp add: findRouteParentStatus_def)

lemma findRouteParentStatus_None:
  "findRouteParentStatus ss gw = None \<longleftrightarrow> (\<forall>s\<in>set ss. \<not> ownsEntry gw s)"
  by (simp add: findRouteParentStatus_def findEntryLoop_None)

lemma findEntryLoop_append:
  "findEntryLoop gw i (xs @ ys) =
     (case findEntryLoop gw i xs of Some j \<Rightarrow> Some j | None \<Rightarrow> findEntryLoop gw (i + length xs) ys)"
  by (induction xs arbitrary: i) (auto split: option.splits)

lemma findEntryLoop_cong:
  "map (ownsEntry gw) xs = map (ownsEntry gw) ys \<Longrightarrow> findEntryLoop gw i xs = findEntryLoop gw i ys"
proof (induction xs arbitrary: i ys)
  case (Cons x xs)
  then obtain y ys' where "ys = y # ys'" "ownsEntry gw x = ownsEntry gw y"
    "map (ownsEntry gw) xs = map (ownsEntry gw) ys'" by (auto simp: Cons_eq_map_conv)
  then show ?case using Cons.IH [of ys'] by simp
qed simp

lemma ownsEntry_conditions [simp]: "ownsEntry gw (s\<lparr>rpsConditions := cs\<rparr>) = ownsEntry gw s"
  by (simp add: ownsEntry_def)

lemma ownsEntry_new [simp]: "ownsEntry gw (newParentEntry gw)"
  by (simp add: ownsEntry_def newParentEntry_def)

text \<open>Writing the conditions sets them on the Gateway's entry and touches no other.\<close>

lemma setParentConditions_entry:
  "entryConditions gw (setParentConditions gw desired ps) =
     Some (condSet (case entryConditions gw ps of None \<Rightarrow> [] | Some cs \<Rightarrow> cs) desired)"
proof (cases "findRouteParentStatus ps gw")
  case None
  let ?e = "(newParentEntry gw)\<lparr>rpsConditions := condSet [] desired\<rparr>"
  have e: "rpsConditions (newParentEntry gw) = []" by (simp add: newParentEntry_def)
  then have ps: "setParentConditions gw desired ps = ps @ [?e]"
    using None by (simp add: setParentConditions_def)
  have own: "ownsEntry gw ?e" by simp
  then have one: "findEntryLoop gw n [?e] = Some n" for n
    by (simp only: findEntryLoop_owns if_True)
  have "findRouteParentStatus (ps @ [?e]) gw = Some (length ps)"
    using None one [of "length ps"] by (simp only: findRouteParentStatus_def findEntryLoop_append) simp
  then show ?thesis using None ps by (simp add: entryConditions_def)
next
  case (Some i)
  note i = findRouteParentStatus_Some [OF Some]
  let ?ps = "ps[i := (ps ! i)\<lparr>rpsConditions := condSet (rpsConditions (ps ! i)) desired\<rparr>]"
  have ps: "setParentConditions gw desired ps = ?ps"
    using Some by (simp add: setParentConditions_def)
  have "map (ownsEntry gw) ?ps = map (ownsEntry gw) ps"
    using i by (simp add: map_update list_update_same_conv)
  then have "findRouteParentStatus ?ps gw = Some i"
    using Some findEntryLoop_cong [of gw ?ps ps 0] by (simp add: findRouteParentStatus_def)
  then show ?thesis using Some ps i by (simp add: entryConditions_def)
qed

lemma setParentConditions_others:
  "filter (\<lambda>s. \<not> ownsEntry gw s) (setParentConditions gw desired ps) =
   filter (\<lambda>s. \<not> ownsEntry gw s) ps"
proof (cases "findRouteParentStatus ps gw")
  case None
  then show ?thesis by (simp add: setParentConditions_def)
next
  case (Some i)
  note i = findRouteParentStatus_Some [OF Some]
  let ?x = "(ps ! i)\<lparr>rpsConditions := condSet (rpsConditions (ps ! i)) desired\<rparr>"
  have "filter (\<lambda>s. \<not> ownsEntry gw s) (take i ps @ ?x # drop (Suc i) ps) =
      filter (\<lambda>s. \<not> ownsEntry gw s) (take i ps @ ps ! i # drop (Suc i) ps)"
    using i by simp
  then have "filter (\<lambda>s. \<not> ownsEntry gw s) (ps[i := ?x]) = filter (\<lambda>s. \<not> ownsEntry gw s) ps"
    using i id_take_nth_drop [of i ps] by (simp only: upd_conv_take_nth_drop)
  then show ?thesis using Some by (simp add: setParentConditions_def)
qed

lemma routeParents_set [simp]: "routeParents (setRouteParents r ps) = ps"
  by (cases r) (simp_all add: routeParents_def)

lemma generation_set [simp]: "generation (setRouteParents r ps) = generation r"
  by (cases r) (simp_all add: generation_def)

lemma routeKind_set [simp]: "routeKind (setRouteParents r ps) = routeKind r"
  by (cases r) simp_all

lemma setRouteParents_twice [simp]: "setRouteParents (setRouteParents r ps) qs = setRouteParents r qs"
  by (cases r) simp_all

section \<open>The contract of the status writers\<close>

locale status_writer =
  fixes attempt :: "'k kube \<Rightarrow> gateway \<Rightarrow> int \<Rightarrow> namespaced_name \<Rightarrow> 'k closure"
    and upToDate :: "int \<Rightarrow> condition list \<Rightarrow> bool"
    and desired :: "int \<Rightarrow> int \<Rightarrow> condition list"
  assumes skips: "kGetRoute kube (routeKind r) key k = (Inr r', k') \<Longrightarrow>
      entryConditions gw (routeParents r') = Some cs \<Longrightarrow> upToDate (generation r') cs \<Longrightarrow>
      attempt kube gw now key (k, r, p) = (None, (k', r', p))"
    and writes: "kGetRoute kube (routeKind r) key k = (Inr r', k') \<Longrightarrow>
      (\<forall>cs. entryConditions gw (routeParents r') = Some cs \<longrightarrow> \<not> upToDate (generation r') cs) \<Longrightarrow>
      attempt kube gw now key (k, r, p) =
        (let r'' = setRouteParents r'
               (setParentConditions gw (desired (generation r') now) (routeParents r'))
         in case kPatchRouteStatus kube r' r'' k' of (err, k2) \<Rightarrow> (err, (k2, r'', True)))"
    and settles: "upToDate gen (condSet ex (desired gen now))"
begin

text \<open>An attempt against a route that was read either skips or writes the settled entry.\<close>

lemma attempt_cases:
  assumes "kGetRoute kube (routeKind r) key k = (Inr r1, k1)"
    and "attempt kube gw now key (k, r, False) = (e, (k2, r2, p))"
  shows "\<exists>cs. entryConditions gw (routeParents r2) = Some cs \<and> upToDate (generation r2) cs"
    and "setRouteParents r2 [] = setRouteParents r1 []"
    and "filter (\<lambda>s. \<not> ownsEntry gw s) (routeParents r2) =
         filter (\<lambda>s. \<not> ownsEntry gw s) (routeParents r1)"
    and "\<not> p \<Longrightarrow> e = None \<and> r2 = r1 \<and> k2 = k1"
proof -
  have "r2 = r1 \<and> e = None \<and> k2 = k1 \<and> \<not> p \<and>
      (\<exists>cs. entryConditions gw (routeParents r1) = Some cs \<and> upToDate (generation r1) cs) \<or>
      p \<and> r2 = setRouteParents r1
        (setParentConditions gw (desired (generation r1) now) (routeParents r1))"
  proof (cases "\<exists>cs. entryConditions gw (routeParents r1) = Some cs \<and> upToDate (generation r1) cs")
    case True
    then show ?thesis using skips [OF assms(1)] assms(2) by fastforce
  next
    case False
    then show ?thesis using writes [OF assms(1), of gw now False] assms(2)
      by (auto simp: Let_def split: prod.splits)
  qed
  then show "\<exists>cs. entryConditions gw (routeParents r2) = Some cs \<and> upToDate (generation r2) cs"
    and "setRouteParents r2 [] = setRouteParents r1 []"
    and "filter (\<lambda>s. \<not> ownsEntry gw s) (routeParents r2) =
         filter (\<lambda>s. \<not> ownsEntry gw s) (routeParents r1)"
    and "\<not> p \<Longrightarrow> e = None \<and> r2 = r1 \<and> k2 = k1"
    by (auto simp: setParentConditions_entry setParentConditions_others settles)
qed

lemma attempt_again:
  assumes "kGetRoute kube (routeKind r) key k = (Inr r1, k1)"
    and "attempt kube gw now key (k, r, False) = (e, (k2, r2, p))"
    and "kGetRoute kube (routeKind r2) key k2 = (Inr r2, k3)"
  shows "attempt kube gw now' key (k2, r2, q) = (None, (k3, r2, q))"
  using attempt_cases(1) [OF assms(1,2)] skips [OF assms(3)] by blast

end

lemma condSet_one:
  "condType d = t \<Longrightarrow> condStatus d = st \<Longrightarrow> condReason d = re \<Longrightarrow> condMessage d = me \<Longrightarrow>
   condObservedGeneration d = g \<Longrightarrow>
   length (condSet ex [d]) = 1 \<and> \<not> condChanged (condSet ex [d]) t st re me g"
  by (auto simp: condSet_map condChanged_iff)

interpretation rejectW: status_writer
  "\<lambda>kube gw now key. rejectAttempt kube gw now key reason msg"
  "\<lambda>gen cs. length cs = 1 \<and> \<not> condChanged cs ConditionAccepted ConditionFalse reason msg gen"
  "\<lambda>gen now. [acceptedCondition ConditionFalse reason msg gen now]"
  for reason msg
proof
  fix gen now :: int and ex
  show "length (condSet ex [acceptedCondition ConditionFalse reason msg gen now]) = 1 \<and>
    \<not> condChanged (condSet ex [acceptedCondition ConditionFalse reason msg gen now])
        ConditionAccepted ConditionFalse reason msg gen"
    by (rule condSet_one) (simp_all add: acceptedCondition_def)
qed (auto simp: rejectAttempt_def Let_def split: option.splits)

interpretation deniedW: status_writer
  "\<lambda>kube gw now key. deniedAttempt kube gw now key msg"
  "\<lambda>gen cs. length cs = 1 \<and>
     \<not> condChanged cs ConditionAccepted ConditionFalse ''NotAllowedByListeners'' msg gen"
  "\<lambda>gen now. [acceptedCondition ConditionFalse ''NotAllowedByListeners'' msg gen now]"
  for msg
proof
  fix gen now :: int and ex
  show "length (condSet ex [acceptedCondition ConditionFalse ''NotAllowedByListeners'' msg gen now]) = 1 \<and>
    \<not> condChanged (condSet ex [acceptedCondition ConditionFalse ''NotAllowedByListeners'' msg gen now])
        ConditionAccepted ConditionFalse ''NotAllowedByListeners'' msg gen"
    by (rule condSet_one) (simp_all add: acceptedCondition_def)
qed (auto simp: deniedAttempt_def Let_def split: option.splits)

lemma desired_settles: "\<not> entryChanged rc msg gen (condSet ex (desiredConditions rc msg gen now))"
proof -
  have "condSet ex (desiredConditions rc msg gen now) =
      map (keepTransition ex) (desiredConditions rc msg gen now)"
    by (rule condSet_map)
  then show ?thesis
    by (auto simp: entryChanged_def desiredConditions_def condChanged_iff Let_def)
qed

interpretation updateW: status_writer
  "\<lambda>kube gw now key. updateAttempt kube gw now key rc msg"
  "\<lambda>gen cs. \<not> entryChanged rc msg gen cs"
  "desiredConditions rc msg"
  for rc msg
  by unfold_locales
     (auto simp: updateAttempt_def Let_def desired_settles split: option.splits)

section \<open>Properties\<close>

text \<open>
  C11. Status writes settle and stay within the Gateway's own entry: whatever a run of the
  denied, rejected or accepted closure against a route that was read leaves behind, a next
  run that reads it back makes no patch; the route's other status entries, of other
  controllers and other Gateways, are as they were, in their order, and so is everything
  else of the route; and a run that patched nothing has succeeded.
\<close>

theorem status_attempts_settle:
  assumes "att \<in> {deniedAttempt kube gw now key msg, rejectAttempt kube gw now key reason msg,
                  updateAttempt kube gw now key rc msg}"
    and "kGetRoute kube (routeKind r) key k = (Inr r1, k1)"
    and "att (k, r, False) = (e, (k2, r2, p))"
    and "kGetRoute kube (routeKind r2) key k2 = (Inr r2, k3)"
  shows "att (k2, r2, q) = (None, (k3, r2, q))
    \<and> filter (\<lambda>s. \<not> ownsEntry gw s) (routeParents r2) =
        filter (\<lambda>s. \<not> ownsEntry gw s) (routeParents r1)
    \<and> setRouteParents r2 [] = setRouteParents r1 []
    \<and> (\<not> p \<longrightarrow> e = None \<and> r2 = r1)"
  using assms(1) unfolding insert_iff empty_iff
proof (elim disjE FalseE)
  assume a: "att = deniedAttempt kube gw now key msg"
  note run = assms(3) [unfolded a]
  show ?thesis
    unfolding a using deniedW.attempt_again [OF assms(2) run assms(4)]
      deniedW.attempt_cases(2-4) [OF assms(2) run] by blast
next
  assume a: "att = rejectAttempt kube gw now key reason msg"
  note run = assms(3) [unfolded a]
  show ?thesis
    unfolding a using rejectW.attempt_again [OF assms(2) run assms(4)]
      rejectW.attempt_cases(2-4) [OF assms(2) run] by blast
next
  assume a: "att = updateAttempt kube gw now key rc msg"
  note run = assms(3) [unfolded a]
  show ?thesis
    unfolding a using updateW.attempt_again [OF assms(2) run assms(4)]
      updateW.attempt_cases(2-4) [OF assms(2) run] by blast
qed

text \<open>A cluster with one route, whose status patches are applied.\<close>

definition oneRouteKube :: "routeObject kube" where
  "oneRouteKube =
     \<lparr>kGetRoute = \<lambda>kind key k. (Inr k, k), kPatchRouteStatus = \<lambda>old new k. (None, new),
      kEvent = \<lambda>e k. k\<rparr>"

definition foreignEntry :: route_parent_status where
  "foreignEntry =
     \<lparr>rpsParentRef = \<lparr>prGroup = None, prKind = None, prNamespace = Some ''ns'', prName = ''gw'',
         prSectionName = None, prPort = None\<rparr>,
      rpsControllerName = ''other/controller'', rpsConditions = []\<rparr>"

definition demoCommon :: "string list \<Rightarrow> route_parent_status list \<Rightarrow> route_common" where
  "demoCommon hs ps =
     \<lparr>rtNamespace = ''ns'', rtName = ''r'', rtGeneration = 7, rtDeleted = False, rtParentRefs = [],
      rtHostnames = hs, rtParents = ps\<rparr>"

definition demoObj :: routeObject where
  "demoObj = HTTPObj \<lparr>htCommon = demoCommon [''a''] [foreignEntry], htRules = []\<rparr>"

theorem status_attempts_settle_witness:
  "let gw = namedGateway ''ns'' ''gw'';
       att = rejectAttempt oneRouteKube gw 5 (routeKey demoObj) ''UnsupportedValue'' ''m'';
       r2 = fst (snd (snd (att (demoObj, demoObj, False))))
   in att (r2, r2, False) = (None, (r2, r2, False)) \<and>
      filter (\<lambda>s. \<not> ownsEntry gw s) (routeParents r2) = [foreignEntry]"
proof -
  let ?gw = "namedGateway ''ns'' ''gw''"
  let ?att = "rejectAttempt oneRouteKube ?gw 5 (routeKey demoObj) ''UnsupportedValue'' ''m''"
  let ?r2 = "fst (snd (snd (?att (demoObj, demoObj, False))))"
  have get: "kGetRoute oneRouteKube k key w = (Inr w, w)" for k key w
    by (simp add: oneRouteKube_def)
  have none: "entryConditions ?gw (routeParents demoObj) = None"
    by (simp add: entryConditions_def findRouteParentStatus_None demoObj_def demoCommon_def
        routeParents_def ownsEntry_def foreignEntry_def ControllerName_def Group_def
        ShortControllerName_def)
  have run: "?att (demoObj, demoObj, False) = (None, (?r2, ?r2, True))"
    using none by (simp add: rejectAttempt_def get Let_def) (simp add: oneRouteKube_def)
  have "filter (\<lambda>s. \<not> ownsEntry ?gw s) (routeParents demoObj) = [foreignEntry]"
    by (simp add: demoObj_def demoCommon_def routeParents_def ownsEntry_def foreignEntry_def
        ControllerName_def Group_def ShortControllerName_def)
  then show ?thesis
    using status_attempts_settle [where att = ?att and kube = oneRouteKube and gw = ?gw and now = 5
        and key = "routeKey demoObj" and reason = "''UnsupportedValue''" and msg = "''m''"
        and q = False, OF _ get run get]
    unfolding Let_def insert_iff by metis
qed

end
