(* ===== verification/RouteConflicts.thy ===== *)
theory RouteConflicts
  imports RouteStatus
begin

text \<open>
  Which routes of a Gateway may claim which hostnames and paths: the route owners, the
  detection of conflicts and their rejection (internal/controller/gateway_routes.go), and the
  route ConfigMap that both records the claims and configures the proxy
  (gateway_routes_configmap.go).  \<open>getCM\<close> reads a ConfigMap's data, \<open>unmarshal\<close> is
  \<^verbatim>\<open>yaml.Unmarshal\<close>, \<open>tt\<close> renders terminal errors.
\<close>

section \<open>Owners\<close>

record routeOwner =
  ownNamespace :: string
  ownName :: string
  ownKind :: string

definition parseRouteOwner :: "string \<Rightarrow> string \<Rightarrow> routeOwner option" where
  "parseRouteOwner kind owner =
     (case cutChar (CHR ''/'') owner of (ns, name, found) \<Rightarrow>
        if owner = [] \<or> \<not> found then None
        else Some \<lparr>ownNamespace = ns, ownName = name, ownKind = kind\<rparr>)"

definition formatRouteOwner :: "routeOwner \<Rightarrow> string" where
  "formatRouteOwner o' =
     (if ownKind o' \<noteq> [] then ownKind o' @ '' '' @ ownNamespace o' @ ''/'' @ ownName o'
      else ownNamespace o' @ ''/'' @ ownName o')"

section \<open>Conflicts\<close>

type_synonym claims = "hostnamePathKey \<Rightarrow> routeOwner option"
type_synonym issues = "(namespaced_name \<times> string list) list"

definition proxyRouteKey :: "route \<Rightarrow> hostnamePathKey" where
  "proxyRouteKey r =
     \<lparr>hpkHostname = roHostname r, hpkPath = roPathPrefix r, hpkProtocol = roProtocol r\<rparr>"

text \<open>The claims of the existing ConfigMap; entries without an owner claim nothing.\<close>

fun claimExisting :: "route list \<Rightarrow> claims \<Rightarrow> claims" where
  "claimExisting [] claimed = claimed"
| "claimExisting (r # rs) claimed =
     (case parseRouteOwner (roOwnerKind r) (roOwner r) of
        None \<Rightarrow> claimExisting rs claimed
      | Some owner \<Rightarrow> claimExisting rs (claimed(proxyRouteKey r \<mapsto> owner)))"

text \<open>\<^verbatim>\<open>conflicts[routeKey] = append(conflicts[routeKey], issue)\<close>.\<close>

definition addIssue :: "namespaced_name \<Rightarrow> string \<Rightarrow> issues \<Rightarrow> issues" where
  "addIssue key issue m =
     AList.update key ((case map_of m key of None \<Rightarrow> [] | Some xs \<Rightarrow> xs) @ [issue]) m"

fun claimKeysLoop ::
  "routeObject \<Rightarrow> hostnamePathKey list \<Rightarrow> claims \<Rightarrow> issues \<Rightarrow> claims \<times> issues" where
  "claimKeysLoop r [] claimed conflicts = (claimed, conflicts)"
| "claimKeysLoop r (hpk # hpks) claimed conflicts =
     (case claimed hpk of
        Some first \<Rightarrow>
          if ownNamespace first \<noteq> fst (routeKey r) \<or> ownName first \<noteq> snd (routeKey r)
          then
            (let desc = hpkHostname hpk @ (if hpkPath hpk \<noteq> [] then hpkPath hpk else [])
             in claimKeysLoop r hpks claimed
                  (addIssue (routeKey r) (desc @ '' (claimed by '' @ formatRouteOwner first @ '')'')
                     conflicts))
          else claimKeysLoop r hpks claimed conflicts
      | None \<Rightarrow>
          claimKeysLoop r hpks
            (claimed(hpk \<mapsto> \<lparr>ownNamespace = fst (routeKey r), ownName = snd (routeKey r),
                              ownKind = routeKind r\<rparr>)) conflicts)"

fun claimRoutesLoop :: "routeObject list \<Rightarrow> claims \<Rightarrow> issues \<Rightarrow> claims \<times> issues" where
  "claimRoutesLoop [] claimed conflicts = (claimed, conflicts)"
| "claimRoutesLoop (r # rs) claimed conflicts =
     (case claimKeysLoop r (hostnamePathKeys r) claimed conflicts of
        (claimed', conflicts') \<Rightarrow> claimRoutesLoop rs claimed' conflicts')"

definition existingClaims :: "proxy_config option \<Rightarrow> claims" where
  "existingClaims existing =
     (case existing of None \<Rightarrow> Map.empty | Some c \<Rightarrow> claimExisting (cfgRoutes c) Map.empty)"

definition findConflictingRoutes :: "proxy_config option \<Rightarrow> routeObject list \<Rightarrow> issues" where
  "findConflictingRoutes existing routes =
     snd (claimRoutesLoop routes (existingClaims existing) [])"

section \<open>The route ConfigMap\<close>

definition getExistingRouteConfig ::
  "(namespaced_name \<Rightarrow> 'k \<Rightarrow> (go_error + (string \<Rightarrow> string option)) \<times> 'k)
     \<Rightarrow> (string \<Rightarrow> go_error + proxy_config) \<Rightarrow> gateway \<Rightarrow> 'k
     \<Rightarrow> (go_error + proxy_config option) \<times> 'k" where
  "getExistingRouteConfig getCM unmarshal gw k =
     (let cmName = GatewayResourceName gw
      in case getCM (gwNamespace gw, cmName) k of
           (Inl err, k') \<Rightarrow>
             if ignoreNotFound (Some err) = None then (Inr None, k')
             else (Inl (ErrWrap (''getting route ConfigMap '' @ cmName @ '': '') err), k')
         | (Inr data, k') \<Rightarrow>
             (case data ''config.yaml'' of
                None \<Rightarrow> (Inr None, k')
              | Some text \<Rightarrow>
                  (case unmarshal text of
                     Inl err \<Rightarrow>
                       (Inl (ErrWrap (''unmarshaling route config from ConfigMap '' @ cmName @ '': '')
                               err), k')
                   | Inr cfg \<Rightarrow> (Inr (Some cfg), k'))))"

fun buildRouteLoop ::
  "(string \<Rightarrow> go_error + reference_grant list) \<Rightarrow> routeObject list \<Rightarrow> route list
     \<Rightarrow> (namespaced_name \<Rightarrow> string list option)
     \<Rightarrow> go_error + route list \<times> (namespaced_name \<Rightarrow> string list option)" where
  "buildRouteLoop lg [] cfgRs denied = Inr (cfgRs, denied)"
| "buildRouteLoop lg (r # rs) cfgRs denied =
     (case buildProxyRoutes lg r of
        Inl err \<Rightarrow> Inl err
      | Inr (proxyRoutes, deniedRefs) \<Rightarrow>
          buildRouteLoop lg rs (cfgRs @ proxyRoutes)
            (if length deniedRefs > 0 then denied(routeKey r \<mapsto> deniedRefs) else denied))"

definition buildRouteConfig ::
  "(string \<Rightarrow> go_error + reference_grant list) \<Rightarrow> routeObject list
     \<Rightarrow> go_error + proxy_config \<times> (namespaced_name \<Rightarrow> string list option)" where
  "buildRouteConfig lg routes =
     (case buildRouteLoop lg routes [] Map.empty of
        Inl err \<Rightarrow> Inl err
      | Inr (rs, denied) \<Rightarrow> Inr (\<lparr>cfgRoutes = rs, cfgByHost = (\<lambda>h. [])\<rparr>, denied))"

section \<open>Rejecting conflicting and unmatched routes\<close>

fun filterConflictsLoop ::
  "(string \<Rightarrow> string) \<Rightarrow> 'k kube \<Rightarrow> 'k retrier \<Rightarrow> gateway \<Rightarrow> int \<Rightarrow> issues \<Rightarrow> routeObject list
     \<Rightarrow> routeObject list \<Rightarrow> string list \<Rightarrow> 'k \<Rightarrow> routeObject list \<times> string list \<times> 'k" where
  "filterConflictsLoop tt kube retry gw now conflicts [] filtered errs k = (filtered, errs, k)"
| "filterConflictsLoop tt kube retry gw now conflicts (r # rs) filtered errs k =
     (case map_of conflicts (routeKey r) of
        Some iss \<Rightarrow>
          (let msg = ''Conflicting hostname/path (already claimed by an earlier route):'' @ nl @ ''- ''
                       @ joinStr iss (nl @ ''- '')
           in case rejectRouteStatus kube retry gw now r ''UnsupportedValue'' msg k of
                (Some err, k') \<Rightarrow>
                  filterConflictsLoop tt kube retry gw now conflicts rs filtered
                    (errs @ [''failed to update conflicting '' @ routeKind r @ '' '' @ keyString r
                             @ '' status: '' @ errMsg tt err]) k'
              | (None, k') \<Rightarrow> filterConflictsLoop tt kube retry gw now conflicts rs filtered errs k')
      | None \<Rightarrow>
          filterConflictsLoop tt kube retry gw now conflicts rs (filtered @ [r]) errs k)"

definition filterConflictingRoutes ::
  "(string \<Rightarrow> string) \<Rightarrow> 'k kube \<Rightarrow> 'k retrier
     \<Rightarrow> (namespaced_name \<Rightarrow> 'k \<Rightarrow> (go_error + (string \<Rightarrow> string option)) \<times> 'k)
     \<Rightarrow> (string \<Rightarrow> go_error + proxy_config) \<Rightarrow> gateway \<Rightarrow> int \<Rightarrow> routeObject list \<Rightarrow> 'k
     \<Rightarrow> (go_error + routeObject list \<times> string list) \<times> 'k" where
  "filterConflictingRoutes tt kube retry getCM unmarshal gw now validRoutes k =
     (case getExistingRouteConfig getCM unmarshal gw k of
        (Inl err, k') \<Rightarrow> (Inl err, k')
      | (Inr existing, k') \<Rightarrow>
          (let conflicting = findConflictingRoutes existing validRoutes
           in if length conflicting = 0 then (Inr (validRoutes, []), k')
              else (case filterConflictsLoop tt kube retry gw now conflicting validRoutes [] [] k' of
                      (filtered, errs, k2) \<Rightarrow> (Inr (filtered, errs), k2))))"

fun filterNoMatchLoop ::
  "(string \<Rightarrow> string) \<Rightarrow> 'k kube \<Rightarrow> 'k retrier \<Rightarrow> gateway \<Rightarrow> int \<Rightarrow> routeObject list
     \<Rightarrow> routeObject list \<Rightarrow> string list \<Rightarrow> 'k \<Rightarrow> routeObject list \<times> string list \<times> 'k" where
  "filterNoMatchLoop tt kube retry gw now [] matched errs k = (matched, errs, k)"
| "filterNoMatchLoop tt kube retry gw now (r # rs) matched errs k =
     (if \<not> hasMatchingListener gw r then
        (let msg = ''No listener matches the sectionName(s) in parentRefs for Gateway ''
                     @ gwNamespace gw @ ''/'' @ gwName gw
         in case rejectRouteStatus kube retry gw now r ''NoMatchingParent'' msg k of
              (Some err, k') \<Rightarrow>
                filterNoMatchLoop tt kube retry gw now rs matched
                  (errs @ [''failed to update no-matching-parent '' @ routeKind r @ '' '' @ keyString r
                           @ '' status: '' @ errMsg tt err]) k'
            | (None, k') \<Rightarrow> filterNoMatchLoop tt kube retry gw now rs matched errs k')
      else filterNoMatchLoop tt kube retry gw now rs (matched @ [r]) errs k)"

definition filterNoMatchingParentRoutes ::
  "(string \<Rightarrow> string) \<Rightarrow> 'k kube \<Rightarrow> 'k retrier \<Rightarrow> gateway \<Rightarrow> int \<Rightarrow> routeObject list \<Rightarrow> 'k
     \<Rightarrow> routeObject list \<times> string list \<times> 'k" where
  "filterNoMatchingParentRoutes tt kube retry gw now routes k =
     filterNoMatchLoop tt kube retry gw now routes [] [] k"

section \<open>The contract of a route's proxy entries\<close>

text \<open>
  What the conflict detection relies on: the entries a route is built into carry keys that the
  route declared, and its owner.
\<close>

locale proxy_route_source =
  fixes keys :: "'r \<Rightarrow> hostnamePathKey list"
    and build :: "(string \<Rightarrow> go_error + reference_grant list) \<Rightarrow> 'r
                    \<Rightarrow> go_error + route list \<times> string list"
    and common :: "'r \<Rightarrow> route_common"
    and kind :: "'r \<Rightarrow> string"
  assumes build_keys: "build lg r = Inr (xs, ds) \<Longrightarrow> x \<in> set xs \<Longrightarrow> proxyRouteKey x \<in> set (keys r)"
    and build_owner: "build lg r = Inr (xs, ds) \<Longrightarrow> x \<in> set xs \<Longrightarrow>
      roOwner x = rtNamespace (common r) @ ''/'' @ rtName (common r) \<and> roOwnerKind x = kind r"
    and build_backends: "build lg r = Inr (xs, ds) \<Longrightarrow> x \<in> set xs \<Longrightarrow> roBackends x \<noteq> []"
begin

text \<open>The owner written into the ConfigMap reads back as the route.\<close>

lemma owner_parses:
  assumes "build lg r = Inr (xs, ds)" "x \<in> set xs" "CHR ''/'' \<notin> set (rtNamespace (common r))"
  shows "parseRouteOwner (roOwnerKind x) (roOwner x) =
    Some \<lparr>ownNamespace = rtNamespace (common r), ownName = rtName (common r), ownKind = kind r\<rparr>"
  using build_owner [OF assms(1,2)] assms(3) by (simp add: parseRouteOwner_def cutChar_append)

end

lemma httpRuleRoutes_mem:
  "x \<in> set (httpRuleRoutes lg c rule) \<Longrightarrow>
     \<exists>h\<in>set (rtHostnames c). hrBackendRefs rule \<noteq> [] \<and>
       x = proxyRoute c KindHTTPRoute (pathFromMatches (hrMatches rule)) [] (hrBackendRefs rule)
             (hrSession rule) h"
  by (auto simp: httpRuleRoutes_def ruleServed_def split: if_splits)

lemma grpcRuleRoutes_mem:
  "x \<in> set (grpcRuleRoutes lg c rule) \<Longrightarrow>
     \<exists>h\<in>set (rtHostnames c). grBackendRefs rule \<noteq> [] \<and>
       x = proxyRoute c KindGRPCRoute [] ''grpc'' (grBackendRefs rule) (grSession rule) h"
  by (auto simp: grpcRuleRoutes_def ruleServed_def split: if_splits)

lemma httpHostnamePathKeys_mem:
  assumes "rule \<in> set (htRules h)" "hostname \<in> set (rtHostnames (htCommon h))"
  shows "\<lparr>hpkHostname = hostname, hpkPath = pathFromMatches (hrMatches rule), hpkProtocol = []\<rparr>
    \<in> set (httpHostnamePathKeys h)"
  using assms by (auto simp: httpHostnamePathKeys_def intro!: bexI [of _ rule])

lemma grpcHostnamePathKeys_mem:
  assumes "rule \<in> set (grtRules g)" "hostname \<in> set (rtHostnames (grtCommon g))"
  shows "\<lparr>hpkHostname = hostname, hpkPath = [], hpkProtocol = ''grpc''\<rparr>
    \<in> set (grpcHostnamePathKeys g)"
  using assms by (auto simp: grpcHostnamePathKeys_def intro!: bexI [of _ rule])

interpretation http: proxy_route_source httpHostnamePathKeys
  "\<lambda>lg h. httpRulesLoop lg (htCommon h) (htRules h) [] []" htCommon "\<lambda>h. KindHTTPRoute"
proof
  fix lg and h :: http_route and xs ds x
  assume "httpRulesLoop lg (htCommon h) (htRules h) [] [] = Inr (xs, ds)" "x \<in> set xs"
  then obtain rule where "rule \<in> set (htRules h)" "x \<in> set (httpRuleRoutes lg (htCommon h) rule)"
    using httpRulesLoop_Inr by fastforce
  then show "proxyRouteKey x \<in> set (httpHostnamePathKeys h)"
    and "roOwner x = rtNamespace (htCommon h) @ ''/'' @ rtName (htCommon h) \<and>
         roOwnerKind x = KindHTTPRoute"
    and "roBackends x \<noteq> []"
    by (auto dest!: httpRuleRoutes_mem
        simp: proxyRoute_def proxyRouteKey_def intro: httpHostnamePathKeys_mem)
qed

interpretation grpc: proxy_route_source grpcHostnamePathKeys
  "\<lambda>lg g. grpcRulesLoop lg (grtCommon g) (grtRules g) [] []" grtCommon "\<lambda>g. KindGRPCRoute"
proof
  fix lg and g :: grpc_route and xs ds x
  assume "grpcRulesLoop lg (grtCommon g) (grtRules g) [] [] = Inr (xs, ds)" "x \<in> set xs"
  then obtain rule where "rule \<in> set (grtRules g)" "x \<in> set (grpcRuleRoutes lg (grtCommon g) rule)"
    using grpcRulesLoop_Inr by fastforce
  then show "proxyRouteKey x \<in> set (grpcHostnamePathKeys g)"
    and "roOwner x = rtNamespace (grtCommon g) @ ''/'' @ rtName (grtCommon g) \<and>
         roOwnerKind x = KindGRPCRoute"
    and "roBackends x \<noteq> []"
    by (auto dest!: grpcRuleRoutes_mem
        simp: proxyRoute_def proxyRouteKey_def intro: grpcHostnamePathKeys_mem)
qed

text \<open>So the methods of \<^verbatim>\<open>routeObject\<close> meet the contract whichever route is behind it.\<close>

interpretation robj: proxy_route_source hostnamePathKeys buildProxyRoutes objCommon routeKind
proof
  fix lg r xs ds x
  assume b: "buildProxyRoutes lg r = Inr (xs, ds)" "x \<in> set xs"
  show "proxyRouteKey x \<in> set (hostnamePathKeys r)"
    using b http.build_keys grpc.build_keys by (cases r) auto
  show "roOwner x = rtNamespace (objCommon r) @ ''/'' @ rtName (objCommon r) \<and>
        roOwnerKind x = routeKind r"
    using b http.build_owner grpc.build_owner by (cases r) auto
  show "roBackends x \<noteq> []"
    using b http.build_backends grpc.build_backends by (cases r) auto
qed

section \<open>Lemmas on claims\<close>

definition claimedBy :: "routeOwner \<Rightarrow> routeObject \<Rightarrow> bool" where
  "claimedBy own r \<longleftrightarrow> (ownNamespace own, ownName own) = routeKey r"

lemma map_of_addIssue:
  "map_of (addIssue key issue m) k =
     (if k = key then Some ((case map_of m key of None \<Rightarrow> [] | Some xs \<Rightarrow> xs) @ [issue])
      else map_of m k)"
  by (simp add: addIssue_def update_conv')

lemma claimKeysLoop_spec:
  assumes "claimKeysLoop r hpks c m = (c', m')"
  shows "(\<forall>k own. c k = Some own \<longrightarrow> c' k = Some own) \<and>
    (\<forall>k\<in>set hpks. c' k \<noteq> None) \<and>
    (\<forall>k own. c' k = Some own \<longrightarrow> c k = Some own \<or> (k \<in> set hpks \<and> claimedBy own r)) \<and>
    (\<forall>key. key \<noteq> routeKey r \<longrightarrow> map_of m' key = map_of m key) \<and>
    (map_of m' (routeKey r) = None \<longleftrightarrow>
       map_of m (routeKey r) = None \<and> (\<forall>k\<in>set hpks. \<forall>own. c' k = Some own \<longrightarrow> claimedBy own r))"
  using assms
proof (induction hpks arbitrary: c m)
  case Nil
  then show ?case by auto
next
  case (Cons hpk hpks)
  consider (new) "c hpk = None"
    | (own) own where "c hpk = Some own" "claimedBy own r"
    | (other) own where "c hpk = Some own" "\<not> claimedBy own r" by blast
  then show ?case
  proof cases
    case new
    let ?own = "\<lparr>ownNamespace = fst (routeKey r), ownName = snd (routeKey r),
                              ownKind = routeKind r\<rparr>"
    have run: "claimKeysLoop r hpks (c(hpk \<mapsto> ?own)) m = (c', m')"
      using Cons.prems new by simp
    define c2 where "c2 = c(hpk \<mapsto> ?own)"
    have by_r: "claimedBy ?own r" by (simp add: claimedBy_def)
    have c2: "c2 hpk = Some ?own" "\<And>k. k \<noteq> hpk \<Longrightarrow> c2 k = c k"
      "\<And>k own. c k = Some own \<Longrightarrow> c2 k = Some own"
      using new by (auto simp: c2_def)
    note I = Cons.IH [OF run [folded c2_def]]
    have h: "c' hpk = Some ?own" using I c2(1) by blast
    have "\<forall>k own. c k = Some own \<longrightarrow> c' k = Some own" using I c2(3) by blast
    moreover have "\<forall>k\<in>set (hpk # hpks). c' k \<noteq> None" using I h by auto
    moreover have "\<forall>k own. c' k = Some own \<longrightarrow> c k = Some own \<or>
        (k \<in> set (hpk # hpks) \<and> claimedBy own r)"
      using I h by_r c2(2) by (metis list.set_intros(1,2) option.inject)
    moreover have "map_of m' (routeKey r) = None \<longleftrightarrow> map_of m (routeKey r) = None \<and>
        (\<forall>k\<in>set (hpk # hpks). \<forall>own. c' k = Some own \<longrightarrow> claimedBy own r)"
      using I h by_r by auto
    ultimately show ?thesis using I by blast
  next
    case own
    have run: "claimKeysLoop r hpks c m = (c', m')"
      using Cons.prems own by (cases "routeKey r") (auto simp: claimedBy_def)
    show ?thesis using Cons.IH [OF run] own by auto
  next
    case other
    then obtain issue where run: "claimKeysLoop r hpks c (addIssue (routeKey r) issue m) = (c', m')"
      using Cons.prems by (cases "routeKey r") (auto simp: claimedBy_def Let_def split: if_splits)
    show ?thesis using Cons.IH [OF run] other by (auto simp: map_of_addIssue)
  qed
qed

lemma claimRoutesLoop_spec:
  assumes "claimRoutesLoop rs c m = (c', m')"
  shows "(\<forall>k own. c k = Some own \<longrightarrow> c' k = Some own) \<and>
    (\<forall>r\<in>set rs. \<forall>k\<in>set (hostnamePathKeys r). c' k \<noteq> None) \<and>
    (\<forall>k own. c' k = Some own \<longrightarrow> c k = Some own \<or>
       (\<exists>r\<in>set rs. k \<in> set (hostnamePathKeys r) \<and> claimedBy own r)) \<and>
    (\<forall>key. map_of m' key = None \<longleftrightarrow> map_of m key = None \<and>
       (\<forall>r\<in>set rs. routeKey r = key \<longrightarrow>
          (\<forall>k\<in>set (hostnamePathKeys r). \<forall>own. c' k = Some own \<longrightarrow> claimedBy own r)))"
  using assms
proof (induction rs arbitrary: c m)
  case Nil
  then show ?case by auto
next
  case (Cons r rs)
  obtain c1 m1 where k: "claimKeysLoop r (hostnamePathKeys r) c m = (c1, m1)" by fastforce
  then have rest: "claimRoutesLoop rs c1 m1 = (c', m')" using Cons.prems by simp
  note K = claimKeysLoop_spec [OF k] and R = Cons.IH [OF rest]
  have same: "c' x = c1 x" if "x \<in> set (hostnamePathKeys r)" for x
    using K R that by (metis not_Some_eq)
  have "map_of m' key = None \<longleftrightarrow> map_of m key = None \<and>
       (\<forall>q\<in>set (r # rs). routeKey q = key \<longrightarrow>
          (\<forall>k\<in>set (hostnamePathKeys q). \<forall>own. c' k = Some own \<longrightarrow> claimedBy own q))" for key
  proof -
    have "map_of m1 key = None \<longleftrightarrow> map_of m key = None \<and> (routeKey r = key \<longrightarrow>
        (\<forall>k\<in>set (hostnamePathKeys r). \<forall>own. c1 k = Some own \<longrightarrow> claimedBy own r))"
    proof (cases "key = routeKey r")
      case True
      then show ?thesis using K by (simp only: True simp_thms)
    next
      case False
      then show ?thesis using K by metis
    qed
    moreover have "map_of m' key = None \<longleftrightarrow> map_of m1 key = None \<and> (\<forall>q\<in>set rs. routeKey q = key \<longrightarrow>
        (\<forall>k\<in>set (hostnamePathKeys q). \<forall>own. c' k = Some own \<longrightarrow> claimedBy own q))"
      using R by blast
    ultimately show ?thesis using same by auto
  qed
  moreover have "\<forall>k own. c k = Some own \<longrightarrow> c' k = Some own" using K R by blast
  moreover have "\<forall>q\<in>set (r # rs). \<forall>k\<in>set (hostnamePathKeys q). c' k \<noteq> None"
    using K R same by auto
  moreover have "\<forall>k own. c' k = Some own \<longrightarrow> c k = Some own \<or>
       (\<exists>q\<in>set (r # rs). k \<in> set (hostnamePathKeys q) \<and> claimedBy own q)"
    using K R by (metis list.set_intros(1) list.set_intros(2))
  ultimately show ?case by blast
qed

lemma parseRouteOwner_Some:
  "parseRouteOwner kind owner = Some own \<Longrightarrow>
     owner = ownNamespace own @ ''/'' @ ownName own \<and> ownKind own = kind"
  by (auto simp: parseRouteOwner_def dest!: cutChar_found split: prod.splits if_splits)

lemma claimExisting_spec:
  "(\<forall>k own. claimExisting rs c k = Some own \<longrightarrow> c k = Some own \<or>
      (\<exists>y\<in>set rs. proxyRouteKey y = k \<and> parseRouteOwner (roOwnerKind y) (roOwner y) = Some own)) \<and>
   (\<forall>k. c k \<noteq> None \<longrightarrow> claimExisting rs c k \<noteq> None) \<and>
   (\<forall>x\<in>set rs. parseRouteOwner (roOwnerKind x) (roOwner x) \<noteq> None \<longrightarrow>
      claimExisting rs c (proxyRouteKey x) \<noteq> None)"
proof (induction rs arbitrary: c)
  case Nil
  then show ?case by simp
next
  case (Cons r rs)
  show ?case
  proof (cases "parseRouteOwner (roOwnerKind r) (roOwner r)")
    case None
    then show ?thesis using Cons.IH [of c] by auto
  next
    case (Some own)
    define c2 where "c2 = c(proxyRouteKey r \<mapsto> own)"
    have at: "c2 (proxyRouteKey r) = Some own" by (simp add: c2_def)
    have other: "c2 k = c k" if "k \<noteq> proxyRouteKey r" for k using that by (simp add: c2_def)
    have run: "claimExisting (r # rs) c = claimExisting rs c2" using Some by (simp add: c2_def)
    note I = Cons.IH [of c2]
    have "c k = Some own' \<or> (\<exists>y\<in>set (r # rs). proxyRouteKey y = k \<and>
        parseRouteOwner (roOwnerKind y) (roOwner y) = Some own')"
      if "claimExisting rs c2 k = Some own'" for k own'
    proof (cases "k = proxyRouteKey r")
      case True
      then show ?thesis using I that Some at by (metis list.set_intros(1,2) option.inject)
    next
      case False
      then show ?thesis using I that other [OF False] by (metis list.set_intros(2))
    qed
    moreover have "claimExisting rs c2 k \<noteq> None" if "c k \<noteq> None" for k
      using I that at other by (metis option.distinct(1))
    moreover have "claimExisting rs c2 (proxyRouteKey x) \<noteq> None"
      if "x \<in> set (r # rs)" "parseRouteOwner (roOwnerKind x) (roOwner x) \<noteq> None" for x
      using I that at by (metis option.distinct(1) set_ConsD)
    ultimately show ?thesis unfolding run by blast
  qed
qed

lemma buildRouteLoop_mem:
  "buildRouteLoop lg rs acc denied = Inr (xs, denied') \<Longrightarrow> y \<in> set xs \<Longrightarrow>
     y \<in> set acc \<or> (\<exists>r\<in>set rs. \<exists>ys ds. buildProxyRoutes lg r = Inr (ys, ds) \<and> y \<in> set ys)"
proof (induction rs arbitrary: acc denied)
  case Nil
  then show ?case by simp
next
  case (Cons r rs)
  then obtain ys ds where b: "buildProxyRoutes lg r = Inr (ys, ds)"
    by (auto split: sum.splits)
  with Cons.IH Cons.prems show ?case by fastforce
qed

lemma filterConflictsLoop_filter:
  "fst (filterConflictsLoop tt kube retry gw now conflicts rs filtered errs k) =
     filtered @ filter (\<lambda>r. map_of conflicts (routeKey r) = None) rs"
proof (induction rs arbitrary: filtered errs k)
  case (Cons r rs)
  then show ?case by (auto simp: Let_def split: option.splits prod.splits)
qed simp

lemma filterNoMatchLoop_filter:
  "fst (filterNoMatchLoop tt kube retry gw now rs matched errs k) =
     matched @ filter (hasMatchingListener gw) rs"
proof (induction rs arbitrary: matched errs k)
  case (Cons r rs)
  then show ?case by (auto simp: Let_def split: option.splits prod.splits)
qed simp

lemma filterConflictingRoutes_kept:
  assumes "getExistingRouteConfig getCM unmarshal gw k = (Inr existing, k1)"
    and "filterConflictingRoutes tt kube retry getCM unmarshal gw now routes k = (Inr (kept, errs), k')"
  shows "kept = filter (\<lambda>r. map_of (findConflictingRoutes existing routes) (routeKey r) = None) routes"
proof (cases "findConflictingRoutes existing routes = []")
  case True
  then show ?thesis using assms by (simp add: filterConflictingRoutes_def)
next
  case False
  then show ?thesis
    using assms filterConflictsLoop_filter [of tt kube retry gw now
        "findConflictingRoutes existing routes" routes "[]" "[]" k1]
    by (auto simp: filterConflictingRoutes_def split: prod.splits)
qed

text \<open>The claims after a reconciliation: existing ones first, then those of the routes.\<close>

definition finalClaims :: "proxy_config option \<Rightarrow> routeObject list \<Rightarrow> claims" where
  "finalClaims existing routes = fst (claimRoutesLoop routes (existingClaims existing) [])"

lemma findConflictingRoutes_None:
  "map_of (findConflictingRoutes existing routes) key = None \<longleftrightarrow>
     (\<forall>r\<in>set routes. routeKey r = key \<longrightarrow>
        (\<forall>k\<in>set (hostnamePathKeys r). \<exists>own. finalClaims existing routes k = Some own \<and> claimedBy own r))"
proof -
  obtain c m where run: "claimRoutesLoop routes (existingClaims existing) [] = (c, m)" by fastforce
  have "map_of m key = None \<longleftrightarrow> (\<forall>r\<in>set routes. routeKey r = key \<longrightarrow>
        (\<forall>k\<in>set (hostnamePathKeys r). \<forall>own. c k = Some own \<longrightarrow> claimedBy own r))"
  proof -
    have "\<forall>key. map_of m key = None \<longleftrightarrow> map_of ([] :: issues) key = None \<and>
       (\<forall>r\<in>set routes. routeKey r = key \<longrightarrow>
          (\<forall>k\<in>set (hostnamePathKeys r). \<forall>own. c k = Some own \<longrightarrow> claimedBy own r))"
      using claimRoutesLoop_spec [OF run] by blast
    then show ?thesis by (metis map_of.simps(1))
  qed
  moreover have "\<forall>r\<in>set routes. \<forall>k\<in>set (hostnamePathKeys r). c k \<noteq> None"
    using claimRoutesLoop_spec [OF run] by blast
  ultimately show ?thesis
    using run unfolding findConflictingRoutes_def finalClaims_def by fastforce
qed

lemma finalClaims_existing:
  "existingClaims existing k = Some own \<Longrightarrow> finalClaims existing routes k = Some own"
  using claimRoutesLoop_spec [of routes "existingClaims existing" "[]"]
  by (simp add: finalClaims_def) (metis prod.collapse)

section \<open>Properties\<close>

text \<open>One owner per key in a route configuration.\<close>

definition oneOwnerPerKey :: "proxy_config \<Rightarrow> bool" where
  "oneOwnerPerKey cfg \<longleftrightarrow>
     (\<forall>x\<in>set (cfgRoutes cfg). \<forall>y\<in>set (cfgRoutes cfg).
        proxyRouteKey x = proxyRouteKey y \<longrightarrow> roOwner x = roOwner y)"

text \<open>
  C12. No route takes over another route's hostname and path: when the existing ConfigMap has
  one owner per hostname, path and protocol (or there is none), then after filtering the
  conflicts and building the new configuration from the routes that are kept, it again has
  one owner per key, and every key that the existing ConfigMap gave to an owner and that is
  still served is served for the same owner.  Namespaces have no slash.
\<close>

theorem no_hostname_takeover:
  assumes "getExistingRouteConfig getCM unmarshal gw k = (Inr existing, k1)"
    and "\<forall>c. existing = Some c \<longrightarrow> oneOwnerPerKey c"
    and "filterConflictingRoutes tt kube retry getCM unmarshal gw now routes k = (Inr (kept, errs), k')"
    and "buildRouteConfig lg kept = Inr (cfg, denied)"
    and "\<forall>r\<in>set routes. CHR ''/'' \<notin> set (rtNamespace (objCommon r))"
  shows "oneOwnerPerKey cfg
    \<and> (\<forall>c x y. existing = Some c \<and> x \<in> set (cfgRoutes c) \<and> y \<in> set (cfgRoutes cfg) \<and>
         parseRouteOwner (roOwnerKind x) (roOwner x) \<noteq> None \<and> proxyRouteKey x = proxyRouteKey y
         \<longrightarrow> roOwner x = roOwner y)"
proof -
  have kept: "kept = filter (\<lambda>r. map_of (findConflictingRoutes existing routes) (routeKey r) = None) routes"
    using filterConflictingRoutes_kept [OF assms(1,3)] .
  have owner: "\<exists>own. finalClaims existing routes (proxyRouteKey y) = Some own \<and>
      roOwner y = ownNamespace own @ ''/'' @ ownName own" if y: "y \<in> set (cfgRoutes cfg)" for y
  proof -
    obtain xs where "buildRouteLoop lg kept [] Map.empty = Inr (xs, denied)" "cfgRoutes cfg = xs"
      using assms(4) by (auto simp: buildRouteConfig_def split: sum.splits)
    then obtain r ys ds where r: "r \<in> set kept" "buildProxyRoutes lg r = Inr (ys, ds)" "y \<in> set ys"
      using buildRouteLoop_mem [of lg kept "[]"] y by fastforce
    then have "r \<in> set routes" "map_of (findConflictingRoutes existing routes) (routeKey r) = None"
      using kept by auto
    then obtain own where "finalClaims existing routes (proxyRouteKey y) = Some own" "claimedBy own r"
      using findConflictingRoutes_None [of existing routes "routeKey r"] robj.build_keys [OF r(2,3)]
      by blast
    then show ?thesis
      using robj.build_owner [OF r(2,3)] by (auto simp: claimedBy_def routeKey_def)
  qed
  have "oneOwnerPerKey cfg"
    unfolding oneOwnerPerKey_def by (metis owner option.inject)
  moreover have "roOwner x = roOwner y"
    if c: "existing = Some c" and x: "x \<in> set (cfgRoutes c)" and y: "y \<in> set (cfgRoutes cfg)"
      and px: "parseRouteOwner (roOwnerKind x) (roOwner x) \<noteq> None"
      and key: "proxyRouteKey x = proxyRouteKey y" for c x y
  proof -
    have "existingClaims existing (proxyRouteKey x) \<noteq> None"
      using claimExisting_spec [of "cfgRoutes c" Map.empty] x px by (simp add: existingClaims_def c)
    then obtain own where own: "existingClaims existing (proxyRouteKey x) = Some own" by blast
    then obtain z where z: "z \<in> set (cfgRoutes c)" "proxyRouteKey z = proxyRouteKey x"
      "parseRouteOwner (roOwnerKind z) (roOwner z) = Some own"
      using claimExisting_spec [of "cfgRoutes c" Map.empty] by (fastforce simp: existingClaims_def c)
    have "roOwner z = roOwner x" using assms(2) c x z unfolding oneOwnerPerKey_def by blast
    moreover have "roOwner z = ownNamespace own @ ''/'' @ ownName own"
      using parseRouteOwner_Some [OF z(3)] by blast
    moreover have "finalClaims existing routes (proxyRouteKey y) = Some own"
      using finalClaims_existing own key by simp
    ultimately show ?thesis using owner [OF y] by auto
  qed
  ultimately show ?thesis by blast
qed

text \<open>
  A cluster whose ConfigMap serves hostname \<^verbatim>\<open>a\<close> for the route \<^verbatim>\<open>ns/old\<close>, and routes: that
  one, an HTTPRoute \<^verbatim>\<open>ns/new\<close> that wants \<^verbatim>\<open>a\<close> too, and a GRPCRoute \<^verbatim>\<open>ns/new\<close> for \<^verbatim>\<open>g\<close>.
\<close>

definition svcRef :: backend_ref where
  "svcRef =
     \<lparr>brGroup = None, brKind = None, brNamespace = None, brName = ''svc'', brPort = Some 8080,
      brWeight = None, brFilters = []\<rparr>"

definition namedCommon :: "string \<Rightarrow> string \<Rightarrow> route_common" where
  "namedCommon n host =
     \<lparr>rtNamespace = ''ns'', rtName = n, rtGeneration = 1, rtDeleted = False, rtParentRefs = [],
      rtHostnames = [host], rtParents = []\<rparr>"

definition httpNamed :: "string \<Rightarrow> string \<Rightarrow> routeObject" where
  "httpNamed n host =
     HTTPObj \<lparr>htCommon = namedCommon n host,
       htRules = [\<lparr>hrMatches = [], hrFilters = [], hrHasTimeouts = False, hrHasRetry = False,
                   hrBackendRefs = [svcRef], hrSession = None\<rparr>]\<rparr>"

definition grpcNamed :: "string \<Rightarrow> string \<Rightarrow> routeObject" where
  "grpcNamed n host =
     GRPCObj \<lparr>grtCommon = namedCommon n host,
       grtRules = [\<lparr>grMatches = [], grFilters = [], grBackendRefs = [svcRef], grSession = None\<rparr>]\<rparr>"

definition claimedConfig :: proxy_config where
  "claimedConfig =
     \<lparr>cfgRoutes = [(demoRoute ''a'' [] [demoBackend ''s'' 1])\<lparr>roOwner := ''ns/old''\<rparr>],
      cfgByHost = (\<lambda>h. [])\<rparr>"

definition claimedCM ::
  "namespaced_name \<Rightarrow> routeObject \<Rightarrow> (go_error + (string \<Rightarrow> string option)) \<times> routeObject" where
  "claimedCM key k = (Inr [''config.yaml'' \<mapsto> ''c''], k)"

definition claimedRun :: "routeObject list \<Rightarrow> (go_error + routeObject list \<times> string list) \<times> routeObject" where
  "claimedRun routes =
     filterConflictingRoutes id oneRouteKube (\<lambda>f. f) claimedCM (\<lambda>t. Inr claimedConfig)
       (namedGateway ''ns'' ''gw'') 5 routes demoObj"

lemma claimed_existing:
  "getExistingRouteConfig claimedCM (\<lambda>t. Inr claimedConfig) gw demoObj =
     (Inr (Some claimedConfig), demoObj)"
  by (simp add: getExistingRouteConfig_def claimedCM_def Let_def)

theorem no_hostname_takeover_witness:
  "\<exists>cfg denied. claimedRun [httpNamed ''new'' ''a'', httpNamed ''old'' ''a''] =
       (Inr ([httpNamed ''old'' ''a''], []), snd (claimedRun [httpNamed ''new'' ''a'', httpNamed ''old'' ''a'']))
     \<and> buildRouteConfig (\<lambda>ns. Inr []) [httpNamed ''old'' ''a''] = Inr (cfg, denied)
     \<and> cfgRoutes cfg \<noteq> [] \<and> oneOwnerPerKey cfg"
proof -
  let ?rs = "[httpNamed ''new'' ''a'', httpNamed ''old'' ''a'']"
  have "fst (claimedRun ?rs) = Inr ([httpNamed ''old'' ''a''], [])" by code_simp
  then have run: "claimedRun ?rs = (Inr ([httpNamed ''old'' ''a''], []), snd (claimedRun ?rs))"
    by (simp add: prod_eq_iff)
  obtain cfg denied where cfg: "buildRouteConfig (\<lambda>ns. Inr []) [httpNamed ''old'' ''a''] = Inr (cfg, denied)"
    "cfgRoutes cfg \<noteq> []"
    by (auto simp: buildRouteConfig_def httpNamed_def namedCommon_def svcRef_def resolveBackendRef_def
        backendReferenceGranted_def Let_def)
  have ex: "\<forall>c. Some claimedConfig = Some c \<longrightarrow> oneOwnerPerKey c"
    by (simp add: oneOwnerPerKey_def claimedConfig_def)
  have ns: "\<forall>r\<in>set ?rs. CHR ''/'' \<notin> set (rtNamespace (objCommon r))"
    by (simp add: httpNamed_def namedCommon_def)
  have "oneOwnerPerKey cfg"
    using no_hostname_takeover [OF claimed_existing ex run [unfolded claimedRun_def] cfg(1) ns] by blast
  with run cfg show ?thesis by blast
qed



end
