(* ===== verification/CloudflareClient.thy ===== *)
theory CloudflareClient
  imports Naming
begin

text \<open>
  internal/cloudflare/client.go: the interface \<^verbatim>\<open>Client\<close> over Cloudflare tunnels, zones and
  DNS records, and its implementation on the Cloudflare SDK.  The interface is a record of
  functions over a world \<open>'w\<close>, the state of the Cloudflare account and of the network.  The
  SDK is not under src/: it is the record \<open>sdk\<close>, a parameter of every operation.  An
  auto-paging listing gives the elements its pages deliver and the error that ended them, if
  any; a listing is a read, so a loop that returns early leaves the same account behind.
  The \<^verbatim>\<open>context.Context\<close> argument is part of the world.
\<close>

section \<open>Types\<close>

record client_config =
  ccAPIToken :: string
  ccAccountID :: string
  ccBaseURL :: string

record tunnel =
  tunnelID :: string
  tunnelName :: string

record zone =
  zoneID :: string
  zoneName :: string

record dns_record =
  recID :: string
  recName :: string
  recContent :: string

text \<open>The body of a CNAME record that is written.\<close>

record cname_body =
  cbName :: string
  cbContent :: string
  cbTTL :: nat
  cbProxied :: bool

record 'w sdk =
  sdkTunnelNew :: "string \<Rightarrow> string \<Rightarrow> string \<Rightarrow> 'w \<Rightarrow> (go_error + tunnel) \<times> 'w"
  sdkTunnelList ::
    "string \<Rightarrow> string option \<Rightarrow> bool \<Rightarrow> 'w \<Rightarrow> (tunnel list \<times> go_error option) \<times> 'w"
  sdkConnectionsDelete :: "string \<Rightarrow> string \<Rightarrow> 'w \<Rightarrow> go_error option \<times> 'w"
  sdkTunnelDelete :: "string \<Rightarrow> string \<Rightarrow> 'w \<Rightarrow> go_error option \<times> 'w"
  sdkTokenGet :: "string \<Rightarrow> string \<Rightarrow> 'w \<Rightarrow> (go_error + string) \<times> 'w"
  sdkTunnelEdit :: "string \<Rightarrow> string \<Rightarrow> string \<Rightarrow> 'w \<Rightarrow> go_error option \<times> 'w"
  sdkZoneList :: "string option \<Rightarrow> 'w \<Rightarrow> (zone list \<times> go_error option) \<times> 'w"
  sdkRecordList ::
    "string \<Rightarrow> string option \<Rightarrow> string option \<Rightarrow> 'w
       \<Rightarrow> (dns_record list \<times> go_error option) \<times> 'w"
  sdkRecordUpdate :: "string \<Rightarrow> string \<Rightarrow> cname_body \<Rightarrow> 'w \<Rightarrow> go_error option \<times> 'w"
  sdkRecordNew :: "string \<Rightarrow> cname_body \<Rightarrow> 'w \<Rightarrow> go_error option \<times> 'w"
  sdkRecordDelete :: "string \<Rightarrow> string \<Rightarrow> 'w \<Rightarrow> go_error option \<times> 'w"

text \<open>The interface \<^verbatim>\<open>Client\<close>.\<close>

record 'w client =
  CreateTunnel :: "string \<Rightarrow> 'w \<Rightarrow> (go_error + string) \<times> 'w"
  GetTunnelIDByName :: "string \<Rightarrow> 'w \<Rightarrow> (go_error + string) \<times> 'w"
  ListTunnels :: "'w \<Rightarrow> (go_error + tunnel list) \<times> 'w"
  CleanupTunnelConnections :: "string \<Rightarrow> 'w \<Rightarrow> go_error option \<times> 'w"
  DeleteTunnel :: "string \<Rightarrow> 'w \<Rightarrow> go_error option \<times> 'w"
  GetTunnelToken :: "string \<Rightarrow> 'w \<Rightarrow> (go_error + string) \<times> 'w"
  RotateTunnelSecret :: "string \<Rightarrow> string \<Rightarrow> 'w \<Rightarrow> go_error option \<times> 'w"
  ListZoneIDs :: "'w \<Rightarrow> (go_error + string list) \<times> 'w"
  FindZoneIDByHostname :: "string \<Rightarrow> 'w \<Rightarrow> (go_error + string) \<times> 'w"
  GetDNSCNAMETarget :: "string \<Rightarrow> string \<Rightarrow> 'w \<Rightarrow> (go_error + string \<times> bool) \<times> 'w"
  EnsureDNSCNAME :: "string \<Rightarrow> string \<Rightarrow> string \<Rightarrow> 'w \<Rightarrow> go_error option \<times> 'w"
  DeleteDNSCNAME :: "string \<Rightarrow> string \<Rightarrow> 'w \<Rightarrow> go_error option \<times> 'w"
  ListDNSCNAMEsByTarget :: "string \<Rightarrow> string \<Rightarrow> 'w \<Rightarrow> (go_error + string list) \<times> 'w"

section \<open>Error classification and helpers\<close>

definition IsConflict :: "go_error option \<Rightarrow> bool" where
  "IsConflict err = (case err of None \<Rightarrow> False | Some e \<Rightarrow> errCloudflareStatus e = Some 409)"

definition IsNotFound :: "go_error option \<Rightarrow> bool" where
  "IsNotFound err = (case err of None \<Rightarrow> False | Some e \<Rightarrow> errCloudflareStatus e = Some 404)"

definition TunnelTarget :: "string \<Rightarrow> string" where
  "TunnelTarget tid = tid @ ''.cfargotunnel.com''"

text \<open>\<^verbatim>\<open>base64.StdEncoding.EncodeToString\<close>.\<close>

definition base64Digit :: "nat \<Rightarrow> char" where
  "base64Digit n =
     (if n < 26 then char_of (65 + n) else if n < 52 then char_of (71 + n)
      else if n < 62 then digitChar (n - 52) else if n = 62 then CHR ''+'' else CHR ''/'')"

fun base64Encode :: "string \<Rightarrow> string" where
  "base64Encode [] = []"
| "base64Encode [a] =
     (let n = of_char a * 16 :: nat
      in [base64Digit (n div 64), base64Digit (n mod 64), CHR ''='', CHR ''=''])"
| "base64Encode [a, b] =
     (let n = (of_char a * 256 + of_char b) * 4 :: nat
      in [base64Digit (n div 4096), base64Digit (n div 64 mod 64), base64Digit (n mod 64),
          CHR ''=''])"
| "base64Encode (a # b # c # r) =
     (let n = (of_char a * 256 + of_char b) * 256 + of_char c :: nat
      in [base64Digit (n div 262144), base64Digit (n div 4096 mod 64),
          base64Digit (n div 64 mod 64), base64Digit (n mod 64)] @ base64Encode r)"

section \<open>Tunnel operations\<close>

definition clientCreateTunnel ::
  "'w sdk \<Rightarrow> string \<Rightarrow> string \<Rightarrow> 'w \<Rightarrow> (go_error + string) \<times> 'w" where
  "clientCreateTunnel sdk acct name w =
     (case sdkTunnelNew sdk acct name ''local'' w of
        (Inl err, w') \<Rightarrow> (Inl err, w')
      | (Inr t, w') \<Rightarrow> (Inr (tunnelID t), w'))"

text \<open>The loop \<^verbatim>\<open>for pager.Next()\<close> returns at the first tunnel of the name.\<close>

definition clientGetTunnelIDByName ::
  "'w sdk \<Rightarrow> string \<Rightarrow> string \<Rightarrow> 'w \<Rightarrow> (go_error + string) \<times> 'w" where
  "clientGetTunnelIDByName sdk acct name w =
     (case sdkTunnelList sdk acct (Some name) False w of
        ((ts, perr), w') \<Rightarrow>
          (case find (\<lambda>t. tunnelName t = name) ts of
             Some t \<Rightarrow> (Inr (tunnelID t), w')
           | None \<Rightarrow>
               (case perr of
                  Some err \<Rightarrow>
                    (Inl (ErrWrap (''listing tunnels by name '' @ goQuote name @ '': '') err), w')
                | None \<Rightarrow> (Inr [], w'))))"

definition clientListTunnels ::
  "'w sdk \<Rightarrow> string \<Rightarrow> 'w \<Rightarrow> (go_error + tunnel list) \<times> 'w" where
  "clientListTunnels sdk acct w =
     (case sdkTunnelList sdk acct None False w of
        ((ts, perr), w') \<Rightarrow>
          (case perr of
             Some err \<Rightarrow> (Inl (ErrWrap ''listing tunnels: '' err), w')
           | None \<Rightarrow> (Inr (map (\<lambda>t. \<lparr>tunnelID = tunnelID t, tunnelName = tunnelName t\<rparr>) ts), w')))"

definition clientCleanupTunnelConnections ::
  "'w sdk \<Rightarrow> string \<Rightarrow> string \<Rightarrow> 'w \<Rightarrow> go_error option \<times> 'w" where
  "clientCleanupTunnelConnections sdk acct tid w = sdkConnectionsDelete sdk tid acct w"

definition clientDeleteTunnel ::
  "'w sdk \<Rightarrow> string \<Rightarrow> string \<Rightarrow> 'w \<Rightarrow> go_error option \<times> 'w" where
  "clientDeleteTunnel sdk acct tid w =
     (case sdkTunnelDelete sdk tid acct w of
        (err, w') \<Rightarrow> if IsNotFound err then (None, w') else (err, w'))"

definition clientGetTunnelToken ::
  "'w sdk \<Rightarrow> string \<Rightarrow> string \<Rightarrow> 'w \<Rightarrow> (go_error + string) \<times> 'w" where
  "clientGetTunnelToken sdk acct tid w = sdkTokenGet sdk tid acct w"

definition clientRotateTunnelSecret ::
  "'w sdk \<Rightarrow> string \<Rightarrow> string \<Rightarrow> string \<Rightarrow> 'w \<Rightarrow> go_error option \<times> 'w" where
  "clientRotateTunnelSecret sdk acct tid newSecret w =
     sdkTunnelEdit sdk tid acct (base64Encode newSecret) w"

section \<open>Zone and DNS operations\<close>

definition clientListZoneIDs :: "'w sdk \<Rightarrow> 'w \<Rightarrow> (go_error + string list) \<times> 'w" where
  "clientListZoneIDs sdk w =
     (case sdkZoneList sdk None w of
        ((zs, perr), w') \<Rightarrow>
          (case perr of
             Some err \<Rightarrow> (Inl (ErrWrap ''listing zones: '' err), w')
           | None \<Rightarrow> (Inr (map zoneID zs), w')))"

text \<open>
  \<^verbatim>\<open>for i := range len(parts) - 1\<close>: the list argument is \<^verbatim>\<open>parts[i:]\<close>, so the last label
  alone is never a candidate.
\<close>

fun findZoneLoop ::
  "'w sdk \<Rightarrow> string \<Rightarrow> string list \<Rightarrow> 'w \<Rightarrow> (go_error + string) \<times> 'w" where
  "findZoneLoop sdk hostname (p # q # r) w =
     (let candidate = joinStr (p # q # r) ''.''
      in case sdkZoneList sdk (Some candidate) w of
           ((zs, perr), w') \<Rightarrow>
             (case find (\<lambda>z. zoneName z = candidate) zs of
                Some z \<Rightarrow> (Inr (zoneID z), w')
              | None \<Rightarrow>
                  (case perr of
                     Some err \<Rightarrow>
                       (Inl (ErrWrap (''listing zones for '' @ goQuote candidate @ '': '') err), w')
                   | None \<Rightarrow> findZoneLoop sdk hostname (q # r) w')))"
| "findZoneLoop sdk hostname parts w =
     (Inl (ErrText (''no zone found for hostname '' @ goQuote hostname)), w)"

definition clientFindZoneIDByHostname ::
  "'w sdk \<Rightarrow> string \<Rightarrow> 'w \<Rightarrow> (go_error + string) \<times> 'w" where
  "clientFindZoneIDByHostname sdk hostname w =
     findZoneLoop sdk hostname (splitChar (CHR ''.'') hostname) w"

definition clientGetDNSCNAMETarget ::
  "'w sdk \<Rightarrow> string \<Rightarrow> string \<Rightarrow> 'w \<Rightarrow> (go_error + string \<times> bool) \<times> 'w" where
  "clientGetDNSCNAMETarget sdk zid hostname w =
     (case sdkRecordList sdk zid (Some hostname) None w of
        ((rs, perr), w') \<Rightarrow>
          (case find (\<lambda>r. recName r = hostname) rs of
             Some r \<Rightarrow> (Inr (recContent r, True), w')
           | None \<Rightarrow>
               (case perr of
                  Some err \<Rightarrow>
                    (Inl (ErrWrap (''listing DNS records for '' @ goQuote hostname @ '': '') err), w')
                | None \<Rightarrow> (Inr ([], False), w'))))"

definition cnameBody :: "string \<Rightarrow> string \<Rightarrow> cname_body" where
  "cnameBody hostname target =
     \<lparr>cbName = hostname, cbContent = target, cbTTL = 1, cbProxied = True\<rparr>"

definition clientEnsureDNSCNAME ::
  "'w sdk \<Rightarrow> string \<Rightarrow> string \<Rightarrow> string \<Rightarrow> 'w \<Rightarrow> go_error option \<times> 'w" where
  "clientEnsureDNSCNAME sdk zid hostname target w =
     (case sdkRecordList sdk zid (Some hostname) None w of
        ((rs, perr), w') \<Rightarrow>
          (case find (\<lambda>r. recName r = hostname) rs of
             Some r \<Rightarrow>
               if recContent r = target then (None, w')
               else sdkRecordUpdate sdk zid (recID r) (cnameBody hostname target) w'
           | None \<Rightarrow>
               (case perr of
                  Some err \<Rightarrow>
                    (Some (ErrWrap (''listing DNS records for '' @ goQuote hostname @ '': '') err), w')
                | None \<Rightarrow> sdkRecordNew sdk zid (cnameBody hostname target) w')))"

definition clientDeleteDNSCNAME ::
  "'w sdk \<Rightarrow> string \<Rightarrow> string \<Rightarrow> 'w \<Rightarrow> go_error option \<times> 'w" where
  "clientDeleteDNSCNAME sdk zid hostname w =
     (case sdkRecordList sdk zid (Some hostname) None w of
        ((rs, perr), w') \<Rightarrow>
          (case find (\<lambda>r. recName r = hostname) rs of
             Some r \<Rightarrow> sdkRecordDelete sdk zid (recID r) w'
           | None \<Rightarrow> (perr, w')))"

definition clientListDNSCNAMEsByTarget ::
  "'w sdk \<Rightarrow> string \<Rightarrow> string \<Rightarrow> 'w \<Rightarrow> (go_error + string list) \<times> 'w" where
  "clientListDNSCNAMEsByTarget sdk zid target w =
     (case sdkRecordList sdk zid None (Some target) w of
        ((rs, perr), w') \<Rightarrow>
          (case perr of
             Some err \<Rightarrow>
               (Inl (ErrWrap (''listing CNAME records by target '' @ goQuote target
                       @ '' in zone '' @ goQuote zid @ '': '') err), w')
           | None \<Rightarrow> (Inr (map recName (filter (\<lambda>r. recContent r = target) rs)), w')))"

text \<open>The struct \<^verbatim>\<open>client\<close> with its SDK client and account, as the interface.\<close>

definition clientOf :: "'w sdk \<Rightarrow> string \<Rightarrow> 'w client" where
  "clientOf sdk acct =
     \<lparr>CreateTunnel = clientCreateTunnel sdk acct,
      GetTunnelIDByName = clientGetTunnelIDByName sdk acct,
      ListTunnels = clientListTunnels sdk acct,
      CleanupTunnelConnections = clientCleanupTunnelConnections sdk acct,
      DeleteTunnel = clientDeleteTunnel sdk acct,
      GetTunnelToken = clientGetTunnelToken sdk acct,
      RotateTunnelSecret = clientRotateTunnelSecret sdk acct,
      ListZoneIDs = clientListZoneIDs sdk,
      FindZoneIDByHostname = clientFindZoneIDByHostname sdk,
      GetDNSCNAMETarget = clientGetDNSCNAMETarget sdk,
      EnsureDNSCNAME = clientEnsureDNSCNAME sdk,
      DeleteDNSCNAME = clientDeleteDNSCNAME sdk,
      ListDNSCNAMEsByTarget = clientListDNSCNAMEsByTarget sdk\<rparr>"

text \<open>
  \<^verbatim>\<open>NewClient\<close>: \<open>mkSDK\<close> is the SDK's constructor, given the token and the base URL option.
\<close>

definition NewClient ::
  "(string \<Rightarrow> string option \<Rightarrow> 'w sdk) \<Rightarrow> client_config \<Rightarrow> go_error + 'w client" where
  "NewClient mkSDK cfg =
     Inr (clientOf
       (mkSDK (ccAPIToken cfg) (if ccBaseURL cfg \<noteq> [] then Some (ccBaseURL cfg) else None))
       (ccAccountID cfg))"

section \<open>Lemmas\<close>

text \<open>The labels \<^verbatim>\<open>FindZoneIDByHostname\<close> tries, in order.\<close>

fun zoneCandidates :: "string list \<Rightarrow> string list" where
  "zoneCandidates (p # q # r) = joinStr (p # q # r) ''.'' # zoneCandidates (q # r)"
| "zoneCandidates parts = []"

lemma zoneCandidates_nth:
  "length (zoneCandidates ps) = length ps - 1 \<and>
   (\<forall>i < length ps - 1. zoneCandidates ps ! i = joinStr (drop i ps) ''.'')"
proof (induction ps rule: zoneCandidates.induct)
  case (1 p q r)
  then show ?case by (auto simp: nth_Cons' Suc_le_eq drop_Cons')
qed auto

text \<open>
  On listings that do not fail and answer from a fixed set of zones, the loop gives the first
  candidate that is a zone.
\<close>

lemma findZoneLoop_first:
  fixes Inv :: "'w \<Rightarrow> bool"
  assumes "\<And>n v. Inv v \<Longrightarrow> \<exists>zs v'. sdkZoneList sdk (Some n) v = ((zs, None), v') \<and> Inv v' \<and>
            find (\<lambda>z. zoneName z = n) zs = find (\<lambda>z. zoneName z = n) account"
    and "Inv w"
  shows "\<exists>w'. Inv w' \<and> findZoneLoop sdk h ps w =
     (case find (\<lambda>c. c \<in> zoneName ` set account) (zoneCandidates ps) of
        None \<Rightarrow> Inl (ErrText (''no zone found for hostname '' @ goQuote h))
      | Some c \<Rightarrow> Inr (zoneID (the (find (\<lambda>z. zoneName z = c) account))), w')"
  using assms
proof (induction sdk h ps w rule: findZoneLoop.induct)
  case (1 sdk h p q r w)
  let ?c = "joinStr (p # q # r) ''.''"
  obtain zs w1 where zs: "sdkZoneList sdk (Some ?c) w = ((zs, None), w1)" "Inv w1"
    "find (\<lambda>z. zoneName z = ?c) zs = find (\<lambda>z. zoneName z = ?c) account"
    using "1.prems"(1) [OF "1.prems"(2)] by blast
  show ?case
  proof (cases "find (\<lambda>z. zoneName z = ?c) account")
    case None
    then have "?c \<notin> zoneName ` set account" by (auto simp: find_None_iff)
    with None zs show ?thesis using "1.IH" "1.prems"(1) by (simp add: Let_def)
  next
    case (Some z)
    then have "z \<in> set account" "zoneName z = ?c" by (auto simp: find_Some_iff)
    then have "?c \<in> zoneName ` set account" by (metis imageI)
    with Some zs show ?thesis by (auto simp: Let_def)
  qed
qed auto

end
