(* ===== verification/DnsContract.thy ===== *)
theory DnsContract
  imports CloudflareClient
begin

text \<open>
  What the DNS operations of the Cloudflare client promise, as interfaces.  The locale
  \<open>sdk_dns\<close> states the documented behaviour of the SDK's record requests over the CNAME
  records of the account; \<open>dns_client\<close> is the contract the reconcilers rely on, over the
  map from zone and hostname to CNAME target; a \<^verbatim>\<open>sublocale\<close> shows that the client of
  client.go provides the contract on any such SDK.  A request may fail with or without having
  been applied.  \<open>simSDK\<close> is an account with scheduled faults on which everything computes.
\<close>

section \<open>The contract of the DNS operations\<close>

text \<open>Zone, hostname, CNAME target.\<close>

type_synonym cname_table = "string \<Rightarrow> string \<Rightarrow> string option"

definition setRec :: "cname_table \<Rightarrow> string \<Rightarrow> string \<Rightarrow> string option \<Rightarrow> cname_table" where
  "setRec R z h v = R(z := (R z)(h := v))"

lemma setRec_apply: "setRec R z h v z' h' = (if z' = z \<and> h' = h then v else R z' h')"
  by (simp add: setRec_def)

lemma setRec_same: "R z h = v \<Longrightarrow> setRec R z h v = R"
  by (auto simp: setRec_def fun_eq_iff)

lemma setRec_twice [simp]: "setRec (setRec R z h a) z h b = setRec R z h b"
  by (simp add: setRec_def)

definition getRec :: "cname_table \<Rightarrow> string \<Rightarrow> string \<Rightarrow> string \<times> bool" where
  "getRec R z h = (case R z h of None \<Rightarrow> ([], False) | Some t \<Rightarrow> (t, True))"

locale dns_client =
  fixes Inv :: "'w \<Rightarrow> bool"
    and recs :: "'w \<Rightarrow> cname_table"
    and tc :: "'w client"
  assumes get_law: "Inv w \<Longrightarrow> GetDNSCNAMETarget tc z h w = (r, w') \<Longrightarrow>
      Inv w' \<and> recs w' = recs w \<and> (\<forall>x. r = Inr x \<longrightarrow> x = getRec (recs w) z h)"
    and ensure_law: "Inv w \<Longrightarrow> EnsureDNSCNAME tc z h t w = (e, w') \<Longrightarrow>
      Inv w' \<and> (recs w' = recs w \<or> recs w' = setRec (recs w) z h (Some t)) \<and>
      (e = None \<longrightarrow> recs w' = setRec (recs w) z h (Some t))"
    and delete_law: "Inv w \<Longrightarrow> DeleteDNSCNAME tc z h w = (e, w') \<Longrightarrow>
      Inv w' \<and> (recs w' = recs w \<or> recs w' = setRec (recs w) z h None) \<and>
      (e = None \<longrightarrow> recs w' = setRec (recs w) z h None)"
    and list_law: "Inv w \<Longrightarrow> ListDNSCNAMEsByTarget tc z t w = (l, w') \<Longrightarrow>
      Inv w' \<and> recs w' = recs w \<and> (\<forall>hs. l = Inr hs \<longrightarrow> set hs = {h. recs w z h = Some t})"
begin

lemma get_Inr:
  "Inv w \<Longrightarrow> GetDNSCNAMETarget tc z h w = (Inr (t, b), w') \<Longrightarrow>
   Inv w' \<and> recs w' = recs w \<and> (b \<longleftrightarrow> recs w z h \<noteq> None) \<and> (b \<longrightarrow> recs w z h = Some t)"
  using get_law [of w z h "Inr (t, b)" w'] by (auto simp: getRec_def split: option.splits)

lemma ensure_only:
  "Inv w \<Longrightarrow> EnsureDNSCNAME tc z h t w = (e, w') \<Longrightarrow> (z', h') \<noteq> (z, h) \<Longrightarrow>
   recs w' z' h' = recs w z' h'"
  using ensure_law [of w z h t e w'] by (auto simp: setRec_apply)

lemma delete_only:
  "Inv w \<Longrightarrow> DeleteDNSCNAME tc z h w = (e, w') \<Longrightarrow> (z', h') \<noteq> (z, h) \<Longrightarrow>
   recs w' z' h' = recs w z' h'"
  using delete_law [of w z h e w'] by (auto simp: setRec_apply)

end

section \<open>The SDK's record requests\<close>

text \<open>The CNAME table of an account's records.\<close>

definition cnameTable :: "('w \<Rightarrow> string \<Rightarrow> dns_record list) \<Rightarrow> 'w \<Rightarrow> cname_table" where
  "cnameTable records w z h = map_of (map (\<lambda>r. (recName r, recContent r)) (records w z)) h"

locale sdk_dns =
  fixes Inv :: "'w \<Rightarrow> bool"
    and records :: "'w \<Rightarrow> string \<Rightarrow> dns_record list"
    and sdk :: "'w sdk"
    and acct :: string
  assumes cname_unique: "Inv w \<Longrightarrow> distinct (map recName (records w z))"
    and id_unique: "Inv w \<Longrightarrow> distinct (map recID (records w z))"
    and list_reads: "Inv w \<Longrightarrow> sdkRecordList sdk z n c w = ((rs, e), w') \<Longrightarrow>
      Inv w' \<and> records w' = records w \<and> set rs \<subseteq> set (records w z)"
    and list_complete: "Inv w \<Longrightarrow> sdkRecordList sdk z n c w = ((rs, None), w') \<Longrightarrow>
      r \<in> set (records w z) \<Longrightarrow> n = None \<or> n = Some (recName r) \<Longrightarrow>
      c = None \<or> c = Some (recContent r) \<Longrightarrow> r \<in> set rs"
    and update_law: "Inv w \<Longrightarrow> sdkRecordUpdate sdk z i b w = (e, w') \<Longrightarrow>
      r \<in> set (records w z) \<Longrightarrow> recID r = i \<Longrightarrow> recName r = cbName b \<Longrightarrow>
      Inv w' \<and> (let new = (records w)(z := map (\<lambda>r. if recID r = i
                              then r\<lparr>recContent := cbContent b\<rparr> else r) (records w z))
                in (records w' = records w \<or> records w' = new) \<and> (e = None \<longrightarrow> records w' = new))"
    and new_law: "Inv w \<Longrightarrow> sdkRecordNew sdk z b w = (e, w') \<Longrightarrow>
      cbName b \<notin> recName ` set (records w z) \<Longrightarrow>
      Inv w' \<and> (\<exists>i. let new = (records w)(z := records w z @
                       [\<lparr>recID = i, recName = cbName b, recContent = cbContent b\<rparr>])
                in (records w' = records w \<or> records w' = new) \<and> (e = None \<longrightarrow> records w' = new))"
    and remove_law: "Inv w \<Longrightarrow> sdkRecordDelete sdk z i w = (e, w') \<Longrightarrow>
      Inv w' \<and> (let new = (records w)(z := filter (\<lambda>r. recID r \<noteq> i) (records w z))
                in (records w' = records w \<or> records w' = new) \<and> (e = None \<longrightarrow> records w' = new))"
begin

abbreviation cnames :: "'w \<Rightarrow> cname_table" where
  "cnames \<equiv> cnameTable records"

lemma cnames_Some:
  "Inv w \<Longrightarrow> cnames w z h = Some t \<longleftrightarrow>
     (\<exists>r\<in>set (records w z). recName r = h \<and> recContent r = t)"
  using cname_unique [of w z]
  by (auto simp: cnameTable_def map_of_eq_Some_iff comp_def)

lemma cnames_None: "cnames w z h = None \<longleftrightarrow> h \<notin> recName ` set (records w z)"
  by (auto simp: cnameTable_def map_of_eq_None_iff image_iff)

lemma cnames_cong: "records w' = records w \<Longrightarrow> cnames w' = cnames w"
  by (simp add: cnameTable_def fun_eq_iff)

lemma same_record:
  assumes "Inv w" "r \<in> set (records w z)" "s \<in> set (records w z)"
  shows "recID r = recID s \<longleftrightarrow> recName r = recName s"
proof -
  have "inj_on recName (set (records w z))" "inj_on recID (set (records w z))"
    using cname_unique [OF assms(1), of z] id_unique [OF assms(1), of z]
    by (simp_all add: distinct_map)
  then show ?thesis using assms(2,3) by (simp add: inj_on_eq_iff)
qed

text \<open>The loop over an exact listing: the record found is the zone's, none found is none.\<close>

lemma list_find_Some:
  assumes "Inv w" "sdkRecordList sdk z (Some h) None w = ((rs, e), w')"
    and "find (\<lambda>r. recName r = h) rs = Some r"
  shows "r \<in> set (records w z) \<and> recName r = h \<and> cnames w z h = Some (recContent r)"
proof -
  have "r \<in> set rs" "recName r = h"
    using assms(3) by (auto simp: find_Some_iff)
  then show ?thesis
    using list_reads [OF assms(1,2)] cnames_Some [OF assms(1)] by auto
qed

lemma list_find_None:
  assumes "Inv w" "sdkRecordList sdk z (Some h) None w = ((rs, None), w')"
    and "find (\<lambda>r. recName r = h) rs = None"
  shows "cnames w z h = None"
  using assms list_complete [OF assms(1,2)] by (auto simp: cnames_None find_None_iff)

lemma cnames_update:
  assumes "Inv w" "records w' = (records w)(z := map (\<lambda>r. if recID r = recID s
            then r\<lparr>recContent := t\<rparr> else r) (records w z))"
    and "s \<in> set (records w z)"
  shows "cnames w' = setRec (cnames w) z (recName s) (Some t)"
proof -
  note same = same_record [OF assms(1) _ assms(3)]
  have "map_of (map (\<lambda>r. (recName r, recContent r))
          (map (\<lambda>r. if recID r = recID s then r\<lparr>recContent := t\<rparr> else r) rs)) h =
        (if h = recName s \<and> recName s \<in> recName ` set rs then Some t
         else map_of (map (\<lambda>r. (recName r, recContent r)) rs) h)"
    if "set rs \<subseteq> set (records w z)" for rs h
    using that by (induction rs) (auto simp: same)
  from this [OF order_refl] assms(2,3) show ?thesis
    by (auto simp: cnameTable_def setRec_apply fun_eq_iff)
qed

lemma cnames_new:
  assumes "records w' = (records w)(z := records w z @ [\<lparr>recID = i, recName = h, recContent = t\<rparr>])"
    and "cnames w z h = None"
  shows "cnames w' = setRec (cnames w) z h (Some t)"
  using assms by (auto simp: cnameTable_def setRec_apply fun_eq_iff map_add_def split: option.splits)

lemma cnames_remove:
  assumes "Inv w" "records w' = (records w)(z := filter (\<lambda>r. recID r \<noteq> recID s) (records w z))"
    and "s \<in> set (records w z)"
  shows "cnames w' = setRec (cnames w) z (recName s) None"
proof -
  note same = same_record [OF assms(1) _ assms(3)]
  have "map_of (map (\<lambda>r. (recName r, recContent r)) (filter (\<lambda>r. recID r \<noteq> recID s) rs)) h =
        (if h = recName s then None else map_of (map (\<lambda>r. (recName r, recContent r)) rs) h)"
    if "set rs \<subseteq> set (records w z)" for rs h
    using that by (induction rs) (auto simp: same)
  from this [OF order_refl] assms(2) show ?thesis
    by (auto simp: cnameTable_def setRec_apply fun_eq_iff)
qed

end

text \<open>The client of client.go provides the contract on every such SDK.\<close>

sublocale sdk_dns \<subseteq> client: dns_client Inv cnames "clientOf sdk acct"
proof
  fix w z h r w'
  assume i: "Inv w" and g: "GetDNSCNAMETarget (clientOf sdk acct) z h w = (r, w')"
  obtain rs e v where l: "sdkRecordList sdk z (Some h) None w = ((rs, e), v)"
    by (rule pair_left_cases [of "sdkRecordList sdk z (Some h) None w"])
  have v: "Inv v" "cnames v = cnames w"
    using list_reads [OF i l] cnames_cong [of v w] by simp_all
  show "Inv w' \<and> cnames w' = cnames w \<and> (\<forall>x. r = Inr x \<longrightarrow> x = getRec (cnames w) z h)"
  proof (cases "find (\<lambda>r. recName r = h) rs")
    case None
    show ?thesis
    proof (cases e)
      case (Some err)
      then show ?thesis using None g l v by (auto simp: clientOf_def clientGetDNSCNAMETarget_def)
    next
      case none: None
      then have "cnames w z h = None" using list_find_None [OF i] l None by blast
      then show ?thesis
        using none None g l v by (auto simp: clientOf_def clientGetDNSCNAMETarget_def getRec_def)
    qed
  next
    case (Some x)
    then show ?thesis
      using g l v list_find_Some [OF i l]
      by (auto simp: clientOf_def clientGetDNSCNAMETarget_def getRec_def)
  qed
next
  fix w z h t e w'
  assume i: "Inv w" and g: "EnsureDNSCNAME (clientOf sdk acct) z h t w = (e, w')"
  obtain rs le v where l: "sdkRecordList sdk z (Some h) None w = ((rs, le), v)"
    by (rule pair_left_cases [of "sdkRecordList sdk z (Some h) None w"])
  have v: "Inv v" "records v = records w" "cnames v = cnames w"
    using list_reads [OF i l] cnames_cong [of v w] by simp_all
  let ?new = "setRec (cnames w) z h (Some t)"
  show "Inv w' \<and> (cnames w' = cnames w \<or> cnames w' = ?new) \<and> (e = None \<longrightarrow> cnames w' = ?new)"
  proof (cases "find (\<lambda>r. recName r = h) rs")
    case None
    show ?thesis
    proof (cases le)
      case (Some err)
      then show ?thesis using None g l v by (auto simp: clientOf_def clientEnsureDNSCNAME_def)
    next
      case none: None
      then have absent: "cnames w z h = None" using list_find_None [OF i] l None by blast
      have "sdkRecordNew sdk z (cnameBody h t) v = (e, w')"
        using None none g l by (simp add: clientOf_def clientEnsureDNSCNAME_def)
      then show ?thesis
        using new_law [OF v(1), of z "cnameBody h t" e w'] v absent cnames_cong [of w' w]
          cnames_new [of w' w z _ h t]
        by (fastforce simp: cnameBody_def cnames_None Let_def)
    qed
  next
    case (Some x)
    have x: "x \<in> set (records w z)" "recName x = h" "cnames w z h = Some (recContent x)"
      using list_find_Some [OF i l Some] by auto
    show ?thesis
    proof (cases "recContent x = t")
      case True
      then show ?thesis
        using Some g l v x by (auto simp: clientOf_def clientEnsureDNSCNAME_def setRec_same)
    next
      case False
      then have u: "sdkRecordUpdate sdk z (recID x) (cnameBody h t) v = (e, w')"
        using Some g l by (simp add: clientOf_def clientEnsureDNSCNAME_def)
      have "cbContent (cnameBody h t) = t" "cbName (cnameBody h t) = h"
        by (simp_all add: cnameBody_def)
      note law = update_law [OF v(1) u, of x, unfolded this Let_def v(2)]
      show ?thesis
        using law x cnames_cong [of w' w] cnames_update [OF i, of w' z x t] by blast
    qed
  qed
next
  fix w z h e w'
  assume i: "Inv w" and g: "DeleteDNSCNAME (clientOf sdk acct) z h w = (e, w')"
  obtain rs le v where l: "sdkRecordList sdk z (Some h) None w = ((rs, le), v)"
    by (rule pair_left_cases [of "sdkRecordList sdk z (Some h) None w"])
  have v: "Inv v" "records v = records w" "cnames v = cnames w"
    using list_reads [OF i l] cnames_cong [of v w] by simp_all
  show "Inv w' \<and> (cnames w' = cnames w \<or> cnames w' = setRec (cnames w) z h None) \<and>
        (e = None \<longrightarrow> cnames w' = setRec (cnames w) z h None)"
  proof (cases "find (\<lambda>r. recName r = h) rs")
    case None
    have "le = None \<Longrightarrow> cnames w z h = None" using list_find_None [OF i] l None by blast
    then show ?thesis
      using None g l v by (auto simp: clientOf_def clientDeleteDNSCNAME_def setRec_same)
  next
    case (Some x)
    have x: "x \<in> set (records w z)" "recName x = h" using list_find_Some [OF i l Some] by auto
    have d: "sdkRecordDelete sdk z (recID x) v = (e, w')"
      using Some g l by (simp add: clientOf_def clientDeleteDNSCNAME_def)
    show ?thesis
      using remove_law [OF v(1) d] v x cnames_cong [of w' w] cnames_remove [OF i, of w' z x]
      by (auto simp: Let_def)
  qed
next
  fix w z t l w'
  assume i: "Inv w" and g: "ListDNSCNAMEsByTarget (clientOf sdk acct) z t w = (l, w')"
  obtain rs le v where r: "sdkRecordList sdk z None (Some t) w = ((rs, le), v)"
    by (rule pair_left_cases [of "sdkRecordList sdk z None (Some t) w"])
  have v: "Inv v" "cnames v = cnames w" "set rs \<subseteq> set (records w z)"
    using list_reads [OF i r] cnames_cong [of v w] by simp_all
  show "Inv w' \<and> cnames w' = cnames w \<and> (\<forall>hs. l = Inr hs \<longrightarrow> set hs = {h. cnames w z h = Some t})"
  proof (cases le)
    case (Some err)
    then show ?thesis using g r v by (auto simp: clientOf_def clientListDNSCNAMEsByTarget_def)
  next
    case None
    have "recName ` {r \<in> set rs. recContent r = t} = {h. cnames w z h = Some t}"
      using list_complete [OF i r [unfolded None]] v(3) by (auto simp: cnames_Some [OF i])
    then show ?thesis
      using g r v None by (auto simp: clientOf_def clientListDNSCNAMEsByTarget_def)
  qed
qed

context sdk_dns
begin

lemma contract: "dns_client Inv cnames (clientOf sdk acct)"
  by (rule client.dns_client_axioms)

end

section \<open>An account with scheduled faults\<close>

text \<open>
  Each request takes the next entry of the fault schedule: \<open>Some e\<close> fails it with nothing
  applied.  A record's ID is its name behind a prefix.
\<close>

record account =
  accZones :: "zone list"
  accRecords :: "string \<Rightarrow> dns_record list"
  accFaults :: "go_error option list"

definition nextFault :: "account \<Rightarrow> go_error option \<times> account" where
  "nextFault a =
     (case accFaults a of [] \<Rightarrow> (None, a) | f # fs \<Rightarrow> (f, a\<lparr>accFaults := fs\<rparr>))"

definition simRecordList ::
  "string \<Rightarrow> string option \<Rightarrow> string option \<Rightarrow> account
     \<Rightarrow> (dns_record list \<times> go_error option) \<times> account" where
  "simRecordList z n c a =
     (case nextFault a of
        (Some e, b) \<Rightarrow> (([], Some e), b)
      | (None, b) \<Rightarrow>
          ((filter (\<lambda>r. (n = None \<or> n = Some (recName r)) \<and> (c = None \<or> c = Some (recContent r)))
              (accRecords b z), None), b))"

definition simZoneList ::
  "string option \<Rightarrow> account \<Rightarrow> (zone list \<times> go_error option) \<times> account" where
  "simZoneList n a =
     (case nextFault a of
        (Some e, b) \<Rightarrow> (([], Some e), b)
      | (None, b) \<Rightarrow> ((filter (\<lambda>z. n = None \<or> n = Some (zoneName z)) (accZones b), None), b))"

definition simWrite ::
  "string \<Rightarrow> (dns_record list \<Rightarrow> dns_record list) \<Rightarrow> account \<Rightarrow> go_error option \<times> account" where
  "simWrite z f a =
     (case nextFault a of
        (Some e, b) \<Rightarrow> (Some e, b)
      | (None, b) \<Rightarrow> (None, b\<lparr>accRecords := (accRecords b)(z := f (accRecords b z))\<rparr>))"

definition simUpdate :: "string \<Rightarrow> cname_body \<Rightarrow> dns_record list \<Rightarrow> dns_record list" where
  "simUpdate i b = map (\<lambda>r. if recID r = i then r\<lparr>recContent := cbContent b\<rparr> else r)"

definition simNew :: "cname_body \<Rightarrow> dns_record list \<Rightarrow> dns_record list" where
  "simNew b rs =
     rs @ [\<lparr>recID = ''id-'' @ cbName b, recName = cbName b, recContent = cbContent b\<rparr>]"

definition simSDK :: "account sdk" where
  "simSDK =
     \<lparr>sdkTunnelNew = \<lambda>a n c w. (Inr \<lparr>tunnelID = ''id-'' @ n, tunnelName = n\<rparr>, w),
      sdkTunnelList = \<lambda>a n d w. (([], None), w),
      sdkConnectionsDelete = \<lambda>t a w. (None, w),
      sdkTunnelDelete = \<lambda>t a w. (None, w),
      sdkTokenGet = \<lambda>t a w. (Inr ''token'', w),
      sdkTunnelEdit = \<lambda>t a s w. (None, w),
      sdkZoneList = simZoneList,
      sdkRecordList = simRecordList,
      sdkRecordUpdate = \<lambda>z i b. simWrite z (simUpdate i b),
      sdkRecordNew = \<lambda>z b. simWrite z (simNew b),
      sdkRecordDelete = \<lambda>z i. simWrite z (filter (\<lambda>r. recID r \<noteq> i))\<rparr>"

definition accOk :: "account \<Rightarrow> bool" where
  "accOk a \<longleftrightarrow>
     (\<forall>z. distinct (map recName (accRecords a z)) \<and>
          (\<forall>r\<in>set (accRecords a z). recID r = ''id-'' @ recName r))"

lemma nextFault_records: "nextFault a = (f, b) \<Longrightarrow> accRecords b = accRecords a"
  by (auto simp: nextFault_def split: list.splits)

lemma accOk_cong: "accRecords b = accRecords a \<Longrightarrow> accOk b = accOk a"
  by (simp add: accOk_def)

lemma accOk_ids:
  assumes "accOk a"
  shows "distinct (map recID (accRecords a z))"
proof -
  have "map recID (accRecords a z) = map ((@) ''id-'') (map recName (accRecords a z))"
    using assms by (simp add: accOk_def)
  moreover have "inj ((@) ''id-'')" by (simp add: inj_def)
  ultimately show ?thesis
    using assms by (metis accOk_def distinct_map inj_on_subset subset_UNIV)
qed

lemma simWrite_records:
  "simWrite z f a = (e, b) \<Longrightarrow>
   (e = None \<and> accRecords b = (accRecords a)(z := f (accRecords a z))) \<or>
   (e \<noteq> None \<and> accRecords b = accRecords a)"
  by (auto simp: simWrite_def dest: nextFault_records split: prod.splits option.splits)

lemma accOk_write:
  assumes "accOk a" "simWrite z f a = (e, b)"
    and "distinct (map recName (f (accRecords a z)))"
    and "\<forall>r\<in>set (f (accRecords a z)). recID r = ''id-'' @ recName r"
  shows "accOk b"
  using simWrite_records [OF assms(2)] assms
  by (auto simp: accOk_def split: if_splits)

interpretation sim: sdk_dns accOk accRecords simSDK acct for acct
proof
  fix w z assume "accOk w"
  then show "distinct (map recName (accRecords w z))" by (simp add: accOk_def)
next
  fix w z assume "accOk w"
  then show "distinct (map recID (accRecords w z))" by (rule accOk_ids)
next
  fix w z n c rs e w'
  assume "accOk w" "sdkRecordList simSDK z n c w = ((rs, e), w')"
  then show "accOk w' \<and> accRecords w' = accRecords w \<and> set rs \<subseteq> set (accRecords w z)"
    by (auto simp: simSDK_def simRecordList_def accOk_def dest: nextFault_records
        split: prod.splits option.splits)
next
  fix w z n c rs w' r
  assume "sdkRecordList simSDK z n c w = ((rs, None), w')" "r \<in> set (accRecords w z)"
    "n = None \<or> n = Some (recName r)" "c = None \<or> c = Some (recContent r)"
  then show "r \<in> set rs"
    by (auto simp: simSDK_def simRecordList_def dest: nextFault_records
        split: prod.splits option.splits)
next
  fix w z i b e w' r
  assume ok: "accOk w" and u: "sdkRecordUpdate simSDK z i b w = (e, w')"
  have names: "map recName (simUpdate i b rs) = map recName rs" for rs
    by (induction rs) (auto simp: simUpdate_def)
  have u': "simWrite z (simUpdate i b) w = (e, w')" using u by (simp add: simSDK_def)
  have "accOk w'"
  proof (rule accOk_write [OF ok u'])
    show "distinct (map recName (simUpdate i b (accRecords w z)))"
      unfolding names using ok by (simp add: accOk_def)
  qed (use ok in \<open>auto simp: accOk_def simUpdate_def\<close>)
  then show "accOk w' \<and> (let new = (accRecords w)(z := map (\<lambda>r. if recID r = i
                 then r\<lparr>recContent := cbContent b\<rparr> else r) (accRecords w z))
       in (accRecords w' = accRecords w \<or> accRecords w' = new) \<and> (e = None \<longrightarrow> accRecords w' = new))"
    using simWrite_records [OF u'] by (auto simp: simUpdate_def)
next
  fix w z b e w'
  assume ok: "accOk w" and u: "sdkRecordNew simSDK z b w = (e, w')"
    and fresh: "cbName b \<notin> recName ` set (accRecords w z)"
  have u': "simWrite z (simNew b) w = (e, w')" using u by (simp add: simSDK_def)
  have "accOk w'"
    by (rule accOk_write [OF ok u']) (use ok fresh in \<open>auto simp: accOk_def simNew_def\<close>)
  then show "accOk w' \<and> (\<exists>i. let new = (accRecords w)(z := accRecords w z @
                 [\<lparr>recID = i, recName = cbName b, recContent = cbContent b\<rparr>])
       in (accRecords w' = accRecords w \<or> accRecords w' = new) \<and> (e = None \<longrightarrow> accRecords w' = new))"
    using simWrite_records [OF u'] by (auto simp: simNew_def Let_def)
next
  fix w z i e w'
  assume ok: "accOk w" and u: "sdkRecordDelete simSDK z i w = (e, w')"
  have u': "simWrite z (filter (\<lambda>r. recID r \<noteq> i)) w = (e, w')" using u by (simp add: simSDK_def)
  have "accOk w'"
    by (rule accOk_write [OF ok u']) (use ok in \<open>auto simp: accOk_def distinct_map_filter\<close>)
  then show "accOk w' \<and> (let new = (accRecords w)(z := filter (\<lambda>r. recID r \<noteq> i) (accRecords w z))
       in (accRecords w' = accRecords w \<or> accRecords w' = new) \<and> (e = None \<longrightarrow> accRecords w' = new))"
    using simWrite_records [OF u'] by auto
qed

end
