(* ===== verification/Retry.thy ===== *)
theory Retry
  imports DnsContract
begin

text \<open>
  internal/cloudflare/retry.go: the wrapper that repeats a client operation on transient
  network errors.  \<open>wait d\<close> is the \<^verbatim>\<open>select\<close> of \<^verbatim>\<open>waitRetry\<close> on the runtime: it lets the
  duration pass (\<open>None\<close>) unless the context ends first, with the context's error.  \<open>tt\<close>
  renders controller-runtime's terminal errors, as in \<open>errMsg\<close>.  The loops count down the
  attempts left; the number of the attempt gives the delay.
\<close>

section \<open>The retry loops\<close>

abbreviation defaultMaxRetries :: nat where "defaultMaxRetries \<equiv> 3"

definition IsTransient :: "(string \<Rightarrow> string) \<Rightarrow> go_error option \<Rightarrow> bool" where
  "IsTransient tt err =
     (case err of
        None \<Rightarrow> False
      | Some e \<Rightarrow>
          if errIs e ErrCanceled \<or> errIs e ErrDeadlineExceeded then False
          else if errCloudflareStatus e \<noteq> None then False
          else if errIs e ErrUnexpectedEOF then True
          else let msg = errMsg tt e
               in containsStr msg ''unexpected EOF'' \<or> containsStr msg ''connection reset'' \<or>
                  containsStr msg ''i/o timeout'' \<or> containsStr msg ''TLS handshake timeout'')"

definition waitRetry :: "(int \<Rightarrow> 'w \<Rightarrow> go_error option \<times> 'w) \<Rightarrow> nat \<Rightarrow> 'w \<Rightarrow> go_error option \<times> 'w" where
  "waitRetry wait attempt w = wait (2 ^ attempt * second) w"

fun retry0Loop ::
  "(string \<Rightarrow> string) \<Rightarrow> (int \<Rightarrow> 'w \<Rightarrow> go_error option \<times> 'w) \<Rightarrow> ('w \<Rightarrow> go_error option \<times> 'w)
     \<Rightarrow> nat \<Rightarrow> nat \<Rightarrow> 'w \<Rightarrow> go_error option \<times> 'w" where
  "retry0Loop tt wait fn attempt left w =
     (case fn w of (lastErr, w1) \<Rightarrow>
        if \<not> IsTransient tt lastErr then (lastErr, w1)
        else (case left of
                0 \<Rightarrow> (lastErr, w1)
              | Suc l \<Rightarrow>
                  (case waitRetry wait attempt w1 of
                     (Some ctxErr, w2) \<Rightarrow> (Some ctxErr, w2)
                   | (None, w2) \<Rightarrow> retry0Loop tt wait fn (attempt + 1) l w2)))"

definition retry0 ::
  "(string \<Rightarrow> string) \<Rightarrow> (int \<Rightarrow> 'w \<Rightarrow> go_error option \<times> 'w) \<Rightarrow> nat
     \<Rightarrow> ('w \<Rightarrow> go_error option \<times> 'w) \<Rightarrow> 'w \<Rightarrow> go_error option \<times> 'w" where
  "retry0 tt wait maxRetries fn w = retry0Loop tt wait fn 0 maxRetries w"

fun retry1Loop ::
  "(string \<Rightarrow> string) \<Rightarrow> (int \<Rightarrow> 'w \<Rightarrow> go_error option \<times> 'w) \<Rightarrow> ('w \<Rightarrow> (go_error + 'a) \<times> 'w)
     \<Rightarrow> nat \<Rightarrow> nat \<Rightarrow> 'w \<Rightarrow> (go_error + 'a) \<times> 'w" where
  "retry1Loop tt wait fn attempt left w =
     (case fn w of (res, w1) \<Rightarrow>
        if \<not> IsTransient tt (resErr res) then (res, w1)
        else (case left of
                0 \<Rightarrow> (res, w1)
              | Suc l \<Rightarrow>
                  (case waitRetry wait attempt w1 of
                     (Some ctxErr, w2) \<Rightarrow> (Inl ctxErr, w2)
                   | (None, w2) \<Rightarrow> retry1Loop tt wait fn (attempt + 1) l w2)))"

definition retry1 ::
  "(string \<Rightarrow> string) \<Rightarrow> (int \<Rightarrow> 'w \<Rightarrow> go_error option \<times> 'w) \<Rightarrow> nat
     \<Rightarrow> ('w \<Rightarrow> (go_error + 'a) \<times> 'w) \<Rightarrow> 'w \<Rightarrow> (go_error + 'a) \<times> 'w" where
  "retry1 tt wait maxRetries fn w = retry1Loop tt wait fn 0 maxRetries w"

text \<open>\<^verbatim>\<open>GetDNSCNAMETarget\<close> has three results and a loop of its own.\<close>

fun retryTargetLoop ::
  "(string \<Rightarrow> string) \<Rightarrow> (int \<Rightarrow> 'w \<Rightarrow> go_error option \<times> 'w) \<Rightarrow> 'w client \<Rightarrow> string \<Rightarrow> string
     \<Rightarrow> nat \<Rightarrow> nat \<Rightarrow> 'w \<Rightarrow> (go_error + string \<times> bool) \<times> 'w" where
  "retryTargetLoop tt wait c z h attempt left w =
     (case GetDNSCNAMETarget c z h w of
        (Inr (target, exists), w1) \<Rightarrow> (Inr (target, exists), w1)
      | (Inl lastErr, w1) \<Rightarrow>
          if \<not> IsTransient tt (Some lastErr) then (Inl lastErr, w1)
          else (case left of
                  0 \<Rightarrow> (Inl lastErr, w1)
                | Suc l \<Rightarrow>
                    (case waitRetry wait attempt w1 of
                       (Some ctxErr, w2) \<Rightarrow> (Inl ctxErr, w2)
                     | (None, w2) \<Rightarrow> retryTargetLoop tt wait c z h (attempt + 1) l w2)))"

declare retry0Loop.simps [simp del] retry1Loop.simps [simp del] retryTargetLoop.simps [simp del]

section \<open>The wrapped client\<close>

definition retryClient ::
  "(string \<Rightarrow> string) \<Rightarrow> (int \<Rightarrow> 'w \<Rightarrow> go_error option \<times> 'w) \<Rightarrow> nat \<Rightarrow> 'w client \<Rightarrow> 'w client" where
  "retryClient tt wait m c =
     \<lparr>CreateTunnel = \<lambda>name. retry1 tt wait m (CreateTunnel c name),
      GetTunnelIDByName = \<lambda>name. retry1 tt wait m (GetTunnelIDByName c name),
      ListTunnels = retry1 tt wait m (ListTunnels c),
      CleanupTunnelConnections = \<lambda>tid. retry0 tt wait m (CleanupTunnelConnections c tid),
      DeleteTunnel = \<lambda>tid. retry0 tt wait m (DeleteTunnel c tid),
      GetTunnelToken = \<lambda>tid. retry1 tt wait m (GetTunnelToken c tid),
      RotateTunnelSecret = \<lambda>tid s. retry0 tt wait m (RotateTunnelSecret c tid s),
      ListZoneIDs = retry1 tt wait m (ListZoneIDs c),
      FindZoneIDByHostname = \<lambda>h. retry1 tt wait m (FindZoneIDByHostname c h),
      GetDNSCNAMETarget = \<lambda>z h. retryTargetLoop tt wait c z h 0 m,
      EnsureDNSCNAME = \<lambda>z h t. retry0 tt wait m (EnsureDNSCNAME c z h t),
      DeleteDNSCNAME = \<lambda>z h. retry0 tt wait m (DeleteDNSCNAME c z h),
      ListDNSCNAMEsByTarget = \<lambda>z t. retry1 tt wait m (ListDNSCNAMEsByTarget c z t)\<rparr>"

definition WithRetry ::
  "(string \<Rightarrow> string) \<Rightarrow> (int \<Rightarrow> 'w \<Rightarrow> go_error option \<times> 'w) \<Rightarrow> 'w client \<Rightarrow> 'w client" where
  "WithRetry tt wait c = retryClient tt wait defaultMaxRetries c"

section \<open>Lemmas\<close>

lemma IsTransient_None [simp]: "\<not> IsTransient tt None"
  by (simp add: IsTransient_def)

lemma IsTransient_api:
  "IsTransient tt (Some e) \<Longrightarrow>
     errCloudflareStatus e = None \<and> \<not> errIs e ErrCanceled \<and> \<not> errIs e ErrDeadlineExceeded"
  by (auto simp: IsTransient_def split: if_splits)

text \<open>The own loop of \<^verbatim>\<open>GetDNSCNAMETarget\<close> is \<^verbatim>\<open>retry1\<close> of the operation.\<close>

lemma retryTargetLoop_eq:
  "retryTargetLoop tt wait c z h a l w = retry1Loop tt wait (GetDNSCNAMETarget c z h) a l w"
proof (induction l arbitrary: a w)
  case 0
  show ?case
    by (subst retryTargetLoop.simps, subst retry1Loop.simps)
       (auto split: prod.splits sum.splits)
next
  case (Suc l)
  show ?case
    by (subst retryTargetLoop.simps, subst retry1Loop.simps)
       (auto simp: Suc.IH split: prod.splits sum.splits option.splits)
qed

text \<open>
  Hoare-style rules: what every call and every wait keeps, the loop keeps; what a
  final result of the call establishes from a kept state, the loop's result satisfies,
  unless it is an error.
\<close>

lemma retry1Loop_wait_rule:
  assumes "K w"
    and "\<And>v r v'. K v \<Longrightarrow> fn v = (r, v') \<Longrightarrow> K v' \<and> Q r v'"
    and "\<And>d v c v'. K v \<Longrightarrow> wait d v = (c, v') \<Longrightarrow> K v' \<and> (\<forall>e. c = Some e \<longrightarrow> Q (Inl e) v')"
    and "retry1Loop tt wait fn a l w = (r, w')"
  shows "K w' \<and> Q r w'"
  using assms(1,4)
proof (induction l arbitrary: a w)
  case 0
  then show ?case
    using assms(2) by (subst (asm) retry1Loop.simps) (auto split: prod.splits if_splits)
next
  case (Suc l)
  obtain r1 w1 where f: "fn w = (r1, w1)" by fastforce
  then have k: "K w1 \<and> Q r1 w1" using assms(2) Suc.prems(1) by blast
  obtain c w2 where t: "waitRetry wait a w1 = (c, w2)" by fastforce
  then have k2: "K w2 \<and> (\<forall>e. c = Some e \<longrightarrow> Q (Inl e) w2)"
    using assms(3) k by (auto simp: waitRetry_def)
  show ?case
  proof (cases "IsTransient tt (resErr r1)")
    case False
    then show ?thesis using Suc.prems(2) f k by (subst (asm) retry1Loop.simps) simp
  next
    case True
    show ?thesis
    proof (cases c)
      case None
      then have "retry1Loop tt wait fn (a + 1) l w2 = (r, w')"
        using Suc.prems(2) f t True by (subst (asm) retry1Loop.simps) simp
      then show ?thesis using Suc.IH k2 by blast
    next
      case (Some e)
      then show ?thesis
        using Suc.prems(2) f t True k2 by (subst (asm) retry1Loop.simps) auto
    qed
  qed
qed

lemma retry1Loop_rule:
  assumes "K w"
    and "\<And>v r v'. K v \<Longrightarrow> fn v = (r, v') \<Longrightarrow> K v' \<and> Q r v'"
    and "\<And>d v o' v'. K v \<Longrightarrow> wait d v = (o', v') \<Longrightarrow> K v'"
    and "\<And>e v. K v \<Longrightarrow> Q (Inl e) v"
    and "retry1Loop tt wait fn a l w = (r, w')"
  shows "K w' \<and> Q r w'"
proof (rule retry1Loop_wait_rule [where K = K and Q = Q and fn = fn and wait = wait])
  show "K w" by (fact assms(1))
  show "retry1Loop tt wait fn a l w = (r, w')" by (fact assms(5))
  show "K v' \<and> Q r v'" if "K v" "fn v = (r, v')" for v r v' using that by (rule assms(2))
  show "K v' \<and> (\<forall>e. c = Some e \<longrightarrow> Q (Inl e) v')" if "K v" "wait d v = (c, v')" for d v c v'
    using assms(3) [OF that] assms(4) by blast
qed

text \<open>\<^verbatim>\<open>retry0\<close> is \<^verbatim>\<open>retry1\<close> of a function without a result.\<close>

definition unitRes :: "go_error option \<Rightarrow> go_error + unit" where
  "unitRes e = (case e of None \<Rightarrow> Inr () | Some x \<Rightarrow> Inl x)"

lemma resErr_unitRes [simp]: "resErr (unitRes e) = e"
  by (simp add: unitRes_def split: option.splits)

lemma retry0Loop_eq:
  assumes "\<And>v. fn' v = map_prod unitRes id (fn v)"
  shows "retry1Loop tt wait fn' a l w = map_prod unitRes id (retry0Loop tt wait fn a l w)"
proof (induction l arbitrary: a w)
  case 0
  show ?case
    by (subst retry0Loop.simps, subst retry1Loop.simps) (auto simp: assms split: prod.splits)
next
  case (Suc l)
  have "unitRes (Some e) = Inl e" for e by (simp add: unitRes_def)
  then show ?case
    by (subst retry0Loop.simps, subst retry1Loop.simps)
       (auto simp: assms Suc.IH id_def split: prod.splits option.splits)
qed

lemma unitRes_inj [simp]: "unitRes a = unitRes b \<longleftrightarrow> a = b"
  by (metis resErr_unitRes)

lemma unitRes_resErr: "unitRes (resErr r) = r"
  by (cases r) (auto simp: unitRes_def)

lemma retry0Loop_rule:
  assumes "K w"
    and "\<And>v r v'. K v \<Longrightarrow> fn v = (r, v') \<Longrightarrow> K v' \<and> Q r v'"
    and "\<And>d v o' v'. K v \<Longrightarrow> wait d v = (o', v') \<Longrightarrow> K v'"
    and "\<And>e v. K v \<Longrightarrow> Q (Some e) v"
    and "retry0Loop tt wait fn a l w = (r, w')"
  shows "K w' \<and> Q r w'"
proof -
  define fn' where "fn' = (\<lambda>v. map_prod unitRes id (fn v))"
  have "retry1Loop tt wait fn' a l w = (unitRes r, w')"
    using retry0Loop_eq [of fn' fn] assms(5) by (simp add: fn'_def)
  moreover have "K v' \<and> Q (resErr r) v'" if "K v" "fn' v = (r, v')" for v r v'
    using that assms(2) by (cases "fn v") (auto simp: fn'_def)
  ultimately have "K w' \<and> Q (resErr (unitRes r)) w'"
    using retry1Loop_rule [where Q = "\<lambda>r. Q (resErr r)" and K = K and fn = fn', OF assms(1)]
      assms(3,4) by (metis resErr.simps(1))
  then show ?thesis by simp
qed

section \<open>Retrying keeps the DNS contract\<close>

locale retried_dns = dns_client Inv recs tc
  for Inv :: "'w \<Rightarrow> bool" and recs :: "'w \<Rightarrow> cname_table" and tc :: "'w client" +
  fixes tt :: "string \<Rightarrow> string"
    and wait :: "int \<Rightarrow> 'w \<Rightarrow> go_error option \<times> 'w"
    and m :: nat
  assumes wait_law: "Inv w \<Longrightarrow> wait d w = (c, w') \<Longrightarrow> Inv w' \<and> recs w' = recs w"
begin

text \<open>A repeated write is written once; a failed one leaves the old or the new value.\<close>

lemma retry0_write:
  assumes step: "\<And>v e v'. Inv v \<Longrightarrow> fn v = (e, v') \<Longrightarrow>
      Inv v' \<and> (recs v' = recs v \<or> recs v' = setRec (recs v) z h x) \<and>
      (e = None \<longrightarrow> recs v' = setRec (recs v) z h x)"
    and "Inv w" and "retry0 tt wait m fn w = (e, w')"
  shows "Inv w' \<and> (recs w' = recs w \<or> recs w' = setRec (recs w) z h x) \<and>
      (e = None \<longrightarrow> recs w' = setRec (recs w) z h x)"
proof -
  let ?new = "setRec (recs w) z h x"
  let ?K = "\<lambda>v. Inv v \<and> (recs v = recs w \<or> recs v = ?new)"
  have "?K w' \<and> (e = None \<longrightarrow> recs w' = ?new)"
  proof (rule retry0Loop_rule [where K = ?K and Q = "\<lambda>e v. e = None \<longrightarrow> recs v = ?new"])
    show "?K w" using assms(2) by simp
    fix v e v' assume k: "?K v" and f: "fn v = (e, v')"
    then have "setRec (recs v) z h x = ?new" by auto
    with step [of v e v'] k f show "?K v' \<and> (e = None \<longrightarrow> recs v' = ?new)" by auto
  next
    fix d v c v' assume "?K v" "wait d v = (c, v')"
    then show "?K v'" using wait_law by metis
  next
    show "retry0Loop tt wait fn 0 m w = (e, w')" using assms(3) by (simp add: retry0_def)
  qed simp
  then show ?thesis by simp
qed

lemma retry1_read:
  assumes step: "\<And>v r v'. Inv v \<Longrightarrow> recs v = recs w \<Longrightarrow> fn v = (r, v') \<Longrightarrow>
      Inv v' \<and> recs v' = recs w \<and> (\<forall>x. r = Inr x \<longrightarrow> P x)"
    and "Inv w" and "retry1Loop tt wait fn 0 m w = (r, w')"
  shows "Inv w' \<and> recs w' = recs w \<and> (\<forall>x. r = Inr x \<longrightarrow> P x)"
proof -
  let ?K = "\<lambda>v. Inv v \<and> recs v = recs w"
  have "?K w' \<and> (\<forall>x. r = Inr x \<longrightarrow> P x)"
  proof (rule retry1Loop_rule [where K = ?K and Q = "\<lambda>r v. \<forall>x. r = Inr x \<longrightarrow> P x"])
    show "?K w" using assms(2) by simp
    fix v r v' assume "?K v" "fn v = (r, v')"
    then show "?K v' \<and> (\<forall>x. r = Inr x \<longrightarrow> P x)" using step [of v r v'] by simp
  next
    fix d v c v' assume "?K v" "wait d v = (c, v')"
    then show "?K v'" using wait_law by metis
  next
    show "retry1Loop tt wait fn 0 m w = (r, w')" by (fact assms(3))
  qed simp
  then show ?thesis by simp
qed

end

sublocale retried_dns \<subseteq> retried: dns_client Inv recs "retryClient tt wait m tc"
proof
  fix w z h r w'
  assume i: "Inv w" and g: "GetDNSCNAMETarget (retryClient tt wait m tc) z h w = (r, w')"
  show "Inv w' \<and> recs w' = recs w \<and> (\<forall>x. r = Inr x \<longrightarrow> x = getRec (recs w) z h)"
  proof (rule retry1_read [OF _ i])
    show "retry1Loop tt wait (GetDNSCNAMETarget tc z h) 0 m w = (r, w')"
      using g by (simp add: retryClient_def retryTargetLoop_eq)
    fix v r v' assume "Inv v" "recs v = recs w" "GetDNSCNAMETarget tc z h v = (r, v')"
    then show "Inv v' \<and> recs v' = recs w \<and> (\<forall>x. r = Inr x \<longrightarrow> x = getRec (recs w) z h)"
      using get_law [of v z h r v'] by simp
  qed
next
  fix w z h t e w'
  assume i: "Inv w" and g: "EnsureDNSCNAME (retryClient tt wait m tc) z h t w = (e, w')"
  have "retry0 tt wait m (EnsureDNSCNAME tc z h t) w = (e, w')"
    using g by (simp add: retryClient_def)
  then show "Inv w' \<and> (recs w' = recs w \<or> recs w' = setRec (recs w) z h (Some t)) \<and>
      (e = None \<longrightarrow> recs w' = setRec (recs w) z h (Some t))"
    by (rule retry0_write [rotated 2]) (use i ensure_law in blast)+
next
  fix w z h e w'
  assume i: "Inv w" and g: "DeleteDNSCNAME (retryClient tt wait m tc) z h w = (e, w')"
  have "retry0 tt wait m (DeleteDNSCNAME tc z h) w = (e, w')"
    using g by (simp add: retryClient_def)
  then show "Inv w' \<and> (recs w' = recs w \<or> recs w' = setRec (recs w) z h None) \<and>
      (e = None \<longrightarrow> recs w' = setRec (recs w) z h None)"
    by (rule retry0_write [rotated 2]) (use i delete_law in blast)+
next
  fix w z t l w'
  assume i: "Inv w" and g: "ListDNSCNAMEsByTarget (retryClient tt wait m tc) z t w = (l, w')"
  show "Inv w' \<and> recs w' = recs w \<and> (\<forall>hs. l = Inr hs \<longrightarrow> set hs = {h. recs w z h = Some t})"
  proof (rule retry1_read [OF _ i])
    show "retry1Loop tt wait (ListDNSCNAMEsByTarget tc z t) 0 m w = (l, w')"
      using g by (simp add: retryClient_def retry1_def)
    fix v r v' assume "Inv v" "recs v = recs w" "ListDNSCNAMEsByTarget tc z t v = (r, v')"
    then show "Inv v' \<and> recs v' = recs w \<and> (\<forall>hs. r = Inr hs \<longrightarrow> set hs = {h. recs w z h = Some t})"
      using list_law [of v z t r v'] by simp
  qed
qed

context retried_dns
begin

lemma retried_client: "dns_client Inv recs (retryClient tt wait m tc)"
  by (rule retried.dns_client_axioms)

end

definition simWait :: "int \<Rightarrow> account \<Rightarrow> go_error option \<times> account" where
  "simWait d a = (None, a)"

interpretation simr: retried_dns accOk "cnameTable accRecords" "clientOf simSDK acct" tt simWait m
  for acct tt m
  by unfold_locales (auto simp: simWait_def)

section \<open>Properties\<close>

text \<open>
  The retry loop, attempt by attempt: if the first \<open>k\<close> calls fail with transient errors and
  the waits of 1s, 2s, 4s, ... after them elapse, then the loop returns exactly what call
  number \<open>k\<close> returns as soon as that is a success, an error that is not transient, or the
  last allowed attempt; and if the context ends during the wait after it, the context's error.
\<close>

lemma retry1_result:
  assumes "ws 0 = w" and "k \<le> m"
    and "\<And>i. i < k \<Longrightarrow> fn (ws i) = (Inl (es i), us i) \<and> IsTransient tt (Some (es i)) \<and>
               wait (2 ^ i * second) (us i) = (None, ws (Suc i))"
    and "fn (ws k) = (r, u)"
  shows "(k = m \<or> \<not> IsTransient tt (resErr r) \<longrightarrow> retry1 tt wait m fn w = (r, u))
    \<and> (k < m \<and> IsTransient tt (resErr r) \<and> wait (2 ^ k * second) u = (Some ctxErr, v)
         \<longrightarrow> retry1 tt wait m fn w = (Inl ctxErr, v))"
proof -
  have run: "retry1 tt wait m fn w = retry1Loop tt wait fn j (m - j) (ws j)" if "j \<le> k" for j
    using that
  proof (induction j)
    case 0
    then show ?case by (simp add: retry1_def assms(1))
  next
    case (Suc j)
    then obtain l where l: "m - j = Suc l" "m - Suc j = l" using assms(2)
      by (metis Suc_diff_Suc Suc_le_lessD le_trans)
    have "retry1Loop tt wait fn j (m - j) (ws j) = retry1Loop tt wait fn (j + 1) l (ws (Suc j))"
      using assms(3) [of j] Suc.prems l
      by (subst retry1Loop.simps) (simp add: waitRetry_def)
    with Suc l show ?case by simp
  qed
  have last: "retry1 tt wait m fn w = retry1Loop tt wait fn k (m - k) (ws k)"
    using run by blast
  show ?thesis
  proof (intro conjI impI)
    assume "k = m \<or> \<not> IsTransient tt (resErr r)"
    then show "retry1 tt wait m fn w = (r, u)"
      using last assms(4) by (subst (asm) retry1Loop.simps) auto
  next
    assume "k < m \<and> IsTransient tt (resErr r) \<and> wait (2 ^ k * second) u = (Some ctxErr, v)"
    moreover then obtain l where "m - k = Suc l" by (metis Suc_diff_Suc)
    ultimately show "retry1 tt wait m fn w = (Inl ctxErr, v)"
      using last assms(4) by (subst (asm) retry1Loop.simps) (simp add: waitRetry_def)
  qed
qed

text \<open>A call that fails with an unexpected EOF while its state is below 2; waits add the seconds.\<close>

definition eofBelow2 :: "nat \<times> int \<Rightarrow> (go_error + nat) \<times> (nat \<times> int)" where
  "eofBelow2 s = (if fst s < 2 then (Inl ErrUnexpectedEOF, (Suc (fst s), snd s))
                  else (Inr (fst s), s))"

definition clockWait :: "int \<Rightarrow> nat \<times> int \<Rightarrow> go_error option \<times> (nat \<times> int)" where
  "clockWait d s = (None, (fst s, snd s + d div second))"

lemma retry1_result_witness:
  "retry1 id clockWait 3 eofBelow2 (0, 0) = (Inr 2, (2, 3))"
proof -
  let ?ws = "\<lambda>i :: nat. if i = 0 then (0 :: nat, 0 :: int) else if i = 1 then (1, 1) else (2, 3)"
  let ?us = "\<lambda>i :: nat. if i = 0 then (1 :: nat, 0 :: int) else (2, 1)"
  have "eofBelow2 (?ws i) = (Inl ErrUnexpectedEOF, ?us i) \<and> IsTransient id (Some ErrUnexpectedEOF)
        \<and> clockWait (2 ^ i * second) (?us i) = (None, ?ws (Suc i))" if "i < 2" for i :: nat
    using less_2_cases [OF that]
    by (auto simp: eofBelow2_def clockWait_def IsTransient_def errIs_def)
  then show ?thesis
    using retry1_result [of ?ws "(0, 0)" 2 3 eofBelow2 "\<lambda>_. ErrUnexpectedEOF" ?us id clockWait
        "Inr 2" "(2, 3)"]
    by (simp add: eofBelow2_def)
qed

definition countCalls ::
  "('w \<Rightarrow> (go_error + 'a) \<times> 'w) \<Rightarrow> 'w \<times> nat \<Rightarrow> (go_error + 'a) \<times> ('w \<times> nat)" where
  "countCalls fn = (\<lambda>(w, n). case fn w of (r, w') \<Rightarrow> (r, (w', Suc n)))"

definition liftWait ::
  "(int \<Rightarrow> 'w \<Rightarrow> go_error option \<times> 'w) \<Rightarrow> int \<Rightarrow> 'w \<times> nat \<Rightarrow> go_error option \<times> ('w \<times> nat)" where
  "liftWait wait d = (\<lambda>(w, n). case wait d w of (c, w') \<Rightarrow> (c, (w', n)))"

lemma retry1Loop_count:
  "\<exists>k. 1 \<le> k \<and> k \<le> l + 1 \<and>
     retry1Loop tt (liftWait wait) (countCalls fn) a l (w, n) =
       (case retry1Loop tt wait fn a l w of (r, w') \<Rightarrow> (r, (w', n + k)))"
proof (induction l arbitrary: a w n)
  case 0
  show ?case
    by (subst (1 2) retry1Loop.simps) (auto simp: countCalls_def split: prod.splits)
next
  case (Suc l)
  obtain r1 w1 where f: "fn w = (r1, w1)" by fastforce
  obtain c w2 where t: "wait (2 ^ a * second) w1 = (c, w2)" by fastforce
  show ?case
  proof (cases "IsTransient tt (resErr r1) \<and> c = None")
    case True
    obtain k where k: "1 \<le> k" "k \<le> l + 1"
      "retry1Loop tt (liftWait wait) (countCalls fn) (a + 1) l (w2, Suc n) =
         (case retry1Loop tt wait fn (a + 1) l w2 of (r, w') \<Rightarrow> (r, (w', Suc n + k)))"
      using Suc.IH [of "a + 1" w2 "Suc n"] by blast
    show ?thesis
      using True k f t
      by (intro exI [of _ "Suc k"], subst (1 2) retry1Loop.simps)
         (simp add: countCalls_def liftWait_def waitRetry_def)
  next
    case False
    then show ?thesis
      using f t
      by (intro exI [of _ 1], subst (1 2) retry1Loop.simps)
         (auto simp: countCalls_def liftWait_def waitRetry_def split: option.splits)
  qed
qed

text \<open>
  A retried operation runs at least once and at most \<^verbatim>\<open>maxRetries + 1\<close> times, whatever the
  operation and the waits do: counting the calls in the world, the count ends within the
  bound and the counted run returns what the plain one does; and only an error that is
  transient, or the context's, is ever returned after more than one call.
\<close>

lemma retry1_calls:
  "\<exists>k. 1 \<le> k \<and> k \<le> m + 1 \<and>
     retry1 tt (liftWait wait) m (countCalls fn) (w, 0) =
       (case retry1 tt wait m fn w of (r, w') \<Rightarrow> (r, (w', k)))"
  using retry1Loop_count [where n = 0 and l = m and a = 0] by (simp add: retry1_def)


definition demoAccount :: account where
  "demoAccount =
     \<lparr>accZones = [\<lparr>zoneID = ''z1'', zoneName = ''a.b''\<rparr>],
      accRecords = (\<lambda>z. if z = ''z1''
        then [\<lparr>recID = ''id-x.a.b'', recName = ''x.a.b'', recContent = ''old''\<rparr>] else []),
      accFaults = [Some ErrUnexpectedEOF, None, Some ErrUnexpectedEOF, None, None]\<rparr>"

definition demoAfter :: "dns_record list \<Rightarrow> account" where
  "demoAfter rs = \<lparr>accZones = [\<lparr>zoneID = ''z1'', zoneName = ''a.b''\<rparr>],
      accRecords = (\<lambda>z. if z = ''z1'' then rs else []), accFaults = []\<rparr>"

definition demoClient :: "account client" where
  "demoClient = WithRetry id simWait (clientOf simSDK ''acct'')"

definition demoW1 :: account where
  "demoW1 = snd (EnsureDNSCNAME demoClient ''z1'' ''x.a.b'' ''new'' demoAccount)"

definition demoW4 :: account where
  "demoW4 = snd (DeleteDNSCNAME demoClient ''z1'' ''x.a.b'' demoW1)"

lemma demo_state:
  "accFaults demoW1 = []" "accFaults demoW4 = []"
  "accRecords demoW1 ''z1'' =
     [\<lparr>recID = ''id-x.a.b'', recName = ''x.a.b'', recContent = ''new''\<rparr>]"
  "accRecords demoW4 ''z1'' = []"
  "fst (EnsureDNSCNAME demoClient ''z1'' ''x.a.b'' ''new'' demoAccount) = None"
  "fst (DeleteDNSCNAME demoClient ''z1'' ''x.a.b'' demoW1) = None"
  by code_simp+

lemma demo_writes:
  "EnsureDNSCNAME demoClient ''z1'' ''x.a.b'' ''new'' demoAccount = (None, demoW1)"
  "DeleteDNSCNAME demoClient ''z1'' ''x.a.b'' demoW1 = (None, demoW4)"
  by (simp_all only: prod_eq_iff fst_conv snd_conv demo_state(5,6))
     (simp_all add: demoW1_def demoW4_def)

lemma demo_reads:
  "GetDNSCNAMETarget demoClient ''z1'' ''x.a.b'' demoW1 = (Inr (''new'', True), demoW1)"
  "ListDNSCNAMEsByTarget demoClient ''z1'' ''new'' demoW1 = (Inr [''x.a.b''], demoW1)"
  "GetDNSCNAMETarget demoClient ''z1'' ''x.a.b'' demoW4 = (Inr ([], False), demoW4)"
  by (simp_all add: demoClient_def WithRetry_def retryClient_def retryTargetLoop_eq retry1_def
      retry1Loop.simps clientOf_def clientGetDNSCNAMETarget_def clientListDNSCNAMEsByTarget_def
      simSDK_def simRecordList_def nextFault_def demo_state(1-4))


end
