(* ===== verification/ZoneContract.thy ===== *)
theory ZoneContract
  imports Retry
begin

text \<open>
  The zone operations of the Cloudflare client: which zone \<^verbatim>\<open>FindZoneIDByHostname\<close> gives
  (internal/cloudflare/client.go), as a contract that extends the one of the DNS operations.
  \<open>dns_zones\<close> is what the reconcilers rely on, \<open>sdk_zones\<close> adds the documented behaviour of
  the SDK's zone listing; the client provides the contract, and its retrying wrapper keeps it.
\<close>

section \<open>The zone of a hostname\<close>

definition bestZone :: "zone list \<Rightarrow> string \<Rightarrow> string option" where
  "bestZone zs h =
     (case find (\<lambda>c. c \<in> zoneName ` set zs) (zoneCandidates (splitChar (CHR ''.'') h)) of
        None \<Rightarrow> None
      | Some c \<Rightarrow> map_option zoneID (find (\<lambda>z. zoneName z = c) zs))"

text \<open>The names a hostname is under: itself and its suffixes behind a dot, with a dot inside.\<close>

definition under :: "string \<Rightarrow> string \<Rightarrow> bool" where
  "under h c \<longleftrightarrow> CHR ''.'' \<in> set c \<and> (h = c \<or> suffix (CHR ''.'' # c) h)"

lemma suffix_sep:
  assumes "c \<notin> set p"
  shows "suffix (c # x) (p @ c # y) \<longleftrightarrow> x = y \<or> suffix (c # x) y"
proof
  assume "suffix (c # x) (p @ c # y)"
  then obtain u where u: "p @ c # y = u @ c # x" by (auto simp: suffix_def)
  show "x = y \<or> suffix (c # x) y"
  proof (cases "u = p")
    case True
    then show ?thesis using u by simp
  next
    case False
    with u obtain v where "(u = p @ v \<or> p = u @ v) \<and> v \<noteq> []"
      by (auto simp: append_eq_append_conv2)
    then show ?thesis using u assms by (cases v) (auto simp: Cons_eq_append_conv suffix_def)
  qed
qed (auto simp: suffix_def)

lemma joinStr_Cons2: "joinStr (p # q # r) [c] = p @ c # joinStr (q # r) [c]"
  by simp

lemma set_zoneCandidates:
  assumes "\<forall>p\<in>set ps. CHR ''.'' \<notin> set p"
  shows "c \<in> set (zoneCandidates ps) \<longleftrightarrow> under (joinStr ps ''.'') c"
  using assms
proof (induction ps rule: zoneCandidates.induct)
  case (1 p q r)
  let ?J = "joinStr (q # r) ''.''"
  have "under (joinStr (p # q # r) ''.'') c \<longleftrightarrow> c = joinStr (p # q # r) ''.'' \<or> under ?J c"
    using suffix_sep [of "CHR ''.''" p c ?J] "1.prems"
    unfolding under_def joinStr_Cons2 by auto
  then show ?case using 1 by auto
next
  case "2_2"
  then show ?case by (auto simp: under_def suffix_def)
qed (auto simp: under_def suffix_def)

lemma candidates_under:
  "c \<in> set (zoneCandidates (splitChar (CHR ''.'') h)) \<longleftrightarrow> under h c"
  using set_zoneCandidates [of "splitChar (CHR ''.'') h" c] splitChar_no_sep
  by (auto simp: splitChar_join)

lemma zoneCandidates_decreasing:
  "sorted_wrt (\<lambda>a b. length b < length a) (zoneCandidates ps)"
proof (induction ps rule: zoneCandidates.induct)
  case (1 p q r)
  have "length c \<le> length (joinStr (q # r) ''.'')" if "c \<in> set (zoneCandidates (q # r))" for c
    using 1 that by (cases r) auto
  then show ?case using 1 by fastforce
qed auto

lemma find_decreasing:
  assumes "sorted_wrt (\<lambda>a b. length b < length a) cs" "find P cs = Some c"
  shows "c \<in> set cs \<and> P c \<and> (\<forall>d\<in>set cs. P d \<longrightarrow> length d \<le> length c)"
  using assms by (induction cs) (auto split: if_splits)

text \<open>The zone is the longest the hostname is under.\<close>

lemma bestZone_Some:
  assumes "bestZone zs h = Some zid"
  shows "\<exists>z\<in>set zs. zoneID z = zid \<and> under h (zoneName z) \<and>
           (\<forall>z'\<in>set zs. under h (zoneName z') \<longrightarrow> length (zoneName z') \<le> length (zoneName z))"
proof -
  obtain c z where c: "find (\<lambda>c. c \<in> zoneName ` set zs) (zoneCandidates (splitChar (CHR ''.'') h)) = Some c"
    and z: "find (\<lambda>z. zoneName z = c) zs = Some z" "zoneID z = zid"
    using assms by (auto simp: bestZone_def split: option.splits)
  have "z \<in> set zs" "zoneName z = c" using find_Some_D [OF z(1)] by auto
  then show ?thesis
    using find_decreasing [OF zoneCandidates_decreasing c] z(2) by (auto simp: candidates_under)
qed

lemma bestZone_None: "bestZone zs h = None \<longleftrightarrow> (\<forall>z\<in>set zs. \<not> under h (zoneName z))"
proof -
  have "find (\<lambda>z. zoneName z = c) zs \<noteq> None"
    if "find (\<lambda>c. c \<in> zoneName ` set zs) (zoneCandidates (splitChar (CHR ''.'') h)) = Some c" for c
    using find_Some_D [OF that] by (auto simp: find_None_iff)
  then have "bestZone zs h = None \<longleftrightarrow>
      find (\<lambda>c. c \<in> zoneName ` set zs) (zoneCandidates (splitChar (CHR ''.'') h)) = None"
    by (auto simp: bestZone_def split: option.splits)
  then show ?thesis by (auto simp: find_None_iff candidates_under)
qed

section \<open>The contracts\<close>

locale dns_zones = dns_client Inv recs tc
  for Inv :: "'w \<Rightarrow> bool" and recs :: "'w \<Rightarrow> cname_table" and tc :: "'w client" +
  fixes zs :: "zone list"
  assumes find_law: "Inv w \<Longrightarrow> FindZoneIDByHostname tc h w = (r, w') \<Longrightarrow>
      Inv w' \<and> recs w' = recs w \<and> (\<forall>z. r = Inr z \<longrightarrow> bestZone zs h = Some z)"
    and zones_law: "Inv w \<Longrightarrow> ListZoneIDs tc w = (l, w') \<Longrightarrow>
      Inv w' \<and> recs w' = recs w \<and> (\<forall>ids. l = Inr ids \<longrightarrow> set ids = zoneID ` set zs)"

locale sdk_zones = sdk_dns Inv records sdk acct
  for Inv :: "'w \<Rightarrow> bool" and records :: "'w \<Rightarrow> string \<Rightarrow> dns_record list"
    and sdk :: "'w sdk" and acct :: string +
  fixes zs :: "zone list"
  assumes zone_unique: "Inv w \<Longrightarrow> inj_on zoneName (set zs)"
    and zone_reads: "Inv w \<Longrightarrow> sdkZoneList sdk n w = ((l, e), w') \<Longrightarrow>
      Inv w' \<and> records w' = records w \<and> set l \<subseteq> set zs"
    and zone_complete: "Inv w \<Longrightarrow> sdkZoneList sdk n w = ((l, None), w') \<Longrightarrow>
      z \<in> set zs \<Longrightarrow> n = None \<or> n = Some (zoneName z) \<Longrightarrow> z \<in> set l"
begin

lemma findZoneLoop_best:
  assumes "Inv w" "findZoneLoop sdk h ps w = (r, w')"
  shows "Inv w' \<and> records w' = records w \<and>
    (\<forall>zid. r = Inr zid \<longrightarrow> (\<exists>c. find (\<lambda>c. c \<in> zoneName ` set zs) (zoneCandidates ps) = Some c \<and>
       map_option zoneID (find (\<lambda>z. zoneName z = c) zs) = Some zid))"
  using assms
proof (induction ps arbitrary: w rule: zoneCandidates.induct)
  case (1 p q s)
  let ?c = "joinStr (p # q # s) ''.''"
  obtain l e v where l: "sdkZoneList sdk (Some ?c) w = ((l, e), v)"
    by (rule pair_left_cases [of "sdkZoneList sdk (Some ?c) w"])
  have v: "Inv v" "records v = records w" "set l \<subseteq> set zs" using zone_reads [OF "1.prems"(1) l] by auto
  show ?case
  proof (cases "find (\<lambda>z. zoneName z = ?c) l")
    case (Some z)
    then have z: "z \<in> set zs" "zoneName z = ?c" using find_Some_D [OF Some] v(3) by auto
    then obtain z' where z': "find (\<lambda>z. zoneName z = ?c) zs = Some z'"
      by (metis (mono_tags) find_None_iff not_Some_eq)
    with z have "z' = z"
      using inj_onD [OF zone_unique [OF "1.prems"(1)], of z' z] find_Some_D [OF z'] by simp
    moreover have "?c \<in> zoneName ` set zs" using z by (metis imageI)
    moreover have "r = Inr (zoneID z)" "w' = v" using "1.prems"(2) Some l by (auto simp: Let_def)
    ultimately show ?thesis using v z' by (simp del: joinStr.simps)
  next
    case None
    show ?thesis
    proof (cases e)
      case (Some err)
      then show ?thesis using "1.prems"(2) None l v by (auto simp: Let_def)
    next
      case none: None
      have "?c \<notin> zoneName ` set zs"
      proof
        assume "?c \<in> zoneName ` set zs"
        then obtain z where z: "z \<in> set zs" "?c = zoneName z" by (rule imageE)
        then have "z \<in> set l"
          using zone_complete [OF "1.prems"(1) l [unfolded none] z(1)] by simp
        then show False using None z(2) by (auto simp: find_None_iff)
      qed
      moreover have "findZoneLoop sdk h (q # s) v = (r, w')"
        using "1.prems"(2) None none l by (simp add: Let_def)
      ultimately show ?thesis using "1.IH" [OF v(1)] v(2) by (simp del: joinStr.simps)
    qed
  qed
qed auto

end

sublocale sdk_zones \<subseteq> zclient: dns_zones Inv cnames "clientOf sdk acct" zs
proof
  fix w h r w'
  assume "Inv w" "FindZoneIDByHostname (clientOf sdk acct) h w = (r, w')"
  then show "Inv w' \<and> cnames w' = cnames w \<and> (\<forall>z. r = Inr z \<longrightarrow> bestZone zs h = Some z)"
    using findZoneLoop_best [of w h "splitChar (CHR ''.'') h" r w'] cnames_cong [of w' w]
    by (auto simp: clientOf_def clientFindZoneIDByHostname_def bestZone_def)
next
  fix w l w'
  assume i: "Inv w" and g: "ListZoneIDs (clientOf sdk acct) w = (l, w')"
  obtain zl e v where z: "sdkZoneList sdk None w = ((zl, e), v)"
    by (rule pair_left_cases [of "sdkZoneList sdk None w"])
  have v: "Inv v" "cnames v = cnames w" "set zl \<subseteq> set zs"
    using zone_reads [OF i z] cnames_cong [of v w] by simp_all
  have "e = None \<Longrightarrow> set zl = set zs" using zone_complete [OF i] z v(3) by blast
  with g z v show "Inv w' \<and> cnames w' = cnames w \<and> (\<forall>ids. l = Inr ids \<longrightarrow> set ids = zoneID ` set zs)"
    by (auto simp: clientOf_def clientListZoneIDs_def split: option.splits)
qed

locale retried_zones = retried_dns Inv recs tc tt wait m + dns_zones Inv recs tc zs
  for Inv :: "'w \<Rightarrow> bool" and recs :: "'w \<Rightarrow> cname_table" and tc :: "'w client"
    and tt :: "string \<Rightarrow> string" and wait :: "int \<Rightarrow> 'w \<Rightarrow> go_error option \<times> 'w"
    and m :: nat and zs :: "zone list"

sublocale retried_zones \<subseteq> zretried: dns_zones Inv recs "retryClient tt wait m tc" zs
proof
  fix w h r w'
  assume i: "Inv w" and g: "FindZoneIDByHostname (retryClient tt wait m tc) h w = (r, w')"
  show "Inv w' \<and> recs w' = recs w \<and> (\<forall>z. r = Inr z \<longrightarrow> bestZone zs h = Some z)"
  proof (rule retry1_read [OF _ i])
    show "retry1Loop tt wait (FindZoneIDByHostname tc h) 0 m w = (r, w')"
      using g by (simp add: retryClient_def retry1_def)
    fix v r v' assume "Inv v" "recs v = recs w" "FindZoneIDByHostname tc h v = (r, v')"
    then show "Inv v' \<and> recs v' = recs w \<and> (\<forall>z. r = Inr z \<longrightarrow> bestZone zs h = Some z)"
      using find_law [of v h r v'] by simp
  qed
next
  fix w l w'
  assume i: "Inv w" and g: "ListZoneIDs (retryClient tt wait m tc) w = (l, w')"
  show "Inv w' \<and> recs w' = recs w \<and> (\<forall>ids. l = Inr ids \<longrightarrow> set ids = zoneID ` set zs)"
  proof (rule retry1_read [OF _ i])
    show "retry1Loop tt wait (ListZoneIDs tc) 0 m w = (l, w')"
      using g by (simp add: retryClient_def retry1_def)
    fix v r v' assume "Inv v" "recs v = recs w" "ListZoneIDs tc v = (r, v')"
    then show "Inv v' \<and> recs v' = recs w \<and> (\<forall>ids. r = Inr ids \<longrightarrow> set ids = zoneID ` set zs)"
      using zones_law [of v r v'] by simp
  qed
qed

context sdk_zones
begin

lemma zone_contract: "dns_zones Inv cnames (clientOf sdk acct) zs"
  by (rule zclient.dns_zones_axioms)

end

context retried_zones
begin

lemma retried_zone_contract: "dns_zones Inv recs (retryClient tt wait m tc) zs"
  by (rule zretried.dns_zones_axioms)

end

text \<open>The production client: the retrying wrapper of the client on an SDK that behaves.\<close>

lemma WithRetry_zones:
  assumes "sdk_zones Inv records sdk zs"
    and "\<forall>d v c v'. Inv v \<longrightarrow> wait d v = (c, v') \<longrightarrow> Inv v' \<and> records v' = records v"
  shows "dns_zones Inv (cnameTable records) (WithRetry tt wait (clientOf sdk acct)) zs"
proof -
  have "dns_zones Inv (cnameTable records) (clientOf sdk acct) zs"
    using assms(1) by (rule sdk_zones.zone_contract)
  moreover from this have "retried_dns Inv (cnameTable records) (clientOf sdk acct) wait"
    using assms(2) unfolding retried_dns_def retried_dns_axioms_def dns_zones_def cnameTable_def
    by simp
  ultimately show ?thesis
    unfolding WithRetry_def by (intro retried_zones.retried_zone_contract retried_zones.intro)
qed

section \<open>The simulated account\<close>

definition accIn :: "zone list \<Rightarrow> account \<Rightarrow> bool" where
  "accIn zs a \<longleftrightarrow> accOk a \<and> accZones a = zs \<and> distinct (map zoneName zs)"

lemma nextFault_zones: "nextFault a = (f, b) \<Longrightarrow> accZones b = accZones a"
  by (auto simp: nextFault_def split: list.splits)

lemma simRecordList_zones: "simRecordList z n c a = (r, b) \<Longrightarrow> accZones b = accZones a"
  by (auto simp: simRecordList_def dest: nextFault_zones split: prod.splits option.splits)

lemma simWrite_zones: "simWrite z f a = (e, b) \<Longrightarrow> accZones b = accZones a"
  by (auto simp: simWrite_def dest: nextFault_zones split: prod.splits option.splits)

lemma accIn_step:
  assumes "accIn zs a" "accOk b" "accZones b = accZones a"
  shows "accIn zs b"
  using assms by (simp add: accIn_def)

interpretation simz: sdk_zones "accIn zs" accRecords simSDK acct zs for acct zs
proof
  fix w z assume "accIn zs w"
  then show "distinct (map recName (accRecords w z))" using sim.cname_unique by (simp add: accIn_def)
next
  fix w z assume "accIn zs w"
  then show "distinct (map recID (accRecords w z))" using sim.id_unique by (simp add: accIn_def)
next
  fix w z n c rs e w'
  assume i: "accIn zs w" and g: "sdkRecordList simSDK z n c w = ((rs, e), w')"
  then have "accZones w' = accZones w" by (auto simp: simSDK_def dest: simRecordList_zones)
  then show "accIn zs w' \<and> accRecords w' = accRecords w \<and> set rs \<subseteq> set (accRecords w z)"
    using sim.list_reads [OF _ g] i by (simp add: accIn_def)
next
  fix w z n c rs w' r
  assume "accIn zs w" "sdkRecordList simSDK z n c w = ((rs, None), w')" "r \<in> set (accRecords w z)"
    "n = None \<or> n = Some (recName r)" "c = None \<or> c = Some (recContent r)"
  then show "r \<in> set rs" using sim.list_complete unfolding accIn_def by metis
next
  fix w z i b e w' r
  assume i: "accIn zs w" and g: "sdkRecordUpdate simSDK z i b w = (e, w')"
    and r: "r \<in> set (accRecords w z)" "recID r = i" "recName r = cbName b"
  have "accZones w' = accZones w" using g by (auto simp: simSDK_def dest: simWrite_zones)
  then show "accIn zs w' \<and> (let new = (accRecords w)(z := map (\<lambda>r. if recID r = i
                 then r\<lparr>recContent := cbContent b\<rparr> else r) (accRecords w z))
       in (accRecords w' = accRecords w \<or> accRecords w' = new) \<and> (e = None \<longrightarrow> accRecords w' = new))"
    using sim.update_law [OF _ g r] i by (simp add: accIn_def)
next
  fix w z b e w'
  assume i: "accIn zs w" and g: "sdkRecordNew simSDK z b w = (e, w')"
    and f: "cbName b \<notin> recName ` set (accRecords w z)"
  have "accZones w' = accZones w" using g by (auto simp: simSDK_def dest: simWrite_zones)
  then show "accIn zs w' \<and> (\<exists>i. let new = (accRecords w)(z := accRecords w z @
                 [\<lparr>recID = i, recName = cbName b, recContent = cbContent b\<rparr>])
       in (accRecords w' = accRecords w \<or> accRecords w' = new) \<and> (e = None \<longrightarrow> accRecords w' = new))"
    using sim.new_law [OF _ g f] i by (simp add: accIn_def)
next
  fix w z i e w'
  assume i: "accIn zs w" and g: "sdkRecordDelete simSDK z i w = (e, w')"
  have "accZones w' = accZones w" using g by (auto simp: simSDK_def dest: simWrite_zones)
  then show "accIn zs w' \<and> (let new = (accRecords w)(z := filter (\<lambda>r. recID r \<noteq> i) (accRecords w z))
       in (accRecords w' = accRecords w \<or> accRecords w' = new) \<and> (e = None \<longrightarrow> accRecords w' = new))"
    using sim.remove_law [OF _ g] i by (simp add: accIn_def)
next
  fix w assume "accIn zs w"
  then show "inj_on zoneName (set zs)" by (simp add: accIn_def distinct_map)
next
  fix w n l e w'
  assume "accIn zs w" "sdkZoneList simSDK n w = ((l, e), w')"
  then show "accIn zs w' \<and> accRecords w' = accRecords w \<and> set l \<subseteq> set zs"
    by (auto simp: simSDK_def simZoneList_def accIn_def dest: nextFault_zones nextFault_records
        accOk_cong split: prod.splits option.splits)
next
  fix w n l w' z
  assume "accIn zs w" "sdkZoneList simSDK n w = ((l, None), w')" "z \<in> set zs"
    "n = None \<or> n = Some (zoneName z)"
  then show "z \<in> set l"
    by (auto simp: simSDK_def simZoneList_def accIn_def dest: nextFault_zones
        split: prod.splits option.splits)
qed

interpretation simzr: retried_zones "accIn zs" "cnameTable accRecords" "clientOf simSDK acct" tt simWait m zs
  for acct tt m zs
  by unfold_locales (auto simp: simWait_def)

section \<open>Properties\<close>

text \<open>
  C17. The zone of a hostname: when the retried client finds a zone, it is one the hostname
  lies in, at any depth, and the longest such zone of the account; the lookup changes no
  record.
\<close>

theorem FindZone_longest:
  assumes "sdk_zones Inv records sdk zs" and "Inv w"
    and "\<forall>d v c v'. Inv v \<longrightarrow> wait d v = (c, v') \<longrightarrow> Inv v' \<and> records v' = records v"
    and "FindZoneIDByHostname (WithRetry tt wait (clientOf sdk acct)) h w = (r, w')"
  shows "cnameTable records w' = cnameTable records w
    \<and> (\<forall>zid. r = Inr zid \<longrightarrow>
        (\<exists>z\<in>set zs. zoneID z = zid \<and> under h (zoneName z) \<and>
           (\<forall>z'\<in>set zs. under h (zoneName z') \<longrightarrow> length (zoneName z') \<le> length (zoneName z))))"
  using dns_zones.find_law [OF WithRetry_zones [where tt = tt, OF assms(1,3)] assms(2,4)] bestZone_Some
  by blast

definition zoneAccount :: "go_error option list \<Rightarrow> account" where
  "zoneAccount fs =
     \<lparr>accZones = [\<lparr>zoneID = ''z1'', zoneName = ''b.c''\<rparr>, \<lparr>zoneID = ''z2'', zoneName = ''a.b.c''\<rparr>],
      accRecords = (\<lambda>z. []), accFaults = fs\<rparr>"

theorem FindZone_longest_witness:
  "fst (FindZoneIDByHostname demoClient ''y.x.a.b.c'' (zoneAccount [None, Some ErrUnexpectedEOF]))
     = Inr ''z2'' \<and>
   (\<exists>z\<in>set (accZones (zoneAccount [])). zoneID z = ''z2'' \<and> under ''y.x.a.b.c'' (zoneName z) \<and>
     (\<forall>z'\<in>set (accZones (zoneAccount [])). under ''y.x.a.b.c'' (zoneName z') \<longrightarrow>
        length (zoneName z') \<le> length (zoneName z)))"
proof -
  let ?w = "zoneAccount [None, Some ErrUnexpectedEOF]"
  have f: "fst (FindZoneIDByHostname demoClient ''y.x.a.b.c'' ?w) = Inr ''z2''" by code_simp
  then have run: "FindZoneIDByHostname demoClient ''y.x.a.b.c'' ?w =
      (Inr ''z2'', snd (FindZoneIDByHostname demoClient ''y.x.a.b.c'' ?w))"
    by (simp add: prod_eq_iff)
  have i: "accIn (accZones (zoneAccount [])) ?w" by (simp add: accIn_def accOk_def zoneAccount_def)
  have wait: "\<forall>d v c v'. accIn zs v \<longrightarrow> simWait d v = (c, v') \<longrightarrow>
      accIn zs v' \<and> accRecords v' = accRecords v" for zs
    by (simp add: simWait_def)
  show ?thesis
    using FindZone_longest [OF simz.sdk_zones_axioms i wait run [unfolded demoClient_def]] f
    by blast
qed

end
