(* ===== verification/Dns.thy ===== *)
theory Dns
  imports RouteConflicts ZoneContract "HOL-Library.Char_ord" "HOL-Library.List_Lexorder"
    "HOL-Library.Product_Lexorder"
begin

text \<open>
  Managed DNS records (internal/controller/gateway_dns.go): the hostnames that should have a
  CNAME, the conflicts with the hostnames of other Gateways, and the reconciliation of the
  account's records.  \<open>tc\<close> is the Cloudflare client; the world \<open>'w\<close> is that of Cloudflare
  and of the Kubernetes API together.  A Go map is an association list with distinct keys;
  \<open>ord\<close> is the order in which \<^verbatim>\<open>range\<close> visits one, about which only that it visits every
  entry is ever assumed.  \<open>listByHost\<close> lists the Gateways indexed under a tunnel host.
\<close>

section \<open>Desired hostnames\<close>

text \<open>Hostname and zone ID.\<close>

type_synonym desired = "(string \<times> string) list"

fun desiredAllLoop :: "'w client \<Rightarrow> string list \<Rightarrow> desired \<Rightarrow> 'w \<Rightarrow> desired \<times> 'w" where
  "desiredAllLoop tc [] desired w = (desired, w)"
| "desiredAllLoop tc (h # hs) desired w =
     (case FindZoneIDByHostname tc h w of
        (Inl err, w') \<Rightarrow> desiredAllLoop tc hs desired w'
      | (Inr zid, w') \<Rightarrow> desiredAllLoop tc hs (AList.update h zid desired) w')"

fun zoneMapLoop ::
  "(string \<Rightarrow> string) \<Rightarrow> 'w client \<Rightarrow> string list \<Rightarrow> (string \<times> string) list \<Rightarrow> 'w
     \<Rightarrow> (string + (string \<times> string) list) \<times> 'w" where
  "zoneMapLoop tt tc [] zoneMap w = (Inr zoneMap, w)"
| "zoneMapLoop tt tc (z # zs) zoneMap w =
     (case FindZoneIDByHostname tc z w of
        (Inl err, w') \<Rightarrow>
          (Inl (''Failed to find zone ID for '' @ goQuote z @ '': '' @ errMsg tt err), w')
      | (Inr zid, w') \<Rightarrow> zoneMapLoop tt tc zs (AList.update z zid zoneMap) w')"

text \<open>The inner loop over the zones: a later match overwrites an earlier one.\<close>

fun zoneMatchLoop ::
  "(string \<times> string) list \<Rightarrow> string \<Rightarrow> string list \<Rightarrow> desired \<Rightarrow> desired" where
  "zoneMatchLoop zoneMap h [] desired = desired"
| "zoneMatchLoop zoneMap h (z # zs) desired =
     zoneMatchLoop zoneMap h zs
       (if hostnameInZone h z
        then AList.update h (case map_of zoneMap z of None \<Rightarrow> [] | Some zid \<Rightarrow> zid) desired
        else desired)"

fun desiredZonesLoop ::
  "(string \<times> string) list \<Rightarrow> string list \<Rightarrow> string list \<Rightarrow> desired \<Rightarrow> desired" where
  "desiredZonesLoop zoneMap zs [] desired = desired"
| "desiredZonesLoop zoneMap zs (h # hs) desired =
     desiredZonesLoop zoneMap zs hs (zoneMatchLoop zoneMap h zs desired)"

definition computeDesiredDNSHostnames ::
  "(string \<Rightarrow> string) \<Rightarrow> 'w client \<Rightarrow> dnsPolicy \<Rightarrow> string list \<Rightarrow> 'w
     \<Rightarrow> (string + desired) \<times> 'w" where
  "computeDesiredDNSHostnames tt tc dns routeHostnames w =
     (if allZones dns
      then (case desiredAllLoop tc routeHostnames [] w of (desired, w') \<Rightarrow> (Inr desired, w'))
      else
        (case zoneMapLoop tt tc (dnsZones dns) [] w of
           (Inl e, w') \<Rightarrow> (Inl e, w')
         | (Inr zoneMap, w') \<Rightarrow>
             (Inr (desiredZonesLoop zoneMap (dnsZones dns) routeHostnames []), w')))"

section \<open>Conflicts with other Gateways\<close>

text \<open>The loop over the routes of the ConfigMap, with the owner keys seen so far.\<close>

fun ownersLoop ::
  "string \<Rightarrow> route list \<Rightarrow> string list \<Rightarrow> routeOwner list \<Rightarrow> routeOwner list" where
  "ownersLoop hostname [] seen owners = owners"
| "ownersLoop hostname (r # rs) seen owners =
     (case parseRouteOwner (roOwnerKind r) (roOwner r) of
        None \<Rightarrow> ownersLoop hostname rs seen owners
      | Some owner \<Rightarrow>
          if roHostname r \<noteq> hostname then ownersLoop hostname rs seen owners
          else
            (let ownerKey = roOwnerKind r @ '':'' @ roOwner r
             in if ownerKey \<in> set seen then ownersLoop hostname rs seen owners
                else ownersLoop hostname rs (ownerKey # seen) (owners @ [owner])))"

definition findHostnameRouteOwners ::
  "(namespaced_name \<Rightarrow> 'w \<Rightarrow> (go_error + (string \<Rightarrow> string option)) \<times> 'w)
     \<Rightarrow> (string \<Rightarrow> go_error + proxy_config) \<Rightarrow> gateway \<Rightarrow> string \<Rightarrow> 'w
     \<Rightarrow> (go_error + routeOwner list) \<times> 'w" where
  "findHostnameRouteOwners getCM unmarshal gw hostname w =
     (case getExistingRouteConfig getCM unmarshal gw w of
        (Inl err, w') \<Rightarrow> (Inl err, w')
      | (Inr None, w') \<Rightarrow> (Inr [], w')
      | (Inr (Some cfg), w') \<Rightarrow>
          (Inr (sort_key (\<lambda>o'. (ownKind o', ownNamespace o', ownName o'))
                  (ownersLoop hostname (cfgRoutes cfg) [] [])), w'))"

text \<open>The loop over the Gateways indexed under a CNAME's target.\<close>

fun otherGatewaysLoop ::
  "(namespaced_name \<Rightarrow> 'w \<Rightarrow> (go_error + (string \<Rightarrow> string option)) \<times> 'w)
     \<Rightarrow> (string \<Rightarrow> go_error + proxy_config) \<Rightarrow> gateway \<Rightarrow> string \<Rightarrow> gateway list \<Rightarrow> string list
     \<Rightarrow> 'w \<Rightarrow> (go_error + string list) \<times> 'w" where
  "otherGatewaysLoop getCM unmarshal gw hostname [] owners w = (Inr owners, w)"
| "otherGatewaysLoop getCM unmarshal gw hostname (other # others) owners w =
     (if gwNamespace other = gwNamespace gw \<and> gwName other = gwName gw
      then otherGatewaysLoop getCM unmarshal gw hostname others owners w
      else
        (case findHostnameRouteOwners getCM unmarshal other hostname w of
           (Inl err, w') \<Rightarrow>
             (Inl (ErrWrap (''reading route owners for hostname '' @ goQuote hostname
                     @ '' on Gateway '' @ gwNamespace other @ ''/'' @ gwName other @ '': '') err), w')
         | (Inr routeOwners, w') \<Rightarrow>
             (let gwText = ''Gateway '' @ gwNamespace other @ ''/'' @ gwName other
              in if length routeOwners = 0
                 then otherGatewaysLoop getCM unmarshal gw hostname others (owners @ [gwText]) w'
                 else otherGatewaysLoop getCM unmarshal gw hostname others
                        (owners @ map (\<lambda>o'. formatRouteOwner o' @ '' on '' @ gwText) routeOwners)
                        w')))"

text \<open>The loop over the desired hostnames, with the conflicts found so far.\<close>

fun dnsConflictsLoop ::
  "'w client \<Rightarrow> (string \<Rightarrow> 'w \<Rightarrow> (go_error + gateway list) \<times> 'w)
     \<Rightarrow> (namespaced_name \<Rightarrow> 'w \<Rightarrow> (go_error + (string \<Rightarrow> string option)) \<times> 'w)
     \<Rightarrow> (string \<Rightarrow> go_error + proxy_config) \<Rightarrow> gateway \<Rightarrow> string \<Rightarrow> desired
     \<Rightarrow> (string \<times> string) list \<Rightarrow> 'w \<Rightarrow> (go_error + (string \<times> string) list) \<times> 'w" where
  "dnsConflictsLoop tc listByHost getCM unmarshal gw current [] conflicts w = (Inr conflicts, w)"
| "dnsConflictsLoop tc listByHost getCM unmarshal gw current ((hostname, zid) # ds) conflicts w =
     (case GetDNSCNAMETarget tc zid hostname w of
        (Inl err, w1) \<Rightarrow>
          (Inl (ErrWrap (''looking up DNS CNAME for '' @ goQuote hostname @ '': '') err), w1)
      | (Inr (target, exists), w1) \<Rightarrow>
          if \<not> exists \<or> target = [] \<or> target = current
          then dnsConflictsLoop tc listByHost getCM unmarshal gw current ds conflicts w1
          else
            (case listByHost target w1 of
               (Inl err, w2) \<Rightarrow>
                 (Inl (ErrWrap (''listing Gateways for tunnel host '' @ goQuote target @ '': '') err), w2)
             | (Inr gws, w2) \<Rightarrow>
                 (case otherGatewaysLoop getCM unmarshal gw hostname gws [] w2 of
                    (Inl err, w3) \<Rightarrow> (Inl err, w3)
                  | (Inr owners, w3) \<Rightarrow>
                      if length owners = 0
                      then dnsConflictsLoop tc listByHost getCM unmarshal gw current ds conflicts w3
                      else dnsConflictsLoop tc listByHost getCM unmarshal gw current ds
                             (AList.update hostname
                                (hostname @ '' (claimed by '' @ joinStr (sort owners) '', '' @ '')'')
                                conflicts) w3)))"

definition findManagedDNSHostnameConflicts ::
  "(string \<Rightarrow> string) \<Rightarrow> (desired \<Rightarrow> desired) \<Rightarrow> 'w client
     \<Rightarrow> (string \<Rightarrow> 'w \<Rightarrow> (go_error + gateway list) \<times> 'w)
     \<Rightarrow> (namespaced_name \<Rightarrow> 'w \<Rightarrow> (go_error + (string \<Rightarrow> string option)) \<times> 'w)
     \<Rightarrow> (string \<Rightarrow> go_error + proxy_config) \<Rightarrow> gateway \<Rightarrow> string \<Rightarrow> dnsPolicy \<Rightarrow> routeObject list
     \<Rightarrow> 'w \<Rightarrow> (go_error + (string \<times> string) list) \<times> 'w" where
  "findManagedDNSHostnameConflicts tt ord tc listByHost getCM unmarshal gw tid dns routes w =
     (if \<not> dnsEnabled dns then (Inr [], w)
      else
        (case computeDesiredDNSHostnames tt tc dns (concat (map hostnames routes)) w of
           (Inl dnsErr, w') \<Rightarrow> (Inr [], w')
         | (Inr desired, w') \<Rightarrow>
             dnsConflictsLoop tc listByHost getCM unmarshal gw (TunnelTarget tid) (ord desired) [] w'))"

fun filterDNSConflictsLoop ::
  "(string \<Rightarrow> string) \<Rightarrow> 'w kube \<Rightarrow> 'w retrier \<Rightarrow> gateway \<Rightarrow> int \<Rightarrow> (string \<times> string) list
     \<Rightarrow> routeObject list \<Rightarrow> routeObject list \<Rightarrow> string list \<Rightarrow> 'w
     \<Rightarrow> routeObject list \<times> string list \<times> 'w" where
  "filterDNSConflictsLoop tt kube retry gw now conflicts [] filtered errs w = (filtered, errs, w)"
| "filterDNSConflictsLoop tt kube retry gw now conflicts (r # rs) filtered errs w =
     (let iss = List.map_filter (map_of conflicts) (hostnames r)
      in if length iss = 0
         then filterDNSConflictsLoop tt kube retry gw now conflicts rs (filtered @ [r]) errs w
         else
           (let msg = ''Conflicting hostname (already claimed by another Gateway):'' @ nl @ ''- ''
                        @ joinStr iss (nl @ ''- '')
            in case rejectRouteStatus kube retry gw now r ''UnsupportedValue'' msg w of
                 (Some err, w') \<Rightarrow>
                   filterDNSConflictsLoop tt kube retry gw now conflicts rs filtered
                     (errs @ [''failed to update conflicting '' @ routeKind r @ '' '' @ keyString r
                              @ '' status: '' @ errMsg tt err]) w'
               | (None, w') \<Rightarrow>
                   filterDNSConflictsLoop tt kube retry gw now conflicts rs filtered errs w'))"

definition filterManagedDNSHostnameConflicts ::
  "(string \<Rightarrow> string) \<Rightarrow> (desired \<Rightarrow> desired) \<Rightarrow> 'w kube \<Rightarrow> 'w retrier \<Rightarrow> 'w client
     \<Rightarrow> (string \<Rightarrow> 'w \<Rightarrow> (go_error + gateway list) \<times> 'w)
     \<Rightarrow> (namespaced_name \<Rightarrow> 'w \<Rightarrow> (go_error + (string \<Rightarrow> string option)) \<times> 'w)
     \<Rightarrow> (string \<Rightarrow> go_error + proxy_config) \<Rightarrow> gateway \<Rightarrow> int \<Rightarrow> string \<Rightarrow> dnsPolicy
     \<Rightarrow> routeObject list \<Rightarrow> 'w \<Rightarrow> (go_error + routeObject list \<times> string list) \<times> 'w" where
  "filterManagedDNSHostnameConflicts tt ord kube retry tc listByHost getCM unmarshal gw now tid dns
      routes w =
     (case findManagedDNSHostnameConflicts tt ord tc listByHost getCM unmarshal gw tid dns routes w of
        (Inl err, w') \<Rightarrow> (Inl err, w')
      | (Inr conflicts, w') \<Rightarrow>
          if length conflicts = 0 then (Inr (routes, []), w')
          else (case filterDNSConflictsLoop tt kube retry gw now conflicts routes [] [] w' of
                  (filtered, errs, w2) \<Rightarrow> (Inr (filtered, errs), w2)))"

section \<open>Reconciling the records\<close>

text \<open>All records pointing to the tunnel: hostname and zone ID.\<close>

fun listActualLoop ::
  "(string \<Rightarrow> string) \<Rightarrow> 'w client \<Rightarrow> string \<Rightarrow> string list \<Rightarrow> (string \<times> string) list \<Rightarrow> 'w
     \<Rightarrow> (string + (string \<times> string) list) \<times> 'w" where
  "listActualLoop tt tc target [] actual w = (Inr actual, w)"
| "listActualLoop tt tc target (zid # zids) actual w =
     (case ListDNSCNAMEsByTarget tc zid target w of
        (Inl err, w') \<Rightarrow>
          (Inl (''Failed to list DNS CNAMEs in zone '' @ goQuote zid @ '': '' @ errMsg tt err), w')
      | (Inr hs, w') \<Rightarrow> listActualLoop tt tc target zids (actual @ map (\<lambda>h. (h, zid)) hs) w')"

fun deleteAllLoop ::
  "(string \<Rightarrow> string) \<Rightarrow> 'w client \<Rightarrow> (string \<times> string) list \<Rightarrow> string list \<Rightarrow> 'w
     \<Rightarrow> (string list \<times> string option) \<times> 'w" where
  "deleteAllLoop tt tc [] changes w = ((changes, None), w)"
| "deleteAllLoop tt tc ((h, zid) # rs) changes w =
     (case DeleteDNSCNAME tc zid h w of
        (Some err, w') \<Rightarrow>
          ((changes, Some (''Failed to delete DNS CNAME for '' @ goQuote h @ '': '' @ errMsg tt err)), w')
      | (None, w') \<Rightarrow> deleteAllLoop tt tc rs (changes @ [''deleted DNS CNAME for '' @ h]) w')"

fun createLoop ::
  "(string \<Rightarrow> string) \<Rightarrow> 'w client \<Rightarrow> string \<Rightarrow> string set \<Rightarrow> desired \<Rightarrow> string list \<Rightarrow> 'w
     \<Rightarrow> (string list \<times> string option) \<times> 'w" where
  "createLoop tt tc target actualSet [] changes w = ((changes, None), w)"
| "createLoop tt tc target actualSet ((h, zid) # ds) changes w =
     (if h \<notin> actualSet
      then (case EnsureDNSCNAME tc zid h target w of
              (Some err, w') \<Rightarrow>
                ((changes, Some (''Failed to ensure DNS CNAME for '' @ goQuote h @ '': ''
                            @ errMsg tt err)), w')
            | (None, w') \<Rightarrow>
                createLoop tt tc target actualSet ds (changes @ [''created DNS CNAME for '' @ h]) w')
      else createLoop tt tc target actualSet ds changes w)"

fun deleteStaleLoop ::
  "(string \<Rightarrow> string) \<Rightarrow> 'w client \<Rightarrow> desired \<Rightarrow> (string \<times> string) list \<Rightarrow> string list \<Rightarrow> 'w
     \<Rightarrow> (string list \<times> string option) \<times> 'w" where
  "deleteStaleLoop tt tc desired [] changes w = ((changes, None), w)"
| "deleteStaleLoop tt tc desired ((h, zid) # rs) changes w =
     (if map_of desired h = None
      then (case DeleteDNSCNAME tc zid h w of
              (Some err, w') \<Rightarrow>
                ((changes, Some (''Failed to delete stale DNS CNAME for '' @ goQuote h @ '': ''
                            @ errMsg tt err)), w')
            | (None, w') \<Rightarrow>
                deleteStaleLoop tt tc desired rs (changes @ [''deleted DNS CNAME for '' @ h]) w')
      else deleteStaleLoop tt tc desired rs changes w)"

definition reconcileDNS ::
  "(string \<Rightarrow> string) \<Rightarrow> (desired \<Rightarrow> desired) \<Rightarrow> 'w client \<Rightarrow> string \<Rightarrow> dnsPolicy \<Rightarrow> string list \<Rightarrow> 'w
     \<Rightarrow> (string list \<times> string option) \<times> 'w" where
  "reconcileDNS tt ord tc tid dns routeHostnames w =
     (let target = TunnelTarget tid
      in case ListZoneIDs tc w of
           (Inl err, w1) \<Rightarrow> (([], Some (''Failed to list zone IDs: '' @ errMsg tt err)), w1)
         | (Inr zids, w1) \<Rightarrow>
             (case listActualLoop tt tc target zids [] w1 of
                (Inl e, w2) \<Rightarrow> (([], Some e), w2)
              | (Inr actual, w2) \<Rightarrow>
                  if \<not> dnsEnabled dns then deleteAllLoop tt tc actual [] w2
                  else
                    (case computeDesiredDNSHostnames tt tc dns routeHostnames w2 of
                       (Inl e, w3) \<Rightarrow> (([], Some e), w3)
                     | (Inr desired, w3) \<Rightarrow>
                         (case createLoop tt tc target (fst ` set actual) (ord desired) [] w3 of
                            ((changes, Some e), w4) \<Rightarrow> ((changes, Some e), w4)
                          | ((changes, None), w4) \<Rightarrow>
                              deleteStaleLoop tt tc desired actual changes w4))))"

section \<open>Lemmas on the desired hostnames\<close>

text \<open>The hostnames that a list of zones admits.\<close>

definition inSomeZone :: "string list \<Rightarrow> string \<Rightarrow> bool" where
  "inSomeZone zs h \<longleftrightarrow> (\<exists>z\<in>set zs. hostnameInZone h z)"

lemma dom_zoneMatchLoop:
  "dom (map_of (zoneMatchLoop zoneMap h zs d)) =
     dom (map_of d) \<union> (if inSomeZone zs h then {h} else {})"
  by (induction zoneMap h zs d rule: zoneMatchLoop.induct)
     (auto simp: inSomeZone_def update_conv' split: if_splits)

lemma dom_desiredZonesLoop:
  "dom (map_of (desiredZonesLoop zoneMap zs hs d)) = dom (map_of d) \<union> {h \<in> set hs. inSomeZone zs h}"
  by (induction zoneMap zs hs d rule: desiredZonesLoop.induct) (auto simp: dom_zoneMatchLoop)

text \<open>Every value of a desired map is the zone of one of the configured zone names.\<close>

lemma map_of_update: "map_of (AList.update k v xs) = (map_of xs)(k \<mapsto> v)"
  by (simp add: update_conv')

lemma zoneMatchLoop_value:
  "map_of (zoneMatchLoop zoneMap h zs d) h' = Some zid \<Longrightarrow>
   map_of d h' = Some zid \<or>
   (h' = h \<and> (\<exists>z\<in>set zs. hostnameInZone h z \<and>
                zid = (case map_of zoneMap z of None \<Rightarrow> [] | Some i \<Rightarrow> i)))"
proof (induction zoneMap h zs d rule: zoneMatchLoop.induct)
  case (2 zoneMap h z zs d)
  let ?v = "case map_of zoneMap z of None \<Rightarrow> [] | Some i \<Rightarrow> i"
  show ?case
  proof (cases "hostnameInZone h z")
    case True
    then show ?thesis
      using "2.IH" "2.prems" by (cases "h' = h") (auto simp: map_of_update)
  next
    case False
    then show ?thesis using "2.IH" "2.prems" by auto
  qed
qed simp

lemma desiredZonesLoop_value:
  "map_of (desiredZonesLoop zoneMap zs hs d) h = Some zid \<Longrightarrow>
   map_of d h = Some zid \<or>
   (h \<in> set hs \<and> (\<exists>z\<in>set zs. hostnameInZone h z \<and>
                zid = (case map_of zoneMap z of None \<Rightarrow> [] | Some i \<Rightarrow> i)))"
proof (induction zoneMap zs hs d rule: desiredZonesLoop.induct)
  case (2 zoneMap zs h' hs d)
  then show ?case using zoneMatchLoop_value [of zoneMap h' zs d h zid] by auto
qed simp

lemma distinct_zoneMatchLoop:
  "distinct (map fst d) \<Longrightarrow> distinct (map fst (zoneMatchLoop zoneMap h zs d))"
  by (induction zoneMap h zs d rule: zoneMatchLoop.induct) (auto simp: distinct_update)

lemma distinct_desiredZonesLoop:
  "distinct (map fst d) \<Longrightarrow> distinct (map fst (desiredZonesLoop zoneMap zs hs d))"
  by (induction zoneMap zs hs d rule: desiredZonesLoop.induct) (auto simp: distinct_zoneMatchLoop)

lemma distinct_desiredAllLoop:
  "desiredAllLoop tc hs d w = (d', w') \<Longrightarrow> distinct (map fst d) \<Longrightarrow> distinct (map fst d')"
  by (induction tc hs d w rule: desiredAllLoop.induct)
     (auto simp: distinct_update split: prod.splits sum.splits)

text \<open>The zone a desired hostname gets, as a function of the account's zones.\<close>

definition desiredZone :: "zone list \<Rightarrow> dnsPolicy \<Rightarrow> string \<Rightarrow> string \<Rightarrow> bool" where
  "desiredZone zs dns h zid \<longleftrightarrow>
     (if allZones dns then bestZone zs h = Some zid
      else \<exists>z\<in>set (dnsZones dns). hostnameInZone h z \<and> bestZone zs z = Some zid)"

lemma desiredZone_unique: "desiredZone zs dns h i \<Longrightarrow> desiredZone zs dns h j \<Longrightarrow> i = j"
  by (auto simp: desiredZone_def dest: hostnameInZone_inj split: if_splits)

lemma bestZone_ID: "bestZone zs h = Some zid \<Longrightarrow> zid \<in> zoneID ` set zs"
  using bestZone_Some by fastforce

lemma desiredZone_ID: "desiredZone zs dns h zid \<Longrightarrow> zid \<in> zoneID ` set zs"
  by (auto simp: desiredZone_def dest: bestZone_ID split: if_splits)

lemma createLoop_none:
  "\<forall>(h, z)\<in>set ds. h \<in> act \<Longrightarrow> createLoop tt tc t act ds ch w = ((ch, None), w)"
  by (induction tt tc t act ds ch w rule: createLoop.induct) auto

lemma deleteStaleLoop_none:
  "\<forall>(h, z)\<in>set rs. map_of ds h \<noteq> None \<Longrightarrow> deleteStaleLoop tt tc ds rs ch w = ((ch, None), w)"
  by (induction tt tc ds rs ch w rule: deleteStaleLoop.induct) auto

text \<open>A CNAME target that another Gateway, indexed under it, holds.\<close>

definition foreignTarget ::
  "(string \<Rightarrow> gateway set) \<Rightarrow> gateway \<Rightarrow> string \<Rightarrow> string option \<Rightarrow> bool" where
  "foreignTarget G gw current r \<longleftrightarrow>
     (case r of None \<Rightarrow> False
      | Some t \<Rightarrow> t \<noteq> [] \<and> t \<noteq> current \<and>
          (\<exists>g\<in>G t. (gwNamespace g, gwName g) \<noteq> (gwNamespace gw, gwName gw)))"

section \<open>The reconciliation on the contract of the client\<close>

context dns_zones
begin

lemma desiredAllLoop_law:
  assumes "Inv w" "desiredAllLoop tc hs d w = (d', w')"
  shows "Inv w' \<and> recs w' = recs w \<and> (\<forall>h z. map_of d' h = Some z \<longrightarrow>
           map_of d h = Some z \<or> (h \<in> set hs \<and> bestZone zs h = Some z))"
  using assms
proof (induction hs arbitrary: d w)
  case (Cons h hs)
  obtain r v where f: "FindZoneIDByHostname tc h w = (r, v)"
    by (rule prod.exhaust)
  have v: "Inv v" "recs v = recs w" "\<forall>z. r = Inr z \<longrightarrow> bestZone zs h = Some z"
    using find_law [OF Cons.prems(1) f] by auto
  show ?case
  proof (cases r)
    case (Inl e)
    then have "desiredAllLoop tc hs d v = (d', w')" using Cons.prems(2) f by simp
    from Cons.IH [OF v(1) this] v show ?thesis by auto
  next
    case (Inr zid)
    then have "desiredAllLoop tc hs (AList.update h zid d) v = (d', w')" using Cons.prems(2) f by simp
    from Cons.IH [OF v(1) this] v Inr show ?thesis by (auto simp: map_of_update split: if_splits)
  qed
qed simp

lemma zoneMapLoop_law:
  assumes "Inv w" "zoneMapLoop tt tc names zm w = (r, w')"
  shows "Inv w' \<and> recs w' = recs w \<and> (\<forall>zm'. r = Inr zm' \<longrightarrow>
      dom (map_of zm') = dom (map_of zm) \<union> set names \<and>
      (\<forall>z i. map_of zm' z = Some i \<longrightarrow> map_of zm z = Some i \<or> bestZone zs z = Some i))"
  using assms
proof (induction names arbitrary: zm w)
  case (Cons n names)
  obtain f v where f: "FindZoneIDByHostname tc n w = (f, v)"
    by (rule prod.exhaust)
  have v: "Inv v" "recs v = recs w" "\<forall>z. f = Inr z \<longrightarrow> bestZone zs n = Some z"
    using find_law [OF Cons.prems(1) f] by auto
  show ?case
  proof (cases f)
    case (Inl e)
    then show ?thesis using Cons.prems(2) f v by auto
  next
    case (Inr zid)
    then have "zoneMapLoop tt tc names (AList.update n zid zm) v = (r, w')"
      using Cons.prems(2) f by simp
    from Cons.IH [OF v(1) this] v Inr show ?thesis by (auto simp: map_of_update split: if_splits)
  qed
qed auto

lemma computeDesired_law:
  assumes "Inv w" "computeDesiredDNSHostnames tt tc dns hs w = (r, w')"
  shows "Inv w' \<and> recs w' = recs w \<and> (\<forall>d. r = Inr d \<longrightarrow>
      distinct (map fst d) \<and>
      (\<forall>h z. map_of d h = Some z \<longrightarrow> h \<in> set hs \<and> desiredZone zs dns h z) \<and>
      (\<not> allZones dns \<longrightarrow> dom (map_of d) = {h \<in> set hs. inSomeZone (dnsZones dns) h}))"
proof (cases "allZones dns")
  case True
  obtain d v where d: "desiredAllLoop tc hs [] w = (d, v)"
    by (rule prod.exhaust)
  then show ?thesis
    using True assms(2) desiredAllLoop_law [OF assms(1) d] distinct_desiredAllLoop [OF d]
    by (auto simp: computeDesiredDNSHostnames_def desiredZone_def)
next
  case False
  obtain zr v where z: "zoneMapLoop tt tc (dnsZones dns) [] w = (zr, v)"
    by (rule prod.exhaust)
  have law: "Inv v" "recs v = recs w" "\<forall>zm. zr = Inr zm \<longrightarrow> dom (map_of zm) = set (dnsZones dns) \<and>
      (\<forall>z i. map_of zm z = Some i \<longrightarrow> bestZone zs z = Some i)"
    using zoneMapLoop_law [OF assms(1) z] by auto
  show ?thesis
  proof (cases zr)
    case (Inl e)
    then show ?thesis using False assms(2) z law by (auto simp: computeDesiredDNSHostnames_def)
  next
    case (Inr zm)
    let ?d = "desiredZonesLoop zm (dnsZones dns) hs []"
    have r: "r = Inr ?d" "w' = v" using False assms(2) z Inr by (auto simp: computeDesiredDNSHostnames_def)
    have "h \<in> set hs \<and> desiredZone zs dns h i" if m: "map_of ?d h = Some i" for h i
    proof -
      obtain z where h: "h \<in> set hs" and zn: "z \<in> set (dnsZones dns)" "hostnameInZone h z"
        "i = (case map_of zm z of None \<Rightarrow> [] | Some i \<Rightarrow> i)"
        using desiredZonesLoop_value [OF m] by auto
      then obtain j where "map_of zm z = Some j" using law(3) Inr by blast
      then show ?thesis using h zn law(3) Inr False by (auto simp: desiredZone_def)
    qed
    then show ?thesis
      using r law distinct_desiredZonesLoop [of "[]"] dom_desiredZonesLoop [of zm "dnsZones dns" hs "[]"]
      by auto
  qed
qed

lemma listActualLoop_law:
  assumes "Inv w" "listActualLoop tt tc t ids acc w = (r, w')"
  shows "Inv w' \<and> recs w' = recs w \<and> (\<forall>a. r = Inr a \<longrightarrow>
      set a = set acc \<union> {(h, z). z \<in> set ids \<and> recs w z h = Some t})"
  using assms
proof (induction ids arbitrary: acc w)
  case (Cons i ids)
  obtain l v where l: "ListDNSCNAMEsByTarget tc i t w = (l, v)"
    by (rule prod.exhaust)
  have v: "Inv v" "recs v = recs w" "\<forall>hs. l = Inr hs \<longrightarrow> set hs = {h. recs w i h = Some t}"
    using list_law [OF Cons.prems(1) l] by auto
  show ?case
  proof (cases l)
    case (Inl e)
    then show ?thesis using Cons.prems(2) l v by auto
  next
    case (Inr hs)
    then have "listActualLoop tt tc t ids (acc @ map (\<lambda>h. (h, i)) hs) v = (r, w')"
      using Cons.prems(2) l by simp
    from Cons.IH [OF v(1) this] v Inr show ?thesis by auto
  qed
qed auto

text \<open>
  The effect of a loop of writes that all put the value \<open>x\<close>: entries outside \<open>S\<close> keep their
  value, the others keep it or have \<open>x\<close>, and have \<open>x\<close> if the loop ended without an error.
\<close>

definition written :: "(string \<times> string) set \<Rightarrow> string option \<Rightarrow> bool \<Rightarrow> 'w \<Rightarrow> 'w \<Rightarrow> bool" where
  "written S x done w w' \<longleftrightarrow>
     Inv w' \<and> (\<forall>z h. recs w' z h = recs w z h \<or> ((h, z) \<in> S \<and> recs w' z h = x)) \<and>
     (done \<longrightarrow> (\<forall>(h, z)\<in>S. recs w' z h = x))"

lemma written_refl: "Inv w \<Longrightarrow> written {} x d w w"
  by (simp add: written_def)

lemma written_step:
  assumes "written S x d v w'" "Inv v" "recs v = setRec (recs w) z h x"
  shows "written (insert (h, z) S) x d w w'"
proof -
  have eq: "recs v z' h' = (if z' = z \<and> h' = h then x else recs w z' h')" for z' h'
    using assms(3) by (simp add: setRec_apply)
  have keep: "recs w' z' h' = recs v z' h' \<or> ((h', z') \<in> S \<and> recs w' z' h' = x)" for z' h'
    using assms(1) unfolding written_def by blast
  have "recs w' z' h' = recs w z' h' \<or> ((h', z') \<in> insert (h, z) S \<and> recs w' z' h' = x)" for z' h'
    using keep [of z' h'] eq [of z' h'] by (auto split: if_splits)
  moreover have "recs w' z h = x"
    using keep [of z h] eq [of z h] by auto
  ultimately show ?thesis using assms(1) unfolding written_def by blast
qed

lemma written_stop:
  assumes "Inv v" "recs v = recs w \<or> recs v = setRec (recs w) z h x"
  shows "written (insert (h, z) S) x False w v"
  using assms by (auto simp: written_def setRec_apply split: if_splits)

lemma deleteAllLoop_law:
  assumes "Inv w" "deleteAllLoop tt tc rs ch w = ((ch', e), w')"
  shows "written (set rs) None (e = None) w w'"
  using assms
proof (induction rs arbitrary: ch w)
  case (Cons r rs)
  obtain h z where r: "r = (h, z)" by (cases r)
  obtain d v where d: "DeleteDNSCNAME tc z h w = (d, v)"
    by (rule prod.exhaust)
  note law = delete_law [OF Cons.prems(1) d]
  show ?case
  proof (cases d)
    case None
    then have "deleteAllLoop tt tc rs (ch @ [''deleted DNS CNAME for '' @ h]) v = ((ch', e), w')"
      using Cons.prems(2) d r by simp
    then show ?thesis using Cons.IH law None r by (auto intro: written_step)
  next
    case (Some err)
    then show ?thesis using Cons.prems(2) d r law written_stop [of v w z h None "set rs"] by auto
  qed
qed (simp add: written_refl)

lemma createLoop_law:
  assumes "Inv w" "createLoop tt tc t act ds ch w = ((ch', e), w')"
  shows "written {(h, z) \<in> set ds. h \<notin> act} (Some t) (e = None) w w'"
  using assms
proof (induction ds arbitrary: ch w)
  case Nil
  then show ?case by (simp add: written_refl)
next
  case (Cons r ds)
  obtain h z where r: "r = (h, z)" by (cases r)
  obtain d v where d: "EnsureDNSCNAME tc z h t w = (d, v)"
    by (rule prod.exhaust)
  note law = ensure_law [OF Cons.prems(1) d]
  have split: "{(h, z) \<in> set (r # ds). h \<notin> act} =
      (if h \<in> act then {} else {(h, z)}) \<union> {(h, z) \<in> set ds. h \<notin> act}"
    by (auto simp: r)
  show ?case
  proof (cases "h \<in> act")
    case True
    then show ?thesis unfolding split using Cons r by simp
  next
    case False
    show ?thesis
    proof (cases d)
      case None
      then have "createLoop tt tc t act ds (ch @ [''created DNS CNAME for '' @ h]) v = ((ch', e), w')"
        using Cons.prems(2) d r False by simp
      then show ?thesis unfolding split using Cons.IH law None False by (auto intro: written_step)
    next
      case (Some err)
      then show ?thesis
        unfolding split using Cons.prems(2) d r law False
          written_stop [of v w z h "Some t" "{(h, z) \<in> set ds. h \<notin> act}"] by auto
    qed
  qed
qed

lemma deleteStaleLoop_law:
  assumes "Inv w" "deleteStaleLoop tt tc ds rs ch w = ((ch', e), w')"
  shows "written {(h, z) \<in> set rs. map_of ds h = None} None (e = None) w w'"
  using assms
proof (induction rs arbitrary: ch w)
  case Nil
  then show ?case by (simp add: written_refl)
next
  case (Cons r rs)
  obtain h z where r: "r = (h, z)" by (cases r)
  obtain d v where d: "DeleteDNSCNAME tc z h w = (d, v)"
    by (rule prod.exhaust)
  note law = delete_law [OF Cons.prems(1) d]
  let ?S = "\<lambda>rs. {(h, z) \<in> set rs. map_of ds h = None}"
  have split: "?S (r # rs) = (if map_of ds h = None then {(h, z)} else {}) \<union> ?S rs"
    by (auto simp: r)
  show ?case
  proof (cases "map_of ds h = None")
    case False
    then obtain y where "map_of ds h = Some y" by blast
    then show ?thesis unfolding split using Cons r by simp
  next
    case True
    show ?thesis
    proof (cases d)
      case None
      then have "deleteStaleLoop tt tc ds rs (ch @ [''deleted DNS CNAME for '' @ h]) v = ((ch', e), w')"
        using Cons.prems(2) d r True by simp
      then show ?thesis unfolding split using Cons.IH law None True by (auto intro: written_step)
    next
      case (Some err)
      then show ?thesis
        unfolding split using Cons.prems(2) d r law True written_stop [of v w z h None "?S rs"] by auto
    qed
  qed
qed

text \<open>The runs of the reconciliation, by where they end.\<close>

definition pointing :: "'w \<Rightarrow> string \<Rightarrow> (string \<times> string) set" where
  "pointing w t = {(h, z). z \<in> zoneID ` set zs \<and> recs w z h = Some t}"

definition goodDesired :: "dnsPolicy \<Rightarrow> string list \<Rightarrow> desired \<Rightarrow> bool" where
  "goodDesired dns hs d \<longleftrightarrow> distinct (map fst d) \<and>
     (\<forall>h z. map_of d h = Some z \<longrightarrow> h \<in> set hs \<and> desiredZone zs dns h z) \<and>
     (\<not> allZones dns \<longrightarrow> dom (map_of d) = {h \<in> set hs. inSomeZone (dnsZones dns) h})"

lemma reconcileDNS_runs:
  assumes "Inv w" "reconcileDNS tt ord tc tid dns hs w = ((ch, e), w')" "\<forall>d. set (ord d) = set d"
  defines "A \<equiv> pointing w (TunnelTarget tid)"
  obtains (failed) "e \<noteq> None" "Inv w'" "recs w' = recs w"
    | (disabled) v where "\<not> dnsEnabled dns" "recs v = recs w" "written A None (e = None) v w'"
    | (create) d v where "dnsEnabled dns" "goodDesired dns hs d" "recs v = recs w" "e \<noteq> None"
        "written {(h, z) \<in> set d. h \<notin> fst ` A} (Some (TunnelTarget tid)) False v w'"
    | (delete) d v u where "dnsEnabled dns" "goodDesired dns hs d" "recs v = recs w"
        "written {(h, z) \<in> set d. h \<notin> fst ` A} (Some (TunnelTarget tid)) True v u"
        "written {(h, z) \<in> A. map_of d h = None} None (e = None) u w'"
proof -
  let ?t = "TunnelTarget tid"
  obtain l w1 where l: "ListZoneIDs tc w = (l, w1)" by (rule prod.exhaust)
  have 1: "Inv w1" "recs w1 = recs w" "\<forall>ids. l = Inr ids \<longrightarrow> set ids = zoneID ` set zs"
    using zones_law [OF assms(1) l] by auto
  show thesis
  proof (cases l)
    case (Inl err)
    then show thesis using assms(2) l 1 by (intro failed) (auto simp: reconcileDNS_def Let_def)
  next
    case ids: (Inr ids)
    obtain a w2 where a: "listActualLoop tt tc ?t ids [] w1 = (a, w2)" by (rule prod.exhaust)
    have 2: "Inv w2" "recs w2 = recs w" "\<forall>x. a = Inr x \<longrightarrow> set x = A"
      using listActualLoop_law [OF 1(1) a] 1 ids by (auto simp: A_def pointing_def)
    show thesis
    proof (cases a)
      case (Inl err)
      then show thesis
        using assms(2) l ids a 2 by (intro failed) (auto simp: reconcileDNS_def Let_def)
    next
      case act: (Inr act)
      show thesis
      proof (cases "dnsEnabled dns")
        case False
        then have "deleteAllLoop tt tc act [] w2 = ((ch, e), w')"
          using assms(2) l ids a act by (simp add: reconcileDNS_def Let_def)
        from deleteAllLoop_law [OF 2(1) this] show thesis
          using 2 act False by (intro disabled [of w2]) auto
      next
        case True
        obtain c w3 where c: "computeDesiredDNSHostnames tt tc dns hs w2 = (c, w3)"
          by (rule prod.exhaust)
        have 3: "Inv w3" "recs w3 = recs w" "\<forall>d. c = Inr d \<longrightarrow> goodDesired dns hs d"
          using computeDesired_law [OF 2(1) c] 2 by (auto simp: goodDesired_def)
        show thesis
        proof (cases c)
          case (Inl err)
          then show thesis using assms(2) l ids a act True c 3
            by (intro failed) (auto simp: reconcileDNS_def Let_def)
        next
          case des: (Inr d)
          obtain ch4 e4 w4 where cr: "createLoop tt tc ?t (fst ` set act) (ord d) [] w3 = ((ch4, e4), w4)"
            by (metis prod.exhaust)
          have w4: "written {(h, z) \<in> set d. h \<notin> fst ` A} (Some ?t) (e4 = None) w3 w4"
            using createLoop_law [OF 3(1) cr] 2(3) act assms(3) by simp
          show thesis
          proof (cases e4)
            case (Some err)
            then have "e = Some err" "w' = w4"
              using assms(2) l ids a act True c des cr by (auto simp: reconcileDNS_def Let_def)
            then show thesis using create [OF True _ 3(2)] 3(3) des w4 Some by auto
          next
            case None
            then have "deleteStaleLoop tt tc d act ch4 w4 = ((ch, e), w')"
              using assms(2) l ids a act True c des cr by (auto simp: reconcileDNS_def Let_def)
            moreover have "Inv w4" using w4 by (simp add: written_def)
            ultimately show thesis
              using deleteStaleLoop_law [of w4] delete [OF True _ 3(2)] 3(3) des w4 None 2(3) act
              by auto
          qed
        qed
      qed
    qed
  qed
qed

lemma goodDesired_mem: "goodDesired dns hs d \<Longrightarrow> (h, z) \<in> set d \<longleftrightarrow> map_of d h = Some z"
  unfolding goodDesired_def by (metis map_of_eq_Some_iff)

lemma goodDesired_zone:
  "goodDesired dns hs d \<Longrightarrow> map_of d h = Some z \<Longrightarrow>
     h \<in> set hs \<and> desiredZone zs dns h z \<and> z \<in> zoneID ` set zs"
  unfolding goodDesired_def using desiredZone_ID by blast

lemma written_at: "written S x d w w' \<Longrightarrow> recs w' z h = recs w z h \<or> ((h, z) \<in> S \<and> recs w' z h = x)"
  by (simp add: written_def)

lemma written_done: "written S x True w w' \<Longrightarrow> (h, z) \<in> S \<Longrightarrow> recs w' z h = x"
  by (auto simp: written_def)

lemma reconcileDNS_Inv:
  assumes "Inv w" "reconcileDNS tt ord tc tid dns hs w = ((ch, e), w')" "\<forall>d. set (ord d) = set d"
  shows "Inv w'"
  by (rule reconcileDNS_runs [OF assms]) (simp_all add: written_def)

text \<open>
  Whatever the outcome, a record changes only from the tunnel's target to absent, or to the
  target for a desired hostname that no zone has pointing to it.
\<close>

lemma reconcileDNS_changes:
  assumes "Inv w" "reconcileDNS tt ord tc tid dns hs w = ((ch, e), w')" "\<forall>d. set (ord d) = set d"
    and "recs w' z h \<noteq> recs w z h"
  shows "z \<in> zoneID ` set zs \<and>
    ((recs w z h = Some (TunnelTarget tid) \<and> recs w' z h = None) \<or>
     (recs w' z h = Some (TunnelTarget tid) \<and> dnsEnabled dns \<and> h \<in> set hs \<and> desiredZone zs dns h z
      \<and> (\<forall>z'\<in>zoneID ` set zs. recs w z' h \<noteq> Some (TunnelTarget tid))))"
proof -
  let ?t = "TunnelTarget tid"
  have mem: "(h, z) \<in> pointing w ?t \<longleftrightarrow> z \<in> zoneID ` set zs \<and> recs w z h = Some ?t" for h z
    by (auto simp: pointing_def)
  have host: "h \<notin> fst ` pointing w ?t \<longleftrightarrow> (\<forall>z'\<in>zoneID ` set zs. recs w z' h \<noteq> Some ?t)" for h
    by (force simp: pointing_def)
  show ?thesis
  proof (rule reconcileDNS_runs [OF assms(1-3)])
    assume "recs w' = recs w"
    then show ?thesis using assms(4) by simp
  next
    fix v assume "recs v = recs w" "written (pointing w ?t) None (e = None) v w'"
    from written_at [OF this(2), of z h] this(1) show ?thesis using assms(4) mem by auto
  next
    fix d v assume "dnsEnabled dns" "goodDesired dns hs d" "recs v = recs w"
      "written {(h, z) \<in> set d. h \<notin> fst ` pointing w ?t} (Some ?t) False v w'"
    with written_at [OF this(4), of z h] assms(4) show ?thesis
      using goodDesired_mem goodDesired_zone host by fastforce
  next
    fix d v u assume good: "dnsEnabled dns" "goodDesired dns hs d" and v: "recs v = recs w"
      and c: "written {(h, z) \<in> set d. h \<notin> fst ` pointing w ?t} (Some ?t) True v u"
      and s: "written {(h, z) \<in> pointing w ?t. map_of d h = None} None (e = None) u w'"
    show ?thesis
    proof (cases "recs w' z h = recs u z h")
      case True
      then show ?thesis using written_at [OF c, of z h] assms(4) good v
          goodDesired_mem goodDesired_zone host by fastforce
    next
      case False
      then show ?thesis using written_at [OF s, of z h] mem by auto
    qed
  qed
qed

text \<open>Without an error, the records pointing to the tunnel are those of desired hostnames.\<close>

lemma reconcileDNS_converged:
  assumes "Inv w" "reconcileDNS tt ord tc tid dns hs w = ((ch, None), w')" "\<forall>d. set (ord d) = set d"
    and "z \<in> zoneID ` set zs" "recs w' z h = Some (TunnelTarget tid)"
  shows "dnsEnabled dns \<and> h \<in> set hs \<and> (\<exists>i. desiredZone zs dns h i)"
proof -
  let ?t = "TunnelTarget tid"
  have mem: "(h, z) \<in> pointing w ?t \<longleftrightarrow> recs w z h = Some ?t"
    using assms(4) by (auto simp: pointing_def)
  show ?thesis
  proof (rule reconcileDNS_runs [OF assms(1-3)])
    fix v assume v: "recs v = recs w" and wr: "written (pointing w ?t) None (None = None) v w'"
    have "recs w z h = Some ?t" using written_at [OF wr, of z h] v assms(5) by simp
    then have "recs w' z h = None" using written_done [of _ None v w' h z] wr mem by simp
    then show ?thesis using assms(5) by simp
  next
    fix d v u assume good: "dnsEnabled dns" "goodDesired dns hs d" and v: "recs v = recs w"
      and c: "written {(h, z) \<in> set d. h \<notin> fst ` pointing w ?t} (Some ?t) True v u"
      and s: "written {(h, z) \<in> pointing w ?t. map_of d h = None} None (None = None) u w'"
    have u: "recs u z h = Some ?t" using written_at [OF s, of z h] assms(5) by auto
    have "map_of d h \<noteq> None"
    proof
      assume "map_of d h = None"
      then have "recs w z h = Some ?t"
        using written_at [OF c, of z h] u v goodDesired_mem [OF good(2)] by auto
      then have "recs w' z h = None"
        using written_done [of _ None u w' h z] s mem \<open>map_of d h = None\<close> by auto
      then show False using assms(5) by simp
    qed
    then show ?thesis using good goodDesired_zone by blast
  qed simp_all
qed

text \<open>With configured zones, every hostname in one of them has its record.\<close>

lemma reconcileDNS_served:
  assumes "Inv w" "reconcileDNS tt ord tc tid dns hs w = ((ch, None), w')" "\<forall>d. set (ord d) = set d"
    and "dnsEnabled dns" "dnsZones dns \<noteq> []" "h \<in> set hs" "inSomeZone (dnsZones dns) h"
  shows "\<exists>z\<in>zoneID ` set zs. recs w' z h = Some (TunnelTarget tid)"
proof -
  let ?t = "TunnelTarget tid"
  show ?thesis
  proof (rule reconcileDNS_runs [OF assms(1-3)])
    fix d v u assume good: "goodDesired dns hs d" and v: "recs v = recs w"
      and c: "written {(h, z) \<in> set d. h \<notin> fst ` pointing w ?t} (Some ?t) True v u"
      and s: "written {(h, z) \<in> pointing w ?t. map_of d h = None} None (None = None) u w'"
    have "\<not> allZones dns" using assms(5) by (simp add: allZones_def)
    then obtain z where z: "map_of d h = Some z"
      using good assms(6,7) unfolding goodDesired_def by blast
    have keep: "recs w' z' h = recs u z' h" for z'
      using written_at [OF s, of z' h] z by auto
    show ?thesis
    proof (cases "h \<in> fst ` pointing w ?t")
      case True
      then have "\<exists>z'\<in>zoneID ` set zs. recs w z' h = Some ?t" by (auto simp: pointing_def)
      then obtain z' where "z' \<in> zoneID ` set zs" "recs w z' h = Some ?t" by (rule bexE)
      then show ?thesis using written_at [OF c, of z' h] keep v by auto
    next
      case False
      then have "recs u z h = Some ?t"
        using written_done [OF c, of h z] z goodDesired_mem [OF good] by simp
      then show ?thesis using keep goodDesired_zone [OF good z] by auto
    qed
  qed (use assms(4) in auto)
qed

text \<open>A reconciliation that finds the records as they should be changes and reports nothing.\<close>

lemma reconcileDNS_quiet:
  assumes "Inv w" "reconcileDNS tt ord tc tid dns hs w = ((ch, e), w')" "\<forall>d. set (ord d) = set d"
    and "if dnsEnabled dns
         then dnsZones dns \<noteq> [] \<and>
              fst ` pointing w (TunnelTarget tid) = {h \<in> set hs. inSomeZone (dnsZones dns) h}
         else pointing w (TunnelTarget tid) = {}"
  shows "ch = [] \<and> recs w' = recs w"
proof -
  let ?t = "TunnelTarget tid"
  obtain l w1 where l: "ListZoneIDs tc w = (l, w1)" by (rule prod.exhaust)
  have 1: "Inv w1" "recs w1 = recs w" "\<forall>ids. l = Inr ids \<longrightarrow> set ids = zoneID ` set zs"
    using zones_law [OF assms(1) l] by auto
  show ?thesis
  proof (cases l)
    case (Inl err)
    then show ?thesis using assms(2) l 1 by (auto simp: reconcileDNS_def Let_def)
  next
    case ids: (Inr ids)
    obtain a w2 where a: "listActualLoop tt tc ?t ids [] w1 = (a, w2)" by (rule prod.exhaust)
    have 2: "Inv w2" "recs w2 = recs w" "\<forall>x. a = Inr x \<longrightarrow> set x = pointing w ?t"
      using listActualLoop_law [OF 1(1) a] 1 ids by (auto simp: pointing_def)
    show ?thesis
    proof (cases a)
      case (Inl err)
      then show ?thesis using assms(2) l ids a 2 by (auto simp: reconcileDNS_def Let_def)
    next
      case act: (Inr act)
      show ?thesis
      proof (cases "dnsEnabled dns")
        case False
        then show ?thesis
          using assms(2,4) l ids a act 2 by (auto simp: reconcileDNS_def Let_def)
      next
        case True
        have host: "fst ` set act = {h \<in> set hs. inSomeZone (dnsZones dns) h}" "\<not> allZones dns"
          using assms(4) True 2(3) act by (auto simp: allZones_def)
        obtain c w3 where c: "computeDesiredDNSHostnames tt tc dns hs w2 = (c, w3)"
          by (rule prod.exhaust)
        have 3: "recs w3 = recs w" "\<forall>d. c = Inr d \<longrightarrow> dom (map_of d) = fst ` set act"
          using computeDesired_law [OF 2(1) c] 2(2) host by auto
        show ?thesis
        proof (cases c)
          case (Inl err)
          then show ?thesis using assms(2) l ids a act True c 3
            by (auto simp: reconcileDNS_def Let_def)
        next
          case des: (Inr d)
          have "\<forall>(h, z)\<in>set (ord d). h \<in> fst ` set act"
            using 3(2) des assms(3) by (force simp: dom_map_of_conv_image_fst)
          moreover have "\<forall>(h, z)\<in>set act. map_of d h \<noteq> None"
            using 3(2) des by (force simp: dom_def)
          ultimately show ?thesis
            using assms(2) l ids a act True c des 3(1)
            by (simp add: reconcileDNS_def Let_def createLoop_none deleteStaleLoop_none)
        qed
      qed
    qed
  qed
qed

lemma reconcileDNS_stable:
  assumes "Inv w" "reconcileDNS tt ord tc tid dns hs w = ((ch, None), w')" "\<forall>d. set (ord d) = set d"
    and "dnsEnabled dns \<longrightarrow> dnsZones dns \<noteq> []"
    and "Inv v" "recs v = recs w'" "reconcileDNS tt ord' tc tid dns hs v = ((ch', e'), v')"
    and "\<forall>d. set (ord' d) = set d"
  shows "ch' = [] \<and> recs v' = recs v"
proof (rule reconcileDNS_quiet [OF assms(5,7,8)])
  have hosts: "h \<in> fst ` pointing v (TunnelTarget tid) \<longleftrightarrow>
      (\<exists>z\<in>zoneID ` set zs. recs w' z h = Some (TunnelTarget tid))" for h
    using assms(6) by (force simp: pointing_def)
  show "if dnsEnabled dns
        then dnsZones dns \<noteq> [] \<and>
             fst ` pointing v (TunnelTarget tid) = {h \<in> set hs. inSomeZone (dnsZones dns) h}
        else pointing v (TunnelTarget tid) = {}"
  proof (cases "dnsEnabled dns")
    case True
    then have "desiredZone zs dns h i \<Longrightarrow> inSomeZone (dnsZones dns) h" for h i
      using assms(4) by (auto simp: desiredZone_def allZones_def inSomeZone_def)
    then have "h \<in> fst ` pointing v (TunnelTarget tid) \<longleftrightarrow> h \<in> set hs \<and> inSomeZone (dnsZones dns) h" for h
      using hosts [of h] reconcileDNS_converged [OF assms(1-3), of _ h]
        reconcileDNS_served [OF assms(1-3) True, of h] assms(4) True by blast
    then show ?thesis using True assms(4) by auto
  next
    case False
    then have "h \<notin> fst ` pointing v (TunnelTarget tid)" for h
      using hosts [of h] reconcileDNS_converged [OF assms(1-3), of _ h] by blast
    then show ?thesis using False by (auto simp: image_iff)
  qed
qed

section \<open>The conflict filter on the contract of the client\<close>

definition readsOnly :: "('w \<Rightarrow> 'a \<times> 'w) \<Rightarrow> bool" where
  "readsOnly f \<longleftrightarrow> (\<forall>w r w'. Inv w \<longrightarrow> f w = (r, w') \<longrightarrow> Inv w' \<and> recs w' = recs w)"

lemma readsOnlyD: "readsOnly f \<Longrightarrow> Inv w \<Longrightarrow> f w = (r, w') \<Longrightarrow> Inv w' \<and> recs w' = recs w"
  by (auto simp: readsOnly_def)

lemma owners_read:
  assumes "\<forall>key. readsOnly (getCM key)"
  shows "readsOnly (findHostnameRouteOwners getCM unmarshal gw h)"
  using assms
  by (fastforce simp: readsOnly_def findHostnameRouteOwners_def getExistingRouteConfig_def Let_def
      split: prod.splits sum.splits option.splits if_splits)

lemma otherGatewaysLoop_law:
  assumes "\<forall>key. readsOnly (getCM key)" "Inv w"
    and "otherGatewaysLoop getCM unmarshal gw h gws owners w = (r, w')"
  shows "Inv w' \<and> recs w' = recs w \<and> (\<forall>os. r = Inr os \<longrightarrow> (os = [] \<longleftrightarrow> owners = [] \<and>
      (\<forall>g\<in>set gws. (gwNamespace g, gwName g) = (gwNamespace gw, gwName gw))))"
  using assms(2,3)
proof (induction gws arbitrary: owners w)
  case (Cons g gws)
  show ?case
  proof (cases "gwNamespace g = gwNamespace gw \<and> gwName g = gwName gw")
    case True
    then show ?thesis using Cons by auto
  next
    case False
    obtain f v where f: "findHostnameRouteOwners getCM unmarshal g h w = (f, v)" by (rule prod.exhaust)
    have v: "Inv v" "recs v = recs w" using readsOnlyD [OF owners_read Cons.prems(1) f] assms(1) by auto
    show ?thesis
    proof (cases f)
      case (Inl e)
      then show ?thesis using Cons.prems(2) f v False by auto
    next
      case (Inr ros)
      then obtain os where "os \<noteq> []" "otherGatewaysLoop getCM unmarshal gw h gws os v = (r, w')"
        using Cons.prems(2) f False by (cases ros) (auto simp: Let_def)
      from Cons.IH [OF v(1) this(2)] this(1) v False show ?thesis by auto
    qed
  qed
qed auto

lemma dnsConflictsLoop_law:
  assumes "\<forall>key. readsOnly (getCM key)" "\<forall>t. readsOnly (listByHost t)"
    and "\<forall>t w gws w'. Inv w \<longrightarrow> listByHost t w = (Inr gws, w') \<longrightarrow> set gws = G t"
    and "Inv w" "dnsConflictsLoop tc listByHost getCM unmarshal gw current ds conf w = (r, w')"
  shows "Inv w' \<and> recs w' = recs w \<and> (\<forall>conf'. r = Inr conf' \<longrightarrow> dom (map_of conf') =
      dom (map_of conf) \<union> {h. \<exists>z. (h, z) \<in> set ds \<and> foreignTarget G gw current (recs w z h)})"
  using assms(4,5)
proof (induction ds arbitrary: conf w)
  case (Cons d ds)
  obtain h z where d: "d = (h, z)" by (cases d)
  obtain g w1 where g: "GetDNSCNAMETarget tc z h w = (g, w1)" by (rule prod.exhaust)
  have 1: "Inv w1" "recs w1 = recs w" "\<forall>x. g = Inr x \<longrightarrow> x = getRec (recs w) z h"
    using get_law [OF Cons.prems(1) g] by auto
  show ?case
  proof (cases g)
    case (Inl e)
    then show ?thesis using Cons.prems(2) d g 1 by auto
  next
    case (Inr x)
    obtain t b where x: "x = (t, b)" by (cases x)
    have rec: "(b \<longleftrightarrow> recs w z h \<noteq> None) \<and> (b \<longrightarrow> recs w z h = Some t)"
      using 1(3) Inr x by (auto simp: getRec_def split: option.splits)
    show ?thesis
    proof (cases "\<not> b \<or> t = [] \<or> t = current")
      case True
      then have run: "dnsConflictsLoop tc listByHost getCM unmarshal gw current ds conf w1 = (r, w')"
        using Cons.prems(2) d g Inr x by auto
      have "\<not> foreignTarget G gw current (recs w z h)"
        using True rec by (auto simp: foreignTarget_def split: option.splits)
      then have "{h. \<exists>z. (h, z) \<in> set (d # ds) \<and> foreignTarget G gw current (recs w z h)} =
          {h. \<exists>z. (h, z) \<in> set ds \<and> foreignTarget G gw current (recs w z h)}"
        using d by auto
      then show ?thesis using Cons.IH [OF 1(1) run] 1(2) by simp
    next
      case False
      obtain l w2 where l: "listByHost t w1 = (l, w2)" by (rule prod.exhaust)
      have 2: "Inv w2" "recs w2 = recs w" using readsOnlyD [where f = "listByHost t", OF _ 1(1) l] assms(2) 1 by auto
      show ?thesis
      proof (cases l)
        case (Inl e)
        then show ?thesis using Cons.prems(2) d g Inr x False l 2 by auto
      next
        case gws: (Inr gws)
        have G: "set gws = G t" using assms(3) 1(1) l gws by blast
        obtain a w3 where a: "otherGatewaysLoop getCM unmarshal gw h gws [] w2 = (a, w3)"
          by (rule prod.exhaust)
        note law = otherGatewaysLoop_law [OF assms(1) 2(1) a]
        show ?thesis
        proof (cases a)
          case (Inl e)
          then show ?thesis using Cons.prems(2) d g Inr x False l gws a law 2 by auto
        next
          case os: (Inr os)
          have foreign: "foreignTarget G gw current (recs w z h) \<longleftrightarrow> os \<noteq> []"
            using law os G rec False by (auto simp: foreignTarget_def)
          obtain conf2 where c2: "dnsConflictsLoop tc listByHost getCM unmarshal gw current ds conf2 w3 = (r, w')"
            "dom (map_of conf2) = dom (map_of conf) \<union> (if os = [] then {} else {h})"
            using Cons.prems(2) d g Inr x False l gws a os
            by (cases "os = []") (auto simp: map_of_update)
          have w3: "Inv w3" "recs w3 = recs w" using law 2 by auto
          have "{h. \<exists>z. (h, z) \<in> set (d # ds) \<and> foreignTarget G gw current (recs w z h)} =
              (if os = [] then {} else {h}) \<union>
              {h. \<exists>z. (h, z) \<in> set ds \<and> foreignTarget G gw current (recs w z h)}"
            using d foreign by auto
          then show ?thesis using Cons.IH [OF w3(1) c2(1)] c2(2) w3(2) by auto
        qed
      qed
    qed
  qed
qed auto

end

lemma filterDNSConflictsLoop_kept:
  "fst (filterDNSConflictsLoop tt kube retry gw now conf rs kept errs w) =
     kept @ filter (\<lambda>r. \<forall>h\<in>set (hostnames r). map_of conf h = None) rs"
proof (induction tt kube retry gw now conf rs kept errs w rule: filterDNSConflictsLoop.induct)
  case (2 tt kube retry gw now conf r rs kept errs w)
  have "List.map_filter (map_of conf) (hostnames r) = [] \<longleftrightarrow> (\<forall>h\<in>set (hostnames r). map_of conf h = None)"
    by (auto simp: map_filter_def filter_empty_conv)
  then show ?case using 2 by (auto simp: Let_def split: prod.splits option.splits)
qed simp

end
