(* ===== verification/DnsTheorems.thy ===== *)
theory DnsTheorems
  imports Dns
begin

text \<open>
  What the DNS reconciliation promises with the production client, the retrying wrapper of
  the client on any SDK that behaves as documented: which records may change, which exist
  afterwards, that a second reconciliation does nothing, and which routes the conflict filter
  keeps.  The last section holds runs on the simulated account that show what a failed zone
  lookup and a moved zone lead to.
\<close>

text \<open>
  C14. Reconciling the records of a tunnel, whatever fails on the way: a record changes only if
  it pointed to this tunnel, and then it is deleted, or if its hostname is desired and no zone
  had it pointing to the tunnel, and then it points to the tunnel in the zone of the policy.
  Without an error, only hostnames of the routes that the policy has a zone for point to the
  tunnel, none if DNS is disabled; and with configured zones all of those do.
\<close>

theorem reconcileDNS_correct:
  assumes "sdk_zones Inv records sdk zs" and "Inv w"
    and "\<forall>d v c v'. Inv v \<longrightarrow> wait d v = (c, v') \<longrightarrow> Inv v' \<and> records v' = records v"
    and "\<forall>d. set (ord d) = set d"
    and "tc = WithRetry tt wait (clientOf sdk acct)"
    and "reconcileDNS tt ord tc tid dns hs w = ((changes, e), w')"
    and "R = cnameTable records w" and "R' = cnameTable records w'"
    and "target = TunnelTarget tid" and "zones = zoneID ` set zs"
  shows "(\<forall>z h. R' z h \<noteq> R z h \<longrightarrow>
           (R z h = Some target \<and> R' z h = None) \<or>
           (R' z h = Some target \<and> dnsEnabled dns \<and> h \<in> set hs \<and> desiredZone zs dns h z \<and>
            (\<forall>z'\<in>zones. R z' h \<noteq> Some target)))
    \<and> (e = None \<longrightarrow> (\<forall>z\<in>zones. \<forall>h. R' z h = Some target \<longrightarrow>
           dnsEnabled dns \<and> h \<in> set hs \<and> (\<exists>i. desiredZone zs dns h i)))
    \<and> (e = None \<and> dnsEnabled dns \<and> dnsZones dns \<noteq> [] \<longrightarrow>
           (\<forall>h\<in>set hs. inSomeZone (dnsZones dns) h \<longrightarrow> (\<exists>z\<in>zones. R' z h = Some target)))"
proof -
  have tc: "dns_zones Inv (cnameTable records) tc zs"
    unfolding assms(5) using assms(1,3) by (rule WithRetry_zones)
  note changes = dns_zones.reconcileDNS_changes [OF tc assms(2,6,4)]
  have ok: "reconcileDNS tt ord tc tid dns hs w = ((changes, None), w')" if "e = None"
    using assms(6) that by simp
  note converged = dns_zones.reconcileDNS_converged [OF tc assms(2) ok assms(4)]
  note served = dns_zones.reconcileDNS_served [OF tc assms(2) ok assms(4)]
  show ?thesis
    unfolding assms(7-10)
  proof (intro conjI allI impI ballI)
    fix z h assume "cnameTable records w' z h \<noteq> cnameTable records w z h"
    from changes [OF this] show "(cnameTable records w z h = Some (TunnelTarget tid) \<and>
          cnameTable records w' z h = None) \<or>
         (cnameTable records w' z h = Some (TunnelTarget tid) \<and> dnsEnabled dns \<and> h \<in> set hs \<and>
          desiredZone zs dns h z \<and>
          (\<forall>z'\<in>zoneID ` set zs. cnameTable records w z' h \<noteq> Some (TunnelTarget tid)))"
      by (rule conjunct2)
  qed (use converged served in blast)+
qed


section \<open>Runs on the simulated account\<close>

definition dnsAccount :: "(string \<times> string \<times> string) list \<Rightarrow> go_error option list \<Rightarrow> account" where
  "dnsAccount rs fs =
     \<lparr>accZones = [\<lparr>zoneID = ''z1'', zoneName = ''b.c''\<rparr>, \<lparr>zoneID = ''z2'', zoneName = ''a.b.c''\<rparr>],
      accRecords = (\<lambda>z. map (\<lambda>(_, h, t). \<lparr>recID = ''id-'' @ h, recName = h, recContent = t\<rparr>)
                          (filter (\<lambda>r. fst r = z) rs)),
      accFaults = fs\<rparr>"

definition bcPolicy :: dnsPolicy where
  "bcPolicy = \<lparr>dnsEnabled = True, dnsZones = [''b.c'']\<rparr>"

definition anyPolicy :: dnsPolicy where
  "anyPolicy = \<lparr>dnsEnabled = True, dnsZones = []\<rparr>"

text \<open>A stale record of the tunnel, one of another tunnel; a transient fault on the way.\<close>

definition staleAccount :: account where
  "staleAccount =
     dnsAccount [(''z1'', ''old.b.c'', ''t.cfargotunnel.com''), (''z1'', ''x.b.c'', ''u.cfargotunnel.com'')]
       [None, Some ErrUnexpectedEOF]"

definition demoAfterDNS :: account where
  "demoAfterDNS =
     snd (reconcileDNS id id demoClient ''t'' bcPolicy [''new.b.c'', ''deep.a.b.c''] staleAccount)"

lemma bcPolicy_simps [simp]: "dnsEnabled bcPolicy" "dnsZones bcPolicy = [''b.c'']"
  by (simp_all add: bcPolicy_def)

lemma demo_zoneIDs [simp]: "zoneID ` set (accZones (dnsAccount [] [])) = {''z1'', ''z2''}"
  by (simp add: dnsAccount_def)

lemma demo_accIn: "accIn (accZones (dnsAccount [] [])) staleAccount"
  by (auto simp: accIn_def accOk_def staleAccount_def dnsAccount_def)

lemma demo_wait:
  "\<forall>d v c v'. accIn zs v \<longrightarrow> simWait d v = (c, v') \<longrightarrow> accIn zs v' \<and> accRecords v' = accRecords v"
  by (simp add: simWait_def)

lemma demo_ord: "\<forall>d :: desired. set (id d) = set d"
  by simp

lemma demoDNS_run:
  "reconcileDNS id id demoClient ''t'' bcPolicy [''new.b.c'', ''deep.a.b.c''] staleAccount =
     (([''created DNS CNAME for new.b.c'', ''deleted DNS CNAME for old.b.c''], None), demoAfterDNS)"
proof -
  have "fst (reconcileDNS id id demoClient ''t'' bcPolicy [''new.b.c'', ''deep.a.b.c''] staleAccount) =
      ([''created DNS CNAME for new.b.c'', ''deleted DNS CNAME for old.b.c''], None)"
    by code_simp
  then show ?thesis by (simp add: prod_eq_iff demoAfterDNS_def)
qed

theorem reconcileDNS_correct_witness:
  "(\<exists>z\<in>{''z1'', ''z2''}. cnameTable accRecords demoAfterDNS z ''new.b.c'' = Some ''t.cfargotunnel.com'')
   \<and> cnameTable accRecords demoAfterDNS ''z1'' ''x.b.c'' = Some ''u.cfargotunnel.com''"
proof -
  note result = reconcileDNS_correct [OF simz.sdk_zones_axioms demo_accIn demo_wait demo_ord
      demoClient_def demoDNS_run refl refl refl refl]
  have "inSomeZone (dnsZones bcPolicy) ''new.b.c''" by code_simp
  then have "\<exists>z\<in>{''z1'', ''z2''}. cnameTable accRecords demoAfterDNS z ''new.b.c'' = Some (TunnelTarget ''t'')"
    using result [THEN conjunct2, THEN conjunct2] by simp
  moreover have old: "cnameTable accRecords staleAccount ''z1'' ''x.b.c'' = Some ''u.cfargotunnel.com''"
    by code_simp
  then have "cnameTable accRecords demoAfterDNS ''z1'' ''x.b.c'' =
      cnameTable accRecords staleAccount ''z1'' ''x.b.c''"
    using result [THEN conjunct1, rule_format, of "''z1''" "''x.b.c''"] by (auto simp: TunnelTarget_def)
  ultimately show ?thesis using old by (simp add: TunnelTarget_def)
qed


section \<open>Conflicts with other Gateways\<close>

text \<open>
  C16. The filter on managed hostnames keeps exactly the routes none of whose desired hostnames
  has a CNAME that points, in its zone, to a tunnel host under which another Gateway is
  indexed; an absent or empty CNAME, the Gateway's own tunnel and targets of no known Gateway
  are free.  With configured zones, the desired hostnames are those in one of the zones.
\<close>

theorem dns_conflicts_exact:
  assumes "sdk_zones Inv records sdk zs" and "Inv w"
    and "\<forall>d v c v'. Inv v \<longrightarrow> wait d v = (c, v') \<longrightarrow> Inv v' \<and> records v' = records v"
    and "\<forall>key v r v'. Inv v \<longrightarrow> getCM key v = (r, v') \<longrightarrow> Inv v' \<and> records v' = records v"
    and "\<forall>t v r v'. Inv v \<longrightarrow> listByHost t v = (r, v') \<longrightarrow>
           Inv v' \<and> records v' = records v \<and> (\<forall>gws. r = Inr gws \<longrightarrow> set gws = G t)"
    and "\<forall>d. set (ord d) = set d"
    and "tc = WithRetry tt wait (clientOf sdk acct)" and "dnsEnabled dns"
    and "computeDesiredDNSHostnames tt tc dns (concat (map hostnames routes)) w = (Inr desired, w1)"
    and "filterManagedDNSHostnameConflicts tt ord kube retry tc listByHost getCM unmarshal gw now tid
           dns routes w = (Inr (kept, errs), w')"
    and "R = cnameTable records w"
  shows "kept = filter (\<lambda>r. \<forall>h\<in>set (hostnames r). \<forall>z. map_of desired h = Some z \<longrightarrow>
            \<not> foreignTarget G gw (TunnelTarget tid) (R z h)) routes
    \<and> (dnsZones dns \<noteq> [] \<longrightarrow>
         dom (map_of desired) = {h \<in> set (concat (map hostnames routes)). inSomeZone (dnsZones dns) h})"
proof -
  let ?recs = "cnameTable records"
  have tc: "dns_zones Inv ?recs tc zs"
    unfolding assms(7) using assms(1,3) by (rule WithRetry_zones)
  have cong: "?recs v' = ?recs v" if "records v' = records v" for v v'
    using that by (simp add: cnameTable_def fun_eq_iff)
  have reads: "\<forall>key. dns_zones.readsOnly Inv ?recs (getCM key)"
    "\<forall>t. dns_zones.readsOnly Inv ?recs (listByHost t)"
    unfolding dns_zones.readsOnly_def [OF tc] using assms(4,5) cong by blast+
  have G: "\<forall>t v gws v'. Inv v \<longrightarrow> listByHost t v = (Inr gws, v') \<longrightarrow> set gws = G t"
    using assms(5) by blast
  have w1: "Inv w1" "?recs w1 = R" and distinct: "distinct (map fst desired)"
    and zones: "\<not> allZones dns \<Longrightarrow>
      dom (map_of desired) = {h \<in> set (concat (map hostnames routes)). inSomeZone (dnsZones dns) h}"
    using dns_zones.computeDesired_law [OF tc assms(2,9)] assms(11) by auto
  obtain c w2 where c: "dnsConflictsLoop tc listByHost getCM unmarshal gw (TunnelTarget tid)
      (ord desired) [] w1 = (c, w2)" by (rule prod.exhaust)
  obtain conf where conf: "c = Inr conf"
    using assms(8-10) c by (cases c)
      (auto simp: filterManagedDNSHostnameConflicts_def findManagedDNSHostnameConflicts_def)
  have dom: "map_of conf h = None \<longleftrightarrow>
      (\<forall>z. map_of desired h = Some z \<longrightarrow> \<not> foreignTarget G gw (TunnelTarget tid) (R z h))" for h
  proof -
    have "dom (map_of conf) = {h. \<exists>z. (h, z) \<in> set (ord desired) \<and>
        foreignTarget G gw (TunnelTarget tid) (?recs w1 z h)}"
      using dns_zones.dnsConflictsLoop_law [OF tc reads G w1(1) c] conf by simp
    also have "\<dots> = {h. \<exists>z. map_of desired h = Some z \<and> foreignTarget G gw (TunnelTarget tid) (R z h)}"
      using assms(6) w1(2) by (simp add: distinct)
    finally show ?thesis by blast
  qed
  have "kept = filter (\<lambda>r. \<forall>h\<in>set (hostnames r). map_of conf h = None) routes"
    using assms(8-10) c conf filterDNSConflictsLoop_kept [of tt kube retry gw now conf routes "[]" "[]" w2]
    by (auto simp: filterManagedDNSHostnameConflicts_def findManagedDNSHostnameConflicts_def
        split: if_splits prod.splits)
  then show ?thesis using zones by (simp add: dom allZones_def)
qed

text \<open>The Gateway of the tunnel \<^verbatim>\<open>u\<close>, and a Kubernetes API on the account's world.\<close>

definition demoByHost :: "string \<Rightarrow> account \<Rightarrow> (go_error + gateway list) \<times> account" where
  "demoByHost t w =
     (Inr (if t = ''u.cfargotunnel.com'' then [namedGateway ''ns'' ''other''] else []), w)"

definition demoNoCM ::
  "namespaced_name \<Rightarrow> account \<Rightarrow> (go_error + (string \<Rightarrow> string option)) \<times> account" where
  "demoNoCM key w = (Inl (ErrKube KNotFound ''configmaps not found''), w)"

definition demoKube :: "account kube" where
  "demoKube =
     \<lparr>kGetRoute = (\<lambda>kind key w. (Inl (ErrKube KNotFound ''route not found''), w)),
      kPatchRouteStatus = (\<lambda>r base w. (None, w)), kEvent = (\<lambda>ev w. w)\<rparr>"

definition demoFilter ::
  "dnsPolicy \<Rightarrow> routeObject list \<Rightarrow> account
     \<Rightarrow> (go_error + routeObject list \<times> string list) \<times> account" where
  "demoFilter = filterManagedDNSHostnameConflicts id id demoKube (\<lambda>f. f) demoClient demoByHost demoNoCM
     (\<lambda>t. Inl (ErrText t)) (namedGateway ''ns'' ''gw'') 5 ''t''"

theorem dns_conflicts_exact_witness:
  "\<not> (\<forall>h\<in>{''x.b.c''}. \<forall>z. map_of [(''x.b.c'', ''z1''), (''y.b.c'', ''z1'')] h = Some z \<longrightarrow>
        \<not> foreignTarget (\<lambda>t. set (if t = ''u.cfargotunnel.com'' then [namedGateway ''ns'' ''other''] else []))
            (namedGateway ''ns'' ''gw'') (TunnelTarget ''t'') (cnameTable accRecords staleAccount z h))"
proof -
  let ?rs = "[httpNamed ''x'' ''x.b.c'', httpNamed ''y'' ''y.b.c'']"
  let ?G = "\<lambda>t. set (if t = ''u.cfargotunnel.com'' then [namedGateway ''ns'' ''other''] else [])"
  have "fst (computeDesiredDNSHostnames id demoClient bcPolicy (concat (map hostnames ?rs)) staleAccount)
      = Inr [(''x.b.c'', ''z1''), (''y.b.c'', ''z1'')]" by code_simp
  then obtain w1 where des: "computeDesiredDNSHostnames id demoClient bcPolicy (concat (map hostnames ?rs))
      staleAccount = (Inr [(''x.b.c'', ''z1''), (''y.b.c'', ''z1'')], w1)"
    by (metis prod.collapse)
  have "fst (demoFilter bcPolicy ?rs staleAccount) = Inr ([httpNamed ''y'' ''y.b.c''], [])" by code_simp
  then obtain w2 where run: "demoFilter bcPolicy ?rs staleAccount = (Inr ([httpNamed ''y'' ''y.b.c''], []), w2)"
    by (metis prod.collapse)
  have cm: "\<forall>key v r v'. accIn zs v \<longrightarrow> demoNoCM key v = (r, v') \<longrightarrow>
      accIn zs v' \<and> accRecords v' = accRecords v" for zs
    by (simp add: demoNoCM_def)
  have by_host: "\<forall>t v r v'. accIn zs v \<longrightarrow> demoByHost t v = (r, v') \<longrightarrow>
      accIn zs v' \<and> accRecords v' = accRecords v \<and> (\<forall>gws. r = Inr gws \<longrightarrow> set gws = ?G t)" for zs
    by (auto simp: demoByHost_def)
  have out: "[httpNamed ''y'' ''y.b.c''] = filter Q ?rs \<Longrightarrow> \<not> Q (httpNamed ''x'' ''x.b.c'')" for Q
    by (auto simp: httpNamed_def namedCommon_def split: if_splits)
  have "hostnames (httpNamed ''x'' ''x.b.c'') = [''x.b.c'']" by code_simp
  moreover note out [OF dns_conflicts_exact [OF simz.sdk_zones_axioms demo_accIn demo_wait cm by_host
      demo_ord demoClient_def bcPolicy_simps(1) des run [unfolded demoFilter_def] refl, THEN conjunct1]]
  ultimately show ?thesis by simp
qed

section \<open>Runs that lose or keep records\<close>


text \<open>
  A record of the tunnel counts for its hostname in whatever zone it is: here the record of
  the hostname is in the zone \<^verbatim>\<open>b.c\<close> while the account now has the zone \<^verbatim>\<open>a.b.c\<close> as well, where
  the hostname belongs.  The reconciliation creates nothing there, deletes nothing, and
  reports success without changes.
\<close>

lemma moved_zone_keeps_record:
  "bestZone (accZones (dnsAccount [] [])) ''app.a.b.c'' = Some ''z2'' \<and>
   fst (reconcileDNS id id demoClient ''t'' anyPolicy [''app.a.b.c'']
      (dnsAccount [(''z1'', ''app.a.b.c'', ''t.cfargotunnel.com'')] [])) = ([], None)"
  by code_simp

definition takenAccount :: "go_error option list \<Rightarrow> account" where
  "takenAccount = dnsAccount [(''z1'', ''x.b.c'', ''u.cfargotunnel.com'')]"

text \<open>
  The conflict check is skipped for a hostname whose zone lookup fails: here the hostname of
  the route has a CNAME to the tunnel of another Gateway.  With the lookups answered, the
  route is rejected; when every attempt at the first lookup fails, the route passes the
  filter, and the reconciliation that follows, whose lookups succeed, takes the record over
  and reports success.
\<close>

lemma failed_lookup_takes_over:
  "fst (demoFilter anyPolicy [httpNamed ''x'' ''x.b.c''] (takenAccount [])) = Inr ([], [])
   \<and> fst (demoFilter anyPolicy [httpNamed ''x'' ''x.b.c'']
       (takenAccount (replicate 4 (Some ErrUnexpectedEOF)))) = Inr ([httpNamed ''x'' ''x.b.c''], [])
   \<and> (case reconcileDNS id id demoClient ''t'' anyPolicy [''x.b.c'']
         (snd (demoFilter anyPolicy [httpNamed ''x'' ''x.b.c'']
            (takenAccount (replicate 4 (Some ErrUnexpectedEOF))))) of
        ((changes, err), w) \<Rightarrow> err = None \<and>
          cnameTable accRecords w ''z1'' ''x.b.c'' = Some ''t.cfargotunnel.com'')"
  by code_simp

end
