(* ===== verification/Cluster.thy ===== *)
theory Cluster
  imports RouteConflicts
begin

text \<open>
  The Kubernetes side of the Gateway controller as it sees it: the objects it manages and the
  record \<open>cluster\<close> of the API operations it calls, over the world \<open>'w\<close>.  The API server,
  server-side apply, \<^verbatim>\<open>controllerutil.CreateOrUpdate\<close> and the clock are not under src/, so
  the record is a parameter of every definition that uses it.  The last section models the
  two small helpers on the infrastructure of a Gateway (gateway_helpers.go) and the generic
  loops over lists of calls.
\<close>

section \<open>Objects\<close>

text \<open>JSON documents; an object's members are in an association list with distinct names.\<close>

datatype json =
    JNull | JBool bool | JNum int | JStr string | JArr "json list" | JObj "(string \<times> json) list"

text \<open>The metadata the controller uses of the objects it lists, deletes and releases.\<close>

record kobj =
  koKind :: string
  koNamespace :: string
  koName :: string
  koOwnerUIDs :: "string list"

record deployment_condition =
  dcType :: string
  dcStatus :: string

text \<open>A Deployment: \<open>dpReplicas\<close> is \<^verbatim>\<open>spec.replicas\<close>, the 32-bit counts are the status's.\<close>

record deployment =
  dpName :: string
  dpGeneration :: int
  dpObservedGeneration :: int
  dpReplicas :: "int option"
  dpStatusReplicas :: int
  dpUpdatedReplicas :: int
  dpReadyReplicas :: int
  dpTemplateAnnotations :: "string \<Rightarrow> string option"
  dpConditions :: "deployment_condition list"

record secret_obj =
  soName :: string
  soNamespace :: string
  soLabels :: "string \<Rightarrow> string option"
  soAnnotations :: "string \<Rightarrow> string option"
  soData :: "string \<Rightarrow> string option"
  soOwner :: "string option"

text \<open>A GatewayClass; \<open>gcParametersRef\<close> is group, kind, namespace and name.\<close>

record class_params_ref =
  cprGroup :: string
  cprKind :: string
  cprNamespace :: "string option"
  cprName :: string

record gateway_class =
  gcName :: string
  gcControllerName :: string
  gcGeneration :: int
  gcDeleted :: bool
  gcFinalizers :: "string list"
  gcParametersRef :: "class_params_ref option"
  gcConditions :: "condition list"
  gcSupportedFeatures :: "string list"

text \<open>The typed objects applied by server-side apply.\<close>

record object_meta =
  omName :: string
  omNamespace :: string
  omLabels :: "string \<Rightarrow> string option"
  omOwnerUID :: string

record container_policy =
  cpContainerName :: string
  cpMode :: string
  cpMinAllowed :: "(string \<times> string) list"
  cpMaxAllowed :: "(string \<times> string) list"
  cpControlledResources :: "string list option"
  cpControlledValues :: "string option"

datatype typed_object =
    ServiceAccountT object_meta
  | RoleT object_meta "string list" "string list" "string list" "string list"
      \<comment> \<open>rule: API groups, resources, resource names, verbs\<close>
  | RoleBindingT object_meta string string string
      \<comment> \<open>name of the Role; name and namespace of the ServiceAccount\<close>
  | VPAT object_meta "string \<times> string \<times> string" string "container_policy list"
      \<comment> \<open>API version, kind and name of the target, update mode, container policies\<close>

text \<open>Recorded events: the name of the object, type, reason, action, note.\<close>

record kevent =
  keObject :: string
  keType :: string
  keReason :: string
  keAction :: string
  keNote :: string

section \<open>The API\<close>

text \<open>
  \<open>clWaitSecond\<close> is the \<^verbatim>\<open>select\<close> between the context's end, whose error it gives, and a timer
  of one second.
\<close>

record 'w cluster =
  clNow :: "'w \<Rightarrow> int \<times> 'w"
  clRand32 :: "'w \<Rightarrow> (go_error + string) \<times> 'w"
  clWaitSecond :: "'w \<Rightarrow> go_error option \<times> 'w"
  clEvent :: "kevent \<Rightarrow> 'w \<Rightarrow> 'w"
  clList :: "string \<Rightarrow> string \<Rightarrow> (string \<Rightarrow> string option) \<Rightarrow> 'w \<Rightarrow> (go_error + kobj list) \<times> 'w"
  clGet :: "string \<Rightarrow> namespaced_name \<Rightarrow> 'w \<Rightarrow> (go_error + kobj) \<times> 'w"
  clPatch :: "kobj \<Rightarrow> kobj \<Rightarrow> 'w \<Rightarrow> go_error option \<times> 'w"
  clDelete :: "kobj \<Rightarrow> 'w \<Rightarrow> go_error option \<times> 'w"
  clGetDeployment :: "namespaced_name \<Rightarrow> 'w \<Rightarrow> (go_error + deployment) \<times> 'w"
  clApply :: "json \<Rightarrow> 'w \<Rightarrow> (go_error + string) \<times> 'w"
  clCreateOrUpdateSecret ::
    "secret_obj \<Rightarrow> (secret_obj \<Rightarrow> go_error + secret_obj) \<Rightarrow> 'w \<Rightarrow> (go_error + string) \<times> 'w"
  clCreateOrUpdateConfigMap ::
    "secret_obj \<Rightarrow> (secret_obj \<Rightarrow> go_error + secret_obj) \<Rightarrow> 'w \<Rightarrow> (go_error + string) \<times> 'w"
  clGetSecret :: "namespaced_name \<Rightarrow> 'w \<Rightarrow> (go_error + (string \<Rightarrow> string option)) \<times> 'w"
  clGetParams :: "namespaced_name \<Rightarrow> 'w \<Rightarrow> (go_error + gateway_params) \<times> 'w"
  clGetGateway :: "namespaced_name \<Rightarrow> 'w \<Rightarrow> (go_error + gateway) \<times> 'w"
  clPatchGateway :: "gateway \<Rightarrow> gateway \<Rightarrow> 'w \<Rightarrow> go_error option \<times> 'w"
  clPatchGatewayStatus :: "gateway \<Rightarrow> gateway \<Rightarrow> 'w \<Rightarrow> go_error option \<times> 'w"
  clGetClass :: "string \<Rightarrow> 'w \<Rightarrow> (go_error + gateway_class) \<times> 'w"
  clListClasses :: "string \<Rightarrow> 'w \<Rightarrow> (go_error + gateway_class list) \<times> 'w"
  clPatchClass :: "gateway_class \<Rightarrow> gateway_class \<Rightarrow> 'w \<Rightarrow> go_error option \<times> 'w"
  clPatchClassStatus :: "gateway_class \<Rightarrow> gateway_class \<Rightarrow> 'w \<Rightarrow> go_error option \<times> 'w"
  clListHTTPRoutes :: "string \<Rightarrow> 'w \<Rightarrow> (go_error + http_route list) \<times> 'w"
  clListGRPCRoutes :: "string \<Rightarrow> 'w \<Rightarrow> (go_error + grpc_route list) \<times> 'w"
  clGetCGS :: "namespaced_name \<Rightarrow> 'w \<Rightarrow> (go_error + cgs_object) \<times> 'w"
  clCreateCGS :: "cgs_object \<Rightarrow> 'w \<Rightarrow> go_error option \<times> 'w"
  clPatchCGS :: "cgs_object \<Rightarrow> cgs_object \<Rightarrow> 'w \<Rightarrow> go_error option \<times> 'w"
  clPatchCGSStatus :: "cgs_object \<Rightarrow> cgs_object \<Rightarrow> 'w \<Rightarrow> go_error option \<times> 'w"

text \<open>What the libraries answer when they changed nothing.\<close>

abbreviation UnchangedAction :: string where "UnchangedAction \<equiv> ''unchanged''"
abbreviation OperationResultNone :: string where "OperationResultNone \<equiv> ''unchanged''"

abbreviation KindConfigMap :: string where "KindConfigMap \<equiv> ''ConfigMap''"
abbreviation KindServiceAccount :: string where "KindServiceAccount \<equiv> ''ServiceAccount''"
abbreviation KindRole :: string where "KindRole \<equiv> ''Role''"
abbreviation KindRoleBinding :: string where "KindRoleBinding \<equiv> ''RoleBinding''"
abbreviation KindVPA :: string where "KindVPA \<equiv> ''VerticalPodAutoscaler''"

section \<open>Infrastructure labels and annotations\<close>

text \<open>A nil map is \<open>None\<close>; reading or copying it is that of the empty map.\<close>

definition infrastructureLabels :: "infrastructure option \<Rightarrow> (string \<Rightarrow> string option) option" where
  "infrastructureLabels infra = map_option (\<lambda>i. map_of (infraLabels i)) infra"

definition infrastructureAnnotations ::
  "infrastructure option \<Rightarrow> (string \<Rightarrow> string option) option" where
  "infrastructureAnnotations infra = map_option (\<lambda>i. map_of (infraAnnotations i)) infra"

text \<open>\<^verbatim>\<open>maps.Copy(dst, src)\<close>.\<close>

definition mapsCopy ::
  "(string \<Rightarrow> string option) \<Rightarrow> (string \<Rightarrow> string option) option \<Rightarrow> (string \<Rightarrow> string option)" where
  "mapsCopy dst src = (case src of None \<Rightarrow> dst | Some s \<Rightarrow> dst ++ s)"

abbreviation orEmpty :: "(string \<Rightarrow> string option) option \<Rightarrow> (string \<Rightarrow> string option)" where
  "orEmpty m \<equiv> (case m of None \<Rightarrow> Map.empty | Some f \<Rightarrow> f)"

definition objectKey :: "kobj \<Rightarrow> namespaced_name" where
  "objectKey ob = (koNamespace ob, koName ob)"

end
