(* ===== verification/Schedule.thy ===== *)
theory Schedule
  imports GoErrors
begin

text \<open>
  internal/schedule/schedule.go: the previous and the next trigger of a cron schedule.  The cron
  library is not under src/: its parser and a schedule's \<^verbatim>\<open>Next\<close> are parameters.  An instant is
  an integer number of nanoseconds since the Unix epoch; the zero \<^verbatim>\<open>time.Time\<close> is the first
  instant of year 1.  The binary search recurses on instants that \<^verbatim>\<open>Next\<close> returns, so nothing in
  its text makes it end: it is a partial function, \<open>None\<close> meaning that it does not return, and
  that it returns is part of what is proved.
\<close>

section \<open>Definitions\<close>

definition zeroTime :: int where
  "zeroTime = - 62135596800 * 10 ^ 9"

text \<open>\<^verbatim>\<open>t.Sub(u)\<close> saturates at the bounds of a duration.\<close>

definition timeSub :: "int \<Rightarrow> int \<Rightarrow> int" where
  "timeSub t u = max (- (2 ^ 63)) (min (2 ^ 63 - 1) (t - u))"

definition cronLookBack :: int where
  "cronLookBack = 5 * 365 * 24 * 3600 * 10 ^ 9"

text \<open>The single quote of the messages.\<close>

abbreviation quote :: string where "quote \<equiv> [char_of (39 :: nat)]"

definition scheduleParse :: "(string \<Rightarrow> go_error + 's) \<Rightarrow> string \<Rightarrow> string \<Rightarrow> go_error + 's" where
  "scheduleParse cronParse spec timeZone =
     (let cronSpec = (if timeZone \<noteq> [] then ''CRON_TZ='' @ timeZone @ '' '' @ spec else spec)
      in case cronParse cronSpec of
           Inr s \<Rightarrow> Inr s
         | Inl err \<Rightarrow>
             if timeZone \<noteq> []
             then Inl (ErrWrap (''failed to parse cron spec '' @ quote @ spec @ quote @ '' with timezone '' @ quote
                         @ timeZone @ quote @ '': '') err)
             else Inl (ErrWrap (''failed to parse cron spec '' @ quote @ spec @ quote @ '': '') err))"

partial_function (option) binarySearchPreviousTrigger ::
  "(int \<Rightarrow> int) \<Rightarrow> int \<Rightarrow> int \<Rightarrow> int \<Rightarrow> int option" where
  "binarySearchPreviousTrigger nxt start stop next =
     (if stop < start then Some zeroTime
      else
        (let middle = start + timeSub stop start div 2;
             middleTrigger = nxt middle
         in if \<not> middleTrigger < next
            then binarySearchPreviousTrigger nxt start (middle - 1) next
            else Option.bind (binarySearchPreviousTrigger nxt middleTrigger stop next)
                   (\<lambda>closer. if closer \<noteq> zeroTime then Some closer else Some middleTrigger)))"

definition GetPrevAndNextTriggers :: "(int \<Rightarrow> int) \<Rightarrow> int \<Rightarrow> (int \<times> int) option" where
  "GetPrevAndNextTriggers nxt now =
     (let next = nxt now;
          start = now - cronLookBack;
          stop = next - 1
      in case binarySearchPreviousTrigger nxt start stop next of
           None \<Rightarrow> None
         | Some prev \<Rightarrow> Some (prev, next))"

section \<open>Lemmas\<close>

lemma timeSub_small: "0 \<le> t - u \<Longrightarrow> t - u < 2 ^ 63 \<Longrightarrow> timeSub t u = t - u"
  by (simp add: timeSub_def)

text \<open>\<^verbatim>\<open>Next\<close> gives the first trigger after an instant, for the instants of an interval.\<close>

definition nextOn :: "int set \<Rightarrow> (int \<Rightarrow> int) \<Rightarrow> int \<Rightarrow> int \<Rightarrow> bool" where
  "nextOn T nxt a b \<longleftrightarrow>
     (\<forall>t. a \<le> t \<and> t < b \<longrightarrow> nxt t \<in> T \<and> t < nxt t \<and> (\<forall>u\<in>T. t < u \<longrightarrow> nxt t \<le> u))"

text \<open>The latest trigger strictly between two instants; the zero time if there is none.\<close>

definition latestIn :: "int set \<Rightarrow> int \<Rightarrow> int \<Rightarrow> int \<Rightarrow> bool" where
  "latestIn T a b r \<longleftrightarrow>
     (r \<in> T \<and> a < r \<and> r < b \<and> (\<forall>u\<in>T. u < b \<longrightarrow> u \<le> r)) \<or>
     (r = zeroTime \<and> (\<forall>u\<in>T. a < u \<longrightarrow> b \<le> u))"

lemma binarySearch_latest:
  assumes "nextOn T nxt start next" "zeroTime \<le> start" "stop < next" "stop - start < 2 ^ 63"
    and "\<forall>u\<in>T. u < next \<longrightarrow> u \<le> stop + 1"
  shows "\<exists>r. binarySearchPreviousTrigger nxt start stop next = Some r \<and> latestIn T start next r"
  using assms
proof (induction "nat (stop + 1 - start)" arbitrary: start stop rule: less_induct)
  case less
  note step = binarySearchPreviousTrigger.simps [of nxt start stop "next"]
  show ?case
  proof (cases "stop < start")
    case True
    then have "latestIn T start next zeroTime" using less.prems(5) unfolding latestIn_def by force
    then show ?thesis using step True by simp
  next
    case False
    let ?m = "start + (stop - start) div 2"
    have m: "start \<le> ?m" "?m \<le> stop" using False by auto
    have sub: "timeSub stop start = stop - start" using False less.prems(4) by (simp add: timeSub_small)
    have nxt: "nxt ?m \<in> T" "?m < nxt ?m" "\<forall>u\<in>T. ?m < u \<longrightarrow> nxt ?m \<le> u"
      using less.prems(1,3) m unfolding nextOn_def by auto
    show ?thesis
    proof (cases "nxt ?m < next")
      case False
      have "nat ((?m - 1) + 1 - start) < nat (stop + 1 - start)" using m by linarith
      moreover have "?m - 1 < next" "?m - 1 - start < 2 ^ 63" using m less.prems(3,4) by linarith+
      moreover have "\<forall>u\<in>T. u < next \<longrightarrow> u \<le> (?m - 1) + 1" using nxt(3) False by force
      ultimately show ?thesis
        using less.hyps [of "?m - 1" start] less.prems(1,2) step sub False \<open>\<not> stop < start\<close>
        by (simp add: Let_def)
    next
      case True
      have "nat (stop + 1 - nxt ?m) < nat (stop + 1 - start)" using m nxt(2) by linarith
      moreover have "nextOn T nxt (nxt ?m) next"
        using less.prems(1) m nxt(2) unfolding nextOn_def by auto
      moreover have "zeroTime \<le> nxt ?m" "stop - nxt ?m < 2 ^ 63"
        using less.prems(2,4) m nxt(2) by linarith+
      ultimately obtain r where r: "binarySearchPreviousTrigger nxt (nxt ?m) stop next = Some r"
        "latestIn T (nxt ?m) next r"
        using less.hyps [of stop "nxt ?m"] less.prems(3,5) by blast
      have run: "binarySearchPreviousTrigger nxt start stop next =
          Some (if r \<noteq> zeroTime then r else nxt ?m)"
        using step sub True r(1) \<open>\<not> stop < start\<close> by (simp add: Let_def)
      have "latestIn T start next (if r \<noteq> zeroTime then r else nxt ?m)"
        using r(2) nxt m True less.prems(2) unfolding latestIn_def by force
      then show ?thesis using run by blast
    qed
  qed
qed

lemma GetPrev_latest:
  assumes "nextOn T nxt (now - cronLookBack) (nxt now)" and "zeroTime \<le> now - cronLookBack"
    and "now < nxt now" and "nxt now - now < cronLookBack"
  shows "\<exists>r. GetPrevAndNextTriggers nxt now = Some (r, nxt now) \<and>
      latestIn T (now - cronLookBack) (nxt now) r \<and> (\<forall>u\<in>T. u < nxt now \<longleftrightarrow> u \<le> now)"
proof -
  have "now - cronLookBack \<le> now" by (simp add: cronLookBack_def)
  then have now: "nxt now \<in> T" "\<forall>u\<in>T. now < u \<longrightarrow> nxt now \<le> u"
    using assms(1,3) unfolding nextOn_def by auto
  have "nxt now - 1 - (now - cronLookBack) < 2 ^ 63"
    using assms(4) by (simp add: cronLookBack_def)
  then obtain r where r: "binarySearchPreviousTrigger nxt (now - cronLookBack) (nxt now - 1) (nxt now) = Some r"
    "latestIn T (now - cronLookBack) (nxt now) r"
    using binarySearch_latest [OF assms(1,2), of "nxt now - 1"] by auto
  have "u < nxt now \<longleftrightarrow> u \<le> now" if "u \<in> T" for u
    using now(2) that assms(3) by force
  then show ?thesis using r by (simp add: GetPrevAndNextTriggers_def Let_def)
qed

section \<open>Properties\<close>

text \<open>
  C19. The triggers around an instant: for a schedule whose \<^verbatim>\<open>Next\<close> gives the first trigger after
  each instant from five years back up to the coming trigger, the search returns, and it
  returns the coming trigger and the latest one that is not after \<^verbatim>\<open>now\<close>, or the zero time
  exactly when there is none within the five years.
\<close>

theorem GetPrevAndNextTriggers_correct:
  assumes "nextOn T nxt (now - cronLookBack) (nxt now)" and "zeroTime \<le> now - cronLookBack"
    and "now < nxt now" and "nxt now - now < cronLookBack"
  shows "\<exists>prev. GetPrevAndNextTriggers nxt now = Some (prev, nxt now) \<and>
     ((prev \<in> T \<and> now - cronLookBack < prev \<and> prev \<le> now \<and> (\<forall>u\<in>T. u \<le> now \<longrightarrow> u \<le> prev)) \<or>
      (prev = zeroTime \<and> (\<forall>u\<in>T. \<not> (now - cronLookBack < u \<and> u \<le> now))))"
proof -
  obtain r where r: "GetPrevAndNextTriggers nxt now = Some (r, nxt now)"
    "latestIn T (now - cronLookBack) (nxt now) r" and le: "\<forall>u\<in>T. u < nxt now \<longleftrightarrow> u \<le> now"
    using GetPrev_latest [OF assms] by blast
  from r(2) have "(r \<in> T \<and> now - cronLookBack < r \<and> r \<le> now \<and> (\<forall>u\<in>T. u \<le> now \<longrightarrow> u \<le> r)) \<or>
      (r = zeroTime \<and> (\<forall>u\<in>T. \<not> (now - cronLookBack < u \<and> u \<le> now)))"
    unfolding latestIn_def using le assms(3) by force
  then show ?thesis using r(1) by blast
qed

text \<open>Every full hour.\<close>

definition hourly :: "int \<Rightarrow> int" where
  "hourly t = (t div (3600 * 10 ^ 9) + 1) * (3600 * 10 ^ 9)"

lemma hourly_nextOn: "nextOn {t. 3600000000000 dvd t} hourly a b"
proof -
  let ?H = "3600000000000 :: int"
  have least: "t < hourly t \<and> (\<forall>u\<in>{t. ?H dvd t}. t < u \<longrightarrow> hourly t \<le> u)" for t
  proof (intro conjI ballI impI)
    define q m where "q = t div ?H" and "m = t mod ?H"
    then have q: "t = q * ?H + m" "0 \<le> m" "m < ?H" and h: "hourly t = q * ?H + ?H"
      by (simp_all add: hourly_def algebra_simps)
    then show "t < hourly t" by linarith
    fix u assume "u \<in> {t. ?H dvd t}" "t < u"
    then obtain k where "u = ?H * k" by blast
    moreover from this have "q < k" using \<open>t < u\<close> q by linarith
    ultimately show "hourly t \<le> u" unfolding h by linarith
  qed
  show ?thesis unfolding nextOn_def using least by (auto simp: hourly_def)
qed

theorem GetPrevAndNextTriggers_correct_witness:
  "GetPrevAndNextTriggers hourly (7200 * 10 ^ 9 + 5) = Some (7200 * 10 ^ 9, 10800 * 10 ^ 9)"
proof -
  let ?H = "3600000000000 :: int"
  let ?T = "{t. ?H dvd t}"
  let ?now = "7200 * 10 ^ 9 + 5 :: int"
  have next_now: "hourly ?now = 10800 * 10 ^ 9" by (simp add: hourly_def)
  obtain prev where prev: "GetPrevAndNextTriggers hourly ?now = Some (prev, hourly ?now)"
    "(prev \<in> ?T \<and> ?now - cronLookBack < prev \<and> prev \<le> ?now \<and> (\<forall>u\<in>?T. u \<le> ?now \<longrightarrow> u \<le> prev)) \<or>
     (prev = zeroTime \<and> (\<forall>u\<in>?T. \<not> (?now - cronLookBack < u \<and> u \<le> ?now)))"
    using GetPrevAndNextTriggers_correct [OF hourly_nextOn, of ?now] next_now
    by (auto simp: zeroTime_def cronLookBack_def)
  have two: "7200 * 10 ^ 9 \<in> ?T" by simp
  have near: "?now - cronLookBack < 7200 * 10 ^ 9" "7200 * 10 ^ 9 \<le> ?now"
    by (simp_all add: cronLookBack_def)
  have "prev \<in> ?T \<and> prev \<le> ?now \<and> 7200 * 10 ^ 9 \<le> prev"
    using prev(2)
  proof (elim disjE conjE)
    assume "prev \<in> ?T" "prev \<le> ?now" "\<forall>u\<in>?T. u \<le> ?now \<longrightarrow> u \<le> prev"
    then show ?thesis using two near(2) by blast
  next
    assume "\<forall>u\<in>?T. \<not> (?now - cronLookBack < u \<and> u \<le> ?now)"
    then show ?thesis using two near by blast
  qed
  then have p: "prev \<in> ?T" "prev \<le> ?now" "7200 * 10 ^ 9 \<le> prev" by blast+
  from p(1) obtain k where k: "prev = ?H * k" by blast
  with p(2,3) have "k = 2" by simp
  then show ?thesis using prev(1) next_now k by simp
qed

end
