(* ===== verification/TunnelToken.thy ===== *)
theory TunnelToken
  imports Cluster Schedule CloudflareClient
begin

text \<open>
  The tunnel of a Gateway and its token (internal/controller/gateway_tunnel.go): looking up or
  creating the tunnel, deciding whether the token is due for rotation, rotating it, and
  writing it to the Secret the tunnel pods read.  \<open>sha256\<close> gives the digest as bytes,
  \<open>parse3339\<close> and \<open>format3339\<close> are \<^verbatim>\<open>time.Parse\<close> and \<^verbatim>\<open>time.Format\<close> with the layout
  \<^verbatim>\<open>time.RFC3339\<close>, \<open>parseNano\<close> parses \<^verbatim>\<open>time.RFC3339Nano\<close>, and \<open>cronNext\<close> is the schedule's
  \<^verbatim>\<open>Next\<close>, given by the cron parser \<open>cronParse\<close>.
\<close>

section \<open>The tunnel\<close>

record tunnelState =
  tunName :: string
  tunID :: string

definition ensureTunnel ::
  "'w client \<Rightarrow> tunnelState \<Rightarrow> 'w \<Rightarrow> (go_error + string list \<times> tunnelState) \<times> 'w" where
  "ensureTunnel tc t w =
     (case GetTunnelIDByName tc (tunName t) w of
        (Inl err, w1) \<Rightarrow>
          (Inl (ErrWrap (''looking up tunnel '' @ goQuote (tunName t) @ '': '') err), w1)
      | (Inr tid, w1) \<Rightarrow>
          if tid \<noteq> [] then (Inr ([], t\<lparr>tunID := tid\<rparr>), w1)
          else
            (let created = (\<lambda>i. Inr ([''created tunnel '' @ tunName t], t\<lparr>tunID := i\<rparr>))
             in case CreateTunnel tc (tunName t) w1 of
                  (Inr i, w2) \<Rightarrow> (created i, w2)
                | (Inl err, w2) \<Rightarrow>
                    if \<not> IsConflict (Some err)
                    then (Inl (ErrWrap (''creating tunnel '' @ goQuote (tunName t) @ '': '') err), w2)
                    else
                      (case GetTunnelIDByName tc (tunName t) w2 of
                         (Inl err2, w3) \<Rightarrow>
                           (Inl (ErrWrap (''looking up tunnel '' @ goQuote (tunName t)
                                   @ '' after conflict: '') err2), w3)
                       | (Inr i, w3) \<Rightarrow> (created i, w3))))"

section \<open>Token rotation\<close>

record tokenRotationResult =
  trrChanges :: "string list"
  trrLastRotatedAt :: string
  trrNextTrigger :: int
  trrTokenHash :: string

definition emptyTokenResult :: tokenRotationResult where
  "emptyTokenResult =
     \<lparr>trrChanges = [], trrLastRotatedAt = [], trrNextTrigger = zeroTime, trrTokenHash = []\<rparr>"

abbreviation defaultRotationCron :: string where "defaultRotationCron \<equiv> ''0 18 * * 4''"
abbreviation defaultRotationTimeZone :: string where
  "defaultRotationTimeZone \<equiv> ''America/Los_Angeles''"

text \<open>Whether scheduled rotation is enabled, the cron spec and its time zone.\<close>

definition rotationConfig :: "gateway_params option \<Rightarrow> bool \<times> string \<times> string" where
  "rotationConfig params =
     (case Option.bind params (\<lambda>p. Option.bind (gpTunnel p)
             (\<lambda>t. Option.bind (tcToken t) (\<lambda>tok. tok))) of
        None \<Rightarrow> (True, defaultRotationCron, defaultRotationTimeZone)
      | Some rot \<Rightarrow>
          (let enabled = (case rcEnabled rot of None \<Rightarrow> True | Some b \<Rightarrow> b)
           in case rcSchedule rot of
                None \<Rightarrow> (enabled, defaultRotationCron, defaultRotationTimeZone)
              | Some sched \<Rightarrow>
                  (enabled, rsCron sched,
                   if rsTimeZone sched = [] then ''UTC'' else rsTimeZone sched)))"

definition rotationStatus :: "cgs_object option \<Rightarrow> token_rotation_status option" where
  "rotationStatus cgs =
     Option.bind cgs (\<lambda>c. Option.bind (cgsTunnel (cgsStatus c))
       (\<lambda>t. Option.bind (tusToken t) tsRotation))"

text \<open>Whether the request of the annotation is still to be served.\<close>

definition onDemandRotation ::
  "(string \<Rightarrow> go_error + int) \<Rightarrow> (string \<Rightarrow> go_error + int) \<Rightarrow> string \<Rightarrow> string \<Rightarrow> string \<Rightarrow> bool" where
  "onDemandRotation parseNano parse3339 requestedAt lastHandledRotateAt lastRotatedAt =
     (let onDemand = (requestedAt \<noteq> [] \<and> requestedAt \<noteq> lastHandledRotateAt)
      in if onDemand \<and> lastRotatedAt \<noteq> []
         then (case (parseNano requestedAt, parse3339 lastRotatedAt) of
                 (Inr tRequested, Inr tRotated) \<Rightarrow> tRotated < tRequested
               | _ \<Rightarrow> onDemand)
         else onDemand)"

text \<open>
  \<^verbatim>\<open>maybeRotateToken\<close>.  The value \<open>None\<close> means that the search for the previous trigger does
  not return.
\<close>

definition maybeRotateToken ::
  "'w cluster \<Rightarrow> (string \<Rightarrow> go_error + int) \<Rightarrow> (string \<Rightarrow> go_error + int) \<Rightarrow> (int \<Rightarrow> string)
     \<Rightarrow> (string \<Rightarrow> go_error + (int \<Rightarrow> int)) \<Rightarrow> gateway \<Rightarrow> 'w client \<Rightarrow> tunnelState
     \<Rightarrow> cgs_object option \<Rightarrow> gateway_params option \<Rightarrow> tokenRotationResult \<Rightarrow> 'w
     \<Rightarrow> ((go_error + bool \<times> tokenRotationResult) \<times> 'w) option" where
  "maybeRotateToken cl parseNano parse3339 format3339 cronParse gw tc t cgs params result w =
     (case rotationConfig params of
        (rotationEnabled, cronSpec, cronTimeZone) \<Rightarrow>
          (let st = rotationStatus cgs;
               lastHandledRotateAt = (case st of None \<Rightarrow> [] | Some s \<Rightarrow> trsLastHandledRotateAt s);
               lastRotatedAt = (case st of None \<Rightarrow> [] | Some s \<Rightarrow> trsLastRotatedAt s);
               requestedAt = mapGet (gwAnnotations gw) AnnotationRotateTokenRequestedAt;
               onDemand = onDemandRotation parseNano parse3339 requestedAt lastHandledRotateAt
                            lastRotatedAt;
               rotate = (\<lambda>scheduled result w.
                 if \<not> onDemand \<and> \<not> scheduled then (Inr (False, result), w)
                 else
                   (case clRand32 cl w of
                      (Inl err, w1) \<Rightarrow> (Inl (ErrWrap ''generating random secret: '' err), w1)
                    | (Inr newSecret, w1) \<Rightarrow>
                        (case RotateTunnelSecret tc (tunID t) newSecret w1 of
                           (Some err, w2) \<Rightarrow>
                             (Inl (ErrWrap (''rotating tunnel secret for '' @ goQuote (tunName t)
                                     @ '': '') err), w2)
                         | (None, w2) \<Rightarrow>
                             (case clNow cl w2 of
                                (now, w3) \<Rightarrow>
                                  (Inr (True, result\<lparr>trrLastRotatedAt := format3339 now,
                                      trrChanges := trrChanges result @ [''rotated tunnel token'']\<rparr>),
                                   w3)))))
           in if rotationEnabled
              then
                (case scheduleParse cronParse cronSpec cronTimeZone of
                   Inl err \<Rightarrow>
                     Some (Inl (ErrWrap ''parsing token rotation cron schedule: '' err), w)
                 | Inr cronNext \<Rightarrow>
                     (case clNow cl w of
                        (now, w1) \<Rightarrow>
                          (case GetPrevAndNextTriggers cronNext now of
                             None \<Rightarrow> None
                           | Some (prevTrigger, nextTrigger) \<Rightarrow>
                               (let result1 = result\<lparr>trrNextTrigger := nextTrigger\<rparr>
                                in if lastRotatedAt \<noteq> []
                                   then (case parse3339 lastRotatedAt of
                                           Inr lastT \<Rightarrow> Some (rotate (lastT < prevTrigger) result1 w1)
                                         | Inl err \<Rightarrow> Some (rotate False result1 w1))
                                   else (case clNow cl w1 of
                                           (now2, w2) \<Rightarrow>
                                             Some (rotate False
                                               (result1\<lparr>trrLastRotatedAt := format3339 now2\<rparr>) w2))))))
              else Some (rotate False result w)))"

section \<open>The token Secret\<close>

definition buildTunnelTokenSecret :: "gateway \<Rightarrow> string \<Rightarrow> secret_obj" where
  "buildTunnelTokenSecret gw tunnelToken =
     \<lparr>soName = GatewayResourceName gw, soNamespace = gwNamespace gw,
      soLabels = mapsCopy (GatewayResourceLabels (gwName gw) [])
                   (infrastructureLabels (gwInfrastructure gw)),
      soAnnotations = orEmpty (infrastructureAnnotations (gwInfrastructure gw)),
      soData = [''TUNNEL_TOKEN'' \<mapsto> tunnelToken], soOwner = None\<rparr>"

text \<open>
  \<open>setOwner\<close> is \<^verbatim>\<open>controllerutil.SetControllerReference\<close>, which fails when the object has
  another controller.
\<close>

definition reconcileTunnelTokenSecret ::
  "'w cluster \<Rightarrow> (string \<Rightarrow> go_error + int) \<Rightarrow> (string \<Rightarrow> go_error + int) \<Rightarrow> (int \<Rightarrow> string)
     \<Rightarrow> (string \<Rightarrow> go_error + (int \<Rightarrow> int)) \<Rightarrow> (string \<Rightarrow> string)
     \<Rightarrow> (gateway \<Rightarrow> secret_obj \<Rightarrow> go_error + secret_obj) \<Rightarrow> gateway \<Rightarrow> 'w client \<Rightarrow> tunnelState
     \<Rightarrow> cgs_object option \<Rightarrow> gateway_params option \<Rightarrow> 'w
     \<Rightarrow> ((go_error + tokenRotationResult) \<times> 'w) option" where
  "reconcileTunnelTokenSecret cl parseNano parse3339 format3339 cronParse sha256 setOwner gw tc t
      cgs params w =
     (let resourceName = GatewayResourceName gw
      in case maybeRotateToken cl parseNano parse3339 format3339 cronParse gw tc t cgs params
                emptyTokenResult w of
           None \<Rightarrow> None
         | Some (Inl err, w1) \<Rightarrow> Some (Inl err, w1)
         | Some (Inr (rotated, result), w1) \<Rightarrow>
             (case GetTunnelToken tc (tunID t) w1 of
                (Inl err, w2) \<Rightarrow>
                  Some (Inl (ErrWrap (''getting tunnel token for '' @ goQuote (tunName t) @ '': '') err),
                        w2)
              | (Inr tunnelToken, w2) \<Rightarrow>
                  (let result1 = result\<lparr>trrTokenHash := hexEncode (sha256 tunnelToken)\<rparr>;
                       desired = buildTunnelTokenSecret gw tunnelToken
                   in case setOwner gw desired of
                        Inl err \<Rightarrow>
                          Some (Inl (ErrWrap (''setting owner reference on secret ''
                                  @ goQuote resourceName @ '': '') err), w2)
                      | Inr secret \<Rightarrow>
                          (case clCreateOrUpdateSecret cl secret
                                  (\<lambda>s. setOwner gw (s\<lparr>soData := soData desired,
                                         soLabels := soLabels desired,
                                         soAnnotations := soAnnotations desired\<rparr>)) w2 of
                             (Inl err, w3) \<Rightarrow>
                               Some (Inl (ErrWrap (''creating/updating tunnel token secret ''
                                       @ goQuote resourceName @ '': '') err), w3)
                           | (Inr res, w3) \<Rightarrow>
                               Some (Inr (if res \<noteq> OperationResultNone
                                  then result1\<lparr>trrChanges := trrChanges result1 @
                                         [''tunnel token Secret '' @ resourceName @ '' '' @ res]\<rparr>
                                  else result1), w3)))))"

end
