(* ===== verification/Deployments.thy ===== *)
theory Deployments
  imports TunnelToken
begin

text \<open>
  The tunnel Deployments of a Gateway (internal/controller/gateway_tunnel.go): the Deployment
  of a replica with the user's patches and the replica's placement, the rolling application of
  the replicas one at a time, and their readiness.  JSON text
  is a string; the encoder, the decoder and the patch library are the record \<open>json_lib\<close>.  The
  apply configuration builders of client-go are the record \<open>deployment_apply\<close>.
\<close>

section \<open>JSON\<close>

type_synonym json_object = "(string \<times> json) list"

text \<open>An affinity is the user's, opaque here, or the one built for a zone.\<close>

datatype affinity_spec =
    UserAffinity string
  | ZoneAffinity string string "string list"
      \<comment> \<open>required node selector term: key, operator, values\<close>

text \<open>Resource requirements are the user's, opaque here, or requests and limits.\<close>

datatype resources_apply =
    UserResources string
  | Resources "(string \<times> string) list" "(string \<times> string) list"

record probe_apply =
  prbPath :: string
  prbPort :: string
  prbPeriodSeconds :: "int option"
  prbFailureThreshold :: "int option"

record container_apply =
  caName :: string
  caImage :: string
  caArgs :: "string list"
  caEnvName :: string
  caEnvSecretName :: string
  caEnvSecretKey :: string
  caPortName :: string
  caContainerPort :: int
  caProtocol :: string
  caResources :: resources_apply
  caStartupProbe :: probe_apply
  caReadinessProbe :: probe_apply
  caLivenessProbe :: probe_apply

text \<open>A nil annotation map is \<open>None\<close>; the owner is the controlling Gateway.\<close>

record deployment_apply =
  daName :: string
  daNamespace :: string
  daLabels :: "string \<Rightarrow> string option"
  daAnnotations :: "(string \<Rightarrow> string option) option"
  daOwnerName :: string
  daOwnerUID :: string
  daReplicas :: int
  daMinReadySeconds :: int
  daProgressDeadlineSeconds :: int
  daStrategy :: string
  daMaxSurge :: int
  daMaxUnavailable :: int
  daSelectorLabels :: "string \<Rightarrow> string option"
  daTemplateLabels :: "string \<Rightarrow> string option"
  daTemplateAnnotations :: "(string \<Rightarrow> string option) option"
  daServiceAccountName :: string
  daContainer :: container_apply

text \<open>
  \<open>jlUnmarshalMap\<close> decodes into a \<^verbatim>\<open>map[string]any\<close> and \<open>jlMarshalMap\<close> encodes one;
  \<open>jlDecodePatch\<close> gives the patch as the function that applies it to a document;
  \<open>jlRoundTripResources\<close> is the encoding of the resources followed by the decoding into the
  apply configuration.
\<close>

record json_lib =
  jlMarshalDeployment :: "deployment_apply \<Rightarrow> go_error + string"
  jlMarshalPatches :: "(string \<times> string \<times> string \<times> string option) list \<Rightarrow> go_error + string"
  jlDecodePatch :: "string \<Rightarrow> go_error + (string \<Rightarrow> go_error + string)"
  jlMarshalAffinity :: "affinity_spec \<Rightarrow> go_error + string"
  jlUnmarshalMap :: "string \<Rightarrow> go_error + json_object"
  jlMarshalMap :: "json_object \<Rightarrow> go_error + string"
  jlUnmarshalUnstructured :: "string \<Rightarrow> go_error + json_object"
  jlRoundTripResources :: "string \<Rightarrow> go_error + resources_apply"

text \<open>The type assertion \<^verbatim>\<open>m[k].(map[string]any)\<close>, and assigning to a key.\<close>

definition jsonMember :: "json_object \<Rightarrow> string \<Rightarrow> json_object option" where
  "jsonMember m k = (case map_of m k of Some (JObj o') \<Rightarrow> Some o' | _ \<Rightarrow> None)"

abbreviation jsonSet :: "string \<Rightarrow> json \<Rightarrow> json_object \<Rightarrow> json_object" where
  "jsonSet \<equiv> AList.update"

section \<open>The Deployment of a replica\<close>

definition DefaultMinReadySeconds :: int where
  "DefaultMinReadySeconds = 600"

definition minReadySeconds :: "gateway_params option \<Rightarrow> int" where
  "minReadySeconds params =
     (case Option.bind (Option.bind params gpTunnel) tcMinReadySeconds of
        Some n \<Rightarrow> n
      | None \<Rightarrow> DefaultMinReadySeconds)"

definition progressDeadlineSeconds :: "gateway_params option \<Rightarrow> int" where
  "progressDeadlineSeconds params = wrap32 (minReadySeconds params + 60)"

definition resolveResources :: "json_lib \<Rightarrow> string option \<Rightarrow> resources_apply" where
  "resolveResources jl resources =
     (let defaults = Resources [(''cpu'', ''50m''), (''memory'', ''64Mi'')]
                               [(''cpu'', ''500m''), (''memory'', ''256Mi'')]
      in case resources of
           None \<Rightarrow> defaults
         | Some r \<Rightarrow> (case jlRoundTripResources jl r of Inr ac \<Rightarrow> ac | Inl err \<Rightarrow> defaults))"

definition tunnelContainer ::
  "json_lib \<Rightarrow> string \<Rightarrow> gateway \<Rightarrow> gateway_params option \<Rightarrow> container_apply" where
  "tunnelContainer jl img gw params =
     (let probe = (\<lambda>period threshold. \<lparr>prbPath = ''/healthz'', prbPort = ''http'',
                     prbPeriodSeconds = period, prbFailureThreshold = threshold\<rparr>)
      in \<lparr>caName = ''tunnel'', caImage = img,
          caArgs = [''tunnel'', ''--namespace'', gwNamespace gw, ''--configmap-name'',
                    GatewayResourceName gw],
          caEnvName = ''TUNNEL_TOKEN'', caEnvSecretName = GatewayResourceName gw,
          caEnvSecretKey = ''TUNNEL_TOKEN'', caPortName = ''http'', caContainerPort = 8080,
          caProtocol = ''TCP'',
          caResources = resolveResources jl
            (Option.bind (Option.bind params gpTunnel) tcResources),
          caStartupProbe = probe (Some 2) (Some 60), caReadinessProbe = probe None None,
          caLivenessProbe = probe None None\<rparr>)"

definition buildTunnelDeploymentApply ::
  "json_lib \<Rightarrow> string \<Rightarrow> gateway \<Rightarrow> gateway_params option \<Rightarrow> replica_config \<Rightarrow> string
     \<Rightarrow> deployment_apply" where
  "buildTunnelDeploymentApply jl img gw params replica tokenHash =
     (let selectorLabels = GatewayResourceLabels (gwName gw) [repName replica];
          infraLabels' = infrastructureLabels (gwInfrastructure gw);
          annotations = infrastructureAnnotations (gwInfrastructure gw)
      in \<lparr>daName = GatewayReplicaName gw (repName replica), daNamespace = gwNamespace gw,
          daLabels = mapsCopy selectorLabels infraLabels',
          daAnnotations = annotations,
          daOwnerName = gwName gw, daOwnerUID = gwUID gw,
          daReplicas = 1, daMinReadySeconds = minReadySeconds params,
          daProgressDeadlineSeconds = progressDeadlineSeconds params,
          daStrategy = ''RollingUpdate'', daMaxSurge = 1, daMaxUnavailable = 0,
          daSelectorLabels = selectorLabels,
          daTemplateLabels = mapsCopy selectorLabels infraLabels',
          daTemplateAnnotations =
            (if tokenHash \<noteq> [] then Some ((orEmpty annotations)(AnnotationTokenHash \<mapsto> tokenHash))
             else annotations),
          daServiceAccountName = GatewayResourceName gw,
          daContainer = tunnelContainer jl img gw params\<rparr>)"

text \<open>The pod spec of a Deployment's JSON.\<close>

definition navigateToPodSpec :: "json_lib \<Rightarrow> string \<Rightarrow> go_error + json_object" where
  "navigateToPodSpec jl data =
     (case jlUnmarshalMap jl data of
        Inl err \<Rightarrow> Inl (ErrTerminal (ErrWrap ''unmarshaling deployment: '' err))
      | Inr deploy \<Rightarrow>
          (case jsonMember deploy ''spec'' of
             None \<Rightarrow> Inl (ErrTerminal (ErrText ''deployment missing spec''))
           | Some spec \<Rightarrow>
               (case jsonMember spec ''template'' of
                  None \<Rightarrow> Inl (ErrTerminal (ErrText ''deployment missing spec.template''))
                | Some template \<Rightarrow>
                    (case jsonMember template ''spec'' of
                       None \<Rightarrow> Inl (ErrTerminal (ErrText ''deployment missing spec.template.spec''))
                     | Some podSpec \<Rightarrow> Inr podSpec))))"

text \<open>The two uses of an affinity: encode it, decode it as a map, and set it.\<close>

definition setAffinity ::
  "json_lib \<Rightarrow> string \<Rightarrow> affinity_spec \<Rightarrow> json_object \<Rightarrow> go_error + json_object" where
  "setAffinity jl what aff podSpec =
     (case jlMarshalAffinity jl aff of
        Inl err \<Rightarrow> Inl (ErrTerminal (ErrWrap (''marshaling '' @ what @ '' affinity: '') err))
      | Inr affinityJSON \<Rightarrow>
          (case jlUnmarshalMap jl affinityJSON of
             Inl err \<Rightarrow> Inl (ErrTerminal (ErrWrap (''unmarshaling '' @ what @ '' affinity: '') err))
           | Inr affinityMap \<Rightarrow> Inr (jsonSet ''affinity'' (JObj affinityMap) podSpec)))"

text \<open>
  The panic of a failing type assertion is an error of its own; it cannot come about, since
  \<^verbatim>\<open>navigateToPodSpec\<close> has found the same members (\<open>applyPlacementOverrides_no_panic\<close>).
\<close>

abbreviation assertionPanic :: go_error where
  "assertionPanic \<equiv> ErrText ''panic: interface conversion''"

definition applyPlacementOverrides ::
  "json_lib \<Rightarrow> string \<Rightarrow> replica_config \<Rightarrow> go_error + string" where
  "applyPlacementOverrides jl data replica =
     (let hasAffinity = (repAffinity replica \<noteq> None \<or> repZone replica \<noteq> []);
          hasNodeSelector = (0 < length (repNodeSelector replica))
      in if \<not> hasAffinity \<and> \<not> hasNodeSelector then Inr data
         else
           (case navigateToPodSpec jl data of
              Inl err \<Rightarrow> Inl err
            | Inr podSpec \<Rightarrow>
                (case (case repAffinity replica of
                         Some a \<Rightarrow> setAffinity jl ''replica'' (UserAffinity a) podSpec
                       | None \<Rightarrow>
                           if repZone replica \<noteq> []
                           then setAffinity jl ''zone''
                                  (ZoneAffinity ''topology.kubernetes.io/zone'' ''In'' [repZone replica])
                                  podSpec
                           else Inr podSpec) of
                   Inl err \<Rightarrow> Inl err
                 | Inr podSpec1 \<Rightarrow>
                     (let podSpec2 =
                        (if hasNodeSelector
                         then jsonSet ''nodeSelector''
                                (JObj (map (\<lambda>(k, v). (k, JStr v)) (repNodeSelector replica))) podSpec1
                         else podSpec1)
                      in case jlUnmarshalMap jl data of
                           Inl err \<Rightarrow>
                             Inl (ErrTerminal
                               (ErrWrap ''unmarshaling deployment for placement overrides: '' err))
                         | Inr deploy \<Rightarrow>
                             (case jsonMember deploy ''spec'' of
                                None \<Rightarrow> Inl assertionPanic
                              | Some spec \<Rightarrow>
                                  (case jsonMember spec ''template'' of
                                     None \<Rightarrow> Inl assertionPanic
                                   | Some template \<Rightarrow>
                                       jlMarshalMap jl
                                         (jsonSet ''spec''
                                            (JObj (jsonSet ''template''
                                               (JObj (jsonSet ''spec'' (JObj podSpec2) template)) spec))
                                            deploy)))))))"

definition applyPatches ::
  "json_lib \<Rightarrow> gateway_params option \<Rightarrow> string \<Rightarrow> go_error + string" where
  "applyPatches jl params data =
     (let patches = (case Option.bind params gpTunnel of None \<Rightarrow> [] | Some t \<Rightarrow> tcPatches t)
      in if \<not> length patches > 0 then Inr data
         else
           (case jlMarshalPatches jl patches of
              Inl err \<Rightarrow> Inl (ErrTerminal (ErrWrap ''marshaling deployment patches: '' err))
            | Inr patchJSON \<Rightarrow>
                (case jlDecodePatch jl patchJSON of
                   Inl err \<Rightarrow> Inl (ErrTerminal (ErrWrap ''decoding deployment patches: '' err))
                 | Inr patch \<Rightarrow>
                     (case patch data of
                        Inl err \<Rightarrow> Inl (ErrTerminal (ErrWrap ''applying deployment patches: '' err))
                      | Inr data' \<Rightarrow> Inr data'))))"

definition buildTunnelDeployment ::
  "json_lib \<Rightarrow> string \<Rightarrow> gateway \<Rightarrow> gateway_params option \<Rightarrow> replica_config \<Rightarrow> string
     \<Rightarrow> go_error + json" where
  "buildTunnelDeployment jl img gw params replica tokenHash =
     (case jlMarshalDeployment jl
             (buildTunnelDeploymentApply jl img gw params replica tokenHash) of
        Inl err \<Rightarrow> Inl (ErrWrap ''marshaling deployment: '' err)
      | Inr data \<Rightarrow>
          (case applyPatches jl params data of
             Inl err \<Rightarrow> Inl err
           | Inr data1 \<Rightarrow>
               (case applyPlacementOverrides jl data1 replica of
                  Inl err \<Rightarrow> Inl err
                | Inr data2 \<Rightarrow>
                    (case jlUnmarshalUnstructured jl data2 of
                       Inl err \<Rightarrow> Inl (ErrWrap ''unmarshaling deployment: '' err)
                     | Inr ob \<Rightarrow>
                         Inr (JObj (jsonSet ''kind'' (JStr KindDeployment)
                                (jsonSet ''apiVersion'' (JStr ''apps/v1'') ob)))))))"

section \<open>The state of a Deployment\<close>

definition isDeploymentRolledOut :: "deployment \<Rightarrow> bool" where
  "isDeploymentRolledOut deploy =
     (if dpObservedGeneration deploy < dpGeneration deploy then False
      else
        (let desired = (case dpReplicas deploy of None \<Rightarrow> 1 | Some n \<Rightarrow> n)
         in dpUpdatedReplicas deploy \<ge> desired \<and>
            dpStatusReplicas deploy \<le> dpUpdatedReplicas deploy \<and>
            dpReadyReplicas deploy \<ge> dpUpdatedReplicas deploy))"

definition isProgressDeadlineExceeded :: "deployment \<Rightarrow> bool" where
  "isProgressDeadlineExceeded deploy =
     list_ex (\<lambda>c. dcType c = ''Progressing'' \<and> dcStatus c = ''False'') (dpConditions deploy)"

section \<open>Applying the Deployments\<close>

definition applyOneDeployment ::
  "'w cluster \<Rightarrow> json_lib \<Rightarrow> string \<Rightarrow> gateway \<Rightarrow> gateway_params option \<Rightarrow> replica_config \<Rightarrow> string
     \<Rightarrow> 'w \<Rightarrow> (go_error + string) \<times> 'w" where
  "applyOneDeployment cl jl img gw params replica tokenHash w =
     (let deploymentName = GatewayReplicaName gw (repName replica)
      in case buildTunnelDeployment jl img gw params replica tokenHash of
           Inl err \<Rightarrow>
             (Inl (ErrWrap (''building tunnel deployment '' @ goQuote deploymentName @ '': '') err), w)
         | Inr deployObj \<Rightarrow>
             (case clApply cl deployObj w of
                (Inl err, w') \<Rightarrow>
                  (Inl (ErrWrap (''applying tunnel deployment '' @ goQuote deploymentName @ '': '') err),
                   w')
              | (Inr action, w') \<Rightarrow>
                  (Inr (if action \<noteq> UnchangedAction
                        then ''tunnel Deployment '' @ deploymentName @ '' '' @ action else []), w')))"

text \<open>The loop over the replicas, with the changes so far; an error carries the changes.\<close>

fun applyDeploymentsLoop ::
  "'w cluster \<Rightarrow> json_lib \<Rightarrow> string \<Rightarrow> gateway \<Rightarrow> gateway_params option \<Rightarrow> string
     \<Rightarrow> replica_config list \<Rightarrow> string list \<Rightarrow> 'w \<Rightarrow> (string list \<times> go_error option) \<times> 'w" where
  "applyDeploymentsLoop cl jl img gw params tokenHash [] changes w = ((changes, None), w)"
| "applyDeploymentsLoop cl jl img gw params tokenHash (r # rs) changes w =
     (let deploymentName = GatewayReplicaName gw (repName r)
      in case clGetDeployment cl (gwNamespace gw, deploymentName) w of
           (Inl err, w1) \<Rightarrow>
             if \<not> errNotFound err
             then ((changes, Some (ErrWrap (''getting tunnel Deployment '' @ goQuote deploymentName
                              @ '': '') err)), w1)
             else
               (case applyOneDeployment cl jl img gw params r tokenHash w1 of
                  (Inl err, w2) \<Rightarrow> ((changes, Some err), w2)
                | (Inr change, w2) \<Rightarrow>
                    applyDeploymentsLoop cl jl img gw params tokenHash rs
                      (if change \<noteq> [] then changes @ [change] else changes) w2)
         | (Inr deploy, w1) \<Rightarrow>
             if \<not> isDeploymentRolledOut deploy
             then
               (if isProgressDeadlineExceeded deploy
                then
                  (case applyOneDeployment cl jl img gw params r tokenHash w1 of
                     (Inl err, w2) \<Rightarrow> ((changes, Some err), w2)
                   | (Inr change, w2) \<Rightarrow>
                       if change \<noteq> [] then ((changes @ [change], None), w2)
                       else applyDeploymentsLoop cl jl img gw params tokenHash rs changes w2)
                else ((changes, None), w1))
             else
               (case applyOneDeployment cl jl img gw params r tokenHash w1 of
                  (Inl err, w2) \<Rightarrow> ((changes, Some err), w2)
                | (Inr change, w2) \<Rightarrow>
                    if change \<noteq> [] then ((changes @ [change], None), w2)
                    else applyDeploymentsLoop cl jl img gw params tokenHash rs changes w2))"

definition applyTunnelDeployments ::
  "'w cluster \<Rightarrow> json_lib \<Rightarrow> string \<Rightarrow> gateway \<Rightarrow> gateway_params option \<Rightarrow> replica_config list
     \<Rightarrow> string \<Rightarrow> 'w \<Rightarrow> (string list \<times> go_error option) \<times> 'w" where
  "applyTunnelDeployments cl jl img gw params replicas tokenHash w =
     applyDeploymentsLoop cl jl img gw params tokenHash replicas [] w"

section \<open>Readiness\<close>

record gatewayReadiness =
  grReadyStatus :: string
  grReadyReason :: string
  grReadyMsg :: string
  grProgrammedStatus :: string
  grProgrammedReason :: string
  grProgrammedMsg :: string

text \<open>The loop; the state is \<open>allRolledOut\<close>, \<open>anyDeadlineExceeded\<close> and the names not ready.\<close>

fun readinessLoop ::
  "'w cluster \<Rightarrow> gateway \<Rightarrow> string \<Rightarrow> replica_config list \<Rightarrow> bool \<times> bool \<times> string list \<Rightarrow> 'w
     \<Rightarrow> (bool \<times> bool \<times> string list) \<times> 'w" where
  "readinessLoop cl gw tokenHash [] st w = (st, w)"
| "readinessLoop cl gw tokenHash (r # rs) (allRolledOut, anyExceeded, notReady) w =
     (let deploymentName = GatewayReplicaName gw (repName r)
      in case clGetDeployment cl (gwNamespace gw, deploymentName) w of
           (res, w1) \<Rightarrow>
             (let rolledOut = (case res of Inl err \<Rightarrow> False
                   | Inr deploy \<Rightarrow>
                       mapGet (dpTemplateAnnotations deploy) AnnotationTokenHash = tokenHash \<and>
                       isDeploymentRolledOut deploy);
                  exceeded = (case res of Inl err \<Rightarrow> False
                   | Inr deploy \<Rightarrow> isProgressDeadlineExceeded deploy)
              in readinessLoop cl gw tokenHash rs
                   (if exceeded then (allRolledOut, True, notReady @ [deploymentName])
                    else if \<not> rolledOut then (False, anyExceeded, notReady @ [deploymentName])
                    else (allRolledOut, anyExceeded, notReady)) w1))"

definition checkAllDeploymentsReadiness ::
  "'w cluster \<Rightarrow> gateway \<Rightarrow> replica_config list \<Rightarrow> string \<Rightarrow> 'w \<Rightarrow> gatewayReadiness \<times> 'w" where
  "checkAllDeploymentsReadiness cl gw replicas tokenHash w =
     (case readinessLoop cl gw tokenHash replicas (True, False, []) w of
        ((allRolledOut, anyExceeded, notReady), w') \<Rightarrow>
          (let readiness =
             \<lparr>grReadyStatus = ConditionUnknown, grReadyReason = ReasonProgressingWithRetry,
              grReadyMsg = [], grProgrammedStatus = ConditionTrue,
              grProgrammedReason = ''Programmed'', grProgrammedMsg = ''Gateway is programmed''\<rparr>
           in (if anyExceeded
               then readiness\<lparr>grReadyStatus := ConditionFalse,
                      grReadyReason := ReasonReconciliationFailed,
                      grReadyMsg := ''tunnel deployment(s) exceeded progress deadline: ''
                        @ joinStr notReady '', ''\<rparr>
               else if allRolledOut
               then readiness\<lparr>grReadyStatus := ConditionTrue,
                      grReadyReason := ReasonReconciliationSucceeded,
                      grReadyMsg := ''Gateway is ready''\<rparr>
               else readiness\<lparr>grReadyReason := ''Progressing'',
                      grReadyMsg := ''Waiting for tunnel deployment(s) to become ready: ''
                        @ joinStr notReady '', ''\<rparr>, w')))"

end
