(* ===== verification/Rollout.thy ===== *)
theory Rollout
  imports Deployments
begin

text \<open>
  What the rolling application of the tunnel Deployments guarantees.  The locale
  \<open>deployment_api\<close> states what the controller relies on of the Kubernetes API: reading a
  Deployment, and server-side apply of an object, which may fail before or after it took
  effect.  \<open>simCluster\<close> is a namespace of Deployments with scheduled failures on which
  everything computes.
\<close>

section \<open>The API the rollout relies on\<close>

text \<open>
  \<open>deps\<close> gives the Deployments of the namespace by name, \<open>applied\<close> says that the fields of an
  object are in place, and \<open>objName\<close> is its \<^verbatim>\<open>metadata.name\<close>.
\<close>

locale deployment_api =
  fixes cl :: "'w cluster"
    and ns :: string
    and deps :: "'w \<Rightarrow> string \<Rightarrow> deployment option"
    and applied :: "'w \<Rightarrow> json \<Rightarrow> bool"
    and objName :: "json \<Rightarrow> string"
  assumes get_law: "clGetDeployment cl (ns, n) w = (r, w') \<Longrightarrow>
      deps w' = deps w \<and> applied w' = applied w \<and> (\<forall>d. r = Inr d \<longrightarrow> deps w n = Some d) \<and>
      (\<forall>e. r = Inl e \<longrightarrow> errNotFound e \<longrightarrow> deps w n = None)"
    and apply_law: "clApply cl ob w = (a, w') \<Longrightarrow>
      (\<forall>n. n \<noteq> objName ob \<longrightarrow> deps w' n = deps w n) \<and>
      (a = Inr UnchangedAction \<longrightarrow> deps w' = deps w \<and> applied w' = applied w \<and> applied w ob)"

text \<open>A Deployment whose rollout has ended, in success or failure.\<close>

definition settled :: "deployment \<Rightarrow> bool" where
  "settled d \<longleftrightarrow> isDeploymentRolledOut d \<or> isProgressDeadlineExceeded d"

text \<open>The built objects carry their Deployment's name: the patches leave it alone.\<close>

definition namesKept ::
  "(json \<Rightarrow> string) \<Rightarrow> json_lib \<Rightarrow> string \<Rightarrow> gateway \<Rightarrow> gateway_params option \<Rightarrow> string
     \<Rightarrow> replica_config list \<Rightarrow> bool" where
  "namesKept objName jl img gw params h rs \<longleftrightarrow>
     (\<forall>r\<in>set rs. \<forall>ob. buildTunnelDeployment jl img gw params r h = Inr ob \<longrightarrow>
        objName ob = GatewayReplicaName gw (repName r))"

text \<open>The Deployments that changed are new, except one, and that one and those before it had
  settled.\<close>

definition rolling ::
  "gateway \<Rightarrow> (string \<Rightarrow> deployment option) \<Rightarrow> (string \<Rightarrow> deployment option)
     \<Rightarrow> replica_config list \<Rightarrow> bool" where
  "rolling gw D D' rs \<longleftrightarrow>
     (\<exists>n. \<forall>m. D m \<noteq> None \<longrightarrow> m \<noteq> n \<longrightarrow> D' m = D m) \<and>
     (\<forall>pre r post d. rs = pre @ r # post \<longrightarrow> D (GatewayReplicaName gw (repName r)) = Some d \<longrightarrow>
        D' (GatewayReplicaName gw (repName r)) \<noteq> Some d \<longrightarrow>
        (\<forall>q\<in>set (pre @ [r]). \<forall>d. D (GatewayReplicaName gw (repName q)) = Some d \<longrightarrow> settled d))"

lemma rolling_same: "\<forall>m. D m \<noteq> None \<longrightarrow> D' m = D m \<Longrightarrow> rolling gw D D' rs"
  by (auto simp: rolling_def)

text \<open>Only the first replica's Deployment changed, and it had settled or was absent.\<close>

lemma rolling_head:
  assumes "\<forall>n. n \<noteq> GatewayReplicaName gw (repName r) \<longrightarrow> D' n = D n"
    and "\<forall>d. D (GatewayReplicaName gw (repName r)) = Some d \<longrightarrow> settled d"
    and "distinct (map repName (r # rs))"
  shows "rolling gw D D' (r # rs)"
  unfolding rolling_def
proof (intro conjI allI impI)
  show "\<exists>n. \<forall>m. D m \<noteq> None \<longrightarrow> m \<noteq> n \<longrightarrow> D' m = D m"
    using assms(1) by (intro exI [of _ "GatewayReplicaName gw (repName r)"]) simp
next
  fix pre q post d
  assume q: "r # rs = pre @ q # post" "D (GatewayReplicaName gw (repName q)) = Some d"
    "D' (GatewayReplicaName gw (repName q)) \<noteq> Some d"
  have "repName q = repName r"
  proof (rule ccontr)
    assume "repName q \<noteq> repName r"
    then have "D' (GatewayReplicaName gw (repName q)) = D (GatewayReplicaName gw (repName q))"
      using assms(1) by simp
    with q(2,3) show False by simp
  qed
  have "pre = []"
  proof (cases pre)
    case (Cons p pre')
    then have "rs = pre' @ q # post" using q(1) by simp
    then have "repName q \<in> set (map repName rs)" by simp
    with \<open>repName q = repName r\<close> assms(3) show ?thesis by simp
  qed simp
  with q(1) show "\<forall>q\<in>set (pre @ [q]). \<forall>d. D (GatewayReplicaName gw (repName q)) = Some d
      \<longrightarrow> settled d"
    using assms(2) by simp
qed

text \<open>The head was left alone or created, and the rest is rolled from there.\<close>

lemma rolling_Cons:
  assumes "rolling gw D1 D' rs" and "\<forall>n. D n \<noteq> None \<longrightarrow> D1 n = D n"
    and "\<forall>d. D (GatewayReplicaName gw (repName r)) = Some d \<longrightarrow> settled d"
    and "\<forall>n. n \<noteq> GatewayReplicaName gw (repName r) \<longrightarrow> D1 n = D n"
  shows "rolling gw D D' (r # rs)"
  unfolding rolling_def
proof (intro conjI allI impI)
  from assms(1) obtain n where "\<forall>m. D1 m \<noteq> None \<longrightarrow> m \<noteq> n \<longrightarrow> D' m = D1 m"
    unfolding rolling_def by blast
  then show "\<exists>n. \<forall>m. D m \<noteq> None \<longrightarrow> m \<noteq> n \<longrightarrow> D' m = D m" using assms(2) by metis
next
  fix pre q post d
  assume q: "r # rs = pre @ q # post" "D (GatewayReplicaName gw (repName q)) = Some d"
    "D' (GatewayReplicaName gw (repName q)) \<noteq> Some d"
  show "\<forall>q\<in>set (pre @ [q]). \<forall>d. D (GatewayReplicaName gw (repName q)) = Some d \<longrightarrow> settled d"
  proof (cases pre)
    case Nil
    with q(1) show ?thesis using assms(3) by simp
  next
    case (Cons p pre')
    with q(1) have "rs = pre' @ q # post" "p = r" by auto
    moreover have "D1 (GatewayReplicaName gw (repName q)) = Some d" using assms(2) q(2) by auto
    ultimately have "\<forall>q\<in>set (pre' @ [q]). \<forall>d. D1 (GatewayReplicaName gw (repName q)) = Some d
        \<longrightarrow> settled d"
      using assms(1) q(3) unfolding rolling_def by blast
    then show ?thesis using assms(2,3) Cons \<open>p = r\<close> by auto
  qed
qed

context deployment_api
begin

lemma applyOne_law:
  assumes "applyOneDeployment cl jl img gw params r h w = (res, w')"
    and "\<forall>ob. buildTunnelDeployment jl img gw params r h = Inr ob \<longrightarrow>
      objName ob = GatewayReplicaName gw (repName r)"
  shows "(\<forall>n. n \<noteq> GatewayReplicaName gw (repName r) \<longrightarrow> deps w' n = deps w n) \<and>
    (res = Inr [] \<longrightarrow> deps w' = deps w \<and> applied w' = applied w \<and>
       (\<exists>ob. buildTunnelDeployment jl img gw params r h = Inr ob \<and> applied w ob))"
proof (cases "buildTunnelDeployment jl img gw params r h")
  case (Inl e)
  then show ?thesis using assms(1) by (auto simp: applyOneDeployment_def)
next
  case (Inr ob)
  obtain a v where a: "clApply cl ob w = (a, v)" by (rule prod.exhaust)
  then have "v = w'" "res = Inr [] \<Longrightarrow> a = Inr UnchangedAction"
    using assms(1) Inr
    by (auto simp: applyOneDeployment_def Let_def split: sum.splits if_splits)
  with apply_law [OF a] assms(2) Inr show ?thesis by auto
qed

text \<open>One step of the loop: it stops before, at, or after the head, or goes on.\<close>

definition stops ::
  "gateway \<Rightarrow> replica_config \<Rightarrow> string list \<Rightarrow> 'w \<Rightarrow> (string list \<times> go_error option) \<times> 'w \<Rightarrow> bool" where
  "stops gw r changes w R \<longleftrightarrow>
     (\<exists>eo w'. R = ((changes, eo), w') \<and> deps w' = deps w \<and>
        (eo = None \<longrightarrow> (\<exists>d. deps w (GatewayReplicaName gw (repName r)) = Some d \<and> \<not> settled d)))"

definition stopsAt ::
  "gateway \<Rightarrow> replica_config \<Rightarrow> string list \<Rightarrow> 'w \<Rightarrow> (string list \<times> go_error option) \<times> 'w \<Rightarrow> bool" where
  "stopsAt gw r changes w R \<longleftrightarrow>
     (\<forall>d. deps w (GatewayReplicaName gw (repName r)) = Some d \<longrightarrow> settled d) \<and>
     (\<exists>cs eo w'. R = ((changes @ cs, eo), w') \<and> (cs = [] \<longrightarrow> eo \<noteq> None) \<and>
        (\<forall>n. n \<noteq> GatewayReplicaName gw (repName r) \<longrightarrow> deps w' n = deps w n))"

definition continues ::
  "gateway \<Rightarrow> replica_config \<Rightarrow> string list \<Rightarrow> 'w \<Rightarrow> string list \<Rightarrow> 'w \<Rightarrow> bool" where
  "continues gw r changes w changes1 w1 \<longleftrightarrow>
     (\<forall>d. deps w (GatewayReplicaName gw (repName r)) = Some d \<longrightarrow> settled d) \<and>
     (\<forall>n. deps w n \<noteq> None \<longrightarrow> deps w1 n = deps w n) \<and>
     (\<forall>n. n \<noteq> GatewayReplicaName gw (repName r) \<longrightarrow> deps w1 n = deps w n) \<and>
     (\<exists>cs. changes1 = changes @ cs \<and> (cs = [] \<longrightarrow> deps w1 = deps w \<and> applied w1 = applied w))"

lemma applyLoop_step:
  assumes "\<forall>ob. buildTunnelDeployment jl img gw params r h = Inr ob \<longrightarrow>
      objName ob = GatewayReplicaName gw (repName r)" and "gwNamespace gw = ns"
  shows "stops gw r changes w (applyDeploymentsLoop cl jl img gw params h (r # rs) changes w) \<or>
    stopsAt gw r changes w (applyDeploymentsLoop cl jl img gw params h (r # rs) changes w) \<or>
    (\<exists>changes1 w1. continues gw r changes w changes1 w1 \<and>
       (changes1 = changes \<longrightarrow>
          (\<exists>ob. buildTunnelDeployment jl img gw params r h = Inr ob \<and> applied w ob)) \<and>
       applyDeploymentsLoop cl jl img gw params h (r # rs) changes w =
         applyDeploymentsLoop cl jl img gw params h rs changes1 w1)"
proof -
  let ?n = "GatewayReplicaName gw (repName r)"
  obtain g w1 where G: "clGetDeployment cl (ns, ?n) w = (g, w1)" by (rule prod.exhaust)
  obtain res w2 where A: "applyOneDeployment cl jl img gw params r h w1 = (res, w2)"
    by (rule prod.exhaust)
  note g = get_law [OF G]
  note a = applyOne_law [OF A assms(1)]
  show ?thesis
  proof (cases g)
    case (Inl e)
    show ?thesis
    proof (cases "errNotFound e")
      case False
      then have "stops gw r changes w (applyDeploymentsLoop cl jl img gw params h (r # rs) changes w)"
        using G Inl g assms(2) by (auto simp: stops_def Let_def)
      then show ?thesis by blast
    next
      case True
      with g Inl have absent: "deps w ?n = None" by simp
      show ?thesis
      proof (cases res)
        case (Inl e')
        then have "stopsAt gw r changes w
            (applyDeploymentsLoop cl jl img gw params h (r # rs) changes w)"
          using G \<open>g = Inl e\<close> True A g a absent assms(2) by (auto simp: stopsAt_def Let_def)
        then show ?thesis by blast
      next
        case (Inr c)
        let ?cs = "if c \<noteq> [] then changes @ [c] else changes"
        have "applyDeploymentsLoop cl jl img gw params h (r # rs) changes w =
            applyDeploymentsLoop cl jl img gw params h rs ?cs w2"
          using G \<open>g = Inl e\<close> True A Inr assms(2) by (simp add: Let_def)
        moreover have keep: "deps w2 n = deps w n" if "deps w n \<noteq> None" for n
        proof -
          have "n \<noteq> ?n" using that absent by auto
          then show ?thesis using g a by simp
        qed
        then have "continues gw r changes w ?cs w2"
          unfolding continues_def using g a absent Inr by auto
        moreover have "?cs = changes \<longrightarrow>
            (\<exists>ob. buildTunnelDeployment jl img gw params r h = Inr ob \<and> applied w ob)"
          using g a Inr by auto
        ultimately show ?thesis by blast
      qed
    qed
  next
    case (Inr d)
    with g have d: "deps w ?n = Some d" by simp
    show ?thesis
    proof (cases "settled d")
      case False
      then have "stops gw r changes w (applyDeploymentsLoop cl jl img gw params h (r # rs) changes w)"
        using G Inr g assms(2) d by (auto simp: stops_def settled_def Let_def)
      then show ?thesis by blast
    next
      case True
      show ?thesis
      proof (cases "res = Inr []")
        case False
        then have "stopsAt gw r changes w
            (applyDeploymentsLoop cl jl img gw params h (r # rs) changes w)"
          using G Inr A g a d True assms(2)
          by (auto simp: stopsAt_def settled_def Let_def split: sum.splits)
        then show ?thesis by blast
      next
        case unchanged: True
        have "applyDeploymentsLoop cl jl img gw params h (r # rs) changes w =
            applyDeploymentsLoop cl jl img gw params h rs changes w2"
          using G Inr A True unchanged assms(2) by (auto simp: settled_def Let_def)
        moreover have "continues gw r changes w changes w2"
          using g a d True unchanged by (auto simp: continues_def)
        moreover have "\<exists>ob. buildTunnelDeployment jl img gw params r h = Inr ob \<and> applied w ob"
          using g a unchanged by auto
        ultimately show ?thesis by blast
      qed
    qed
  qed
qed

lemma applyLoop_rolling:
  assumes "namesKept objName jl img gw params h rs" and "distinct (map repName rs)"
    and "gwNamespace gw = ns"
    and "applyDeploymentsLoop cl jl img gw params h rs changes w = ((changes', eo), w')"
  shows "rolling gw (deps w) (deps w') rs \<and>
    (\<exists>cs. changes' = changes @ cs \<and> (cs = [] \<longrightarrow> eo = None \<longrightarrow>
       (\<forall>r\<in>set rs. \<forall>d. deps w (GatewayReplicaName gw (repName r)) = Some d \<longrightarrow> settled d) \<longrightarrow>
       deps w' = deps w \<and>
       (\<forall>r\<in>set rs. \<exists>ob. buildTunnelDeployment jl img gw params r h = Inr ob \<and> applied w ob)))"
  using assms
proof (induction rs arbitrary: changes w)
  case Nil
  then show ?case by (auto intro!: rolling_same)
next
  case (Cons r rs)
  let ?n = "GatewayReplicaName gw (repName r)"
  have names: "\<forall>ob. buildTunnelDeployment jl img gw params r h = Inr ob \<longrightarrow> objName ob = ?n"
    and rest: "namesKept objName jl img gw params h rs" "distinct (map repName rs)"
    using Cons.prems(1,2) by (auto simp: namesKept_def)
  consider
      (before) "stops gw r changes w ((changes', eo), w')"
    | (at) "stopsAt gw r changes w ((changes', eo), w')"
    | (on) changes1 w1 where "continues gw r changes w changes1 w1"
        "changes1 = changes \<longrightarrow>
           (\<exists>ob. buildTunnelDeployment jl img gw params r h = Inr ob \<and> applied w ob)"
        "applyDeploymentsLoop cl jl img gw params h rs changes1 w1 = ((changes', eo), w')"
    using applyLoop_step [OF names Cons.prems(3), of changes w rs] Cons.prems(4) by metis
  then show ?case
  proof cases
    case before
    then show ?thesis by (auto simp: stops_def intro!: rolling_same)
  next
    case at
    then obtain cs where cs: "changes' = changes @ cs" "cs = [] \<longrightarrow> eo \<noteq> None"
      unfolding stopsAt_def by blast
    have "rolling gw (deps w) (deps w') (r # rs)"
      using at Cons.prems(2) unfolding stopsAt_def by (intro rolling_head) blast+
    with cs show ?thesis by blast
  next
    case on
    note ih = Cons.IH [OF rest Cons.prems(3) on(3)]
    have "rolling gw (deps w) (deps w') (r # rs)"
      using ih on(1) unfolding continues_def by (intro rolling_Cons) blast+
    moreover obtain cs1 cs2 where cs: "changes1 = changes @ cs1" "changes' = changes1 @ cs2"
      "cs1 = [] \<longrightarrow> deps w1 = deps w \<and> applied w1 = applied w"
      using ih on(1) unfolding continues_def by blast
    moreover have "cs1 @ cs2 = [] \<longrightarrow> eo = None \<longrightarrow>
       (\<forall>q\<in>set (r # rs). \<forall>d. deps w (GatewayReplicaName gw (repName q)) = Some d \<longrightarrow> settled d) \<longrightarrow>
       deps w' = deps w \<and>
       (\<forall>q\<in>set (r # rs). \<exists>ob. buildTunnelDeployment jl img gw params q h = Inr ob \<and> applied w ob)"
      using ih on(2) cs by auto
    ultimately show ?thesis by auto
  qed
qed

end
section \<open>A namespace of Deployments\<close>

text \<open>
  The Deployments with the object last applied, and a schedule of failures of the applying:
  0 for none, 1 for a request that is refused, 2 for an answer that is lost.
\<close>

record sim_ns =
  snDeps :: "(string \<times> deployment \<times> json) list"
  snFaults :: "nat list"

fun jsonName :: "json \<Rightarrow> string" where
  "jsonName (JObj ob) =
     (case Option.bind (jsonMember ob ''metadata'') (\<lambda>m. map_of m ''name'') of
        Some (JStr s) \<Rightarrow> s
      | _ \<Rightarrow> [])"
| "jsonName j = []"

definition freshDeployment :: "string \<Rightarrow> deployment" where
  "freshDeployment n =
     \<lparr>dpName = n, dpGeneration = 1, dpObservedGeneration = 0, dpReplicas = Some 1,
      dpStatusReplicas = 0, dpUpdatedReplicas = 0, dpReadyReplicas = 0,
      dpTemplateAnnotations = Map.empty, dpConditions = []\<rparr>"

definition simEffect :: "json \<Rightarrow> sim_ns \<Rightarrow> string \<times> sim_ns" where
  "simEffect ob w =
     (let n = jsonName ob
      in case map_of (snDeps w) n of
           None \<Rightarrow> (''created'', w\<lparr>snDeps := (n, freshDeployment n, ob) # snDeps w\<rparr>)
         | Some (d, old) \<Rightarrow>
             if old = ob then (UnchangedAction, w)
             else (''configured'', w\<lparr>snDeps :=
                     AList.update n (d\<lparr>dpGeneration := dpGeneration d + 1\<rparr>, ob) (snDeps w)\<rparr>))"

definition simApply :: "json \<Rightarrow> sim_ns \<Rightarrow> (go_error + string) \<times> sim_ns" where
  "simApply ob w =
     (let w0 = w\<lparr>snFaults := tl (snFaults w)\<rparr>; f = (case snFaults w of [] \<Rightarrow> 0 | f # fs \<Rightarrow> f)
      in if f = 1 then (Inl (ErrText ''refused''), w0)
         else if f = 2 then (Inl (ErrText ''timeout''), snd (simEffect ob w0))
         else (case simEffect ob w0 of (a, w1) \<Rightarrow> (Inr a, w1)))"

definition simGetDeployment ::
  "namespaced_name \<Rightarrow> sim_ns \<Rightarrow> (go_error + deployment) \<times> sim_ns" where
  "simGetDeployment key w =
     (case map_of (snDeps w) (snd key) of
        None \<Rightarrow> (Inl (ErrKube KNotFound ''not found''), w)
      | Some (d, ob) \<Rightarrow> (Inr d, w))"

definition simDeps :: "sim_ns \<Rightarrow> string \<Rightarrow> deployment option" where
  "simDeps w n = map_option fst (map_of (snDeps w) n)"

definition simApplied :: "sim_ns \<Rightarrow> json \<Rightarrow> bool" where
  "simApplied w ob = (map_option snd (map_of (snDeps w) (jsonName ob)) = Some ob)"

text \<open>The other operations of the API are not called by the rollout; they do nothing.\<close>

definition simCluster :: "sim_ns cluster" where
  "simCluster =
     \<lparr>clNow = \<lambda>w. (0, w), clRand32 = \<lambda>w. (Inr [], w), clWaitSecond = \<lambda>w. (None, w),
      clEvent = \<lambda>e w. w, clList = \<lambda>k n l w. (Inr [], w),
      clGet = \<lambda>k n w. (Inl (ErrKube KNotFound ''not found''), w), clPatch = \<lambda>a b w. (None, w),
      clDelete = \<lambda>a w. (None, w), clGetDeployment = simGetDeployment, clApply = simApply,
      clCreateOrUpdateSecret = \<lambda>s f w. (Inr OperationResultNone, w),
      clCreateOrUpdateConfigMap = \<lambda>s f w. (Inr OperationResultNone, w),
      clGetSecret = \<lambda>n w. (Inr Map.empty, w),
      clGetParams = \<lambda>n w. (Inl (ErrKube KNotFound ''not found''), w),
      clGetGateway = \<lambda>n w. (Inl (ErrKube KNotFound ''not found''), w),
      clPatchGateway = \<lambda>a b w. (None, w), clPatchGatewayStatus = \<lambda>a b w. (None, w),
      clGetClass = \<lambda>n w. (Inl (ErrKube KNotFound ''not found''), w),
      clListClasses = \<lambda>f w. (Inr [], w), clPatchClass = \<lambda>a b w. (None, w),
      clPatchClassStatus = \<lambda>a b w. (None, w), clListHTTPRoutes = \<lambda>k w. (Inr [], w),
      clListGRPCRoutes = \<lambda>k w. (Inr [], w),
      clGetCGS = \<lambda>n w. (Inl (ErrKube KNotFound ''not found''), w),
      clCreateCGS = \<lambda>c w. (None, w), clPatchCGS = \<lambda>a b w. (None, w),
      clPatchCGSStatus = \<lambda>a b w. (None, w)\<rparr>"

lemma simEffect_law:
  "simEffect ob w = (a, w') \<Longrightarrow> (\<forall>n. n \<noteq> jsonName ob \<longrightarrow> simDeps w' n = simDeps w n) \<and>
     (a = UnchangedAction \<longrightarrow> snDeps w' = snDeps w \<and> simApplied w ob)"
  by (auto simp: simEffect_def simDeps_def simApplied_def AList.update_conv' Let_def
      split: option.splits if_splits)

interpretation sim: deployment_api simCluster ns simDeps simApplied jsonName
proof
  fix n r and w w' :: sim_ns
  assume "clGetDeployment simCluster (ns, n) w = (r, w')"
  then show "simDeps w' = simDeps w \<and> simApplied w' = simApplied w \<and>
      (\<forall>d. r = Inr d \<longrightarrow> simDeps w n = Some d) \<and>
      (\<forall>e. r = Inl e \<longrightarrow> errNotFound e \<longrightarrow> simDeps w n = None)"
    by (auto simp: simCluster_def simGetDeployment_def simDeps_def split: option.splits)
next
  fix ob a and w w' :: sim_ns
  assume ap: "clApply simCluster ob w = (a, w')"
  obtain b v where e: "simEffect ob (w\<lparr>snFaults := tl (snFaults w)\<rparr>) = (b, v)"
    by (rule prod.exhaust)
  have cong: "simDeps (w\<lparr>snFaults := fs\<rparr>) = simDeps w" "simApplied (w\<lparr>snFaults := fs\<rparr>) = simApplied w"
    for fs by (simp_all add: simDeps_def simApplied_def fun_eq_iff)
  have same: "simDeps v = simDeps w" "simApplied v = simApplied w" if "snDeps v = snDeps w"
    using that by (simp_all add: simDeps_def simApplied_def fun_eq_iff)
  show "(\<forall>n. n \<noteq> jsonName ob \<longrightarrow> simDeps w' n = simDeps w n) \<and>
      (a = Inr UnchangedAction \<longrightarrow> simDeps w' = simDeps w \<and> simApplied w' = simApplied w \<and>
         simApplied w ob)"
    using ap e simEffect_law [OF e] same
    by (auto simp: simCluster_def simApply_def Let_def cong split: if_splits)
qed

section \<open>Properties\<close>

text \<open>
  C21. One rollout at a time, whatever fails: of the Deployments that exist, applying the
  replicas changes one at most; and if it changes one, that Deployment and the Deployments of
  all replicas before it had settled, that is, were rolled out or past their progress
  deadline.  If every Deployment had settled and no change and no error is reported, then
  every replica's Deployment is as built.
\<close>

theorem applyTunnelDeployments_rolling:
  assumes "deployment_api cl (gwNamespace gw) deps applied objName"
    and "namesKept objName jl img gw params h replicas" and "distinct (map repName replicas)"
    and "applyTunnelDeployments cl jl img gw params replicas h w = ((changes, eo), w')"
  shows "rolling gw (deps w) (deps w') replicas \<and>
    (changes = [] \<longrightarrow> eo = None \<longrightarrow>
       (\<forall>r\<in>set replicas. \<forall>d. deps w (GatewayReplicaName gw (repName r)) = Some d \<longrightarrow> settled d) \<longrightarrow>
       (\<forall>r\<in>set replicas. \<exists>ob. buildTunnelDeployment jl img gw params r h = Inr ob \<and> applied w ob))"
  using deployment_api.applyLoop_rolling [OF assms(1-3) refl assms(4) [unfolded
      applyTunnelDeployments_def]] by auto

text \<open>A JSON library in which a document is the name and the token hash, with a bar between them.\<close>

definition lineJson :: json_lib where
  "lineJson =
     \<lparr>jlMarshalDeployment = \<lambda>d. Inr (daName d @ ''|'' @
        (case daTemplateAnnotations d of None \<Rightarrow> [] | Some m \<Rightarrow> mapGet m AnnotationTokenHash)),
      jlMarshalPatches = \<lambda>ps. Inr [], jlDecodePatch = \<lambda>s. Inr Inr,
      jlMarshalAffinity = \<lambda>a. Inr [], jlUnmarshalMap = \<lambda>s. Inr [], jlMarshalMap = \<lambda>m. Inr [],
      jlUnmarshalUnstructured = \<lambda>s. Inr [(''metadata'', JObj [(''name'',
         JStr (takeWhile (\<lambda>c. c \<noteq> CHR ''|'') s))]), (''hash'',
         JStr (dropWhile (\<lambda>c. c \<noteq> CHR ''|'') s))],
      jlRoundTripResources = \<lambda>s. Inl (ErrText [])\<rparr>"

definition demoReplica :: "string \<Rightarrow> replica_config" where
  "demoReplica n = \<lparr>repName = n, repZone = [], repNodeSelector = [], repAffinity = None\<rparr>"

definition rolledOut :: "string \<Rightarrow> deployment" where
  "rolledOut n = (freshDeployment n)\<lparr>dpObservedGeneration := 1, dpStatusReplicas := 1,
     dpUpdatedReplicas := 1, dpReadyReplicas := 1\<rparr>"

text \<open>Two rolled out Deployments with the hash of an old token.\<close>

definition twoDeployments :: sim_ns where
  "twoDeployments =
     \<lparr>snDeps = map (\<lambda>n. (n, rolledOut n, JObj [(''metadata'', JObj [(''name'', JStr n)])]))
        [''gateway-g-a'', ''gateway-g-b''], snFaults = []\<rparr>"

lemma daName_build: "daName (buildTunnelDeploymentApply jl img gw params r h) =
    GatewayReplicaName gw (repName r)"
  by (simp add: buildTunnelDeploymentApply_def Let_def)

lemma demo_namesKept:
  "namesKept jsonName lineJson [] (namedGateway ''ns'' ''g'') None h [demoReplica ''a'', demoReplica ''b'']"
  by (simp add: namesKept_def buildTunnelDeployment_def daName_build lineJson_def
      applyPatches_def applyPlacementOverrides_def demoReplica_def jsonMember_def
      GatewayReplicaName_def GatewayResourceName_def namedGateway_def Let_def takeWhile_append)

lemma demo_rollout:
  "fst (applyTunnelDeployments simCluster lineJson [] (namedGateway ''ns'' ''g'') None
      [demoReplica ''a'', demoReplica ''b''] ''new'' twoDeployments) =
   ([''tunnel Deployment gateway-g-a configured''], None)"
  by code_simp

theorem applyTunnelDeployments_rolling_witness:
  "(let w' = snd (applyTunnelDeployments simCluster lineJson [] (namedGateway ''ns'' ''g'') None
        [demoReplica ''a'', demoReplica ''b''] ''new'' twoDeployments)
    in rolling (namedGateway ''ns'' ''g'') (simDeps twoDeployments) (simDeps w')
         [demoReplica ''a'', demoReplica ''b''])"
proof -
  have "applyTunnelDeployments simCluster lineJson [] (namedGateway ''ns'' ''g'') None
      [demoReplica ''a'', demoReplica ''b''] ''new'' twoDeployments =
    (([''tunnel Deployment gateway-g-a configured''], None),
     snd (applyTunnelDeployments simCluster lineJson [] (namedGateway ''ns'' ''g'') None
      [demoReplica ''a'', demoReplica ''b''] ''new'' twoDeployments))"
    by (metis demo_rollout prod.collapse)
  from applyTunnelDeployments_rolling [OF sim.deployment_api_axioms demo_namesKept _ this]
  show ?thesis by (simp add: demoReplica_def Let_def)
qed

end
