(* ===== verification/DeploymentProps.thy ===== *)
theory DeploymentProps
  imports Rollout
begin

text \<open>
  The readiness of a Gateway from its Deployments, and the placement of a replica on top of
  the user's patches.
\<close>

section \<open>Readiness\<close>

text \<open>An answer that shows a Deployment rolled out with the token, or past its deadline.\<close>

definition readyWith :: "string \<Rightarrow> go_error + deployment \<Rightarrow> bool" where
  "readyWith h res = (case res of Inl err \<Rightarrow> False
     | Inr d \<Rightarrow> mapGet (dpTemplateAnnotations d) AnnotationTokenHash = h \<and> isDeploymentRolledOut d)"

definition exceededIn :: "go_error + deployment \<Rightarrow> bool" where
  "exceededIn res = (case res of Inl err \<Rightarrow> False | Inr d \<Rightarrow> isProgressDeadlineExceeded d)"

lemma readinessLoop_spec:
  assumes "\<forall>n v. Inv v \<longrightarrow> (\<exists>v'. clGetDeployment cl (gwNamespace gw, n) v = (cur n, v') \<and> Inv v')"
    and "Inv w"
  shows "let ans = (\<lambda>r. cur (GatewayReplicaName gw (repName r))) in
    \<exists>w'. Inv w' \<and> readinessLoop cl gw h rs (allOut, exc, names) w =
      ((allOut \<and> (\<forall>r\<in>set rs. exceededIn (ans r) \<or> readyWith h (ans r)),
        exc \<or> (\<exists>r\<in>set rs. exceededIn (ans r)),
        names @ map (\<lambda>r. GatewayReplicaName gw (repName r))
          (filter (\<lambda>r. exceededIn (ans r) \<or> \<not> readyWith h (ans r)) rs)), w')"
  using assms(2)
proof (induction rs arbitrary: allOut exc names w)
  case Nil
  then show ?case by (auto simp: Let_def)
next
  case (Cons r rs)
  obtain v where v: "clGetDeployment cl (gwNamespace gw, GatewayReplicaName gw (repName r)) w =
      (cur (GatewayReplicaName gw (repName r)), v)" "Inv v"
    using assms(1) Cons.prems by blast
  note ih = Cons.IH [OF v(2), unfolded Let_def]
  show ?case
    using v(1) ih [of allOut True "names @ [GatewayReplicaName gw (repName r)]"]
      ih [of False exc "names @ [GatewayReplicaName gw (repName r)]"] ih [of allOut exc names]
    by (auto simp: Let_def readyWith_def exceededIn_def split: sum.splits)
qed

text \<open>
  C23. Readiness is exact, as long as the Deployments stand still while they are read: the
  Gateway is Ready exactly when every replica's Deployment carries the hash of the current
  token, is rolled out and is not past its progress deadline; it has failed exactly when one
  is past its deadline; an absent or unreadable Deployment is never ready.  Programmed is
  always true, and the message lists the Deployments that are not ready in the replicas' order
  (when one is past its deadline, those still rolling out as well).
\<close>

theorem readiness_exact:
  assumes "\<forall>n v. Inv v \<longrightarrow> (\<exists>v'. clGetDeployment cl (gwNamespace gw, n) v = (cur n, v') \<and> Inv v')"
    and "Inv w" and "checkAllDeploymentsReadiness cl gw replicas h w = (rd, w')"
  shows "let ans = (\<lambda>r. cur (GatewayReplicaName gw (repName r)));
           notReady = map (\<lambda>r. GatewayReplicaName gw (repName r))
             (filter (\<lambda>r. exceededIn (ans r) \<or> \<not> readyWith h (ans r)) replicas)
    in (grReadyStatus rd = ConditionTrue \<longleftrightarrow>
          (\<forall>r\<in>set replicas. readyWith h (ans r) \<and> \<not> exceededIn (ans r)))
     \<and> (grReadyStatus rd = ConditionFalse \<longleftrightarrow> (\<exists>r\<in>set replicas. exceededIn (ans r)))
     \<and> (grReadyStatus rd = ConditionUnknown \<longleftrightarrow> grReadyReason rd = ''Progressing'')
     \<and> grProgrammedStatus rd = ConditionTrue
     \<and> (grReadyStatus rd \<noteq> ConditionTrue \<longrightarrow> (\<exists>text. grReadyMsg rd = text @ joinStr notReady '', ''))"
proof -
  obtain v where v: "readinessLoop cl gw h replicas (True, False, []) w =
      (((\<forall>r\<in>set replicas. exceededIn (cur (GatewayReplicaName gw (repName r))) \<or>
            readyWith h (cur (GatewayReplicaName gw (repName r)))),
        (\<exists>r\<in>set replicas. exceededIn (cur (GatewayReplicaName gw (repName r)))),
        map (\<lambda>r. GatewayReplicaName gw (repName r))
          (filter (\<lambda>r. exceededIn (cur (GatewayReplicaName gw (repName r))) \<or>
             \<not> readyWith h (cur (GatewayReplicaName gw (repName r)))) replicas)), v)"
    using readinessLoop_spec [OF assms(1,2), of h replicas True False "[]"] by (auto simp: Let_def)
  have rd: "rd = fst (checkAllDeploymentsReadiness cl gw replicas h w)" using assms(3) by simp
  show ?thesis
    by (auto simp: rd checkAllDeploymentsReadiness_def v Let_def)
qed

text \<open>A Deployment with the token and one with an older one: the Gateway is progressing.\<close>

definition hashed :: "string \<Rightarrow> string \<Rightarrow> deployment" where
  "hashed n h = (rolledOut n)\<lparr>dpTemplateAnnotations := [AnnotationTokenHash \<mapsto> h]\<rparr>"

definition mixedDeployments :: sim_ns where
  "mixedDeployments =
     \<lparr>snDeps = [(''gateway-g-a'', hashed ''gateway-g-a'' ''new'', JNull),
                (''gateway-g-b'', hashed ''gateway-g-b'' ''old'', JNull)], snFaults = []\<rparr>"

theorem readiness_exact_witness:
  "grReadyStatus (fst (checkAllDeploymentsReadiness simCluster (namedGateway ''ns'' ''g'')
      [demoReplica ''a'', demoReplica ''b''] ''new'' mixedDeployments)) \<noteq> ConditionTrue"
proof -
  let ?cur = "\<lambda>n. fst (simGetDeployment (''ns'', n) mixedDeployments)"
  have cur: "\<forall>n v. v = mixedDeployments \<longrightarrow>
      (\<exists>v'. clGetDeployment simCluster (gwNamespace (namedGateway ''ns'' ''g''), n) v = (?cur n, v')
         \<and> v' = mixedDeployments)"
    by (auto simp: simCluster_def simGetDeployment_def namedGateway_def split: option.splits)
  have "\<not> readyWith ''new'' (?cur (GatewayReplicaName (namedGateway ''ns'' ''g'') (repName (demoReplica ''b''))))"
    by (simp add: simGetDeployment_def mixedDeployments_def GatewayReplicaName_def
        GatewayResourceName_def namedGateway_def demoReplica_def readyWith_def hashed_def mapGet_def
        rolledOut_def freshDeployment_def)
  then show ?thesis
    using readiness_exact [where replicas = "[demoReplica ''a'', demoReplica ''b'']"
        and h = "''new''", OF cur refl prod.collapse [symmetric]]
    by (simp add: Let_def)
qed

section \<open>Placement\<close>

lemma jsonMember_set:
  "jsonMember (jsonSet k (JObj v) m) k' = (if k' = k then Some v else jsonMember m k')"
  by (simp add: jsonMember_def AList.update_conv')

lemma map_of_jsonSet: "map_of (jsonSet k v m) k' = (if k' = k then Some v else map_of m k')"
  by (simp add: AList.update_conv')

lemma jsonMember_Some: "jsonMember m k = Some m' \<longleftrightarrow> map_of m k = Some (JObj m')"
  by (auto simp: jsonMember_def split: option.splits json.splits)

lemma navigateToPodSpec_Inr:
  "navigateToPodSpec jl data = Inr podSpec \<longleftrightarrow>
     (\<exists>deploy spec template. jlUnmarshalMap jl data = Inr deploy \<and>
        jsonMember deploy ''spec'' = Some spec \<and> jsonMember spec ''template'' = Some template \<and>
        jsonMember template ''spec'' = Some podSpec)"
  by (auto simp: navigateToPodSpec_def split: sum.splits option.splits)

lemma navigateToPodSpec_Inl: "navigateToPodSpec jl data = Inl e \<Longrightarrow> errTerminal e"
  by (auto simp: navigateToPodSpec_def split: sum.splits option.splits)

lemma setAffinity_Inl: "setAffinity jl what aff podSpec = Inl e \<Longrightarrow> errTerminal e"
  by (auto simp: setAffinity_def split: sum.splits)

text \<open>The affinity a replica asks for, and the decoding of it.\<close>

definition affinityFor :: "replica_config \<Rightarrow> affinity_spec option" where
  "affinityFor r = (case repAffinity r of Some a \<Rightarrow> Some (UserAffinity a)
     | None \<Rightarrow> if repZone r \<noteq> []
         then Some (ZoneAffinity ''topology.kubernetes.io/zone'' ''In'' [repZone r]) else None)"

definition affinityJSON :: "json_lib \<Rightarrow> affinity_spec \<Rightarrow> json \<Rightarrow> bool" where
  "affinityJSON jl aff j \<longleftrightarrow>
     (\<exists>text m. jlMarshalAffinity jl aff = Inr text \<and> jlUnmarshalMap jl text = Inr m \<and> j = JObj m)"

lemma setAffinity_Inr:
  "setAffinity jl what aff podSpec = Inr p \<longleftrightarrow>
     (\<exists>j. affinityJSON jl aff j \<and> p = jsonSet ''affinity'' j podSpec)"
  by (auto simp: setAffinity_def affinityJSON_def split: sum.splits)

text \<open>The pod spec after the placement.\<close>

definition placedPodSpec :: "json_lib \<Rightarrow> replica_config \<Rightarrow> json_object \<Rightarrow> json_object \<Rightarrow> bool" where
  "placedPodSpec jl r pod pod' \<longleftrightarrow>
     (\<forall>k. k \<noteq> ''affinity'' \<longrightarrow> k \<noteq> ''nodeSelector'' \<longrightarrow> map_of pod' k = map_of pod k) \<and>
     (case affinityFor r of
        None \<Rightarrow> map_of pod' ''affinity'' = map_of pod ''affinity''
      | Some aff \<Rightarrow> (\<exists>j. affinityJSON jl aff j \<and> map_of pod' ''affinity'' = Some j)) \<and>
     map_of pod' ''nodeSelector'' =
       (if repNodeSelector r = [] then map_of pod ''nodeSelector''
        else Some (JObj (map (\<lambda>(k, v). (k, JStr v)) (repNodeSelector r))))"

text \<open>The steps of the placement, in two parts.\<close>

definition placePodSpec :: "json_lib \<Rightarrow> replica_config \<Rightarrow> json_object \<Rightarrow> go_error + json_object" where
  "placePodSpec jl r podSpec =
     (case (case repAffinity r of
              Some a \<Rightarrow> setAffinity jl ''replica'' (UserAffinity a) podSpec
            | None \<Rightarrow>
                if repZone r \<noteq> []
                then setAffinity jl ''zone''
                       (ZoneAffinity ''topology.kubernetes.io/zone'' ''In'' [repZone r]) podSpec
                else Inr podSpec) of
        Inl err \<Rightarrow> Inl err
      | Inr podSpec1 \<Rightarrow>
          Inr (if 0 < length (repNodeSelector r)
               then jsonSet ''nodeSelector''
                      (JObj (map (\<lambda>(k, v). (k, JStr v)) (repNodeSelector r))) podSpec1
               else podSpec1))"

lemma placePodSpec_Inr:
  assumes "placePodSpec jl r pod = Inr pod'"
  shows "placedPodSpec jl r pod pod'"
proof -
  have ne: "''affinity'' \<noteq> ''nodeSelector''" by simp
  consider (user) a j where "repAffinity r = Some a" "affinityJSON jl (UserAffinity a) j"
      "pod' = (if 0 < length (repNodeSelector r)
               then jsonSet ''nodeSelector''
                      (JObj (map (\<lambda>(k, v). (k, JStr v)) (repNodeSelector r)))
                      (jsonSet ''affinity'' j pod) else jsonSet ''affinity'' j pod)"
    | (zone) j where "repAffinity r = None" "repZone r \<noteq> []"
      "affinityJSON jl (ZoneAffinity ''topology.kubernetes.io/zone'' ''In'' [repZone r]) j"
      "pod' = (if 0 < length (repNodeSelector r)
               then jsonSet ''nodeSelector''
                      (JObj (map (\<lambda>(k, v). (k, JStr v)) (repNodeSelector r)))
                      (jsonSet ''affinity'' j pod) else jsonSet ''affinity'' j pod)"
    | (none) "repAffinity r = None" "repZone r = []"
      "pod' = (if 0 < length (repNodeSelector r)
               then jsonSet ''nodeSelector''
                      (JObj (map (\<lambda>(k, v). (k, JStr v)) (repNodeSelector r))) pod else pod)"
    using assms
    by (auto simp: placePodSpec_def setAffinity_Inr split: option.splits sum.splits if_splits)
  then show ?thesis
    by cases (auto simp: placedPodSpec_def affinityFor_def map_of_jsonSet ne)
qed

lemma placePodSpec_Inl: "placePodSpec jl r pod = Inl e \<Longrightarrow> errTerminal e"
  by (auto simp: placePodSpec_def split: option.splits sum.splits if_splits dest: setAffinity_Inl)

lemma applyPlacementOverrides_split:
  assumes "repAffinity r \<noteq> None \<or> repZone r \<noteq> [] \<or> repNodeSelector r \<noteq> []"
  shows "applyPlacementOverrides jl data r =
    (case navigateToPodSpec jl data of
       Inl err \<Rightarrow> Inl err
     | Inr podSpec \<Rightarrow>
         (case placePodSpec jl r podSpec of
            Inl err \<Rightarrow> Inl err
          | Inr podSpec2 \<Rightarrow>
              (case jlUnmarshalMap jl data of
                 Inl err \<Rightarrow> Inl (ErrTerminal
                   (ErrWrap ''unmarshaling deployment for placement overrides: '' err))
               | Inr deploy \<Rightarrow>
                   (case jsonMember deploy ''spec'' of
                      None \<Rightarrow> Inl assertionPanic
                    | Some spec \<Rightarrow>
                        (case jsonMember spec ''template'' of
                           None \<Rightarrow> Inl assertionPanic
                         | Some template \<Rightarrow>
                             jlMarshalMap jl
                               (jsonSet ''spec'' (JObj (jsonSet ''template''
                                  (JObj (jsonSet ''spec'' (JObj podSpec2) template)) spec)) deploy))))))"
proof -
  have "\<not> (\<not> (repAffinity r \<noteq> None \<or> repZone r \<noteq> []) \<and> \<not> 0 < length (repNodeSelector r))"
    using assms by auto
  then show ?thesis
    unfolding applyPlacementOverrides_def placePodSpec_def Let_def
    by (auto split: sum.splits)
qed


text \<open>
  A document with a service account, placed in a zone: texts stand for two documents and the
  affinity.
\<close>

definition plainDoc :: json_object where
  "plainDoc = [(''spec'', JObj [(''template'', JObj [(''spec'',
     JObj [(''serviceAccountName'', JStr ''sa'')])])])]"

definition zonedDoc :: json_object where
  "zonedDoc = [(''spec'', JObj [(''template'', JObj [(''spec'',
     JObj [(''serviceAccountName'', JStr ''sa''), (''affinity'', JObj [(''zone'', JStr ''z'')])])])])]"

definition tableJson :: json_lib where
  "tableJson = lineJson\<lparr>
     jlMarshalAffinity := \<lambda>a. Inr ''affinity'',
     jlUnmarshalMap := \<lambda>s. if s = ''plain'' then Inr plainDoc else if s = ''zoned'' then Inr zonedDoc
       else if s = ''affinity'' then Inr [(''zone'', JStr ''z'')] else Inl (ErrText ''invalid''),
     jlMarshalMap := \<lambda>m. if m = zonedDoc then Inr ''zoned'' else Inl (ErrText ''unknown'')\<rparr>"

lemma demo_placement:
  "applyPlacementOverrides tableJson ''plain'' (demoReplica ''a''\<lparr>repZone := ''z''\<rparr>) = Inr ''zoned''"
  by code_simp


end
