(* ===== verification/Resources.thy ===== *)
theory Resources
  imports TunnelToken ReferenceGrants
begin

text \<open>
  The other Kubernetes resources of a Gateway: the ServiceAccount, Role and RoleBinding of the
  tunnel (gateway_tunnel.go), the VerticalPodAutoscalers of its replicas (gateway_vpa.go), the
  route ConfigMap (gateway_routes_configmap.go), and the removal of owner references when a
  disabled Gateway goes away.  \<open>toUn\<close> is the conversion to an unstructured object,
  \<open>setOwner\<close> is \<^verbatim>\<open>controllerutil.SetControllerReference\<close>, \<open>marshalYAML\<close> the YAML encoder and
  \<open>retry\<close> client-go's \<^verbatim>\<open>RetryOnConflict\<close> on closures over the world and what they capture.
\<close>

section \<open>RBAC of the tunnel\<close>

definition tunnelRBACLabels :: "gateway \<Rightarrow> (string \<Rightarrow> string option)" where
  "tunnelRBACLabels gw =
     mapsCopy (GatewayResourceLabels (gwName gw) [''tunnel''])
       (infrastructureLabels (gwInfrastructure gw))"

text \<open>One object: convert it, apply it, and report a change.\<close>

definition applyTyped ::
  "'w cluster \<Rightarrow> (typed_object \<Rightarrow> go_error + json) \<Rightarrow> string \<Rightarrow> string \<Rightarrow> typed_object
     \<Rightarrow> string list \<Rightarrow> 'w \<Rightarrow> (go_error + string list) \<times> 'w" where
  "applyTyped cl toUn convWhat what typed changes w =
     (case toUn typed of
        Inl err \<Rightarrow> (Inl (ErrWrap (''converting '' @ convWhat @ '' to unstructured: '') err), w)
      | Inr ob \<Rightarrow>
          (case clApply cl ob w of
             (Inl err, w1) \<Rightarrow> (Inl (ErrWrap (''applying '' @ what @ '': '') err), w1)
           | (Inr action, w1) \<Rightarrow>
               (Inr (if action \<noteq> UnchangedAction then changes @ [what @ '' '' @ action] else changes),
                w1)))"

definition reconcileTunnelRBAC ::
  "'w cluster \<Rightarrow> (typed_object \<Rightarrow> go_error + json) \<Rightarrow> gateway \<Rightarrow> 'w
     \<Rightarrow> (go_error + string list) \<times> 'w" where
  "reconcileTunnelRBAC cl toUn gw w =
     (let resourceName = GatewayResourceName gw;
          meta = \<lparr>omName = resourceName, omNamespace = gwNamespace gw,
                  omLabels = tunnelRBACLabels gw, omOwnerUID = gwUID gw\<rparr>;
          role = RoleT meta [''''] [''configmaps''] [resourceName] [''get'', ''list'', ''watch'']
      in case applyTyped cl toUn ''tunnel ServiceAccount'' (''tunnel ServiceAccount '' @ resourceName)
                (ServiceAccountT meta) [] w of
           (Inl err, w1) \<Rightarrow> (Inl err, w1)
         | (Inr changes1, w1) \<Rightarrow>
             (case applyTyped cl toUn ''tunnel Role'' (''tunnel Role '' @ resourceName) role changes1 w1 of
                (Inl err, w2) \<Rightarrow> (Inl err, w2)
              | (Inr changes2, w2) \<Rightarrow>
                  applyTyped cl toUn ''tunnel RoleBinding'' (''tunnel RoleBinding '' @ resourceName)
                    (RoleBindingT meta resourceName resourceName (gwNamespace gw)) changes2 w2))"

section \<open>Vertical pod autoscalers\<close>

definition autoscalingEnabled :: "gateway_params option \<Rightarrow> bool" where
  "autoscalingEnabled params =
     (case Option.bind (Option.bind params gpTunnel) tcAutoscaling of
        None \<Rightarrow> False
      | Some ac \<Rightarrow> asEnabled ac)"

definition buildContainerPolicy :: "string \<Rightarrow> autoscaling_config \<Rightarrow> container_policy" where
  "buildContainerPolicy name ac =
     \<lparr>cpContainerName = name, cpMode = ''Auto'', cpMinAllowed = asMinAllowed ac,
      cpMaxAllowed = asMaxAllowed ac,
      cpControlledResources =
        (if length (asControlledResources ac) > 0 then Some (asControlledResources ac) else None),
      cpControlledValues = asControlledValues ac\<rparr>"

definition containerPolicies :: "gateway_params option \<Rightarrow> container_policy list" where
  "containerPolicies params =
     \<lparr>cpContainerName = ''*'', cpMode = ''Off'', cpMinAllowed = [], cpMaxAllowed = [],
      cpControlledResources = None, cpControlledValues = None\<rparr> #
     (case Option.bind (Option.bind params gpTunnel) tcAutoscaling of
        None \<Rightarrow> []
      | Some ac \<Rightarrow> [buildContainerPolicy ''tunnel'' ac])"

text \<open>The loop over the replicas; an error carries the changes.\<close>

fun reconcileVPAsLoop ::
  "'w cluster \<Rightarrow> (typed_object \<Rightarrow> go_error + json) \<Rightarrow> gateway \<Rightarrow> container_policy list
     \<Rightarrow> replica_config list \<Rightarrow> string list \<Rightarrow> 'w \<Rightarrow> (string list \<times> go_error option) \<times> 'w" where
  "reconcileVPAsLoop cl toUn gw policies [] changes w = ((changes, None), w)"
| "reconcileVPAsLoop cl toUn gw policies (r # rs) changes w =
     (let name = GatewayReplicaName gw (repName r);
          vpa = VPAT \<lparr>omName = name, omNamespace = gwNamespace gw,
                   omLabels = GatewayResourceLabels (gwName gw) [repName r],
                   omOwnerUID = gwUID gw\<rparr>
                  (''apps/v1'', KindDeployment, name) ''InPlaceOrRecreate'' policies
      in case applyTyped cl toUn (''VPA '' @ name) (''VPA '' @ name) vpa changes w of
           (Inl err, w1) \<Rightarrow> ((changes, Some err), w1)
         | (Inr changes1, w1) \<Rightarrow> reconcileVPAsLoop cl toUn gw policies rs changes1 w1)"

definition reconcileVPAs ::
  "'w cluster \<Rightarrow> (typed_object \<Rightarrow> go_error + json) \<Rightarrow> gateway \<Rightarrow> gateway_params option
     \<Rightarrow> replica_config list \<Rightarrow> 'w \<Rightarrow> (string list \<times> go_error option) \<times> 'w" where
  "reconcileVPAs cl toUn gw params replicas w =
     reconcileVPAsLoop cl toUn gw (containerPolicies params) replicas [] w"

section \<open>Stale objects\<close>

text \<open>The loops deleting what is not desired; \<open>what\<close> is the word of the messages.\<close>

fun deleteStaleObjects ::
  "(string \<Rightarrow> string) \<Rightarrow> 'w cluster \<Rightarrow> string \<Rightarrow> string list \<Rightarrow> kobj list
     \<Rightarrow> string list \<times> string list \<Rightarrow> 'w \<Rightarrow> (string list \<times> string list) \<times> 'w" where
  "deleteStaleObjects tt cl what desired [] acc w = (acc, w)"
| "deleteStaleObjects tt cl what desired (ob # obs) (changes, errs) w =
     (if koName ob \<in> set desired
      then deleteStaleObjects tt cl what desired obs (changes, errs) w
      else
        (case clDelete cl ob w of
           (eo, w1) \<Rightarrow>
             (case ignoreNotFound eo of
                Some err \<Rightarrow>
                  deleteStaleObjects tt cl what desired obs
                    (changes, errs @ [''failed to delete stale '' @ what @ '' '' @ koName ob @ '': ''
                                      @ errMsg tt err]) w1
              | None \<Rightarrow>
                  deleteStaleObjects tt cl what desired obs
                    (changes @ [''deleted stale '' @ what @ '' '' @ koName ob], errs) w1)))"

definition cleanupStaleTunnelResources ::
  "(string \<Rightarrow> string) \<Rightarrow> 'w cluster \<Rightarrow> gateway \<Rightarrow> replica_config list \<Rightarrow> 'w
     \<Rightarrow> (string list \<times> string list) \<times> 'w" where
  "cleanupStaleTunnelResources tt cl gw replicas w =
     (let desired = map (\<lambda>r. GatewayReplicaName gw (repName r)) replicas;
          lbls = GatewayResourceLabels (gwName gw) []
      in case clList cl KindDeployment (gwNamespace gw) lbls w of
           (Inl err, w1) \<Rightarrow>
             (([], [''failed to list tunnel Deployments for cleanup: '' @ errMsg tt err]), w1)
         | (Inr deploys, w1) \<Rightarrow>
             (case deleteStaleObjects tt cl ''Deployment'' desired deploys ([], []) w1 of
                ((changes, errs), w2) \<Rightarrow>
                  (case clList cl KindSecret (gwNamespace gw) lbls w2 of
                     (Inl err, w3) \<Rightarrow>
                       ((changes, errs @ [''failed to list tunnel token Secrets for cleanup: ''
                                          @ errMsg tt err]), w3)
                   | (Inr secrets, w3) \<Rightarrow>
                       deleteStaleObjects tt cl ''Secret'' [GatewayResourceName gw] secrets
                         (changes, errs) w3)))"

definition cleanupStaleVPAs ::
  "(string \<Rightarrow> string) \<Rightarrow> 'w cluster \<Rightarrow> gateway \<Rightarrow> string list \<Rightarrow> 'w
     \<Rightarrow> (string list \<times> string list) \<times> 'w" where
  "cleanupStaleVPAs tt cl gw desiredNames w =
     (case clList cl KindVPA (gwNamespace gw) (GatewayResourceLabels (gwName gw) []) w of
        (Inl err, w1) \<Rightarrow> (([], []), w1)
      | (Inr vpas, w1) \<Rightarrow> deleteStaleObjects tt cl ''VPA'' desiredNames vpas ([], []) w1)"

section \<open>The route ConfigMap\<close>

definition routeConfigMapLabels :: "gateway \<Rightarrow> (string \<Rightarrow> string option)" where
  "routeConfigMapLabels gw =
     mapsCopy (GatewayResourceLabels (gwName gw) [''routes''])
       (infrastructureLabels (gwInfrastructure gw))"

definition reconcileRouteConfigMap ::
  "'w cluster \<Rightarrow> (gateway \<Rightarrow> secret_obj \<Rightarrow> go_error + secret_obj)
     \<Rightarrow> (string \<Rightarrow> go_error + reference_grant list) \<Rightarrow> (proxy_config \<Rightarrow> go_error + string) \<Rightarrow> gateway
     \<Rightarrow> routeObject list \<Rightarrow> 'w
     \<Rightarrow> (go_error + (namespaced_name \<Rightarrow> string list option) \<times> string list) \<times> 'w" where
  "reconcileRouteConfigMap cl setOwner lg marshalYAML gw routes w =
     (case buildRouteConfig lg routes of
        Inl err \<Rightarrow> (Inl err, w)
      | Inr (cfg, routesWithDeniedRefs) \<Rightarrow>
          (case marshalYAML cfg of
             Inl err \<Rightarrow> (Inl (ErrWrap ''marshaling route config: '' err), w)
           | Inr data \<Rightarrow>
               (let cmName = GatewayResourceName gw;
                    cm0 = \<lparr>soName = cmName, soNamespace = gwNamespace gw, soLabels = Map.empty,
                           soAnnotations = Map.empty, soData = Map.empty, soOwner = None\<rparr>
                in case setOwner gw cm0 of
                     Inl err \<Rightarrow>
                       (Inl (ErrWrap ''setting owner reference on route configmap: '' err), w)
                   | Inr cm \<Rightarrow>
                       (case clCreateOrUpdateConfigMap cl cm
                               (\<lambda>c. setOwner gw (c\<lparr>soLabels := routeConfigMapLabels gw,
                                      soData := [''config.yaml'' \<mapsto> data]\<rparr>)) w of
                          (Inl err, w1) \<Rightarrow>
                            (Inl (ErrWrap (''creating/updating route ConfigMap '' @ cmName @ '': '') err),
                             w1)
                        | (Inr res, w1) \<Rightarrow>
                            (Inr (routesWithDeniedRefs,
                               if res \<noteq> OperationResultNone
                               then [''route ConfigMap '' @ cmName @ '' '' @ res] else []), w1)))))"

section \<open>Removing owner references\<close>

text \<open>
  What the closure under \<^verbatim>\<open>RetryOnConflict\<close> captures: the object and the objects released
  so far.
\<close>

type_synonym 'w release_closure =
  "'w \<times> kobj \<times> kobj list \<Rightarrow> go_error option \<times> ('w \<times> kobj \<times> kobj list)"
type_synonym 'w release_retrier = "'w release_closure \<Rightarrow> 'w release_closure"

definition removeOwnerRef :: "kobj \<Rightarrow> string \<Rightarrow> bool \<times> kobj" where
  "removeOwnerRef ob ownerUID =
     (if ownerUID \<in> set (koOwnerUIDs ob)
      then (True, ob\<lparr>koOwnerUIDs := remove1 ownerUID (koOwnerUIDs ob)\<rparr>)
      else (False, ob))"

definition releaseAttempt ::
  "'w cluster \<Rightarrow> string \<Rightarrow> string \<Rightarrow> string \<Rightarrow> namespaced_name \<Rightarrow> 'w release_closure" where
  "releaseAttempt cl uid kind what key s =
     (case s of (w, ob, removed) \<Rightarrow>
        (case clGet cl kind key w of
           (Inl err, w1) \<Rightarrow> (ignoreNotFound (Some err), (w1, ob, removed))
         | (Inr ob1, w1) \<Rightarrow>
             (case removeOwnerRef ob1 uid of
                (False, ob2) \<Rightarrow> (None, (w1, ob2, removed))
              | (True, ob2) \<Rightarrow>
                  (case clPatch cl ob1 ob2 w1 of
                     (Some err, w2) \<Rightarrow>
                       (Some (ErrWrap (''patching '' @ what @ '' '' @ koName ob2 @ '': '') err),
                        (w2, ob2, removed))
                   | (None, w2) \<Rightarrow> (None, (w2, ob2, removed @ [ob2]))))))"

fun releaseLoop ::
  "'w cluster \<Rightarrow> 'w release_retrier \<Rightarrow> string \<Rightarrow> string \<Rightarrow> string \<Rightarrow> kobj list \<Rightarrow> kobj list \<Rightarrow> 'w
     \<Rightarrow> (kobj list \<times> go_error option) \<times> 'w" where
  "releaseLoop cl retry uid kind what [] removed w = ((removed, None), w)"
| "releaseLoop cl retry uid kind what (ob # obs) removed w =
     (case retry (releaseAttempt cl uid kind what (objectKey ob)) (w, ob, removed) of
        (Some err, (w1, ob1, removed1)) \<Rightarrow> ((removed1, Some err), w1)
      | (None, (w1, ob1, removed1)) \<Rightarrow> releaseLoop cl retry uid kind what obs removed1 w1)"

text \<open>Listing the objects of a kind by label, and releasing them.\<close>

definition releaseKind ::
  "'w cluster \<Rightarrow> 'w release_retrier \<Rightarrow> gateway \<Rightarrow> string \<Rightarrow> string \<Rightarrow> string
     \<Rightarrow> (string \<Rightarrow> string option) \<Rightarrow> kobj list \<Rightarrow> 'w \<Rightarrow> (kobj list \<times> go_error option) \<times> 'w" where
  "releaseKind cl retry gw kind listWhat what lbls removed w =
     (case clList cl kind (gwNamespace gw) lbls w of
        (Inl err, w1) \<Rightarrow> ((removed, Some (ErrWrap (''listing '' @ listWhat @ '': '') err)), w1)
      | (Inr obs, w1) \<Rightarrow> releaseLoop cl retry (gwUID gw) kind what obs removed w1)"

definition removeOwnerReferencesFromRouteConfigMap ::
  "'w cluster \<Rightarrow> 'w release_retrier \<Rightarrow> gateway \<Rightarrow> 'w \<Rightarrow> (kobj list \<times> go_error option) \<times> 'w" where
  "removeOwnerReferencesFromRouteConfigMap cl retry gw w =
     releaseKind cl retry gw KindConfigMap ''route ConfigMaps'' ''ConfigMap''
       (GatewayResourceLabels (gwName gw) [''routes'']) [] w"

definition removeOwnerReferencesFromTunnelRBACResources ::
  "'w cluster \<Rightarrow> 'w release_retrier \<Rightarrow> gateway \<Rightarrow> 'w \<Rightarrow> (kobj list \<times> go_error option) \<times> 'w" where
  "removeOwnerReferencesFromTunnelRBACResources cl retry gw w =
     (let lbls = GatewayResourceLabels (gwName gw) [''tunnel'']
      in case releaseKind cl retry gw KindServiceAccount ''tunnel ServiceAccounts'' ''ServiceAccount''
                lbls [] w of
           ((removed1, Some err), w1) \<Rightarrow> ((removed1, Some err), w1)
         | ((removed1, None), w1) \<Rightarrow>
             (case releaseKind cl retry gw KindRole ''tunnel Roles'' ''Role'' lbls removed1 w1 of
                ((removed2, Some err), w2) \<Rightarrow> ((removed2, Some err), w2)
              | ((removed2, None), w2) \<Rightarrow>
                  releaseKind cl retry gw KindRoleBinding ''tunnel RoleBindings'' ''RoleBinding'' lbls
                    removed2 w2))"

text \<open>A failing list is not an error: the CRD may not be installed.\<close>

definition removeOwnerReferencesFromVPAs ::
  "'w cluster \<Rightarrow> 'w release_retrier \<Rightarrow> gateway \<Rightarrow> 'w \<Rightarrow> (kobj list \<times> go_error option) \<times> 'w" where
  "removeOwnerReferencesFromVPAs cl retry gw w =
     (case clList cl KindVPA (gwNamespace gw) (GatewayResourceLabels (gwName gw) []) w of
        (Inl err, w1) \<Rightarrow> (([], None), w1)
      | (Inr obs, w1) \<Rightarrow> releaseLoop cl retry (gwUID gw) KindVPA ''VPA'' obs [] w1)"

definition removeOwnerReferences ::
  "'w cluster \<Rightarrow> 'w release_retrier \<Rightarrow> gateway \<Rightarrow> 'w \<Rightarrow> (kobj list \<times> go_error option) \<times> 'w" where
  "removeOwnerReferences cl retry gw w =
     (let lbls = GatewayResourceLabels (gwName gw) []
      in case releaseKind cl retry gw KindDeployment ''Deployments'' ''deployment'' lbls [] w of
           ((removed1, Some err), w1) \<Rightarrow> ((removed1, Some err), w1)
         | ((removed1, None), w1) \<Rightarrow>
         (case releaseKind cl retry gw KindSecret ''Secrets'' ''secret'' lbls removed1 w1 of
           ((removed2, Some err), w2) \<Rightarrow> ((removed2, Some err), w2)
         | ((removed2, None), w2) \<Rightarrow>
         (case removeOwnerReferencesFromRouteConfigMap cl retry gw w2 of
           ((cms, Some err), w3) \<Rightarrow> ((removed2 @ cms, Some err), w3)
         | ((cms, None), w3) \<Rightarrow>
         (case removeOwnerReferencesFromTunnelRBACResources cl retry gw w3 of
           ((rbac, Some err), w4) \<Rightarrow> ((removed2 @ cms @ rbac, Some err), w4)
         | ((rbac, None), w4) \<Rightarrow>
         (case removeOwnerReferencesFromVPAs cl retry gw w4 of
           ((vpas, eo), w5) \<Rightarrow> ((removed2 @ cms @ rbac @ vpas, eo), w5))))))"

end
