(* ===== verification/GatewayHelpers.thy ===== *)
theory GatewayHelpers
  imports Deployments Resources
begin

text \<open>
  internal/controller/gateway_helpers.go: the parameters of a Gateway, the credentials of its
  Cloudflare account, the finalizer that keeps its GatewayClass, and the
  CloudflareGatewayStatus (CGS) that records the state of its tunnel.  A pointer the code
  passes around and mutates is returned with its new content.
\<close>

section \<open>Parameters and credentials\<close>

definition readParameters ::
  "'w cluster \<Rightarrow> gateway \<Rightarrow> 'w \<Rightarrow> (go_error + gateway_params option) \<times> 'w" where
  "readParameters cl gw w =
     (case Option.bind (gwInfrastructure gw) infraParametersRef of
        None \<Rightarrow> (Inr None, w)
      | Some ref \<Rightarrow>
          if prefKind ref \<noteq> KindParameters \<or> prefGroup ref \<noteq> Group
          then (Inl (ErrTerminal (ErrText
                  ''infrastructure parametersRef must reference a CloudflareGatewayParameters'')), w)
          else
            (case clGetParams cl (gwNamespace gw, prefName ref) w of
               (Inl err, w') \<Rightarrow>
                 if errNotFound err
                 then (Inl (ErrTerminal (ErrText (''CloudflareGatewayParameters '' @ gwNamespace gw
                          @ ''/'' @ prefName ref @ '' not found''))), w')
                 else (Inl (ErrWrap (''getting CloudflareGatewayParameters '' @ gwNamespace gw @ ''/''
                          @ prefName ref @ '': '') err), w')
             | (Inr params, w') \<Rightarrow> (Inr (Some params), w')))"

text \<open>The common end of both readers: the Secret and its two keys.\<close>

definition readSecretCredentials ::
  "'w cluster \<Rightarrow> string \<Rightarrow> string \<Rightarrow> 'w \<Rightarrow> (go_error + client_config) \<times> 'w" where
  "readSecretCredentials cl secretNamespace secretName w =
     (case clGetSecret cl (secretNamespace, secretName) w of
        (Inl err, w') \<Rightarrow>
          (Inl (ErrWrap (''getting secret '' @ secretNamespace @ ''/'' @ secretName @ '': '') err), w')
      | (Inr data, w') \<Rightarrow>
          (let apiToken = mapGet data ''CLOUDFLARE_API_TOKEN'';
               accountID = mapGet data ''CLOUDFLARE_ACCOUNT_ID''
           in if apiToken = [] \<or> accountID = []
              then (Inl (ErrText (''secret '' @ secretNamespace @ ''/'' @ secretName
                       @ '' must contain CLOUDFLARE_API_TOKEN and CLOUDFLARE_ACCOUNT_ID'')), w')
              else (Inr \<lparr>ccAPIToken = apiToken, ccAccountID = accountID, ccBaseURL = []\<rparr>, w')))"

definition readCredentialsFromGatewayClass ::
  "'w cluster \<Rightarrow> (string \<Rightarrow> go_error + reference_grant list) \<Rightarrow> gateway_class \<Rightarrow> gateway \<Rightarrow> 'w
     \<Rightarrow> (go_error + client_config) \<times> 'w" where
  "readCredentialsFromGatewayClass cl lg gc gw w =
     (case gcParametersRef gc of
        None \<Rightarrow>
          (Inl (ErrTerminal (ErrText
             (''gatewayclass '' @ goQuote (gcName gc) @ '' has no parametersRef''))), w)
      | Some ref \<Rightarrow>
          if cprKind ref \<noteq> KindSecret \<or> (cprGroup ref \<noteq> [] \<and> cprGroup ref \<noteq> ''core'')
          then (Inl (ErrTerminal (ErrText ''parametersRef must reference a core/v1 Secret'')), w)
          else
            (case cprNamespace ref of
               None \<Rightarrow> (Inl (ErrTerminal (ErrText ''parametersRef must specify a namespace'')), w)
             | Some secretNamespace \<Rightarrow>
                 (case secretReferenceGranted lg (gwNamespace gw) secretNamespace (cprName ref) of
                    Inl err \<Rightarrow> (Inl (ErrWrap ''checking ReferenceGrant: '' err), w)
                  | Inr granted \<Rightarrow>
                      if \<not> granted
                      then (Inl (ErrTerminal (ErrText (''cross-namespace reference to Secret ''
                               @ secretNamespace @ ''/'' @ cprName ref
                               @ '' not allowed by any ReferenceGrant''))), w)
                      else readSecretCredentials cl secretNamespace (cprName ref) w)))"

definition readCredentials ::
  "'w cluster \<Rightarrow> (string \<Rightarrow> go_error + reference_grant list) \<Rightarrow> gateway_class \<Rightarrow> gateway
     \<Rightarrow> gateway_params option \<Rightarrow> 'w \<Rightarrow> (go_error + client_config) \<times> 'w" where
  "readCredentials cl lg gc gw params w =
     (case Option.bind params (\<lambda>p. map_option (\<lambda>s. (gpNamespace p, s)) (gpSecretRef p)) of
        Some (secretNamespace, secretName) \<Rightarrow>
          readSecretCredentials cl secretNamespace secretName w
      | None \<Rightarrow> readCredentialsFromGatewayClass cl lg gc gw w)"

section \<open>The finalizer on the GatewayClass\<close>

text \<open>\<^verbatim>\<open>controllerutil.AddFinalizer\<close> and \<^verbatim>\<open>RemoveFinalizer\<close>.\<close>

definition addFinalizer :: "string \<Rightarrow> string list \<Rightarrow> string list" where
  "addFinalizer f fs = (if f \<in> set fs then fs else fs @ [f])"

definition removeFinalizer :: "string \<Rightarrow> string list \<Rightarrow> string list" where
  "removeFinalizer f fs = filter (\<lambda>g. g \<noteq> f) fs"

type_synonym 'w class_closure =
  "'w \<times> gateway_class \<Rightarrow> go_error option \<times> ('w \<times> gateway_class)"
type_synonym 'w class_retrier = "'w class_closure \<Rightarrow> 'w class_closure"

definition addClassFinalizerAttempt ::
  "'w cluster \<Rightarrow> string \<Rightarrow> 'w class_closure" where
  "addClassFinalizerAttempt cl finalizer s =
     (case s of (w, gc) \<Rightarrow>
        (case clGetClass cl (gcName gc) w of
           (Inl err, w1) \<Rightarrow> (Some err, (w1, gc))
         | (Inr gc1, w1) \<Rightarrow>
             if finalizer \<in> set (gcFinalizers gc1) then (None, (w1, gc1))
             else
               (let gc2 = gc1\<lparr>gcFinalizers := addFinalizer finalizer (gcFinalizers gc1)\<rparr>
                in case clPatchClass cl gc1 gc2 w1 of (eo, w2) \<Rightarrow> (eo, (w2, gc2)))))"

definition removeClassFinalizerAttempt ::
  "'w cluster \<Rightarrow> string \<Rightarrow> 'w class_closure" where
  "removeClassFinalizerAttempt cl finalizer s =
     (case s of (w, gc) \<Rightarrow>
        (case clGetClass cl (gcName gc) w of
           (Inl err, w1) \<Rightarrow> (ignoreNotFound (Some err), (w1, gc))
         | (Inr gc1, w1) \<Rightarrow>
             if finalizer \<notin> set (gcFinalizers gc1) then (None, (w1, gc1))
             else
               (let gc2 = gc1\<lparr>gcFinalizers := removeFinalizer finalizer (gcFinalizers gc1)\<rparr>
                in case clPatchClass cl gc1 gc2 w1 of (eo, w2) \<Rightarrow> (eo, (w2, gc2)))))"

fun removeClassFinalizerLoop ::
  "'w cluster \<Rightarrow> 'w class_retrier \<Rightarrow> string \<Rightarrow> string \<Rightarrow> gateway_class list \<Rightarrow> 'w
     \<Rightarrow> go_error option \<times> 'w" where
  "removeClassFinalizerLoop cl retry finalizer skip [] w = (None, w)"
| "removeClassFinalizerLoop cl retry finalizer skip (gc # gcs) w =
     (if gcName gc = skip then removeClassFinalizerLoop cl retry finalizer skip gcs w
      else
        (case retry (removeClassFinalizerAttempt cl finalizer) (w, gc) of
           (Some err, (w1, gc1)) \<Rightarrow>
             (Some (ErrWrap (''removing finalizer from GatewayClass '' @ gcName gc1 @ '': '') err), w1)
         | (None, (w1, gc1)) \<Rightarrow> removeClassFinalizerLoop cl retry finalizer skip gcs w1))"

text \<open>\<open>skip\<close> is the empty name when the caller gives none.\<close>

definition removeGatewayClassFinalizer ::
  "'w cluster \<Rightarrow> 'w class_retrier \<Rightarrow> gateway \<Rightarrow> string \<Rightarrow> 'w \<Rightarrow> go_error option \<times> 'w" where
  "removeGatewayClassFinalizer cl retry gw skip w =
     (let finalizer = FinalizerGatewayClass gw
      in case clListClasses cl finalizer w of
           (Inl err, w1) \<Rightarrow> (Some (ErrWrap ''listing GatewayClasses with finalizer: '' err), w1)
         | (Inr classes, w1) \<Rightarrow> removeClassFinalizerLoop cl retry finalizer skip classes w1)"

definition ensureGatewayClassFinalizer ::
  "'w cluster \<Rightarrow> 'w class_retrier \<Rightarrow> gateway_class \<Rightarrow> gateway \<Rightarrow> 'w
     \<Rightarrow> go_error option \<times> ('w \<times> gateway_class)" where
  "ensureGatewayClassFinalizer cl retry gc gw w =
     (case removeGatewayClassFinalizer cl retry gw (gcName gc) w of
        (Some err, w1) \<Rightarrow> (Some err, (w1, gc))
      | (None, w1) \<Rightarrow>
          retry (addClassFinalizerAttempt cl (FinalizerGatewayClass gw)) (w1, gc))"

section \<open>The CloudflareGatewayStatus\<close>

definition getCGS ::
  "'w cluster \<Rightarrow> gateway \<Rightarrow> 'w \<Rightarrow> (go_error + cgs_object option) \<times> 'w" where
  "getCGS cl gw w =
     (case clGetCGS cl (gwNamespace gw, gwName gw) w of
        (Inl err, w') \<Rightarrow> if errNotFound err then (Inr None, w') else (Inl err, w')
      | (Inr cgs, w') \<Rightarrow> (Inr (Some cgs), w'))"

definition emptyTunnelStatus :: tunnel_status where
  "emptyTunnelStatus = \<lparr>tusName = [], tusID = [], tusToken = None\<rparr>"

definition emptyTokenStatus :: token_status where
  "emptyTokenStatus = \<lparr>tsHash = [], tsRotation = None\<rparr>"

definition emptyRotationStatus :: token_rotation_status where
  "emptyRotationStatus =
     \<lparr>trsLastHandledRotateAt = [], trsLastRotatedAt = [], trsNextRotation = None\<rparr>"

text \<open>The CGS with a token hash; missing structs on the way are created.\<close>

definition setTokenHash :: "string \<Rightarrow> cgs_object \<Rightarrow> cgs_object" where
  "setTokenHash h cgs =
     (let tun = (case cgsTunnel (cgsStatus cgs) of None \<Rightarrow> emptyTunnelStatus | Some t \<Rightarrow> t);
          tok = (case tusToken tun of None \<Rightarrow> emptyTokenStatus | Some t \<Rightarrow> t)
      in cgs\<lparr>cgsStatus := (cgsStatus cgs)\<lparr>cgsTunnel :=
               Some (tun\<lparr>tusToken := Some (tok\<lparr>tsHash := h\<rparr>)\<rparr>)\<rparr>\<rparr>)"

definition patchCGSTokenHash ::
  "'w cluster \<Rightarrow> cgs_object option \<Rightarrow> tokenRotationResult \<Rightarrow> 'w
     \<Rightarrow> (cgs_object option \<times> go_error option) \<times> 'w" where
  "patchCGSTokenHash cl cgs tokenResult w =
     (case cgs of
        None \<Rightarrow> ((None, None), w)
      | Some c \<Rightarrow>
          if trrLastRotatedAt tokenResult = [] \<or> cgsDeleted c then ((cgs, None), w)
          else if Option.bind (cgsTunnel (cgsStatus c)) (\<lambda>t. map_option tsHash (tusToken t))
                  = Some (trrTokenHash tokenResult)
          then ((cgs, None), w)
          else
            (let c' = setTokenHash (trrTokenHash tokenResult) c
             in case clPatchCGSStatus cl c c' w of
                  (Some err, w') \<Rightarrow>
                    ((Some c', Some (ErrWrap ''patching CGS token hash after rotation: '' err)), w')
                | (None, w') \<Rightarrow> ((Some c', None), w')))"

definition cgsInventoryOf ::
  "gateway \<Rightarrow> gateway_params option \<Rightarrow> replica_config list \<Rightarrow> resource_ref list" where
  "cgsInventoryOf gw params replicas =
     (let resourceName = GatewayResourceName gw;
          ref = (\<lambda>v k n. \<lparr>rrAPIVersion = v, rrKind = k, rrName = n\<rparr>)
      in map (\<lambda>r. ref ''apps/v1'' KindDeployment (GatewayReplicaName gw (repName r))) replicas @
         [ref ''v1'' KindSecret resourceName, ref ''v1'' KindConfigMap resourceName,
          ref ''v1'' KindServiceAccount resourceName,
          ref ''rbac.authorization.k8s.io/v1'' KindRole resourceName,
          ref ''rbac.authorization.k8s.io/v1'' KindRoleBinding resourceName] @
         (if autoscalingEnabled params
          then map (\<lambda>r. ref ''autoscaling.k8s.io/v1'' KindVPA (GatewayReplicaName gw (repName r)))
                 replicas
          else []))"

text \<open>The rotation state; the result of the token step is never nil where the code calls it.\<close>

definition desiredRotation ::
  "gateway \<Rightarrow> token_rotation_status option \<Rightarrow> tokenRotationResult \<Rightarrow> gatewayReadiness
     \<Rightarrow> token_rotation_status" where
  "desiredRotation gw existing tokenResult readiness =
     \<lparr>trsLastHandledRotateAt =
        (if grReadyStatus readiness = ConditionTrue
         then mapGet (gwAnnotations gw) AnnotationRotateTokenRequestedAt
         else case existing of None \<Rightarrow> [] | Some r \<Rightarrow> trsLastHandledRotateAt r),
      trsLastRotatedAt =
        (if trrLastRotatedAt tokenResult \<noteq> [] then trrLastRotatedAt tokenResult
         else case existing of None \<Rightarrow> [] | Some r \<Rightarrow> trsLastRotatedAt r),
      trsNextRotation =
        (if trrNextTrigger tokenResult \<noteq> zeroTime then Some (trrNextTrigger tokenResult) else None)\<rparr>"

definition desiredCGSStatus ::
  "gateway \<Rightarrow> cgs_object option \<Rightarrow> gateway_params option \<Rightarrow> tunnelState \<Rightarrow> replica_config list
     \<Rightarrow> tokenRotationResult \<Rightarrow> gatewayReadiness \<Rightarrow> cgs_status" where
  "desiredCGSStatus gw cgs params t replicas tokenResult readiness =
     (let existingToken = Option.bind cgs (\<lambda>c. Option.bind (cgsTunnel (cgsStatus c)) tusToken);
          token = \<lparr>tsHash = trrTokenHash tokenResult,
                   tsRotation = Some (desiredRotation gw (Option.bind existingToken tsRotation)
                                        tokenResult readiness)\<rparr>
      in \<lparr>cgsConditions = [],
          cgsTunnel = Some \<lparr>tusName = tunName t, tusID = tunID t, tusToken = Some token\<rparr>,
          cgsInventory = cgsInventoryOf gw params replicas,
          cgsLastHandledReconcileAt = mapGet (gwAnnotations gw) AnnotationReconcileRequestedAt\<rparr>)"

text \<open>
  \<^verbatim>\<open>reflect.DeepEqual\<close> on the status: \<open>timeEq\<close> compares the \<^verbatim>\<open>*metav1.Time\<close> of the next
  rotation, whose location pointers the model has no account of.
\<close>

definition rotationOf :: "cgs_status \<Rightarrow> token_rotation_status option" where
  "rotationOf s = Option.bind (cgsTunnel s) (\<lambda>t. Option.bind (tusToken t) tsRotation)"

definition withoutNext :: "cgs_status \<Rightarrow> cgs_status" where
  "withoutNext s =
     s\<lparr>cgsTunnel := map_option (\<lambda>t. t\<lparr>tusToken := map_option (\<lambda>k. k\<lparr>tsRotation :=
        map_option (\<lambda>r. r\<lparr>trsNextRotation := None\<rparr>) (tsRotation k)\<rparr>) (tusToken t)\<rparr>) (cgsTunnel s)\<rparr>"

definition cgsDeepEqual ::
  "(int option \<Rightarrow> int option \<Rightarrow> bool) \<Rightarrow> cgs_status \<Rightarrow> cgs_status \<Rightarrow> bool" where
  "cgsDeepEqual timeEq a b \<longleftrightarrow>
     withoutNext a = withoutNext b \<and>
     timeEq (Option.bind (rotationOf a) trsNextRotation) (Option.bind (rotationOf b) trsNextRotation)"

definition newCGS :: "gateway \<Rightarrow> cgs_object" where
  "newCGS gw =
     \<lparr>cgsName = gwName gw, cgsNamespace = gwNamespace gw, cgsDeleted = False,
      cgsFinalizers = [Finalizer], cgsOwnerUID = gwUID gw,
      cgsStatus = \<lparr>cgsConditions = [], cgsTunnel = None, cgsInventory = [],
                   cgsLastHandledReconcileAt = []\<rparr>\<rparr>"

text \<open>Creating the CGS: the returned object and error.\<close>

definition createCGS ::
  "'w cluster \<Rightarrow> gateway \<Rightarrow> cgs_status \<Rightarrow> 'w
     \<Rightarrow> (cgs_object option \<times> go_error option) \<times> 'w" where
  "createCGS cl gw desired w =
     (let c = newCGS gw
      in case clCreateCGS cl c w of
           (Some err, w1) \<Rightarrow>
             if errAlreadyExists err then ((None, None), w1)
             else ((None, Some (ErrWrap ''creating CloudflareGatewayStatus: '' err)), w1)
         | (None, w1) \<Rightarrow>
             (let c' = c\<lparr>cgsStatus := desired\<rparr>
              in case clPatchCGSStatus cl c c' w1 of
                   (Some err, w2) \<Rightarrow>
                     ((Some c', Some (ErrWrap
                        ''patching CloudflareGatewayStatus status after create: '' err)), w2)
                 | (None, w2) \<Rightarrow> ((Some c', None), w2)))"

text \<open>
  \<^verbatim>\<open>reconcileCGS\<close>: the content of the caller's pointer afterwards, and the result.
\<close>

definition reconcileCGS ::
  "'w cluster \<Rightarrow> (int option \<Rightarrow> int option \<Rightarrow> bool) \<Rightarrow> gateway \<Rightarrow> cgs_object option
     \<Rightarrow> gateway_params option \<Rightarrow> tunnelState \<Rightarrow> replica_config list \<Rightarrow> tokenRotationResult
     \<Rightarrow> gatewayReadiness \<Rightarrow> 'w
     \<Rightarrow> cgs_object option \<times> (cgs_object option \<times> go_error option) \<times> 'w" where
  "reconcileCGS cl timeEq gw cgs params t replicas tokenResult readiness w =
     (let desired = desiredCGSStatus gw cgs params t replicas tokenResult readiness
      in case cgs of
           None \<Rightarrow> (None, createCGS cl gw desired w)
         | Some c \<Rightarrow>
             if cgsDeleted c then
               (if Finalizer \<in> set (cgsFinalizers c)
                then
                  (let c' = c\<lparr>cgsFinalizers := removeFinalizer Finalizer (cgsFinalizers c)\<rparr>
                   in case clPatchCGS cl c c' w of
                        (Some err, w1) \<Rightarrow>
                          (Some c', ((None, Some (ErrWrap
                             ''removing finalizer from terminating CloudflareGatewayStatus: '' err)), w1))
                      | (None, w1) \<Rightarrow> (Some c', createCGS cl gw desired w1))
                else (cgs, createCGS cl gw desired w))
             else
               (let desired1 = desired\<lparr>cgsConditions := cgsConditions (cgsStatus c)\<rparr>
                in if cgsDeepEqual timeEq (cgsStatus c) desired1 then (cgs, ((cgs, None), w))
                   else
                     (let c' = c\<lparr>cgsStatus := desired1\<rparr>
                      in case clPatchCGSStatus cl c c' w of
                           (Some err, w1) \<Rightarrow>
                             (Some c', ((Some c',
                                Some (ErrWrap ''patching CloudflareGatewayStatus: '' err)), w1))
                         | (None, w1) \<Rightarrow> (Some c', ((Some c', None), w1)))))"

end
