(* ===== verification/GatewayRoutes.thy ===== *)
theory GatewayRoutes
  imports RouteConflicts Schedule "HOL-Library.Char_ord" "HOL-Library.List_Lexorder"
    "HOL-Library.Multiset"
begin

text \<open>
  The Gateway's side of routing (internal/controller/gateway_routes.go): the validation of the
  Gateway and of its parameters, which routes of which namespaces attach to it, and the
  statuses of its listeners and addresses.  \<open>parseDuration\<close> is \<^verbatim>\<open>time.ParseDuration\<close>,
  \<open>parseSelector\<close> is \<^verbatim>\<open>metav1.LabelSelectorAsSelector\<close>, \<open>getNs\<close> reads the labels of a
  Namespace from the cache, \<open>cronParse\<close> is the cron library's parser and \<open>srt\<close> is
  \<^verbatim>\<open>slices.SortFunc\<close> by the key given, which is not stable.
\<close>

section \<open>Validation\<close>

record gatewayValidationError =
  gveErr :: go_error
  gveCond :: condition

text \<open>\<^verbatim>\<open>strings.ToLower\<close> of an ASCII character.\<close>

definition lowerChar :: "char \<Rightarrow> char" where
  "lowerChar c =
     (let n = of_char c :: nat in if 65 \<le> n \<and> n \<le> 90 then char_of (n + 32) else c)"

definition rejectedAccepted :: "go_error \<Rightarrow> string \<Rightarrow> string \<Rightarrow> gatewayValidationError" where
  "rejectedAccepted err reason msg =
     \<lparr>gveErr = err,
      gveCond = \<lparr>condType = ConditionAccepted, condStatus = ConditionFalse,
        condObservedGeneration = 0, condLastTransitionTime = zeroTime, condReason = reason,
        condMessage = msg\<rparr>\<rparr>"

definition rejectedCond :: "string \<Rightarrow> string \<Rightarrow> gatewayValidationError" where
  "rejectedCond reason msg =
     rejectedAccepted (ErrTerminal (ErrText (lowerChar (hd msg) # tl msg))) reason msg"

fun listenerKindsLoop :: "route_group_kind list \<Rightarrow> gatewayValidationError option" where
  "listenerKindsLoop [] = None"
| "listenerKindsLoop (k # ks) =
     (let grp = (case rgkGroup k of None \<Rightarrow> GatewayGroupName | Some g \<Rightarrow> g)
      in if grp \<noteq> GatewayGroupName \<or> (rgkKind k \<noteq> KindHTTPRoute \<and> rgkKind k \<noteq> KindGRPCRoute)
         then Some (rejectedCond ''ListenersNotValid''
           (''Only HTTPRoute and GRPCRoute kinds are supported in spec.listeners[0].allowedRoutes.kinds, got ''
              @ grp @ ''/'' @ rgkKind k))
         else listenerKindsLoop ks)"

definition validateInterval ::
  "(string \<Rightarrow> go_error + int) \<Rightarrow> gateway \<Rightarrow> gatewayValidationError option" where
  "validateInterval parseDuration gw =
     (case gwAnnotations gw AnnotationReconcileEvery of
        None \<Rightarrow> None
      | Some val \<Rightarrow>
          (case parseDuration val of
             Inl err \<Rightarrow>
               Some (rejectedCond ''InvalidParameters''
                 (''Annotation '' @ AnnotationReconcileEvery @ '' has invalid duration '' @ goQuote val))
           | Inr d \<Rightarrow> None))"

definition validateGateway ::
  "(string \<Rightarrow> go_error + int) \<Rightarrow> gateway \<Rightarrow> gatewayValidationError option" where
  "validateGateway parseDuration gw =
     (if length (gwListeners gw) \<noteq> 1
      then Some (rejectedCond ''ListenersNotValid''
             (''Gateway must have exactly one listener, got '' @ showNat (length (gwListeners gw))))
      else if length (gwSpecAddresses gw) > 0
      then Some (rejectedCond ''UnsupportedAddress'' ''spec.addresses is not supported'')
      else
        (let l = hd (gwListeners gw)
         in if lProtocol l \<noteq> ''HTTPS''
            then Some (rejectedCond ''ListenersNotValid''
                   (''Listener protocol '' @ goQuote (lProtocol l) @ '' is not supported, must be HTTPS''))
            else if lPort l \<noteq> 443
            then Some (rejectedCond ''ListenersNotValid''
                   (''Listener port '' @ showInt (lPort l) @ '' is not supported, must be 443''))
            else if lHasTLS l
            then Some (rejectedCond ''ListenersNotValid''
                   ''spec.listeners[0].tls is not supported; Cloudflare handles TLS termination'')
            else if lHostname l \<noteq> None
            then Some (rejectedCond ''ListenersNotValid''
                   ''spec.listeners[0].hostname is not supported; use route hostnames instead'')
            else
              (case listenerKindsLoop (case lAllowedRoutes l of None \<Rightarrow> [] | Some ar \<Rightarrow> arKinds ar) of
                 Some e \<Rightarrow> Some e
               | None \<Rightarrow> validateInterval parseDuration gw)))"

definition rejectedParameters :: "string \<Rightarrow> gatewayValidationError" where
  "rejectedParameters msg = rejectedAccepted (ErrTerminal (ErrText msg)) ''InvalidParameters'' msg"

text \<open>The loops with the names seen so far.\<close>

fun zoneNamesLoop :: "string list \<Rightarrow> string list \<Rightarrow> gatewayValidationError option" where
  "zoneNamesLoop seen [] = None"
| "zoneNamesLoop seen (z # zs) =
     (if z \<in> set seen
      then Some (rejectedParameters (''duplicate zone name '' @ goQuote z @ '' in dns.zones''))
      else zoneNamesLoop (z # seen) zs)"

fun replicaNamesLoop :: "string list \<Rightarrow> replica_config list \<Rightarrow> gatewayValidationError option" where
  "replicaNamesLoop seen [] = None"
| "replicaNamesLoop seen (r # rs) =
     (if repName r \<in> set seen
      then Some (rejectedParameters
             (''duplicate replica name '' @ goQuote (repName r) @ '' in tunnel.replicas''))
      else if repZone r \<noteq> [] \<and> repAffinity r \<noteq> None
      then Some (rejectedParameters
             (''replica '' @ goQuote (repName r) @ '' has both zone and affinity set (mutually exclusive)''))
      else replicaNamesLoop (repName r # seen) rs)"

text \<open>The schedule of a rotation, if every pointer on the way to it is set.\<close>

definition rotationSchedule :: "gateway_params option \<Rightarrow> rotation_schedule option" where
  "rotationSchedule params =
     Option.bind params (\<lambda>p. Option.bind (gpTunnel p) (\<lambda>t. Option.bind (tcToken t)
       (\<lambda>tok. Option.bind tok rcSchedule)))"

definition validateParameters ::
  "(string \<Rightarrow> string) \<Rightarrow> (string \<Rightarrow> go_error + 's) \<Rightarrow> gateway_params option
     \<Rightarrow> gatewayValidationError option" where
  "validateParameters tt cronParse params =
     (let zones = (case params of None \<Rightarrow> []
                   | Some p \<Rightarrow> (case gpDNSZones p of None \<Rightarrow> [] | Some zs \<Rightarrow> zs));
          replicas = (case params of None \<Rightarrow> []
                      | Some p \<Rightarrow> (case gpTunnel p of None \<Rightarrow> []
                                   | Some t \<Rightarrow> (case tcReplicas t of None \<Rightarrow> [] | Some rs \<Rightarrow> rs)))
      in case zoneNamesLoop [] zones of
           Some e \<Rightarrow> Some e
         | None \<Rightarrow>
             (case replicaNamesLoop [] replicas of
                Some e \<Rightarrow> Some e
              | None \<Rightarrow>
                  (case rotationSchedule params of
                     None \<Rightarrow> None
                   | Some sched \<Rightarrow>
                       (let tz = (if rsTimeZone sched = [] then ''UTC'' else rsTimeZone sched)
                        in case scheduleParse cronParse (rsCron sched) tz of
                             Inl err \<Rightarrow>
                               Some (rejectedParameters
                                 (''invalid token rotation schedule: '' @ errMsg tt err))
                           | Inr s \<Rightarrow> None))))"

section \<open>Attached routes\<close>

fun namespaceAllowedLoop ::
  "(label_selector \<Rightarrow> go_error + ((string \<Rightarrow> string option) \<Rightarrow> bool))
     \<Rightarrow> (string \<Rightarrow> go_error + (string \<Rightarrow> string option)) \<Rightarrow> string \<Rightarrow> listener list
     \<Rightarrow> go_error + bool" where
  "namespaceAllowedLoop parseSelector getNs ns [] = Inr False"
| "namespaceAllowedLoop parseSelector getNs ns (l # ls) =
     (case Option.bind (lAllowedRoutes l) arNamespaces of
        None \<Rightarrow> namespaceAllowedLoop parseSelector getNs ns ls
      | Some rn \<Rightarrow>
          (case rnFrom rn of
             None \<Rightarrow> namespaceAllowedLoop parseSelector getNs ns ls
           | Some from \<Rightarrow>
               if from = ''All'' then Inr True
               else if from = ''Selector'' then
                 (case rnSelector rn of
                    None \<Rightarrow> namespaceAllowedLoop parseSelector getNs ns ls
                  | Some sel \<Rightarrow>
                      (case parseSelector sel of
                         Inl err \<Rightarrow>
                           Inl (ErrTerminal (ErrWrap
                             (''parsing allowedRoutes namespace selector on listener ''
                                @ goQuote (lName l) @ '': '') err))
                       | Inr selMatches \<Rightarrow>
                           (case getNs ns of
                              Inl err \<Rightarrow> Inl (ErrWrap (''getting namespace '' @ goQuote ns @ '': '') err)
                            | Inr nsLabels \<Rightarrow>
                                if selMatches nsLabels then Inr True
                                else namespaceAllowedLoop parseSelector getNs ns ls)))
               else namespaceAllowedLoop parseSelector getNs ns ls))"

definition routeNamespaceAllowed ::
  "(label_selector \<Rightarrow> go_error + ((string \<Rightarrow> string option) \<Rightarrow> bool))
     \<Rightarrow> (string \<Rightarrow> go_error + (string \<Rightarrow> string option)) \<Rightarrow> gateway \<Rightarrow> string
     \<Rightarrow> go_error + bool" where
  "routeNamespaceAllowed parseSelector getNs gw routeNamespace =
     (if routeNamespace = gwNamespace gw then Inr True
      else namespaceAllowedLoop parseSelector getNs routeNamespace (gwListeners gw))"

definition hasParentRef :: "gateway \<Rightarrow> routeObject \<Rightarrow> bool" where
  "hasParentRef gw r \<longleftrightarrow>
     list_ex (\<lambda>ref. parentRefMatches ref gw (rtNamespace (objCommon r))) (parentRefs r)"

fun listRoutesLoop ::
  "(label_selector \<Rightarrow> go_error + ((string \<Rightarrow> string option) \<Rightarrow> bool))
     \<Rightarrow> (string \<Rightarrow> go_error + (string \<Rightarrow> string option)) \<Rightarrow> gateway \<Rightarrow> routeObject list
     \<Rightarrow> routeObject list \<Rightarrow> routeObject list \<Rightarrow> routeObject list
     \<Rightarrow> go_error + routeObject list \<times> routeObject list \<times> routeObject list" where
  "listRoutesLoop parseSelector getNs gw [] allowed denied stale = Inr (allowed, denied, stale)"
| "listRoutesLoop parseSelector getNs gw (r # rs) allowed denied stale =
     (if rtDeleted (objCommon r) then listRoutesLoop parseSelector getNs gw rs allowed denied stale
      else if \<not> hasParentRef gw r
      then listRoutesLoop parseSelector getNs gw rs allowed denied (stale @ [r])
      else
        (case routeNamespaceAllowed parseSelector getNs gw (rtNamespace (objCommon r)) of
           Inl err \<Rightarrow>
             Inl (ErrWrap (''checking allowedRoutes for '' @ routeKind r @ '' ''
                    @ rtNamespace (objCommon r) @ ''/'' @ rtName (objCommon r) @ '': '') err)
         | Inr ok \<Rightarrow>
             if \<not> ok then listRoutesLoop parseSelector getNs gw rs allowed (denied @ [r]) stale
             else listRoutesLoop parseSelector getNs gw rs (allowed @ [r]) denied stale))"

definition listGatewayRoutes ::
  "((routeObject \<Rightarrow> string) \<Rightarrow> routeObject list \<Rightarrow> routeObject list)
     \<Rightarrow> (label_selector \<Rightarrow> go_error + ((string \<Rightarrow> string option) \<Rightarrow> bool))
     \<Rightarrow> (string \<Rightarrow> go_error + (string \<Rightarrow> string option)) \<Rightarrow> routeObject list \<Rightarrow> gateway
     \<Rightarrow> go_error + routeObject list \<times> routeObject list \<times> routeObject list" where
  "listGatewayRoutes srt parseSelector getNs allRoutes gw =
     (case listRoutesLoop parseSelector getNs gw allRoutes [] [] [] of
        Inl err \<Rightarrow> Inl err
      | Inr (allowed, denied, stale) \<Rightarrow>
          (let key = (\<lambda>r. rtNamespace (objCommon r) @ ''/'' @ rtName (objCommon r))
           in Inr (srt key allowed, srt key denied, stale)))"

section \<open>Attached route counts and listener statuses\<close>

text \<open>\<^verbatim>\<open>counts[name]++\<close>; a missing name counts 0, and the counter has 32 bits.\<close>

definition incCount :: "string \<Rightarrow> (string \<Rightarrow> int) \<Rightarrow> (string \<Rightarrow> int)" where
  "incCount s counts = counts(s := wrap32 (counts s + 1))"

fun countListeners :: "string \<Rightarrow> listener list \<Rightarrow> (string \<Rightarrow> int) \<Rightarrow> (string \<Rightarrow> int)" where
  "countListeners kind [] counts = counts"
| "countListeners kind (l # ls) counts =
     countListeners kind ls (if listenerAllowsKind l kind then incCount (lName l) counts else counts)"

fun countRefsLoop ::
  "gateway \<Rightarrow> routeObject \<Rightarrow> parent_ref list \<Rightarrow> (string \<Rightarrow> int) \<Rightarrow> (string \<Rightarrow> int)" where
  "countRefsLoop gw r [] counts = counts"
| "countRefsLoop gw r (ref # refs) counts =
     (if \<not> parentRefMatches ref gw (rtNamespace (objCommon r)) then countRefsLoop gw r refs counts
      else
        (case prSectionName ref of
           Some s \<Rightarrow>
             countRefsLoop gw r refs
               (if list_ex (\<lambda>l. lName l = s \<and> listenerAllowsKind l (routeKind r)) (gwListeners gw)
                then incCount s counts else counts)
         | None \<Rightarrow>
             countRefsLoop gw r refs (countListeners (routeKind r) (gwListeners gw) counts)))"

fun countRoutesLoop ::
  "gateway \<Rightarrow> routeObject list \<Rightarrow> (string \<Rightarrow> int) \<Rightarrow> (string \<Rightarrow> int)" where
  "countRoutesLoop gw [] counts = counts"
| "countRoutesLoop gw (r # rs) counts =
     countRoutesLoop gw rs (countRefsLoop gw r (parentRefs r) counts)"

definition countAttachedRoutes :: "routeObject list \<Rightarrow> gateway \<Rightarrow> (string \<Rightarrow> int)" where
  "countAttachedRoutes routes gw = countRoutesLoop gw routes (\<lambda>s. 0)"

definition listenerConditions :: "gateway \<Rightarrow> int \<Rightarrow> condition list" where
  "listenerConditions gw now =
     (let c = (\<lambda>t status reason msg.
                 \<lparr>condType = t, condStatus = status, condObservedGeneration = gwGeneration gw,
                  condLastTransitionTime = now, condReason = reason, condMessage = msg\<rparr>)
      in [c ''Accepted'' ConditionTrue ''Accepted'' ''Listener is accepted'',
          c ''Programmed'' ConditionTrue ''Programmed'' ''Listener is programmed'',
          c ''Conflicted'' ConditionFalse ''NoConflicts'' ''No conflicts'',
          c ''ResolvedRefs'' ConditionTrue ''ResolvedRefs'' ''References resolved''])"

definition buildListenerStatuses ::
  "gateway \<Rightarrow> (string \<Rightarrow> int) \<Rightarrow> int \<Rightarrow> listener_status list" where
  "buildListenerStatuses gw attachedRoutes now =
     map (\<lambda>l. \<lparr>lsName = lName l,
               lsSupportedKinds = [\<lparr>rgkGroup = Some GatewayGroupName, rgkKind = KindHTTPRoute\<rparr>,
                                   \<lparr>rgkGroup = Some GatewayGroupName, rgkKind = KindGRPCRoute\<rparr>],
               lsAttachedRoutes = attachedRoutes (lName l),
               lsConditions = listenerConditions gw now\<rparr>) (gwListeners gw)"

fun listenersChangedLoop :: "listener_status list \<Rightarrow> listener_status list \<Rightarrow> bool" where
  "listenersChangedLoop existing [] = False"
| "listenersChangedLoop existing (d # ds) =
     (case find (\<lambda>e. lsName e = lsName d) existing of
        None \<Rightarrow> True
      | Some e \<Rightarrow>
          if lsAttachedRoutes e \<noteq> lsAttachedRoutes d then True
          else if list_ex (\<lambda>dc. condChanged (lsConditions e) (condType dc) (condStatus dc)
                    (condReason dc) (condMessage dc) (condObservedGeneration dc)) (lsConditions d)
               then True
          else listenersChangedLoop existing ds)"

definition listenersChanged :: "listener_status list \<Rightarrow> listener_status list \<Rightarrow> bool" where
  "listenersChanged existing desired =
     (if length existing \<noteq> length desired then True else listenersChangedLoop existing desired)"

definition addressType :: "status_address \<Rightarrow> string" where
  "addressType a = (case saType a of None \<Rightarrow> ''IPAddress'' | Some t \<Rightarrow> t)"

definition addressesChanged :: "status_address list \<Rightarrow> status_address list \<Rightarrow> bool" where
  "addressesChanged existing desired =
     (if length existing \<noteq> length desired then True
      else list_ex (\<lambda>(e, d). saValue e \<noteq> saValue d \<or> addressType e \<noteq> addressType d)
             (zip existing desired))"

section \<open>Lemmas\<close>

text \<open>A rejection: terminal, with the condition \<^verbatim>\<open>Accepted=False\<close> and a message.\<close>

definition terminalRejection :: "gatewayValidationError \<Rightarrow> bool" where
  "terminalRejection e \<longleftrightarrow>
     errTerminal (gveErr e) \<and> condType (gveCond e) = ConditionAccepted \<and>
     condStatus (gveCond e) = ConditionFalse \<and> condMessage (gveCond e) \<noteq> []"

lemma rejectedCond_terminal [simp]: "msg \<noteq> [] \<Longrightarrow> terminalRejection (rejectedCond reason msg)"
  by (simp add: terminalRejection_def rejectedCond_def rejectedAccepted_def)

lemma rejectedParameters_terminal [simp]: "msg \<noteq> [] \<Longrightarrow> terminalRejection (rejectedParameters msg)"
  by (simp add: terminalRejection_def rejectedParameters_def rejectedAccepted_def)

definition servedKind :: "route_group_kind \<Rightarrow> bool" where
  "servedKind k \<longleftrightarrow>
     (rgkGroup k = None \<or> rgkGroup k = Some GatewayGroupName) \<and>
     rgkKind k \<in> {KindHTTPRoute, KindGRPCRoute}"

lemma listenerKindsLoop_spec:
  "(listenerKindsLoop ks = None \<longleftrightarrow> list_all servedKind ks) \<and>
   (\<forall>e. listenerKindsLoop ks = Some e \<longrightarrow> terminalRejection e)"
  by (induction ks) (auto simp: servedKind_def Let_def split: option.splits)

lemma zoneNamesLoop_spec:
  "(zoneNamesLoop seen zs = None \<longleftrightarrow> distinct zs \<and> set zs \<inter> set seen = {}) \<and>
   (\<forall>e. zoneNamesLoop seen zs = Some e \<longrightarrow> terminalRejection e)"
  by (induction seen zs rule: zoneNamesLoop.induct) auto

lemma replicaNamesLoop_spec:
  "(replicaNamesLoop seen rs = None \<longleftrightarrow>
      distinct (map repName rs) \<and> repName ` set rs \<inter> set seen = {} \<and>
      list_all (\<lambda>r. repZone r = [] \<or> repAffinity r = None) rs) \<and>
   (\<forall>e. replicaNamesLoop seen rs = Some e \<longrightarrow> terminalRejection e)"
  by (induction seen rs rule: replicaNamesLoop.induct) (auto simp: image_iff)

text \<open>A listener that admits routes of a namespace, by its labels.\<close>

definition admitsNamespace ::
  "(label_selector \<Rightarrow> go_error + ((string \<Rightarrow> string option) \<Rightarrow> bool))
     \<Rightarrow> (string \<Rightarrow> go_error + (string \<Rightarrow> string option)) \<Rightarrow> string \<Rightarrow> listener \<Rightarrow> bool" where
  "admitsNamespace parseSelector getNs ns l \<longleftrightarrow>
     (case Option.bind (lAllowedRoutes l) arNamespaces of
        None \<Rightarrow> False
      | Some rn \<Rightarrow>
          rnFrom rn = Some ''All'' \<or>
          (rnFrom rn = Some ''Selector'' \<and>
           (\<exists>sel m ls. rnSelector rn = Some sel \<and> parseSelector sel = Inr m \<and> getNs ns = Inr ls \<and> m ls)))"

lemma namespaceAllowedLoop_spec:
  "namespaceAllowedLoop parseSelector getNs ns ls = Inr b \<Longrightarrow>
     b \<longleftrightarrow> list_ex (admitsNamespace parseSelector getNs ns) ls"
  by (induction ls)
     (auto simp: admitsNamespace_def split: option.splits if_splits sum.splits)

definition namespaceAllowed ::
  "(label_selector \<Rightarrow> go_error + ((string \<Rightarrow> string option) \<Rightarrow> bool))
     \<Rightarrow> (string \<Rightarrow> go_error + (string \<Rightarrow> string option)) \<Rightarrow> gateway \<Rightarrow> routeObject \<Rightarrow> bool" where
  "namespaceAllowed parseSelector getNs gw r \<longleftrightarrow>
     rtNamespace (objCommon r) = gwNamespace gw \<or>
     list_ex (admitsNamespace parseSelector getNs (rtNamespace (objCommon r))) (gwListeners gw)"

lemma routeNamespaceAllowed_spec:
  "routeNamespaceAllowed parseSelector getNs gw (rtNamespace (objCommon r)) = Inr b \<Longrightarrow>
     b \<longleftrightarrow> namespaceAllowed parseSelector getNs gw r"
  using namespaceAllowedLoop_spec
  by (fastforce simp: routeNamespaceAllowed_def namespaceAllowed_def split: if_splits)

lemma listRoutesLoop_spec:
  "listRoutesLoop ps gn gw rs a d s = Inr (a', d', s') \<Longrightarrow>
     a' = a @ filter (\<lambda>r. \<not> rtDeleted (objCommon r) \<and> hasParentRef gw r \<and> namespaceAllowed ps gn gw r) rs \<and>
     d' = d @ filter (\<lambda>r. \<not> rtDeleted (objCommon r) \<and> hasParentRef gw r \<and> \<not> namespaceAllowed ps gn gw r) rs \<and>
     s' = s @ filter (\<lambda>r. \<not> rtDeleted (objCommon r) \<and> \<not> hasParentRef gw r) rs"
proof (induction ps gn gw rs a d s rule: listRoutesLoop.induct)
  case (2 ps gn gw r rs a d s)
  consider (deleted) "rtDeleted (objCommon r)"
    | (noref) "\<not> rtDeleted (objCommon r)" "\<not> hasParentRef gw r"
    | (attached) "\<not> rtDeleted (objCommon r)" "hasParentRef gw r" by blast
  then show ?case
  proof cases
    case deleted
    then show ?thesis using "2.prems" "2.IH"(1) [OF deleted] by simp
  next
    case noref
    then show ?thesis using "2.prems" "2.IH"(2) [OF noref] by simp
  next
    case attached
    then obtain b where b: "routeNamespaceAllowed ps gn gw (rtNamespace (objCommon r)) = Inr b"
      using "2.prems" by (cases "routeNamespaceAllowed ps gn gw (rtNamespace (objCommon r))") simp_all
    have spec: "b \<longleftrightarrow> namespaceAllowed ps gn gw r" using routeNamespaceAllowed_spec [OF b] .
    show ?thesis
      using "2.prems" "2.IH"(3,4) [OF attached(1) _ b] attached b spec by (cases b) simp_all
  qed
qed simp

lemma validateGateway_terminal: "pred_option terminalRejection (validateGateway parseDuration gw)"
proof (cases "listenerKindsLoop (case lAllowedRoutes (hd (gwListeners gw)) of
                None \<Rightarrow> [] | Some ar \<Rightarrow> arKinds ar)")
  case None
  moreover have "pred_option terminalRejection (validateInterval parseDuration gw)"
    by (simp add: validateInterval_def split: option.splits sum.splits)
  ultimately show ?thesis by (simp add: validateGateway_def Let_def)
next
  case (Some e)
  then have "terminalRejection e" using listenerKindsLoop_spec by blast
  with Some show ?thesis by (simp add: validateGateway_def Let_def)
qed

lemma validateParameters_terminal:
  "pred_option terminalRejection (validateParameters tt cronParse params)"
proof -
  let ?zones = "case params of None \<Rightarrow> []
                | Some p \<Rightarrow> (case gpDNSZones p of None \<Rightarrow> [] | Some zs \<Rightarrow> zs)"
  let ?replicas = "case params of None \<Rightarrow> []
                   | Some p \<Rightarrow> (case gpTunnel p of None \<Rightarrow> []
                                | Some t \<Rightarrow> (case tcReplicas t of None \<Rightarrow> [] | Some rs \<Rightarrow> rs))"
  consider (zone) e where "zoneNamesLoop [] ?zones = Some e"
    | (replica) e where "zoneNamesLoop [] ?zones = None" "replicaNamesLoop [] ?replicas = Some e"
    | (neither) "zoneNamesLoop [] ?zones = None" "replicaNamesLoop [] ?replicas = None"
    by fastforce
  then show ?thesis
  proof cases
    case zone
    then show ?thesis using zoneNamesLoop_spec by (simp add: validateParameters_def Let_def)
  next
    case replica
    then show ?thesis using replicaNamesLoop_spec by (simp add: validateParameters_def Let_def)
  next
    case neither
    then show ?thesis
      by (simp add: validateParameters_def Let_def split: option.splits sum.splits)
  qed
qed

section \<open>Properties\<close>

text \<open>
  Validation is exact: a Gateway passes exactly when it has one listener, HTTPS on port 443
  without TLS or hostname, which admits HTTPRoutes and GRPCRoutes only, no addresses, and a
  reconcile interval that parses if it has one; parameters pass exactly when zone and replica
  names are distinct, no replica has both a zone and an affinity, and the rotation schedule
  parses.  Every rejection is a terminal error and an Accepted=False condition.
\<close>

lemma validation_exact:
  "(validateGateway parseDuration gw = None \<longleftrightarrow>
      (\<exists>l. gwListeners gw = [l] \<and> lProtocol l = ''HTTPS'' \<and> lPort l = 443 \<and> \<not> lHasTLS l \<and>
           lHostname l = None \<and>
           list_all servedKind (case lAllowedRoutes l of None \<Rightarrow> [] | Some ar \<Rightarrow> arKinds ar)) \<and>
      gwSpecAddresses gw = [] \<and>
      (case gwAnnotations gw AnnotationReconcileEvery of
         None \<Rightarrow> True | Some val \<Rightarrow> \<exists>d. parseDuration val = Inr d))
   \<and> (validateParameters tt cronParse (Some p) = None \<longleftrightarrow>
      distinct (case gpDNSZones p of None \<Rightarrow> [] | Some zs \<Rightarrow> zs) \<and>
      (let rs = (case Option.bind (gpTunnel p) tcReplicas of None \<Rightarrow> [] | Some rs \<Rightarrow> rs)
       in distinct (map repName rs) \<and> list_all (\<lambda>r. repZone r = [] \<or> repAffinity r = None) rs) \<and>
      (case rotationSchedule (Some p) of
         None \<Rightarrow> True
       | Some sched \<Rightarrow> \<exists>s. scheduleParse cronParse (rsCron sched)
                         (if rsTimeZone sched = [] then ''UTC'' else rsTimeZone sched) = Inr s))
   \<and> pred_option terminalRejection (validateGateway parseDuration gw)
   \<and> pred_option terminalRejection (validateParameters tt cronParse params)"
proof (intro conjI)
  have kinds: "listenerKindsLoop ks = None \<longleftrightarrow> list_all servedKind ks" for ks
    using listenerKindsLoop_spec by blast
  show "validateGateway parseDuration gw = None \<longleftrightarrow>
      (\<exists>l. gwListeners gw = [l] \<and> lProtocol l = ''HTTPS'' \<and> lPort l = 443 \<and> \<not> lHasTLS l \<and>
           lHostname l = None \<and>
           list_all servedKind (case lAllowedRoutes l of None \<Rightarrow> [] | Some ar \<Rightarrow> arKinds ar)) \<and>
      gwSpecAddresses gw = [] \<and>
      (case gwAnnotations gw AnnotationReconcileEvery of
         None \<Rightarrow> True | Some val \<Rightarrow> \<exists>d. parseDuration val = Inr d)"
  proof (cases "\<exists>l. gwListeners gw = [l]")
    case True
    then obtain l where l: "gwListeners gw = [l]" by blast
    show ?thesis
      by (cases "listenerKindsLoop (case lAllowedRoutes l of None \<Rightarrow> [] | Some ar \<Rightarrow> arKinds ar)")
         (auto simp: validateGateway_def validateInterval_def l Let_def kinds [symmetric]
           split: option.splits sum.splits)
  next
    case False
    then have "length (gwListeners gw) \<noteq> 1" by (auto simp: length_Suc_conv)
    then show ?thesis using False by (simp add: validateGateway_def)
  qed
next
  have replicas: "(case gpTunnel p of None \<Rightarrow> [] | Some t \<Rightarrow> (case tcReplicas t of None \<Rightarrow> [] | Some rs \<Rightarrow> rs))
      = (case Option.bind (gpTunnel p) tcReplicas of None \<Rightarrow> [] | Some rs \<Rightarrow> rs)"
    by (simp split: option.splits)
  let ?zs = "case gpDNSZones p of None \<Rightarrow> [] | Some zs \<Rightarrow> zs"
  let ?rs = "case Option.bind (gpTunnel p) tcReplicas of None \<Rightarrow> [] | Some rs \<Rightarrow> rs"
  show "validateParameters tt cronParse (Some p) = None \<longleftrightarrow>
      distinct ?zs \<and>
      (let rs = ?rs
       in distinct (map repName rs) \<and> list_all (\<lambda>r. repZone r = [] \<or> repAffinity r = None) rs) \<and>
      (case rotationSchedule (Some p) of
         None \<Rightarrow> True
       | Some sched \<Rightarrow> \<exists>s. scheduleParse cronParse (rsCron sched)
                         (if rsTimeZone sched = [] then ''UTC'' else rsTimeZone sched) = Inr s)"
    using zoneNamesLoop_spec [of "[]" ?zs] replicaNamesLoop_spec [of "[]" ?rs]
    by (cases "zoneNamesLoop [] ?zs"; cases "replicaNamesLoop [] ?rs")
       (auto simp: validateParameters_def Let_def replicas split: option.splits sum.splits)
next
  show "pred_option terminalRejection (validateGateway parseDuration gw)"
    by (rule validateGateway_terminal)
next
  show "pred_option terminalRejection (validateParameters tt cronParse params)"
    by (rule validateParameters_terminal)
qed

text \<open>
  C20. Which routes attach: the listed routes that are not being deleted are divided into those
  of a namespace that the Gateway's own namespace or one of its listeners admits, those of
  other namespaces, and those without a parentRef to the Gateway; no route is in two classes
  or lost, and the attached and the denied ones are in the order of their names.
\<close>

theorem listGatewayRoutes_partition:
  assumes "listGatewayRoutes srt parseSelector getNs allRoutes gw = Inr (allowed, denied, stale)"
    and "\<forall>key xs. mset (srt key xs) = mset xs \<and> sorted (map key (srt key xs))"
  shows "mset allowed = mset (filter (\<lambda>r. \<not> rtDeleted (objCommon r) \<and> hasParentRef gw r \<and>
            namespaceAllowed parseSelector getNs gw r) allRoutes)
    \<and> mset denied = mset (filter (\<lambda>r. \<not> rtDeleted (objCommon r) \<and> hasParentRef gw r \<and>
            \<not> namespaceAllowed parseSelector getNs gw r) allRoutes)
    \<and> stale = filter (\<lambda>r. \<not> rtDeleted (objCommon r) \<and> \<not> hasParentRef gw r) allRoutes
    \<and> mset (allowed @ denied @ stale) = mset (filter (\<lambda>r. \<not> rtDeleted (objCommon r)) allRoutes)
    \<and> sorted (map (\<lambda>r. rtNamespace (objCommon r) @ ''/'' @ rtName (objCommon r)) allowed)"
proof -
  obtain a d where loop: "listRoutesLoop parseSelector getNs gw allRoutes [] [] [] = Inr (a, d, stale)"
    "allowed = srt (\<lambda>r. rtNamespace (objCommon r) @ ''/'' @ rtName (objCommon r)) a"
    "denied = srt (\<lambda>r. rtNamespace (objCommon r) @ ''/'' @ rtName (objCommon r)) d"
    using assms(1) by (auto simp: listGatewayRoutes_def Let_def split: sum.splits)
  note parts = listRoutesLoop_spec [OF loop(1), simplified]
  have "mset (a @ d @ stale) = mset (filter (\<lambda>r. \<not> rtDeleted (objCommon r)) allRoutes)"
    unfolding parts [THEN conjunct1] parts [THEN conjunct2, THEN conjunct1]
      parts [THEN conjunct2, THEN conjunct2]
    by (induction allRoutes) auto
  then show ?thesis using parts loop(2,3) assms(2) by simp
qed

text \<open>A Gateway that admits the namespaces labelled \<^verbatim>\<open>team=a\<close>, and routes of four namespaces.\<close>

definition selectorListener :: listener where
  "selectorListener =
     \<lparr>lName = ''web'', lHostname = None, lPort = 443, lProtocol = ''HTTPS'', lHasTLS = False,
      lAllowedRoutes = Some \<lparr>arKinds = [],
        arNamespaces = Some \<lparr>rnFrom = Some ''Selector'',
          rnSelector = Some \<lparr>lsMatchLabels = [(''team'', ''a'')], lsMatchExpressions = []\<rparr>\<rparr>\<rparr>\<rparr>"

definition selectorGateway :: gateway where
  "selectorGateway = (namedGateway ''ns'' ''gw'')\<lparr>gwListeners := [selectorListener]\<rparr>"

definition labelsMatch :: "label_selector \<Rightarrow> go_error + ((string \<Rightarrow> string option) \<Rightarrow> bool)" where
  "labelsMatch sel = Inr (\<lambda>ls. list_all (\<lambda>(k, v). ls k = Some v) (lsMatchLabels sel))"

definition teamNs :: "string \<Rightarrow> go_error + (string \<Rightarrow> string option)" where
  "teamNs ns = Inr (if ns = ''a'' then [''team'' \<mapsto> ''a''] else Map.empty)"

definition routeIn :: "string \<Rightarrow> string \<Rightarrow> routeObject" where
  "routeIn ns parent =
     HTTPObj \<lparr>htCommon = (namedCommon ''r'' ''h'')\<lparr>rtNamespace := ns, rtParentRefs :=
         [\<lparr>prGroup = None, prKind = None, prNamespace = Some ''ns'', prName = parent,
           prSectionName = None, prPort = None\<rparr>]\<rparr>, htRules = []\<rparr>"

theorem listGatewayRoutes_partition_witness:
  "listGatewayRoutes sort_key labelsMatch teamNs
     [routeIn ''ns'' ''gw'', routeIn ''b'' ''gw'', routeIn ''a'' ''gw'', routeIn ''c'' ''other''] selectorGateway =
     Inr ([routeIn ''a'' ''gw'', routeIn ''ns'' ''gw''], [routeIn ''b'' ''gw''], [routeIn ''c'' ''other''])
   \<and> \<not> namespaceAllowed labelsMatch teamNs selectorGateway (routeIn ''b'' ''gw'')"
proof -
  let ?all = "[routeIn ''ns'' ''gw'', routeIn ''b'' ''gw'', routeIn ''a'' ''gw'', routeIn ''c'' ''other'']"
  have run: "listGatewayRoutes sort_key labelsMatch teamNs ?all selectorGateway =
      Inr ([routeIn ''a'' ''gw'', routeIn ''ns'' ''gw''], [routeIn ''b'' ''gw''], [routeIn ''c'' ''other''])"
    by code_simp
  have srt: "\<forall>(key :: routeObject \<Rightarrow> string) xs. mset (sort_key key xs) = mset xs \<and> sorted (map key (sort_key key xs))"
    by simp
  have "routeIn ''b'' ''gw'' \<in># mset [routeIn ''b'' ''gw'']" by simp
  then have "\<not> namespaceAllowed labelsMatch teamNs selectorGateway (routeIn ''b'' ''gw'')"
    unfolding listGatewayRoutes_partition [OF run srt, THEN conjunct2, THEN conjunct1]
    by (simp only: set_mset_mset set_filter mem_Collect_eq) blast
  with run show ?thesis by blast
qed

section \<open>Listener statuses\<close>

text \<open>The parentRefs of a route that attach it to a listener.\<close>

definition attachments :: "gateway \<Rightarrow> listener \<Rightarrow> routeObject \<Rightarrow> nat" where
  "attachments gw l r =
     (if listenerAllowsKind l (routeKind r)
      then length (filter (\<lambda>ref. parentRefMatches ref gw (rtNamespace (objCommon r)) \<and>
                     (prSectionName ref = None \<or> prSectionName ref = Some (lName l))) (parentRefs r))
      else 0)"

abbreviation inc32 :: "int \<Rightarrow> int" where "inc32 c \<equiv> wrap32 (c + 1)"

lemma inc32_iterate: "(inc32 ^^ n) 0 = wrap32 (int n)"
proof (induction n)
  case 0
  then show ?case by (simp add: wrapInt_def)
next
  case (Suc n)
  have "inc32 (wrap32 i) = wrap32 (i + 1)" for i
  proof -
    have "inc32 (wrap32 i) = ((i + 2 ^ 31) mod 2 ^ 32 + 1) mod 2 ^ 32 - 2 ^ 31"
      by (simp add: wrapInt_def add.commute)
    also have "\<dots> = (i + 2 ^ 31 + 1) mod 2 ^ 32 - 2 ^ 31" by (simp only: mod_add_left_eq)
    also have "\<dots> = wrap32 (i + 1)" by (simp add: wrapInt_def algebra_simps)
    finally show ?thesis .
  qed
  with Suc show ?case by (simp add: add.commute)
qed

lemma inc32_swap: "(inc32 ^^ n) (inc32 c) = inc32 ((inc32 ^^ n) c)"
  using funpow_swap1 [of inc32 n c] by simp

lemma countRefsLoop_spec:
  assumes "gwListeners gw = [l]"
  shows "countRefsLoop gw r refs counts (lName l) =
     (inc32 ^^ (if listenerAllowsKind l (routeKind r)
        then length (filter (\<lambda>ref. parentRefMatches ref gw (rtNamespace (objCommon r)) \<and>
               (prSectionName ref = None \<or> prSectionName ref = Some (lName l))) refs)
        else 0)) (counts (lName l))"
proof (induction refs arbitrary: counts)
  case (Cons ref refs)
  then show ?case
    using assms by (auto simp: incCount_def inc32_swap split: option.splits)
qed simp

lemma countRoutesLoop_spec:
  assumes "gwListeners gw = [l]"
  shows "countRoutesLoop gw rs counts (lName l) =
     (inc32 ^^ sum_list (map (attachments gw l) rs)) (counts (lName l))"
proof (induction rs arbitrary: counts)
  case (Cons r rs)
  then show ?case
    by (simp add: countRefsLoop_spec [OF assms] attachments_def funpow_add add.commute [of _ "sum_list _"])
qed simp

lemma find_listener_status:
  assumes "distinct (map lName ls)" "l \<in> set ls" "\<forall>l. lsName (f l) = lName l"
  shows "find (\<lambda>e. lsName e = lName l) (map f ls) = Some (f l)"
  using assms by (induction ls) auto

lemma listenersChangedLoop_spec:
  assumes "\<forall>d\<in>set ds. \<exists>e. find (\<lambda>e. lsName e = lsName d) ex = Some e \<and> ok d e"
    and "\<forall>d\<in>set ds. \<forall>e. find (\<lambda>e. lsName e = lsName d) ex = Some e \<longrightarrow>
      (lsAttachedRoutes e \<noteq> lsAttachedRoutes d \<or>
       list_ex (\<lambda>dc. condChanged (lsConditions e) (condType dc) (condStatus dc)
                    (condReason dc) (condMessage dc) (condObservedGeneration dc)) (lsConditions d))
      \<longleftrightarrow> P d"
  shows "listenersChangedLoop ex ds \<longleftrightarrow> list_ex P ds"
  using assms by (induction ds) auto

lemma listenerConditions_changed:
  "list_ex (\<lambda>dc. condChanged (listenerConditions gw t) (condType dc) (condStatus dc)
       (condReason dc) (condMessage dc) (condObservedGeneration dc)) (listenerConditions gw' t')
   \<longleftrightarrow> gwGeneration gw \<noteq> gwGeneration gw'"
  by (auto simp: listenerConditions_def Let_def condChanged_def)

text \<open>
  Listener statuses: the attached routes of the listener of a validated Gateway are the
  parentRefs that attach a route of an admitted kind to it, as a 32-bit count; and two lists
  of statuses built for the same listeners, whenever they were built, count as changed exactly
  when the generation or some listener's count differs, so an unchanged Gateway is not patched
  again.
\<close>

lemma listener_statuses_exact:
  assumes "gwListeners gw = [l]"
    and "distinct (map lName (gwListeners g1))" and "gwListeners g2 = gwListeners g1"
    and "gwListeners g1 \<noteq> []"
  shows "countAttachedRoutes routes gw (lName l) =
           wrap32 (int (sum_list (map (attachments gw l) routes)))
    \<and> (listenersChanged (buildListenerStatuses g1 c1 t1) (buildListenerStatuses g2 c2 t2) \<longleftrightarrow>
         gwGeneration g1 \<noteq> gwGeneration g2 \<or>
         (\<exists>l\<in>set (gwListeners g1). c1 (lName l) \<noteq> c2 (lName l)))"
proof (intro conjI)
  show "countAttachedRoutes routes gw (lName l) = wrap32 (int (sum_list (map (attachments gw l) routes)))"
    using countRoutesLoop_spec [OF assms(1), of routes "\<lambda>s. 0"]
    by (simp add: countAttachedRoutes_def inc32_iterate)
next
  let ?s = "\<lambda>g c t l. \<lparr>lsName = lName l,
               lsSupportedKinds = [\<lparr>rgkGroup = Some GatewayGroupName, rgkKind = KindHTTPRoute\<rparr>,
                                   \<lparr>rgkGroup = Some GatewayGroupName, rgkKind = KindGRPCRoute\<rparr>],
               lsAttachedRoutes = c (lName l), lsConditions = listenerConditions g t\<rparr>"
  let ?P = "\<lambda>d. gwGeneration g1 \<noteq> gwGeneration g2 \<or> c1 (lsName d) \<noteq> c2 (lsName d)"
  have found: "find (\<lambda>e. lsName e = lName l) (map (?s g1 c1 t1) (gwListeners g1)) = Some (?s g1 c1 t1 l)"
    if "l \<in> set (gwListeners g1)" for l
    using assms(2) that by (rule find_listener_status) simp
  have "listenersChangedLoop (map (?s g1 c1 t1) (gwListeners g1)) (map (?s g2 c2 t2) (gwListeners g1))
      \<longleftrightarrow> list_ex ?P (map (?s g2 c2 t2) (gwListeners g1))"
    by (rule listenersChangedLoop_spec [where ok = "\<lambda>_ _. True"])
       (auto simp: found listenerConditions_changed)
  then show "listenersChanged (buildListenerStatuses g1 c1 t1) (buildListenerStatuses g2 c2 t2) \<longleftrightarrow>
         gwGeneration g1 \<noteq> gwGeneration g2 \<or> (\<exists>l\<in>set (gwListeners g1). c1 (lName l) \<noteq> c2 (lName l))"
    using assms(3,4) by (auto simp: listenersChanged_def buildListenerStatuses_def list_ex_iff)
qed

lemma listener_statuses_exact_witness:
  "countAttachedRoutes [routeIn ''a'' ''gw'', routeIn ''c'' ''other'', routeIn ''ns'' ''gw''] selectorGateway
     ''web'' = 2
   \<and> \<not> listenersChanged (buildListenerStatuses selectorGateway (\<lambda>s. 2) 7)
         (buildListenerStatuses selectorGateway (\<lambda>s. 2) 9)"
proof -
  have l: "gwListeners selectorGateway = [selectorListener]" by (simp add: selectorGateway_def)
  have "wrap32 (int (sum_list (map (attachments selectorGateway selectorListener)
      [routeIn ''a'' ''gw'', routeIn ''c'' ''other'', routeIn ''ns'' ''gw'']))) = 2" by code_simp
  moreover have "lName selectorListener = ''web''" by (simp add: selectorListener_def)
  ultimately show ?thesis
    using listener_statuses_exact [OF l, of selectorGateway selectorGateway] by (simp add: l)
qed

end
