(* ===== verification/GatewayStatus.thy ===== *)
theory GatewayStatus
  imports GatewayHelpers GatewayRoutes Dns
begin

text \<open>
  How the Gateway controller reports (internal/controller/gateway_controller.go): the error
  path, the final status patch with its events, the mirror of the conditions on the CGS, and
  the requeue interval.  A \<^verbatim>\<open>ctrl.Result\<close> is its \<^verbatim>\<open>RequeueAfter\<close> in nanoseconds, 0 for none.
\<close>

section \<open>Requeueing and events\<close>

type_synonym result = "int \<times> go_error option"

definition maxEventMessageLen :: nat where
  "maxEventMessageLen = 1024"

definition truncateEventMessage :: "string \<Rightarrow> string" where
  "truncateEventMessage msg =
     (if length msg \<le> maxEventMessageLen then msg
      else (let suffix = '' ... (truncated)''
            in take (maxEventMessageLen - length suffix) msg @ suffix))"

text \<open>\<^verbatim>\<open>time.Until\<close> with the clock's \<open>now\<close>.\<close>

definition computeRequeueAfter ::
  "(string \<Rightarrow> string) \<Rightarrow> (string \<Rightarrow> go_error + int) \<Rightarrow> gateway \<Rightarrow> tokenRotationResult \<Rightarrow> int
     \<Rightarrow> int \<times> string list" where
  "computeRequeueAfter tt parseDuration gw tokenResult now =
     (let (requeueAfter, errs) =
        (case ReconcileInterval parseDuration (gwAnnotations gw) of
           Inl err \<Rightarrow> (DefaultReconcileInterval, [errMsg tt err])
         | Inr d \<Rightarrow> (d, []))
      in if trrNextTrigger tokenResult \<noteq> zeroTime
         then
           (let timeUntilNext = max (timeSub (trrNextTrigger tokenResult) now) 0
            in (if timeUntilNext < requeueAfter then timeUntilNext else requeueAfter, errs))
         else (requeueAfter, errs))"

definition buildDNSManagementCondition :: "int \<Rightarrow> int \<Rightarrow> dnsPolicy \<Rightarrow> condition" where
  "buildDNSManagementCondition gen now dns =
     (let cond = (\<lambda>status reason msg.
            \<lparr>condType = ConditionDNSManagement, condStatus = status,
             condObservedGeneration = gen, condLastTransitionTime = now,
             condReason = reason, condMessage = msg\<rparr>)
      in if dnsEnabled dns
         then cond ConditionTrue ReasonEnabled
                (if allZones dns then ''All hostnames''
                 else ''Allowed zones:'' @ concat (map (\<lambda>z. nl @ ''- '' @ z) (dnsZones dns)))
         else cond ConditionFalse ReasonDisabled ''DNS management is disabled'')"

section \<open>The final status patch\<close>

definition finalReadiness :: "gatewayReadiness \<Rightarrow> string list \<Rightarrow> gatewayReadiness" where
  "finalReadiness readiness errs =
     (if length errs > 0 \<and> grReadyStatus readiness \<noteq> ConditionFalse
      then readiness\<lparr>grReadyStatus := ConditionUnknown,
             grReadyReason := ReasonProgressingWithRetry,
             grReadyMsg := joinStr errs ''; ''\<rparr>
      else readiness)"

definition desiredConditionsOf ::
  "gateway \<Rightarrow> int \<Rightarrow> gatewayReadiness \<Rightarrow> dnsPolicy \<Rightarrow> condition list" where
  "desiredConditionsOf gw now readiness dns =
     (let cond = (\<lambda>t status reason msg.
            \<lparr>condType = t, condStatus = status, condObservedGeneration = gwGeneration gw,
             condLastTransitionTime = now, condReason = reason, condMessage = msg\<rparr>)
      in [cond ConditionAccepted ConditionTrue ''Accepted'' ''Gateway is accepted'',
          cond ConditionProgrammed (grProgrammedStatus readiness) (grProgrammedReason readiness)
            (grProgrammedMsg readiness),
          cond ConditionReady (grReadyStatus readiness) (grReadyReason readiness)
            (grReadyMsg readiness),
          buildDNSManagementCondition (gwGeneration gw) now dns])"

definition anyChanged :: "condition list \<Rightarrow> condition list \<Rightarrow> int \<Rightarrow> bool" where
  "anyChanged existing desired gen =
     list_ex (\<lambda>c. condChanged existing (condType c) (condStatus c) (condReason c) (condMessage c)
                    gen) desired"

definition statusChangedOf ::
  "gateway \<Rightarrow> condition list \<Rightarrow> listener_status list \<Rightarrow> status_address list \<Rightarrow> bool" where
  "statusChangedOf gw desiredConds desiredListeners desiredAddresses \<longleftrightarrow>
     anyChanged (gwConditions gw) desiredConds (gwGeneration gw) \<or>
     listenersChanged (gwStatusListeners gw) desiredListeners \<or>
     addressesChanged (gwStatusAddresses gw) desiredAddresses"

text \<open>The mirror of the conditions on the CGS; a failing patch is only logged.\<close>

definition mirrorConditions ::
  "'w cluster \<Rightarrow> gateway \<Rightarrow> cgs_object option \<Rightarrow> condition list \<Rightarrow> bool \<Rightarrow> 'w \<Rightarrow> 'w" where
  "mirrorConditions cl gw cgs desiredConds forcePatch w =
     (case cgs of
        None \<Rightarrow> w
      | Some c \<Rightarrow>
          if anyChanged (cgsConditions (cgsStatus c)) desiredConds (gwGeneration gw) \<or> forcePatch
          then snd (clPatchCGSStatus cl c
                 (c\<lparr>cgsStatus := (cgsStatus c)\<lparr>cgsConditions :=
                      condSet (cgsConditions (cgsStatus c)) desiredConds\<rparr>\<rparr>) w)
          else w)"

definition summaryEvent ::
  "gateway \<Rightarrow> bool \<Rightarrow> bool \<Rightarrow> gatewayReadiness \<Rightarrow> string list \<Rightarrow> string list \<Rightarrow> kevent option" where
  "summaryEvent gw readyTerminal statusChanged readiness changes errs =
     (let warnings = (if readyTerminal then [grReadyMsg readiness] else []) @ errs;
          ev = (\<lambda>t reason lines. Some \<lparr>keObject = gwName gw, keType = t, keReason = reason,
                  keAction = ''Reconcile'', keNote = truncateEventMessage (joinStr lines nl)\<rparr>)
      in if length warnings > 0
         then ev ''Warning'' (if readyTerminal then grReadyReason readiness
                              else ReasonProgressingWithRetry) (warnings @ changes)
         else if length changes > 0 \<or> statusChanged
         then ev ''Normal'' ReasonReconciliationSucceeded
                (changes @ (if statusChanged then [grReadyMsg readiness] else []))
         else None)"

definition patchGatewayStatus ::
  "'w cluster \<Rightarrow> gateway \<Rightarrow> cgs_object option \<Rightarrow> tunnelState \<Rightarrow> listener_status list
     \<Rightarrow> string list \<Rightarrow> string list \<Rightarrow> gatewayReadiness \<Rightarrow> dnsPolicy \<Rightarrow> int \<Rightarrow> 'w \<Rightarrow> result \<times> 'w" where
  "patchGatewayStatus cl gw cgs t desiredListeners changes errs readiness0 dns requeueAfter w0 =
     (case clNow cl w0 of (now, w) \<Rightarrow>
       (let readiness = finalReadiness readiness0 errs;
            desiredConds = desiredConditionsOf gw now readiness dns;
            desiredAddresses = [\<lparr>saType = Some ''Hostname'', saValue = TunnelTarget (tunID t)\<rparr>];
            readyTerminal = (grReadyStatus readiness = ConditionFalse \<and>
              condChanged (gwConditions gw) ConditionReady (grReadyStatus readiness)
                (grReadyReason readiness) (grReadyMsg readiness) (gwGeneration gw));
            forcePatch = (grReadyReason readiness = ''Progressing'' \<or>
              grReadyReason readiness = ReasonProgressingWithRetry);
            statusChanged = statusChangedOf gw desiredConds desiredListeners desiredAddresses;
            finish = (\<lambda>w.
              (let w' = (case summaryEvent gw readyTerminal statusChanged readiness changes errs of
                           None \<Rightarrow> w
                         | Some ev \<Rightarrow> clEvent cl ev w)
               in if length errs > 0 then ((0, Some (ErrText (joinStr errs ''; ''))), w')
                  else ((requeueAfter, None), w')))
        in if \<not> forcePatch \<and> \<not> statusChanged \<and> length changes = 0 \<and> length errs = 0
           then ((requeueAfter, None), w)
           else if forcePatch \<or> statusChanged
           then
             (let gw' = gw\<lparr>gwConditions := condSet (gwConditions gw) desiredConds,
                        gwStatusListeners := desiredListeners,
                        gwStatusAddresses := desiredAddresses\<rparr>
              in case clPatchGatewayStatus cl gw gw' w of
                   (Some err, w1) \<Rightarrow>
                     if length errs > 0
                     then finish (mirrorConditions cl gw cgs desiredConds forcePatch w1)
                     else ((0, Some err), w1)
                 | (None, w1) \<Rightarrow> finish (mirrorConditions cl gw cgs desiredConds forcePatch w1))
           else finish w))"

section \<open>The error paths\<close>

definition errorConditions ::
  "(string \<Rightarrow> string) \<Rightarrow> gateway \<Rightarrow> int \<Rightarrow> go_error \<Rightarrow> condition list \<Rightarrow> condition list" where
  "errorConditions tt gw now err extraConds =
     \<lparr>condType = ConditionReady,
      condStatus = (if errTerminal err then ConditionFalse else ConditionUnknown),
      condObservedGeneration = gwGeneration gw, condLastTransitionTime = now,
      condReason = (if errTerminal err then ReasonReconciliationFailed
                    else ReasonProgressingWithRetry),
      condMessage = errMsg tt err\<rparr> #
     map (\<lambda>c. c\<lparr>condObservedGeneration := gwGeneration gw, condLastTransitionTime := now\<rparr>) extraConds"

definition reconcileError ::
  "(string \<Rightarrow> string) \<Rightarrow> 'w cluster \<Rightarrow> gateway \<Rightarrow> go_error \<Rightarrow> condition list \<Rightarrow> 'w \<Rightarrow> result \<times> 'w" where
  "reconcileError tt cl gw err extraConds w =
     (case clNow cl w of (now, w1) \<Rightarrow>
       (let desiredConds = errorConditions tt gw now err extraConds;
            gw' = gw\<lparr>gwConditions := foldl condUpsert (gwConditions gw) desiredConds\<rparr>;
            w2 = snd (clPatchGatewayStatus cl gw gw' w1);
            w4 = (case getCGS cl gw w2 of
                    (Inr (Some c), w3) \<Rightarrow>
                      snd (clPatchCGSStatus cl c
                        (c\<lparr>cgsStatus := (cgsStatus c)
                             \<lparr>cgsLastHandledReconcileAt :=
                                mapGet (gwAnnotations gw) AnnotationReconcileRequestedAt,
                              cgsConditions :=
                                foldl condUpsert (cgsConditions (cgsStatus c)) desiredConds\<rparr>\<rparr>) w3)
                  | (res, w3) \<Rightarrow> w3);
            w5 = clEvent cl \<lparr>keObject = gwName gw, keType = ''Warning'',
                   keReason = (if errTerminal err then ReasonReconciliationFailed
                               else ReasonProgressingWithRetry),
                   keAction = ''Reconcile'',
                   keNote = ''Reconciliation failed: '' @ errMsg tt err\<rparr> w4
        in ((0, Some err), w5)))"

definition finalizeError ::
  "(string \<Rightarrow> string) \<Rightarrow> 'w cluster \<Rightarrow> gateway \<Rightarrow> string list \<Rightarrow> go_error \<Rightarrow> 'w \<Rightarrow> result \<times> 'w" where
  "finalizeError tt cl gw changes err w =
     (case clNow cl w of (now, w1) \<Rightarrow>
       (let gw' = gw\<lparr>gwConditions := condUpsert (gwConditions gw)
              \<lparr>condType = ConditionReady, condStatus = ConditionUnknown,
               condObservedGeneration = gwGeneration gw, condLastTransitionTime = now,
               condReason = ReasonProgressingWithRetry, condMessage = errMsg tt err\<rparr>\<rparr>;
            w2 = snd (clPatchGatewayStatus cl gw gw' w1);
            summary = (''Finalization failed: '' @ errMsg tt err) # changes
        in ((0, Some err),
            clEvent cl \<lparr>keObject = gwName gw, keType = ''Warning'',
              keReason = ReasonProgressingWithRetry, keAction = ''Finalize'',
              keNote = truncateEventMessage (joinStr summary nl)\<rparr> w2)))"

end
