(* ===== verification/GatewayReconcile.thy ===== *)
theory GatewayReconcile
  imports GatewayStatus
begin

text \<open>
  The Gateway controller itself (internal/controller/gateway_controller.go): one
  reconciliation from request to result, in the order of \<^verbatim>\<open>Reconcile\<close> and \<^verbatim>\<open>reconcile\<close>, and
  finalization.  Everything that is not under src/ is in the record \<open>env\<close>.  A stage gives
  either a failure, the error and the extra conditions \<^verbatim>\<open>reconcileError\<close> is called with, or
  its results.  The value \<open>None\<close> means that a search or a wait does not return.
\<close>

section \<open>The environment\<close>

record 'w env =
  enCluster :: "'w cluster"
  enKube :: "'w kube"
  enRouteRetry :: "'w retrier"
  enClassRetry :: "'w class_retrier"
  enReleaseRetry :: "'w release_retrier"
  enTerminalText :: "string \<Rightarrow> string"
  enMapOrder :: "desired \<Rightarrow> desired"
  enGatewaysByHost :: "string \<Rightarrow> 'w \<Rightarrow> (go_error + gateway list) \<times> 'w"
  enGetConfigMap :: "namespaced_name \<Rightarrow> 'w \<Rightarrow> (go_error + (string \<Rightarrow> string option)) \<times> 'w"
  enUnmarshalYAML :: "string \<Rightarrow> go_error + proxy_config"
  enMarshalYAML :: "proxy_config \<Rightarrow> go_error + string"
  enGrants :: "'w \<Rightarrow> string \<Rightarrow> go_error + reference_grant list"
  enNamespaceLabels :: "'w \<Rightarrow> string \<Rightarrow> go_error + (string \<Rightarrow> string option)"
  enParseSelector :: "label_selector \<Rightarrow> go_error + ((string \<Rightarrow> string option) \<Rightarrow> bool)"
  enSort :: "(routeObject \<Rightarrow> string) \<Rightarrow> routeObject list \<Rightarrow> routeObject list"
  enParseDuration :: "string \<Rightarrow> go_error + int"
  enCronParse :: "string \<Rightarrow> go_error + (int \<Rightarrow> int)"
  enParseNano :: "string \<Rightarrow> go_error + int"
  enParse3339 :: "string \<Rightarrow> go_error + int"
  enFormat3339 :: "int \<Rightarrow> string"
  enSha256 :: "string \<Rightarrow> string"
  enSetOwner :: "gateway \<Rightarrow> secret_obj \<Rightarrow> go_error + secret_obj"
  enToUnstructured :: "typed_object \<Rightarrow> go_error + json"
  enJson :: json_lib
  enTunnelImage :: string
  enTimeEq :: "int option \<Rightarrow> int option \<Rightarrow> bool"
  enClusterName :: string
  enNewClient :: "client_config \<Rightarrow> go_error + 'w client"

type_synonym failure = "go_error \<times> condition list"

section \<open>Preparation\<close>

definition invalidParametersCond :: "string \<Rightarrow> condition" where
  "invalidParametersCond msg =
     \<lparr>condType = ConditionAccepted, condStatus = ConditionFalse, condObservedGeneration = 0,
      condLastTransitionTime = zeroTime, condReason = ''InvalidParameters'', condMessage = msg\<rparr>"

definition listAllRoutes ::
  "'w cluster \<Rightarrow> gateway \<Rightarrow> 'w \<Rightarrow> (go_error + routeObject list) \<times> 'w" where
  "listAllRoutes cl gw w =
     (let gwKey = gwNamespace gw @ ''/'' @ gwName gw
      in case clListHTTPRoutes cl gwKey w of
           (Inl err, w1) \<Rightarrow> (Inl (ErrWrap ''listing HTTPRoutes: '' err), w1)
         | (Inr hs, w1) \<Rightarrow>
             (case clListGRPCRoutes cl gwKey w1 of
                (Inl err, w2) \<Rightarrow> (Inl (ErrWrap ''listing GRPCRoutes: '' err), w2)
              | (Inr gs, w2) \<Rightarrow> (Inr (map HTTPObj hs @ map GRPCObj gs), w2)))"

definition readConfiguration ::
  "'w env \<Rightarrow> gateway \<Rightarrow> gateway_class \<Rightarrow> 'w
     \<Rightarrow> (failure + gateway_params option \<times> 'w client) \<times> 'w" where
  "readConfiguration en gw gc w =
     (let cl = enCluster en; tt = enTerminalText en
      in case readParameters cl gw w of
           (Inl err, w1) \<Rightarrow>
             (Inl (ErrWrap ''reading parameters: '' err,
                   [invalidParametersCond (''Failed to read parameters: '' @ errMsg tt err)]), w1)
         | (Inr params, w1) \<Rightarrow>
             (case validateParameters tt (enCronParse en) params of
                Some e \<Rightarrow> (Inl (gveErr e, [gveCond e]), w1)
              | None \<Rightarrow>
                  (case readCredentials cl (enGrants en w1) gc gw params w1 of
                     (Inl err, w2) \<Rightarrow>
                       (Inl (ErrWrap ''reading credentials: '' err,
                             [invalidParametersCond (''Failed to read credentials: '' @ errMsg tt err)]),
                        w2)
                   | (Inr cfg, w2) \<Rightarrow>
                       (case enNewClient en cfg of
                          Inl err \<Rightarrow> (Inl (ErrWrap ''creating cloudflare client: '' err, []), w2)
                        | Inr tc \<Rightarrow> (Inr (params, tc), w2)))))"

definition prepareReconcile ::
  "'w env \<Rightarrow> gateway \<Rightarrow> gateway_class \<Rightarrow> 'w
     \<Rightarrow> (failure + routeObject list \<times> gateway_params option \<times> 'w client) \<times> 'w" where
  "prepareReconcile en gw gc w =
     (let cl = enCluster en
      in case ensureGatewayClassFinalizer cl (enClassRetry en) gc gw w of
           (Some err, (w1, gc1)) \<Rightarrow> (Inl (ErrWrap ''ensuring GatewayClass finalizer: '' err, []), w1)
         | (None, (w1, gc1)) \<Rightarrow>
             (case validateGateway (enParseDuration en) gw of
                Some e \<Rightarrow> (Inl (gveErr e, [gveCond e]), w1)
              | None \<Rightarrow>
                  (case listAllRoutes cl gw w1 of
                     (Inl err, w2) \<Rightarrow> (Inl (err, []), w2)
                   | (Inr allRoutes, w2) \<Rightarrow>
                       (case readConfiguration en gw gc1 w2 of
                          (Inl f, w3) \<Rightarrow> (Inl f, w3)
                        | (Inr (params, tc), w3) \<Rightarrow> (Inr (allRoutes, params, tc), w3)))))"

section \<open>The routes\<close>

fun staleRoutesLoop ::
  "'w env \<Rightarrow> gateway \<Rightarrow> routeObject list \<Rightarrow> string list \<Rightarrow> 'w \<Rightarrow> string list \<times> 'w" where
  "staleRoutesLoop en gw [] errs w = (errs, w)"
| "staleRoutesLoop en gw (r # rs) errs w =
     (case removeRouteStatus (enKube en) (enRouteRetry en) gw r w of
        (Some err, w1) \<Rightarrow>
          staleRoutesLoop en gw rs (errs @ [''failed to remove stale '' @ routeKind r @ '' ''
            @ keyString r @ '' status: '' @ errMsg (enTerminalText en) err]) w1
      | (None, w1) \<Rightarrow> staleRoutesLoop en gw rs errs w1)"

fun deniedRoutesLoop ::
  "'w env \<Rightarrow> gateway \<Rightarrow> routeObject list \<Rightarrow> string list \<Rightarrow> 'w \<Rightarrow> string list \<times> 'w" where
  "deniedRoutesLoop en gw [] errs w = (errs, w)"
| "deniedRoutesLoop en gw (r # rs) errs w =
     (case clNow (enCluster en) w of (now, w0) \<Rightarrow>
       (case updateDeniedRouteStatus (enKube en) (enRouteRetry en) gw now r w0 of
          (Some err, w1) \<Rightarrow>
            deniedRoutesLoop en gw rs (errs @ [''failed to update denied '' @ routeKind r @ '' ''
              @ keyString r @ '' status: '' @ errMsg (enTerminalText en) err]) w1
        | (None, w1) \<Rightarrow> deniedRoutesLoop en gw rs errs w1))"

fun supportedRoutesLoop ::
  "'w env \<Rightarrow> gateway \<Rightarrow> routeObject list \<Rightarrow> routeObject list \<Rightarrow> string list \<Rightarrow> 'w
     \<Rightarrow> routeObject list \<times> string list \<times> 'w" where
  "supportedRoutesLoop en gw [] valid errs w = (valid, errs, w)"
| "supportedRoutesLoop en gw (r # rs) valid errs w =
     (let iss = validateRoute r
      in if length iss > 0
         then
           (case clNow (enCluster en) w of (now, w0) \<Rightarrow>
             (case rejectRouteStatus (enKube en) (enRouteRetry en) gw now r ''UnsupportedValue''
                     (''Unsupported features:'' @ nl @ ''- '' @ joinStr iss (nl @ ''- '')) w0 of
                (Some err, w1) \<Rightarrow>
                  supportedRoutesLoop en gw rs valid (errs @ [''failed to update invalid ''
                    @ routeKind r @ '' '' @ keyString r @ '' status: ''
                    @ errMsg (enTerminalText en) err]) w1
              | (None, w1) \<Rightarrow> supportedRoutesLoop en gw rs valid errs w1))
         else supportedRoutesLoop en gw rs (valid @ [r]) errs w)"

definition filterRoutes ::
  "'w env \<Rightarrow> gateway \<Rightarrow> routeObject list \<Rightarrow> 'w
     \<Rightarrow> (go_error + routeObject list \<times> string list) \<times> 'w" where
  "filterRoutes en gw allRoutes w =
     (let tt = enTerminalText en
      in case listGatewayRoutes (enSort en) (enParseSelector en) (enNamespaceLabels en w) allRoutes gw of
           Inl err \<Rightarrow> (Inl err, w)
         | Inr (gatewayRoutes, denied, stale) \<Rightarrow>
             (case staleRoutesLoop en gw stale [] w of (errs1, w1) \<Rightarrow>
             (case deniedRoutesLoop en gw denied errs1 w1 of (errs2, w2) \<Rightarrow>
             (case clNow (enCluster en) w2 of (now, w3) \<Rightarrow>
             (case filterNoMatchingParentRoutes tt (enKube en) (enRouteRetry en) gw now gatewayRoutes w3
              of (matched, noMatchErrs, w4) \<Rightarrow>
             (case supportedRoutesLoop en gw matched [] (errs2 @ noMatchErrs) w4
              of (valid, errs3, w5) \<Rightarrow>
             (case clNow (enCluster en) w5 of (now2, w6) \<Rightarrow>
             (case filterConflictingRoutes tt (enKube en) (enRouteRetry en) (enGetConfigMap en)
                     (enUnmarshalYAML en) gw now2 valid w6 of
                (Inl err, w7) \<Rightarrow> (Inl err, w7)
              | (Inr (kept, conflictErrs), w7) \<Rightarrow> (Inr (kept, errs3 @ conflictErrs), w7)))))))))"

section \<open>The tunnel and its resources\<close>

definition resolveReplicas :: "gateway_params option \<Rightarrow> replica_config list" where
  "resolveReplicas params =
     (case Option.bind (Option.bind params gpTunnel) tcReplicas of
        None \<Rightarrow> [\<lparr>repName = ''primary'', repZone = [], repNodeSelector = [], repAffinity = None\<rparr>]
      | Some rs \<Rightarrow> rs)"

text \<open>From the tunnel to its token.\<close>

definition reconcileTunnel ::
  "'w env \<Rightarrow> gateway \<Rightarrow> gateway_params option \<Rightarrow> 'w client \<Rightarrow> routeObject list \<Rightarrow> 'w
     \<Rightarrow> ((go_error + tunnelState \<times> routeObject list \<times> cgs_object option \<times> tokenRotationResult
           \<times> string list \<times> string list) \<times> 'w) option" where
  "reconcileTunnel en gw params tc validRoutes w =
     (let cl = enCluster en; tt = enTerminalText en
      in case ensureTunnel tc \<lparr>tunName = TunnelName (enClusterName en) gw, tunID = []\<rparr> w of
           (Inl err, w1) \<Rightarrow> Some (Inl err, w1)
         | (Inr (tunnelChanges, t), w1) \<Rightarrow>
             (case clNow cl w1 of (now, w2) \<Rightarrow>
             (case filterManagedDNSHostnameConflicts tt (enMapOrder en) (enKube en) (enRouteRetry en) tc
                     (enGatewaysByHost en) (enGetConfigMap en) (enUnmarshalYAML en) gw now (tunID t)
                     (buildDNSPolicy params) validRoutes w2 of
                (Inl err, w3) \<Rightarrow> Some (Inl err, w3)
              | (Inr (kept, conflictErrs), w3) \<Rightarrow>
                  (case getCGS cl gw w3 of
                     (Inl err, w4) \<Rightarrow>
                       Some (Inl (ErrWrap ''fetching CloudflareGatewayStatus: '' err), w4)
                   | (Inr cgs, w4) \<Rightarrow>
                       (case reconcileTunnelTokenSecret cl (enParseNano en) (enParse3339 en)
                               (enFormat3339 en) (enCronParse en) (enSha256 en) (enSetOwner en) gw tc t
                               cgs params w4 of
                          None \<Rightarrow> None
                        | Some (Inl err, w5) \<Rightarrow> Some (Inl err, w5)
                        | Some (Inr tokenResult, w5) \<Rightarrow>
                            (case patchCGSTokenHash cl cgs tokenResult w5 of
                               ((cgs1, Some err), w6) \<Rightarrow> Some (Inl err, w6)
                             | ((cgs1, None), w6) \<Rightarrow>
                                 Some (Inr (t, kept, cgs1, tokenResult,
                                            tunnelChanges @ trrChanges tokenResult, conflictErrs),
                                       w6)))))))"

text \<open>From the route ConfigMap to the stale resources.\<close>

definition reconcileResources ::
  "'w env \<Rightarrow> gateway \<Rightarrow> gateway_params option \<Rightarrow> routeObject list \<Rightarrow> tokenRotationResult \<Rightarrow> 'w
     \<Rightarrow> (go_error + (namespaced_name \<Rightarrow> string list option) \<times> string list \<times> string list) \<times> 'w" where
  "reconcileResources en gw params validRoutes tokenResult w =
     (let cl = enCluster en; tt = enTerminalText en; replicas = resolveReplicas params
      in case reconcileRouteConfigMap cl (enSetOwner en) (enGrants en w) (enMarshalYAML en) gw
                validRoutes w of
           (Inl err, w1) \<Rightarrow> (Inl err, w1)
         | (Inr (deniedRefs, changes1), w1) \<Rightarrow>
         (case reconcileTunnelRBAC cl (enToUnstructured en) gw w1 of
           (Inl err, w2) \<Rightarrow> (Inl err, w2)
         | (Inr changes2, w2) \<Rightarrow>
         (case applyTunnelDeployments cl (enJson en) (enTunnelImage en) gw params replicas
                 (trrTokenHash tokenResult) w2 of
           ((changes3, Some err), w3) \<Rightarrow> (Inl err, w3)
         | ((changes3, None), w3) \<Rightarrow>
         (case (if autoscalingEnabled params
                then reconcileVPAs cl (enToUnstructured en) gw params replicas w3
                else (([], None), w3)) of
           ((changes4, Some err), w4) \<Rightarrow> (Inl err, w4)
         | ((changes4, None), w4) \<Rightarrow>
         (case cleanupStaleTunnelResources tt cl gw replicas w4 of
           ((changes5, errs5), w5) \<Rightarrow>
             (let desiredDeployNames =
                    (if autoscalingEnabled params
                     then map (\<lambda>r. GatewayReplicaName gw (repName r)) replicas else [])
              in case cleanupStaleVPAs tt cl gw desiredDeployNames w5 of
                   ((changes6, errs6), w6) \<Rightarrow>
                     (Inr (deniedRefs, changes1 @ changes2 @ changes3 @ changes4 @ changes5 @ changes6,
                           errs5 @ errs6), w6)))))))"

text \<open>\<^verbatim>\<open>reconcileDNSWithZoneChange\<close>: the error, the changes, the error as a list.\<close>

definition reconcileDNSWithZoneChange ::
  "'w env \<Rightarrow> 'w client \<Rightarrow> string \<Rightarrow> string list \<Rightarrow> dnsPolicy \<Rightarrow> 'w
     \<Rightarrow> (string option \<times> string list \<times> string list) \<times> 'w" where
  "reconcileDNSWithZoneChange en tc tid routeHostnames dns w =
     (case reconcileDNS (enTerminalText en) (enMapOrder en) tc tid dns routeHostnames w of
        ((dnsChanges, dnsErr), w') \<Rightarrow>
          ((dnsErr, dnsChanges, case dnsErr of None \<Rightarrow> [] | Some e \<Rightarrow> [e]), w'))"

text \<open>
  The rest: DNS, readiness, route statuses, the CGS, and the final patch.  When the CGS could
  not be reconciled, the caller keeps its pointer, whose content may have changed.
\<close>

definition reconcileStatuses ::
  "'w env \<Rightarrow> gateway \<Rightarrow> gateway_params option \<Rightarrow> 'w client \<Rightarrow> tunnelState \<Rightarrow> routeObject list
     \<Rightarrow> cgs_object option \<Rightarrow> tokenRotationResult \<Rightarrow> (namespaced_name \<Rightarrow> string list option)
     \<Rightarrow> string list \<Rightarrow> string list \<Rightarrow> 'w \<Rightarrow> result \<times> 'w" where
  "reconcileStatuses en gw params tc t validRoutes cgs tokenResult deniedRefs changes errs w0 =
     (let cl = enCluster en; tt = enTerminalText en; replicas = resolveReplicas params;
          dns = buildDNSPolicy params
      in case clNow cl w0 of (now, w) \<Rightarrow>
         (let desiredListeners = buildListenerStatuses gw (countAttachedRoutes validRoutes gw) now
          in case reconcileDNSWithZoneChange en tc (tunID t) (concat (map hostnames validRoutes)) dns w of
               ((dnsErr, dnsChanges, dnsErrs), w1) \<Rightarrow>
         (case checkAllDeploymentsReadiness cl gw replicas (trrTokenHash tokenResult) w1 of
               (readiness, w2) \<Rightarrow>
         (case clNow cl w2 of (now2, w3) \<Rightarrow>
         (case updateRouteStatuses tt (enKube en) (enRouteRetry en) gw now2 validRoutes deniedRefs dns
                 dnsErr (grReadyStatus readiness) (grReadyReason readiness) (grReadyMsg readiness) w3 of
               (routeErrs, w4) \<Rightarrow>
         (case reconcileCGS cl (enTimeEq en) gw cgs params t replicas tokenResult readiness w4 of
               (own, ((ret, cgsErr), w5)) \<Rightarrow>
           (let cgs1 = (case cgsErr of None \<Rightarrow> ret | Some e \<Rightarrow> own);
                cgsErrs = (case cgsErr of None \<Rightarrow> []
                  | Some e \<Rightarrow> [''failed to reconcile CloudflareGatewayStatus: '' @ errMsg tt e])
            in case clNow cl w5 of (now3, w6) \<Rightarrow>
              (case computeRequeueAfter tt (enParseDuration en) gw tokenResult now3 of
                 (requeueAfter, requeueErrs) \<Rightarrow>
                   patchGatewayStatus cl gw cgs1 t desiredListeners (changes @ dnsChanges)
                     (errs @ dnsErrs @ routeErrs @ cgsErrs @ requeueErrs) readiness dns requeueAfter
                     w6))))))))"

definition reconcile ::
  "'w env \<Rightarrow> gateway \<Rightarrow> gateway_class \<Rightarrow> 'w \<Rightarrow> (result \<times> 'w) option" where
  "reconcile en gw gc w =
     (let failed = reconcileError (enTerminalText en) (enCluster en) gw
      in case prepareReconcile en gw gc w of
           (Inl (err, conds), w1) \<Rightarrow> Some (failed err conds w1)
         | (Inr (allRoutes, params, tc), w1) \<Rightarrow>
         (case filterRoutes en gw allRoutes w1 of
           (Inl err, w2) \<Rightarrow> Some (failed err [] w2)
         | (Inr (validRoutes, errs1), w2) \<Rightarrow>
         (case reconcileTunnel en gw params tc validRoutes w2 of
           None \<Rightarrow> None
         | Some (Inl err, w3) \<Rightarrow> Some (failed err [] w3)
         | Some (Inr (t, kept, cgs, tokenResult, changes1, errs2), w3) \<Rightarrow>
         (case reconcileResources en gw params kept tokenResult w3 of
           (Inl err, w4) \<Rightarrow> Some (failed err [] w4)
         | (Inr (deniedRefs, changes2, errs3), w4) \<Rightarrow>
             Some (reconcileStatuses en gw params tc t kept cgs tokenResult deniedRefs
                     (changes1 @ changes2) (errs1 @ errs2 @ errs3) w4)))))"

end
