(* ===== verification/GatewayFinalize.thy ===== *)
theory GatewayFinalize
  imports GatewayReconcile
begin

text \<open>
  Finalization of a Gateway under deletion (\<^verbatim>\<open>finalize\<close>, \<^verbatim>\<open>finalizeDisabled\<close> and
  \<^verbatim>\<open>finalizeEnabled\<close> in internal/controller/gateway_controller.go) and the entry point
  \<^verbatim>\<open>Reconcile\<close>.
\<close>

section \<open>Finalization with reconciliation disabled\<close>

definition finalizeDisabled :: "'w env \<Rightarrow> gateway \<Rightarrow> 'w \<Rightarrow> go_error option \<times> 'w" where
  "finalizeDisabled en gw w =
     (case removeOwnerReferences (enCluster en) (enReleaseRetry en) gw w of
        ((removed, eo), w1) \<Rightarrow>
          (let w2 = fold (\<lambda>ob. clEvent (enCluster en)
                 \<lparr>keObject = koName ob, keType = ''Normal'', keReason = ReasonReconciliationDisabled,
                  keAction = ''Finalize'',
                  keNote = ''Gateway removed owner reference due to disabled finalization''\<rparr>)
               removed w1
           in (case eo of
                 Some err \<Rightarrow> (Some (ErrWrap ''removing owner references: '' err), w2)
               | None \<Rightarrow> (None, w2))))"

section \<open>Finalization with reconciliation enabled\<close>

fun deleteDeploymentsLoop ::
  "'w cluster \<Rightarrow> kobj list \<Rightarrow> 'w \<Rightarrow> go_error option \<times> 'w" where
  "deleteDeploymentsLoop cl [] w = (None, w)"
| "deleteDeploymentsLoop cl (ob # obs) w =
     (case clDelete cl ob w of
        (eo, w1) \<Rightarrow>
          (case ignoreNotFound eo of
             Some err \<Rightarrow>
               (Some (ErrWrap (''deleting tunnel deployment '' @ koName ob @ '': '') err), w1)
           | None \<Rightarrow> deleteDeploymentsLoop cl obs w1))"

text \<open>The loop that polls a Deployment until it is gone; it may run for ever.\<close>

partial_function (option) waitGone ::
  "'w cluster \<Rightarrow> string \<Rightarrow> namespaced_name \<Rightarrow> 'w \<Rightarrow> (go_error option \<times> 'w) option" where
  "waitGone cl name key w =
     (let failed = (\<lambda>err. Some (ErrWrap (''waiting for tunnel deployment '' @ name @ '' deletion: '') err))
      in case clGetDeployment cl key w of
           (Inl err, w1) \<Rightarrow> Some (if errNotFound err then None else failed err, w1)
         | (Inr d, w1) \<Rightarrow>
             (case clWaitSecond cl w1 of
                (Some err, w2) \<Rightarrow> Some (failed err, w2)
              | (None, w2) \<Rightarrow> waitGone cl name key w2))"

declare waitGone.simps [code]

fun waitAllGone ::
  "'w cluster \<Rightarrow> kobj list \<Rightarrow> 'w \<Rightarrow> (go_error option \<times> 'w) option" where
  "waitAllGone cl [] w = Some (None, w)"
| "waitAllGone cl (ob # obs) w =
     (case waitGone cl (koName ob) (objectKey ob) w of
        None \<Rightarrow> None
      | Some (Some err, w1) \<Rightarrow> Some (Some err, w1)
      | Some (None, w1) \<Rightarrow> waitAllGone cl obs w1)"

text \<open>Parameters that are gone or invalid are ignored, and the client made.\<close>

definition finalizeClient ::
  "'w env \<Rightarrow> gateway \<Rightarrow> gateway_class \<Rightarrow> 'w \<Rightarrow> (go_error + 'w client) \<times> 'w" where
  "finalizeClient en gw gc w =
     (let cl = enCluster en;
          withParams = (\<lambda>params w1.
            (case readCredentials cl (enGrants en w1) gc gw params w1 of
               (Inl err, w2) \<Rightarrow> (Inl (ErrWrap ''reading credentials for tunnel deletion: '' err), w2)
             | (Inr cfg, w2) \<Rightarrow>
                 (case enNewClient en cfg of
                    Inl err \<Rightarrow> (Inl (ErrWrap ''creating cloudflare client for deletion: '' err), w2)
                  | Inr tc \<Rightarrow> (Inr tc, w2))))
      in case readParameters cl gw w of
           (Inl err, w1) \<Rightarrow>
             if \<not> errTerminal err
             then (Inl (ErrWrap ''reading parameters for tunnel deletion: '' err), w1)
             else withParams None w1
         | (Inr params, w1) \<Rightarrow> withParams params w1)"

text \<open>The tunnel and its DNS records.\<close>

definition deleteTunnelAndDNS ::
  "'w env \<Rightarrow> gateway \<Rightarrow> 'w client \<Rightarrow> string list \<Rightarrow> 'w \<Rightarrow> (string list \<times> go_error option) \<times> 'w" where
  "deleteTunnelAndDNS en gw tc changes w =
     (let name = TunnelName (enClusterName en) gw
      in case GetTunnelIDByName tc name w of
           (Inl err, w1) \<Rightarrow>
             ((changes, Some (ErrWrap (''looking up tunnel '' @ name @ '': '') err)), w1)
         | (Inr tid, w1) \<Rightarrow>
             if tid = [] then ((changes, None), w1)
             else
               (case reconcileDNS (enTerminalText en) (enMapOrder en) tc tid
                       \<lparr>dnsEnabled = False, dnsZones = []\<rparr> [] w1 of
                  ((dnsChanges, Some e), w2) \<Rightarrow>
                    ((changes @ dnsChanges,
                      Some (ErrText (''cleaning up DNS for tunnel '' @ name @ '': '' @ e))), w2)
                | ((dnsChanges, None), w2) \<Rightarrow>
                    (case CleanupTunnelConnections tc tid w2 of
                       (Some err, w3) \<Rightarrow>
                         ((changes @ dnsChanges,
                           Some (ErrWrap (''cleaning up connections for tunnel '' @ name @ '': '') err)), w3)
                     | (None, w3) \<Rightarrow>
                         (case DeleteTunnel tc tid w3 of
                            (Some err, w4) \<Rightarrow>
                              ((changes @ dnsChanges,
                                Some (ErrWrap (''deleting tunnel '' @ name @ '': '') err)), w4)
                          | (None, w4) \<Rightarrow>
                              ((changes @ dnsChanges @ [''deleted tunnel '' @ name], None), w4)))))"

definition releaseCGS ::
  "'w env \<Rightarrow> gateway \<Rightarrow> 'w \<Rightarrow> go_error option \<times> 'w" where
  "releaseCGS en gw w =
     (case getCGS (enCluster en) gw w of
        (Inl err, w1) \<Rightarrow> (Some (ErrWrap ''fetching CloudflareGatewayStatus: '' err), w1)
      | (Inr None, w1) \<Rightarrow> (None, w1)
      | (Inr (Some c), w1) \<Rightarrow>
          if Finalizer \<notin> set (cgsFinalizers c) then (None, w1)
          else
            (case clPatchCGS (enCluster en) c
                    (c\<lparr>cgsFinalizers := removeFinalizer Finalizer (cgsFinalizers c)\<rparr>) w1 of
               (Some err, w2) \<Rightarrow>
                 (Some (ErrWrap ''removing finalizer from CloudflareGatewayStatus: '' err), w2)
             | (None, w2) \<Rightarrow> (None, w2)))"

definition finalizeEnabled ::
  "'w env \<Rightarrow> gateway \<Rightarrow> gateway_class \<Rightarrow> 'w
     \<Rightarrow> ((string list \<times> go_error option) \<times> 'w) option" where
  "finalizeEnabled en gw gc w =
     (let cl = enCluster en
      in case clList cl KindDeployment (gwNamespace gw) (GatewayResourceLabels (gwName gw) []) w of
           (Inl err, w1) \<Rightarrow>
             Some (([], Some (ErrWrap ''listing tunnel deployments for deletion: '' err)), w1)
         | (Inr deploys, w1) \<Rightarrow>
         (case deleteDeploymentsLoop cl deploys w1 of
           (Some err, w2) \<Rightarrow> Some (([], Some err), w2)
         | (None, w2) \<Rightarrow>
         (case waitAllGone cl deploys w2 of
           None \<Rightarrow> None
         | Some (Some err, w3) \<Rightarrow> Some (([], Some err), w3)
         | Some (None, w3) \<Rightarrow>
         (case finalizeClient en gw gc w3 of
           (Inl err, w4) \<Rightarrow> Some (([], Some err), w4)
         | (Inr tc, w4) \<Rightarrow>
         (case deleteTunnelAndDNS en gw tc
                 (map (\<lambda>ob. ''deleted tunnel Deployment '' @ koName ob) deploys) w4 of
           ((changes, Some err), w5) \<Rightarrow> Some ((changes, Some err), w5)
         | ((changes, None), w5) \<Rightarrow>
             (case releaseCGS en gw w5 of (eo, w6) \<Rightarrow> Some ((changes, eo), w6)))))))"

section \<open>Finalization\<close>

text \<open>After the resources: route statuses, the GatewayClass, the event, the finalizer.\<close>

definition finalizeRest ::
  "'w env \<Rightarrow> gateway \<Rightarrow> string list \<Rightarrow> 'w \<Rightarrow> result \<times> 'w" where
  "finalizeRest en gw changes w =
     (let cl = enCluster en; failed = finalizeError (enTerminalText en) cl gw changes
      in case removeRouteStatuses (enKube en) (enRouteRetry en) (clListHTTPRoutes cl)
                (clListGRPCRoutes cl) gw w of
           (Some err, w1) \<Rightarrow> failed (ErrWrap ''removing route status entries: '' err) w1
         | (None, w1) \<Rightarrow>
         (case removeGatewayClassFinalizer cl (enClassRetry en) gw [] w1 of
           (Some err, w2) \<Rightarrow> failed (ErrWrap ''removing GatewayClass finalizer: '' err) w2
         | (None, w2) \<Rightarrow>
             (let w3 = clEvent cl \<lparr>keObject = gwName gw, keType = ''Normal'',
                    keReason = ReasonReconciliationSucceeded, keAction = ''Finalize'',
                    keNote = truncateEventMessage (''Gateway finalized'' @ nl @ joinStr changes nl)\<rparr> w2
              in if Finalizer \<in> set (gwFinalizers gw)
                 then
                   (let gw' = gw\<lparr>gwFinalizers := removeFinalizer Finalizer (gwFinalizers gw)\<rparr>
                    in case clPatchGateway cl gw gw' w3 of
                         (eo, w4) \<Rightarrow>
                           (case ignoreNotFound eo of
                              Some err \<Rightarrow>
                                finalizeError (enTerminalText en) cl gw' changes
                                  (ErrWrap ''removing finalizer: '' err) w4
                            | None \<Rightarrow> ((0, None), w4)))
                 else ((0, None), w3))))"

definition finalize ::
  "'w env \<Rightarrow> gateway \<Rightarrow> gateway_class \<Rightarrow> 'w \<Rightarrow> (result \<times> 'w) option" where
  "finalize en gw gc w =
     (if mapGet (gwAnnotations gw) AnnotationReconcile = AnnotationReconcileDisabled
      then
        (case finalizeDisabled en gw w of
           (Some err, w1) \<Rightarrow>
             Some (finalizeError (enTerminalText en) (enCluster en) gw [] err w1)
         | (None, w1) \<Rightarrow> Some (finalizeRest en gw [] w1))
      else
        (case finalizeEnabled en gw gc w of
           None \<Rightarrow> None
         | Some ((changes, Some err), w1) \<Rightarrow>
             Some (finalizeError (enTerminalText en) (enCluster en) gw changes err w1)
         | Some ((changes, None), w1) \<Rightarrow> Some (finalizeRest en gw changes w1)))"

section \<open>The entry point\<close>

definition Reconcile ::
  "'w env \<Rightarrow> namespaced_name \<Rightarrow> 'w \<Rightarrow> (result \<times> 'w) option" where
  "Reconcile en key w =
     (let cl = enCluster en
      in case clGetGateway cl key w of
           (Inl err, w1) \<Rightarrow> Some ((0, ignoreNotFound (Some err)), w1)
         | (Inr gw, w1) \<Rightarrow>
         (case clGetClass cl (gwClassName gw) w1 of
           (Inl err, w2) \<Rightarrow> Some ((0, Some err), w2)
         | (Inr gc, w2) \<Rightarrow>
             if gcControllerName gc \<noteq> ControllerName then Some ((0, None), w2)
             else if gwDeleted gw then finalize en gw gc w2
             else if Finalizer \<notin> set (gwFinalizers gw)
             then
               (case clPatchGateway cl gw
                       (gw\<lparr>gwFinalizers := addFinalizer Finalizer (gwFinalizers gw)\<rparr>) w2 of
                  (Some err, w3) \<Rightarrow> Some ((0, Some (ErrWrap ''adding finalizer: '' err)), w3)
                | (None, w3) \<Rightarrow> Some ((1, None), w3))
             else
               (case condFind (gcConditions gc) ConditionReady of
                  None \<Rightarrow> Some ((0, None), w2)
                | Some ready \<Rightarrow>
                    if condStatus ready \<noteq> ConditionTrue then Some ((0, None), w2)
                    else if mapGet (gwAnnotations gw) AnnotationReconcile = AnnotationReconcileDisabled
                    then Some ((0, None), w2)
                    else reconcile en gw gc w2)))"

end
