(* ===== verification/Framing.thy ===== *)
theory Framing
  imports GatewayFinalize
begin

text \<open>
  What the controller's calls leave alone.  \<open>quietly Inv obs deps f\<close> says that \<open>f\<close> keeps the
  invariant and what \<open>obs\<close> observes of the world and lets \<open>deps\<close> only shrink; the locale
  \<open>quiet_env\<close> states it of the API calls, and its lemmas of the operations of the controller
  that only use those: releasing objects, the statuses, the finalizers, the error path.
\<close>

definition quietly ::
  "('w \<Rightarrow> bool) \<Rightarrow> ('w \<Rightarrow> 'o) \<Rightarrow> ('w \<Rightarrow> 'd set) \<Rightarrow> ('w \<Rightarrow> 'a \<times> 'w) \<Rightarrow> bool" where
  "quietly Inv obs deps f \<longleftrightarrow>
     (\<forall>w r w'. Inv w \<longrightarrow> f w = (r, w') \<longrightarrow> Inv w' \<and> obs w' = obs w \<and> deps w' \<subseteq> deps w)"

lemma quietlyI:
  "(\<And>w r w'. Inv w \<Longrightarrow> f w = (r, w') \<Longrightarrow> Inv w' \<and> obs w' = obs w \<and> deps w' \<subseteq> deps w) \<Longrightarrow>
   quietly Inv obs deps f"
  by (simp add: quietly_def)

lemma quietlyD:
  "quietly Inv obs deps f \<Longrightarrow> f w = (r, w') \<Longrightarrow> Inv w \<Longrightarrow>
   Inv w' \<and> obs w' = obs w \<and> deps w' \<subseteq> deps w"
  by (simp add: quietly_def)

text \<open>The same of a closure, on the world it holds.\<close>

abbreviation quietClosure ::
  "('w \<Rightarrow> bool) \<Rightarrow> ('w \<Rightarrow> 'o) \<Rightarrow> ('w \<Rightarrow> 'd set) \<Rightarrow> ('w \<times> 'c \<Rightarrow> 'a \<times> ('w \<times> 'c)) \<Rightarrow> bool" where
  "quietClosure Inv obs deps \<equiv> quietly (\<lambda>s. Inv (fst s)) (\<lambda>s. obs (fst s)) (\<lambda>s. deps (fst s))"

locale quiet_env =
  fixes Inv :: "'w \<Rightarrow> bool"
    and obs :: "'w \<Rightarrow> 'o"
    and deps :: "'w \<Rightarrow> 'd set"
    and en :: "'w env"
  assumes q_list: "quietly Inv obs deps (clList (enCluster en) k ns lbls)"
    and q_get: "quietly Inv obs deps (clGet (enCluster en) k key)"
    and q_patch: "quietly Inv obs deps (clPatch (enCluster en) x y)"
    and q_delete: "quietly Inv obs deps (clDelete (enCluster en) x)"
    and q_getDeployment: "quietly Inv obs deps (clGetDeployment (enCluster en) key)"
    and q_wait: "quietly Inv obs deps (clWaitSecond (enCluster en))"
    and q_now: "quietly Inv obs deps (clNow (enCluster en))"
    and q_event: "quietly Inv obs deps (\<lambda>w. ((), clEvent (enCluster en) ke w))"
    and q_getSecret: "quietly Inv obs deps (clGetSecret (enCluster en) key)"
    and q_getParams: "quietly Inv obs deps (clGetParams (enCluster en) key)"
    and q_getClass: "quietly Inv obs deps (clGetClass (enCluster en) n)"
    and q_listClasses: "quietly Inv obs deps (clListClasses (enCluster en) n)"
    and q_patchClass: "quietly Inv obs deps (clPatchClass (enCluster en) gc gc')"
    and q_patchStatus: "quietly Inv obs deps (clPatchGatewayStatus (enCluster en) g g')"
    and q_listHTTP: "quietly Inv obs deps (clListHTTPRoutes (enCluster en) n)"
    and q_listGRPC: "quietly Inv obs deps (clListGRPCRoutes (enCluster en) n)"
    and q_getCGS: "quietly Inv obs deps (clGetCGS (enCluster en) key)"
    and q_patchCGS: "quietly Inv obs deps (clPatchCGS (enCluster en) c c')"
    and q_getRoute: "quietly Inv obs deps (kGetRoute (enKube en) k key)"
    and q_patchRoute: "quietly Inv obs deps (kPatchRouteStatus (enKube en) r r')"
    and q_routeEvent: "quietly Inv obs deps (\<lambda>w. ((), kEvent (enKube en) ev w))"
    and q_routeRetry: "quietClosure Inv obs deps att1 \<Longrightarrow>
          quietClosure Inv obs deps (enRouteRetry en att1)"
    and q_classRetry: "quietClosure Inv obs deps att2 \<Longrightarrow>
          quietClosure Inv obs deps (enClassRetry en att2)"
    and q_releaseRetry: "quietClosure Inv obs deps att3 \<Longrightarrow>
          quietClosure Inv obs deps (enReleaseRetry en att3)"
begin

abbreviation quiet :: "('w \<Rightarrow> 'a \<times> 'w) \<Rightarrow> bool" where
  "quiet \<equiv> quietly Inv obs deps"

lemma event_kept:
  "Inv w \<Longrightarrow> Inv (clEvent (enCluster en) ke w) \<and> obs (clEvent (enCluster en) ke w) = obs w \<and>
     deps (clEvent (enCluster en) ke w) \<subseteq> deps w"
  using q_event [of ke] by (simp add: quietly_def)

lemma routeEvent_kept:
  "Inv w \<Longrightarrow> Inv (kEvent (enKube en) ev w) \<and> obs (kEvent (enKube en) ev w) = obs w \<and>
     deps (kEvent (enKube en) ev w) \<subseteq> deps w"
  using q_routeEvent [of ev] by (simp add: quietly_def)

section \<open>Reading the configuration\<close>

lemma quiet_readParameters: "quiet (readParameters (enCluster en) gw)"
proof (rule quietlyI)
  fix w r w' assume "Inv w" "readParameters (enCluster en) gw w = (r, w')"
  then show "Inv w' \<and> obs w' = obs w \<and> deps w' \<subseteq> deps w"
    unfolding readParameters_def
    by (auto split: option.splits prod.splits sum.splits if_splits dest: quietlyD [OF q_getParams])
qed

lemma quiet_readCredentials: "quiet (readCredentials (enCluster en) lg gc gw params)"
proof -
  have s: "quiet (readSecretCredentials (enCluster en) ns n)" for ns n
    by (rule quietlyI)
      (auto simp: readSecretCredentials_def Let_def split: prod.splits sum.splits if_splits
         dest: quietlyD [OF q_getSecret])
  show ?thesis
    by (rule quietlyI)
      (auto simp: readCredentials_def readCredentialsFromGatewayClass_def
         split: option.splits prod.splits sum.splits if_splits dest: quietlyD [OF s])
qed

lemma quiet_getCGS: "quiet (getCGS (enCluster en) gw)"
  by (rule quietlyI)
    (auto simp: getCGS_def split: prod.splits sum.splits if_splits dest: quietlyD [OF q_getCGS])

section \<open>Releasing objects\<close>

lemma quiet_releaseAttempt:
  "quietClosure Inv obs deps (releaseAttempt (enCluster en) uid k what key)"
  by (rule quietlyI)
    (auto simp: releaseAttempt_def split: prod.splits sum.splits option.splits bool.splits
       dest!: quietlyD [OF q_get] quietlyD [OF q_patch])

lemma releaseLoop_kept:
  "Inv w \<Longrightarrow> releaseLoop (enCluster en) (enReleaseRetry en) uid k what obs' removed w = (r, w') \<Longrightarrow>
   Inv w' \<and> obs w' = obs w \<and> deps w' \<subseteq> deps w"
proof (induction obs' arbitrary: removed w)
  case (Cons ob os)
  obtain e w1 ob1 rm where a: "enReleaseRetry en (releaseAttempt (enCluster en) uid k what
      (objectKey ob)) (w, ob, removed) = (e, w1, ob1, rm)" by (metis prod.exhaust)
  have 1: "Inv w1 \<and> obs w1 = obs w \<and> deps w1 \<subseteq> deps w"
    using quietlyD [OF q_releaseRetry [OF quiet_releaseAttempt] a] Cons.prems(1) by simp
  show ?case
  proof (cases e)
    case None
    then show ?thesis using Cons.IH [of w1 rm] Cons.prems(2) a 1 by auto
  next
    case (Some err)
    then show ?thesis using Cons.prems(2) a 1 by auto
  qed
qed simp

lemma quiet_releaseLoop:
  "quiet (releaseLoop (enCluster en) (enReleaseRetry en) uid k what obs' removed)"
  by (rule quietlyI) (rule releaseLoop_kept)

lemma quiet_releaseKind: "quiet (releaseKind (enCluster en) (enReleaseRetry en) gw k lw what lbls rm)"
  by (rule quietlyI)
    (auto simp: releaseKind_def split: prod.splits sum.splits
       dest!: quietlyD [OF q_list] quietlyD [OF quiet_releaseLoop])

lemma quiet_removeOwnerReferences: "quiet (removeOwnerReferences (enCluster en) (enReleaseRetry en) gw)"
proof -
  have cm: "quiet (removeOwnerReferencesFromRouteConfigMap (enCluster en) (enReleaseRetry en) gw)"
    using quiet_releaseKind by (simp add: quietly_def removeOwnerReferencesFromRouteConfigMap_def)
  have rbac: "quiet (removeOwnerReferencesFromTunnelRBACResources (enCluster en) (enReleaseRetry en) gw)"
    by (rule quietlyI)
      (auto simp: removeOwnerReferencesFromTunnelRBACResources_def Let_def
         split: prod.splits option.splits dest!: quietlyD [OF quiet_releaseKind])
  have vpa: "quiet (removeOwnerReferencesFromVPAs (enCluster en) (enReleaseRetry en) gw)"
    by (rule quietlyI)
      (auto simp: removeOwnerReferencesFromVPAs_def split: prod.splits sum.splits
         dest!: quietlyD [OF q_list] quietlyD [OF quiet_releaseLoop])
  show ?thesis
  proof (rule quietlyI)
    fix w r w' assume "Inv w" "removeOwnerReferences (enCluster en) (enReleaseRetry en) gw w = (r, w')"
    then show "Inv w' \<and> obs w' = obs w \<and> deps w' \<subseteq> deps w"
      by (simp add: removeOwnerReferences_def Let_def split: prod.splits option.splits)
        (drule quietlyD [OF quiet_releaseKind] quietlyD [OF cm] quietlyD [OF rbac]
           quietlyD [OF vpa], assumption | elim conjE | simp | (elim order_trans)+)+
  qed
qed

section \<open>Statuses, finalizers and the error path\<close>

lemma quiet_removeAttempt: "quietClosure Inv obs deps (removeAttempt (enKube en) gw key ks)"
  by (rule quietlyI)
    (auto simp: removeAttempt_def Let_def split: prod.splits sum.splits option.splits if_splits
       dest!: quietlyD [OF q_getRoute] quietlyD [OF q_patchRoute])

lemma quiet_removeRouteStatus: "quiet (removeRouteStatus (enKube en) (enRouteRetry en) gw r)"
proof (rule quietlyI)
  fix w e w' assume i: "Inv w" and g: "removeRouteStatus (enKube en) (enRouteRetry en) gw r w = (e, w')"
  obtain e1 w1 r1 p where a: "enRouteRetry en (removeAttempt (enKube en) gw (routeKey r) (keyString r))
      (w, r, False) = (e1, w1, r1, p)" by (metis prod.exhaust)
  have 1: "Inv w1 \<and> obs w1 = obs w \<and> deps w1 \<subseteq> deps w"
    using quietlyD [OF q_routeRetry [OF quiet_removeAttempt] a] i by simp
  show "Inv w' \<and> obs w' = obs w \<and> deps w' \<subseteq> deps w"
    using g a 1 routeEvent_kept [of w1] by (auto simp: removeRouteStatus_def split: if_splits)
qed

lemma removeStatusesLoop_kept:
  "Inv w \<Longrightarrow> removeStatusesLoop (enKube en) (enRouteRetry en) gw rs w = (r, w') \<Longrightarrow>
   Inv w' \<and> obs w' = obs w \<and> deps w' \<subseteq> deps w"
proof (induction rs arbitrary: w)
  case (Cons x rs)
  obtain e w1 where a: "removeRouteStatus (enKube en) (enRouteRetry en) gw x w = (e, w1)"
    by (rule prod.exhaust)
  note 1 = quietlyD [OF quiet_removeRouteStatus a Cons.prems(1)]
  show ?case
  proof (cases e)
    case None
    then show ?thesis using Cons.IH [of w1] Cons.prems(2) a 1 by auto
  next
    case (Some err)
    then show ?thesis using Cons.prems(2) a 1 by auto
  qed
qed simp

lemma quiet_removeStatusesLoop: "quiet (removeStatusesLoop (enKube en) (enRouteRetry en) gw rs)"
  by (rule quietlyI) (rule removeStatusesLoop_kept)

lemma quiet_removeRouteStatuses:
  "quiet (removeRouteStatuses (enKube en) (enRouteRetry en) (clListHTTPRoutes (enCluster en))
     (clListGRPCRoutes (enCluster en)) gw)"
  by (rule quietlyI)
    (auto simp: removeRouteStatuses_def Let_def split: prod.splits sum.splits option.splits
       dest!: quietlyD [OF q_listHTTP] quietlyD [OF q_listGRPC] quietlyD [OF quiet_removeStatusesLoop])

lemma quiet_classAttempt: "quietClosure Inv obs deps (removeClassFinalizerAttempt (enCluster en) f)"
  by (rule quietlyI)
    (auto simp: removeClassFinalizerAttempt_def Let_def split: prod.splits sum.splits if_splits
       dest!: quietlyD [OF q_getClass] quietlyD [OF q_patchClass])

lemma classLoop_kept:
  "Inv w \<Longrightarrow> removeClassFinalizerLoop (enCluster en) (enClassRetry en) f skip gcs w = (r, w') \<Longrightarrow>
   Inv w' \<and> obs w' = obs w \<and> deps w' \<subseteq> deps w"
proof (induction gcs arbitrary: w)
  case (Cons gc gcs)
  obtain e w1 gc1 where a: "enClassRetry en (removeClassFinalizerAttempt (enCluster en) f) (w, gc)
      = (e, w1, gc1)" by (metis prod.exhaust)
  have 1: "Inv w1 \<and> obs w1 = obs w \<and> deps w1 \<subseteq> deps w"
    using quietlyD [OF q_classRetry [OF quiet_classAttempt] a] Cons.prems(1) by simp
  show ?case
  proof (cases "gcName gc = skip")
    case True
    then show ?thesis using Cons by simp
  next
    case False
    then show ?thesis using Cons.IH [of w1] Cons.prems(2) a 1 by (cases e) auto
  qed
qed simp

lemma quiet_removeGatewayClassFinalizer:
  "quiet (removeGatewayClassFinalizer (enCluster en) (enClassRetry en) gw skip)"
proof -
  have loop: "quiet (removeClassFinalizerLoop (enCluster en) (enClassRetry en) f skip gcs)" for f gcs
    by (rule quietlyI) (rule classLoop_kept)
  show ?thesis
    by (rule quietlyI)
      (auto simp: removeGatewayClassFinalizer_def Let_def split: prod.splits sum.splits
         dest!: quietlyD [OF q_listClasses] quietlyD [OF loop])
qed

lemma quiet_finalizeError: "quiet (finalizeError tt (enCluster en) gw changes err)"
proof (rule quietlyI)
  fix w r w' assume i: "Inv w" and g: "finalizeError tt (enCluster en) gw changes err w = (r, w')"
  obtain now w1 where n: "clNow (enCluster en) w = (now, w1)" by (rule prod.exhaust)
  note 1 = quietlyD [OF q_now n i]
  obtain g' ke where "w' = clEvent (enCluster en) ke (snd (clPatchGatewayStatus (enCluster en) gw g' w1))"
    using g n by (auto simp: finalizeError_def Let_def)
  moreover obtain p w2 where p: "clPatchGatewayStatus (enCluster en) gw g' w1 = (p, w2)"
    by (rule prod.exhaust)
  ultimately show "Inv w' \<and> obs w' = obs w \<and> deps w' \<subseteq> deps w"
    using 1 quietlyD [OF q_patchStatus p] event_kept [of w2] by auto
qed

lemma quiet_events:
  "Inv w \<Longrightarrow> Inv (fold (\<lambda>x. clEvent (enCluster en) (f x)) xs w) \<and>
     obs (fold (\<lambda>x. clEvent (enCluster en) (f x)) xs w) = obs w \<and>
     deps (fold (\<lambda>x. clEvent (enCluster en) (f x)) xs w) \<subseteq> deps w"
proof (induction xs arbitrary: w)
  case (Cons x xs)
  show ?case using Cons.IH [of "clEvent (enCluster en) (f x) w"] event_kept [OF Cons.prems, of "f x"]
    by auto
qed simp

lemma quiet_finalizeDisabled: "quiet (finalizeDisabled en gw)"
proof (rule quietlyI)
  fix w r w' assume i: "Inv w" and g: "finalizeDisabled en gw w = (r, w')"
  obtain removed e w1 where o: "removeOwnerReferences (enCluster en) (enReleaseRetry en) gw w
      = ((removed, e), w1)" by (metis prod.exhaust)
  note 1 = quietlyD [OF quiet_removeOwnerReferences o i]
  let ?f = "\<lambda>ob. \<lparr>keObject = koName ob, keType = ''Normal'', keReason = ReasonReconciliationDisabled,
      keAction = ''Finalize'',
      keNote = ''Gateway removed owner reference due to disabled finalization''\<rparr>"
  have w': "w' = fold (\<lambda>ob. clEvent (enCluster en) (?f ob)) removed w1"
    using g o by (auto simp: finalizeDisabled_def Let_def split: option.splits)
  from 1 have "Inv w1" by simp
  from quiet_events [where f = ?f and xs = removed, OF this]
  show "Inv w' \<and> obs w' = obs w \<and> deps w' \<subseteq> deps w"
    using 1 unfolding w' by auto
qed

end

end
