(* ===== verification/TunnelContract.thy ===== *)
theory TunnelContract
  imports Retry TunnelToken
begin

text \<open>
  What the tunnel operations of the Cloudflare client promise.  The locale \<open>sdk_tunnels\<close>
  states the documented behaviour of the SDK's tunnel requests on the tunnels of the account,
  \<open>tunnel_client\<close> the contract the controller relies on, over the map from tunnel names to
  IDs; the client of client.go provides it on such an SDK, and its retrying wrapper keeps it:
  a creation whose answer is lost is repeated and then conflicts.  \<open>tunSDK\<close> is an account
  with scheduled faults on which everything computes.
\<close>

section \<open>The contract\<close>

type_synonym tunnel_table = "string \<Rightarrow> string option"

definition withoutID :: "tunnel_table \<Rightarrow> string \<Rightarrow> tunnel_table" where
  "withoutID T i = (\<lambda>n. if T n = Some i then None else T n)"

lemma withoutID_twice [simp]: "withoutID (withoutID T i) i = withoutID T i"
  by (auto simp: withoutID_def fun_eq_iff)

text \<open>At most the tunnel of a name was added.\<close>

definition createdOnly :: "string \<Rightarrow> tunnel_table \<Rightarrow> tunnel_table \<Rightarrow> bool" where
  "createdOnly n T T' \<longleftrightarrow> T' = T \<or> (T n = None \<and> (\<exists>i. T' = T(n \<mapsto> i)))"

lemma createdOnly_refl [simp]: "createdOnly n T T" by (simp add: createdOnly_def)

lemma createdOnly_trans: "createdOnly n T T' \<Longrightarrow> createdOnly n T' T'' \<Longrightarrow> createdOnly n T T''"
  by (auto simp: createdOnly_def)

locale tunnel_client =
  fixes Inv :: "'w \<Rightarrow> bool"
    and tuns :: "'w \<Rightarrow> tunnel_table"
    and tc :: "'w client"
  assumes ids_nonempty: "Inv w \<Longrightarrow> tuns w n = Some i \<Longrightarrow> i \<noteq> []"
    and lookup_law: "Inv w \<Longrightarrow> GetTunnelIDByName tc n w = (r, w') \<Longrightarrow>
      Inv w' \<and> tuns w' = tuns w \<and>
      (\<forall>i. r = Inr i \<longrightarrow> i = (case tuns w n of None \<Rightarrow> [] | Some j \<Rightarrow> j))"
    and create_law: "Inv w \<Longrightarrow> CreateTunnel tc n w = (r, w') \<Longrightarrow>
      Inv w' \<and> createdOnly n (tuns w) (tuns w') \<and>
      (\<forall>i. r = Inr i \<longrightarrow> tuns w n = None \<and> tuns w' n = Some i) \<and>
      (\<forall>e. r = Inl e \<longrightarrow> IsConflict (Some e) \<longrightarrow> tuns w' n \<noteq> None)"
    and remove_law: "Inv w \<Longrightarrow> DeleteTunnel tc i w = (e, w') \<Longrightarrow>
      Inv w' \<and> (tuns w' = tuns w \<or> tuns w' = withoutID (tuns w) i) \<and>
      (e = None \<longrightarrow> tuns w' = withoutID (tuns w) i)"
    and cleanup_law: "Inv w \<Longrightarrow> CleanupTunnelConnections tc i w = (e, w') \<Longrightarrow>
      Inv w' \<and> tuns w' = tuns w"
begin

lemma ensureTunnel_law:
  assumes "Inv w" and "ensureTunnel tc t w = (r, w')"
  shows "Inv w' \<and> createdOnly (tunName t) (tuns w) (tuns w') \<and>
    (\<forall>changes t'. r = Inr (changes, t') \<longrightarrow>
       tunName t' = tunName t \<and> tuns w' (tunName t) = Some (tunID t') \<and>
       (changes = [] \<longleftrightarrow> tuns w (tunName t) \<noteq> None))"
proof -
  obtain l w1 where l: "GetTunnelIDByName tc (tunName t) w = (l, w1)" by (rule prod.exhaust)
  note law1 = lookup_law [OF assms(1) l]
  show ?thesis
  proof (cases l)
    case (Inl e)
    then show ?thesis using assms(2) l law1 by (auto simp: ensureTunnel_def)
  next
    case (Inr i)
    show ?thesis
    proof (cases "i = []")
      case False
      then have "tuns w (tunName t) = Some i" using law1 Inr by (auto split: option.splits)
      with False show ?thesis using assms(2) l law1 Inr by (auto simp: ensureTunnel_def)
    next
      case True
      then have absent: "tuns w (tunName t) = None"
        using law1 Inr ids_nonempty [OF assms(1)] by (auto split: option.splits)
      obtain c w2 where c: "CreateTunnel tc (tunName t) w1 = (c, w2)" by (rule prod.exhaust)
      from law1 have "Inv w1" by simp
      note law2 = create_law [OF this c]
      show ?thesis
      proof (cases c)
        case created: (Inr j)
        then show ?thesis
          using assms(2) l c Inr True law1 law2 absent by (auto simp: ensureTunnel_def Let_def)
      next
        case (Inl e)
        show ?thesis
        proof (cases "IsConflict (Some e)")
          case False
          then show ?thesis
            using assms(2) l c \<open>l = Inr i\<close> True Inl law1 law2 by (auto simp: ensureTunnel_def Let_def)
        next
          case conflict: True
          obtain k w3 where k: "GetTunnelIDByName tc (tunName t) w2 = (k, w3)" by (rule prod.exhaust)
          from law2 have "Inv w2" by simp
          note law3 = lookup_law [OF this k]
          show ?thesis
            using assms(2) l c k \<open>l = Inr i\<close> True Inl conflict law1 law2 law3 absent
            by (auto simp: ensureTunnel_def Let_def split: sum.splits)
        qed
      qed
    qed
  qed
qed

end

section \<open>The SDK's tunnel requests\<close>

definition tunTable :: "('w \<Rightarrow> tunnel list) \<Rightarrow> 'w \<Rightarrow> tunnel_table" where
  "tunTable tunnels w n = map_option tunnelID (find (\<lambda>t. tunnelName t = n) (tunnels w))"

definition apiStatus :: "go_error \<Rightarrow> int \<Rightarrow> bool" where
  "apiStatus e s \<longleftrightarrow> errCloudflareStatus e = Some s"

locale sdk_tunnels =
  fixes Inv :: "'w \<Rightarrow> bool"
    and tunnels :: "'w \<Rightarrow> tunnel list"
    and sdk :: "'w sdk"
    and acct :: string
  assumes name_unique: "Inv w \<Longrightarrow> distinct (map tunnelName (tunnels w))"
    and id_given: "Inv w \<Longrightarrow> t \<in> set (tunnels w) \<Longrightarrow> tunnelID t \<noteq> []"
    and tlist_reads: "Inv w \<Longrightarrow> sdkTunnelList sdk acct q False w = ((ts, e), w') \<Longrightarrow>
      Inv w' \<and> tunnels w' = tunnels w \<and> set ts \<subseteq> set (tunnels w)"
    and tlist_complete: "Inv w \<Longrightarrow> sdkTunnelList sdk acct q False w = ((ts, None), w') \<Longrightarrow>
      t \<in> set (tunnels w) \<Longrightarrow> q = None \<or> q = Some (tunnelName t) \<Longrightarrow> t \<in> set ts"
    and tnew_law: "Inv w \<Longrightarrow> sdkTunnelNew sdk acct n c w = (r, w') \<Longrightarrow>
      Inv w' \<and>
      (tunnels w' = tunnels w \<or> n \<notin> tunnelName ` set (tunnels w) \<and>
         (\<exists>i. tunnels w' = tunnels w @ [\<lparr>tunnelID = i, tunnelName = n\<rparr>])) \<and>
      (\<forall>t. r = Inr t \<longrightarrow> n \<notin> tunnelName ` set (tunnels w) \<and>
         tunnels w' = tunnels w @ [\<lparr>tunnelID = tunnelID t, tunnelName = n\<rparr>]) \<and>
      (\<forall>e. r = Inl e \<longrightarrow> apiStatus e 409 \<longrightarrow> n \<in> tunnelName ` set (tunnels w'))"
    and tdelete_law: "Inv w \<Longrightarrow> sdkTunnelDelete sdk i acct w = (d, w') \<Longrightarrow>
      Inv w' \<and> (let rest = filter (\<lambda>t. tunnelID t \<noteq> i) (tunnels w)
                in (tunnels w' = tunnels w \<or> tunnels w' = rest) \<and>
                   (d = None \<or> (\<exists>e. d = Some e \<and> apiStatus e 404) \<longrightarrow> tunnels w' = rest))"
    and tconnections_law: "Inv w \<Longrightarrow> sdkConnectionsDelete sdk i acct w = (d, w') \<Longrightarrow>
      Inv w' \<and> tunnels w' = tunnels w"
begin

abbreviation table :: "'w \<Rightarrow> tunnel_table" where
  "table \<equiv> tunTable tunnels"

lemma table_cong: "tunnels w' = tunnels w \<Longrightarrow> table w' = table w"
  by (simp add: tunTable_def fun_eq_iff)

lemma table_None: "table w n = None \<longleftrightarrow> n \<notin> tunnelName ` set (tunnels w)"
  by (auto simp: tunTable_def find_None_iff)

lemma table_Some: "Inv w \<Longrightarrow> table w n = Some i \<longleftrightarrow>
    (\<exists>t\<in>set (tunnels w). tunnelName t = n \<and> tunnelID t = i)"
proof
  assume "table w n = Some i"
  then show "\<exists>t\<in>set (tunnels w). tunnelName t = n \<and> tunnelID t = i"
    by (auto simp: tunTable_def dest: find_Some_D)
next
  assume i: "Inv w" and "\<exists>t\<in>set (tunnels w). tunnelName t = n \<and> tunnelID t = i"
  then obtain t where t: "t \<in> set (tunnels w)" "tunnelName t = n" "tunnelID t = i" by blast
  then obtain u where u: "find (\<lambda>t. tunnelName t = n) (tunnels w) = Some u"
    by (metis (mono_tags) find_None_iff not_Some_eq)
  then have um: "u \<in> set (tunnels w)" "tunnelName u = n" using find_Some_D [OF u] by simp_all
  have inj: "inj_on tunnelName (set (tunnels w))" using name_unique [OF i] by (simp add: distinct_map)
  have "u = t" by (rule inj_onD [OF inj]) (use t um in simp_all)
  with u t(3) show "table w n = Some i" by (simp add: tunTable_def)
qed

lemma table_append:
  "n \<notin> tunnelName ` set (tunnels w) \<Longrightarrow>
   tunnels w' = tunnels w @ [\<lparr>tunnelID = i, tunnelName = n\<rparr>] \<Longrightarrow> table w' = (table w)(n \<mapsto> i)"
proof
  fix m
  assume n: "n \<notin> tunnelName ` set (tunnels w)"
    and t: "tunnels w' = tunnels w @ [\<lparr>tunnelID = i, tunnelName = n\<rparr>]"
  have "find (\<lambda>t. tunnelName t = m) (ts @ [u]) =
      (case find (\<lambda>t. tunnelName t = m) ts of
         None \<Rightarrow> if tunnelName u = m then Some u else None
       | Some t \<Rightarrow> Some t)" for ts and u :: tunnel
    by (induction ts) auto
  then show "table w' m = ((table w)(n \<mapsto> i)) m"
    using n t by (auto simp: tunTable_def find_None_iff split: option.splits dest!: find_Some_D)
qed

lemma table_filter:
  assumes "Inv w" and "Inv w'" and "tunnels w' = filter (\<lambda>t. tunnelID t \<noteq> i) (tunnels w)"
  shows "table w' = withoutID (table w) i"
proof
  fix n
  have eq: "table w' n = Some j \<longleftrightarrow> table w n = Some j \<and> j \<noteq> i" for j
    using table_Some [OF assms(1)] table_Some [OF assms(2)] assms(3) by auto
  show "table w' n = withoutID (table w) i n"
  proof (cases "table w' n")
    case None
    then have "table w n \<noteq> Some j" if "j \<noteq> i" for j using eq [of j] that by simp
    then show ?thesis using None by (cases "table w n") (auto simp: withoutID_def)
  next
    case (Some j)
    then show ?thesis using eq [of j] by (simp add: withoutID_def)
  qed
qed

end
sublocale sdk_tunnels \<subseteq> tclient: tunnel_client Inv table "clientOf sdk acct"
proof
  fix w n i assume "Inv w" "table w n = Some i"
  then show "i \<noteq> []" using table_Some [of w n i] id_given by auto
next
  fix w n r w'
  assume i: "Inv w" and g: "GetTunnelIDByName (clientOf sdk acct) n w = (r, w')"
  obtain ts e v where l: "sdkTunnelList sdk acct (Some n) False w = ((ts, e), v)"
    by (rule pair_left_cases [of "sdkTunnelList sdk acct (Some n) False w"])
  note v = tlist_reads [OF i l]
  have g': "clientGetTunnelIDByName sdk acct n w = (r, w')" using g by (simp add: clientOf_def)
  show "Inv w' \<and> table w' = table w \<and>
      (\<forall>i. r = Inr i \<longrightarrow> i = (case table w n of None \<Rightarrow> [] | Some j \<Rightarrow> j))"
  proof (cases "find (\<lambda>t. tunnelName t = n) ts")
    case (Some t)
    then have t: "t \<in> set (tunnels w)" "tunnelName t = n" using find_Some_D [OF Some] v by auto
    then have "table w n = Some (tunnelID t)" using table_Some [OF i] by blast
    then show ?thesis
      using g' l Some v table_cong [of v w] by (auto simp: clientGetTunnelIDByName_def)
  next
    case None
    have "e = None \<Longrightarrow> table w n = None"
    proof -
      assume "e = None"
      then have "t \<in> set ts" if "t \<in> set (tunnels w)" "tunnelName t = n" for t
        using tlist_complete [OF i, of "Some n" ts v t] l that by simp
      then show "table w n = None" using None by (auto simp: table_None find_None_iff)
    qed
    then show ?thesis
      using g' l None v table_cong [of v w]
      by (auto simp: clientGetTunnelIDByName_def split: option.splits)
  qed
next
  fix w n r w'
  assume i: "Inv w" and g: "CreateTunnel (clientOf sdk acct) n w = (r, w')"
  obtain x v where c: "sdkTunnelNew sdk acct n ''local'' w = (x, v)" by (rule prod.exhaust)
  have r: "w' = v" "r = (case x of Inl e \<Rightarrow> Inl e | Inr t \<Rightarrow> Inr (tunnelID t))"
    using g c by (auto simp: clientOf_def clientCreateTunnel_def split: sum.splits)
  note law = tnew_law [OF i c]
  have "createdOnly n (table w) (table v)"
    using law table_cong [of v w] table_append [of n w v] table_None [of w n]
    unfolding createdOnly_def by metis
  moreover have "table w n = None \<and> table v n = Some (tunnelID t)" if "x = Inr t" for t
    using law that table_append [of n w v "tunnelID t"] table_None [of w n] by simp
  moreover have "table v n \<noteq> None" if "x = Inl e" "IsConflict (Some e)" for e
    using law that table_None [of v n] by (simp add: IsConflict_def apiStatus_def)
  ultimately show "Inv w' \<and> createdOnly n (table w) (table w') \<and>
      (\<forall>i. r = Inr i \<longrightarrow> table w n = None \<and> table w' n = Some i) \<and>
      (\<forall>e. r = Inl e \<longrightarrow> IsConflict (Some e) \<longrightarrow> table w' n \<noteq> None)"
    using law r by (cases x) auto
next
  fix w i e w'
  assume inv: "Inv w" and g: "DeleteTunnel (clientOf sdk acct) i w = (e, w')"
  obtain d v where c: "sdkTunnelDelete sdk i acct w = (d, v)" by (rule prod.exhaust)
  have r: "w' = v" "e = (if IsNotFound d then None else d)"
    using g c by (auto simp: clientOf_def clientDeleteTunnel_def split: if_splits)
  note law = tdelete_law [OF inv c, unfolded Let_def]
  have f: "table v = withoutID (table w) i" if "tunnels v = filter (\<lambda>t. tunnelID t \<noteq> i) (tunnels w)"
    using table_filter [OF inv _ that] law by simp
  have "e = None \<Longrightarrow> d = None \<or> (\<exists>e. d = Some e \<and> apiStatus e 404)"
    using r(2) by (auto simp: IsNotFound_def apiStatus_def split: if_splits option.splits)
  then show "Inv w' \<and> (table w' = table w \<or> table w' = withoutID (table w) i) \<and>
      (e = None \<longrightarrow> table w' = withoutID (table w) i)"
    using law r(1) f table_cong [of v w] by blast
next
  fix w i e w'
  assume "Inv w" "CleanupTunnelConnections (clientOf sdk acct) i w = (e, w')"
  then show "Inv w' \<and> table w' = table w"
    using tconnections_law [of w i e w'] table_cong [of w' w]
    by (simp add: clientOf_def clientCleanupTunnelConnections_def)
qed

section \<open>Retrying keeps the contract\<close>

text \<open>A wait that is cut short ends with the context's error, not with one of the API.\<close>

locale retried_tunnels = tunnel_client Inv tuns tc
  for Inv :: "'w \<Rightarrow> bool" and tuns :: "'w \<Rightarrow> tunnel_table" and tc :: "'w client" +
  fixes tt :: "string \<Rightarrow> string"
    and wait :: "int \<Rightarrow> 'w \<Rightarrow> go_error option \<times> 'w"
    and m :: nat
  assumes twait_law: "Inv w \<Longrightarrow> wait d w = (c, w') \<Longrightarrow>
      Inv w' \<and> tuns w' = tuns w \<and> (\<forall>e. c = Some e \<longrightarrow> \<not> IsConflict (Some e))"

sublocale retried_tunnels \<subseteq> tretried: tunnel_client Inv tuns "retryClient tt wait m tc"
proof
  fix w n i assume "Inv w" "tuns w n = Some i"
  then show "i \<noteq> []" by (rule ids_nonempty)
next
  fix w n r w'
  assume i: "Inv w" and g: "GetTunnelIDByName (retryClient tt wait m tc) n w = (r, w')"
  let ?K = "\<lambda>v. Inv v \<and> tuns v = tuns w"
  let ?Q = "\<lambda>r v. \<forall>i. r = Inr i \<longrightarrow> i = (case tuns w n of None \<Rightarrow> [] | Some j \<Rightarrow> j)"
  have "?K w' \<and> ?Q r w'"
  proof (rule retry1Loop_wait_rule [where K = ?K and Q = ?Q and fn = "GetTunnelIDByName tc n" and wait = wait])
    show "retry1Loop tt wait (GetTunnelIDByName tc n) 0 m w = (r, w')"
      using g by (simp add: retryClient_def retry1_def)
    show "?K v' \<and> ?Q r v'" if "?K v" "GetTunnelIDByName tc n v = (r, v')" for v r v'
      using lookup_law [OF _ that(2)] that(1) by simp
    show "?K v' \<and> (\<forall>e. c = Some e \<longrightarrow> ?Q (Inl e) v')" if "?K v" "wait d v = (c, v')" for d v c v'
      using twait_law [OF _ that(2)] that(1) by simp
  qed (use i in simp)
  then show "Inv w' \<and> tuns w' = tuns w \<and>
      (\<forall>i. r = Inr i \<longrightarrow> i = (case tuns w n of None \<Rightarrow> [] | Some j \<Rightarrow> j))" by simp
next
  fix w n r w'
  assume i: "Inv w" and g: "CreateTunnel (retryClient tt wait m tc) n w = (r, w')"
  let ?K = "\<lambda>v. Inv v \<and> createdOnly n (tuns w) (tuns v)"
  let ?Q = "\<lambda>r v. (\<forall>i. r = Inr i \<longrightarrow> tuns w n = None \<and> tuns v n = Some i) \<and>
      (\<forall>e. r = Inl e \<longrightarrow> IsConflict (Some e) \<longrightarrow> tuns v n \<noteq> None)"
  have "?K w' \<and> ?Q r w'"
  proof (rule retry1Loop_wait_rule [where K = ?K and Q = ?Q and fn = "CreateTunnel tc n" and wait = wait])
    show "retry1Loop tt wait (CreateTunnel tc n) 0 m w = (r, w')"
      using g by (simp add: retryClient_def retry1_def)
    show "?K v' \<and> ?Q r v'" if "?K v" "CreateTunnel tc n v = (r, v')" for v r v'
    proof -
      have law: "Inv v'" "createdOnly n (tuns v) (tuns v')"
        "\<forall>i. r = Inr i \<longrightarrow> tuns v n = None \<and> tuns v' n = Some i"
        "\<forall>e. r = Inl e \<longrightarrow> IsConflict (Some e) \<longrightarrow> tuns v' n \<noteq> None"
        using create_law [OF _ that(2)] that(1) by simp_all
      have new: "createdOnly n (tuns w) (tuns v')"
        using createdOnly_trans law(2) that(1) by blast
      have absent: "tuns v n = None \<Longrightarrow> tuns w n = None"
        using that(1) by (auto simp: createdOnly_def)
      show ?thesis using law(1,3,4) new absent by simp
    qed
    show "?K v' \<and> (\<forall>e. c = Some e \<longrightarrow> ?Q (Inl e) v')" if "?K v" "wait d v = (c, v')" for d v c v'
      using twait_law [OF _ that(2)] that(1) by simp
  qed (use i in simp)
  then show "Inv w' \<and> createdOnly n (tuns w) (tuns w') \<and>
      (\<forall>i. r = Inr i \<longrightarrow> tuns w n = None \<and> tuns w' n = Some i) \<and>
      (\<forall>e. r = Inl e \<longrightarrow> IsConflict (Some e) \<longrightarrow> tuns w' n \<noteq> None)" by simp
next
  fix w i e w'
  assume inv: "Inv w" and g: "DeleteTunnel (retryClient tt wait m tc) i w = (e, w')"
  let ?K = "\<lambda>v. Inv v \<and> (tuns v = tuns w \<or> tuns v = withoutID (tuns w) i)"
  let ?Q = "\<lambda>e v. e = None \<longrightarrow> tuns v = withoutID (tuns w) i"
  have "?K w' \<and> ?Q e w'"
  proof (rule retry0Loop_rule [where K = ?K and Q = ?Q and fn = "DeleteTunnel tc i" and wait = wait])
    show "retry0Loop tt wait (DeleteTunnel tc i) 0 m w = (e, w')"
      using g by (simp add: retryClient_def retry0_def)
    show "?K v' \<and> ?Q e v'" if "?K v" "DeleteTunnel tc i v = (e, v')" for v e v'
      using remove_law [OF _ that(2)] that(1) by auto
    show "?K v'" if "?K v" "wait d v = (c, v')" for d v c v'
      using twait_law [OF _ that(2)] that(1) by auto
  qed (use inv in simp_all)
  then show "Inv w' \<and> (tuns w' = tuns w \<or> tuns w' = withoutID (tuns w) i) \<and>
      (e = None \<longrightarrow> tuns w' = withoutID (tuns w) i)" by simp
next
  fix w i e w'
  assume inv: "Inv w" and g: "CleanupTunnelConnections (retryClient tt wait m tc) i w = (e, w')"
  let ?K = "\<lambda>v. Inv v \<and> tuns v = tuns w"
  have "?K w' \<and> True"
  proof (rule retry0Loop_rule [where K = ?K and Q = "\<lambda>e v. True"
        and fn = "CleanupTunnelConnections tc i" and wait = wait])
    show "retry0Loop tt wait (CleanupTunnelConnections tc i) 0 m w = (e, w')"
      using g by (simp add: retryClient_def retry0_def)
    show "?K v' \<and> True" if "?K v" "CleanupTunnelConnections tc i v = (e, v')" for v e v'
      using cleanup_law [OF _ that(2)] that(1) by simp
    show "?K v'" if "?K v" "wait d v = (c, v')" for d v c v'
      using twait_law [OF _ that(2)] that(1) by simp
  qed (use inv in simp_all)
  then show "Inv w' \<and> tuns w' = tuns w" by simp
qed

context sdk_tunnels
begin

lemma tunnel_contract: "tunnel_client Inv table (clientOf sdk acct)"
  by (rule tclient.tunnel_client_axioms)

end

context retried_tunnels
begin

lemma retried_tunnel_contract: "tunnel_client Inv tuns (retryClient tt wait m tc)"
  by (rule tretried.tunnel_client_axioms)

end

text \<open>The production client.\<close>

lemma WithRetry_tunnels:
  assumes "sdk_tunnels Inv tunnels sdk acct"
    and "\<forall>d v c v'. Inv v \<longrightarrow> wait d v = (c, v') \<longrightarrow>
      Inv v' \<and> tunnels v' = tunnels v \<and> (\<forall>e. c = Some e \<longrightarrow> \<not> IsConflict (Some e))"
  shows "tunnel_client Inv (tunTable tunnels) (WithRetry tt wait (clientOf sdk acct))"
proof -
  have "tunnel_client Inv (tunTable tunnels) (clientOf sdk acct)"
    using assms(1) by (rule sdk_tunnels.tunnel_contract)
  moreover have "retried_tunnels_axioms Inv (tunTable tunnels) wait"
    using assms(2) unfolding retried_tunnels_axioms_def tunTable_def by simp
  ultimately show ?thesis
    unfolding WithRetry_def
    by (intro retried_tunnels.retried_tunnel_contract retried_tunnels.intro)
qed
section \<open>An account with scheduled faults\<close>

text \<open>
  A fault is an error and whether the request was applied before its answer was lost.  A
  tunnel's ID is its name behind a prefix.
\<close>

record tun_account =
  taTunnels :: "tunnel list"
  taFaults :: "(bool \<times> go_error) option list"

definition tunNext :: "tun_account \<Rightarrow> (bool \<times> go_error) option \<times> tun_account" where
  "tunNext a = (case taFaults a of [] \<Rightarrow> (None, a) | f # fs \<Rightarrow> (f, a\<lparr>taFaults := fs\<rparr>))"

text \<open>A request with its answer and effect, under the next fault.\<close>

definition tunRequest ::
  "(go_error + 'r) \<Rightarrow> (tunnel list \<Rightarrow> tunnel list) \<Rightarrow> tun_account \<Rightarrow> (go_error + 'r) \<times> tun_account" where
  "tunRequest answer f a =
     (case tunNext a of
        (None, b) \<Rightarrow> (answer, b\<lparr>taTunnels := f (taTunnels b)\<rparr>)
      | (Some (True, e), b) \<Rightarrow> (Inl e, b\<lparr>taTunnels := f (taTunnels b)\<rparr>)
      | (Some (False, e), b) \<Rightarrow> (Inl e, b))"

definition tunNew :: "string \<Rightarrow> tun_account \<Rightarrow> (go_error + tunnel) \<times> tun_account" where
  "tunNew n a =
     (let t = \<lparr>tunnelID = ''id-'' @ n, tunnelName = n\<rparr>
      in if n \<in> tunnelName ` set (taTunnels a)
         then tunRequest (Inl (ErrCloudflare 409 ''exists'')) (\<lambda>ts. ts) a
         else tunRequest (Inr t) (\<lambda>ts. ts @ [t]) a)"

definition tunDelete :: "string \<Rightarrow> tun_account \<Rightarrow> go_error option \<times> tun_account" where
  "tunDelete i a =
     (case tunRequest (if i \<in> tunnelID ` set (taTunnels a) then Inr ()
                       else Inl (ErrCloudflare 404 ''no tunnel''))
             (filter (\<lambda>t. tunnelID t \<noteq> i)) a of
        (r, b) \<Rightarrow> (resErr r, b))"

definition tunSDK :: "tun_account sdk" where
  "tunSDK =
     \<lparr>sdkTunnelNew = \<lambda>acct n c. tunNew n,
      sdkTunnelList = \<lambda>acct q d a. (case tunNext a of
         (Some (x, e), b) \<Rightarrow> (([], Some e), b)
       | (None, b) \<Rightarrow>
           ((filter (\<lambda>t. q = None \<or> q = Some (tunnelName t)) (taTunnels b), None), b)),
      sdkConnectionsDelete = \<lambda>i acct a. (case tunRequest (Inr ()) (\<lambda>ts. ts) a of
         (r, b) \<Rightarrow> (resErr r, b)),
      sdkTunnelDelete = \<lambda>i acct. tunDelete i,
      sdkTokenGet = \<lambda>i acct a. (Inr i, a), sdkTunnelEdit = \<lambda>i acct x a. (None, a),
      sdkZoneList = \<lambda>n a. (([], None), a), sdkRecordList = \<lambda>z n c a. (([], None), a),
      sdkRecordUpdate = \<lambda>z i b a. (None, a), sdkRecordNew = \<lambda>z b a. (None, a),
      sdkRecordDelete = \<lambda>z i a. (None, a)\<rparr>"

definition tunWait :: "int \<Rightarrow> tun_account \<Rightarrow> go_error option \<times> tun_account" where
  "tunWait d a = (None, a)"

text \<open>Names are unique, and the faults are not answers of the API.\<close>

definition taOk :: "tun_account \<Rightarrow> bool" where
  "taOk a \<longleftrightarrow> distinct (map tunnelName (taTunnels a)) \<and>
     (\<forall>t\<in>set (taTunnels a). tunnelID t = ''id-'' @ tunnelName t) \<and>
     (\<forall>x e. Some (x, e) \<in> set (taFaults a) \<longrightarrow> errCloudflareStatus e = None)"

lemma tunNext_ok:
  "tunNext a = (f, b) \<Longrightarrow> taOk a \<Longrightarrow>
   taOk b \<and> taTunnels b = taTunnels a \<and> (\<forall>x e. f = Some (x, e) \<longrightarrow> errCloudflareStatus e = None)"
  by (auto simp: tunNext_def taOk_def split: list.splits)

lemma tunRequest_ok:
  assumes "tunRequest answer f a = (r, b)" and "taOk a"
    and "distinct (map tunnelName (f (taTunnels a)))"
    and "\<forall>t\<in>set (f (taTunnels a)). tunnelID t = ''id-'' @ tunnelName t"
  shows "taOk b \<and> (taTunnels b = taTunnels a \<or> taTunnels b = f (taTunnels a)) \<and>
    (r = answer \<and> taTunnels b = f (taTunnels a) \<or>
     (\<exists>e. r = Inl e \<and> errCloudflareStatus e = None))"
proof -
  obtain g c where g: "tunNext a = (g, c)" by (rule prod.exhaust)
  note ok = tunNext_ok [OF g assms(2)]
  have w: "taOk (c\<lparr>taTunnels := f (taTunnels c)\<rparr>)"
    using ok assms(3,4) by (simp add: taOk_def)
  show ?thesis
    using assms(1) g ok w
    by (auto simp: tunRequest_def split: option.splits prod.splits bool.splits)
qed

interpretation tsim: sdk_tunnels taOk taTunnels tunSDK acct for acct
proof
  fix w assume "taOk w"
  then show "distinct (map tunnelName (taTunnels w))" by (simp add: taOk_def)
next
  fix w t assume "taOk w" "t \<in> set (taTunnels w)"
  then show "tunnelID t \<noteq> []" by (auto simp: taOk_def)
next
  fix w q ts e w'
  assume "taOk w" "sdkTunnelList tunSDK acct q False w = ((ts, e), w')"
  then show "taOk w' \<and> taTunnels w' = taTunnels w \<and> set ts \<subseteq> set (taTunnels w)"
    by (auto simp: tunSDK_def dest: tunNext_ok split: prod.splits option.splits)
next
  fix w q ts w' t
  assume "taOk w" "sdkTunnelList tunSDK acct q False w = ((ts, None), w')"
    "t \<in> set (taTunnels w)" "q = None \<or> q = Some (tunnelName t)"
  then show "t \<in> set ts"
    by (auto simp: tunSDK_def dest: tunNext_ok split: prod.splits option.splits)
next
  fix w n c r w'
  assume ok: "taOk w" and g: "sdkTunnelNew tunSDK acct n c w = (r, w')"
  let ?t = "\<lparr>tunnelID = ''id-'' @ n, tunnelName = n\<rparr>"
  show "taOk w' \<and>
      (taTunnels w' = taTunnels w \<or> n \<notin> tunnelName ` set (taTunnels w) \<and>
         (\<exists>i. taTunnels w' = taTunnels w @ [\<lparr>tunnelID = i, tunnelName = n\<rparr>])) \<and>
      (\<forall>t. r = Inr t \<longrightarrow> n \<notin> tunnelName ` set (taTunnels w) \<and>
         taTunnels w' = taTunnels w @ [\<lparr>tunnelID = tunnelID t, tunnelName = n\<rparr>]) \<and>
      (\<forall>e. r = Inl e \<longrightarrow> apiStatus e 409 \<longrightarrow> n \<in> tunnelName ` set (taTunnels w'))"
  proof (cases "n \<in> tunnelName ` set (taTunnels w)")
    case True
    then have "tunRequest (Inl (ErrCloudflare 409 ''exists'')) (\<lambda>ts. ts) w = (r, w')"
      using g by (simp add: tunSDK_def tunNew_def Let_def)
    from tunRequest_ok [OF this ok] ok have "taOk w'" "taTunnels w' = taTunnels w" "isl r"
      by (auto simp: taOk_def)
    then show ?thesis using True by auto
  next
    case False
    then have "tunRequest (Inr ?t) (\<lambda>ts. ts @ [?t]) w = (r, w')"
      using g by (simp add: tunSDK_def tunNew_def Let_def)
    from tunRequest_ok [OF this ok] ok False
    have "taOk w'" "taTunnels w' = taTunnels w \<or> taTunnels w' = taTunnels w @ [?t]"
      "r = Inr ?t \<and> taTunnels w' = taTunnels w @ [?t] \<or>
        (\<exists>e. r = Inl e \<and> errCloudflareStatus e = None)"
      by (auto simp: taOk_def)
    then show ?thesis using False by (auto simp: apiStatus_def)
  qed
next
  fix w i d w'
  assume ok: "taOk w" and g: "sdkTunnelDelete tunSDK i acct w = (d, w')"
  let ?a = "if i \<in> tunnelID ` set (taTunnels w) then Inr () else Inl (ErrCloudflare 404 ''no tunnel'')"
  obtain r where r: "tunRequest ?a (filter (\<lambda>t. tunnelID t \<noteq> i)) w = (r, w')" "d = resErr r"
    using g by (auto simp: tunSDK_def tunDelete_def split: prod.splits)
  have d: "distinct (map tunnelName (filter (\<lambda>t. tunnelID t \<noteq> i) (taTunnels w)))"
    "\<forall>t\<in>set (filter (\<lambda>t. tunnelID t \<noteq> i) (taTunnels w)). tunnelID t = ''id-'' @ tunnelName t"
    using ok by (simp_all add: taOk_def distinct_map_filter)
  note t = tunRequest_ok [OF r(1) ok d]
  have gone: "taTunnels w' = filter (\<lambda>t. tunnelID t \<noteq> i) (taTunnels w)"
    if "d = None \<or> (\<exists>e. d = Some e \<and> apiStatus e 404)"
  proof -
    have "\<not> (\<exists>e. r = Inl e \<and> errCloudflareStatus e = None)"
      using that r(2) by (auto simp: apiStatus_def)
    then show ?thesis using t by blast
  qed
  show "taOk w' \<and> (let rest = filter (\<lambda>t. tunnelID t \<noteq> i) (taTunnels w)
       in (taTunnels w' = taTunnels w \<or> taTunnels w' = rest) \<and>
          (d = None \<or> (\<exists>e. d = Some e \<and> apiStatus e 404) \<longrightarrow> taTunnels w' = rest))"
    unfolding Let_def using t gone by (intro conjI impI) blast+
next
  fix w i d w'
  assume ok: "taOk w" and g: "sdkConnectionsDelete tunSDK i acct w = (d, w')"
  obtain r where r: "tunRequest (Inr ()) (\<lambda>ts. ts) w = (r, w')"
    using g by (auto simp: tunSDK_def split: prod.splits)
  from tunRequest_ok [OF r ok] ok show "taOk w' \<and> taTunnels w' = taTunnels w"
    by (auto simp: taOk_def)
qed

interpretation tsimr: retried_tunnels taOk "tunTable taTunnels" "clientOf tunSDK acct" tt tunWait m
  for acct tt m
  by unfold_locales (auto simp: tunWait_def)

section \<open>Properties\<close>

text \<open>
  C22. Ensuring the tunnel is idempotent and safe, whatever fails on the way and however often
  a request is retried: it adds the tunnel of its name if there is none and changes nothing
  else, so a Gateway never gets a second tunnel and never loses one; if it succeeds, the ID is
  that of the tunnel of the name, also when the answer to the creation was lost, and a change
  is reported exactly when there was no tunnel before.
\<close>

theorem ensureTunnel_exact:
  assumes "sdk_tunnels Inv tunnels sdk acct" and "Inv w"
    and "\<forall>d v c v'. Inv v \<longrightarrow> wait d v = (c, v') \<longrightarrow>
      Inv v' \<and> tunnels v' = tunnels v \<and> (\<forall>e. c = Some e \<longrightarrow> \<not> IsConflict (Some e))"
    and "ensureTunnel (WithRetry tt wait (clientOf sdk acct)) t w = (r, w')"
  shows "Inv w' \<and> createdOnly (tunName t) (tunTable tunnels w) (tunTable tunnels w') \<and>
    (\<forall>changes t'. r = Inr (changes, t') \<longrightarrow>
       tunName t' = tunName t \<and> tunTable tunnels w' (tunName t) = Some (tunID t') \<and>
       (changes = [] \<longleftrightarrow> tunTable tunnels w (tunName t) \<noteq> None))"
  by (rule tunnel_client.ensureTunnel_law [OF WithRetry_tunnels [OF assms(1,3)] assms(2,4)])

text \<open>The creation is applied and its answer lost; the retry conflicts, and the lookup finds it.\<close>

definition lostCreation :: tun_account where
  "lostCreation = \<lparr>taTunnels = [], taFaults = [None, Some (True, ErrUnexpectedEOF)]\<rparr>"

lemma demo_ensure:
  "fst (ensureTunnel (WithRetry id tunWait (clientOf tunSDK ''acct'')) \<lparr>tunName = ''t'', tunID = []\<rparr>
      lostCreation) =
   Inr ([''created tunnel t''], \<lparr>tunName = ''t'', tunID = ''id-t''\<rparr>)"
  by code_simp

theorem ensureTunnel_exact_witness:
  "tunTable taTunnels (snd (ensureTunnel (WithRetry id tunWait (clientOf tunSDK ''acct''))
      \<lparr>tunName = ''t'', tunID = []\<rparr> lostCreation)) ''t'' = Some ''id-t''"
proof -
  let ?run = "ensureTunnel (WithRetry id tunWait (clientOf tunSDK ''acct''))
      \<lparr>tunName = ''t'', tunID = []\<rparr> lostCreation"
  have run: "?run = (Inr ([''created tunnel t''], \<lparr>tunName = ''t'', tunID = ''id-t''\<rparr>), snd ?run)"
    by (metis demo_ensure prod.collapse)
  have ok: "taOk lostCreation" by (auto simp: taOk_def lostCreation_def)
  have wait: "\<forall>d v c v'. taOk v \<longrightarrow> tunWait d v = (c, v') \<longrightarrow>
      taOk v' \<and> taTunnels v' = taTunnels v \<and> (\<forall>e. c = Some e \<longrightarrow> \<not> IsConflict (Some e))"
    by (simp add: tunWait_def)
  show ?thesis
    using ensureTunnel_exact [OF tsim.sdk_tunnels_axioms ok wait run] by simp
qed

end
