(* ===== verification/Finalization.thy ===== *)
theory Finalization
  imports Framing TunnelContract
begin

text \<open>
  What finalization guarantees, over everything it touches: the Deployments of the Gateway, the
  tunnel, the DNS records and the Gateway's own finalizer.  The locale \<open>finalization\<close> joins the
  contracts of the components: API calls that leave the account alone, deletions that are
  waited for, and a Cloudflare client that keeps the DNS and the tunnel contract, each leaving
  the other's part alone.
\<close>

section \<open>How far finalization may change the account\<close>

text \<open>
  Between two states of the account (records and tunnels): records of the tunnel named \<open>n\<close> may
  have been deleted, and the tunnel only if no record of it is left in any zone.
\<close>

definition accountCleared ::
  "string \<Rightarrow> string set \<Rightarrow> cname_table \<Rightarrow> tunnel_table \<Rightarrow> cname_table \<Rightarrow> tunnel_table \<Rightarrow> bool" where
  "accountCleared n zones R T R' T' \<longleftrightarrow>
     R' = R \<and> T' = T \<or>
     (\<exists>i. T n = Some i \<and>
       (\<forall>z h. R' z h = R z h \<or> R z h = Some (TunnelTarget i) \<and> R' z h = None) \<and>
       (T' = T \<or> T' = withoutID T i \<and> (\<forall>z\<in>zones. \<forall>h. R' z h \<noteq> Some (TunnelTarget i))))"

lemma accountCleared_gone:
  "accountCleared n zones R T R' T' \<Longrightarrow> T n = Some i \<Longrightarrow> T' n = None \<Longrightarrow> z \<in> zones \<Longrightarrow>
   R' z h \<noteq> Some (TunnelTarget i)"
  by (auto simp: accountCleared_def)

section \<open>The contract\<close>

text \<open>
  \<open>deps\<close> are the Deployments with the Gateway's labels that exist, and \<open>released\<close> says that the
  Gateway's finalizer has been removed.
\<close>

locale finalization = quiet_env Inv "\<lambda>w. (recs w, tuns w, released w)" deps en
  for Inv :: "'w \<Rightarrow> bool" and recs :: "'w \<Rightarrow> cname_table" and tuns :: "'w \<Rightarrow> tunnel_table"
    and released :: "'w \<Rightarrow> bool" and deps :: "'w \<Rightarrow> namespaced_name set" and en :: "'w env" +
  fixes gw :: gateway and zs :: "zone list"
  assumes listed: "Inv w \<Longrightarrow> clList (enCluster en) KindDeployment (gwNamespace gw)
        (GatewayResourceLabels (gwName gw) []) w = (Inr obs, w') \<Longrightarrow> deps w' \<subseteq> objectKey ` set obs"
    and gone: "Inv w \<Longrightarrow> clGetDeployment (enCluster en) key w = (Inl e, w') \<Longrightarrow> errNotFound e \<Longrightarrow>
        key \<notin> deps w'"
    and gateway_patch: "Inv w \<Longrightarrow> clPatchGateway (enCluster en) g g' w = (d, w') \<Longrightarrow>
        Inv w' \<and> recs w' = recs w \<and> tuns w' = tuns w \<and> deps w' \<subseteq> deps w"
    and map_order: "set (enMapOrder en m) = set m"
    and dns_part: "enNewClient en cfg = Inr tc \<Longrightarrow>
        dns_zones (\<lambda>w. Inv w \<and> tuns w = T \<and> released w = b \<and> deps w \<subseteq> D) recs tc zs"
    and tunnel_part: "enNewClient en cfg = Inr tc \<Longrightarrow>
        tunnel_client (\<lambda>w. Inv w \<and> recs w = R \<and> released w = b \<and> deps w \<subseteq> D) tuns tc"
begin

abbreviation name :: string where "name \<equiv> TunnelName (enClusterName en) gw"

abbreviation cleared :: "'w \<Rightarrow> 'w \<Rightarrow> bool" where
  "cleared w w' \<equiv> accountCleared name (zoneID ` set zs) (recs w) (tuns w) (recs w') (tuns w')"

abbreviation kept :: "'w \<Rightarrow> 'w \<Rightarrow> bool" where
  "kept w w' \<equiv> Inv w' \<and> recs w' = recs w \<and> tuns w' = tuns w \<and> released w' = released w \<and>
     deps w' \<subseteq> deps w"

lemma keptD: "quiet f \<Longrightarrow> f w = (r, w') \<Longrightarrow> Inv w \<Longrightarrow> kept w w'"
  using quietlyD by fastforce

section \<open>Deleting the Deployments\<close>

lemma deleteDeployments_kept:
  "Inv w \<Longrightarrow> deleteDeploymentsLoop (enCluster en) obs w = (e, w') \<Longrightarrow> kept w w'"
proof (induction obs arbitrary: w)
  case (Cons ob obs)
  obtain d w1 where d: "clDelete (enCluster en) ob w = (d, w1)" by (rule prod.exhaust)
  note 1 = keptD [OF q_delete d Cons.prems(1)]
  show ?case
  proof (cases "ignoreNotFound d")
    case None
    then show ?thesis using Cons.IH [of w1] Cons.prems(2) d 1 by auto
  next
    case (Some err)
    then show ?thesis using Cons.prems(2) d 1 by auto
  qed
qed simp

lemma waitGone_kept:
  assumes "Inv w" "waitGone (enCluster en) n key w = Some (e, w')"
  shows "kept w w' \<and> (e = None \<longrightarrow> key \<notin> deps w')"
proof -
  let ?P = "\<lambda>cl n key w p. cl = enCluster en \<longrightarrow> Inv w \<longrightarrow>
      kept w (snd p) \<and> (fst p = None \<longrightarrow> key \<notin> deps (snd p))"
  have "?P (enCluster en) n key w (e, w')"
  proof (rule waitGone.raw_induct [where P = ?P, OF _ assms(2)], intro impI)
    fix loop cl n key v p
    assume IH: "\<And>cl n key w p. loop cl n key w = Some p \<Longrightarrow> ?P cl n key w p"
      and cl: "cl = enCluster en" and v: "Inv v"
      and run: "(let failed = (\<lambda>err. Some (ErrWrap (''waiting for tunnel deployment '' @ n @
             '' deletion: '') err))
         in case clGetDeployment cl key v of
              (Inl err, w1) \<Rightarrow> Some (if errNotFound err then None else failed err, w1)
            | (Inr d, w1) \<Rightarrow>
                (case clWaitSecond cl w1 of
                   (Some err, w2) \<Rightarrow> Some (failed err, w2)
                 | (None, w2) \<Rightarrow> loop cl n key w2)) = Some p"
    obtain g w1 where g: "clGetDeployment (enCluster en) key v = (g, w1)" by (rule prod.exhaust)
    note 1 = keptD [OF q_getDeployment g v]
    show "kept v (snd p) \<and> (fst p = None \<longrightarrow> key \<notin> deps (snd p))"
    proof (cases g)
      case (Inl err)
      then show ?thesis using run 1 g cl gone [OF v, of key err w1]
        by (cases "errNotFound err") (simp_all add: Let_def, auto)
    next
      case (Inr d)
      obtain c w2 where c: "clWaitSecond (enCluster en) w1 = (c, w2)" by (rule prod.exhaust)
      have 2: "kept w1 w2" using keptD [OF q_wait c] 1 by simp
      show ?thesis
      proof (cases c)
        case None
        then have "loop cl n key w2 = Some p" using run g c Inr cl by (simp add: Let_def)
        from IH [OF this] cl 1 2 show ?thesis by auto
      next
        case (Some err)
        then show ?thesis using run g c Inr cl 1 2 by (auto simp: Let_def)
      qed
    qed
  qed
  then show ?thesis using assms(1) by simp
qed

lemma waitAllGone_kept:
  assumes "Inv w" "waitAllGone (enCluster en) obs w = Some (e, w')"
  shows "kept w w' \<and> (e = None \<longrightarrow> deps w' \<inter> objectKey ` set obs = {})"
  using assms
proof (induction obs arbitrary: w)
  case (Cons ob obs)
  obtain d w1 where d: "waitGone (enCluster en) (koName ob) (objectKey ob) w = Some (d, w1)"
    using Cons.prems(2) by (auto split: option.splits)
  note 1 = waitGone_kept [OF Cons.prems(1) d]
  show ?case
  proof (cases d)
    case None
    then have "waitAllGone (enCluster en) obs w1 = Some (e, w')" using Cons.prems(2) d by simp
    from Cons.IH [OF _ this] 1 None show ?thesis by auto
  next
    case (Some err)
    then show ?thesis using Cons.prems(2) d 1 by auto
  qed
qed simp

section \<open>The tunnel and its records\<close>

lemma finalizeClient_kept:
  "Inv w \<Longrightarrow> finalizeClient en g gc w = (r, w') \<Longrightarrow>
     kept w w' \<and> (\<forall>tc. r = Inr tc \<longrightarrow> (\<exists>cfg. enNewClient en cfg = Inr tc))"
  unfolding finalizeClient_def
  by (auto simp: Let_def split: prod.splits sum.splits if_splits
      dest!: keptD [OF quiet_readParameters] keptD [OF quiet_readCredentials])

lemma deleteTunnelAndDNS_clears:
  assumes "Inv w" "enNewClient en cfg = Inr tc"
    and "deleteTunnelAndDNS en gw tc changes w = ((ch, e), w')"
  shows "Inv w' \<and> released w' = released w \<and> deps w' \<subseteq> deps w \<and> cleared w w' \<and>
    (e = None \<longrightarrow> tuns w' name = None)"
proof -
  note T = tunnel_part [OF assms(2)] and D = dns_part [OF assms(2)]
  obtain l w1 where l: "GetTunnelIDByName tc name w = (l, w1)" by (rule prod.exhaust)
  have 1: "kept w w1" "\<forall>i. l = Inr i \<longrightarrow> i = (case tuns w name of None \<Rightarrow> [] | Some j \<Rightarrow> j)"
    using tunnel_client.lookup_law [OF T [of "recs w" "released w" "deps w"] _ l] assms(1) by auto
  have same: "cleared w w1" using 1 by (simp add: accountCleared_def)
  show ?thesis
  proof (cases l)
    case (Inl err)
    then show ?thesis using assms(3) l 1 same by (auto simp: deleteTunnelAndDNS_def Let_def)
  next
    case (Inr i)
    show ?thesis
    proof (cases "i = []")
      case True
      then have "tuns w name = None"
        using 1(2) Inr tunnel_client.ids_nonempty [OF T [of "recs w" "released w" "deps w"], of w] assms(1)
        by (auto split: option.splits)
      then show ?thesis
        using assms(3) l 1 same True Inr by (auto simp: deleteTunnelAndDNS_def Let_def)
    next
      case False
      then have i: "tuns w name = Some i" using 1(2) Inr by (auto split: option.splits)
      let ?off = "\<lparr>dnsEnabled = False, dnsZones = []\<rparr>"
      obtain dch de w2 where d: "reconcileDNS (enTerminalText en) (enMapOrder en) tc i ?off [] w1
          = ((dch, de), w2)" by (metis prod.exhaust)
      note ctx = D [of "tuns w" "released w" "deps w"]
      have v1: "Inv w1 \<and> tuns w1 = tuns w \<and> released w1 = released w \<and> deps w1 \<subseteq> deps w" using 1 by simp
      have ord: "\<forall>d. set (enMapOrder en d) = set d" using map_order by simp
      have 2: "Inv w2" "tuns w2 = tuns w" "released w2 = released w" "deps w2 \<subseteq> deps w"
        using dns_zones.reconcileDNS_Inv [OF ctx v1 d ord] by simp_all
      have rec2: "recs w2 z h = recs w z h \<or> recs w z h = Some (TunnelTarget i) \<and> recs w2 z h = None" for z h
        using dns_zones.reconcileDNS_changes [OF ctx v1 d ord, of z h] 1(1) by auto
      have clear2: "recs w2 z h \<noteq> Some (TunnelTarget i)" if "de = None" "z \<in> zoneID ` set zs" for z h
        using dns_zones.reconcileDNS_converged [OF ctx v1 _ ord, where tid = i and w' = w2] d that by fastforce
      show ?thesis
      proof (cases de)
        case (Some err)
        have "cleared w w2" using i rec2 2(2) by (auto simp: accountCleared_def)
        then show ?thesis
          using assms(3) l d Inr False Some 2 by (auto simp: deleteTunnelAndDNS_def Let_def)
      next
        case None
        note none = clear2 [OF None]
        note tctx = T [of "recs w2" "released w" "deps w"]
        obtain c w3 where c: "CleanupTunnelConnections tc i w2 = (c, w3)" by (rule prod.exhaust)
        have v2: "Inv w2 \<and> recs w2 = recs w2 \<and> released w2 = released w \<and> deps w2 \<subseteq> deps w" using 2 by simp
        note 3 = tunnel_client.cleanup_law [OF tctx v2 c]
        show ?thesis
        proof (cases c)
          case (Some err)
          have "cleared w w3" using i rec2 2(2) 3 by (auto simp: accountCleared_def)
          then show ?thesis
            using assms(3) l d c Inr False None Some 3 by (auto simp: deleteTunnelAndDNS_def Let_def)
        next
          case cleaned: None
          obtain x w4 where x: "DeleteTunnel tc i w3 = (x, w4)" by (rule prod.exhaust)
          from 3 have v3: "Inv w3 \<and> recs w3 = recs w2 \<and> released w3 = released w \<and> deps w3 \<subseteq> deps w" by simp
          note 4 = tunnel_client.remove_law [OF tctx v3 x]
          have "recs w4 = recs w2" "tuns w4 = tuns w \<or> tuns w4 = withoutID (tuns w) i" using 4 3 2 by auto
          then have "cleared w w4" using i rec2 none by (auto simp: accountCleared_def)
          moreover have "tuns w4 name = None" if "x = None"
            using that 4 3 2(2) i by (simp add: withoutID_def)
          moreover have "w' = w4 \<and> e = None \<longleftrightarrow> w' = w4 \<and> x = None" "w' = w4"
            using assms(3) l d c x Inr False None cleaned
            by (auto simp: deleteTunnelAndDNS_def Let_def split: option.splits)
          ultimately show ?thesis using 4 by auto
        qed
      qed
    qed
  qed
qed

section \<open>Finalization as a whole\<close>

lemma quiet_releaseCGS: "quiet (releaseCGS en gw)"
  by (rule quietlyI)
    (auto simp: releaseCGS_def split: prod.splits sum.splits option.splits if_splits
       dest!: quietlyD [OF quiet_getCGS] quietlyD [OF q_patchCGS])

lemma finalizeEnabled_clears:
  assumes "Inv w" "finalizeEnabled en gw gc w = Some ((ch, e), w')"
  shows "Inv w' \<and> released w' = released w \<and> deps w' \<subseteq> deps w \<and> cleared w w' \<and>
    (recs w' \<noteq> recs w \<or> tuns w' \<noteq> tuns w \<longrightarrow> deps w' = {}) \<and>
    (e = None \<longrightarrow> deps w' = {} \<and> tuns w' name = None)"
proof -
  have early: ?thesis if "kept w w'" "e \<noteq> None"
    using that by (auto simp: accountCleared_def)
  obtain l w1 where l: "clList (enCluster en) KindDeployment (gwNamespace gw)
      (GatewayResourceLabels (gwName gw) []) w = (l, w1)" by (rule prod.exhaust)
  note 1 = keptD [OF q_list l assms(1)]
  show ?thesis
  proof (cases l)
    case (Inl err)
    then show ?thesis using assms(2) l 1 early by (auto simp: finalizeEnabled_def Let_def)
  next
    case (Inr obs)
    have inL: "deps w1 \<subseteq> objectKey ` set obs" using listed [OF assms(1)] l Inr by simp
    obtain d w2 where d: "deleteDeploymentsLoop (enCluster en) obs w1 = (d, w2)" by (rule prod.exhaust)
    have 2: "kept w1 w2" using deleteDeployments_kept [OF _ d] 1 by simp
    show ?thesis
    proof (cases d)
      case (Some err)
      then have "w' = w2" "e = Some err" using assms(2) l Inr d by (auto simp: finalizeEnabled_def Let_def)
      then show ?thesis using early 1 2 by auto
    next
      case None
      obtain g w3 where g: "waitAllGone (enCluster en) obs w2 = Some (g, w3)"
        using assms(2) l Inr d None by (auto simp: finalizeEnabled_def Let_def split: option.splits)
      have 3: "kept w2 w3" "g = None \<longrightarrow> deps w3 \<inter> objectKey ` set obs = {}"
        using waitAllGone_kept [OF _ g] 2 by simp_all
      show ?thesis
      proof (cases g)
        case (Some err)
        then have "w' = w3" "e = Some err"
          using assms(2) l Inr d None g by (auto simp: finalizeEnabled_def Let_def)
        then show ?thesis using early 1 2 3(1) by auto
      next
        case gone: None
        have empty: "deps w3 = {}" using 3 2 inL gone by blast
        obtain c w4 where c: "finalizeClient en gw gc w3 = (c, w4)" by (rule prod.exhaust)
        have 4: "kept w3 w4" "\<forall>tc. c = Inr tc \<longrightarrow> (\<exists>cfg. enNewClient en cfg = Inr tc)"
          using finalizeClient_kept [OF _ c] 3 by simp_all
        have upto4: "kept w w4" using 1 2 3(1) 4(1) by auto
        show ?thesis
        proof (cases c)
          case (Inl err)
          then have "w' = w4" "e = Some err"
            using assms(2) l \<open>l = Inr obs\<close> d None g gone c by (auto simp: finalizeEnabled_def Let_def)
          then show ?thesis using early upto4 by auto
        next
          case tc: (Inr tc)
          then obtain cfg where cfg: "enNewClient en cfg = Inr tc" using 4(2) by blast
          let ?gone = "map (\<lambda>ob. ''deleted tunnel Deployment '' @ koName ob) obs"
          obtain x y w5 where t: "deleteTunnelAndDNS en gw tc ?gone w4 = ((x, y), w5)"
            by (metis prod.exhaust)
          have "Inv w4" using 4 by simp
          note 5 = deleteTunnelAndDNS_clears [OF this cfg t]
          have deps5: "deps w5 = {}" using 5 4(1) empty by auto
          have "cleared w w5" using 5 upto4 by simp
          show ?thesis
          proof (cases y)
            case (Some err)
            then have "w' = w5" "e = Some err"
              using assms(2) l \<open>l = Inr obs\<close> d None g gone c tc t by (auto simp: finalizeEnabled_def Let_def)
            then show ?thesis using 5 upto4 deps5 by auto
          next
            case removed: None
            obtain r w6 where r: "releaseCGS en gw w5 = (r, w6)" by (rule prod.exhaust)
            have 6: "kept w5 w6" using keptD [OF quiet_releaseCGS r] 5 by simp
            have "w' = w6" using assms(2) l \<open>l = Inr obs\<close> d None g gone c tc t removed r
              by (auto simp: finalizeEnabled_def Let_def)
            then show ?thesis using 5 6 upto4 deps5 removed by auto
          qed
        qed
      qed
    qed
  qed
qed

text \<open>Removing the Gateway's finalizer is the only step that releases it.\<close>

lemma finalizeRest_kept:
  assumes "Inv w" "finalizeRest en gw changes w = (r, w')"
  shows "Inv w' \<and> recs w' = recs w \<and> tuns w' = tuns w \<and> deps w' \<subseteq> deps w"
proof -
  have err: "kept v v'" if "Inv v" "finalizeError tt (enCluster en) g changes x v = (r, v')" for v v' g x tt
    using keptD [OF quiet_finalizeError that(2,1)] .
  obtain s w1 where s: "removeRouteStatuses (enKube en) (enRouteRetry en) (clListHTTPRoutes (enCluster en))
      (clListGRPCRoutes (enCluster en)) gw w = (s, w1)" by (rule prod.exhaust)
  note 1 = keptD [OF quiet_removeRouteStatuses s assms(1)]
  show ?thesis
  proof (cases s)
    case (Some x)
    then show ?thesis using assms(2) s 1 by (auto simp: finalizeRest_def Let_def dest!: err [rotated])
  next
    case None
    obtain c w2 where c: "removeGatewayClassFinalizer (enCluster en) (enClassRetry en) gw [] w1 = (c, w2)"
      by (rule prod.exhaust)
    have 2: "kept w1 w2" using keptD [OF quiet_removeGatewayClassFinalizer c] 1 by simp
    show ?thesis
    proof (cases c)
      case (Some x)
      then show ?thesis
        using assms(2) s c None 1 2 by (auto simp: finalizeRest_def Let_def dest!: err [rotated])
    next
      case cleared: None
      obtain ke where run: "finalizeRest en gw changes w =
          (let w3 = clEvent (enCluster en) ke w2
           in if Finalizer \<in> set (gwFinalizers gw)
              then (let gw' = gw\<lparr>gwFinalizers := removeFinalizer Finalizer (gwFinalizers gw)\<rparr>
                    in case clPatchGateway (enCluster en) gw gw' w3 of
                         (eo, w4) \<Rightarrow>
                           (case ignoreNotFound eo of
                              Some err \<Rightarrow> finalizeError (enTerminalText en) (enCluster en) gw' changes
                                  (ErrWrap ''removing finalizer: '' err) w4
                            | None \<Rightarrow> ((0, None), w4)))
              else ((0, None), w3))"
        using s c None cleared by (simp add: finalizeRest_def Let_def)
      obtain p w4 where p: "clPatchGateway (enCluster en) gw
          (gw\<lparr>gwFinalizers := removeFinalizer Finalizer (gwFinalizers gw)\<rparr>) (clEvent (enCluster en) ke w2)
          = (p, w4)" by (rule prod.exhaust)
      have 3: "kept w2 (clEvent (enCluster en) ke w2)" using event_kept [of w2 ke] 2 by auto
      then have "Inv (clEvent (enCluster en) ke w2)" by simp
      note 4 = gateway_patch [OF this p]
      have upto3: "deps (clEvent (enCluster en) ke w2) \<subseteq> deps w" using 1 2 3 by blast
      then have upto4: "deps w4 \<subseteq> deps w" using 4 by blast
      show ?thesis
        using assms(2) upto3 upto4 1 2 3 4 p unfolding run
        by (auto simp: Let_def split: if_splits option.splits dest!: err [rotated])
    qed
  qed
qed

lemma finalize_clears:
  assumes "Inv w" "finalize en gw gc w = Some (r, w')"
  defines "disabled \<equiv> mapGet (gwAnnotations gw) AnnotationReconcile = AnnotationReconcileDisabled"
  shows "cleared w w'
    \<and> (recs w' \<noteq> recs w \<or> tuns w' \<noteq> tuns w \<longrightarrow> \<not> disabled \<and> deps w' = {})
    \<and> (\<not> disabled \<and> (snd r = None \<or> released w' \<and> \<not> released w) \<longrightarrow> deps w' = {} \<and> tuns w' name = None)"
proof (cases disabled)
  case True
  obtain d w1 where d: "finalizeDisabled en gw w = (d, w1)" by (rule prod.exhaust)
  note 1 = keptD [OF quiet_finalizeDisabled d assms(1)]
  have "recs w' = recs w \<and> tuns w' = tuns w"
  proof (cases d)
    case None
    then have "finalizeRest en gw [] w1 = (r, w')" using assms(2) True d by (simp add: finalize_def disabled_def)
    from finalizeRest_kept [OF _ this] 1 show ?thesis by simp
  next
    case (Some err)
    then have "finalizeError (enTerminalText en) (enCluster en) gw [] err w1 = (r, w')"
      using assms(2) True d by (simp add: finalize_def disabled_def)
    from keptD [OF quiet_finalizeError this] 1 show ?thesis by simp
  qed
  then show ?thesis using True by (simp add: accountCleared_def)
next
  case False
  obtain ch e w1 where f: "finalizeEnabled en gw gc w = Some ((ch, e), w1)"
    using assms(2) False by (auto simp: finalize_def disabled_def split: option.splits)
  note 1 = finalizeEnabled_clears [OF assms(1) f]
  show ?thesis
  proof (cases e)
    case None
    then have "finalizeRest en gw ch w1 = (r, w')" using assms(2) False f by (simp add: finalize_def disabled_def)
    from finalizeRest_kept [OF _ this] 1 None False show ?thesis by auto
  next
    case (Some err)
    then have x: "finalizeError (enTerminalText en) (enCluster en) gw ch err w1 = (r, w')"
      using assms(2) False f by (simp add: finalize_def disabled_def)
    have "snd r \<noteq> None" using x by (auto simp: finalizeError_def Let_def split: prod.splits)
    then show ?thesis using keptD [OF quiet_finalizeError x] 1 False by auto
  qed
qed

end

end
