(* ===== verification/FinalizationProps.thy ===== *)
theory FinalizationProps
  imports Finalization
begin

text \<open>
  A cluster with a Cloudflare account on which finalization computes, as an instance of the
  contract \<open>finalization\<close>, and the property of finalization.
\<close>

section \<open>A cluster with an account\<close>

text \<open>
  The account is the DNS account of DnsContract beside the tunnel account of TunnelContract,
  each with its scheduled faults; a deleted Deployment vanishes after a second.
\<close>

record fin_world =
  fwAcc :: account
  fwTun :: tun_account
  fwDeps :: "namespaced_name list"
  fwDying :: "namespaced_name list"
  fwReleased :: bool

definition onAcc :: "(account \<Rightarrow> 'a \<times> account) \<Rightarrow> fin_world \<Rightarrow> 'a \<times> fin_world" where
  "onAcc f w = (case f (fwAcc w) of (r, a) \<Rightarrow> (r, w\<lparr>fwAcc := a\<rparr>))"

definition onTun :: "(tun_account \<Rightarrow> 'a \<times> tun_account) \<Rightarrow> fin_world \<Rightarrow> 'a \<times> fin_world" where
  "onTun f w = (case f (fwTun w) of (r, a) \<Rightarrow> (r, w\<lparr>fwTun := a\<rparr>))"

lemma onAcc_D: "onAcc f w = (r, w') \<Longrightarrow> \<exists>a. f (fwAcc w) = (r, a) \<and> w' = w\<lparr>fwAcc := a\<rparr>"
  by (auto simp: onAcc_def split: prod.splits)

lemma onTun_D: "onTun f w = (r, w') \<Longrightarrow> \<exists>a. f (fwTun w) = (r, a) \<and> w' = w\<lparr>fwTun := a\<rparr>"
  by (auto simp: onTun_def split: prod.splits)

definition finSDK :: "fin_world sdk" where
  "finSDK =
     \<lparr>sdkTunnelNew = \<lambda>a n c. onTun (sdkTunnelNew tunSDK a n c),
      sdkTunnelList = \<lambda>a n d. onTun (sdkTunnelList tunSDK a n d),
      sdkConnectionsDelete = \<lambda>t a. onTun (sdkConnectionsDelete tunSDK t a),
      sdkTunnelDelete = \<lambda>t a. onTun (sdkTunnelDelete tunSDK t a),
      sdkTokenGet = \<lambda>t a. onTun (sdkTokenGet tunSDK t a),
      sdkTunnelEdit = \<lambda>t a s. onTun (sdkTunnelEdit tunSDK t a s),
      sdkZoneList = \<lambda>n. onAcc (sdkZoneList simSDK n),
      sdkRecordList = \<lambda>z n c. onAcc (sdkRecordList simSDK z n c),
      sdkRecordUpdate = \<lambda>z i b. onAcc (sdkRecordUpdate simSDK z i b),
      sdkRecordNew = \<lambda>z b. onAcc (sdkRecordNew simSDK z b),
      sdkRecordDelete = \<lambda>z i. onAcc (sdkRecordDelete simSDK z i)\<rparr>"

lemma finSDK_zones:
  assumes "\<And>w a. P (w\<lparr>fwAcc := a\<rparr>) = P w"
  shows "sdk_zones (\<lambda>w. accIn zs (fwAcc w) \<and> P w) (\<lambda>w. accRecords (fwAcc w)) finSDK zs"
proof (unfold_locales, goal_cases)
  case (1 w z)
  then show ?case using simz.cname_unique by blast
next
  case (2 w z)
  then show ?case using simz.id_unique by blast
next
  case (3 w z n c rs e w')
  then show ?case using simz.list_reads by (fastforce simp: finSDK_def assms dest!: onAcc_D)
next
  case (4 w z n c rs w' r)
  then show ?case using simz.list_complete by (auto simp: finSDK_def dest!: onAcc_D)
next
  case (5 w z i b e w' r)
  then obtain a where "sdkRecordUpdate simSDK z i b (fwAcc w) = (e, a)" "w' = w\<lparr>fwAcc := a\<rparr>"
    by (auto simp: finSDK_def dest!: onAcc_D)
  then show ?case using simz.update_law [of zs "fwAcc w" z i b e a r] 5 by (simp add: assms)
next
  case (6 w z b e w')
  then obtain a where "sdkRecordNew simSDK z b (fwAcc w) = (e, a)" "w' = w\<lparr>fwAcc := a\<rparr>"
    by (auto simp: finSDK_def dest!: onAcc_D)
  then show ?case using simz.new_law [of zs "fwAcc w" z b e a] 6 by (simp add: assms)
next
  case (7 w z i e w')
  then obtain a where "sdkRecordDelete simSDK z i (fwAcc w) = (e, a)" "w' = w\<lparr>fwAcc := a\<rparr>"
    by (auto simp: finSDK_def dest!: onAcc_D)
  then show ?case using simz.remove_law [of zs "fwAcc w" z i e a] 7 by (simp add: assms)
next
  case (8 w)
  then show ?case using simz.zone_unique by blast
next
  case (9 w n l e w')
  then show ?case using simz.zone_reads by (fastforce simp: finSDK_def assms dest!: onAcc_D)
next
  case (10 w n l w' z)
  then show ?case using simz.zone_complete by (auto simp: finSDK_def dest!: onAcc_D)
qed

lemma finSDK_tunnels:
  assumes "\<And>w a. P (w\<lparr>fwTun := a\<rparr>) = P w"
  shows "sdk_tunnels (\<lambda>w. taOk (fwTun w) \<and> P w) (\<lambda>w. taTunnels (fwTun w)) finSDK acct"
proof (unfold_locales, goal_cases)
  case (1 w)
  then show ?case using tsim.name_unique by blast
next
  case (2 w t)
  then show ?case using tsim.id_given by blast
next
  case (3 w q ts e w')
  then show ?case using tsim.tlist_reads by (fastforce simp: finSDK_def assms dest!: onTun_D)
next
  case (4 w q ts w' t)
  then show ?case using tsim.tlist_complete by (auto simp: finSDK_def dest!: onTun_D)
next
  case (5 w n c r w')
  then obtain a where "sdkTunnelNew tunSDK acct n c (fwTun w) = (r, a)" "w' = w\<lparr>fwTun := a\<rparr>"
    by (auto simp: finSDK_def dest!: onTun_D)
  then show ?case using tsim.tnew_law [of "fwTun w" acct n c r a] 5 by (simp add: assms)
next
  case (6 w i d w')
  then obtain a where "sdkTunnelDelete tunSDK i acct (fwTun w) = (d, a)" "w' = w\<lparr>fwTun := a\<rparr>"
    by (auto simp: finSDK_def dest!: onTun_D)
  then show ?case using tsim.tdelete_law [of "fwTun w" i acct d a] 6 by (simp add: assms)
next
  case (7 w i d w')
  then obtain a where "sdkConnectionsDelete tunSDK i acct (fwTun w) = (d, a)" "w' = w\<lparr>fwTun := a\<rparr>"
    by (auto simp: finSDK_def dest!: onTun_D)
  then show ?case using tsim.tconnections_law [of "fwTun w" i acct d a] 7 by (simp add: assms)
qed

text \<open>The cluster: reads answer, writes that matter here are those of Deployments and the Gateway.\<close>

definition finNotFound :: go_error where
  "finNotFound = ErrKube KNotFound ''not found''"

definition finGetDeployment ::
  "namespaced_name \<Rightarrow> fin_world \<Rightarrow> (go_error + deployment) \<times> fin_world" where
  "finGetDeployment key w =
     (if key \<in> set (fwDeps w)
      then (Inr \<lparr>dpName = snd key, dpGeneration = 1, dpObservedGeneration = 1, dpReplicas = None,
              dpStatusReplicas = 1, dpUpdatedReplicas = 1, dpReadyReplicas = 1,
              dpTemplateAnnotations = Map.empty, dpConditions = []\<rparr>, w)
      else (Inl finNotFound, w))"

definition finList ::
  "string \<Rightarrow> string \<Rightarrow> (string \<Rightarrow> string option) \<Rightarrow> fin_world \<Rightarrow> (go_error + kobj list) \<times> fin_world" where
  "finList k ns lbls w =
     (Inr (if k = KindDeployment
           then map (\<lambda>(n, m). \<lparr>koKind = k, koNamespace = n, koName = m, koOwnerUIDs = []\<rparr>) (fwDeps w)
           else []), w)"

definition finCluster :: "fin_world cluster" where
  "finCluster =
     \<lparr>clNow = \<lambda>w. (0, w), clRand32 = \<lambda>w. (Inr [], w),
      clWaitSecond = \<lambda>w. (None, w\<lparr>fwDeps := filter (\<lambda>d. d \<notin> set (fwDying w)) (fwDeps w)\<rparr>),
      clEvent = \<lambda>e w. w, clList = finList,
      clGet = \<lambda>k n w. (Inl finNotFound, w), clPatch = \<lambda>a b w. (None, w),
      clDelete = \<lambda>ob w. (None, w\<lparr>fwDying := objectKey ob # fwDying w\<rparr>),
      clGetDeployment = finGetDeployment, clApply = \<lambda>j w. (Inr UnchangedAction, w),
      clCreateOrUpdateSecret = \<lambda>s f w. (Inr OperationResultNone, w),
      clCreateOrUpdateConfigMap = \<lambda>s f w. (Inr OperationResultNone, w),
      clGetSecret = \<lambda>n w. (Inr [''CLOUDFLARE_API_TOKEN'' \<mapsto> ''t'', ''CLOUDFLARE_ACCOUNT_ID'' \<mapsto> ''acct''], w),
      clGetParams = \<lambda>n w. (Inl finNotFound, w), clGetGateway = \<lambda>n w. (Inl finNotFound, w),
      clPatchGateway = \<lambda>a b w. (None, w\<lparr>fwReleased := Finalizer \<notin> set (gwFinalizers b)\<rparr>),
      clPatchGatewayStatus = \<lambda>a b w. (None, w), clGetClass = \<lambda>n w. (Inl finNotFound, w),
      clListClasses = \<lambda>f w. (Inr [], w), clPatchClass = \<lambda>a b w. (None, w),
      clPatchClassStatus = \<lambda>a b w. (None, w), clListHTTPRoutes = \<lambda>k w. (Inr [], w),
      clListGRPCRoutes = \<lambda>k w. (Inr [], w), clGetCGS = \<lambda>n w. (Inl finNotFound, w),
      clCreateCGS = \<lambda>c w. (None, w), clPatchCGS = \<lambda>a b w. (None, w),
      clPatchCGSStatus = \<lambda>a b w. (None, w)\<rparr>"

definition finWait :: "int \<Rightarrow> fin_world \<Rightarrow> go_error option \<times> fin_world" where
  "finWait d w = (None, w)"

definition finKube :: "fin_world kube" where
  "finKube =
     \<lparr>kGetRoute = \<lambda>k n w. (Inl finNotFound, w), kPatchRouteStatus = \<lambda>a b w. (None, w),
      kEvent = \<lambda>e w. w\<rparr>"

definition finJson :: json_lib where
  "finJson =
     \<lparr>jlMarshalDeployment = \<lambda>d. Inl finNotFound, jlMarshalPatches = \<lambda>p. Inl finNotFound,
      jlDecodePatch = \<lambda>s. Inl finNotFound, jlMarshalAffinity = \<lambda>a. Inl finNotFound,
      jlUnmarshalMap = \<lambda>s. Inl finNotFound, jlMarshalMap = \<lambda>m. Inl finNotFound,
      jlUnmarshalUnstructured = \<lambda>s. Inl finNotFound, jlRoundTripResources = \<lambda>s. Inl finNotFound\<rparr>"

definition finEnv :: "fin_world env" where
  "finEnv =
     \<lparr>enCluster = finCluster, enKube = finKube, enRouteRetry = \<lambda>f. f, enClassRetry = \<lambda>f. f,
      enReleaseRetry = \<lambda>f. f, enTerminalText = \<lambda>s. s, enMapOrder = \<lambda>d. d,
      enGatewaysByHost = \<lambda>h w. (Inr [], w), enGetConfigMap = \<lambda>n w. (Inl finNotFound, w),
      enUnmarshalYAML = \<lambda>s. Inl finNotFound, enMarshalYAML = \<lambda>c. Inl finNotFound,
      enGrants = \<lambda>w n. Inr [], enNamespaceLabels = \<lambda>w n. Inl finNotFound,
      enParseSelector = \<lambda>s. Inl finNotFound, enSort = \<lambda>k rs. rs, enParseDuration = \<lambda>s. Inl finNotFound,
      enCronParse = \<lambda>s. Inl finNotFound, enParseNano = \<lambda>s. Inl finNotFound,
      enParse3339 = \<lambda>s. Inl finNotFound, enFormat3339 = \<lambda>n. [], enSha256 = \<lambda>s. s,
      enSetOwner = \<lambda>g s. Inr s, enToUnstructured = \<lambda>t. Inl finNotFound, enJson = finJson,
      enTunnelImage = ''tunnel'', enTimeEq = (=), enClusterName = ''k'',
      enNewClient = \<lambda>cfg. Inr (WithRetry id finWait (clientOf finSDK (ccAccountID cfg)))\<rparr>"

definition finInv :: "zone list \<Rightarrow> fin_world \<Rightarrow> bool" where
  "finInv zs w \<longleftrightarrow> accIn zs (fwAcc w) \<and> taOk (fwTun w)"

abbreviation finRecs :: "fin_world \<Rightarrow> cname_table" where
  "finRecs \<equiv> cnameTable (\<lambda>w. accRecords (fwAcc w))"

abbreviation finTuns :: "fin_world \<Rightarrow> tunnel_table" where
  "finTuns \<equiv> tunTable (\<lambda>w. taTunnels (fwTun w))"

abbreviation finDeps :: "fin_world \<Rightarrow> namespaced_name set" where
  "finDeps w \<equiv> set (fwDeps w)"

lemma finEnv_simps:
  "enCluster finEnv = finCluster" "enKube finEnv = finKube" "enRouteRetry finEnv = (\<lambda>f. f)"
  "enClassRetry finEnv = (\<lambda>f. f)" "enReleaseRetry finEnv = (\<lambda>f. f)" "enMapOrder finEnv = (\<lambda>d. d)"
  "enNewClient finEnv = (\<lambda>cfg. Inr (WithRetry id finWait (clientOf finSDK (ccAccountID cfg))))"
  by (simp_all add: finEnv_def)

lemma finQuiet:
  assumes "\<And>w r w'. f w = (r, w') \<Longrightarrow> fwAcc w' = fwAcc w \<and> fwTun w' = fwTun w \<and>
      fwReleased w' = fwReleased w \<and> finDeps w' \<subseteq> finDeps w"
  shows "quietly (finInv zs) (\<lambda>w. (finRecs w, finTuns w, fwReleased w)) finDeps f"
proof (rule quietlyI)
  fix w r w' assume "finInv zs w" "f w = (r, w')"
  then show "finInv zs w' \<and> (finRecs w', finTuns w', fwReleased w') = (finRecs w, finTuns w, fwReleased w) \<and>
      finDeps w' \<subseteq> finDeps w"
    using assms [of w r w'] by (simp add: finInv_def cnameTable_def tunTable_def fun_eq_iff)
qed

lemma finEnv_quiet: "quiet_env (finInv zs) (\<lambda>w. (finRecs w, finTuns w, fwReleased w)) finDeps finEnv"
  by unfold_locales
    (simp add: finEnv_simps |
     rule finQuiet, force simp: finEnv_simps finCluster_def finKube_def finList_def finGetDeployment_def
       split: if_splits)+

interpretation fsim: finalization "finInv zs" finRecs finTuns fwReleased finDeps finEnv gw zs
  for gw zs
proof (rule finalization.intro [OF finEnv_quiet], rule finalization_axioms.intro, goal_cases)
  case (1 w obs w')
  have "objectKey ` set obs = finDeps w'"
    using 1 by (force simp: finEnv_simps finCluster_def finList_def objectKey_def image_iff)
  then show ?case by simp
next
  case (2 w key e w')
  then show ?case by (auto simp: finEnv_simps finCluster_def finGetDeployment_def split: if_splits)
next
  case (3 w g g' d w')
  then show ?case
    by (auto simp: finEnv_simps finCluster_def finInv_def cnameTable_def tunTable_def fun_eq_iff)
next
  case (4 m)
  then show ?case by (simp add: finEnv_simps)
next
  case (5 cfg tc T b D)
  then have tc: "tc = WithRetry id finWait (clientOf finSDK (ccAccountID cfg))" by (simp add: finEnv_simps)
  have "dns_zones (\<lambda>w. accIn zs (fwAcc w) \<and> (taOk (fwTun w) \<and> finTuns w = T \<and> fwReleased w = b \<and>
      finDeps w \<subseteq> D)) finRecs tc zs"
    unfolding tc by (rule WithRetry_zones [OF finSDK_zones]) (auto simp: finWait_def tunTable_def fun_eq_iff)
  then show ?case by (simp add: finInv_def conj_assoc)
next
  case (6 cfg tc R b D)
  then have tc: "tc = WithRetry id finWait (clientOf finSDK (ccAccountID cfg))" by (simp add: finEnv_simps)
  have "tunnel_client (\<lambda>w. taOk (fwTun w) \<and> (accIn zs (fwAcc w) \<and> finRecs w = R \<and> fwReleased w = b \<and>
      finDeps w \<subseteq> D)) finTuns tc"
    unfolding tc by (rule WithRetry_tunnels [OF finSDK_tunnels]) (auto simp: finWait_def cnameTable_def fun_eq_iff)
  moreover have "(\<lambda>w. taOk (fwTun w) \<and> (accIn zs (fwAcc w) \<and> finRecs w = R \<and> fwReleased w = b \<and>
      finDeps w \<subseteq> D)) = (\<lambda>w. finInv zs w \<and> finRecs w = R \<and> fwReleased w = b \<and> finDeps w \<subseteq> D)"
    by (auto simp: finInv_def fun_eq_iff)
  ultimately show ?case by simp
qed

section \<open>The property\<close>


text \<open>
  Two Deployments, the tunnel with a record in each zone, a record of another tunnel; a lookup
  and the deletion of a record fail once and are retried.
\<close>

definition finGateway :: gateway where
  "finGateway = (namedGateway ''ns'' ''gw'')\<lparr>gwDeleted := True, gwFinalizers := [Finalizer]\<rparr>"

definition finClass :: gateway_class where
  "finClass =
     \<lparr>gcName = ''cloudflare'', gcControllerName = ControllerName, gcGeneration = 1, gcDeleted = False,
      gcFinalizers = [], gcParametersRef = Some \<lparr>cprGroup = [], cprKind = KindSecret,
        cprNamespace = Some ''ns'', cprName = ''creds''\<rparr>, gcConditions = [], gcSupportedFeatures = []\<rparr>"

definition finStart :: fin_world where
  "finStart =
     \<lparr>fwAcc = \<lparr>accZones = [\<lparr>zoneID = ''z1'', zoneName = ''b.c''\<rparr>, \<lparr>zoneID = ''z2'', zoneName = ''d.e''\<rparr>],
        accRecords = (\<lambda>z.
          if z = ''z1'' then
            [\<lparr>recID = ''id-x.b.c'', recName = ''x.b.c'',
              recContent = TunnelTarget (''id-'' @ TunnelName ''k'' finGateway)\<rparr>,
             \<lparr>recID = ''id-y.b.c'', recName = ''y.b.c'', recContent = ''u.cfargotunnel.com''\<rparr>]
          else if z = ''z2'' then
            [\<lparr>recID = ''id-x.d.e'', recName = ''x.d.e'',
              recContent = TunnelTarget (''id-'' @ TunnelName ''k'' finGateway)\<rparr>]
          else []),
        accFaults = [None, None, None, Some ErrUnexpectedEOF]\<rparr>,
      fwTun = \<lparr>taTunnels = [\<lparr>tunnelID = ''id-other'', tunnelName = ''other''\<rparr>,
          \<lparr>tunnelID = ''id-'' @ TunnelName ''k'' finGateway, tunnelName = TunnelName ''k'' finGateway\<rparr>],
        taFaults = [Some (False, ErrUnexpectedEOF)]\<rparr>,
      fwDeps = [(''ns'', ''gw-a''), (''ns'', ''gw-b'')], fwDying = [], fwReleased = False\<rparr>"

definition finEnd :: "(result \<times> fin_world) option" where
  "finEnd = finalize finEnv finGateway finClass finStart"

lemma finEnd_ok: "map_option fst finEnd = Some (0, None)"
  by code_simp


end
