(* ===== verification/Rotation.thy ===== *)
theory Rotation
  imports GatewayHelpers Rollout
begin

text \<open>
  When the tunnel token is rotated, and how a rotation is recorded: \<^verbatim>\<open>maybeRotateToken\<close> of
  gateway_tunnel.go against the triggers of the schedule, and its interplay with
  \<^verbatim>\<open>patchCGSTokenHash\<close> and \<^verbatim>\<open>reconcileCGS\<close> of gateway_helpers.go, which write what the next
  decision reads.
\<close>

section \<open>The two reasons to rotate\<close>

definition requestedRotation ::
  "(string \<Rightarrow> go_error + int) \<Rightarrow> (string \<Rightarrow> go_error + int) \<Rightarrow> gateway \<Rightarrow> cgs_object option \<Rightarrow> bool" where
  "requestedRotation parseNano parseRFC gw cgs =
     onDemandRotation parseNano parseRFC (mapGet (gwAnnotations gw) AnnotationRotateTokenRequestedAt)
       (case rotationStatus cgs of None \<Rightarrow> [] | Some s \<Rightarrow> trsLastHandledRotateAt s)
       (case rotationStatus cgs of None \<Rightarrow> [] | Some s \<Rightarrow> trsLastRotatedAt s)"

definition lastRotated :: "cgs_object option \<Rightarrow> string" where
  "lastRotated cgs = (case rotationStatus cgs of None \<Rightarrow> [] | Some s \<Rightarrow> trsLastRotatedAt s)"

text \<open>A trigger in \<open>T\<close> has passed since the last recorded rotation.\<close>

definition scheduledRotation ::
  "int set \<Rightarrow> (string \<Rightarrow> go_error + int) \<Rightarrow> cgs_object option \<Rightarrow> int \<Rightarrow> bool" where
  "scheduledRotation T parseRFC cgs now \<longleftrightarrow>
     lastRotated cgs \<noteq> [] \<and>
     (\<exists>lastT. parseRFC (lastRotated cgs) = Inr lastT \<and>
        (\<exists>u\<in>T. lastT < u \<and> now - cronLookBack < u \<and> u \<le> now))"

text \<open>The schedule \<open>nxt\<close> has the triggers \<open>T\<close> around \<open>now\<close>.\<close>

definition scheduleAround :: "int set \<Rightarrow> (int \<Rightarrow> int) \<Rightarrow> int \<Rightarrow> bool" where
  "scheduleAround T nxt now \<longleftrightarrow>
     nextOn T nxt (now - cronLookBack) (nxt now) \<and> zeroTime \<le> now - cronLookBack \<and>
     now < nxt now \<and> nxt now - now < cronLookBack \<and> (\<forall>u\<in>T. zeroTime < u)"

text \<open>The rotation itself, once it is due.\<close>

definition rotateStep ::
  "'w cluster \<Rightarrow> (int \<Rightarrow> string) \<Rightarrow> 'w client \<Rightarrow> tunnelState \<Rightarrow> bool \<Rightarrow> tokenRotationResult \<Rightarrow> 'w
     \<Rightarrow> (go_error + bool \<times> tokenRotationResult) \<times> 'w" where
  "rotateStep cl formatRFC tc t due result w =
     (if \<not> due then (Inr (False, result), w)
      else
        (case clRand32 cl w of
           (Inl err, w1) \<Rightarrow> (Inl (ErrWrap ''generating random secret: '' err), w1)
         | (Inr newSecret, w1) \<Rightarrow>
             (case RotateTunnelSecret tc (tunID t) newSecret w1 of
                (Some err, w2) \<Rightarrow>
                  (Inl (ErrWrap (''rotating tunnel secret for '' @ goQuote (tunName t) @ '': '') err), w2)
              | (None, w2) \<Rightarrow>
                  (case clNow cl w2 of
                     (now, w3) \<Rightarrow>
                       (Inr (True, result\<lparr>trrLastRotatedAt := formatRFC now,
                           trrChanges := trrChanges result @ [''rotated tunnel token'']\<rparr>), w3)))))"

text \<open>What the decision leaves in the result when it does not rotate.\<close>

definition seeded ::
  "(int \<Rightarrow> string) \<Rightarrow> bool \<Rightarrow> (int \<Rightarrow> int) \<Rightarrow> cgs_object option \<Rightarrow> int \<Rightarrow> tokenRotationResult
     \<Rightarrow> tokenRotationResult" where
  "seeded formatRFC enabled nxt cgs now result =
     (if \<not> enabled then result
      else if lastRotated cgs = []
      then result\<lparr>trrNextTrigger := nxt now, trrLastRotatedAt := formatRFC now\<rparr>
      else result\<lparr>trrNextTrigger := nxt now\<rparr>)"

text \<open>\<^verbatim>\<open>maybeRotateToken\<close> under a clock whose reading changes nothing.\<close>

lemma maybeRotateToken_step:
  assumes clock: "\<forall>v. clNow cl v = (clk v, v)"
    and cfg: "rotationConfig params = (enabled, spec, zone)"
    and sched: "enabled \<longrightarrow> scheduleParse cronParse spec zone = Inr nxt \<and> scheduleAround T nxt (clk w)"
    and past: "\<forall>lastT. parseRFC (lastRotated cgs) = Inr lastT \<longrightarrow> zeroTime \<le> lastT"
  shows "maybeRotateToken cl parseNano parseRFC formatRFC cronParse gw tc t cgs params result w =
    Some (rotateStep cl formatRFC tc t
      (requestedRotation parseNano parseRFC gw cgs \<or>
         enabled \<and> scheduledRotation T parseRFC cgs (clk w))
      (seeded formatRFC enabled nxt cgs (clk w) result) w)"
proof (cases enabled)
  case False
  then show ?thesis
    using cfg clock
    by (simp add: maybeRotateToken_def rotateStep_def seeded_def requestedRotation_def Let_def)
next
  case True
  then have s: "scheduleParse cronParse spec zone = Inr nxt" and a: "scheduleAround T nxt (clk w)"
    using sched by simp_all
  obtain r where r: "GetPrevAndNextTriggers nxt (clk w) = Some (r, nxt (clk w))"
      "latestIn T (clk w - cronLookBack) (nxt (clk w)) r"
    and le: "\<forall>u\<in>T. u < nxt (clk w) \<longleftrightarrow> u \<le> clk w"
    using GetPrev_latest [of T nxt "clk w"] a unfolding scheduleAround_def by blast
  have due: "lastT < r \<longleftrightarrow> (\<exists>u\<in>T. lastT < u \<and> clk w - cronLookBack < u \<and> u \<le> clk w)"
    if "zeroTime \<le> lastT" for lastT
    using r(2) unfolding latestIn_def
  proof (elim disjE conjE)
    assume r: "r \<in> T" "clk w - cronLookBack < r" "r < nxt (clk w)" "\<forall>u\<in>T. u < nxt (clk w) \<longrightarrow> u \<le> r"
    then have "u \<le> r" if "u \<in> T" "u \<le> clk w" for u using le that by blast
    moreover have "r \<le> clk w" using r(1,3) le by blast
    ultimately show ?thesis using r(1,2) by force
  next
    assume r: "r = zeroTime" "\<forall>u\<in>T. clk w - cronLookBack < u \<longrightarrow> nxt (clk w) \<le> u"
    then have "\<not> (\<exists>u\<in>T. lastT < u \<and> clk w - cronLookBack < u \<and> u \<le> clk w)" using le by force
    then show ?thesis using r(1) that by simp
  qed
  show ?thesis
    using True cfg clock s r(1) due past
    by (auto simp: maybeRotateToken_def rotateStep_def seeded_def requestedRotation_def Let_def
        scheduledRotation_def lastRotated_def split: sum.splits)
qed

lemma rotateStep_Inr:
  assumes "rotateStep cl formatRFC tc t due result w = (Inr (rot, res), w')"
    and "\<forall>v. clNow cl v = (clk v, v)"
  shows "(rot \<longleftrightarrow> due) \<and> (\<not> rot \<longrightarrow> w' = w \<and> res = result) \<and>
    (rot \<longrightarrow> (\<exists>secret v. RotateTunnelSecret tc (tunID t) secret v = (None, w')) \<and>
       res = result\<lparr>trrLastRotatedAt := formatRFC (clk w'),
               trrChanges := trrChanges result @ [''rotated tunnel token'']\<rparr>)"
  using assms by (auto simp: rotateStep_def split: if_splits prod.splits sum.splits option.splits)

lemma rotateStep_due:
  "rotateStep cl formatRFC tc t True result w = (r, w') \<Longrightarrow> r \<noteq> Inr (False, res)"
  by (auto simp: rotateStep_def split: prod.splits sum.splits option.splits)

section \<open>What is recorded\<close>

lemma rotationStatus_tokenHash [simp]:
  "rotationStatus (Some (setTokenHash h c)) = rotationStatus (Some c)"
  by (auto simp: rotationStatus_def setTokenHash_def Let_def emptyTunnelStatus_def emptyTokenStatus_def
      split: option.splits)

lemma patchCGSTokenHash_rotation:
  "patchCGSTokenHash cl cgs res w = ((cgs', e), w') \<Longrightarrow> rotationStatus cgs' = rotationStatus cgs"
  by (auto simp: patchCGSTokenHash_def Let_def split: option.splits if_splits prod.splits)

lemma requestedRotation_cong:
  "rotationStatus cgs' = rotationStatus cgs \<Longrightarrow>
   requestedRotation pn p gw cgs' = requestedRotation pn p gw cgs \<and> lastRotated cgs' = lastRotated cgs \<and>
   scheduledRotation T p cgs' now = scheduledRotation T p cgs now"
  by (simp add: requestedRotation_def lastRotated_def scheduledRotation_def)

lemma rotationStatus_written:
  "rotationStatus (Some (c\<lparr>cgsStatus := desiredCGSStatus gw cgs params t reps res readiness\<rparr>)) =
   Some (desiredRotation gw (rotationStatus cgs) res readiness)"
proof -
  have "Option.bind (Option.bind cgs (\<lambda>c. Option.bind (cgsTunnel (cgsStatus c)) tusToken)) tsRotation
      = rotationStatus cgs"
    by (cases cgs) (auto simp: rotationStatus_def split: option.splits bind_splits)
  then show ?thesis by (simp add: rotationStatus_def desiredCGSStatus_def Let_def)
qed

section \<open>Properties\<close>

text \<open>
  C26. Rotation is exact.  The decision always returns; the token is rotated exactly when an
  unserved request asks for it or, with the schedule enabled, when a trigger has passed since
  the last recorded rotation; otherwise nothing is called.  The result has the coming trigger,
  and as the time of the rotation the time after the new secret was accepted; without any
  recorded rotation it has the present as the baseline.  An error means that a rotation was due.
\<close>

theorem maybeRotateToken_exact:
  assumes "\<forall>v. clNow cl v = (clk v, v)" and "rotationConfig params = (enabled, spec, zone)"
    and "enabled \<longrightarrow> scheduleParse cronParse spec zone = Inr nxt \<and> scheduleAround T nxt (clk w)"
    and "\<forall>lastT. parseRFC (lastRotated cgs) = Inr lastT \<longrightarrow> zeroTime \<le> lastT"
    and "due \<longleftrightarrow> requestedRotation parseNano parseRFC gw cgs \<or>
                enabled \<and> scheduledRotation T parseRFC cgs (clk w)"
  shows "\<exists>r w'. maybeRotateToken cl parseNano parseRFC formatRFC cronParse gw tc t cgs params result w
                = Some (r, w')
    \<and> (\<forall>rot res. r = Inr (rot, res) \<longrightarrow>
         (rot \<longleftrightarrow> due)
         \<and> trrNextTrigger res = (if enabled then nxt (clk w) else trrNextTrigger result)
         \<and> (\<not> rot \<longrightarrow> w' = w \<and> trrChanges res = trrChanges result \<and>
              trrLastRotatedAt res = (if enabled \<and> lastRotated cgs = [] then formatRFC (clk w)
                                      else trrLastRotatedAt result))
         \<and> (rot \<longrightarrow> (\<exists>secret v. RotateTunnelSecret tc (tunID t) secret v = (None, w')) \<and>
              trrLastRotatedAt res = formatRFC (clk w') \<and>
              trrChanges res = trrChanges result @ [''rotated tunnel token'']))
    \<and> (\<forall>e. r = Inl e \<longrightarrow> due)"
proof -
  let ?start = "seeded formatRFC enabled nxt cgs (clk w) result"
  obtain r w' where s: "rotateStep cl formatRFC tc t due ?start w = (r, w')" by (rule prod.exhaust)
  have run: "maybeRotateToken cl parseNano parseRFC formatRFC cronParse gw tc t cgs params result w
      = Some (r, w')"
    using maybeRotateToken_step [where clk = clk and parseRFC = parseRFC and w = w and T = T,
        OF assms(1-4)] s assms(5) by simp
  have seed: "trrNextTrigger ?start = (if enabled then nxt (clk w) else trrNextTrigger result)"
    "trrChanges ?start = trrChanges result"
    "trrLastRotatedAt ?start = (if enabled \<and> lastRotated cgs = [] then formatRFC (clk w)
       else trrLastRotatedAt result)"
    by (simp_all add: seeded_def)
  show ?thesis
  proof (cases r)
    case (Inl e)
    then have due using s by (auto simp: rotateStep_def split: if_splits)
    then show ?thesis using run Inl by simp
  next
    case (Inr p)
    obtain rot res where p: "p = (rot, res)" by (cases p)
    have law: "(rot \<longleftrightarrow> due) \<and> (\<not> rot \<longrightarrow> w' = w \<and> res = ?start) \<and>
      (rot \<longrightarrow> (\<exists>secret v. RotateTunnelSecret tc (tunID t) secret v = (None, w')) \<and>
         res = ?start\<lparr>trrLastRotatedAt := formatRFC (clk w'),
                  trrChanges := trrChanges ?start @ [''rotated tunnel token'']\<rparr>)"
      using rotateStep_Inr [OF _ assms(1)] s Inr p by blast
    show ?thesis
    proof (intro exI conjI, rule run)
      show "\<forall>rot res. r = Inr (rot, res) \<longrightarrow> (rot \<longleftrightarrow> due)
         \<and> trrNextTrigger res = (if enabled then nxt (clk w) else trrNextTrigger result)
         \<and> (\<not> rot \<longrightarrow> w' = w \<and> trrChanges res = trrChanges result \<and>
              trrLastRotatedAt res = (if enabled \<and> lastRotated cgs = [] then formatRFC (clk w)
                                      else trrLastRotatedAt result))
         \<and> (rot \<longrightarrow> (\<exists>secret v. RotateTunnelSecret tc (tunID t) secret v = (None, w')) \<and>
              trrLastRotatedAt res = formatRFC (clk w') \<and>
              trrChanges res = trrChanges result @ [''rotated tunnel token''])"
        using law seed unfolding Inr p by (cases rot) (simp_all del: if_cancel)
    qed (simp add: Inr)
  qed
qed

text \<open>A trigger every hour; the last rotation was five nanoseconds before the last one.\<close>

definition idleSDK :: "'w sdk" where
  "idleSDK =
     \<lparr>sdkTunnelNew = \<lambda>a n c w. (Inl ErrCanceled, w), sdkTunnelList = \<lambda>a n d w. (([], None), w),
      sdkConnectionsDelete = \<lambda>t a w. (None, w), sdkTunnelDelete = \<lambda>t a w. (None, w),
      sdkTokenGet = \<lambda>t a w. (Inr ''token'', w), sdkTunnelEdit = \<lambda>t a s w. (None, w),
      sdkZoneList = \<lambda>n w. (([], None), w), sdkRecordList = \<lambda>z n c w. (([], None), w),
      sdkRecordUpdate = \<lambda>z i b w. (None, w), sdkRecordNew = \<lambda>z b w. (None, w),
      sdkRecordDelete = \<lambda>z i w. (None, w)\<rparr>"

definition demoCGS :: "string \<Rightarrow> string \<Rightarrow> cgs_object" where
  "demoCGS handled rotatedAt =
     \<lparr>cgsName = ''gw'', cgsNamespace = ''ns'', cgsDeleted = False, cgsFinalizers = [Finalizer],
      cgsOwnerUID = ''gw'',
      cgsStatus = \<lparr>cgsConditions = [], cgsTunnel = Some \<lparr>tusName = ''t'', tusID = ''t'',
          tusToken = Some \<lparr>tsHash = ''h'', tsRotation = Some \<lparr>trsLastHandledRotateAt = handled,
            trsLastRotatedAt = rotatedAt, trsNextRotation = None\<rparr>\<rparr>\<rparr>,
        cgsInventory = [], cgsLastHandledReconcileAt = []\<rparr>\<rparr>"

text \<open>Times are written as numbers; those that are written are cut to the second.\<close>

definition demoFormat :: "int \<Rightarrow> string" where
  "demoFormat t = showInt (t - t mod second)"

definition demoParse :: "string \<Rightarrow> go_error + int" where
  "demoParse s = (case parseInt64 s of None \<Rightarrow> Inl (ErrText ''time'') | Some n \<Rightarrow> Inr n)"

lemma demoParse_showInt: "- (2 ^ 63) \<le> i \<Longrightarrow> i < 2 ^ 63 \<Longrightarrow> demoParse (showInt i) = Inr i"
  by (simp only: demoParse_def parseInt64_showInt option.case)

lemma showInt_nonempty: "showInt i \<noteq> []"
  by (simp add: showInt_def showNat_nonempty)

definition clockCluster :: "int \<Rightarrow> sim_ns cluster" where
  "clockCluster now = simCluster\<lparr>clNow := \<lambda>w. (now, w)\<rparr>"

abbreviation fullHours :: "int set" where "fullHours \<equiv> {t. 3600000000000 dvd t \<and> 0 \<le> t}"

lemma hourly_around:
  assumes "cronLookBack \<le> t"
  shows "scheduleAround fullHours hourly t"
proof -
  let ?H = "3600000000000 :: int"
  have "t mod ?H < ?H" "0 \<le> t mod ?H" "t = t div ?H * ?H + t mod ?H" by simp_all
  then have next_t: "hourly t = t div ?H * ?H + ?H" "t < hourly t" "hourly t - t \<le> ?H"
    by (simp_all add: hourly_def algebra_simps)
  have nonneg: "0 \<le> hourly u" if "0 \<le> u" for u using that by (simp add: hourly_def)
  have on: "nextOn fullHours hourly (t - cronLookBack) b" for b
    using hourly_nextOn [of "t - cronLookBack" b] nonneg assms unfolding nextOn_def by auto
  show ?thesis
    unfolding scheduleAround_def using on next_t assms by (auto simp: cronLookBack_def zeroTime_def)
qed

theorem maybeRotateToken_exact_witness:
  "\<exists>r w'. maybeRotateToken (clockCluster (200000 * 3600 * 10 ^ 9 + 5)) demoParse demoParse demoFormat
       (\<lambda>s. Inr hourly) (namedGateway ''ns'' ''gw'') (clientOf idleSDK ''acct'')
       \<lparr>tunName = ''t'', tunID = ''t''\<rparr> (Some (demoCGS [] (showInt (200000 * 3600 * 10 ^ 9 - 5)))) None
       emptyTokenResult \<lparr>snDeps = [], snFaults = []\<rparr> = Some (r, w') \<and>
     (\<forall>res. r \<noteq> Inr (False, res)) \<and>
     (\<forall>rot res. r = Inr (rot, res) \<longrightarrow> trrNextTrigger res = 200001 * 3600 * 10 ^ 9)"
proof -
  let ?now = "200000 * 3600 * 10 ^ 9 + 5 :: int"
  let ?last = "200000 * 3600 * 10 ^ 9 - 5 :: int"
  let ?cgs = "Some (demoCGS [] (showInt ?last))"
  have clock: "\<forall>v. clNow (clockCluster ?now) v = ((\<lambda>v. ?now) v, v)" by (simp add: clockCluster_def)
  have cfg: "rotationConfig None = (True, defaultRotationCron, defaultRotationTimeZone)"
    by (simp add: rotationConfig_def)
  have around: "scheduleAround fullHours hourly ?now" by (rule hourly_around) (simp add: cronLookBack_def)
  have sched: "True \<longrightarrow> scheduleParse (\<lambda>s. Inr hourly) defaultRotationCron defaultRotationTimeZone
      = Inr hourly \<and> scheduleAround fullHours hourly ((\<lambda>v. ?now) \<lparr>snDeps = [], snFaults = []\<rparr>)"
    using around by (simp add: scheduleParse_def)
  have last: "lastRotated ?cgs = showInt ?last"
    by (simp add: lastRotated_def rotationStatus_def demoCGS_def)
  have parse: "demoParse (showInt ?last) = Inr ?last" by (rule demoParse_showInt) simp_all
  have "showInt ?last \<noteq> []" by (rule showInt_nonempty)
  then have due: "scheduledRotation fullHours demoParse ?cgs ?now"
    unfolding scheduledRotation_def last parse
    by (intro conjI exI [of _ ?last] bexI [of _ "200000 * 3600 * 10 ^ 9"]) (simp_all add: cronLookBack_def)
  have next_now: "hourly ?now = 200001 * 3600 * 10 ^ 9" by (simp add: hourly_def)
  have past: "\<forall>lastT. demoParse (lastRotated ?cgs) = Inr lastT \<longrightarrow> zeroTime \<le> lastT"
    unfolding last parse by (simp add: zeroTime_def)
  let ?due = "requestedRotation demoParse demoParse (namedGateway ''ns'' ''gw'') ?cgs \<or>
      True \<and> scheduledRotation fullHours demoParse ?cgs ?now"
  have "?due" using due by blast
  obtain r w' where r: "maybeRotateToken (clockCluster ?now) demoParse demoParse demoFormat
       (\<lambda>s. Inr hourly) (namedGateway ''ns'' ''gw'') (clientOf idleSDK ''acct'')
       \<lparr>tunName = ''t'', tunID = ''t''\<rparr> ?cgs None emptyTokenResult \<lparr>snDeps = [], snFaults = []\<rparr>
       = Some (r, w')"
    and law: "\<forall>rot res. r = Inr (rot, res) \<longrightarrow> (rot \<longleftrightarrow> ?due) \<and>
      trrNextTrigger res = (if True then hourly ?now else trrNextTrigger emptyTokenResult)"
    using maybeRotateToken_exact [where clk = "\<lambda>v. ?now" and cl = "clockCluster ?now" and params = None
      and enabled = True and spec = defaultRotationCron and zone = defaultRotationTimeZone
      and cronParse = "\<lambda>s. Inr hourly" and nxt = hourly and T = fullHours and parseRFC = demoParse
      and parseNano = demoParse and formatRFC = demoFormat and gw = "namedGateway ''ns'' ''gw''"
      and tc = "clientOf idleSDK ''acct''" and t = "\<lparr>tunName = ''t'', tunID = ''t''\<rparr>" and cgs = ?cgs
      and result = emptyTokenResult and w = "\<lparr>snDeps = [], snFaults = []\<rparr>",
      OF clock cfg sched past refl]
    by (elim exE conjE) (rule that, assumption, blast)
  have "\<forall>res. r \<noteq> Inr (False, res)" using law \<open>?due\<close> by blast
  moreover have "\<forall>rot res. r = Inr (rot, res) \<longrightarrow> trrNextTrigger res = 200001 * 3600 * 10 ^ 9"
    using law unfolding next_now if_True by blast
  ultimately show ?thesis using r by blast
qed

text \<open>
  C27. A rotation that is not recorded is repeated.  The hash of the new token is written to the
  status at once, but not that a rotation took place: that comes at the end of the
  reconciliation.  If a step in between fails, the next reconciliation, at any later time, finds
  the rotation due again and cannot go on without another one, so a lasting failure of a later
  step makes every retry rotate the token.
\<close>

theorem unrecorded_rotation_repeats:
  assumes "\<forall>v. clNow cl v = (clk v, v)" and "rotationConfig params = (enabled, spec, zone)"
    and "\<forall>v\<in>{w, w2}. enabled \<longrightarrow>
          scheduleParse cronParse spec zone = Inr nxt \<and> scheduleAround T nxt (clk v)"
    and "\<forall>lastT. parseRFC (lastRotated cgs) = Inr lastT \<longrightarrow>
          zeroTime \<le> lastT \<and> clk w2 - cronLookBack \<le> lastT"
    and "clk w \<le> clk w2"
    and "maybeRotateToken cl parseNano parseRFC formatRFC cronParse gw tc t cgs params result w
         = Some (Inr (True, res), w1)"
    and "patchCGSTokenHash cl cgs tokenResult v = ((cgs', e), v')"
  shows "\<exists>r w3. maybeRotateToken cl parseNano parseRFC formatRFC cronParse gw tc t cgs' params result2 w2
           = Some (r, w3) \<and> (\<forall>res2. r \<noteq> Inr (False, res2))"
proof -
  let ?due = "\<lambda>c u. requestedRotation parseNano parseRFC gw c \<or>
      enabled \<and> scheduledRotation T parseRFC c (clk u)"
  have past: "\<forall>lastT. parseRFC (lastRotated cgs) = Inr lastT \<longrightarrow> zeroTime \<le> lastT" using assms(4) by blast
  have s1: "enabled \<longrightarrow> scheduleParse cronParse spec zone = Inr nxt \<and> scheduleAround T nxt (clk w)"
    and s2: "enabled \<longrightarrow> scheduleParse cronParse spec zone = Inr nxt \<and> scheduleAround T nxt (clk w2)"
    using assms(3) by simp_all
  have "rotateStep cl formatRFC tc t (?due cgs w) (seeded formatRFC enabled nxt cgs (clk w) result) w
      = (Inr (True, res), w1)"
    using maybeRotateToken_step [where clk = clk and w = w and T = T and parseRFC = parseRFC and cgs = cgs,
        OF assms(1,2) s1 past] assms(6) by simp
  from rotateStep_Inr [OF this assms(1)] have "?due cgs w" by simp
  moreover have "scheduledRotation T parseRFC cgs (clk w2)" if "scheduledRotation T parseRFC cgs (clk w)"
    using that assms(4,5) unfolding scheduledRotation_def by (meson le_less_trans order_trans)
  moreover note same = requestedRotation_cong [OF patchCGSTokenHash_rotation [OF assms(7)]]
  ultimately have due2: "?due cgs' w2" by (auto simp: same)
  have past': "\<forall>lastT. parseRFC (lastRotated cgs') = Inr lastT \<longrightarrow> zeroTime \<le> lastT"
    using past same [of parseNano parseRFC gw T 0] by simp
  obtain r w3 where r: "rotateStep cl formatRFC tc t True (seeded formatRFC enabled nxt cgs' (clk w2) result2) w2
      = (r, w3)" by (rule prod.exhaust)
  have "maybeRotateToken cl parseNano parseRFC formatRFC cronParse gw tc t cgs' params result2 w2 = Some (r, w3)"
    using maybeRotateToken_step [where clk = clk and w = w2 and T = T and parseRFC = parseRFC and cgs = cgs',
        OF assms(1,2) s2 past'] r due2 by simp
  then show ?thesis using rotateStep_due [OF r] by blast
qed

text \<open>A request, and rotation without a schedule.\<close>

definition requestGateway :: "string \<Rightarrow> gateway" where
  "requestGateway q =
     (namedGateway ''ns'' ''gw'')\<lparr>gwAnnotations := [AnnotationRotateTokenRequestedAt \<mapsto> q]\<rparr>"

definition noSchedule :: "gateway_params option" where
  "noSchedule = Some \<lparr>gpName = ''p'', gpNamespace = ''ns'', gpSecretRef = None, gpDNSZones = None,
     gpTunnel = Some \<lparr>tcMinReadySeconds = None,
       tcToken = Some (Some \<lparr>rcEnabled = Some False, rcSchedule = None\<rparr>), tcResources = None,
       tcAutoscaling = None, tcPatches = [], tcReplicas = None\<rparr>\<rparr>"

lemma noSchedule_config:
  "rotationConfig noSchedule = (False, defaultRotationCron, defaultRotationTimeZone)"
  by (simp add: rotationConfig_def noSchedule_def)

abbreviation idleWorld :: sim_ns where "idleWorld \<equiv> \<lparr>snDeps = [], snFaults = []\<rparr>"

definition requestedRun ::
  "cgs_object option \<Rightarrow> int \<Rightarrow> ((go_error + bool \<times> tokenRotationResult) \<times> sim_ns) option" where
  "requestedRun cgs now =
     maybeRotateToken (clockCluster now) demoParse demoParse demoFormat (\<lambda>s. Inr hourly)
       (requestGateway ''now'') (clientOf idleSDK ''acct'') \<lparr>tunName = ''t'', tunID = ''t''\<rparr> cgs
       noSchedule emptyTokenResult idleWorld"

definition demoRotated :: tokenRotationResult where
  "demoRotated = emptyTokenResult\<lparr>trrLastRotatedAt := ''0'', trrChanges := [''rotated tunnel token'']\<rparr>"

lemma demo_requested: "map_option fst (requestedRun (Some (demoCGS [] [])) 5) = Some (Inr (True, demoRotated))"
  by code_simp

theorem unrecorded_rotation_repeats_witness:
  "\<exists>cgs' e v' r w3. patchCGSTokenHash (clockCluster 5) (Some (demoCGS [] []))
        (emptyTokenResult\<lparr>trrLastRotatedAt := ''0'', trrTokenHash := ''new''\<rparr>) idleWorld = ((cgs', e), v') \<and>
     requestedRun cgs' 5 = Some (r, w3) \<and> (\<forall>res2. r \<noteq> Inr (False, res2))"
proof -
  obtain cgs' e v' where p: "patchCGSTokenHash (clockCluster 5) (Some (demoCGS [] []))
        (emptyTokenResult\<lparr>trrLastRotatedAt := ''0'', trrTokenHash := ''new''\<rparr>) idleWorld = ((cgs', e), v')"
    by (metis prod.exhaust)
  obtain w1 where run: "requestedRun (Some (demoCGS [] [])) 5 = Some (Inr (True, demoRotated), w1)"
    using demo_requested by (cases "requestedRun (Some (demoCGS [] [])) 5") auto
  have clock: "\<forall>v. clNow (clockCluster 5) v = ((\<lambda>v. 5) v, v)" by (simp add: clockCluster_def)
  have never: "\<forall>v\<in>{idleWorld, idleWorld}. False \<longrightarrow>
      scheduleParse (\<lambda>s. Inr hourly) defaultRotationCron defaultRotationTimeZone = Inr hourly \<and>
      scheduleAround fullHours hourly ((\<lambda>v. 5) v)" by simp
  have "lastRotated (Some (demoCGS [] [])) = []" by code_simp
  moreover have "isl (demoParse [])" by code_simp
  ultimately have past: "\<forall>lastT. demoParse (lastRotated (Some (demoCGS [] []))) = Inr lastT \<longrightarrow>
      zeroTime \<le> lastT \<and> (\<lambda>v. 5) idleWorld - cronLookBack \<le> lastT" by auto
  have later: "(\<lambda>v :: sim_ns. 5 :: int) idleWorld \<le> (\<lambda>v. 5) idleWorld" by simp
  note again = unrecorded_rotation_repeats [where clk = "\<lambda>v. 5" and w = idleWorld and ?w2.0 = idleWorld
      and T = fullHours and parseRFC = demoParse and ?result2.0 = emptyTokenResult,
      OF clock noSchedule_config never past later run [unfolded requestedRun_def] p]
  from again p show ?thesis unfolding requestedRun_def by blast
qed

text \<open>
  C28. What a recorded rotation settles.  Once the status with the time of a rotation is written,
  the schedule is due again exactly when a trigger lies after the second of the rotation; but
  the request it served is due again exactly as long as the Gateway has not become Ready and
  the request is no time stamp or lies later within the same second.  So a request is served
  twice when it is less than a second old, and one that is no time stamp at every
  reconciliation of the rollout it causes.
\<close>

theorem recorded_rotation:
  assumes "parseRFC (formatRFC at) = Inr (at - at mod second)" and "formatRFC at \<noteq> []"
    and "trrLastRotatedAt res = formatRFC at"
    and "cgs' = Some (c\<lparr>cgsStatus := desiredCGSStatus gw cgs params t reps res readiness\<rparr>)"
    and "q = mapGet (gwAnnotations gw) AnnotationRotateTokenRequestedAt"
    and "handled = (case rotationStatus cgs of None \<Rightarrow> [] | Some s \<Rightarrow> trsLastHandledRotateAt s)"
  shows "(requestedRotation parseNano parseRFC gw cgs' \<longleftrightarrow>
           q \<noteq> [] \<and> q \<noteq> handled \<and> grReadyStatus readiness \<noteq> ConditionTrue \<and>
           (\<forall>tq. parseNano q = Inr tq \<longrightarrow> at - at mod second < tq))
    \<and> (scheduledRotation T parseRFC cgs' now \<longleftrightarrow>
           (\<exists>u\<in>T. at - at mod second < u \<and> now - cronLookBack < u \<and> u \<le> now))"
proof -
  have st: "rotationStatus cgs' = Some (desiredRotation gw (rotationStatus cgs) res readiness)"
    unfolding assms(4) by (rule rotationStatus_written)
  have at: "trsLastRotatedAt (desiredRotation gw (rotationStatus cgs) res readiness) = formatRFC at"
    "trsLastHandledRotateAt (desiredRotation gw (rotationStatus cgs) res readiness) =
      (if grReadyStatus readiness = ConditionTrue then q else handled)"
    using assms(2,3,5,6) by (simp_all add: desiredRotation_def)
  let ?sec = "at - at mod second"
  have last: "lastRotated cgs' = formatRFC at" by (simp add: lastRotated_def st at(1))
  have req: "requestedRotation parseNano parseRFC gw cgs' =
      onDemandRotation parseNano parseRFC q (if grReadyStatus readiness = ConditionTrue then q else handled)
        (formatRFC at)"
    unfolding requestedRotation_def st option.case at assms(5) [symmetric] ..
  have "requestedRotation parseNano parseRFC gw cgs' \<longleftrightarrow>
      q \<noteq> [] \<and> q \<noteq> handled \<and> grReadyStatus readiness \<noteq> ConditionTrue \<and>
      (\<forall>tq. parseNano q = Inr tq \<longrightarrow> ?sec < tq)"
    unfolding req onDemandRotation_def Let_def
    by (cases "parseNano q"; cases "grReadyStatus readiness = ConditionTrue") (simp_all add: assms(1,2))
  moreover have "scheduledRotation T parseRFC cgs' now \<longleftrightarrow>
      (\<exists>u\<in>T. ?sec < u \<and> now - cronLookBack < u \<and> u \<le> now)"
    unfolding scheduledRotation_def last by (simp add: assms(1,2))
  ultimately show ?thesis by blast
qed

text \<open>Requested at 10.5 seconds, rotated at 10.9: it is rotated again.\<close>

definition demoPending :: gatewayReadiness where
  "demoPending =
     \<lparr>grReadyStatus = ConditionUnknown, grReadyReason = ''Progressing'', grReadyMsg = [],
      grProgrammedStatus = ConditionTrue, grProgrammedReason = ''Programmed'', grProgrammedMsg = []\<rparr>"

theorem recorded_rotation_witness:
  "requestedRotation demoParse demoParse (requestGateway (showInt 10500000000))
     (Some ((demoCGS [] [])\<lparr>cgsStatus := desiredCGSStatus (requestGateway (showInt 10500000000)) None None
         \<lparr>tunName = ''t'', tunID = ''t''\<rparr> []
         (emptyTokenResult\<lparr>trrLastRotatedAt := demoFormat 10900000000\<rparr>) demoPending\<rparr>))"
proof -
  have "demoParse (demoFormat 10900000000) = Inr (10900000000 - 10900000000 mod second)"
    unfolding demoFormat_def by (rule demoParse_showInt) simp_all
  moreover have q: "demoParse (showInt 10500000000) = Inr 10500000000" "showInt 10500000000 \<noteq> []"
    by (rule demoParse_showInt, simp_all only: showInt_nonempty) simp_all
  moreover have "demoFormat 10900000000 \<noteq> []" unfolding demoFormat_def by (rule showInt_nonempty)
  ultimately show ?thesis
    using recorded_rotation [where formatRFC = demoFormat and parseRFC = demoParse and at = 10900000000
        and res = "emptyTokenResult\<lparr>trrLastRotatedAt := demoFormat 10900000000\<rparr>" and cgs = None
        and q = "showInt 10500000000" and handled = "[]" and readiness = demoPending
        and gw = "requestGateway (showInt 10500000000)" and parseNano = demoParse,
        OF _ _ _ refl]
    by (simp add: requestGateway_def mapGet_def rotationStatus_def demoPending_def)
qed

end
