(* ===== verification/Watches.thy ===== *)
theory Watches
  imports GatewayHelpers GatewayRoutes
begin

text \<open>
  Which Gateways and GatewayClasses an event on another object reconciles: the map functions
  of internal/controller/gateway_manager.go and gatewayclass_manager.go, and the cache indexes
  of internal/controller/indexes.go they and the reconcilers query.  The maps \<^verbatim>\<open>seen\<close> always
  hold the keys of the result list, so the list stands for both.  A query of the cache by an
  index is a parameter: a function from the index key to the objects or an error, which the
  map functions log and swallow.  The tables of watches are in Triggers;
  registering the indexes is wiring.
\<close>

section \<open>Route events\<close>

text \<open>The loop over \<^verbatim>\<open>spec.parentRefs\<close>, the same for both kinds and for the grants.\<close>

fun parentRequests ::
  "string \<Rightarrow> parent_ref list \<Rightarrow> namespaced_name list \<Rightarrow> namespaced_name list" where
  "parentRequests routeNamespace [] requests = requests"
| "parentRequests routeNamespace (ref # refs) requests =
     (if (case prGroup ref of None \<Rightarrow> False | Some g \<Rightarrow> g \<noteq> GatewayGroupName)
      then parentRequests routeNamespace refs requests
      else if (case prKind ref of None \<Rightarrow> False | Some k \<Rightarrow> k \<noteq> KindGateway)
      then parentRequests routeNamespace refs requests
      else
        (let ns = (case prNamespace ref of None \<Rightarrow> routeNamespace | Some n \<Rightarrow> n);
             key = (ns, prName ref)
         in parentRequests routeNamespace refs
              (if key \<in> set requests then requests else requests @ [key])))"

text \<open>The loop over \<^verbatim>\<open>status.parents\<close>.\<close>

fun statusRequests ::
  "route_parent_status list \<Rightarrow> namespaced_name list \<Rightarrow> namespaced_name list" where
  "statusRequests [] requests = requests"
| "statusRequests (s # ss) requests =
     (if rpsControllerName s \<noteq> ControllerName then statusRequests ss requests
      else
        (case prNamespace (rpsParentRef s) of
           None \<Rightarrow> statusRequests ss requests
         | Some ns \<Rightarrow>
             (let key = (ns, prName (rpsParentRef s))
              in statusRequests ss (if key \<in> set requests then requests else requests @ [key]))))"

definition mapHTTPRouteToGateway :: "http_route \<Rightarrow> namespaced_name list" where
  "mapHTTPRouteToGateway h =
     statusRequests (rtParents (htCommon h))
       (parentRequests (rtNamespace (htCommon h)) (rtParentRefs (htCommon h)) [])"

definition mapGRPCRouteToGateway :: "grpc_route \<Rightarrow> namespaced_name list" where
  "mapGRPCRouteToGateway g =
     statusRequests (rtParents (grtCommon g))
       (parentRequests (rtNamespace (grtCommon g)) (rtParentRefs (grtCommon g)) [])"

section \<open>The indexes of the routes\<close>

fun parentKeys :: "string \<Rightarrow> parent_ref list \<Rightarrow> string list \<Rightarrow> string list" where
  "parentKeys routeNamespace [] ks = ks"
| "parentKeys routeNamespace (ref # refs) ks =
     (if (case prGroup ref of None \<Rightarrow> False | Some g \<Rightarrow> g \<noteq> GatewayGroupName)
      then parentKeys routeNamespace refs ks
      else if (case prKind ref of None \<Rightarrow> False | Some k \<Rightarrow> k \<noteq> KindGateway)
      then parentKeys routeNamespace refs ks
      else
        (let ns = (case prNamespace ref of None \<Rightarrow> routeNamespace | Some n \<Rightarrow> n);
             key = ns @ ''/'' @ prName ref
         in parentKeys routeNamespace refs (if key \<in> set ks then ks else ks @ [key])))"

fun statusKeys :: "route_parent_status list \<Rightarrow> string list \<Rightarrow> string list" where
  "statusKeys [] ks = ks"
| "statusKeys (s # ss) ks =
     (if rpsControllerName s \<noteq> ControllerName then statusKeys ss ks
      else
        (case prNamespace (rpsParentRef s) of
           None \<Rightarrow> statusKeys ss ks
         | Some ns \<Rightarrow>
             (let key = ns @ ''/'' @ prName (rpsParentRef s)
              in statusKeys ss (if key \<in> set ks then ks else ks @ [key]))))"

definition httpParentGatewayIndex :: "http_route \<Rightarrow> string list" where
  "httpParentGatewayIndex h =
     statusKeys (rtParents (htCommon h))
       (parentKeys (rtNamespace (htCommon h)) (rtParentRefs (htCommon h)) [])"

definition grpcParentGatewayIndex :: "grpc_route \<Rightarrow> string list" where
  "grpcParentGatewayIndex g =
     statusKeys (rtParents (grtCommon g))
       (parentKeys (rtNamespace (grtCommon g)) (rtParentRefs (grtCommon g)) [])"

text \<open>The inner loop over the backendRefs of a rule.\<close>

fun backendNSRefs :: "string \<Rightarrow> backend_ref list \<Rightarrow> string list \<Rightarrow> string list" where
  "backendNSRefs routeNamespace [] ks = ks"
| "backendNSRefs routeNamespace (ref # refs) ks =
     (case brNamespace ref of
        None \<Rightarrow> backendNSRefs routeNamespace refs ks
      | Some ns \<Rightarrow>
          if ns = routeNamespace then backendNSRefs routeNamespace refs ks
          else
            (let key = routeNamespace @ ''/'' @ ns
             in backendNSRefs routeNamespace refs (if key \<in> set ks then ks else ks @ [key])))"

fun backendNSRules :: "string \<Rightarrow> backend_ref list list \<Rightarrow> string list \<Rightarrow> string list" where
  "backendNSRules routeNamespace [] ks = ks"
| "backendNSRules routeNamespace (refs # rules) ks =
     backendNSRules routeNamespace rules (backendNSRefs routeNamespace refs ks)"

definition httpBackendServiceNSIndex :: "http_route \<Rightarrow> string list" where
  "httpBackendServiceNSIndex h =
     backendNSRules (rtNamespace (htCommon h)) (map hrBackendRefs (htRules h)) []"

definition grpcBackendServiceNSIndex :: "grpc_route \<Rightarrow> string list" where
  "grpcBackendServiceNSIndex g =
     backendNSRules (rtNamespace (grtCommon g)) (map grBackendRefs (grtRules g)) []"

section \<open>The indexes of Gateways and GatewayClasses\<close>

definition gatewayClassNameIndex :: "gateway \<Rightarrow> string list" where
  "gatewayClassNameIndex gw = [gwClassName gw]"

definition infrastructureParametersRefIndex :: "gateway \<Rightarrow> string list" where
  "infrastructureParametersRefIndex gw =
     (case Option.bind (gwInfrastructure gw) infraParametersRef of
        None \<Rightarrow> []
      | Some ref \<Rightarrow>
          if prefKind ref \<noteq> KindParameters \<or> prefGroup ref \<noteq> Group then [] else [prefName ref])"

text \<open>A listener that admits routes by a namespace selector.\<close>

definition listenerSelects :: "listener \<Rightarrow> bool" where
  "listenerSelects l =
     (case Option.bind (lAllowedRoutes l) arNamespaces of
        None \<Rightarrow> False | Some rn \<Rightarrow> rnFrom rn = Some ''Selector'')"

fun selectorIndexLoop :: "listener list \<Rightarrow> string list" where
  "selectorIndexLoop [] = []"
| "selectorIndexLoop (l # ls) = (if listenerSelects l then [''true''] else selectorIndexLoop ls)"

definition namespaceSelectorIndex :: "gateway \<Rightarrow> string list" where
  "namespaceSelectorIndex gw = selectorIndexLoop (gwListeners gw)"

definition classControllerNameIndex :: "gateway_class \<Rightarrow> string list" where
  "classControllerNameIndex gc = [gcControllerName gc]"

definition classParametersRefIndex :: "gateway_class \<Rightarrow> string list" where
  "classParametersRefIndex gc =
     (case gcParametersRef gc of
        None \<Rightarrow> []
      | Some ref \<Rightarrow>
          if cprGroup ref \<noteq> [] \<or> cprKind ref \<noteq> KindSecret then []
          else (case cprNamespace ref of None \<Rightarrow> [] | Some ns \<Rightarrow> [ns @ ''/'' @ cprName ref]))"

fun finalizerIndexLoop :: "string list \<Rightarrow> string list \<Rightarrow> string list" where
  "finalizerIndexLoop [] ks = ks"
| "finalizerIndexLoop (f # fs) ks =
     finalizerIndexLoop fs
       (if hasPrefix f (GatewayClassFinalizerGatewaysExist @ ''/'') then ks @ [f] else ks)"

definition classGatewayFinalizerIndex :: "gateway_class \<Rightarrow> string list" where
  "classGatewayFinalizerIndex gc = finalizerIndexLoop (gcFinalizers gc) []"

section \<open>Events on other objects\<close>

definition gatewayKey :: "gateway \<Rightarrow> namespaced_name" where
  "gatewayKey gw = (gwNamespace gw, gwName gw)"

definition mapGatewayClassToGateway ::
  "(string \<Rightarrow> go_error + gateway list) \<Rightarrow> gateway_class \<Rightarrow> namespaced_name list" where
  "mapGatewayClassToGateway listByClassName gc =
     (case listByClassName (gcName gc) of Inl err \<Rightarrow> [] | Inr gws \<Rightarrow> map gatewayKey gws)"

text \<open>\<open>listByParams\<close> takes the namespace and the index key.\<close>

definition mapParametersToGateway ::
  "(string \<Rightarrow> string \<Rightarrow> go_error + gateway list) \<Rightarrow> gateway_params \<Rightarrow> namespaced_name list" where
  "mapParametersToGateway listByParams params =
     (case listByParams (gpNamespace params) (gpName params) of
        Inl err \<Rightarrow> [] | Inr gws \<Rightarrow> map gatewayKey gws)"

text \<open>
  \<open>parseSelector\<close> is \<^verbatim>\<open>LabelSelectorAsSelector\<close> of a selector; of the nil pointer it gives the
  selector that matches nothing.
\<close>

fun namespaceListenersLoop ::
  "(label_selector \<Rightarrow> go_error + ((string \<Rightarrow> string option) \<Rightarrow> bool)) \<Rightarrow> (string \<Rightarrow> string option)
     \<Rightarrow> listener list \<Rightarrow> bool" where
  "namespaceListenersLoop parseSelector nsLabels [] = False"
| "namespaceListenersLoop parseSelector nsLabels (l # ls) =
     (if \<not> listenerSelects l then namespaceListenersLoop parseSelector nsLabels ls
      else
        (case Option.bind (Option.bind (lAllowedRoutes l) arNamespaces) rnSelector of
           None \<Rightarrow> namespaceListenersLoop parseSelector nsLabels ls
         | Some sel \<Rightarrow>
             (case parseSelector sel of
                Inl err \<Rightarrow> namespaceListenersLoop parseSelector nsLabels ls
              | Inr selMatches \<Rightarrow>
                  if selMatches nsLabels then True
                  else namespaceListenersLoop parseSelector nsLabels ls)))"

definition mapNamespaceToGateway ::
  "(string \<Rightarrow> go_error + gateway list)
     \<Rightarrow> (label_selector \<Rightarrow> go_error + ((string \<Rightarrow> string option) \<Rightarrow> bool))
     \<Rightarrow> (string \<Rightarrow> string option) \<Rightarrow> namespaced_name list" where
  "mapNamespaceToGateway listBySelector parseSelector nsLabels =
     (case listBySelector ''true'' of
        Inl err \<Rightarrow> []
      | Inr gws \<Rightarrow>
          map gatewayKey
            (filter (\<lambda>gw. namespaceListenersLoop parseSelector nsLabels (gwListeners gw)) gws))"

section \<open>ReferenceGrant events\<close>

fun serviceGrantedLoop :: "grant_to list \<Rightarrow> bool" where
  "serviceGrantedLoop [] = False"
| "serviceGrantedLoop (t # ts) =
     (if (gtGroup t = [] \<or> gtGroup t = ''core'') \<and> gtKind t = KindService then True
      else serviceGrantedLoop ts)"

text \<open>Collecting the parent Gateways of the listed routes.\<close>

fun collectParentGateways ::
  "(string \<times> parent_ref list) list \<Rightarrow> namespaced_name list \<Rightarrow> namespaced_name list" where
  "collectParentGateways [] requests = requests"
| "collectParentGateways ((ns, refs) # rs) requests =
     collectParentGateways rs (parentRequests ns refs requests)"

fun grantFromLoop ::
  "(string \<Rightarrow> go_error + http_route list) \<Rightarrow> (string \<Rightarrow> go_error + grpc_route list) \<Rightarrow> string
     \<Rightarrow> grant_from list \<Rightarrow> namespaced_name list \<Rightarrow> namespaced_name list" where
  "grantFromLoop listHTTP listGRPC grantNamespace [] requests = requests"
| "grantFromLoop listHTTP listGRPC grantNamespace (f # fs) requests =
     (if gfGroup f \<noteq> GatewayGroupName
      then grantFromLoop listHTTP listGRPC grantNamespace fs requests
      else
        (let indexKey = gfNamespace f @ ''/'' @ grantNamespace
         in if gfKind f = KindHTTPRoute
            then (case listHTTP indexKey of
                    Inl err \<Rightarrow> grantFromLoop listHTTP listGRPC grantNamespace fs requests
                  | Inr routes \<Rightarrow>
                      grantFromLoop listHTTP listGRPC grantNamespace fs
                        (collectParentGateways (map (\<lambda>h. (rtNamespace (htCommon h),
                            rtParentRefs (htCommon h))) routes) requests))
            else if gfKind f = KindGRPCRoute
            then (case listGRPC indexKey of
                    Inl err \<Rightarrow> grantFromLoop listHTTP listGRPC grantNamespace fs requests
                  | Inr routes \<Rightarrow>
                      grantFromLoop listHTTP listGRPC grantNamespace fs
                        (collectParentGateways (map (\<lambda>g. (rtNamespace (grtCommon g),
                            rtParentRefs (grtCommon g))) routes) requests))
            else grantFromLoop listHTTP listGRPC grantNamespace fs requests))"

definition mapReferenceGrantToGateway ::
  "(string \<Rightarrow> go_error + http_route list) \<Rightarrow> (string \<Rightarrow> go_error + grpc_route list) \<Rightarrow> string
     \<Rightarrow> reference_grant \<Rightarrow> namespaced_name list" where
  "mapReferenceGrantToGateway listHTTP listGRPC grantNamespace grant =
     (if \<not> serviceGrantedLoop (rgTo grant) then []
      else grantFromLoop listHTTP listGRPC grantNamespace (rgFrom grant) [])"

section \<open>The GatewayClass controller's watches\<close>

abbreviation CRDGatewayClass :: string where
  "CRDGatewayClass \<equiv> ''gatewayclasses.gateway.networking.k8s.io''"

abbreviation AnnotationBundleVersion :: string where
  "AnnotationBundleVersion \<equiv> ''gateway.networking.k8s.io/bundle-version''"

text \<open>The predicate on the CRD: create, delete and generic events, and updates of the version.\<close>

definition crdEventMatches :: "string \<Rightarrow> bool" where
  "crdEventMatches name \<longleftrightarrow> name = CRDGatewayClass"

definition crdUpdateMatches ::
  "string \<Rightarrow> (string \<Rightarrow> string option) \<Rightarrow> (string \<Rightarrow> string option) \<Rightarrow> bool" where
  "crdUpdateMatches newName oldAnnotations newAnnotations \<longleftrightarrow>
     newName = CRDGatewayClass \<and>
     mapGet oldAnnotations AnnotationBundleVersion \<noteq> mapGet newAnnotations AnnotationBundleVersion"

text \<open>\<open>listClasses\<close> takes the controller name and, for Secrets, the Secret's key.\<close>

definition managedGatewayClasses ::
  "(string \<Rightarrow> string option \<Rightarrow> go_error + gateway_class list) \<Rightarrow> bool \<Rightarrow> namespaced_name
     \<Rightarrow> namespaced_name list" where
  "managedGatewayClasses listClasses withSecret ob =
     (case listClasses ControllerName (if withSecret then Some (fst ob @ ''/'' @ snd ob) else None) of
        Inl err \<Rightarrow> []
      | Inr classes \<Rightarrow> map (\<lambda>gc. ([], gcName gc)) classes)"

end
