(* ===== verification/WatchProps.thy ===== *)
theory WatchProps
  imports Watches
begin

text \<open>
  What the watches and indexes guarantee (internal/controller/gateway_manager.go, indexes.go):
  an event is mapped to every Gateway whose reconciliation it can change, and listing the
  routes by the index instead of all routes loses nothing.
\<close>

section \<open>Targets and listings\<close>

definition parentTarget :: "string \<Rightarrow> parent_ref \<Rightarrow> namespaced_name option" where
  "parentTarget routeNamespace ref =
     (if prGroup ref \<in> {None, Some GatewayGroupName} \<and> prKind ref \<in> {None, Some KindGateway}
      then Some (case prNamespace ref of None \<Rightarrow> routeNamespace | Some n \<Rightarrow> n, prName ref)
      else None)"

definition statusTarget :: "route_parent_status \<Rightarrow> namespaced_name option" where
  "statusTarget s =
     (if rpsControllerName s = ControllerName
      then map_option (\<lambda>ns. (ns, prName (rpsParentRef s))) (prNamespace (rpsParentRef s))
      else None)"

definition nnString :: "namespaced_name \<Rightarrow> string" where
  "nnString k = fst k @ ''/'' @ snd k"

text \<open>A listing of the cache by an index, and all the Gateways a route names.\<close>

definition listedBy :: "('a \<Rightarrow> string list) \<Rightarrow> 'a list \<Rightarrow> string \<Rightarrow> 'a list" where
  "listedBy index objects key = filter (\<lambda>x. key \<in> set (index x)) objects"

definition routeTargets :: "route_common \<Rightarrow> namespaced_name list" where
  "routeTargets c =
     List.map_filter (parentTarget (rtNamespace c)) (rtParentRefs c) @
     List.map_filter statusTarget (rtParents c)"

fun routeRequests :: "routeObject \<Rightarrow> namespaced_name list" where
  "routeRequests (HTTPObj h) = mapHTTPRouteToGateway h"
| "routeRequests (GRPCObj g) = mapGRPCRouteToGateway g"

fun parentGatewayIndex :: "routeObject \<Rightarrow> string list" where
  "parentGatewayIndex (HTTPObj h) = httpParentGatewayIndex h"
| "parentGatewayIndex (GRPCObj g) = grpcParentGatewayIndex g"

fun backendServiceNSIndex :: "routeObject \<Rightarrow> string list" where
  "backendServiceNSIndex (HTTPObj h) = httpBackendServiceNSIndex h"
| "backendServiceNSIndex (GRPCObj g) = grpcBackendServiceNSIndex g"

lemma collectOnce_append: "collectOnce (collectOnce acc xs) ys = collectOnce acc (xs @ ys)"
  by (induction acc xs rule: collectOnce.induct) auto

lemma parentRequests_once:
  "parentRequests ns refs acc = collectOnce acc (List.map_filter (parentTarget ns) refs)"
  by (induction ns refs acc rule: parentRequests.induct)
     (auto simp: parentTarget_def List.map_filter_simps Let_def split: option.splits)

lemma statusRequests_once:
  "statusRequests ss acc = collectOnce acc (List.map_filter statusTarget ss)"
  by (induction ss acc rule: statusRequests.induct)
     (auto simp: statusTarget_def List.map_filter_simps Let_def split: option.splits)

lemma parentKeys_once:
  "parentKeys ns refs acc = collectOnce acc (map nnString (List.map_filter (parentTarget ns) refs))"
  by (induction ns refs acc rule: parentKeys.induct)
     (auto simp: parentTarget_def nnString_def List.map_filter_simps Let_def split: option.splits)

lemma statusKeys_once:
  "statusKeys ss acc = collectOnce acc (map nnString (List.map_filter statusTarget ss))"
  by (induction ss acc rule: statusKeys.induct)
     (auto simp: statusTarget_def nnString_def List.map_filter_simps Let_def split: option.splits)

lemma routeRequests_once: "routeRequests r = collectOnce [] (routeTargets (objCommon r))"
  by (cases r)
     (simp_all add: mapHTTPRouteToGateway_def mapGRPCRouteToGateway_def routeTargets_def
        parentRequests_once statusRequests_once collectOnce_append)

lemma parentGatewayIndex_once:
  "parentGatewayIndex r = collectOnce [] (map nnString (routeTargets (objCommon r)))"
  by (cases r)
     (simp_all add: httpParentGatewayIndex_def grpcParentGatewayIndex_def routeTargets_def
        parentKeys_once statusKeys_once collectOnce_append)

lemma mem_map_filter: "y \<in> set (List.map_filter f xs) \<longleftrightarrow> (\<exists>x\<in>set xs. f x = Some y)"
  by (induction xs) (auto simp: List.map_filter_simps split: option.splits)

lemma parentTarget_matches:
  "parentTarget ns ref = Some (gatewayKey gw) \<longleftrightarrow> parentRefMatches ref gw ns"
  by (auto simp: parentTarget_def parentRefMatches_def gatewayKey_def split: option.splits)

lemma statusTarget_owns: "statusTarget s = Some (gatewayKey gw) \<longleftrightarrow> ownsEntry gw s"
  by (auto simp: statusTarget_def ownsEntry_def gatewayKey_def)

lemma mem_parentTargets:
  "gatewayKey gw \<in> set (List.map_filter (parentTarget (rtNamespace (objCommon r))) (parentRefs r))
     \<longleftrightarrow> hasParentRef gw r"
  by (simp add: mem_map_filter parentTarget_matches hasParentRef_def list_ex_iff)

lemma mem_routeTargets:
  "gatewayKey gw \<in> set (routeTargets (objCommon r)) \<longleftrightarrow>
     hasParentRef gw r \<or> (\<exists>s\<in>set (rtParents (objCommon r)). ownsEntry gw s)"
  using mem_parentTargets [of gw r]
  by (simp add: routeTargets_def mem_map_filter statusTarget_owns parentRefs_def)

text \<open>Keys of the index tell namespaces and names apart as long as no namespace has a slash.\<close>

lemma nnString_inj:
  assumes "nnString a = nnString b" and "CHR ''/'' \<notin> set (fst a)" and "CHR ''/'' \<notin> set (fst b)"
  shows "a = b"
proof -
  have "cutChar (CHR ''/'') (nnString a) = (fst a, snd a, True)"
    and "cutChar (CHR ''/'') (nnString b) = (fst b, snd b, True)"
    using assms(2,3) by (simp_all add: nnString_def cutChar_append)
  with assms(1) show ?thesis by (simp add: prod_eq_iff)
qed

definition slashless :: "route_common \<Rightarrow> bool" where
  "slashless c \<longleftrightarrow> list_all (\<lambda>k. CHR ''/'' \<notin> set (fst k)) (routeTargets c)"

lemma mem_parentGatewayIndex:
  assumes "CHR ''/'' \<notin> set (gwNamespace gw)" and "slashless (objCommon r)"
  shows "nnString (gatewayKey gw) \<in> set (parentGatewayIndex r) \<longleftrightarrow>
     gatewayKey gw \<in> set (routeTargets (objCommon r))"
proof
  assume "nnString (gatewayKey gw) \<in> set (parentGatewayIndex r)"
  then obtain k where k: "k \<in> set (routeTargets (objCommon r))" "nnString (gatewayKey gw) = nnString k"
    by (auto simp: parentGatewayIndex_once)
  then have "CHR ''/'' \<notin> set (fst k)" using assms(2) by (auto simp: slashless_def list_all_iff)
  then have "gatewayKey gw = k"
    using nnString_inj [OF k(2)] assms(1) by (simp add: gatewayKey_def)
  with k(1) show "gatewayKey gw \<in> set (routeTargets (objCommon r))" by simp
qed (simp add: parentGatewayIndex_once)

section \<open>Listing by the index\<close>

lemma listRoutesLoop_index:
  assumes "\<And>r. r \<in> set rs \<Longrightarrow> hasParentRef gw r \<Longrightarrow> P r"
  shows "listRoutesLoop ps gn gw (filter P rs) a d s =
     (case listRoutesLoop ps gn gw rs a d s0 of
        Inl e \<Rightarrow> Inl e
      | Inr (a', d', s') \<Rightarrow>
          Inr (a', d', s @ filter (\<lambda>r. P r \<and> \<not> rtDeleted (objCommon r) \<and> \<not> hasParentRef gw r) rs))"
  using assms
proof (induction rs arbitrary: a d s s0)
  case (Cons r rs)
  then have IH: "listRoutesLoop ps gn gw (filter P rs) a d s =
     (case listRoutesLoop ps gn gw rs a d s0 of
        Inl e \<Rightarrow> Inl e
      | Inr (a', d', s') \<Rightarrow>
          Inr (a', d', s @ filter (\<lambda>r. P r \<and> \<not> rtDeleted (objCommon r) \<and> \<not> hasParentRef gw r) rs))"
    for a d s s0 by simp
  consider (skip) "rtDeleted (objCommon r)" | (stale) "\<not> rtDeleted (objCommon r)" "\<not> hasParentRef gw r"
    | (parent) "\<not> rtDeleted (objCommon r)" "hasParentRef gw r" "P r"
    using Cons.prems by auto
  then show ?case
  proof cases
    case skip
    then show ?thesis using IH [of a d s s0] by (simp split: sum.split prod.split)
  next
    case stale
    then show ?thesis
      using IH [of a d s "s0 @ [r]"] IH [of a d "s @ [r]" "s0 @ [r]"]
      by (cases "P r") (simp_all split: sum.split prod.split)
  next
    case parent
    then show ?thesis
      using IH [of a "d @ [r]" s s0] IH [of "a @ [r]" d s s0]
      by (simp split: sum.split prod.split)
  qed
qed simp

section \<open>Grants and Namespaces\<close>

fun backendRefLists :: "routeObject \<Rightarrow> backend_ref list list" where
  "backendRefLists (HTTPObj h) = map hrBackendRefs (htRules h)"
| "backendRefLists (GRPCObj g) = map grBackendRefs (grtRules g)"

text \<open>A backendRef of the route into another namespace.\<close>

definition refersTo :: "routeObject \<Rightarrow> string \<Rightarrow> string \<Rightarrow> bool" where
  "refersTo r ns name \<longleftrightarrow>
     ns \<noteq> rtNamespace (objCommon r) \<and>
     (\<exists>refs\<in>set (backendRefLists r). \<exists>ref\<in>set refs. brNamespace ref = Some ns \<and> brName ref = name)"

lemma set_backendNSRefs:
  "set (backendNSRefs ns refs acc) =
     set acc \<union> {ns @ ''/'' @ n |n. n \<noteq> ns \<and> (\<exists>ref\<in>set refs. brNamespace ref = Some n)}"
  by (induction ns refs acc rule: backendNSRefs.induct) (auto simp: Let_def split: option.splits)

lemma set_backendNSRules:
  "set (backendNSRules ns rules acc) =
     set acc \<union>
     {ns @ ''/'' @ n |n. n \<noteq> ns \<and> (\<exists>refs\<in>set rules. \<exists>ref\<in>set refs. brNamespace ref = Some n)}"
  by (induction ns rules acc rule: backendNSRules.induct) (auto simp: set_backendNSRefs)

lemma refersTo_index:
  "refersTo r ns name \<Longrightarrow> rtNamespace (objCommon r) @ ''/'' @ ns \<in> set (backendServiceNSIndex r)"
  by (cases r)
     (auto simp: refersTo_def httpBackendServiceNSIndex_def grpcBackendServiceNSIndex_def
        set_backendNSRules)

lemma set_collectParentGateways:
  "set (collectParentGateways rs acc) =
     set acc \<union> (\<Union>(ns, refs)\<in>set rs. set (List.map_filter (parentTarget ns) refs))"
  by (induction rs acc rule: collectParentGateways.induct) (auto simp: parentRequests_once)

lemma serviceGrantedLoop_iff:
  "serviceGrantedLoop ts \<longleftrightarrow>
     (\<exists>t\<in>set ts. (gtGroup t = [] \<or> gtGroup t = ''core'') \<and> gtKind t = KindService)"
  by (induction ts) auto

lemma mem_listedBy: "x \<in> set (listedBy index xs key) \<longleftrightarrow> x \<in> set xs \<and> key \<in> set (index x)"
  by (auto simp: listedBy_def)

lemma grantFromLoop_mem:
  fixes hs :: "http_route list" and gs :: "grpc_route list"
  shows "gatewayKey gw \<in> set (grantFromLoop (\<lambda>k. Inr (listedBy httpBackendServiceNSIndex hs k))
        (\<lambda>k. Inr (listedBy grpcBackendServiceNSIndex gs k)) gns fs acc) \<longleftrightarrow>
     gatewayKey gw \<in> set acc \<or>
     (\<exists>f\<in>set fs. gfGroup f = GatewayGroupName \<and>
        (\<exists>r\<in>HTTPObj ` set hs \<union> GRPCObj ` set gs.
           routeKind r = gfKind f \<and> gfNamespace f @ ''/'' @ gns \<in> set (backendServiceNSIndex r) \<and>
           hasParentRef gw r))"
proof (induction fs arbitrary: acc)
  case (Cons f fs)
  have http: "hasParentRef gw (HTTPObj h) \<longleftrightarrow> gatewayKey gw \<in> set (List.map_filter
      (parentTarget (rtNamespace (htCommon h))) (rtParentRefs (htCommon h)))" for h
    using mem_parentTargets [of gw "HTTPObj h"] by (simp add: parentRefs_def)
  have grpc: "hasParentRef gw (GRPCObj g) \<longleftrightarrow> gatewayKey gw \<in> set (List.map_filter
      (parentTarget (rtNamespace (grtCommon g))) (rtParentRefs (grtCommon g)))" for g
    using mem_parentTargets [of gw "GRPCObj g"] by (simp add: parentRefs_def)
  show ?case
    by (auto simp: Cons.IH Let_def set_collectParentGateways mem_listedBy bex_Un http grpc)
qed simp

lemma namespaceListenersLoop_iff:
  "namespaceListenersLoop ps nsLabels ls \<longleftrightarrow>
     (\<exists>l\<in>set ls. listenerSelects l \<and>
        (\<exists>sel m. Option.bind (Option.bind (lAllowedRoutes l) arNamespaces) rnSelector = Some sel \<and>
           ps sel = Inr m \<and> m nsLabels))"
  by (induction ls) (auto split: option.splits sum.splits)

lemma selectorIndex_iff: "''true'' \<in> set (selectorIndexLoop ls) \<longleftrightarrow> (\<exists>l\<in>set ls. listenerSelects l)"
  by (induction ls) auto

lemma admits_by_selector:
  assumes "admitsNamespace ps getNs ns l" and "\<not> admitsNamespace ps getNs' ns l"
    and "getNs ns = Inr nsLabels"
  shows "listenerSelects l \<and>
     (\<exists>sel m. Option.bind (Option.bind (lAllowedRoutes l) arNamespaces) rnSelector = Some sel \<and>
        ps sel = Inr m \<and> m nsLabels)"
  using assms by (auto simp: admitsNamespace_def listenerSelects_def bind_eq_Some_conv
      split: option.splits)

lemma mapNamespace_mem:
  assumes "gw \<in> set gws" and "namespaceListenersLoop ps nsLabels (gwListeners gw)"
  shows "gatewayKey gw \<in> set (mapNamespaceToGateway
           (\<lambda>k. Inr (listedBy namespaceSelectorIndex gws k)) ps nsLabels)"
  using assms
  by (auto simp: mapNamespaceToGateway_def listedBy_def namespaceSelectorIndex_def
      selectorIndex_iff namespaceListenersLoop_iff)

section \<open>Properties\<close>

text \<open>
  C29. A route event reconciles exactly the Gateways concerned, each once: those of its parentRefs
  and those with an entry of this controller in its status.  When no namespace has a slash,
  listing the routes by the index under the Gateway's key gives the reconciliation the same
  attached and denied routes, in the same order, or the same error, as listing all routes would,
  and as stale routes exactly those with an entry of the Gateway still to be removed.
\<close>

theorem route_watch_complete:
  assumes "CHR ''/'' \<notin> set (gwNamespace gw)" and "list_all (\<lambda>r. slashless (objCommon r)) routes"
  shows "(gatewayKey gw \<in> set (routeRequests r) \<longleftrightarrow>
            hasParentRef gw r \<or> (\<exists>s\<in>set (rtParents (objCommon r)). ownsEntry gw s))
       \<and> distinct (routeRequests r)
       \<and> listRoutesLoop ps gn gw (listedBy parentGatewayIndex routes (nnString (gatewayKey gw))) [] [] [] =
          (case listRoutesLoop ps gn gw routes [] [] [] of
             Inl err \<Rightarrow> Inl err
           | Inr (allowed, denied, stale) \<Rightarrow>
               Inr (allowed, denied,
                    filter (\<lambda>r. \<exists>s\<in>set (rtParents (objCommon r)). ownsEntry gw s) stale))"
proof (intro conjI)
  show "gatewayKey gw \<in> set (routeRequests r) \<longleftrightarrow>
      hasParentRef gw r \<or> (\<exists>s\<in>set (rtParents (objCommon r)). ownsEntry gw s)"
    by (simp add: routeRequests_once mem_routeTargets)
  show "distinct (routeRequests r)" by (simp add: routeRequests_once distinct_collectOnce)
  have key: "nnString (gatewayKey gw) \<in> set (parentGatewayIndex r) \<longleftrightarrow>
      hasParentRef gw r \<or> (\<exists>s\<in>set (rtParents (objCommon r)). ownsEntry gw s)" if "r \<in> set routes" for r
    using mem_parentGatewayIndex [OF assms(1), of r] assms(2) that
    by (simp add: list_all_iff mem_routeTargets)
  let ?P = "\<lambda>r. nnString (gatewayKey gw) \<in> set (parentGatewayIndex r)"
  have stale: "filter (\<lambda>r. ?P r \<and> \<not> rtDeleted (objCommon r) \<and> \<not> hasParentRef gw r) routes =
      filter (\<lambda>r. \<exists>s\<in>set (rtParents (objCommon r)). ownsEntry gw s)
        (filter (\<lambda>r. \<not> rtDeleted (objCommon r) \<and> \<not> hasParentRef gw r) routes)"
    unfolding filter_filter using key by (intro filter_cong) auto
  show "listRoutesLoop ps gn gw (listedBy parentGatewayIndex routes (nnString (gatewayKey gw))) [] [] [] =
      (case listRoutesLoop ps gn gw routes [] [] [] of
         Inl err \<Rightarrow> Inl err
       | Inr (allowed, denied, stale) \<Rightarrow>
           Inr (allowed, denied,
                filter (\<lambda>r. \<exists>s\<in>set (rtParents (objCommon r)). ownsEntry gw s) stale))"
    using listRoutesLoop_index [of routes gw ?P ps gn "[]" "[]" "[]" "[]"] key stale
      listRoutesLoop_spec [of ps gn gw routes "[]" "[]" "[]"]
    by (auto simp: listedBy_def split: sum.splits)
qed

text \<open>
  C30. A ReferenceGrant event reconciles exactly the parent Gateways of the routes it concerns: with
  the listings by the index, a Gateway is requested when and only when the grant names Services
  and a referrer kind and namespace for which some route of that kind and index key has the
  Gateway as a parent.  So a grant that permits the backendRef of a route into its namespace
  reconciles every parent Gateway of the route.  A grant whose targets are all Secrets
  reconciles nothing, although it decides whether a Gateway may read its credentials.
\<close>

theorem grant_watch_complete:
  fixes hs :: "http_route list" and gs :: "grpc_route list"
    and gns :: string and grant :: reference_grant
  defines "requests \<equiv> mapReferenceGrantToGateway
             (\<lambda>k. Inr (listedBy httpBackendServiceNSIndex hs k))
             (\<lambda>k. Inr (listedBy grpcBackendServiceNSIndex gs k)) gns grant"
    and "routes \<equiv> HTTPObj ` set hs \<union> GRPCObj ` set gs"
  shows "(gatewayKey gw \<in> set requests \<longleftrightarrow>
            (\<exists>t\<in>set (rgTo grant). (gtGroup t = [] \<or> gtGroup t = ''core'') \<and> gtKind t = KindService) \<and>
            (\<exists>f\<in>set (rgFrom grant). gfGroup f = GatewayGroupName \<and>
               (\<exists>r\<in>routes. routeKind r = gfKind f \<and>
                  gfNamespace f @ ''/'' @ gns \<in> set (backendServiceNSIndex r) \<and> hasParentRef gw r)))
       \<and> (r \<in> routes \<and> hasParentRef gw r \<and> refersTo r gns name \<and>
            permits grant (routeKind r) (rtNamespace (objCommon r)) KindService name \<longrightarrow>
            gatewayKey gw \<in> set requests)
       \<and> (list_all (\<lambda>t. gtKind t = KindSecret) (rgTo grant) \<longrightarrow> requests = [])"
proof -
  have mem: "gatewayKey gw \<in> set requests \<longleftrightarrow>
            (\<exists>t\<in>set (rgTo grant). (gtGroup t = [] \<or> gtGroup t = ''core'') \<and> gtKind t = KindService) \<and>
            (\<exists>f\<in>set (rgFrom grant). gfGroup f = GatewayGroupName \<and>
               (\<exists>r\<in>routes. routeKind r = gfKind f \<and>
                  gfNamespace f @ ''/'' @ gns \<in> set (backendServiceNSIndex r) \<and> hasParentRef gw r))"
    using grantFromLoop_mem [of gw hs gs gns "rgFrom grant" "[]"]
    by (simp add: requests_def routes_def mapReferenceGrantToGateway_def serviceGrantedLoop_iff)
  have "gatewayKey gw \<in> set requests"
    if "r \<in> routes" "hasParentRef gw r" "refersTo r gns name"
      "permits grant (routeKind r) (rtNamespace (objCommon r)) KindService name"
    using that(1,2,4) refersTo_index [OF that(3)] unfolding mem permits_def by metis
  moreover have "requests = []" if "list_all (\<lambda>t. gtKind t = KindSecret) (rgTo grant)"
  proof -
    have "\<not> serviceGrantedLoop (rgTo grant)"
      using that by (auto simp: serviceGrantedLoop_iff list_all_iff)
    then show ?thesis by (simp add: requests_def mapReferenceGrantToGateway_def)
  qed
  ultimately show ?thesis using mem by blast
qed

text \<open>
  A label change of a Namespace that admits its routes to a Gateway or excludes them
  reconciles the Gateway: when the checks with the old and with the new labels both succeed and
  disagree, the Gateway is requested for the labels under which the routes are admitted.
\<close>

lemma namespace_watch_complete:
  assumes "gw \<in> set gws"
    and "getOld ns = Inr oldLabels" and "getNew ns = Inr newLabels"
    and "routeNamespaceAllowed ps getOld gw ns = Inr was"
    and "routeNamespaceAllowed ps getNew gw ns = Inr now"
    and "was \<noteq> now"
  shows "gatewayKey gw \<in> set (mapNamespaceToGateway
           (\<lambda>k. Inr (listedBy namespaceSelectorIndex gws k)) ps (if now then newLabels else oldLabels))"
proof -
  have ne: "ns \<noteq> gwNamespace gw" using assms(4-6) by (auto simp: routeNamespaceAllowed_def)
  have "was \<longleftrightarrow> list_ex (admitsNamespace ps getOld ns) (gwListeners gw)"
    and "now \<longleftrightarrow> list_ex (admitsNamespace ps getNew ns) (gwListeners gw)"
    using assms(4,5) ne namespaceAllowedLoop_spec by (simp_all add: routeNamespaceAllowed_def)
  then obtain l where l: "l \<in> set (gwListeners gw)"
    and "if now then admitsNamespace ps getNew ns l \<and> \<not> admitsNamespace ps getOld ns l
         else admitsNamespace ps getOld ns l \<and> \<not> admitsNamespace ps getNew ns l"
    using assms(6) by (cases "now") (auto simp: list_ex_iff)
  then have "listenerSelects l \<and>
     (\<exists>sel m. Option.bind (Option.bind (lAllowedRoutes l) arNamespaces) rnSelector = Some sel \<and>
        ps sel = Inr m \<and> m (if now then newLabels else oldLabels))"
    using admits_by_selector [of ps getNew ns l getOld newLabels]
      admits_by_selector [of ps getOld ns l getNew oldLabels] assms(2,3) by (cases "now") simp_all
  with l have "namespaceListenersLoop ps (if now then newLabels else oldLabels) (gwListeners gw)"
    unfolding namespaceListenersLoop_iff by blast
  with assms(1) show ?thesis by (rule mapNamespace_mem)
qed

section \<open>Witnesses\<close>

definition demoGw :: gateway where
  "demoGw = \<lparr>gwName = ''web'', gwNamespace = ''infra'', gwUID = ''u'', gwGeneration = 1,
     gwAnnotations = Map.empty, gwDeleted = False, gwFinalizers = [], gwClassName = ''cf'',
     gwListeners = [\<lparr>lName = ''https'', lHostname = None, lPort = 443, lProtocol = ''HTTPS'',
       lHasTLS = False, lAllowedRoutes = Some \<lparr>arKinds = [],
         arNamespaces = Some \<lparr>rnFrom = Some ''Selector'',
           rnSelector = Some \<lparr>lsMatchLabels = [(''team'', ''a'')], lsMatchExpressions = []\<rparr>\<rparr>\<rparr>\<rparr>],
     gwSpecAddresses = [], gwInfrastructure = None, gwConditions = [], gwStatusListeners = [],
     gwStatusAddresses = []\<rparr>"

definition demoHTTP :: http_route where
  "demoHTTP = \<lparr>htCommon = \<lparr>rtNamespace = ''app'', rtName = ''shop'', rtGeneration = 1,
       rtDeleted = False, rtParentRefs = [\<lparr>prGroup = None, prKind = None, prNamespace = Some ''infra'',
         prName = ''web'', prSectionName = None, prPort = None\<rparr>],
       rtHostnames = [], rtParents = []\<rparr>,
     htRules = [\<lparr>hrMatches = [], hrFilters = [], hrHasTimeouts = False, hrHasRetry = False,
       hrBackendRefs = [\<lparr>brGroup = None, brKind = None, brNamespace = Some ''data'', brName = ''db'',
         brPort = Some 80, brWeight = None, brFilters = []\<rparr>], hrSession = None\<rparr>]\<rparr>"

definition demoGrant :: reference_grant where
  "demoGrant = \<lparr>rgFrom = [\<lparr>gfGroup = GatewayGroupName, gfKind = KindHTTPRoute, gfNamespace = ''app''\<rparr>],
     rgTo = [\<lparr>gtGroup = [], gtKind = KindService, gtName = None\<rparr>]\<rparr>"

text \<open>A selector of one label; \<open>demoNs v\<close> reads the Namespace \<^verbatim>\<open>app\<close> with the label \<^verbatim>\<open>team\<close>.\<close>

definition demoSelector ::
  "label_selector \<Rightarrow> go_error + ((string \<Rightarrow> string option) \<Rightarrow> bool)" where
  "demoSelector sel = Inr (\<lambda>ls. list_all (\<lambda>(k, v). ls k = Some v) (lsMatchLabels sel))"

definition demoNs :: "string \<Rightarrow> string \<Rightarrow> go_error + (string \<Rightarrow> string option)" where
  "demoNs v ns = (if ns = ''app'' then Inr [''team'' \<mapsto> v] else Inl (ErrText ''not found''))"

lemma route_watch_complete_witness:
  "gatewayKey demoGw \<in> set (routeRequests (HTTPObj demoHTTP)) \<and>
   listRoutesLoop demoSelector (demoNs ''a'') demoGw
     (listedBy parentGatewayIndex [HTTPObj demoHTTP] (nnString (gatewayKey demoGw))) [] [] [] =
     Inr ([HTTPObj demoHTTP], [], [])"
proof -
  have "CHR ''/'' \<notin> set (gwNamespace demoGw)" by code_simp
  moreover have "list_all (\<lambda>r. slashless (objCommon r)) [HTTPObj demoHTTP]" by code_simp
  ultimately have
    "gatewayKey demoGw \<in> set (routeRequests (HTTPObj demoHTTP)) \<longleftrightarrow>
       hasParentRef demoGw (HTTPObj demoHTTP) \<or>
       (\<exists>s\<in>set (rtParents (objCommon (HTTPObj demoHTTP))). ownsEntry demoGw s)"
    and "listRoutesLoop demoSelector (demoNs ''a'') demoGw
       (listedBy parentGatewayIndex [HTTPObj demoHTTP] (nnString (gatewayKey demoGw))) [] [] [] =
     (case listRoutesLoop demoSelector (demoNs ''a'') demoGw [HTTPObj demoHTTP] [] [] [] of
        Inl err \<Rightarrow> Inl err
      | Inr (allowed, denied, stale) \<Rightarrow>
          Inr (allowed, denied,
               filter (\<lambda>r. \<exists>s\<in>set (rtParents (objCommon r)). ownsEntry demoGw s) stale))"
    using route_watch_complete [of demoGw "[HTTPObj demoHTTP]" "HTTPObj demoHTTP" demoSelector
        "demoNs ''a''"] by blast+
  moreover have "hasParentRef demoGw (HTTPObj demoHTTP)" by code_simp
  moreover have "listRoutesLoop demoSelector (demoNs ''a'') demoGw [HTTPObj demoHTTP] [] [] [] =
      Inr ([HTTPObj demoHTTP], [], [])" by code_simp
  ultimately show ?thesis by simp
qed

lemma grant_watch_complete_witness:
  "gatewayKey demoGw \<in> set (mapReferenceGrantToGateway
     (\<lambda>k. Inr (listedBy httpBackendServiceNSIndex [demoHTTP] k))
     (\<lambda>k. Inr (listedBy grpcBackendServiceNSIndex [] k)) ''data'' demoGrant)"
proof -
  have "HTTPObj demoHTTP \<in> HTTPObj ` set [demoHTTP] \<union> GRPCObj ` set []" by simp
  moreover have "hasParentRef demoGw (HTTPObj demoHTTP)" by code_simp
  moreover have "refersTo (HTTPObj demoHTTP) ''data'' ''db''" by code_simp
  moreover have "permits demoGrant (routeKind (HTTPObj demoHTTP))
      (rtNamespace (objCommon (HTTPObj demoHTTP))) KindService ''db''" by code_simp
  ultimately show ?thesis
    using grant_watch_complete [of demoGw "[demoHTTP]" "[]" "''data''" demoGrant "HTTPObj demoHTTP" "''db''"]
    by blast
qed

lemma namespace_watch_complete_witness:
  "gatewayKey demoGw \<in> set (mapNamespaceToGateway
     (\<lambda>k. Inr (listedBy namespaceSelectorIndex [demoGw] k)) demoSelector [''team'' \<mapsto> ''a''])"
proof -
  have a: "demoGw \<in> set [demoGw]" by simp
  have b: "demoNs ''b'' ''app'' = Inr [''team'' \<mapsto> ''b'']" "demoNs ''a'' ''app'' = Inr [''team'' \<mapsto> ''a'']"
    by (simp_all add: demoNs_def)
  have "routeNamespaceAllowed demoSelector (demoNs ''b'') demoGw ''app'' = Inr False"
    and "routeNamespaceAllowed demoSelector (demoNs ''a'') demoGw ''app'' = Inr True" by code_simp+
  then show ?thesis using namespace_watch_complete [where getOld = "demoNs ''b''" and getNew = "demoNs ''a''"
        and ps = demoSelector and was = False and now = True, OF a b] by simp
qed

end
