(* ===== verification/Preflight.thy ===== *)
theory Preflight
  imports GoErrors "HOL-Library.Multiset"
begin

text \<open>
  internal/controller/preflight.go: the check of the container image that precedes the
  reconciliation of a GatewayClass.  The environment variable, the FIPS mode and the file
  /etc/os-release are the record \<open>preflight_env\<close>; the order in which Go walks the map of the
  required versions is the parameter \<open>ord\<close>.
\<close>

section \<open>Unicode white space and case folding\<close>

text \<open>
  The UTF-8 encodings of the runes of \<^verbatim>\<open>unicode.IsSpace\<close>.  None is a part of another, so
  cutting them from either end of a byte string is what \<^verbatim>\<open>strings.TrimSpace\<close> does.
\<close>

definition spaceRunes :: "string list" where
  "spaceRunes =
     [[CHR 0x09], [CHR 0x0A], [CHR 0x0B], [CHR 0x0C], [CHR 0x0D], [CHR 0x20],
      [CHR 0xC2, CHR 0x85], [CHR 0xC2, CHR 0xA0],
      [CHR 0xE1, CHR 0x9A, CHR 0x80]] @
     map (\<lambda>c. [CHR 0xE2, CHR 0x80, c])
         [CHR 0x80, CHR 0x81, CHR 0x82, CHR 0x83, CHR 0x84, CHR 0x85,
          CHR 0x86, CHR 0x87, CHR 0x88, CHR 0x89, CHR 0x8A] @
     [[CHR 0xE2, CHR 0x80, CHR 0xA8], [CHR 0xE2, CHR 0x80, CHR 0xA9],
      [CHR 0xE2, CHR 0x80, CHR 0xAF], [CHR 0xE2, CHR 0x81, CHR 0x9F],
      [CHR 0xE3, CHR 0x80, CHR 0x80]]"

function trimBy :: "string list \<Rightarrow> string \<Rightarrow> string" where
  "trimBy runes s =
     (case find (\<lambda>p. p \<noteq> [] \<and> prefix p s) runes of
        None \<Rightarrow> s
      | Some p \<Rightarrow> trimBy runes (drop (length p) s))"
  by auto
termination
proof (relation "measure (\<lambda>(runes, s). length s)", simp)
  fix runes :: "string list" and s p
  assume "find (\<lambda>p. p \<noteq> [] \<and> prefix p s) runes = Some p"
  then have "p \<noteq> []" and "prefix p s" by (auto dest: find_Some_D)
  then show "((runes, drop (length p) s), (runes, s)) \<in> measure (\<lambda>(runes, s). length s)"
    by (cases s) auto
qed

declare trimBy.simps [simp del]

definition trimLeftSpace :: "string \<Rightarrow> string" where
  "trimLeftSpace s = trimBy spaceRunes s"

definition trimSpace :: "string \<Rightarrow> string" where
  "trimSpace s = rev (trimBy (map rev spaceRunes) (rev (trimLeftSpace s)))"

text \<open>
  \<^verbatim>\<open>strings.EqualFold\<close> where one side is ASCII, as the names of the required systems are: the
  only other runes that fold to ASCII are the Kelvin sign and the long s.
\<close>

fun foldRunes :: "string \<Rightarrow> nat list" where
  "foldRunes [] = []"
| "foldRunes (c # s) =
     (let n = of_char c :: nat in
      if prefix [CHR 0xE2, CHR 0x84, CHR 0xAA] (c # s) then 107 # foldRunes (drop 2 s)
      else if prefix [CHR 0xC5, CHR 0xBF] (c # s) then 115 # foldRunes (drop 1 s)
      else (if 65 \<le> n \<and> n \<le> 90 then n + 32 else n) # foldRunes s)"

definition equalFold :: "string \<Rightarrow> string \<Rightarrow> bool" where
  "equalFold s t \<longleftrightarrow> foldRunes s = foldRunes t"

text \<open>
  \<^verbatim>\<open>fmt.Sscanf(s, "%d", &n)\<close>: after leading space an optional sign and at least one digit,
  up to the first byte that is none; the rest of the input is not looked at.
\<close>

definition sscanInt :: "string \<Rightarrow> int option" where
  "sscanInt s =
     (let t = trimLeftSpace s;
          sign = (case t of [] \<Rightarrow> [] | c # r \<Rightarrow> if c = CHR ''-'' \<or> c = CHR ''+'' then [c] else []);
          digits = takeWhile isDigit (drop (length sign) t)
      in if digits = [] then None else parseInt64 (sign @ digits))"

section \<open>The code\<close>

record preflight_env =
  peServiceHost :: string
  peFIPSEnabled :: bool
  peOSRelease :: "go_error + string"

text \<open>A call that returns or panics.\<close>

datatype 'a outcome = Returned 'a | Panicked

definition WithContainerOS :: "string \<Rightarrow> int \<Rightarrow> (string \<times> int) list \<Rightarrow> (string \<times> int) list" where
  "WithContainerOS osName minVersion osMap = AList.update osName minVersion osMap"

abbreviation dquote :: char where "dquote \<equiv> CHR 0x22"
abbreviation squote :: char where "squote \<equiv> CHR 0x27"

text \<open>\<^verbatim>\<open>value[1 : len(value)-1]\<close> panics when the value is one quote.\<close>

definition unquoteValue :: "string \<Rightarrow> string outcome" where
  "unquoteValue value =
     (if (hasPrefix value [dquote] \<and> hasSuffix value [dquote]) \<or>
         (hasPrefix value [squote] \<and> hasSuffix value [squote])
      then (if length value < 2 then Panicked else Returned (take (length value - 2) (drop 1 value)))
      else Returned value)"

fun parseOSLines ::
  "string list \<Rightarrow> (string \<Rightarrow> string option) \<Rightarrow> (string \<Rightarrow> string option) outcome" where
  "parseOSLines [] result = Returned result"
| "parseOSLines (l # ls) result =
     (let line = trimSpace l in
      if line = [] \<or> hasPrefix line ''#'' then parseOSLines ls result
      else
        (case cutChar (CHR ''='') line of
           (k, v, found) \<Rightarrow>
             if \<not> found then parseOSLines ls result
             else (case unquoteValue (trimSpace v) of
                     Panicked \<Rightarrow> Panicked
                   | Returned value \<Rightarrow> parseOSLines ls (result(trimSpace k \<mapsto> value)))))"

definition ParseOSRelease :: "string \<Rightarrow> (go_error + (string \<Rightarrow> string option)) outcome" where
  "ParseOSRelease content =
     (case parseOSLines (splitChar (CHR 0x0A) content) Map.empty of
        Panicked \<Rightarrow> Panicked
      | Returned result \<Rightarrow>
          Returned (if result ''VERSION_ID'' = None
                    then Inl (ErrText ''missing VERSION_ID in OS release information'')
                    else Inr result))"

definition mapValue :: "(string \<Rightarrow> string option) \<Rightarrow> string \<Rightarrow> string" where
  "mapValue m k = (case m k of None \<Rightarrow> [] | Some v \<Rightarrow> v)"

text \<open>The loop over the required versions, in the order Go walks the map.\<close>

fun matchOS :: "(string \<Rightarrow> string option) \<Rightarrow> (string \<times> int) list \<Rightarrow> int option" where
  "matchOS osInfo [] = None"
| "matchOS osInfo ((osName, minVersion) # rest) =
     (if equalFold (mapValue osInfo ''PRETTY_NAME'') osName \<or>
         equalFold (mapValue osInfo ''ID'') osName
      then Some minVersion else matchOS osInfo rest)"

definition CheckOSMinimumVersion ::
  "(string \<times> int) list \<Rightarrow> (string \<Rightarrow> string option) \<Rightarrow> bool" where
  "CheckOSMinimumVersion osVersions osInfo =
     (case matchOS osInfo osVersions of
        None \<Rightarrow> False
      | Some matchedVersion \<Rightarrow>
          (let versionID = mapValue osInfo ''VERSION_ID'' in
           if versionID = [] then False
           else (case sscanInt versionID of
                   None \<Rightarrow> False
                 | Some actualVersion \<Rightarrow> actualVersion \<ge> matchedVersion)))"

definition PreflightChecks ::
  "((string \<times> int) list \<Rightarrow> (string \<times> int) list) \<Rightarrow> preflight_env
     \<Rightarrow> ((string \<times> int) list \<Rightarrow> (string \<times> int) list) list \<Rightarrow> go_error option outcome" where
  "PreflightChecks ord env options =
     (let containerOSMap = fold (\<lambda>opt opts. opt opts) options [] in
      if peServiceHost env = [] then Returned None
      else if \<not> peFIPSEnabled env then Returned (Some (ErrText ''FIPS 140-3 mode is not enabled''))
      else
        (case peOSRelease env of
           Inl err \<Rightarrow> Returned (Some (ErrWrap ''failed to read /etc/os-release: '' err))
         | Inr osRelease \<Rightarrow>
             (case ParseOSRelease osRelease of
                Panicked \<Rightarrow> Panicked
              | Returned (Inl err) \<Rightarrow> Returned (Some err)
              | Returned (Inr osInfo) \<Rightarrow>
                  if \<not> CheckOSMinimumVersion (ord containerOSMap) osInfo
                  then Returned (Some (ErrText
                    (''unsupported container OS version: '' @ mapValue osInfo ''VERSION'')))
                  else Returned None)))"

section \<open>Trimming\<close>

definition trimmed :: "string \<Rightarrow> bool" where
  "trimmed s \<longleftrightarrow> list_all (\<lambda>p. \<not> prefix p s \<and> \<not> suffix p s) spaceRunes"

lemma trimBy_id: "\<forall>p\<in>set runes. \<not> prefix p s \<Longrightarrow> trimBy runes s = s"
  by (subst trimBy.simps) (auto split: option.split dest: find_Some_D)

lemma trimSpace_trimmed: "trimmed s \<Longrightarrow> trimSpace s = s"
  by (simp add: trimSpace_def trimLeftSpace_def trimBy_id trimmed_def list_all_iff
      suffix_to_prefix)

text \<open>No space rune contains a byte of the syntax of the file.\<close>

lemma spaceRunes_bytes:
  "p \<in> set spaceRunes \<Longrightarrow> p \<noteq> [] \<and> CHR ''='' \<notin> set p \<and> dquote \<notin> set p \<and> squote \<notin> set p"
proof -
  have "list_all (\<lambda>p. p \<noteq> [] \<and> CHR ''='' \<notin> set p \<and> dquote \<notin> set p \<and> squote \<notin> set p) spaceRunes"
    by code_simp
  then show "p \<in> set spaceRunes \<Longrightarrow> ?thesis" by (simp add: list_all_iff)
qed

lemma prefix_before:
  assumes "prefix p (k @ c # r)" and "c \<notin> set p"
  shows "prefix p k"
proof -
  from assms(1) have "prefix p k \<or> (\<exists>us. p = k @ us \<and> prefix us (c # r))"
    by (simp add: prefix_append)
  then show ?thesis
  proof
    assume "\<exists>us. p = k @ us \<and> prefix us (c # r)"
    then obtain us where us: "p = k @ us" "prefix us (c # r)" by blast
    with assms(2) have "us = []" by (cases us) auto
    with us show ?thesis by simp
  qed
qed

lemma suffix_after:
  assumes "suffix p (k @ c # r)" and "c \<notin> set p"
  shows "suffix p r"
  using prefix_before [of "rev p" "rev r" c "rev k"] assms
  by (simp add: suffix_to_prefix)

lemma trimmed_line:
  assumes "trimmed k" and "trimmed v \<or> v = []" and "k \<noteq> []"
  shows "trimmed (k @ CHR ''='' # v)"
proof -
  have "\<not> prefix p (k @ CHR ''='' # v) \<and> \<not> suffix p (k @ CHR ''='' # v)" if p: "p \<in> set spaceRunes" for p
  proof
    show "\<not> prefix p (k @ CHR ''='' # v)"
      using prefix_before [of p k "CHR ''=''" v] spaceRunes_bytes [OF p] assms(1) p
      by (auto simp: trimmed_def list_all_iff)
    show "\<not> suffix p (k @ CHR ''='' # v)"
      using suffix_after [of p k "CHR ''=''" v] spaceRunes_bytes [OF p] assms(2) p
      by (auto simp: trimmed_def list_all_iff)
  qed
  then show ?thesis by (simp add: trimmed_def list_all_iff)
qed

lemma trimmed_quoted:
  assumes "c = dquote \<or> c = squote"
  shows "trimmed (c # v @ [c])"
proof -
  have "\<not> prefix p (c # v @ [c]) \<and> \<not> suffix p (c # v @ [c])" if p: "p \<in> set spaceRunes" for p
  proof -
    from spaceRunes_bytes [OF p] assms have "p \<noteq> []" "c \<notin> set p" by auto
    then show ?thesis
      using prefix_before [of p "[]" c "v @ [c]"] suffix_after [of p "c # v" c "[]"] by auto
  qed
  then show ?thesis by (simp add: trimmed_def list_all_iff)
qed

section \<open>Files\<close>

text \<open>
  The lines of an os-release file: entries with an unquoted or quoted value, and the lines the
  parser skips.
\<close>

datatype os_line = OtherLine string | Entry string "char option" string

fun renderLine :: "os_line \<Rightarrow> string" where
  "renderLine (OtherLine l) = l"
| "renderLine (Entry k q v) = k @ ''='' @ (case q of None \<Rightarrow> v | Some c \<Rightarrow> c # v @ [c])"

abbreviation newline :: char where "newline \<equiv> CHR 0x0A"

fun cleanLine :: "os_line \<Rightarrow> bool" where
  "cleanLine (OtherLine l) \<longleftrightarrow> newline \<notin> set l \<and> (trimSpace l = [] \<or> hasPrefix (trimSpace l) ''#'')"
| "cleanLine (Entry k q v) \<longleftrightarrow>
     k \<noteq> [] \<and> trimmed k \<and> hd k \<noteq> CHR ''#'' \<and> CHR ''='' \<notin> set k \<and> newline \<notin> set k \<and> newline \<notin> set v \<and>
     (case q of
        None \<Rightarrow> v = [] \<or> trimmed v \<and> hd v \<noteq> dquote \<and> hd v \<noteq> squote
      | Some c \<Rightarrow> c = dquote \<or> c = squote)"

fun lineEntries :: "os_line list \<Rightarrow> (string \<times> string) list" where
  "lineEntries [] = []"
| "lineEntries (OtherLine l # ls) = lineEntries ls"
| "lineEntries (Entry k q v # ls) = (k, v) # lineEntries ls"

definition osValues :: "os_line list \<Rightarrow> string \<Rightarrow> string option" where
  "osValues ls = map_of (rev (lineEntries ls))"

lemma splitChar_single: "c \<notin> set p \<Longrightarrow> splitChar c p = [p]"
  by (induction p) auto

lemma splitChar_append: "c \<notin> set p \<Longrightarrow> splitChar c (p @ c # r) = p # splitChar c r"
  by (induction p) auto

lemma splitChar_joinStr:
  assumes "list_all (\<lambda>l. c \<notin> set l) ls" and "ls \<noteq> []"
  shows "splitChar c (joinStr ls [c]) = ls"
  using assms
proof (induction ls "[c]" rule: joinStr.induct)
  case (3 x y r)
  then show ?case by (simp add: splitChar_append)
qed (simp_all add: splitChar_single)

lemma unquote_quoted: "c = dquote \<or> c = squote \<Longrightarrow> unquoteValue (c # v @ [c]) = Returned v"
  by (auto simp: unquoteValue_def suffix_to_prefix)

lemma unquote_plain:
  "v = [] \<or> hd v \<noteq> dquote \<and> hd v \<noteq> squote \<Longrightarrow> unquoteValue v = Returned v"
  by (cases v) (auto simp: unquoteValue_def)

lemma trimSpace_Nil [simp]: "trimSpace [] = []"
  by code_simp

lemma parse_entry:
  assumes "cleanLine (Entry k q v)"
  shows "parseOSLines (renderLine (Entry k q v) # ls) result = parseOSLines ls (result(k \<mapsto> v))"
proof -
  let ?val = "case q of None \<Rightarrow> v | Some c \<Rightarrow> c # v @ [c]"
  from assms have k: "k \<noteq> []" "trimmed k" "hd k \<noteq> CHR ''#''" "CHR ''='' \<notin> set k" by simp_all
  have val: "trimmed ?val \<or> ?val = []"
    using assms trimmed_quoted by (auto split: option.splits)
  have line: "trimSpace (k @ CHR ''='' # ?val) = k @ CHR ''='' # ?val"
    by (rule trimSpace_trimmed, rule trimmed_line [OF k(2) val k(1)])
  have "trimSpace ?val = ?val" using val trimSpace_trimmed by auto
  moreover have "unquoteValue ?val = Returned v"
    using assms unquote_plain [of v] unquote_quoted by (auto split: option.splits)
  moreover have "\<not> prefix ''#'' (k @ CHR ''='' # ?val)" using k(1,3) by (cases k) auto
  moreover have "cutChar (CHR ''='') (k @ CHR ''='' # ?val) = (k, ?val, True)"
    using k(4) by (rule cutChar_append)
  ultimately show ?thesis
    using line k(1) trimSpace_trimmed [OF k(2)] by simp
qed

lemma parse_other:
  "cleanLine (OtherLine l) \<Longrightarrow> parseOSLines (renderLine (OtherLine l) # ls) result = parseOSLines ls result"
  by (auto simp: Let_def)

lemma osValues_Entry: "osValues (Entry k q v # ls) = [k \<mapsto> v] ++ osValues ls"
  by (simp add: osValues_def)

lemma parse_lines:
  "list_all cleanLine ls \<Longrightarrow>
     parseOSLines (map renderLine ls) result = Returned (result ++ osValues ls)"
proof (induction ls arbitrary: result)
  case (Cons l ls)
  show ?case
  proof (cases l)
    case (OtherLine t)
    then show ?thesis
      using Cons parse_other [of t] by (simp add: osValues_def del: parseOSLines.simps renderLine.simps)
  next
    case (Entry k q v)
    then have "parseOSLines (map renderLine (l # ls)) result = Returned ((result(k \<mapsto> v)) ++ osValues ls)"
      using Cons parse_entry [of k q v] by (simp del: parseOSLines.simps renderLine.simps)
    then show ?thesis
      unfolding Entry osValues_Entry map_add_assoc by simp
  qed
qed (simp add: osValues_def)

lemma ParseOSRelease_clean:
  assumes "list_all cleanLine ls"
  shows "ParseOSRelease (joinStr (map renderLine ls) [newline]) =
     Returned (if osValues ls ''VERSION_ID'' = None
               then Inl (ErrText ''missing VERSION_ID in OS release information'')
               else Inr (osValues ls))"
proof (cases "ls = []")
  case True
  then show ?thesis by (simp add: ParseOSRelease_def osValues_def Let_def)
next
  case False
  have "newline \<notin> set (renderLine l)" if "cleanLine l" for l
    using that by (cases l) (auto split: option.splits)
  then have "list_all (\<lambda>l. newline \<notin> set l) (map renderLine ls)"
    using assms by (auto simp: list_all_iff)
  then have "splitChar newline (joinStr (map renderLine ls) [newline]) = map renderLine ls"
    using False by (simp add: splitChar_joinStr)
  then show ?thesis
    using parse_lines [OF assms, of Map.empty] by (simp add: ParseOSRelease_def)
qed

section \<open>Properties\<close>

text \<open>
  What an os-release file says is read back: of a file written from comments, blank lines and
  entries with unquoted, double-quoted or single-quoted values, ParseOSRelease returns the
  value of each key in its last entry, and the error exactly when no entry is for
  \<^verbatim>\<open>VERSION_ID\<close>; it does not panic.
\<close>

lemma os_release_roundtrip:
  assumes "list_all cleanLine ls"
  shows "ParseOSRelease (joinStr (map renderLine ls) [newline]) =
     Returned (if osValues ls ''VERSION_ID'' = None
               then Inl (ErrText ''missing VERSION_ID in OS release information'')
               else Inr (osValues ls))"
  using assms by (rule ParseOSRelease_clean)

definition isOS :: "(string \<Rightarrow> string option) \<Rightarrow> string \<Rightarrow> bool" where
  "isOS info name \<longleftrightarrow>
     equalFold (mapValue info ''PRETTY_NAME'') name \<or> equalFold (mapValue info ''ID'') name"

text \<open>The image says it is that system in that version or a later one.\<close>

definition atLeast :: "(string \<Rightarrow> string option) \<Rightarrow> string \<Rightarrow> int \<Rightarrow> bool" where
  "atLeast info name minVersion \<longleftrightarrow>
     isOS info name \<and> (\<exists>n. sscanInt (mapValue info ''VERSION_ID'') = Some n \<and> n \<ge> minVersion)"

abbreviation controllerOptions :: "((string \<times> int) list \<Rightarrow> (string \<times> int) list) list" where
  "controllerOptions \<equiv> [WithContainerOS ''distroless'' 12, WithContainerOS ''rhel'' 8]"

lemma controller_map: "fold (\<lambda>opt opts. opt opts) controllerOptions [] = [(''distroless'', 12), (''rhel'', 8)]"
  by (simp add: WithContainerOS_def)

lemma sscanInt_Nil: "sscanInt [] = None"
  by code_simp

lemma Check_iff:
  "CheckOSMinimumVersion vs info \<longleftrightarrow>
     (\<exists>m n. matchOS info vs = Some m \<and> sscanInt (mapValue info ''VERSION_ID'') = Some n \<and> n \<ge> m)"
  using sscanInt_Nil by (auto simp: CheckOSMinimumVersion_def Let_def split: option.splits)

lemma matchOS_Cons: "matchOS info ((a, m) # r) = (if isOS info a then Some m else matchOS info r)"
  by (simp add: isOS_def)

lemma check_two:
  assumes "mset vs = mset [(a, m), (b, n)]" and "\<not> (isOS info a \<and> isOS info b)"
  shows "CheckOSMinimumVersion vs info \<longleftrightarrow> atLeast info a m \<or> atLeast info b n"
proof -
  obtain x y where vs: "vs = [x, y]" using mset_eq_length [OF assms(1)]
    by (auto simp: length_Suc_conv)
  with assms(1) have "vs = [(a, m), (b, n)] \<or> vs = [(b, n), (a, m)]"
    by (auto simp: add_eq_conv_ex)
  then show ?thesis
    using assms(2)
    by (elim disjE) (auto simp: Check_iff matchOS_Cons atLeast_def simp del: matchOS.simps(2))
qed

text \<open>
  Which container images pass: in a cluster the checks pass exactly when FIPS mode is on, the
  file can be read and parsed, and its system is the distroless one with a version of at least
  12, or RHEL with at least 8, by the integer its version starts with.  The order in which Go
  walks the required versions does not matter for a file that names one of the two at most.
  Outside a cluster nothing is checked.
\<close>

lemma preflight_exact:
  assumes "\<And>vs. mset (ord vs) = mset vs"
    and "\<And>content info. peOSRelease env = Inr content \<Longrightarrow>
      ParseOSRelease content = Returned (Inr info) \<Longrightarrow> \<not> (isOS info ''distroless'' \<and> isOS info ''rhel'')"
  shows "PreflightChecks ord env controllerOptions = Returned None \<longleftrightarrow>
     peServiceHost env = [] \<or>
     peFIPSEnabled env \<and>
     (\<exists>content info. peOSRelease env = Inr content \<and> ParseOSRelease content = Returned (Inr info) \<and>
        (atLeast info ''distroless'' 12 \<or> atLeast info ''rhel'' 8))"
proof -
  have "CheckOSMinimumVersion (ord [(''distroless'', 12), (''rhel'', 8)]) info \<longleftrightarrow>
      atLeast info ''distroless'' 12 \<or> atLeast info ''rhel'' 8"
    if "peOSRelease env = Inr content" "ParseOSRelease content = Returned (Inr info)" for content info
    using check_two [OF assms(1) assms(2) [OF that]] .
  then show ?thesis
    unfolding PreflightChecks_def Let_def controller_map
    by (auto split: sum.splits outcome.splits if_splits)
qed

text \<open>A value of a single quote makes the parser slice beyond the value and panic.\<close>

lemma lone_quote_panics:
  "ParseOSRelease (''VERSION_ID=12'' @ [newline] @ ''NOTE='' @ [squote]) = Panicked"
proof -
  have "case ParseOSRelease (''VERSION_ID=12'' @ [newline] @ ''NOTE='' @ [squote]) of
      Panicked \<Rightarrow> True | Returned r \<Rightarrow> False" by code_simp
  then show ?thesis by (simp split: outcome.splits)
qed

section \<open>Witnesses\<close>

definition demoRelease :: "os_line list" where
  "demoRelease =
     [OtherLine ''# Debian'', OtherLine [], Entry ''PRETTY_NAME'' (Some dquote) ''Distroless'',
      Entry ''ID'' None ''debian'', Entry ''VERSION_ID'' (Some squote) ''12.5'']"

lemma os_release_roundtrip_witness:
  "ParseOSRelease (joinStr (map renderLine demoRelease) [newline]) = Returned (Inr (osValues demoRelease))
   \<and> osValues demoRelease ''VERSION_ID'' = Some ''12.5''"
proof -
  have "list_all cleanLine demoRelease" by code_simp
  moreover have "osValues demoRelease ''VERSION_ID'' = Some ''12.5''" by code_simp
  ultimately show ?thesis using os_release_roundtrip [of demoRelease] by simp
qed

definition demoPreflight :: preflight_env where
  "demoPreflight = \<lparr>peServiceHost = ''10.0.0.1'', peFIPSEnabled = True,
     peOSRelease = Inr (joinStr (map renderLine demoRelease) [newline])\<rparr>"

lemma demoRelease_info:
  assumes "peOSRelease demoPreflight = Inr content"
  shows "ParseOSRelease content = Returned (Inr (osValues demoRelease))"
proof -
  have "list_all cleanLine demoRelease" "osValues demoRelease ''VERSION_ID'' \<noteq> None" by code_simp+
  then show ?thesis
    using assms ParseOSRelease_clean [of demoRelease] by (simp add: demoPreflight_def)
qed

lemma preflight_exact_witness:
  "PreflightChecks (\<lambda>vs. vs) demoPreflight controllerOptions = Returned None"
proof -
  have "\<not> (isOS info ''distroless'' \<and> isOS info ''rhel'')"
    if "peOSRelease demoPreflight = Inr content" "ParseOSRelease content = Returned (Inr info)"
    for content info
  proof -
    have "info = osValues demoRelease" using demoRelease_info [OF that(1)] that(2) by simp
    moreover have "\<not> isOS (osValues demoRelease) ''rhel''" by code_simp
    ultimately show ?thesis by simp
  qed
  then have "PreflightChecks (\<lambda>vs. vs) demoPreflight controllerOptions = Returned None \<longleftrightarrow>
     peServiceHost demoPreflight = [] \<or> peFIPSEnabled demoPreflight \<and>
     (\<exists>content info. peOSRelease demoPreflight = Inr content \<and>
        ParseOSRelease content = Returned (Inr info) \<and>
        (atLeast info ''distroless'' 12 \<or> atLeast info ''rhel'' 8))"
    using preflight_exact [of "\<lambda>vs. vs" demoPreflight] by simp
  moreover have "isOS (osValues demoRelease) ''distroless''"
    and "sscanInt (mapValue (osValues demoRelease) ''VERSION_ID'') = Some 12" by code_simp+
  then have "atLeast (osValues demoRelease) ''distroless'' 12" by (simp add: atLeast_def)
  moreover have "peOSRelease demoPreflight = Inr (joinStr (map renderLine demoRelease) [newline])"
    and "peFIPSEnabled demoPreflight" by (simp_all add: demoPreflight_def)
  ultimately show ?thesis using demoRelease_info by blast
qed

end
