(* ===== verification/GatewayClass.thy ===== *)
theory GatewayClass
  imports GatewayHelpers WatchProps Preflight
begin

text \<open>
  internal/controller/gatewayclass_controller.go: the reconciliation of a GatewayClass, which
  checks the version of the installed Gateway API and the credentials Secret and reports
  whether the class is accepted.  The version library and the read of the CRD's metadata are
  parameters, and so is what the event recorder makes of a note without arguments, which it
  formats like any other.
\<close>

record semver =
  svMajor :: nat
  svMinor :: nat
  svOriginal :: string

record 'w class_env =
  ceGetCRD :: "string \<Rightarrow> 'w \<Rightarrow> (go_error + (string \<Rightarrow> string option)) \<times> 'w"
  ceNewVersion :: "string \<Rightarrow> go_error + semver"
  ceAPIVersion :: semver
  cePreflight :: preflight_env
  ceMapOrder :: "(string \<times> int) list \<Rightarrow> (string \<times> int) list"
  ceNote :: "string \<Rightarrow> string"
  ceTerminalText :: "string \<Rightarrow> string"

abbreviation ReasonUnsupportedVersion :: string where
  "ReasonUnsupportedVersion \<equiv> ''UnsupportedVersion''"
abbreviation ReasonInvalidParameters :: string where
  "ReasonInvalidParameters \<equiv> ''InvalidParameters''"
abbreviation ConditionSupportedVersion :: string where
  "ConditionSupportedVersion \<equiv> ''SupportedVersion''"

section \<open>The checks\<close>

definition versionMessage :: "string \<Rightarrow> semver \<Rightarrow> string" where
  "versionMessage bundleVersion v =
     ''Gateway API CRD version '' @ goQuote bundleVersion @ '' is not compatible with binary version ''
       @ goQuote (svOriginal v) @ '' (need same major and minor >= '' @ showNat (svMinor v) @ '')''"

definition checkSupportedVersion :: "'w class_env \<Rightarrow> 'w \<Rightarrow> (go_error + bool \<times> string) \<times> 'w" where
  "checkSupportedVersion env w =
     (case ceGetCRD env CRDGatewayClass w of
        (Inl err, w') \<Rightarrow>
          if errNotFound err
          then (Inr (False, ''Gateway API CRD '' @ CRDGatewayClass @ '' not found''), w')
          else (Inl (ErrWrap ''getting Gateway API CRD: '' err), w')
      | (Inr annotations, w') \<Rightarrow>
          (case annotations AnnotationBundleVersion of
             None \<Rightarrow>
               (Inr (False, ''Gateway API CRD is missing '' @ AnnotationBundleVersion @ '' annotation''), w')
           | Some bundleVersion \<Rightarrow>
               (case ceNewVersion env bundleVersion of
                  Inl err \<Rightarrow>
                    (Inr (False, ''Failed to parse CRD bundle version '' @ goQuote bundleVersion @ '': ''
                            @ errMsg (ceTerminalText env) err), w')
                | Inr crdVersion \<Rightarrow>
                    if svMajor crdVersion \<noteq> svMajor (ceAPIVersion env) \<or>
                       svMinor crdVersion < svMinor (ceAPIVersion env)
                    then (Inr (False, versionMessage bundleVersion (ceAPIVersion env)), w')
                    else (Inr (True, ''Gateway API CRD version '' @ goQuote bundleVersion
                                 @ '' is supported''), w'))))"

definition checkParametersRef ::
  "'w cluster \<Rightarrow> gateway_class \<Rightarrow> 'w \<Rightarrow> (go_error + bool \<times> string) \<times> 'w" where
  "checkParametersRef cl gc w =
     (case gcParametersRef gc of
        None \<Rightarrow> (Inr (True, ''No parametersRef configured''), w)
      | Some ref \<Rightarrow>
          if cprKind ref \<noteq> KindSecret \<or> (cprGroup ref \<noteq> [] \<and> cprGroup ref \<noteq> ''core'')
          then (Inr (False, ''parametersRef must reference a core/v1 Secret, got '' @ cprGroup ref @ ''/''
                       @ cprKind ref), w)
          else
            (case cprNamespace ref of
               None \<Rightarrow>
                 (Inr (False,
                    ''parametersRef must specify a namespace (Secret is a namespaced resource)''), w)
             | Some ns \<Rightarrow>
                 (case clGetSecret cl (ns, cprName ref) w of
                    (Inl err, w') \<Rightarrow>
                      if errNotFound err
                      then (Inr (False, ''Secret '' @ ns @ ''/'' @ cprName ref @ '' not found''), w')
                      else (Inl (ErrWrap (''getting Secret '' @ ns @ ''/'' @ cprName ref @ '': '') err), w')
                  | (Inr data, w') \<Rightarrow>
                      if mapGet data ''CLOUDFLARE_API_TOKEN'' = [] \<or>
                         mapGet data ''CLOUDFLARE_ACCOUNT_ID'' = []
                      then (Inr (False, ''Secret '' @ ns @ ''/'' @ cprName ref
                                   @ '' must contain CLOUDFLARE_API_TOKEN and CLOUDFLARE_ACCOUNT_ID''), w')
                      else (Inr (True, ''parametersRef is valid''), w'))))"

section \<open>The status\<close>

text \<open>The statuses, reasons and messages chosen by the \<^verbatim>\<open>switch\<close>; a condition without its time.\<close>

record verdict =
  vdType :: string
  vdStatus :: string
  vdReason :: string
  vdMessage :: string

definition classVerdicts :: "bool \<times> string \<Rightarrow> bool \<times> string \<Rightarrow> verdict list" where
  "classVerdicts version params =
     (let (supportedVersion, supportedVersionMessage) = version;
          (validParams, validParamsMessage) = params;
          verdict = (\<lambda>t s r m. \<lparr>vdType = t, vdStatus = s, vdReason = r, vdMessage = m\<rparr>)
      in if \<not> supportedVersion
         then [verdict ConditionAccepted ConditionFalse ReasonUnsupportedVersion supportedVersionMessage,
               verdict ConditionSupportedVersion ConditionFalse ReasonUnsupportedVersion
                 supportedVersionMessage,
               verdict ConditionReady ConditionFalse ReasonUnsupportedVersion supportedVersionMessage]
         else if \<not> validParams
         then [verdict ConditionAccepted ConditionFalse ReasonInvalidParameters validParamsMessage,
               verdict ConditionSupportedVersion ConditionTrue ConditionSupportedVersion
                 supportedVersionMessage,
               verdict ConditionReady ConditionFalse ReasonInvalidParameters validParamsMessage]
         else [verdict ConditionAccepted ConditionTrue ConditionAccepted ''GatewayClass is accepted'',
               verdict ConditionSupportedVersion ConditionTrue ConditionSupportedVersion
                 supportedVersionMessage,
               verdict ConditionReady ConditionTrue ReasonReconciliationSucceeded
                 ''GatewayClass is ready''])"

definition desiredFeatures :: "string list" where
  "desiredFeatures =
     [''Gateway'', ''GatewayInfrastructurePropagation'', ''GRPCRoute'', ''HTTPRoute'', ''ReferenceGrant'']"

definition verdictChanged :: "gateway_class \<Rightarrow> verdict \<Rightarrow> bool" where
  "verdictChanged gc v =
     condChanged (gcConditions gc) (vdType v) (vdStatus v) (vdReason v) (vdMessage v) (gcGeneration gc)"

definition verdictCondition :: "gateway_class \<Rightarrow> int \<Rightarrow> verdict \<Rightarrow> condition" where
  "verdictCondition gc now v =
     \<lparr>condType = vdType v, condStatus = vdStatus v, condObservedGeneration = gcGeneration gc,
      condLastTransitionTime = now, condReason = vdReason v, condMessage = vdMessage v\<rparr>"

text \<open>The object the status patch writes.\<close>

definition desiredClass :: "gateway_class \<Rightarrow> verdict list \<Rightarrow> int \<Rightarrow> gateway_class" where
  "desiredClass gc verdicts now =
     gc\<lparr>gcConditions := condSet (gcConditions gc) (map (verdictCondition gc now) verdicts),
        gcSupportedFeatures := desiredFeatures\<rparr>"

text \<open>\<^verbatim>\<open>r.Eventf\<close> on the class.\<close>

definition classEvent :: "string \<Rightarrow> string \<Rightarrow> string \<Rightarrow> gateway_class \<Rightarrow> kevent" where
  "classEvent typ reason note gc =
     \<lparr>keObject = gcName gc, keType = typ, keReason = reason, keAction = ''Reconcile'', keNote = note\<rparr>"

definition classReconcileError ::
  "'w class_env \<Rightarrow> 'w cluster \<Rightarrow> gateway_class \<Rightarrow> go_error \<Rightarrow> 'w \<Rightarrow> go_error option \<times> 'w" where
  "classReconcileError env cl gc err w =
     (case clNow cl w of
        (now, w1) \<Rightarrow>
          (let msg = errMsg (ceTerminalText env) err;
               gc' = gc\<lparr>gcConditions := condUpsert (gcConditions gc)
                   \<lparr>condType = ConditionReady, condStatus = ConditionUnknown,
                    condObservedGeneration = gcGeneration gc, condLastTransitionTime = now,
                    condReason = ReasonProgressingWithRetry, condMessage = msg\<rparr>\<rparr>;
               w2 = snd (clPatchClassStatus cl gc gc' w1);
               w3 = clEvent cl (classEvent ''Warning'' ReasonProgressingWithRetry
                      (''Reconciliation failed: '' @ msg) gc) w2
           in (Some err, w3)))"

section \<open>Reconciliation\<close>

text \<open>The part after the checks: skip, patch and event.\<close>

definition classPatchStatus ::
  "'w class_env \<Rightarrow> 'w cluster \<Rightarrow> gateway_class \<Rightarrow> verdict list \<Rightarrow> 'w \<Rightarrow> go_error option \<times> 'w" where
  "classPatchStatus env cl gc verdicts w =
     (if \<not> list_ex (verdictChanged gc) verdicts \<and> gcSupportedFeatures gc = desiredFeatures
      then (None, w)
      else
        (let ready = verdicts ! 2;
             readyTerminal = (vdStatus ready = ConditionFalse \<and> verdictChanged gc ready)
         in case clNow cl w of
              (now, w1) \<Rightarrow>
                (case clPatchClassStatus cl gc (desiredClass gc verdicts now) w1 of
                   (Some err, w2) \<Rightarrow> (Some err, w2)
                 | (None, w2) \<Rightarrow>
                     if readyTerminal
                     then (None, clEvent cl (classEvent ''Warning'' (vdReason ready)
                                   (ceNote env (vdMessage ready)) gc) w2)
                     else (None, clEvent cl (classEvent ''Normal'' ReasonReconciliationSucceeded
                                   (ceNote env ''GatewayClass reconciled'') gc) w2))))"

definition classReconcile ::
  "'w class_env \<Rightarrow> 'w cluster \<Rightarrow> gateway_class \<Rightarrow> 'w \<Rightarrow> go_error option outcome \<times> 'w" where
  "classReconcile env cl gc w =
     (case PreflightChecks (ceMapOrder env) (cePreflight env)
             [WithContainerOS ''distroless'' 12, WithContainerOS ''rhel'' 8] of
        Panicked \<Rightarrow> (Panicked, w)
      | Returned (Some err) \<Rightarrow> (Returned None, w)
      | Returned None \<Rightarrow>
          (case checkSupportedVersion env w of
             (Inl err, w1) \<Rightarrow>
               (case classReconcileError env cl gc err w1 of (r, w2) \<Rightarrow> (Returned r, w2))
           | (Inr version, w1) \<Rightarrow>
               (case checkParametersRef cl gc w1 of
                  (Inl err, w2) \<Rightarrow>
                    (case classReconcileError env cl gc err w2 of (r, w3) \<Rightarrow> (Returned r, w3))
                | (Inr params, w2) \<Rightarrow>
                    (case classPatchStatus env cl gc (classVerdicts version params) w2 of
                       (r, w3) \<Rightarrow> (Returned r, w3)))))"

definition classReconcileRequest ::
  "'w class_env \<Rightarrow> 'w cluster \<Rightarrow> string \<Rightarrow> 'w \<Rightarrow> go_error option outcome \<times> 'w" where
  "classReconcileRequest env cl name w =
     (case clGetClass cl name w of
        (Inl err, w1) \<Rightarrow> (Returned (ignoreNotFound (Some err)), w1)
      | (Inr gc, w1) \<Rightarrow>
          if gcControllerName gc \<noteq> ControllerName then (Returned None, w1)
          else if gcDeleted gc then (Returned None, w1)
          else classReconcile env cl gc w1)"

section \<open>What the checks decide\<close>

text \<open>The CRD is there, its annotation is a version, and the version is compatible.\<close>

definition compatible :: "'w class_env \<Rightarrow> 'w \<Rightarrow> bool" where
  "compatible env w \<longleftrightarrow>
     (\<exists>annotations bundleVersion v.
        fst (ceGetCRD env CRDGatewayClass w) = Inr annotations \<and>
        annotations AnnotationBundleVersion = Some bundleVersion \<and>
        ceNewVersion env bundleVersion = Inr v \<and>
        svMajor v = svMajor (ceAPIVersion env) \<and> svMinor v \<ge> svMinor (ceAPIVersion env))"

text \<open>The class names no Secret, or one with both keys.\<close>

definition usableRef :: "'w cluster \<Rightarrow> class_params_ref \<Rightarrow> 'w \<Rightarrow> bool" where
  "usableRef cl ref w \<longleftrightarrow>
     cprKind ref = KindSecret \<and> cprGroup ref \<in> {[], ''core''} \<and>
     (\<exists>ns data. cprNamespace ref = Some ns \<and> fst (clGetSecret cl (ns, cprName ref) w) = Inr data \<and>
        mapGet data ''CLOUDFLARE_API_TOKEN'' \<noteq> [] \<and> mapGet data ''CLOUDFLARE_ACCOUNT_ID'' \<noteq> [])"

lemma checkSupportedVersion_ok:
  "checkSupportedVersion env w = (Inr (b, m), w') \<Longrightarrow> b \<longleftrightarrow> compatible env w"
proof -
  assume r: "checkSupportedVersion env w = (Inr (b, m), w')"
  obtain res w1 where crd: "ceGetCRD env CRDGatewayClass w = (res, w1)" by (rule prod.exhaust)
  show ?thesis
  proof (cases res)
    case (Inl err)
    then show ?thesis
      using r crd by (auto simp: checkSupportedVersion_def compatible_def split: if_splits)
  next
    case (Inr annotations)
    then show ?thesis
      using r crd
      by (auto simp: checkSupportedVersion_def compatible_def split: option.splits sum.splits if_splits)
  qed
qed

lemma checkParametersRef_ok:
  "checkParametersRef cl gc w = (Inr (b, m), w') \<Longrightarrow>
     b \<longleftrightarrow> pred_option (\<lambda>ref. usableRef cl ref w) (gcParametersRef gc)"
proof (cases "gcParametersRef gc")
  case (Some ref)
  assume r: "checkParametersRef cl gc w = (Inr (b, m), w')"
  show ?thesis
  proof (cases "cprNamespace ref")
    case None
    then show ?thesis
      using r Some by (auto simp: checkParametersRef_def usableRef_def split: if_splits)
  next
    case ns: (Some ns)
    obtain res w1 where g: "clGetSecret cl (ns, cprName ref) w = (res, w1)" by (rule prod.exhaust)
    then show ?thesis
      using r Some ns
      by (cases res) (auto simp: checkParametersRef_def usableRef_def split: if_splits)
  qed
qed (simp add: checkParametersRef_def)

lemma condSet_steady:
  assumes "distinct (map condType desired)" and "d \<in> set desired"
  shows "\<not> condChanged (condSet ex desired) (condType d) (condStatus d) (condReason d)
            (condMessage d) (condObservedGeneration d)"
  using condFind_mem_distinct [OF assms]
  by (simp add: condSet_map condFind_map_keep condChanged_iff)

lemma verdicts_distinct: "distinct (map vdType (classVerdicts version params))"
  by (cases version; cases params) (simp add: classVerdicts_def)

lemma verdicts_steady:
  assumes "v \<in> set verdicts" and "distinct (map vdType verdicts)"
  shows "\<not> verdictChanged (desiredClass gc verdicts now) v"
proof -
  have "condType \<circ> verdictCondition gc now = vdType"
    by (rule ext) (simp add: verdictCondition_def)
  then have "distinct (map condType (map (verdictCondition gc now) verdicts))"
    using assms(2) by simp
  from condSet_steady [OF this, of "verdictCondition gc now v" "gcConditions gc"] assms(1)
  show ?thesis by (simp add: verdictChanged_def desiredClass_def verdictCondition_def)
qed

lemma verdict_status:
  "v \<in> set (classVerdicts version params) \<Longrightarrow>
     vdStatus v = (if fst version \<and> (vdType v \<noteq> ConditionSupportedVersion \<longrightarrow> fst params)
                   then ConditionTrue else ConditionFalse)"
  by (cases version; cases params) (auto simp: classVerdicts_def split: if_splits)

lemma verdict_types:
  "map vdType (classVerdicts version params) = [ConditionAccepted, ConditionSupportedVersion, ConditionReady]"
  by (cases version; cases params) (simp add: classVerdicts_def)

lemma conditionStatus_condFind:
  "conditionStatus cs t = (case condFind cs t of None \<Rightarrow> [] | Some c \<Rightarrow> condStatus c)"
  by (induction cs) auto

lemma desired_status:
  assumes "v \<in> set verdicts" and "distinct (map vdType verdicts)"
  shows "conditionStatus (gcConditions (desiredClass gc verdicts now)) (vdType v) = vdStatus v"
proof -
  have "\<not> verdictChanged (desiredClass gc verdicts now) v" using assms by (rule verdicts_steady)
  then show ?thesis
    by (auto simp: verdictChanged_def condChanged_iff conditionStatus_condFind split: option.splits)
qed

abbreviation preflightPasses :: "'w class_env \<Rightarrow> bool" where
  "preflightPasses env \<equiv> PreflightChecks (ceMapOrder env) (cePreflight env)
     [WithContainerOS ''distroless'' 12, WithContainerOS ''rhel'' 8] = Returned None"

lemma classReconcile_checked:
  assumes "preflightPasses env" and "checkSupportedVersion env w = (Inr version, w1)"
    and "checkParametersRef cl gc w1 = (Inr params, w2)"
  shows "classReconcile env cl gc w =
     (case classPatchStatus env cl gc (classVerdicts version params) w2 of (r, w3) \<Rightarrow> (Returned r, w3))"
  using assms by (simp add: classReconcile_def)

lemma checkParametersRef_cong:
  "gcParametersRef gc' = gcParametersRef gc \<Longrightarrow> checkParametersRef cl gc' w = checkParametersRef cl gc w"
  by (simp add: checkParametersRef_def)

section \<open>Properties\<close>


text \<open>
  C32. Reconciling a GatewayClass settles: on the class the status patch has written, another
  reconciliation whose checks give the same answers writes nothing and sends no event, whatever
  its clock says; it leaves the world as the checks left it.
\<close>

theorem gateway_class_settles:
  assumes "preflightPasses env"
    and "checkSupportedVersion env w = (Inr version, w1)"
    and "checkParametersRef cl gc w1 = (Inr params, w2)"
  shows "classReconcile env cl (desiredClass gc (classVerdicts version params) now) w = (Returned None, w2)"
proof -
  let ?vs = "classVerdicts version params"
  let ?gc = "desiredClass gc ?vs now"
  have "checkParametersRef cl ?gc w1 = (Inr params, w2)"
    using assms(3) checkParametersRef_cong [of ?gc gc cl w1] by (simp add: desiredClass_def)
  from classReconcile_checked [OF assms(1,2) this] show ?thesis
    using verdicts_steady [OF _ verdicts_distinct]
    by (simp add: classPatchStatus_def list_ex_iff) (simp add: desiredClass_def)
qed

text \<open>
  What the class check accepts, the Gateways can use: when the check of a class that names a
  Secret succeeds, a Gateway that a ReferenceGrant lets read it gets its credentials from the
  class, with a token and an account that are not empty; when the check fails, the Gateway gets
  an error.
\<close>

lemma class_credentials_agree:
  assumes "checkParametersRef cl gc w = (Inr (ok, m), w')"
    and "gcParametersRef gc = Some ref"
    and "\<And>ns. cprNamespace ref = Some ns \<Longrightarrow> secretReferenceGranted lg (gwNamespace gw) ns (cprName ref) = Inr True"
  shows "if ok
     then \<exists>cfg. readCredentialsFromGatewayClass cl lg gc gw w = (Inr cfg, w') \<and>
            ccAPIToken cfg \<noteq> [] \<and> ccAccountID cfg \<noteq> []
     else isl (fst (readCredentialsFromGatewayClass cl lg gc gw w))"
proof (cases "cprNamespace ref")
  case None
  then show ?thesis
    using assms(1,2)
    by (auto simp: checkParametersRef_def readCredentialsFromGatewayClass_def split: if_splits)
next
  case (Some ns)
  obtain res w1 where g: "clGetSecret cl (ns, cprName ref) w = (res, w1)" by (rule prod.exhaust)
  show ?thesis
    using assms(1,2) assms(3) [OF Some] Some g
    by (cases res)
       (auto simp: checkParametersRef_def readCredentialsFromGatewayClass_def readSecretCredentials_def
          Let_def split: if_splits)
qed

section \<open>Witnesses\<close>

text \<open>
  A cluster in which nothing is found and every write succeeds, and one with a credentials
  Secret that records the events and the written classes.
\<close>

definition idleCluster :: "'w cluster" where
  "idleCluster =
     \<lparr>clNow = \<lambda>w. (7, w), clRand32 = \<lambda>w. (Inr [], w), clWaitSecond = \<lambda>w. (None, w),
      clEvent = \<lambda>e w. w, clList = \<lambda>k n l w. (Inr [], w),
      clGet = \<lambda>k n w. (Inl (ErrKube KNotFound ''not found''), w), clPatch = \<lambda>a b w. (None, w),
      clDelete = \<lambda>a w. (None, w),
      clGetDeployment = \<lambda>n w. (Inl (ErrKube KNotFound ''not found''), w),
      clApply = \<lambda>ob w. (Inr UnchangedAction, w),
      clCreateOrUpdateSecret = \<lambda>s f w. (Inr OperationResultNone, w),
      clCreateOrUpdateConfigMap = \<lambda>s f w. (Inr OperationResultNone, w),
      clGetSecret = \<lambda>n w. (Inl (ErrKube KNotFound ''not found''), w),
      clGetParams = \<lambda>n w. (Inl (ErrKube KNotFound ''not found''), w),
      clGetGateway = \<lambda>n w. (Inl (ErrKube KNotFound ''not found''), w),
      clPatchGateway = \<lambda>a b w. (None, w), clPatchGatewayStatus = \<lambda>a b w. (None, w),
      clGetClass = \<lambda>n w. (Inl (ErrKube KNotFound ''not found''), w),
      clListClasses = \<lambda>f w. (Inr [], w), clPatchClass = \<lambda>a b w. (None, w),
      clPatchClassStatus = \<lambda>a b w. (None, w), clListHTTPRoutes = \<lambda>k w. (Inr [], w),
      clListGRPCRoutes = \<lambda>k w. (Inr [], w),
      clGetCGS = \<lambda>n w. (Inl (ErrKube KNotFound ''not found''), w),
      clCreateCGS = \<lambda>c w. (None, w), clPatchCGS = \<lambda>a b w. (None, w),
      clPatchCGSStatus = \<lambda>a b w. (None, w)\<rparr>"

type_synonym class_world = "kevent list \<times> gateway_class list"

definition classKube :: "class_world cluster" where
  "classKube = idleCluster
     \<lparr>clEvent := \<lambda>e (es, ps). (es @ [e], ps),
      clPatchClassStatus := \<lambda>a b (es, ps). (None, (es, ps @ [b])),
      clGetSecret := \<lambda>n w. (if n = (''infra'', ''cf'')
        then Inr [''CLOUDFLARE_API_TOKEN'' \<mapsto> ''t'', ''CLOUDFLARE_ACCOUNT_ID'' \<mapsto> ''a'']
        else Inl (ErrKube KNotFound ''not found''), w)\<rparr>"

definition classEnv :: "string \<Rightarrow> class_world class_env" where
  "classEnv bundleVersion =
     \<lparr>ceGetCRD = \<lambda>n w. (Inr [AnnotationBundleVersion \<mapsto> bundleVersion], w),
      ceNewVersion = \<lambda>s. Inr \<lparr>svMajor = 1, svMinor = 4, svOriginal = s\<rparr>,
      ceAPIVersion = \<lparr>svMajor = 1, svMinor = 4, svOriginal = ''1.4.0''\<rparr>,
      cePreflight = \<lparr>peServiceHost = [], peFIPSEnabled = False, peOSRelease = Inl ErrCanceled\<rparr>,
      ceMapOrder = (\<lambda>vs. vs), ceNote = (\<lambda>s. s), ceTerminalText = (\<lambda>s. s)\<rparr>"

definition classOf :: "string \<Rightarrow> gateway_class" where
  "classOf secretName =
     \<lparr>gcName = ''cf'', gcControllerName = ControllerName, gcGeneration = 1, gcDeleted = False,
      gcFinalizers = [], gcParametersRef = Some \<lparr>cprGroup = [], cprKind = KindSecret,
        cprNamespace = Some ''infra'', cprName = secretName\<rparr>,
      gcConditions = [], gcSupportedFeatures = []\<rparr>"

lemma classEnv_passes [simp]: "preflightPasses (classEnv b)"
  by (simp add: PreflightChecks_def classEnv_def)

abbreviation supported :: "string \<Rightarrow> bool \<times> string" where
  "supported b \<equiv> (True, ''Gateway API CRD version '' @ goQuote b @ '' is supported'')"

lemma classEnv_version: "checkSupportedVersion (classEnv b) w = (Inr (supported b), w)"
  by (simp add: checkSupportedVersion_def classEnv_def)

lemma classKube_params:
  "checkParametersRef classKube (classOf ''cf'') w = (Inr (True, ''parametersRef is valid''), w)"
  "checkParametersRef classKube (classOf ''no'') w = (Inr (False, ''Secret infra/no not found''), w)"
  by (simp_all add: checkParametersRef_def classKube_def classOf_def mapGet_def errNotFound_def)


lemma gateway_class_settles_witness:
  "classReconcile (classEnv ''v1.4.0'') classKube
     (desiredClass (classOf ''no'')
       (classVerdicts (supported ''v1.4.0'') (False, ''Secret infra/no not found'')) 3) ([], []) =
   (Returned None, [], [])"
  by (rule gateway_class_settles [OF classEnv_passes classEnv_version classKube_params(2)])

lemma class_credentials_agree_witness:
  "\<exists>cfg. readCredentialsFromGatewayClass classKube (\<lambda>ns. Inr []) (classOf ''cf'')
      (demoGw\<lparr>gwNamespace := ''infra''\<rparr>) ([], []) = (Inr cfg, [], []) \<and> ccAPIToken cfg \<noteq> []"
  using class_credentials_agree [where ok = True and lg = "\<lambda>ns. Inr []" and w = "([], [])"
      and gw = "demoGw\<lparr>gwNamespace := ''infra''\<rparr>", OF classKube_params(1)]
  by (auto simp: classOf_def secretReferenceGranted_def)

text \<open>
  The event does not follow the Ready condition: when the CRD's version changes under a class
  that stays rejected for its parameters, the message of SupportedVersion is patched and the
  event sent is the one of success.
\<close>

definition rejectedClass :: gateway_class where
  "rejectedClass = desiredClass (classOf ''no'')
     (classVerdicts (supported ''v1.4.0'') (False, ''Secret infra/no not found'')) 3"

lemma success_event_while_rejected:
  "case classReconcile (classEnv ''v1.4.1'') classKube rejectedClass ([], []) of
     (r, es, ps) \<Rightarrow>
       map keReason es = [ReasonReconciliationSucceeded] \<and>
       map (\<lambda>gc. conditionStatus (gcConditions gc) ConditionReady) ps = [ConditionFalse]"
  by code_simp

end
