(* ===== verification/WatchRotation.thy ===== *)
theory WatchRotation
  imports Rollout TunnelToken Preflight
begin

text \<open>
  cmd/cfgwctl/watch_rotation.go: how the command line follows the rolling update of a token
  rotation.  The informers' events are the inputs; \<open>tick\<close> is \<^verbatim>\<open>time.Now\<close> over the world \<open>'w\<close>.
  The maps \<^verbatim>\<open>tokenUpdated\<close> and \<^verbatim>\<open>rolledOut\<close> only ever get the value true, so they are the lists
  of their keys.  What is printed is left out; the report's verdict is modelled.
\<close>

section \<open>Events and state\<close>

record rotationEvent =
  reTime :: int
  reSource :: string
  reKind :: string
  reDetail :: string

text \<open>
  What the watcher reads of a Pod and of an unstructured Gateway; \<open>uoConditions\<close> is what
  \<^verbatim>\<open>NestedSlice\<close> finds under \<^verbatim>\<open>status.conditions\<close>, if it finds a slice.
\<close>

record watch_pod =
  wpName :: string
  wpPhase :: string
  wpConditions :: "(string \<times> string) list"

record unstructured_obj =
  uoName :: string
  uoAnnotations :: "(string \<Rightarrow> string option) option"
  uoConditions :: "json list option"

datatype informer_obj =
    DeploymentObj deployment | PodObj watch_pod | UnstructuredObj unstructured_obj | OtherObj

record informerEvent =
  ieResourceKind :: string
  ieChangeType :: string
  ieObj :: informer_obj

record watchResult =
  wrDone :: bool
  wrSuspended :: bool

record rotationWatcher =
  rwCurrentTokenHash :: string
  rwInitialHash :: "(string \<times> string) list"
  rwCurrentHash :: "string \<Rightarrow> string option"
  rwPodState :: "string \<Rightarrow> string option"
  rwLastGWProgrammed :: string
  rwLastGWReady :: string
  rwLastGWSuspended :: bool
  rwLastRotateAt :: string
  rwTokenUpdated :: "string list"
  rwRolledOut :: "string list"
  rwNumDeployments :: nat
  rwEvents :: "rotationEvent list"
  rwAllRolledOut :: bool

section \<open>Reading the objects\<close>

definition getUnstructuredAnnotation :: "unstructured_obj \<Rightarrow> string \<Rightarrow> string" where
  "getUnstructuredAnnotation ob key =
     (case uoAnnotations ob of None \<Rightarrow> [] | Some annotations \<Rightarrow> mapGet annotations key)"

text \<open>\<^verbatim>\<open>s, _ := m[k].(string)\<close>.\<close>

definition jsonText :: "(string \<times> json) list \<Rightarrow> string \<Rightarrow> string" where
  "jsonText members k = (case map_of members k of Some (JStr s) \<Rightarrow> s | _ \<Rightarrow> [])"

fun unstructuredConditionLoop :: "string \<Rightarrow> json list \<Rightarrow> string" where
  "unstructuredConditionLoop typ [] = ''Unknown''"
| "unstructuredConditionLoop typ (c # cs) =
     (case c of
        JObj cond \<Rightarrow>
          if jsonText cond ''type'' = typ \<and> jsonText cond ''status'' \<noteq> []
          then jsonText cond ''status'' else unstructuredConditionLoop typ cs
      | _ \<Rightarrow> unstructuredConditionLoop typ cs)"

definition getUnstructuredCondition :: "unstructured_obj \<Rightarrow> string \<Rightarrow> string" where
  "getUnstructuredCondition ob typ =
     (case uoConditions ob of None \<Rightarrow> ''Unknown'' | Some cs \<Rightarrow> unstructuredConditionLoop typ cs)"

definition isWatchDeploymentRolledOut :: "deployment \<Rightarrow> bool" where
  "isWatchDeploymentRolledOut deploy =
     (if dpObservedGeneration deploy < dpGeneration deploy then False
      else
        (let desired = (case dpReplicas deploy of None \<Rightarrow> 1 | Some n \<Rightarrow> n)
         in dpUpdatedReplicas deploy \<ge> desired \<and>
            dpStatusReplicas deploy \<le> dpUpdatedReplicas deploy \<and>
            dpReadyReplicas deploy \<ge> dpUpdatedReplicas deploy))"

definition isPodReady :: "watch_pod \<Rightarrow> bool" where
  "isPodReady pod = list_ex (\<lambda>(t, s). t = ''Ready'' \<and> s = ''True'') (wpConditions pod)"

definition truncateHash :: "string \<Rightarrow> string" where
  "truncateHash h = (if length h > 12 then take 12 h else h)"

section \<open>Handling events\<close>

type_synonym 'w watching = "rotationWatcher \<times> 'w"

definition addEvent ::
  "('w \<Rightarrow> int \<times> 'w) \<Rightarrow> string \<Rightarrow> string \<Rightarrow> string \<Rightarrow> 'w watching \<Rightarrow> 'w watching" where
  "addEvent tick source kind detail s =
     (case s of (rw, w) \<Rightarrow>
        (case tick w of (now, w') \<Rightarrow>
           (rw\<lparr>rwEvents := rwEvents rw @ [\<lparr>reTime = now, reSource = source, reKind = kind,
                  reDetail = detail\<rparr>]\<rparr>, w')))"

definition handleDeployUpdate ::
  "('w \<Rightarrow> int \<times> 'w) \<Rightarrow> deployment \<Rightarrow> 'w watching \<Rightarrow> watchResult \<times> 'w watching" where
  "handleDeployUpdate tick deploy s =
     (let source = ''Deployment/'' @ dpName deploy;
          name = dpName deploy;
          newHash = mapGet (dpTemplateAnnotations deploy) AnnotationTokenHash;
          s1 = (case s of (rw, w) \<Rightarrow>
            if newHash \<noteq> mapGet (rwCurrentHash rw) name \<and> newHash \<noteq> rwCurrentTokenHash rw
            then
              (let rw1 = rw\<lparr>rwCurrentHash := (rwCurrentHash rw)(name \<mapsto> newHash)\<rparr>
               in if name \<notin> set (rwTokenUpdated rw1)
                  then addEvent tick source ''token-updated'' (''hash='' @ newHash)
                         (rw1\<lparr>rwTokenUpdated := rwTokenUpdated rw1 @ [name]\<rparr>, w)
                  else (rw1, w))
            else (rw, w));
          s2 = (case s1 of (rw, w) \<Rightarrow>
            if name \<in> set (rwTokenUpdated rw) \<and> name \<notin> set (rwRolledOut rw) \<and>
               isWatchDeploymentRolledOut deploy
            then
              (case addEvent tick source ''rolled-out''
                      (''updated='' @ showInt (dpUpdatedReplicas deploy) @ '' ready=''
                         @ showInt (dpReadyReplicas deploy))
                      (rw\<lparr>rwRolledOut := rwRolledOut rw @ [name]\<rparr>, w) of
                 (rw', w') \<Rightarrow>
                   (if length (rwRolledOut rw') = rwNumDeployments rw'
                    then rw'\<lparr>rwAllRolledOut := True\<rparr> else rw', w'))
            else (rw, w))
      in (\<lparr>wrDone = rwAllRolledOut (fst s2) \<and> rwLastGWReady (fst s2) = ''True'', wrSuspended = False\<rparr>, s2))"

definition handlePodAdd :: "('w \<Rightarrow> int \<times> 'w) \<Rightarrow> watch_pod \<Rightarrow> 'w watching \<Rightarrow> 'w watching" where
  "handlePodAdd tick pod s =
     (case addEvent tick (''Pod/'' @ wpName pod) ''created'' (''phase='' @ wpPhase pod) s of
        (rw, w) \<Rightarrow> (rw\<lparr>rwPodState := (rwPodState rw)(wpName pod \<mapsto> wpPhase pod)\<rparr>, w))"

definition handlePodUpdate :: "('w \<Rightarrow> int \<times> 'w) \<Rightarrow> watch_pod \<Rightarrow> 'w watching \<Rightarrow> 'w watching" where
  "handlePodUpdate tick pod s =
     (let newState = (if isPodReady pod then ''Ready'' else wpPhase pod);
          oldState = mapGet (rwPodState (fst s)) (wpName pod)
      in if newState \<noteq> oldState
         then (case addEvent tick (''Pod/'' @ wpName pod) ''state-changed''
                     (oldState @ '' -> '' @ newState) s of
                 (rw, w) \<Rightarrow> (rw\<lparr>rwPodState := (rwPodState rw)(wpName pod \<mapsto> newState)\<rparr>, w))
         else s)"

definition handlePodDelete :: "('w \<Rightarrow> int \<times> 'w) \<Rightarrow> watch_pod \<Rightarrow> 'w watching \<Rightarrow> 'w watching" where
  "handlePodDelete tick pod s =
     (case addEvent tick (''Pod/'' @ wpName pod) ''deleted'' [] s of
        (rw, w) \<Rightarrow> (rw\<lparr>rwPodState := (rwPodState rw)(wpName pod := None)\<rparr>, w))"

definition handleGatewayUpdate ::
  "('w \<Rightarrow> int \<times> 'w) \<Rightarrow> unstructured_obj \<Rightarrow> 'w watching \<Rightarrow> watchResult \<times> 'w watching" where
  "handleGatewayUpdate tick ob s =
     (let source = ''Gateway/'' @ uoName ob;
          rotateAt = getUnstructuredAnnotation ob AnnotationRotateTokenRequestedAt;
          s1 = (if rotateAt \<noteq> rwLastRotateAt (fst s)
                then (case addEvent tick source ''rotation-requested'' [] s of
                        (rw, w) \<Rightarrow> (rw\<lparr>rwLastRotateAt := rotateAt\<rparr>, w))
                else s);
          programmed = getUnstructuredCondition ob ''Programmed'';
          ready = getUnstructuredCondition ob ''Ready'';
          s2 = (if programmed \<noteq> rwLastGWProgrammed (fst s1) \<or> ready \<noteq> rwLastGWReady (fst s1)
                then (case addEvent tick source ''conditions-changed''
                            (''Programmed='' @ programmed @ '' Ready='' @ ready) s1 of
                        (rw, w) \<Rightarrow>
                          (rw\<lparr>rwLastGWProgrammed := programmed, rwLastGWReady := ready\<rparr>, w))
                else s1);
          suspended = (getUnstructuredAnnotation ob AnnotationReconcile = AnnotationReconcileDisabled);
          s3 = ((fst s2)\<lparr>rwLastGWSuspended := suspended\<rparr>, snd s2)
      in if suspended \<noteq> rwLastGWSuspended (fst s2) \<and> suspended \<and> \<not> rwAllRolledOut (fst s2)
         then (\<lparr>wrDone = False, wrSuspended = True\<rparr>, addEvent tick source ''suspended'' [] s3)
         else (\<lparr>wrDone = rwAllRolledOut (fst s3) \<and> rwLastGWReady (fst s3) = ''True'',
                wrSuspended = False\<rparr>, s3))"

text \<open>The type assertion on the object of a Deployment event panics when it fails.\<close>

definition processEvent ::
  "('w \<Rightarrow> int \<times> 'w) \<Rightarrow> informerEvent \<Rightarrow> 'w watching \<Rightarrow> (watchResult \<times> 'w watching) outcome" where
  "processEvent tick ev s =
     (let noResult = \<lparr>wrDone = False, wrSuspended = False\<rparr>
      in if ieResourceKind ev = ''Deployment'' then
           (case ieObj ev of
              DeploymentObj deploy \<Rightarrow> Returned (handleDeployUpdate tick deploy s)
            | _ \<Rightarrow> Panicked)
         else if ieResourceKind ev = ''Pod'' then
           (case ieObj ev of
              PodObj pod \<Rightarrow>
                Returned (noResult,
                  if ieChangeType ev = ''add'' then handlePodAdd tick pod s
                  else if ieChangeType ev = ''update'' then handlePodUpdate tick pod s
                  else if ieChangeType ev = ''delete'' then handlePodDelete tick pod s
                  else s)
            | _ \<Rightarrow> Returned (noResult, s))
         else if ieResourceKind ev = ''Gateway'' then
           (case ieObj ev of
              UnstructuredObj ob \<Rightarrow> Returned (handleGatewayUpdate tick ob s)
            | _ \<Rightarrow> Returned (noResult, s))
         else Returned (noResult, s))"

section \<open>Starting and following\<close>

text \<open>\<^verbatim>\<open>m[k] = true\<close>.\<close>

definition addKey :: "string \<Rightarrow> string list \<Rightarrow> string list" where
  "addKey k ks = (if k \<in> set ks then ks else ks @ [k])"

text \<open>The state built from the informers' caches; \<open>attach\<close> is a nil \<^verbatim>\<open>patchFn\<close>.\<close>

fun initialLoop ::
  "bool \<Rightarrow> string \<Rightarrow> deployment list \<Rightarrow> rotationWatcher \<Rightarrow> rotationWatcher" where
  "initialLoop attach currentTokenHash [] rw = rw"
| "initialLoop attach currentTokenHash (d # ds) rw =
     (let h = mapGet (dpTemplateAnnotations d) AnnotationTokenHash;
          rw1 = rw\<lparr>rwInitialHash := AList.update (dpName d) h (rwInitialHash rw),
                   rwCurrentHash := (rwCurrentHash rw)(dpName d \<mapsto> h)\<rparr>;
          rw2 = (if attach \<and> h \<noteq> currentTokenHash
                 then (let rw' = rw1\<lparr>rwTokenUpdated := addKey (dpName d) (rwTokenUpdated rw1)\<rparr>
                       in if isWatchDeploymentRolledOut d
                          then rw'\<lparr>rwRolledOut := addKey (dpName d) (rwRolledOut rw')\<rparr> else rw')
                 else rw1)
      in initialLoop attach currentTokenHash ds rw2)"

fun podStateLoop :: "watch_pod list \<Rightarrow> (string \<Rightarrow> string option) \<Rightarrow> (string \<Rightarrow> string option)" where
  "podStateLoop [] m = m"
| "podStateLoop (p # ps) m =
     podStateLoop ps (m(wpName p \<mapsto> if isPodReady p then ''Ready'' else wpPhase p))"

fun syntheticLoop :: "('w \<Rightarrow> int \<times> 'w) \<Rightarrow> deployment list \<Rightarrow> 'w watching \<Rightarrow> 'w watching" where
  "syntheticLoop tick [] s = s"
| "syntheticLoop tick (d # ds) s =
     syntheticLoop tick ds
       (if dpName d \<in> set (rwTokenUpdated (fst s))
        then
          (let s1 = addEvent tick (''Deployment/'' @ dpName d) ''token-updated''
                      (''hash='' @ mapGet (dpTemplateAnnotations d) AnnotationTokenHash) s
           in if dpName d \<in> set (rwRolledOut (fst s1))
              then addEvent tick (''Deployment/'' @ dpName d) ''rolled-out''
                     (''updated='' @ showInt (dpUpdatedReplicas d) @ '' ready=''
                        @ showInt (dpReadyReplicas d)) s1
              else s1)
        else s)"

definition initialWatcher ::
  "('w \<Rightarrow> int \<times> 'w) \<Rightarrow> bool \<Rightarrow> string \<Rightarrow> nat \<Rightarrow> unstructured_obj \<Rightarrow> deployment list \<Rightarrow> watch_pod list
     \<Rightarrow> 'w \<Rightarrow> go_error + 'w watching" where
  "initialWatcher tick attach currentTokenHash n gw deployList podList w =
     (if length deployList \<noteq> n
      then Inl (ErrText (''expected '' @ showNat n @ '' Deployments, found '' @ showNat (length deployList)))
      else
        (let rw = initialLoop attach currentTokenHash deployList
               \<lparr>rwCurrentTokenHash = currentTokenHash, rwInitialHash = [], rwCurrentHash = Map.empty,
                rwPodState = podStateLoop podList Map.empty,
                rwLastGWProgrammed = getUnstructuredCondition gw ''Programmed'',
                rwLastGWReady = getUnstructuredCondition gw ''Ready'', rwLastGWSuspended = False,
                rwLastRotateAt = getUnstructuredAnnotation gw AnnotationRotateTokenRequestedAt,
                rwTokenUpdated = [], rwRolledOut = [], rwNumDeployments = n, rwEvents = [],
                rwAllRolledOut = False\<rparr>;
             s = (rw\<lparr>rwAllRolledOut := (length (rwRolledOut rw) = n)\<rparr>, w)
         in Inr (if attach then syntheticLoop tick deployList s else s)))"

section \<open>The report\<close>

record deployTimeline =
  dtName :: string
  dtTokenUpdated :: int
  dtRolledOut :: int
  dtPodEvents :: "rotationEvent list"

type_synonym timelines = "(string \<times> deployTimeline) list"

text \<open>\<^verbatim>\<open>getDT(name)\<close> and a change of what it points to.\<close>

definition getDT :: "string \<Rightarrow> timelines \<Rightarrow> timelines" where
  "getDT name m =
     (if name \<in> fst ` set m then m
      else m @ [(name, \<lparr>dtName = name, dtTokenUpdated = zeroTime, dtRolledOut = zeroTime,
                        dtPodEvents = []\<rparr>)])"

definition updateDT :: "string \<Rightarrow> (deployTimeline \<Rightarrow> deployTimeline) \<Rightarrow> timelines \<Rightarrow> timelines" where
  "updateDT name f m = AList.map_entry name f (getDT name m)"

text \<open>
  \<open>ord\<close> is the order in which Go walks the map of the initial hashes for an event of a Pod.
\<close>

definition podOwner :: "(rotationEvent \<Rightarrow> string list) \<Rightarrow> rotationEvent \<Rightarrow> string option" where
  "podOwner ord ev =
     find (\<lambda>dName. hasPrefix (drop (length ''Pod/'') (reSource ev)) (dName @ ''-'')) (ord ev)"

fun reportLoop ::
  "(rotationEvent \<Rightarrow> string list) \<Rightarrow> string \<Rightarrow> rotationEvent list \<Rightarrow> timelines \<Rightarrow> go_error + timelines" where
  "reportLoop ord newHash [] m = Inr m"
| "reportLoop ord newHash (ev # evs) m =
     (let m1 = (if reKind ev = ''token-updated''
                then updateDT (drop (length ''Deployment/'') (reSource ev))
                       (\<lambda>dt. dt\<lparr>dtTokenUpdated := reTime ev\<rparr>) m
                else m);
          hash = drop (length ''hash='') (reDetail ev)
      in if reKind ev = ''token-updated'' \<and> newHash \<noteq> [] \<and> hash \<noteq> newHash
         then Inl (ErrText (''inconsistent new tokenHash: '' @ truncateHash newHash @ '' vs ''
                @ truncateHash hash))
         else
           (let m2 = (if reKind ev = ''rolled-out''
                      then updateDT (drop (length ''Deployment/'') (reSource ev))
                             (\<lambda>dt. dt\<lparr>dtRolledOut := reTime ev\<rparr>) m1
                      else m1);
                m3 = (if hasPrefix (reSource ev) ''Pod/''
                      then (case podOwner ord ev of
                              None \<Rightarrow> m2
                            | Some dName \<Rightarrow>
                                updateDT dName (\<lambda>dt. dt\<lparr>dtPodEvents := dtPodEvents dt @ [ev]\<rparr>) m2)
                      else m2)
            in reportLoop ord newHash evs m3))"

text \<open>The loop over the sorted timelines: the previous one and the last violation found.\<close>

fun timelineLoop ::
  "(int \<Rightarrow> string) \<Rightarrow> deployTimeline option \<Rightarrow> go_error option \<Rightarrow> deployTimeline list
     \<Rightarrow> go_error + go_error option" where
  "timelineLoop fmt prev validationErr [] = Inr validationErr"
| "timelineLoop fmt prev validationErr (dt # dts) =
     (if dtTokenUpdated dt = zeroTime
      then Inl (ErrText (''deployment '' @ dtName dt @ '': missing token-updated event''))
      else if dtRolledOut dt = zeroTime
      then Inl (ErrText (''deployment '' @ dtName dt @ '': missing rolled-out event''))
      else
        timelineLoop fmt (Some dt)
          (case prev of
             None \<Rightarrow> validationErr
           | Some p \<Rightarrow>
               if dtTokenUpdated dt < dtRolledOut p
               then Some (ErrText (''rolling update order violated: '' @ dtName dt @ '' token updated at ''
                      @ fmt (dtTokenUpdated dt) @ '', but '' @ dtName p @ '' rollout completed at ''
                      @ fmt (dtRolledOut p)))
               else validationErr) dts)"

definition newHashOf :: "rotationEvent list \<Rightarrow> string" where
  "newHashOf events =
     (case find (\<lambda>ev. reKind ev = ''token-updated'') events of
        None \<Rightarrow> [] | Some ev \<Rightarrow> drop (length ''hash='') (reDetail ev))"

text \<open>
  \<open>srt\<close> sorts by the time of the token update (\<^verbatim>\<open>sort.Slice\<close> is not stable); the first timeline
  is read before the loop, so there must be one.
\<close>

definition printReport ::
  "(deployTimeline list \<Rightarrow> deployTimeline list) \<Rightarrow> (rotationEvent \<Rightarrow> string list) \<Rightarrow> (int \<Rightarrow> string)
     \<Rightarrow> rotationEvent list \<Rightarrow> nat \<Rightarrow> go_error option outcome" where
  "printReport srt ord fmt events numDeployments =
     (case reportLoop ord (newHashOf events) events [] of
        Inl err \<Rightarrow> Returned (Some err)
      | Inr m \<Rightarrow>
          if length m \<noteq> numDeployments
          then Returned (Some (ErrText (''expected '' @ showNat numDeployments
                 @ '' Deployments with rotation events, got '' @ showNat (length m))))
          else if srt (map snd m) = [] then Panicked
          else (case timelineLoop fmt None None (srt (map snd m)) of
                  Inl err \<Rightarrow> Returned (Some err)
                | Inr validationErr \<Rightarrow> Returned validationErr))"

section \<open>The watch\<close>

text \<open>
  What the \<^verbatim>\<open>select\<close> of the loop receives, in order: an event, the end of the context, or, once
  the rotation is done, the timer that ends the drain.
\<close>

datatype watch_input = Arrived informerEvent | ContextDone | TimerFired

datatype watch_end = Ended "go_error option" | EndedSuspended int nat | EndedPanic

definition reportEnd :: "go_error option outcome \<Rightarrow> watch_end" where
  "reportEnd r = (case r of Returned e \<Rightarrow> Ended e | Panicked \<Rightarrow> EndedPanic)"

type_synonym report = "rotationEvent list \<Rightarrow> nat \<Rightarrow> go_error option outcome"

text \<open>\<open>None\<close>: the inputs are used up and the function is still waiting.\<close>

fun drainLoop ::
  "('w \<Rightarrow> int \<times> 'w) \<Rightarrow> report \<Rightarrow> watch_input list \<Rightarrow> 'w watching \<Rightarrow> watch_end option" where
  "drainLoop tick report [] s = None"
| "drainLoop tick report (i # is) s =
     (case i of
        Arrived ev \<Rightarrow>
          (case processEvent tick ev s of
             Panicked \<Rightarrow> Some EndedPanic
           | Returned (result, s') \<Rightarrow> drainLoop tick report is s')
      | TimerFired \<Rightarrow> Some (reportEnd (report (rwEvents (fst s)) (rwNumDeployments (fst s))))
      | ContextDone \<Rightarrow> drainLoop tick report is s)"

fun watchLoop ::
  "('w \<Rightarrow> int \<times> 'w) \<Rightarrow> report \<Rightarrow> watch_input list \<Rightarrow> 'w watching \<Rightarrow> watch_end option" where
  "watchLoop tick report [] s = None"
| "watchLoop tick report (i # is) s =
     (let n = rwNumDeployments (fst s) in
      case i of
        ContextDone \<Rightarrow>
          (case report (rwEvents (fst s)) n of
             Panicked \<Rightarrow> Some EndedPanic
           | Returned r \<Rightarrow>
               Some (Ended (Some (ErrText (''timed out waiting for rotation to complete (''
                 @ showNat (length (rwRolledOut (fst s))) @ ''/'' @ showNat n @ '' rolled out)'')))))
      | TimerFired \<Rightarrow> watchLoop tick report is s
      | Arrived ev \<Rightarrow>
          (case processEvent tick ev s of
             Panicked \<Rightarrow> Some EndedPanic
           | Returned (result, s') \<Rightarrow>
               if wrSuspended result
               then (case report (rwEvents (fst s')) n of
                       Panicked \<Rightarrow> Some EndedPanic
                     | Returned r \<Rightarrow>
                         Some (EndedSuspended (int n - int (length (rwRolledOut (fst s')))) n))
               else if wrDone result then drainLoop tick report is s'
               else watchLoop tick report is s'))"

text \<open>
  \<open>patchFn\<close> requests the rotation once the caches are in sync; without it the watch attaches to
  a rotation that is under way.
\<close>

definition watchRotation ::
  "('w \<Rightarrow> int \<times> 'w) \<Rightarrow> report \<Rightarrow> ('w \<Rightarrow> go_error option \<times> 'w) option \<Rightarrow> string \<Rightarrow> nat
     \<Rightarrow> unstructured_obj \<Rightarrow> deployment list \<Rightarrow> watch_pod list \<Rightarrow> watch_input list \<Rightarrow> 'w
     \<Rightarrow> watch_end option" where
  "watchRotation tick report patchFn currentTokenHash n gw deployList podList inputs w =
     (case (case patchFn of None \<Rightarrow> (None, w) | Some f \<Rightarrow> f w) of
        (Some err, w1) \<Rightarrow> Some (Ended (Some err))
      | (None, w1) \<Rightarrow>
          (case initialWatcher tick (case patchFn of None \<Rightarrow> True | Some f \<Rightarrow> False) currentTokenHash n gw deployList podList w1 of
             Inl err \<Rightarrow> Some (Ended (Some err))
           | Inr s \<Rightarrow>
               if rwAllRolledOut (fst s) \<and> rwLastGWReady (fst s) = ''True''
               then Some (reportEnd (report (rwEvents (fst s)) n))
               else watchLoop tick report inputs s))"

end
