(* ===== verification/RotationReport.thy ===== *)
theory RotationReport
  imports WatchRotation
begin

text \<open>
  What the watch of a token rotation guarantees (cmd/cfgwctl/watch_rotation.go): an invariant
  of the watcher over every sequence of events, and what a report that passes says of the
  rollouts it saw.
\<close>

section \<open>The log\<close>

abbreviation isUpdate :: "rotationEvent \<Rightarrow> bool" where
  "isUpdate e \<equiv> reKind e = ''token-updated''"

abbreviation isRollout :: "rotationEvent \<Rightarrow> bool" where
  "isRollout e \<equiv> reKind e = ''rolled-out''"

abbreviation deploySource :: "string \<Rightarrow> string" where
  "deploySource name \<equiv> ''Deployment/'' @ name"

text \<open>A clock whose readings increase, and are times.\<close>

definition increasing :: "('w \<Rightarrow> int \<times> 'w) \<Rightarrow> bool" where
  "increasing tick \<longleftrightarrow> (\<forall>w. zeroTime < fst (tick w) \<and> fst (tick w) < fst (tick (snd (tick w))))"

definition logOk :: "('w \<Rightarrow> int \<times> 'w) \<Rightarrow> string set \<Rightarrow> 'w watching \<Rightarrow> bool" where
  "logOk tick names s \<longleftrightarrow>
     (let rw = fst s; evs = rwEvents rw
      in distinct (rwTokenUpdated rw) \<and> distinct (rwRolledOut rw) \<and>
         set (rwRolledOut rw) \<subseteq> set (rwTokenUpdated rw) \<and> set (rwTokenUpdated rw) \<subseteq> names \<and>
         map reSource (filter isUpdate evs) = map deploySource (rwTokenUpdated rw) \<and>
         map reSource (filter isRollout evs) = map deploySource (rwRolledOut rw) \<and>
         (\<forall>e\<in>set evs. isUpdate e \<longrightarrow>
            (\<exists>h. reDetail e = ''hash='' @ h \<and> h \<noteq> rwCurrentTokenHash rw)) \<and>
         sorted_wrt (<) (map reTime evs) \<and>
         (\<forall>e\<in>set evs. zeroTime < reTime e \<and> reTime e < fst (tick (snd s))) \<and>
         (\<forall>e\<in>set evs. isRollout e \<longrightarrow>
            (\<exists>f\<in>set evs. isUpdate f \<and> reSource f = reSource e \<and> reTime f < reTime e)) \<and>
         (rwAllRolledOut rw \<longrightarrow> rwNumDeployments rw \<le> length (rwRolledOut rw)))"

lemma addEvent_fst:
  "fst (addEvent tick source kind detail s) =
     (fst s)\<lparr>rwEvents := rwEvents (fst s) @
        [\<lparr>reTime = fst (tick (snd s)), reSource = source, reKind = kind, reDetail = detail\<rparr>]\<rparr>"
  by (cases s; cases "tick (snd s)") (simp add: addEvent_def)

lemma addEvent_snd: "snd (addEvent tick source kind detail s) = snd (tick (snd s))"
  by (cases s; cases "tick (snd s)") (simp add: addEvent_def)

lemma logOk_other:
  assumes "increasing tick" and "logOk tick names s" and "kind \<noteq> ''token-updated''" "kind \<noteq> ''rolled-out''"
  shows "logOk tick names (addEvent tick source kind detail s)"
  using assms unfolding logOk_def Let_def addEvent_fst addEvent_snd increasing_def
  by (auto simp: sorted_wrt_append intro: order_less_trans)

lemma logOk_update:
  assumes "increasing tick" and ok: "logOk tick names (rw, w)"
    and "name \<notin> set (rwTokenUpdated rw)" and "name \<in> names" and "h \<noteq> rwCurrentTokenHash rw"
  shows "logOk tick names (addEvent tick (deploySource name) ''token-updated'' (''hash='' @ h)
           (rw\<lparr>rwTokenUpdated := rwTokenUpdated rw @ [name]\<rparr>, w))"
  using assms unfolding logOk_def Let_def addEvent_fst addEvent_snd increasing_def
  by (auto simp: sorted_wrt_append intro: order_less_trans)

lemma logOk_rollout:
  assumes "increasing tick" and ok: "logOk tick names (rw, w)"
    and upd: "name \<in> set (rwTokenUpdated rw)" and "name \<notin> set (rwRolledOut rw)"
  shows "logOk tick names (addEvent tick (deploySource name) ''rolled-out'' detail
           (rw\<lparr>rwRolledOut := rwRolledOut rw @ [name]\<rparr>, w))"
proof -
  from ok have "map reSource (filter isUpdate (rwEvents rw)) = map deploySource (rwTokenUpdated rw)"
    by (simp add: logOk_def Let_def)
  then have "deploySource name \<in> set (map reSource (filter isUpdate (rwEvents rw)))"
    using upd by simp
  then obtain f where "f \<in> set (rwEvents rw)" "isUpdate f" "reSource f = deploySource name" by auto
  then show ?thesis
    using assms unfolding logOk_def Let_def addEvent_fst addEvent_snd increasing_def
    by (auto simp: sorted_wrt_append intro: order_less_trans bexI [of _ f])
qed

section \<open>Following events\<close>

text \<open>The log does not depend on the other fields.\<close>

lemma logOk_fields [simp]:
  "logOk tick names (rw\<lparr>rwPodState := p\<rparr>, w) = logOk tick names (rw, w)"
  "logOk tick names (rw\<lparr>rwCurrentHash := c\<rparr>, w) = logOk tick names (rw, w)"
  "logOk tick names (rw\<lparr>rwLastRotateAt := a\<rparr>, w) = logOk tick names (rw, w)"
  "logOk tick names (rw\<lparr>rwLastGWProgrammed := g, rwLastGWReady := r\<rparr>, w) = logOk tick names (rw, w)"
  "logOk tick names (rw\<lparr>rwLastGWSuspended := b\<rparr>, w) = logOk tick names (rw, w)"
  by (simp_all add: logOk_def Let_def)

lemma logOk_case:
  "logOk tick names s \<Longrightarrow> (\<And>rw w. logOk tick names (rw, w) \<Longrightarrow> logOk tick names (f rw w)) \<Longrightarrow>
     logOk tick names (case s of (rw, w) \<Rightarrow> f rw w)"
  by (cases s) simp

lemma handlePod_ok:
  assumes "increasing tick" and "logOk tick names s"
  shows "logOk tick names (handlePodAdd tick pod s)" and "logOk tick names (handlePodUpdate tick pod s)"
    and "logOk tick names (handlePodDelete tick pod s)"
  using assms unfolding handlePodAdd_def handlePodUpdate_def handlePodDelete_def Let_def
  by (auto intro!: logOk_case logOk_other simp del: append.simps append_Cons)

lemma handleGatewayUpdate_ok:
  assumes "increasing tick" and "logOk tick names s"
  shows "logOk tick names (snd (handleGatewayUpdate tick ob s))"
proof -
  have a: "logOk tick names (case addEvent tick source kind detail t of (rw, w) \<Rightarrow>
      (rw\<lparr>rwLastRotateAt := x\<rparr>, w))"
    and b: "logOk tick names (case addEvent tick source kind detail t of (rw, w) \<Rightarrow>
      (rw\<lparr>rwLastGWProgrammed := p, rwLastGWReady := r\<rparr>, w))"
    and c: "logOk tick names (addEvent tick source kind detail t)"
    if "logOk tick names t" "kind \<noteq> ''token-updated''" "kind \<noteq> ''rolled-out''"
    for t source kind detail x p r
    using logOk_other [OF assms(1) that, of source detail] by (auto intro!: logOk_case)
  have d: "logOk tick names ((fst t)\<lparr>rwLastGWSuspended := x\<rparr>, snd t)" if "logOk tick names t" for t x
    using that by (cases t) simp
  show ?thesis
    unfolding handleGatewayUpdate_def Let_def
    using assms(2) by (auto intro!: a b c d)
qed

lemma logOk_done:
  assumes "logOk tick names (rw, w)"
  shows "logOk tick names ((if length (rwRolledOut rw) = rwNumDeployments rw
           then rw\<lparr>rwAllRolledOut := True\<rparr> else rw), w)"
  using assms by (simp add: logOk_def Let_def)

lemma handleDeployUpdate_ok:
  assumes inc: "increasing tick" and ok: "logOk tick names s" and "dpName deploy \<in> names"
  shows "logOk tick names (snd (handleDeployUpdate tick deploy s))"
proof -
  obtain rw w where s: "s = (rw, w)" by (rule prod.exhaust)
  let ?name = "dpName deploy" and ?h = "mapGet (dpTemplateAnnotations deploy) AnnotationTokenHash"
  define rw1 where "rw1 = rw\<lparr>rwCurrentHash := (rwCurrentHash rw)(?name \<mapsto> ?h)\<rparr>"
  have rw1: "logOk tick names (rw1, w)" "rwTokenUpdated rw1 = rwTokenUpdated rw"
      "rwCurrentTokenHash rw1 = rwCurrentTokenHash rw"
    using ok by (simp_all add: rw1_def s)
  define s1 where "s1 = (if ?h \<noteq> mapGet (rwCurrentHash rw) ?name \<and> ?h \<noteq> rwCurrentTokenHash rw
      then if ?name \<notin> set (rwTokenUpdated rw1)
           then addEvent tick (deploySource ?name) ''token-updated'' (''hash='' @ ?h)
                  (rw1\<lparr>rwTokenUpdated := rwTokenUpdated rw1 @ [?name]\<rparr>, w)
           else (rw1, w)
      else (rw, w))"
  have s1: "logOk tick names s1"
    using rw1 ok s logOk_update [OF inc rw1(1) _ assms(3)] by (simp add: s1_def)
  obtain rw2 w2 where s2: "s1 = (rw2, w2)" by (rule prod.exhaust)
  have s3: "logOk tick names (case addEvent tick (deploySource ?name) ''rolled-out'' detail
      (rw2\<lparr>rwRolledOut := rwRolledOut rw2 @ [?name]\<rparr>, w2) of
      (rw', w') \<Rightarrow> ((if length (rwRolledOut rw') = rwNumDeployments rw'
                    then rw'\<lparr>rwAllRolledOut := True\<rparr> else rw'), w'))"
    if "?name \<in> set (rwTokenUpdated rw2)" "?name \<notin> set (rwRolledOut rw2)" for detail
    using logOk_rollout [OF inc s1 [unfolded s2] that] by (rule logOk_case) (rule logOk_done)
  have "snd (handleDeployUpdate tick deploy s) =
     (if ?name \<in> set (rwTokenUpdated rw2) \<and> ?name \<notin> set (rwRolledOut rw2) \<and>
         isWatchDeploymentRolledOut deploy
      then (case addEvent tick (deploySource ?name) ''rolled-out''
               (''updated='' @ showInt (dpUpdatedReplicas deploy) @ '' ready=''
                  @ showInt (dpReadyReplicas deploy))
               (rw2\<lparr>rwRolledOut := rwRolledOut rw2 @ [?name]\<rparr>, w2) of
              (rw', w') \<Rightarrow> ((if length (rwRolledOut rw') = rwNumDeployments rw'
                            then rw'\<lparr>rwAllRolledOut := True\<rparr> else rw'), w'))
      else (rw2, w2))"
    using s2 unfolding handleDeployUpdate_def Let_def s s1_def rw1_def by simp
  then show ?thesis using s1 s2 s3 by simp
qed

text \<open>The states a watch goes through, on events of the Deployments \<open>names\<close>.\<close>

definition eventOf :: "string set \<Rightarrow> informerEvent \<Rightarrow> bool" where
  "eventOf names ev \<longleftrightarrow> (\<forall>d. ieObj ev = DeploymentObj d \<longrightarrow> dpName d \<in> names)"

inductive follows ::
  "('w \<Rightarrow> int \<times> 'w) \<Rightarrow> string set \<Rightarrow> 'w watching \<Rightarrow> 'w watching \<Rightarrow> bool"
  for tick :: "'w \<Rightarrow> int \<times> 'w" and names :: "string set" and s0 :: "'w watching" where
  start: "follows tick names s0 s0"
| event: "follows tick names s0 s \<Longrightarrow> eventOf names ev \<Longrightarrow>
    processEvent tick ev s = Returned (result, s') \<Longrightarrow> follows tick names s0 s'"

lemma processEvent_ok:
  assumes "increasing tick" and "logOk tick names s" and "eventOf names ev"
    and "processEvent tick ev s = Returned (result, s')"
  shows "logOk tick names s'"
  using assms handleDeployUpdate_ok [OF assms(1,2)] handleGatewayUpdate_ok [OF assms(1,2)]
    handlePod_ok [OF assms(1,2)]
  unfolding processEvent_def Let_def eventOf_def
  by (auto split: if_splits informer_obj.splits; metis snd_conv)

definition sameWatch :: "rotationWatcher \<Rightarrow> rotationWatcher \<Rightarrow> bool" where
  "sameWatch a b \<longleftrightarrow> rwNumDeployments a = rwNumDeployments b \<and>
     rwCurrentTokenHash a = rwCurrentTokenHash b \<and> rwInitialHash a = rwInitialHash b"

lemma sameWatch_refl [simp]: "sameWatch a a"
  by (simp add: sameWatch_def)

lemma sameWatch_trans: "sameWatch a b \<Longrightarrow> sameWatch b c \<Longrightarrow> sameWatch a c"
  by (simp add: sameWatch_def)

lemma sameWatch_addEvent [simp]:
  "sameWatch (fst (addEvent tick source kind detail s)) (fst s)"
  by (simp add: sameWatch_def addEvent_fst)

lemma processEvent_same:
  assumes "processEvent tick ev s = Returned (result, s')"
  shows "sameWatch (fst s') (fst s)"
proof -
  have add: "rwNumDeployments (fst (addEvent tick a b c t)) = rwNumDeployments (fst t)"
    "rwCurrentTokenHash (fst (addEvent tick a b c t)) = rwCurrentTokenHash (fst t)"
    "rwInitialHash (fst (addEvent tick a b c t)) = rwInitialHash (fst t)" for a b c t
    by (simp_all add: addEvent_fst)
  show ?thesis
    using assms
    unfolding processEvent_def handleDeployUpdate_def handleGatewayUpdate_def handlePodAdd_def
      handlePodUpdate_def handlePodDelete_def Let_def sameWatch_def
    by (auto simp: case_prod_beta add split: if_splits informer_obj.splits)
qed

lemma follows_ok:
  assumes "follows tick names s0 s" and "increasing tick" and "logOk tick names s0"
  shows "logOk tick names s \<and> sameWatch (fst s) (fst s0)"
  using assms
proof (induction rule: follows.induct)
  case (event s ev result s')
  then show ?case
    using processEvent_ok [OF event.prems(1) _ event.hyps(2,3)] processEvent_same [OF event.hyps(3)]
      sameWatch_trans by blast
qed simp

section \<open>The start\<close>

definition updatedAtStart :: "bool \<Rightarrow> string \<Rightarrow> deployment \<Rightarrow> bool" where
  "updatedAtStart attach currentTokenHash d \<longleftrightarrow>
     attach \<and> mapGet (dpTemplateAnnotations d) AnnotationTokenHash \<noteq> currentTokenHash"

lemma initialLoop_lists:
  assumes "distinct (map dpName ds)"
    and "set (map dpName ds) \<inter> (set (rwTokenUpdated rw) \<union> set (rwRolledOut rw)) = {}"
  shows "rwTokenUpdated (initialLoop attach cur ds rw) =
       rwTokenUpdated rw @ map dpName (filter (updatedAtStart attach cur) ds)"
    and "rwRolledOut (initialLoop attach cur ds rw) =
       rwRolledOut rw @ map dpName (filter (\<lambda>d. updatedAtStart attach cur d \<and> isWatchDeploymentRolledOut d) ds)"
    and "rwEvents (initialLoop attach cur ds rw) = rwEvents rw"
    and "rwCurrentTokenHash (initialLoop attach cur ds rw) = rwCurrentTokenHash rw"
    and "rwNumDeployments (initialLoop attach cur ds rw) = rwNumDeployments rw"
    and "rwLastGWReady (initialLoop attach cur ds rw) = rwLastGWReady rw"
proof -
  have "rwTokenUpdated (initialLoop attach cur ds rw) =
       rwTokenUpdated rw @ map dpName (filter (updatedAtStart attach cur) ds) \<and>
     rwRolledOut (initialLoop attach cur ds rw) =
       rwRolledOut rw @ map dpName (filter (\<lambda>d. updatedAtStart attach cur d \<and> isWatchDeploymentRolledOut d) ds) \<and>
     rwEvents (initialLoop attach cur ds rw) = rwEvents rw \<and>
     rwCurrentTokenHash (initialLoop attach cur ds rw) = rwCurrentTokenHash rw \<and>
     rwNumDeployments (initialLoop attach cur ds rw) = rwNumDeployments rw \<and>
     rwLastGWReady (initialLoop attach cur ds rw) = rwLastGWReady rw"
    using assms
  proof (induction ds arbitrary: rw)
    case (Cons d ds)
    then show ?case
      by (simp add: Let_def updatedAtStart_def addKey_def del: map_map)
  qed simp
  then show "rwTokenUpdated (initialLoop attach cur ds rw) =
       rwTokenUpdated rw @ map dpName (filter (updatedAtStart attach cur) ds)"
    and "rwRolledOut (initialLoop attach cur ds rw) =
       rwRolledOut rw @ map dpName (filter (\<lambda>d. updatedAtStart attach cur d \<and> isWatchDeploymentRolledOut d) ds)"
    and "rwEvents (initialLoop attach cur ds rw) = rwEvents rw"
    and "rwCurrentTokenHash (initialLoop attach cur ds rw) = rwCurrentTokenHash rw"
    and "rwNumDeployments (initialLoop attach cur ds rw) = rwNumDeployments rw"
    and "rwLastGWReady (initialLoop attach cur ds rw) = rwLastGWReady rw" by blast+
qed

text \<open>The watcher with the lists as far as the synthetic events have got.\<close>

definition partial :: "string list \<Rightarrow> string list \<Rightarrow> rotationWatcher \<Rightarrow> rotationWatcher" where
  "partial T R rw = rw\<lparr>rwTokenUpdated := T, rwRolledOut := R, rwAllRolledOut := False\<rparr>"

lemma addEvent_partial:
  "addEvent tick a b c (partial T R rw, w) =
     (partial T R (fst (addEvent tick a b c (rw, w))), snd (addEvent tick a b c (rw, w)))"
  by (rule prod_eqI) (simp_all add: addEvent_fst addEvent_snd partial_def)

lemma syntheticLoop_ok:
  assumes "increasing tick" and "distinct (map dpName ds)" and "set (map dpName ds) \<subseteq> names"
    and "set (map dpName ds) \<inter> (set T \<union> set R) = {}"
    and "rwTokenUpdated rw = T @ map dpName (filter (updatedAtStart True cur) ds)"
    and "rwRolledOut rw = R @ map dpName (filter (\<lambda>d. updatedAtStart True cur d \<and> isWatchDeploymentRolledOut d) ds)"
    and "rwCurrentTokenHash rw = cur"
    and "logOk tick names (partial T R rw, w)"
  shows "\<exists>rw' w'. syntheticLoop tick ds (rw, w) = (rw', w') \<and>
     logOk tick names (partial (rwTokenUpdated rw) (rwRolledOut rw) rw', w') \<and>
     rwTokenUpdated rw' = rwTokenUpdated rw \<and> rwRolledOut rw' = rwRolledOut rw \<and>
     rwNumDeployments rw' = rwNumDeployments rw \<and> rwAllRolledOut rw' = rwAllRolledOut rw \<and>
     rwLastGWReady rw' = rwLastGWReady rw \<and> rwCurrentTokenHash rw' = cur"
  using assms(2-)
proof (induction ds arbitrary: T R rw w)
  case (Cons d ds)
  let ?name = "dpName d" and ?h = "mapGet (dpTemplateAnnotations d) AnnotationTokenHash"
  note ok = Cons.prems(7)
  show ?case
  proof (cases "updatedAtStart True cur d")
    case False
    then have "?name \<notin> set (rwTokenUpdated rw)" using Cons.prems(1,3,4) by auto
    then show ?thesis using Cons.IH [of T R rw w] Cons.prems False by simp
  next
    case upd: True
    define s1 where "s1 = addEvent tick (deploySource ?name) ''token-updated'' (''hash='' @ ?h) (rw, w)"
    have "logOk tick names (addEvent tick (deploySource ?name) ''token-updated'' (''hash='' @ ?h)
        ((partial T R rw)\<lparr>rwTokenUpdated := rwTokenUpdated (partial T R rw) @ [?name]\<rparr>, w))"
      using logOk_update [OF assms(1) ok, of ?name ?h] Cons.prems(2,3,6) upd
      by (simp add: partial_def updatedAtStart_def)
    moreover have "(partial T R rw)\<lparr>rwTokenUpdated := rwTokenUpdated (partial T R rw) @ [?name]\<rparr> =
        partial (T @ [?name]) R rw" by (simp add: partial_def)
    ultimately have s1: "logOk tick names (partial (T @ [?name]) R (fst s1), snd s1)"
      by (simp add: addEvent_partial s1_def)
    have f1: "rwTokenUpdated (fst s1) = rwTokenUpdated rw" "rwRolledOut (fst s1) = rwRolledOut rw"
      "rwNumDeployments (fst s1) = rwNumDeployments rw" "rwAllRolledOut (fst s1) = rwAllRolledOut rw"
      "rwLastGWReady (fst s1) = rwLastGWReady rw" "rwCurrentTokenHash (fst s1) = rwCurrentTokenHash rw"
      by (simp_all add: s1_def addEvent_fst)
    have mem: "?name \<in> set (rwTokenUpdated rw)" using Cons.prems(4) upd by simp
    show ?thesis
    proof (cases "isWatchDeploymentRolledOut d")
      case False
      then have "?name \<notin> set (rwRolledOut rw)" using Cons.prems(1,3,5) by auto
      then have "syntheticLoop tick (d # ds) (rw, w) = syntheticLoop tick ds (fst s1, snd s1)"
        using mem f1 by (simp add: s1_def Let_def)
      then show ?thesis
        using Cons.IH [of "T @ [?name]" R "fst s1" "snd s1"] Cons.prems upd False s1 f1 by simp
    next
      case True
      define s2 where "s2 = addEvent tick (deploySource ?name) ''rolled-out''
        (''updated='' @ showInt (dpUpdatedReplicas d) @ '' ready='' @ showInt (dpReadyReplicas d)) s1"
      have eq: "(partial (T @ [?name]) R (fst s1))\<lparr>rwRolledOut :=
          rwRolledOut (partial (T @ [?name]) R (fst s1)) @ [?name]\<rparr> =
          partial (T @ [?name]) (R @ [?name]) (fst s1)" by (simp add: partial_def)
      have "?name \<in> set (rwTokenUpdated (partial (T @ [?name]) R (fst s1)))"
        and "?name \<notin> set (rwRolledOut (partial (T @ [?name]) R (fst s1)))"
        using Cons.prems(3) by (auto simp: partial_def)
      note logOk_rollout [OF assms(1) s1 this, unfolded eq]
      then have "logOk tick names (addEvent tick (deploySource ?name) ''rolled-out''
          (''updated='' @ showInt (dpUpdatedReplicas d) @ '' ready='' @ showInt (dpReadyReplicas d))
          (partial (T @ [?name]) (R @ [?name]) (fst s1), snd s1))" .
      then have s2: "logOk tick names (partial (T @ [?name]) (R @ [?name]) (fst s2), snd s2)"
        unfolding addEvent_partial s2_def by simp
      have f2: "rwTokenUpdated (fst s2) = rwTokenUpdated rw" "rwRolledOut (fst s2) = rwRolledOut rw"
        "rwNumDeployments (fst s2) = rwNumDeployments rw" "rwAllRolledOut (fst s2) = rwAllRolledOut rw"
        "rwLastGWReady (fst s2) = rwLastGWReady rw" "rwCurrentTokenHash (fst s2) = rwCurrentTokenHash rw"
        using f1 by (simp_all add: s2_def addEvent_fst)
      have "?name \<in> set (rwRolledOut rw)" using Cons.prems(5) upd True by simp
      then have "syntheticLoop tick (d # ds) (rw, w) = syntheticLoop tick ds (fst s2, snd s2)"
        using mem f1 by (simp add: s1_def s2_def Let_def)
      then show ?thesis
        using Cons.IH [of "T @ [?name]" "R @ [?name]" "fst s2" "snd s2"] Cons.prems upd True s2 f2 by simp
    qed
  qed
qed simp

lemma initialWatcher_ok:
  assumes inc: "increasing tick" and dist: "distinct (map dpName ds)"
    and init: "initialWatcher tick attach cur n gw ds pods w = Inr s"
  shows "logOk tick (set (map dpName ds)) s" and "rwNumDeployments (fst s) = n"
    and "length ds = n" and "rwCurrentTokenHash (fst s) = cur"
proof -
  from init show n: "length ds = n" by (simp add: initialWatcher_def split: if_splits)
  define rw0 where "rw0 =
     \<lparr>rwCurrentTokenHash = cur, rwInitialHash = [], rwCurrentHash = Map.empty,
      rwPodState = podStateLoop pods Map.empty,
      rwLastGWProgrammed = getUnstructuredCondition gw ''Programmed'',
      rwLastGWReady = getUnstructuredCondition gw ''Ready'', rwLastGWSuspended = False,
      rwLastRotateAt = getUnstructuredAnnotation gw AnnotationRotateTokenRequestedAt,
      rwTokenUpdated = [], rwRolledOut = [], rwNumDeployments = n, rwEvents = [],
      rwAllRolledOut = False\<rparr>"
  define rw1 where "rw1 = initialLoop attach cur ds rw0"
  define rw2 where "rw2 = rw1\<lparr>rwAllRolledOut := (length (rwRolledOut rw1) = n)\<rparr>"
  have "(if attach then syntheticLoop tick ds (rw2, w) else (rw2, w)) = s"
    using init n unfolding initialWatcher_def Let_def rw2_def rw1_def rw0_def by simp
  note s = this [symmetric]
  have z: "set (map dpName ds) \<inter> (set (rwTokenUpdated rw0) \<union> set (rwRolledOut rw0)) = {}"
    by (simp add: rw0_def)
  note f = initialLoop_lists [OF dist z, of attach cur, folded rw1_def]
  have f2: "rwTokenUpdated rw2 = map dpName (filter (updatedAtStart attach cur) ds)"
    "rwRolledOut rw2 = map dpName (filter (\<lambda>d. updatedAtStart attach cur d \<and> isWatchDeploymentRolledOut d) ds)"
    "rwEvents rw2 = []" "rwCurrentTokenHash rw2 = cur" "rwNumDeployments rw2 = n"
    "rwAllRolledOut rw2 \<longleftrightarrow> length (rwRolledOut rw2) = n"
    using f by (simp_all add: rw2_def) (simp_all add: rw0_def)
  have empty: "logOk tick (set (map dpName ds)) (partial [] [] rw2, w)"
    using f2 by (simp add: logOk_def Let_def partial_def)
  have "logOk tick (set (map dpName ds)) s \<and> rwNumDeployments (fst s) = n \<and> rwCurrentTokenHash (fst s) = cur"
  proof (cases attach)
    case False
    have "\<not> updatedAtStart False cur d" for d by (simp add: updatedAtStart_def)
    then have "rwTokenUpdated rw2 = []" "rwRolledOut rw2 = []" using f2(1,2) False by simp_all
    then show ?thesis using s False f2 by (simp add: logOk_def Let_def)
  next
    case True
    have "\<exists>rw' w'. syntheticLoop tick ds (rw2, w) = (rw', w') \<and>
       logOk tick (set (map dpName ds)) (partial (rwTokenUpdated rw2) (rwRolledOut rw2) rw', w') \<and>
       rwTokenUpdated rw' = rwTokenUpdated rw2 \<and> rwRolledOut rw' = rwRolledOut rw2 \<and>
       rwNumDeployments rw' = rwNumDeployments rw2 \<and> rwAllRolledOut rw' = rwAllRolledOut rw2 \<and>
       rwLastGWReady rw' = rwLastGWReady rw2 \<and> rwCurrentTokenHash rw' = cur"
      using syntheticLoop_ok [OF inc dist, of "set (map dpName ds)" "[]" "[]" rw2 cur w] f2 True empty
      by simp
    then obtain rw' w' where r: "syntheticLoop tick ds (rw2, w) = (rw', w')"
       "logOk tick (set (map dpName ds)) (partial (rwTokenUpdated rw2) (rwRolledOut rw2) rw', w')"
       "rwTokenUpdated rw' = rwTokenUpdated rw2" "rwRolledOut rw' = rwRolledOut rw2"
       "rwNumDeployments rw' = rwNumDeployments rw2" "rwAllRolledOut rw' = rwAllRolledOut rw2"
       "rwCurrentTokenHash rw' = cur" by blast
    then have "logOk tick (set (map dpName ds)) (rw', w')"
      using f2 by (simp add: logOk_def Let_def partial_def)
    then show ?thesis using r s True f2 by simp
  qed
  then show "logOk tick (set (map dpName ds)) s" and "rwNumDeployments (fst s) = n"
    and "rwCurrentTokenHash (fst s) = cur" by blast+
qed

section \<open>The timelines of a log\<close>

text \<open>The time of the event of a kind for a Deployment, and the Deployments with one.\<close>

definition eventTime :: "(rotationEvent \<Rightarrow> bool) \<Rightarrow> rotationEvent list \<Rightarrow> string \<Rightarrow> int" where
  "eventTime kind evs name =
     (case find (\<lambda>e. kind e \<and> reSource e = deploySource name) evs of
        None \<Rightarrow> zeroTime | Some e \<Rightarrow> reTime e)"

definition eventNames :: "(rotationEvent \<Rightarrow> bool) \<Rightarrow> rotationEvent list \<Rightarrow> string list" where
  "eventNames kind evs = map (\<lambda>e. drop (length ''Deployment/'') (reSource e)) (filter kind evs)"

definition deployEvent :: "rotationEvent \<Rightarrow> bool" where
  "deployEvent e \<longleftrightarrow> (isUpdate e \<or> isRollout e \<longrightarrow> (\<exists>name. reSource e = deploySource name))"

definition look :: "timelines \<Rightarrow> string \<Rightarrow> deployTimeline" where
  "look m name =
     (case map_of m name of
        None \<Rightarrow> \<lparr>dtName = name, dtTokenUpdated = zeroTime, dtRolledOut = zeroTime, dtPodEvents = []\<rparr>
      | Some dt \<Rightarrow> dt)"

lemma keys_getDT: "fst ` set (getDT name m) = insert name (fst ` set m)"
  by (auto simp: getDT_def)

lemma distinct_getDT: "distinct (map fst m) \<Longrightarrow> distinct (map fst (getDT name m))"
  by (auto simp: getDT_def)

lemma look_getDT: "look (getDT name m) k = look m k"
proof (cases "name \<in> fst ` set m")
  case False
  then have "map_of m name = None" by (simp add: map_of_eq_None_iff)
  then show ?thesis using False
    by (auto simp: getDT_def look_def map_of_append map_add_def split: option.splits)
qed (simp add: getDT_def)

lemma updateDT_facts:
  "fst ` set (updateDT name f m) = insert name (fst ` set m)"
  "distinct (map fst m) \<Longrightarrow> distinct (map fst (updateDT name f m))"
  "look (updateDT name f m) k = (if k = name then f (look m name) else look m k)"
proof -
  show "fst ` set (updateDT name f m) = insert name (fst ` set m)"
    by (simp add: updateDT_def AList.dom_map_entry keys_getDT)
  show "distinct (map fst m) \<Longrightarrow> distinct (map fst (updateDT name f m))"
    by (simp add: updateDT_def AList.distinct_map_entry distinct_getDT)
  obtain dt where dt: "map_of (getDT name m) name = Some dt"
    using keys_getDT [of name m] by (metis insertI1 map_of_eq_None_iff not_None_eq)
  then have "dt = look m name" using look_getDT [of name m name] by (simp add: look_def)
  then show "look (updateDT name f m) k = (if k = name then f (look m name) else look m k)"
    using look_getDT [of name m k] dt
    by (auto simp: updateDT_def look_def AList.map_of_map_entry split: option.splits)
qed

text \<open>The loop adds the Deployments of the events and of the Pods, and keeps their times.\<close>

definition hashOf :: "rotationEvent \<Rightarrow> string" where
  "hashOf e = drop (length ''hash='') (reDetail e)"

definition agree :: "string \<Rightarrow> rotationEvent list \<Rightarrow> bool" where
  "agree newHash evs \<longleftrightarrow> newHash = [] \<or> (\<forall>e\<in>set evs. isUpdate e \<longrightarrow> hashOf e = newHash)"

lemma eventNames_Cons:
  "eventNames kind (e # evs) =
     (if kind e then [drop (length ''Deployment/'') (reSource e)] else []) @ eventNames kind evs"
  by (simp add: eventNames_def)

lemma eventTime_Cons:
  "eventTime kind (e # evs) name =
     (if kind e \<and> reSource e = deploySource name then reTime e else eventTime kind evs name)"
  by (simp add: eventTime_def)

text \<open>What one round adds to the timelines.\<close>

lemma reportLoop_spec:
  assumes "list_all deployEvent evs" and "distinct (eventNames isUpdate evs)"
    and "distinct (eventNames isRollout evs)" and "distinct (map fst m)"
    and "\<And>e. set (ord e) \<subseteq> names"
  shows "case reportLoop ord newHash evs m of
      Inl err \<Rightarrow> \<not> agree newHash evs
    | Inr m' \<Rightarrow> agree newHash evs \<and> distinct (map fst m') \<and>
        fst ` set m \<union> set (eventNames isUpdate evs) \<union> set (eventNames isRollout evs) \<subseteq> fst ` set m' \<and>
        fst ` set m' \<subseteq> fst ` set m \<union> set (eventNames isUpdate evs) \<union> set (eventNames isRollout evs) \<union> names \<and>
        (\<forall>k. dtTokenUpdated (look m' k) =
               (if k \<in> set (eventNames isUpdate evs) then eventTime isUpdate evs k
                else dtTokenUpdated (look m k)) \<and>
             dtRolledOut (look m' k) =
               (if k \<in> set (eventNames isRollout evs) then eventTime isRollout evs k
                else dtRolledOut (look m k)))"
  using assms
proof (induction evs arbitrary: m)
  case Nil
  then show ?case by (simp add: agree_def eventNames_def)
next
  case (Cons ev evs)
  note IH = Cons.IH [OF _ _ _ _ Cons.prems(5)]
  consider (update) name where "isUpdate ev" "reSource ev = deploySource name"
    | (rollout) name where "isRollout ev" "reSource ev = deploySource name"
    | (other) "\<not> isUpdate ev" "\<not> isRollout ev"
    using Cons.prems(1) by (auto simp: deployEvent_def)
  then show ?case
  proof cases
    case update
    define m3 where "m3 = updateDT name (\<lambda>dt. dt\<lparr>dtTokenUpdated := reTime ev\<rparr>) m"
    have names: "eventNames isUpdate (ev # evs) = name # eventNames isUpdate evs"
      "eventNames isRollout (ev # evs) = eventNames isRollout evs"
      using update by (simp_all add: eventNames_Cons)
    show ?thesis
    proof (cases "newHash \<noteq> [] \<and> hashOf ev \<noteq> newHash")
      case True
      then show ?thesis using update by (simp add: Let_def hashOf_def agree_def)
    next
      case False
      then have r: "reportLoop ord newHash (ev # evs) m = reportLoop ord newHash evs m3"
        and "agree newHash (ev # evs) \<longleftrightarrow> agree newHash evs"
        using update by (auto simp: Let_def m3_def hashOf_def agree_def)
      moreover have "distinct (map fst m3)" using Cons.prems(4) by (simp add: m3_def updateDT_facts)
      moreover note IH [of m3]
      ultimately show ?thesis
        using Cons.prems(1-3) update names updateDT_facts(1,3) [of name _ m]
        by (auto simp: m3_def eventTime_Cons split: sum.splits)
    qed
  next
    case rollout
    define m3 where "m3 = updateDT name (\<lambda>dt. dt\<lparr>dtRolledOut := reTime ev\<rparr>) m"
    have names: "eventNames isRollout (ev # evs) = name # eventNames isRollout evs"
      "eventNames isUpdate (ev # evs) = eventNames isUpdate evs"
      using rollout by (simp_all add: eventNames_Cons)
    have r: "reportLoop ord newHash (ev # evs) m = reportLoop ord newHash evs m3"
      and "agree newHash (ev # evs) \<longleftrightarrow> agree newHash evs"
      using rollout by (auto simp: Let_def m3_def agree_def)
    moreover have "distinct (map fst m3)" using Cons.prems(4) by (simp add: m3_def updateDT_facts)
    moreover note IH [of m3]
    ultimately show ?thesis
      using Cons.prems(1-3) rollout names updateDT_facts(1,3) [of name _ m]
      by (auto simp: m3_def eventTime_Cons split: sum.splits)
  next
    case other
    define m3 where "m3 = (if hasPrefix (reSource ev) ''Pod/''
        then (case podOwner ord ev of None \<Rightarrow> m
              | Some dName \<Rightarrow> updateDT dName (\<lambda>dt. dt\<lparr>dtPodEvents := dtPodEvents dt @ [ev]\<rparr>) m)
        else m)"
    have r: "reportLoop ord newHash (ev # evs) m = reportLoop ord newHash evs m3"
      and a: "agree newHash (ev # evs) \<longleftrightarrow> agree newHash evs"
      using other by (auto simp: Let_def m3_def agree_def)
    have names: "eventNames isUpdate (ev # evs) = eventNames isUpdate evs"
      "eventNames isRollout (ev # evs) = eventNames isRollout evs"
      "eventTime isUpdate (ev # evs) k = eventTime isUpdate evs k"
      "eventTime isRollout (ev # evs) k = eventTime isRollout evs k" for k
      using other by (simp_all add: eventNames_Cons eventTime_Cons)
    have "dName \<in> names" if "podOwner ord ev = Some dName" for dName
      using find_Some_D that Cons.prems(5) unfolding podOwner_def by fast
    then have keys: "fst ` set m \<subseteq> fst ` set m3" "fst ` set m3 \<subseteq> fst ` set m \<union> names"
      and d: "distinct (map fst m3)"
      and l: "dtTokenUpdated (look m3 k) = dtTokenUpdated (look m k)"
        "dtRolledOut (look m3 k) = dtRolledOut (look m k)" for k
      using Cons.prems(4) by (auto simp: m3_def updateDT_facts split: option.splits)
    have sub: "A \<union> B \<union> C \<subseteq> D" if "A' \<union> B \<union> C \<subseteq> D" "A \<subseteq> A'" for A A' B C D :: "string set"
      using that by blast
    have sup: "D \<subseteq> A \<union> B \<union> C \<union> names" if "D \<subseteq> A' \<union> B \<union> C \<union> names" "A' \<subseteq> A \<union> names"
      for A A' B C D :: "string set"
      using that by blast
    have ih: "case reportLoop ord newHash evs m3 of
        Inl err \<Rightarrow> \<not> agree newHash evs
      | Inr m' \<Rightarrow> agree newHash evs \<and> distinct (map fst m') \<and>
        fst ` set m3 \<union> set (eventNames isUpdate evs) \<union> set (eventNames isRollout evs) \<subseteq> fst ` set m' \<and>
        fst ` set m' \<subseteq> fst ` set m3 \<union> set (eventNames isUpdate evs) \<union> set (eventNames isRollout evs) \<union> names \<and>
        (\<forall>k. dtTokenUpdated (look m' k) =
               (if k \<in> set (eventNames isUpdate evs) then eventTime isUpdate evs k
                else dtTokenUpdated (look m3 k)) \<and>
             dtRolledOut (look m' k) =
               (if k \<in> set (eventNames isRollout evs) then eventTime isRollout evs k
                else dtRolledOut (look m3 k)))"
      using IH [OF _ _ _ d] Cons.prems(1-3) by (simp add: names)
    show ?thesis
    proof (cases "reportLoop ord newHash evs m3")
      case (Inl err)
      then show ?thesis using ih unfolding r a by simp
    next
      case (Inr m')
      have "fst ` set m \<union> set (eventNames isUpdate evs) \<union> set (eventNames isRollout evs) \<subseteq> fst ` set m'"
        by (rule sub [OF _ keys(1)]) (use ih Inr in simp)
      moreover have "fst ` set m' \<subseteq> fst ` set m \<union> set (eventNames isUpdate evs) \<union>
          set (eventNames isRollout evs) \<union> names"
        by (rule sup [OF _ keys(2)]) (use ih Inr in simp)
      ultimately show ?thesis using ih Inr unfolding r a names l by simp
    qed
  qed
qed

abbreviation settledBefore :: "deployTimeline \<Rightarrow> deployTimeline \<Rightarrow> bool" where
  "settledBefore p q \<equiv> dtRolledOut p \<le> dtTokenUpdated q"

lemma timelineLoop_spec:
  assumes "\<forall>dt\<in>set dts. dtTokenUpdated dt \<noteq> zeroTime \<and> dtRolledOut dt \<noteq> zeroTime"
  shows "\<exists>v'. timelineLoop fmt prev v dts = Inr v' \<and>
     (v' = None \<longleftrightarrow> v = None \<and>
        successively settledBefore ((case prev of None \<Rightarrow> [] | Some p \<Rightarrow> [p]) @ dts))"
  using assms
proof (induction fmt prev v dts rule: timelineLoop.induct)
  case (2 fmt prev v dt dts)
  then have z: "dtTokenUpdated dt \<noteq> zeroTime" "dtRolledOut dt \<noteq> zeroTime" by simp_all
  show ?case
    using "2.IH" [OF z] "2.prems" z by (cases prev) auto
qed (simp split: option.split)

lemma successively_intervals:
  fixes u r :: "'a \<Rightarrow> int"
  assumes "sorted (map u xs)" and "distinct (map u xs)"
  shows "successively (\<lambda>p q. r p \<le> u q) xs \<longleftrightarrow>
     (\<forall>a\<in>set xs. \<forall>b\<in>set xs. u a < u b \<longrightarrow> r a \<le> u b)"
  using assms
proof (induction xs rule: induct_list012)
  case (3 x y zs)
  have less: "u x < u b" if "b \<in> set (y # zs)" for b
    using "3.prems" that by (auto simp: order_less_le)
  have "u y \<le> u b" if "b \<in> set (y # zs)" for b using "3.prems" that by auto
  then have far: "r x \<le> u b" if "r x \<le> u y" "b \<in> set (y # zs)" for b
    using that order_trans by blast
  have "successively (\<lambda>p q. r p \<le> u q) (x # y # zs) \<longleftrightarrow> r x \<le> u y \<and>
      (\<forall>a\<in>set (y # zs). \<forall>b\<in>set (y # zs). u a < u b \<longrightarrow> r a \<le> u b)"
    using 3 by simp
  also have "\<dots> \<longleftrightarrow> (\<forall>a\<in>set (x # y # zs). \<forall>b\<in>set (x # y # zs). u a < u b \<longrightarrow> r a \<le> u b)"
  proof (intro iffI ballI impI conjI)
    fix a b
    assume l: "r x \<le> u y \<and> (\<forall>a\<in>set (y # zs). \<forall>b\<in>set (y # zs). u a < u b \<longrightarrow> r a \<le> u b)"
      and ab: "a \<in> set (x # y # zs)" "b \<in> set (x # y # zs)" "u a < u b"
    then have "b \<in> set (y # zs)" using less [of a] by auto
    then show "r a \<le> u b" using l ab far by auto
  next
    assume "\<forall>a\<in>set (x # y # zs). \<forall>b\<in>set (x # y # zs). u a < u b \<longrightarrow> r a \<le> u b"
    then show "r x \<le> u y" using less [of y] by simp
  qed auto
  finally show ?case .
qed auto

lemma eventTime_unique:
  assumes "distinct (eventNames kind evs)" and "e \<in> set evs" and "kind e"
    and "reSource e = deploySource name"
  shows "eventTime kind evs name = reTime e"
  using assms
proof (induction evs)
  case (Cons f evs)
  show ?case
  proof (cases "kind f \<and> reSource f = deploySource name")
    case True
    have "e \<notin> set evs"
    proof
      assume "e \<in> set evs"
      then have "name \<in> set (eventNames kind evs)"
        using Cons.prems(3,4) unfolding eventNames_def by (auto intro!: image_eqI [of _ _ e])
      then show False using Cons.prems(1) True by (simp add: eventNames_Cons)
    qed
    then show ?thesis using Cons.prems True by (simp add: eventTime_Cons)
  next
    case False
    then have "e \<in> set evs" using Cons.prems by auto
    moreover have "distinct (eventNames kind evs)" using Cons.prems(1) by (simp add: eventNames_Cons)
    ultimately show ?thesis using Cons.IH Cons.prems(3,4) False by (auto simp: eventTime_Cons)
  qed
qed simp

lemma eventNames_sources:
  assumes "map reSource (filter kind evs) = map deploySource names"
  shows "eventNames kind evs = names"
proof -
  have "eventNames kind evs = map (drop (length ''Deployment/'')) (map reSource (filter kind evs))"
    by (simp add: eventNames_def)
  also have "\<dots> = names" by (simp add: assms comp_def)
  finally show ?thesis .
qed

section \<open>What the log of a finished watch says\<close>

lemma logOk_finished:
  assumes "logOk tick names s" and "finite names" and "card names \<le> rwNumDeployments (fst s)"
    and "rwAllRolledOut (fst s)"
  defines "evs \<equiv> rwEvents (fst s)"
  shows "list_all deployEvent evs" and "distinct (eventNames isUpdate evs)"
    and "distinct (eventNames isRollout evs)"
    and "set (eventNames isUpdate evs) = names" and "set (eventNames isRollout evs) = names"
    and "\<forall>a\<in>names. zeroTime < eventTime isUpdate evs a \<and> eventTime isUpdate evs a < eventTime isRollout evs a"
    and "inj_on (eventTime isUpdate evs) names"
    and "\<forall>e\<in>set evs. isUpdate e \<longrightarrow> hashOf e \<noteq> rwCurrentTokenHash (fst s)"
proof -
  note ok = assms(1) [unfolded logOk_def Let_def, folded evs_def]
  have u: "eventNames isUpdate evs = rwTokenUpdated (fst s)"
    and r: "eventNames isRollout evs = rwRolledOut (fst s)"
    using ok eventNames_sources by blast+
  show du: "distinct (eventNames isUpdate evs)" and dr: "distinct (eventNames isRollout evs)"
    using ok u r by simp_all
  have "rwNumDeployments (fst s) \<le> length (rwRolledOut (fst s))" using ok assms(4) by blast
  then have "card names \<le> card (set (rwRolledOut (fst s)))"
    using assms(3) ok by (simp add: distinct_card)
  moreover have "set (rwRolledOut (fst s)) \<subseteq> names" using ok by blast
  ultimately have ro: "set (rwRolledOut (fst s)) = names" using card_seteq assms(2) by blast
  then show "set (eventNames isRollout evs) = names" using r by simp
  show un: "set (eventNames isUpdate evs) = names" using ok ro u by auto
  have src: "\<exists>name. reSource e = deploySource name" if "e \<in> set evs" "isUpdate e \<or> isRollout e" for e
  proof -
    have "reSource e \<in> set (map reSource (filter isUpdate evs)) \<union> set (map reSource (filter isRollout evs))"
      using that by auto
    moreover have "map reSource (filter isUpdate evs) = map deploySource (rwTokenUpdated (fst s))"
      and "map reSource (filter isRollout evs) = map deploySource (rwRolledOut (fst s))"
      using ok by blast+
    ultimately show ?thesis by auto
  qed
  then show "list_all deployEvent evs" by (simp add: list_all_iff deployEvent_def)
  have ev: "\<exists>e\<in>set evs. isUpdate e \<and> reSource e = deploySource a" if "a \<in> names" for a
  proof -
    have "deploySource a \<in> set (map reSource (filter isUpdate evs))"
      using ok that un u by auto
    then show ?thesis by auto
  qed
  show "\<forall>a\<in>names. zeroTime < eventTime isUpdate evs a \<and> eventTime isUpdate evs a < eventTime isRollout evs a"
  proof
    fix a assume a: "a \<in> names"
    have "deploySource a \<in> set (map reSource (filter isRollout evs))" using ok a ro by auto
    then obtain e where e: "e \<in> set evs" "isRollout e" "reSource e = deploySource a" by auto
    then obtain f where f: "f \<in> set evs" "isUpdate f" "reSource f = deploySource a" "reTime f < reTime e"
      using ok by metis
    have "eventTime isUpdate evs a = reTime f" "eventTime isRollout evs a = reTime e"
      using eventTime_unique [OF du f(1) f(2,3)] eventTime_unique [OF dr e] by simp_all
    then show "zeroTime < eventTime isUpdate evs a \<and> eventTime isUpdate evs a < eventTime isRollout evs a"
      using ok f by auto
  qed
  show "inj_on (eventTime isUpdate evs) names"
  proof (rule inj_onI)
    fix a b assume ab: "a \<in> names" "b \<in> names" "eventTime isUpdate evs a = eventTime isUpdate evs b"
    obtain e f where e: "e \<in> set evs" "isUpdate e" "reSource e = deploySource a"
      and f: "f \<in> set evs" "isUpdate f" "reSource f = deploySource b" using ev ab(1,2) by blast
    then have t: "reTime e = reTime f"
      using eventTime_unique [OF du e] eventTime_unique [OF du f] ab(3) by simp
    have "distinct (map reTime evs)" using ok strict_sorted_iff by blast
    then have "e = f" using t e(1) f(1) by (meson distinct_map inj_onD)
    then show "a = b" using e f by simp
  qed
  show "\<forall>e\<in>set evs. isUpdate e \<longrightarrow> hashOf e \<noteq> rwCurrentTokenHash (fst s)"
    using ok by (auto simp: hashOf_def)
qed

text \<open>One token update at a time: each after the rollouts of all those updated before it.\<close>

definition oneAtATime :: "string set \<Rightarrow> rotationEvent list \<Rightarrow> bool" where
  "oneAtATime names evs \<longleftrightarrow>
     (\<forall>a\<in>names. \<forall>b\<in>names. eventTime isUpdate evs a < eventTime isUpdate evs b \<longrightarrow>
        eventTime isRollout evs a \<le> eventTime isUpdate evs b)"

lemma printReport_spec:
  assumes ok: "logOk tick names s" and fin: "finite names" "names \<noteq> {}"
    and n: "card names = rwNumDeployments (fst s)" and "rwAllRolledOut (fst s)"
    and srt: "\<And>dts. mset (srt dts) = mset dts" "\<And>dts. sorted (map dtTokenUpdated (srt dts))"
    and ord: "\<And>e. set (ord e) \<subseteq> names"
  shows "\<exists>r. printReport srt ord fmt (rwEvents (fst s)) (rwNumDeployments (fst s)) = Returned r \<and>
     (r = None \<longleftrightarrow> agree (newHashOf (rwEvents (fst s))) (rwEvents (fst s)) \<and>
        oneAtATime names (rwEvents (fst s)))"
proof -
  let ?evs = "rwEvents (fst s)" and ?n = "rwNumDeployments (fst s)"
  note f = logOk_finished [OF ok fin(1) eq_refl [OF n] assms(5)]
  note spec = reportLoop_spec [OF f(1-3), of "[]" ord names "newHashOf ?evs", OF _ ord]
  show ?thesis
  proof (cases "reportLoop ord (newHashOf ?evs) ?evs []")
    case (Inl err)
    then show ?thesis using spec by (simp add: printReport_def)
  next
    case (Inr m)
    with spec have ag: "agree (newHashOf ?evs) ?evs" and d: "distinct (map fst m)"
      and keys: "fst ` set m = names"
      using f(4,5) by auto
    have t: "dtTokenUpdated (look m k) = eventTime isUpdate ?evs k"
        "dtRolledOut (look m k) = eventTime isRollout ?evs k" if "k \<in> names" for k
      using spec Inr that f(4,5) by auto
    have len: "length m = ?n"
      using distinct_card [OF d] keys n by simp
    define dts where "dts = srt (map snd m)"
    have dts: "set dts = look m ` names"
    proof -
      have "snd p = look m (fst p)" if "p \<in> set m" for p
      proof -
        have "map_of m (fst p) = Some (snd p)" using that d by (intro map_of_is_SomeI) simp_all
        then show ?thesis by (simp add: look_def)
      qed
      then have "snd ` set m = look m ` fst ` set m" by (simp add: image_image)
      then show ?thesis
        using arg_cong [OF srt(1) [of "map snd m"], of set_mset] keys by (simp add: dts_def)
    qed
    then have ne: "dts \<noteq> []" using fin(2) by auto
    have "map dtTokenUpdated dts = map dtTokenUpdated (srt (map snd m))" by (simp add: dts_def)
    have "distinct (map dtTokenUpdated dts)"
    proof -
      have "length dts = card names"
        using arg_cong [OF srt(1) [of "map snd m"], of size] len n by (simp add: dts_def)
      moreover have "set (map dtTokenUpdated dts) = eventTime isUpdate ?evs ` names"
        using t dts by (auto simp: image_image)
      moreover have "card (eventTime isUpdate ?evs ` names) = card names" using f(7) by (rule card_image)
      ultimately show ?thesis by (simp add: card_distinct)
    qed
    from successively_intervals [OF _ this, of dtRolledOut] srt(2) [of "map snd m"]
    have succ: "successively settledBefore dts \<longleftrightarrow> oneAtATime names ?evs"
      using dts t by (simp add: dts_def [symmetric] oneAtATime_def)
    have "\<forall>dt\<in>set dts. dtTokenUpdated dt \<noteq> zeroTime \<and> dtRolledOut dt \<noteq> zeroTime"
      using dts t f(6) by fastforce
    from timelineLoop_spec [OF this, of fmt None None] obtain v' where
      "timelineLoop fmt None None dts = Inr v'" "v' = None \<longleftrightarrow> successively settledBefore dts" by auto
    then show ?thesis
      using Inr len ne ag succ by (simp add: printReport_def dts_def)
  qed
qed

text \<open>Once all Deployments are rolled out, they stay so.\<close>

lemma processEvent_sticky:
  assumes "processEvent tick ev s = Returned (result, s')"
  shows "rwAllRolledOut (fst s) \<Longrightarrow> rwAllRolledOut (fst s')"
    and "wrDone result \<Longrightarrow> rwAllRolledOut (fst s') \<and> rwLastGWReady (fst s') = ''True''"
proof -
  have add: "rwAllRolledOut (fst (addEvent tick a b c t)) = rwAllRolledOut (fst t)"
    "rwLastGWReady (fst (addEvent tick a b c t)) = rwLastGWReady (fst t)" for a b c t
    by (simp_all add: addEvent_fst)
  show "rwAllRolledOut (fst s) \<Longrightarrow> rwAllRolledOut (fst s')"
    and "wrDone result \<Longrightarrow> rwAllRolledOut (fst s') \<and> rwLastGWReady (fst s') = ''True''"
    using assms
    unfolding processEvent_def handleDeployUpdate_def handleGatewayUpdate_def handlePodAdd_def
      handlePodUpdate_def handlePodDelete_def Let_def
    by (auto simp: case_prod_beta add split: if_splits informer_obj.splits)
qed

lemma follows_trans: "follows tick names s1 s2 \<Longrightarrow> follows tick names s0 s1 \<Longrightarrow> follows tick names s0 s2"
  by (induction rule: follows.induct) (auto intro: follows.intros)

abbreviation inputsOf :: "string set \<Rightarrow> watch_input list \<Rightarrow> bool" where
  "inputsOf names inputs \<equiv> \<forall>ev. Arrived ev \<in> set inputs \<longrightarrow> eventOf names ev"

lemma drainLoop_end:
  assumes "drainLoop tick report inputs s = Some (Ended r)" and "inputsOf names inputs"
    and "rwAllRolledOut (fst s)"
  shows "\<exists>s'. follows tick names s s' \<and> rwAllRolledOut (fst s') \<and>
     report (rwEvents (fst s')) (rwNumDeployments (fst s')) = Returned r"
  using assms
proof (induction tick report inputs s rule: drainLoop.induct)
  case (2 tick report i "is" s)
  show ?case
  proof (cases i)
    case (Arrived ev)
    then obtain result s1 where p: "processEvent tick ev s = Returned (result, s1)"
      and "drainLoop tick report is s1 = Some (Ended r)"
      using "2.prems"(1) by (auto split: outcome.splits)
    moreover have "rwAllRolledOut (fst s1)" using processEvent_sticky(1) [OF p] "2.prems"(3) by simp
    ultimately obtain s' where s': "follows tick names s1 s'" "rwAllRolledOut (fst s')"
        "report (rwEvents (fst s')) (rwNumDeployments (fst s')) = Returned r"
      using "2.IH"(1) [OF Arrived p refl] "2.prems"(2) by auto
    have "follows tick names s s1"
      using follows.event [OF follows.start _ p] "2.prems"(2) Arrived by simp
    with s' show ?thesis using follows_trans by metis
  next
    case ContextDone
    then show ?thesis using "2.IH"(2) "2.prems" by simp
  next
    case TimerFired
    then have "report (rwEvents (fst s)) (rwNumDeployments (fst s)) = Returned r"
      using "2.prems"(1) by (auto simp: reportEnd_def split: outcome.splits)
    then show ?thesis using "2.prems"(3) follows.start [of tick names s] by blast
  qed
qed simp

lemma watchLoop_end:
  assumes "watchLoop tick report inputs s = Some (Ended None)" and "inputsOf names inputs"
  shows "\<exists>s1 s'. follows tick names s s1 \<and> rwAllRolledOut (fst s1) \<and> rwLastGWReady (fst s1) = ''True'' \<and>
     follows tick names s1 s' \<and> rwAllRolledOut (fst s') \<and>
     report (rwEvents (fst s')) (rwNumDeployments (fst s')) = Returned None"
  using assms
proof (induction tick report inputs s rule: watchLoop.induct)
  case (2 tick report i "is" s)
  show ?case
  proof (cases i)
    case (Arrived ev)
    then obtain result s1 where p: "processEvent tick ev s = Returned (result, s1)"
      and ns: "\<not> wrSuspended result"
      using "2.prems"(1) by (auto simp: Let_def split: outcome.splits if_splits)
    have step: "follows tick names s s1"
      using follows.event [OF follows.start _ p] "2.prems"(2) Arrived by simp
    show ?thesis
    proof (cases "wrDone result")
      case True
      then have "drainLoop tick report is s1 = Some (Ended None)"
        using "2.prems"(1) Arrived p ns by (simp add: Let_def)
      moreover have r: "rwAllRolledOut (fst s1)" "rwLastGWReady (fst s1) = ''True''"
        using processEvent_sticky(2) [OF p True] by simp_all
      ultimately obtain s' where "follows tick names s1 s'" "rwAllRolledOut (fst s')"
          "report (rwEvents (fst s')) (rwNumDeployments (fst s')) = Returned None"
        using drainLoop_end [of tick report "is" s1 None names] "2.prems"(2) by auto
      then show ?thesis using step r by blast
    next
      case False
      then have "watchLoop tick report is s1 = Some (Ended None)"
        using "2.prems"(1) Arrived p ns by (simp add: Let_def)
      then obtain t s' where t: "follows tick names s1 t" "rwAllRolledOut (fst t)"
          "rwLastGWReady (fst t) = ''True''" "follows tick names t s'" "rwAllRolledOut (fst s')"
          "report (rwEvents (fst s')) (rwNumDeployments (fst s')) = Returned None"
        using "2.IH"(1) [OF refl Arrived p refl] ns False "2.prems"(2) by auto
      then show ?thesis using follows_trans [OF t(1) step] by blast
    qed
  next
    case ContextDone
    then show ?thesis using "2.prems" by (auto simp: Let_def split: outcome.splits)
  next
    case TimerFired
    then show ?thesis using "2.IH"(2) [OF refl TimerFired] "2.prems" by (simp add: Let_def)
  qed
qed simp

section \<open>Properties\<close>

text \<open>
  Whatever events a watch of the Deployments it started with receives, in whatever order, its log
  stays consistent: a Deployment gets one token-updated event, with a hash other than the one
  the watch started from, and at most one rolled-out event, which comes later; the times
  increase; and the watch takes all Deployments for rolled out only when as many as were
  expected are.
\<close>

lemma rotation_log_invariant:
  assumes "increasing tick" and "distinct (map dpName ds)"
    and "initialWatcher tick attach cur n gw ds pods w = Inr s0"
    and "follows tick (set (map dpName ds)) s0 s"
  shows "distinct (eventNames isUpdate (rwEvents (fst s))) \<and>
     distinct (eventNames isRollout (rwEvents (fst s))) \<and>
     eventNames isUpdate (rwEvents (fst s)) = rwTokenUpdated (fst s) \<and>
     eventNames isRollout (rwEvents (fst s)) = rwRolledOut (fst s) \<and>
     set (rwTokenUpdated (fst s)) \<subseteq> set (map dpName ds) \<and>
     sorted_wrt (<) (map reTime (rwEvents (fst s))) \<and>
     (\<forall>e\<in>set (rwEvents (fst s)).
        (isUpdate e \<longrightarrow> (\<exists>h. reDetail e = ''hash='' @ h \<and> h \<noteq> cur)) \<and>
        (isRollout e \<longrightarrow> (\<exists>f\<in>set (rwEvents (fst s)).
           isUpdate f \<and> reSource f = reSource e \<and> reTime f < reTime e))) \<and>
     (rwAllRolledOut (fst s) \<longrightarrow> set (rwRolledOut (fst s)) = set (map dpName ds))"
proof -
  let ?names = "set (map dpName ds)"
  note init = initialWatcher_ok [OF assms(1-3)]
  from follows_ok [OF assms(4,1) init(1)] have logok: "logOk tick ?names s"
    and same: "sameWatch (fst s) (fst s0)" by simp_all
  note ok = logok [unfolded logOk_def Let_def]
  have cur: "rwCurrentTokenHash (fst s) = cur" and n: "rwNumDeployments (fst s) = n"
    using same init(2,4) by (simp_all add: sameWatch_def)
  have u: "eventNames isUpdate (rwEvents (fst s)) = rwTokenUpdated (fst s)"
    and r: "eventNames isRollout (rwEvents (fst s)) = rwRolledOut (fst s)"
    using ok eventNames_sources by blast+
  have "card ?names = n" using distinct_card [OF assms(2)] init(3) by simp
  then have all: "set (rwRolledOut (fst s)) = ?names" if "rwAllRolledOut (fst s)"
    using logOk_finished(5) [OF logok _ _ that] n r by simp
  have new: "\<forall>e\<in>set (rwEvents (fst s)). isUpdate e \<longrightarrow> (\<exists>h. reDetail e = ''hash='' @ h \<and> h \<noteq> cur)"
    using ok unfolding cur by (elim conjE)
  have later: "\<forall>e\<in>set (rwEvents (fst s)). isRollout e \<longrightarrow> (\<exists>f\<in>set (rwEvents (fst s)).
      isUpdate f \<and> reSource f = reSource e \<and> reTime f < reTime e)"
    using ok by (elim conjE)
  have "distinct (rwTokenUpdated (fst s)) \<and> distinct (rwRolledOut (fst s)) \<and>
      set (rwTokenUpdated (fst s)) \<subseteq> ?names \<and> sorted_wrt (<) (map reTime (rwEvents (fst s)))"
    using ok by (elim conjE) (intro conjI)
  then show ?thesis
    unfolding u r using new later all by (intro conjI ballI) (elim conjE bspec, assumption | simp)+
qed

text \<open>
  C33. The report's verdict is exact: in every state of a watch in which all Deployments are rolled
  out, the report on its log returns, and passes exactly when all Deployments got the same new
  hash (or the first one has none) and the updates went one at a time, each Deployment's token
  being updated only once the rollouts of all those updated before it were done.
\<close>

theorem rotation_report_exact:
  assumes "increasing tick" and "distinct (map dpName ds)" and "ds \<noteq> []"
    and "initialWatcher tick attach cur n gw ds pods w = Inr s0"
    and "follows tick (set (map dpName ds)) s0 s" and "rwAllRolledOut (fst s)"
    and "\<And>dts. mset (srt dts) = mset dts" and "\<And>dts. sorted (map dtTokenUpdated (srt dts))"
    and "\<And>e. set (ord e) \<subseteq> set (map dpName ds)"
  shows "\<exists>r. printReport srt ord fmt (rwEvents (fst s)) n = Returned r \<and>
     (r = None \<longleftrightarrow> agree (newHashOf (rwEvents (fst s))) (rwEvents (fst s)) \<and>
        oneAtATime (set (map dpName ds)) (rwEvents (fst s)))"
proof -
  note init = initialWatcher_ok [OF assms(1,2,4)]
  from follows_ok [OF assms(5,1) init(1)] have ok: "logOk tick (set (map dpName ds)) s"
    and n: "rwNumDeployments (fst s) = n" using init(2) by (simp_all add: sameWatch_def)
  have "card (set (map dpName ds)) = rwNumDeployments (fst s)"
    using distinct_card [OF assms(2)] init(3) n by simp
  from printReport_spec [where srt = srt and ord = ord and fmt = fmt, OF ok _ _ this assms(6-9)] show ?thesis
    using assms(3) n by simp
qed


section \<open>Witnesses\<close>

definition demoTick :: "nat \<Rightarrow> int \<times> nat" where
  "demoTick w = (int w, Suc w)"

lemma demoTick_increasing: "increasing demoTick"
  by (simp add: increasing_def demoTick_def zeroTime_def)

definition demoDep :: "string \<Rightarrow> string \<Rightarrow> int \<Rightarrow> deployment" where
  "demoDep name hash ready =
     \<lparr>dpName = name, dpGeneration = 1, dpObservedGeneration = 1, dpReplicas = None,
      dpStatusReplicas = 1, dpUpdatedReplicas = 1, dpReadyReplicas = ready,
      dpTemplateAnnotations = [AnnotationTokenHash \<mapsto> hash], dpConditions = []\<rparr>"

definition demoUpdate :: "string \<Rightarrow> string \<Rightarrow> int \<Rightarrow> informerEvent" where
  "demoUpdate name hash ready =
     \<lparr>ieResourceKind = ''Deployment'', ieChangeType = ''update'',
      ieObj = DeploymentObj (demoDep name hash ready)\<rparr>"

definition demoGateway :: unstructured_obj where
  "demoGateway = \<lparr>uoName = ''web'', uoAnnotations = None, uoConditions = Some
     [JObj [(''type'', JStr ''Ready''), (''status'', JStr ''True'')]]\<rparr>"

abbreviation demoStart :: "deployment list" where
  "demoStart \<equiv> [demoDep ''a'' ''old'' 1, demoDep ''b'' ''old'' 1]"

definition demoInputs :: "watch_input list" where
  "demoInputs =
     [Arrived (demoUpdate ''a'' ''new'' 0), Arrived (demoUpdate ''a'' ''new'' 1),
      Arrived (demoUpdate ''b'' ''new'' 0), Arrived (demoUpdate ''b'' ''new'' 1), TimerFired]"

abbreviation demoReport :: report where
  "demoReport \<equiv> printReport (sort_key dtTokenUpdated) (\<lambda>e. [''a'', ''b'']) showInt"

definition demoRun :: "(rotationWatcher \<times> nat) option" where
  "demoRun =
     (case initialWatcher demoTick False ''old'' 2 demoGateway demoStart [] 0 of
        Inl e \<Rightarrow> None
      | Inr s \<Rightarrow>
          Some (fold (\<lambda>ev t. case processEvent demoTick ev t of Panicked \<Rightarrow> t | Returned r \<Rightarrow> snd r)
             [demoUpdate ''a'' ''new'' 0, demoUpdate ''a'' ''new'' 1, demoUpdate ''b'' ''new'' 0,
              demoUpdate ''b'' ''new'' 1] s))"

lemma demoStart_facts: "distinct (map dpName demoStart)" "set (map dpName demoStart) = {''a'', ''b''}"
  by (simp_all add: demoDep_def)

lemma demoRun_follows:
  "\<exists>s0 s. initialWatcher demoTick False ''old'' 2 demoGateway demoStart [] 0 = Inr s0 \<and>
     demoRun = Some s \<and> follows demoTick {''a'', ''b''} s0 s"
proof -
  obtain s0 where s0: "initialWatcher demoTick False ''old'' 2 demoGateway demoStart [] 0 = Inr s0"
  proof -
    have "\<not> isl (initialWatcher demoTick False ''old'' 2 demoGateway demoStart [] 0)" by code_simp
    then show ?thesis
      using that by (cases "initialWatcher demoTick False ''old'' 2 demoGateway demoStart [] 0") simp_all
  qed
  have step: "follows demoTick {''a'', ''b''} s0
      (case processEvent demoTick (demoUpdate name hash r) t of Panicked \<Rightarrow> t | Returned r \<Rightarrow> snd r)"
    if "follows demoTick {''a'', ''b''} s0 t" "name \<in> {''a'', ''b''}" for t name hash r
  proof -
    have "eventOf {''a'', ''b''} (demoUpdate name hash r)"
      using that(2) by (simp add: eventOf_def demoUpdate_def demoDep_def)
    then show ?thesis
      using follows.event [OF that(1)] that(1) by (auto split: outcome.split)
  qed
  have "demoRun = Some (fold (\<lambda>ev t. case processEvent demoTick ev t of Panicked \<Rightarrow> t | Returned r \<Rightarrow> snd r)
      [demoUpdate ''a'' ''new'' 0, demoUpdate ''a'' ''new'' 1, demoUpdate ''b'' ''new'' 0,
       demoUpdate ''b'' ''new'' 1] s0)"
    using s0 by (simp add: demoRun_def)
  moreover have "follows demoTick {''a'', ''b''} s0
      (fold (\<lambda>ev t. case processEvent demoTick ev t of Panicked \<Rightarrow> t | Returned r \<Rightarrow> snd r)
      [demoUpdate ''a'' ''new'' 0, demoUpdate ''a'' ''new'' 1, demoUpdate ''b'' ''new'' 0,
       demoUpdate ''b'' ''new'' 1] s0)"
    by (simp only: fold_simps) (intro step follows.start insertI1 insertI2)
  ultimately show ?thesis using s0 by blast
qed

lemma demoRun_rolledOut: "map_option (\<lambda>s. rwAllRolledOut (fst s)) demoRun = Some True"
  by code_simp

lemma rotation_log_invariant_witness:
  "\<exists>s. demoRun = Some s \<and> set (rwRolledOut (fst s)) = {''a'', ''b''}"
proof -
  obtain s0 s where s: "initialWatcher demoTick False ''old'' 2 demoGateway demoStart [] 0 = Inr s0"
     "demoRun = Some s" "follows demoTick {''a'', ''b''} s0 s" using demoRun_follows by blast
  have all: "rwAllRolledOut (fst s)" using demoRun_rolledOut s(2) by (metis option.inject option.simps(9))
  have f: "follows demoTick (set (map dpName demoStart)) s0 s"
    unfolding demoStart_facts(2) by (rule s(3))
  from rotation_log_invariant [OF demoTick_increasing demoStart_facts(1) s(1) f]
  have "rwAllRolledOut (fst s) \<longrightarrow> set (rwRolledOut (fst s)) = {''a'', ''b''}"
    unfolding demoStart_facts(2) by (elim conjE)
  from this [rule_format, OF all] s(2) show ?thesis by (intro exI [of _ s] conjI)
qed

lemma rotation_report_exact_witness:
  "\<exists>s. demoRun = Some s \<and> demoReport (rwEvents (fst s)) 2 = Returned None \<and>
     oneAtATime {''a'', ''b''} (rwEvents (fst s))"
proof -
  obtain s0 s where s: "initialWatcher demoTick False ''old'' 2 demoGateway demoStart [] 0 = Inr s0"
     "demoRun = Some s" "follows demoTick {''a'', ''b''} s0 s" using demoRun_follows by blast
  have all: "rwAllRolledOut (fst s)" using demoRun_rolledOut s(2) by (metis option.inject option.simps(9))
  have ne: "demoStart \<noteq> []" by simp
  have "map_option (\<lambda>s. demoReport (rwEvents (fst s)) 2) demoRun = Some (Returned None)" by code_simp
  then have "demoReport (rwEvents (fst s)) 2 = Returned None"
    using s(2) by (metis option.inject option.simps(9))
  moreover have f: "follows demoTick (set (map dpName demoStart)) s0 s"
    unfolding demoStart_facts(2) by (rule s(3))
  have "\<exists>r. demoReport (rwEvents (fst s)) 2 = Returned r \<and>
     (r = None \<longleftrightarrow> agree (newHashOf (rwEvents (fst s))) (rwEvents (fst s)) \<and>
        oneAtATime (set (map dpName demoStart)) (rwEvents (fst s)))"
    by (rule rotation_report_exact [OF demoTick_increasing demoStart_facts(1) ne s(1) f all])
       (simp_all add: demoDep_def)
  ultimately show ?thesis
    using s(2) unfolding demoStart_facts(2) by (intro exI [of _ s] conjI) simp_all
qed


text \<open>
  A second rotation during the first leaves Deployments with different old hashes.  A watch that
  attaches then takes the hash of the first pending Deployment for the old one, so that the
  other one counts as updated and rolled out; when the Gateway gets Ready after both are
  updated, the report fails on inconsistent hashes.
\<close>

lemma mixed_old_hashes_fail:
  "case watchRotation demoTick demoReport None ''old1'' 2
      (demoGateway\<lparr>uoConditions := None\<rparr>) [demoDep ''a'' ''old1'' 1, demoDep ''b'' ''old2'' 1] []
      [Arrived (demoUpdate ''a'' ''new'' 1), Arrived (demoUpdate ''b'' ''new'' 1),
       Arrived \<lparr>ieResourceKind = ''Gateway'', ieChangeType = ''update'', ieObj = UnstructuredObj demoGateway\<rparr>,
       TimerFired] 0 of
     Some (Ended (Some (ErrText msg))) \<Rightarrow> hasPrefix msg ''inconsistent new tokenHash'' | _ \<Rightarrow> False"
  by code_simp

end
