(* ===== verification/Cli.thy ===== *)
theory Cli
  imports GatewayFinalize WatchRotation
begin

text \<open>
  The commands of cfgwctl on a Gateway (cmd/cfgwctl: suspend_gateway.go, resume_gateway.go,
  reconcile_gateway.go, rotate_gateway_token.go, watch_gateway_token.go), the wait for a
  reconciliation (kubernetes.go) and the reading of the Cloudflare credentials (cloudflare.go).
  A command gives its error or the lines it prints.  The API server is the record \<open>cluster\<close>;
  \<^verbatim>\<open>retry.RetryOnConflict\<close> is a parameter, applied to a closure on the captured variable
  \<^verbatim>\<open>skipped\<close> and the world; the format of a time is a parameter.
\<close>

section \<open>Cloudflare credentials\<close>

text \<open>\<open>file\<close> is what reading the file gives, if one is named; \<open>getenv\<close> is the environment.\<close>

fun credentialLines :: "string list \<Rightarrow> (string \<Rightarrow> string option) \<Rightarrow> (string \<Rightarrow> string option)" where
  "credentialLines [] values = values"
| "credentialLines (l # ls) values =
     (let line = trimSpace l in
      if line = [] \<or> hasPrefix line ''#'' then credentialLines ls values
      else
        (case cutChar (CHR ''='') line of (key, value, ok) \<Rightarrow>
           if \<not> ok then credentialLines ls values
           else credentialLines ls (values(trimSpace key \<mapsto> trimSpace value))))"

definition loadCloudflareCredentials ::
  "(go_error + string) option \<Rightarrow> (string \<Rightarrow> string) \<Rightarrow> go_error + client_config" where
  "loadCloudflareCredentials file getenv =
     (case (case file of
              None \<Rightarrow> Inr Map.empty
            | Some (Inl err) \<Rightarrow> Inl (ErrWrap ''reading credentials file: '' err)
            | Some (Inr content) \<Rightarrow> Inr (credentialLines (splitChar (CHR 0x0A) content) Map.empty)) of
        Inl err \<Rightarrow> Inl err
      | Inr values \<Rightarrow>
          (let orEnv = (\<lambda>k. if mapGet values k = [] then getenv k else mapGet values k);
               accountID = orEnv ''CLOUDFLARE_ACCOUNT_ID'';
               apiToken = orEnv ''CLOUDFLARE_API_TOKEN''
           in if accountID = [] \<or> apiToken = []
              then Inl (ErrText (''CLOUDFLARE_ACCOUNT_ID and CLOUDFLARE_API_TOKEN must be provided ''
                     @ ''via --credentials-file or environment variables''))
              else Inr \<lparr>ccAPIToken = apiToken, ccAccountID = accountID, ccBaseURL = []\<rparr>))"

section \<open>Waiting for a reconciliation\<close>

definition snapshotLastHandledReconcileAt ::
  "'w cluster \<Rightarrow> namespaced_name \<Rightarrow> 'w \<Rightarrow> (go_error + string) \<times> 'w" where
  "snapshotLastHandledReconcileAt cl key w =
     (case clGetCGS cl key w of
        (Inl err, w1) \<Rightarrow>
          if errNotFound err then (Inr [], w1)
          else (Inl (ErrWrap ''getting CloudflareGatewayStatus: '' err), w1)
      | (Inr cgs, w1) \<Rightarrow> (Inr (cgsLastHandledReconcileAt (cgsStatus cgs)), w1))"

text \<open>
  What the \<^verbatim>\<open>select\<close> of the loop receives: the end of the context, or a tick of the poll, with
  what everybody else did to the world until then.  \<open>None\<close>: still waiting.
\<close>

datatype 'w poll = CtxDone | Tick "'w \<Rightarrow> 'w"

fun waitForReconciliation ::
  "'w cluster \<Rightarrow> namespaced_name \<Rightarrow> string \<Rightarrow> 'w poll list \<Rightarrow> 'w \<Rightarrow> (go_error option \<times> 'w) option" where
  "waitForReconciliation cl key oldValue [] w = None"
| "waitForReconciliation cl key oldValue (p # ps) w =
     (case p of
        CtxDone \<Rightarrow> Some (Some (ErrText ''timed out waiting for reconciliation''), w)
      | Tick others \<Rightarrow>
          (case clGetCGS cl key (others w) of
             (Inl err, w1) \<Rightarrow> waitForReconciliation cl key oldValue ps w1
           | (Inr cgs, w1) \<Rightarrow>
               if cgsLastHandledReconcileAt (cgsStatus cgs) = oldValue
               then waitForReconciliation cl key oldValue ps w1
               else
                 (case condFind (cgsConditions (cgsStatus cgs)) ConditionReady of
                    None \<Rightarrow> waitForReconciliation cl key oldValue ps w1
                  | Some rcond \<Rightarrow>
                      if condStatus rcond = ConditionTrue then Some (None, w1)
                      else if condStatus rcond = ConditionFalse
                      then Some (Some (ErrText (''reconciliation failed: '' @ condMessage rcond)), w1)
                      else waitForReconciliation cl key oldValue ps w1)))"

section \<open>Suspending, resuming and requesting a reconciliation\<close>

type_synonym 'w cli_closure = "bool \<times> 'w \<Rightarrow> go_error option \<times> (bool \<times> 'w)"
type_synonym 'w cli_retrier = "'w cli_closure \<Rightarrow> 'w cli_closure"

definition keyText :: "namespaced_name \<Rightarrow> string" where
  "keyText key = fst key @ ''/'' @ snd key"

definition suspendAttempt :: "'w cluster \<Rightarrow> namespaced_name \<Rightarrow> 'w cli_closure" where
  "suspendAttempt cl key s =
     (case s of (skipped, w) \<Rightarrow>
        (case clGetGateway cl key w of
           (Inl err, w1) \<Rightarrow> (Some err, (skipped, w1))
         | (Inr gw, w1) \<Rightarrow>
             if mapGet (gwAnnotations gw) AnnotationReconcile = AnnotationReconcileDisabled
             then (None, (True, w1))
             else
               (case clPatchGateway cl gw
                       (gw\<lparr>gwAnnotations := (gwAnnotations gw)
                             (AnnotationReconcile \<mapsto> AnnotationReconcileDisabled)\<rparr>) w1 of
                  (eo, w2) \<Rightarrow> (eo, (skipped, w2)))))"

definition suspendGateway ::
  "'w cluster \<Rightarrow> 'w cli_retrier \<Rightarrow> namespaced_name \<Rightarrow> 'w \<Rightarrow> (go_error + string list) \<times> 'w" where
  "suspendGateway cl retry key w =
     (case retry (suspendAttempt cl key) (False, w) of
        (Some err, (skipped, w1)) \<Rightarrow> (Inl (ErrWrap ''patching Gateway annotation: '' err), w1)
      | (None, (skipped, w1)) \<Rightarrow>
          (Inr [(if skipped then ''Reconciliation is already suspended for Gateway ''
                 else ''Suspended reconciliation for Gateway '') @ keyText key], w1))"

definition resumeAttempt ::
  "'w cluster \<Rightarrow> (int \<Rightarrow> string) \<Rightarrow> namespaced_name \<Rightarrow> 'w cli_closure" where
  "resumeAttempt cl fmt key s =
     (case s of (skipped, w) \<Rightarrow>
        (case clGetGateway cl key w of
           (Inl err, w1) \<Rightarrow> (Some err, (skipped, w1))
         | (Inr gw, w1) \<Rightarrow>
             if mapGet (gwAnnotations gw) AnnotationReconcile \<noteq> AnnotationReconcileDisabled
             then (None, (True, w1))
             else
               (case clNow cl w1 of (now, w2) \<Rightarrow>
                 (case clPatchGateway cl gw
                         (gw\<lparr>gwAnnotations := (gwAnnotations gw)
                               (AnnotationReconcile \<mapsto> AnnotationReconcileEnabled,
                                AnnotationReconcileRequestedAt \<mapsto> fmt now)\<rparr>) w2 of
                    (eo, w3) \<Rightarrow> (eo, (skipped, w3))))))"

text \<open>The end of resume and reconcile: wait if asked to, then report.\<close>

definition finishWait ::
  "'w cluster \<Rightarrow> namespaced_name \<Rightarrow> bool \<Rightarrow> string \<Rightarrow> 'w poll list \<Rightarrow> string list \<Rightarrow> 'w
     \<Rightarrow> ((go_error + string list) \<times> 'w) option" where
  "finishWait cl key wait oldValue polls lines w =
     (if \<not> wait then Some (Inr lines, w)
      else
        (case waitForReconciliation cl key oldValue polls w of
           None \<Rightarrow> None
         | Some (Some err, w1) \<Rightarrow> Some (Inl err, w1)
         | Some (None, w1) \<Rightarrow> Some (Inr (lines @ [''Reconciliation completed'']), w1)))"

definition resumeGateway ::
  "'w cluster \<Rightarrow> (int \<Rightarrow> string) \<Rightarrow> 'w cli_retrier \<Rightarrow> namespaced_name \<Rightarrow> bool \<Rightarrow> 'w poll list \<Rightarrow> 'w
     \<Rightarrow> ((go_error + string list) \<times> 'w) option" where
  "resumeGateway cl fmt retry key wait polls w =
     (case snapshotLastHandledReconcileAt cl key w of
        (Inl err, w1) \<Rightarrow> Some (Inl err, w1)
      | (Inr oldValue, w1) \<Rightarrow>
          (case retry (resumeAttempt cl fmt key) (False, w1) of
             (Some err, (skipped, w2)) \<Rightarrow>
               Some (Inl (ErrWrap ''patching Gateway annotations: '' err), w2)
           | (None, (skipped, w2)) \<Rightarrow>
               if skipped
               then Some (Inr [''Reconciliation is not suspended for Gateway '' @ keyText key], w2)
               else finishWait cl key wait oldValue polls
                      [''Resumed reconciliation for Gateway '' @ keyText key] w2))"

definition suspendedError :: "namespaced_name \<Rightarrow> go_error" where
  "suspendedError key =
     ErrText (''reconciliation is suspended for Gateway '' @ keyText key
       @ '', use 'cfgwctl resume gateway' first'')"

definition reconcileAttempt ::
  "'w cluster \<Rightarrow> (int \<Rightarrow> string) \<Rightarrow> namespaced_name \<Rightarrow> 'w cli_closure" where
  "reconcileAttempt cl fmt key s =
     (case s of (skipped, w) \<Rightarrow>
        (case clGetGateway cl key w of
           (Inl err, w1) \<Rightarrow> (Some err, (skipped, w1))
         | (Inr gw, w1) \<Rightarrow>
             if mapGet (gwAnnotations gw) AnnotationReconcile = AnnotationReconcileDisabled
             then (Some (suspendedError key), (skipped, w1))
             else
               (case clNow cl w1 of (now, w2) \<Rightarrow>
                 (case clPatchGateway cl gw
                         (gw\<lparr>gwAnnotations := (gwAnnotations gw)
                               (AnnotationReconcileRequestedAt \<mapsto> fmt now)\<rparr>) w2 of
                    (eo, w3) \<Rightarrow> (eo, (skipped, w3))))))"

definition reconcileGateway ::
  "'w cluster \<Rightarrow> (int \<Rightarrow> string) \<Rightarrow> 'w cli_retrier \<Rightarrow> namespaced_name \<Rightarrow> bool \<Rightarrow> 'w poll list \<Rightarrow> 'w
     \<Rightarrow> ((go_error + string list) \<times> 'w) option" where
  "reconcileGateway cl fmt retry key wait polls w =
     (case snapshotLastHandledReconcileAt cl key w of
        (Inl err, w1) \<Rightarrow> Some (Inl err, w1)
      | (Inr oldValue, w1) \<Rightarrow>
          (case retry (reconcileAttempt cl fmt key) (False, w1) of
             (Some err, (skipped, w2)) \<Rightarrow> Some (Inl err, w2)
           | (None, (skipped, w2)) \<Rightarrow>
               finishWait cl key wait oldValue polls
                 [''Requested reconciliation for Gateway '' @ keyText key] w2))"

section \<open>Rotating and watching the token\<close>

text \<open>Counting the Deployments of the inventory.\<close>

definition isInventoryDeployment :: "resource_ref \<Rightarrow> bool" where
  "isInventoryDeployment ref \<longleftrightarrow> rrAPIVersion ref = ''apps/v1'' \<and> rrKind ref = KindDeployment"

definition currentHashOf :: "cgs_object \<Rightarrow> string" where
  "currentHashOf cgs =
     (case cgsTunnel (cgsStatus cgs) of
        None \<Rightarrow> []
      | Some t \<Rightarrow> (case tusToken t of None \<Rightarrow> [] | Some k \<Rightarrow> tsHash k))"

definition rotateAttempt ::
  "'w cluster \<Rightarrow> (int \<Rightarrow> string) \<Rightarrow> namespaced_name \<Rightarrow> 'w cli_closure" where
  "rotateAttempt cl fmt key s =
     (case s of (skipped, w) \<Rightarrow>
        (case clGetGateway cl key w of
           (Inl err, w1) \<Rightarrow> (Some (ErrWrap ''getting Gateway: '' err), (skipped, w1))
         | (Inr gw, w1) \<Rightarrow>
             if mapGet (gwAnnotations gw) AnnotationReconcile = AnnotationReconcileDisabled
             then (Some (suspendedError key), (skipped, w1))
             else
               (case clNow cl w1 of (now, w2) \<Rightarrow>
                 (case clPatchGateway cl gw
                         (gw\<lparr>gwAnnotations := (gwAnnotations gw)
                               (AnnotationRotateTokenRequestedAt \<mapsto> fmt now)\<rparr>) w2 of
                    (eo, w3) \<Rightarrow> (eo, (skipped, w3))))))"

definition preflightAndPatch ::
  "'w cluster \<Rightarrow> (int \<Rightarrow> string) \<Rightarrow> 'w cli_retrier \<Rightarrow> namespaced_name \<Rightarrow> 'w \<Rightarrow> go_error option \<times> 'w" where
  "preflightAndPatch cl fmt retry key w =
     (case retry (rotateAttempt cl fmt key) (False, w) of (eo, (skipped, w1)) \<Rightarrow> (eo, w1))"

text \<open>
  Without \<^verbatim>\<open>--watch\<close> the command ends with the request; with it, with the watch, on what the
  informers report: the Gateway, the Deployments, the Pods and the inputs of the watch.
\<close>

datatype 'w rotate_end = RotateRequested "go_error option" 'w | RotateWatched "watch_end option"

definition rotateGatewayToken ::
  "'w cluster \<Rightarrow> (int \<Rightarrow> string) \<Rightarrow> 'w cli_retrier \<Rightarrow> report \<Rightarrow> namespaced_name \<Rightarrow> bool
     \<Rightarrow> unstructured_obj \<Rightarrow> deployment list \<Rightarrow> watch_pod list \<Rightarrow> watch_input list \<Rightarrow> 'w \<Rightarrow> 'w rotate_end" where
  "rotateGatewayToken cl fmt retry report key watch gw deployList podList inputs w =
     (case clGetCGS cl key w of
        (Inl err, w1) \<Rightarrow> RotateRequested (Some (ErrWrap ''getting CloudflareGatewayStatus: '' err)) w1
      | (Inr cgs, w1) \<Rightarrow>
          (let numDeployments = length (filter isInventoryDeployment (cgsInventory (cgsStatus cgs)))
           in if numDeployments = 0
              then RotateRequested (Some (ErrText ''no tunnel Deployments found in Gateway inventory'')) w1
              else if \<not> watch
              then (case preflightAndPatch cl fmt retry key w1 of (eo, w2) \<Rightarrow> RotateRequested eo w2)
              else RotateWatched (watchRotation (clNow cl) report
                     (Some (preflightAndPatch cl fmt retry key)) (currentHashOf cgs) numDeployments
                     gw deployList podList inputs w1)))"

text \<open>The loop over the inventory: count, names of the pending Deployments, hash of the first.\<close>

fun pendingLoop ::
  "'w cluster \<Rightarrow> string \<Rightarrow> string \<Rightarrow> resource_ref list \<Rightarrow> nat \<times> string list \<times> string \<Rightarrow> 'w
     \<Rightarrow> (go_error + nat \<times> string list \<times> string) \<times> 'w" where
  "pendingLoop cl ns currentHash [] acc w = (Inr acc, w)"
| "pendingLoop cl ns currentHash (ref # refs) (n, pendingNames, oldHash) w =
     (if \<not> isInventoryDeployment ref then pendingLoop cl ns currentHash refs (n, pendingNames, oldHash) w
      else
        (case clGetDeployment cl (ns, rrName ref) w of
           (Inl err, w1) \<Rightarrow> (Inl (ErrWrap (''getting Deployment '' @ rrName ref @ '': '') err), w1)
         | (Inr deploy, w1) \<Rightarrow>
             (let h = mapGet (dpTemplateAnnotations deploy) AnnotationTokenHash
              in if h \<noteq> currentHash
                 then pendingLoop cl ns currentHash refs
                        (Suc n, pendingNames @ [rrName ref], if oldHash = [] then h else oldHash) w1
                 else pendingLoop cl ns currentHash refs (Suc n, pendingNames, oldHash) w1)))"

definition watchGatewayToken ::
  "'w cluster \<Rightarrow> report \<Rightarrow> namespaced_name \<Rightarrow> unstructured_obj \<Rightarrow> deployment list \<Rightarrow> watch_pod list
     \<Rightarrow> watch_input list \<Rightarrow> 'w \<Rightarrow> watch_end option" where
  "watchGatewayToken cl report key gwObj deployList podList inputs w =
     (let fail = (\<lambda>e. Some (Ended (Some e))) in
      case clGetCGS cl key w of
        (Inl err, w1) \<Rightarrow> fail (ErrWrap ''getting CloudflareGatewayStatus: '' err)
      | (Inr cgs, w1) \<Rightarrow>
          (case pendingLoop cl (fst key) (currentHashOf cgs) (cgsInventory (cgsStatus cgs)) (0, [], []) w1 of
             (Inl err, w2) \<Rightarrow> fail err
           | (Inr (numDeployments, pendingNames, oldHash), w2) \<Rightarrow>
               if numDeployments = 0
               then fail (ErrText ''no tunnel Deployments found in Gateway inventory'')
               else if length pendingNames = 0 then Some (Ended None)
               else
                 (case clGetGateway cl key w2 of
                    (Inl err, w3) \<Rightarrow> fail (ErrWrap ''getting Gateway: '' err)
                  | (Inr gw, w3) \<Rightarrow>
                      if mapGet (gwAnnotations gw) AnnotationReconcile = AnnotationReconcileDisabled
                      then fail (ErrText (''gateway '' @ keyText key @ '' is suspended with ''
                             @ showNat (length pendingNames) @ ''/'' @ showNat numDeployments
                             @ '' deployment(s) pending update, use 'cfgwctl resume gateway ''
                             @ snd key @ '' -n '' @ fst key @ [CHR 0x27] @ '' first''))
                      else watchRotation (clNow cl) report None oldHash numDeployments
                             gwObj deployList podList inputs w3)))"

end
