(* ===== verification/CliProps.thy ===== *)
theory CliProps
  imports Cli GatewayClass FinalizationProps
begin

text \<open>
  The commands of cfgwctl together with the controller they talk to: what suspending and resuming
  a Gateway does to its reconciliation, and what the wait for a reconciliation can take for one.
\<close>

section \<open>What the commands rely on\<close>

text \<open>
  \<^verbatim>\<open>RetryOnConflict\<close> gives the result of its last call, which starts in a state that the calls
  before it, all failed, have led to.
\<close>

definition onLastCall :: "'w cli_retrier \<Rightarrow> bool" where
  "onLastCall retry \<longleftrightarrow>
     (\<forall>f s P. P s \<longrightarrow> (\<forall>t e t'. P t \<longrightarrow> f t = (Some e, t') \<longrightarrow> P t') \<longrightarrow>
        (\<exists>t. P t \<and> retry f s = f t))"

lemma onLastCallD:
  assumes "onLastCall retry" and "P s" and "\<And>t e t'. P t \<Longrightarrow> f t = (Some e, t') \<Longrightarrow> P t'"
  shows "\<exists>t. P t \<and> retry f s = f t"
  using assms unfolding onLastCall_def by blast

text \<open>
  The stored Gateway \<open>obj\<close>: what a read finds; a patch that succeeds on what is stored stores its
  object; what fails, and the other operations here, leave it.
\<close>

definition gatewayStore :: "'w cluster \<Rightarrow> namespaced_name \<Rightarrow> ('w \<Rightarrow> gateway option) \<Rightarrow> bool" where
  "gatewayStore cl key obj \<longleftrightarrow>
     (\<forall>w gw w'. clGetGateway cl key w = (Inr gw, w') \<longrightarrow> obj w = Some gw \<and> obj w' = Some gw) \<and>
     (\<forall>w err w'. clGetGateway cl key w = (Inl err, w') \<longrightarrow> obj w' = obj w) \<and>
     (\<forall>gw gw' w w'. clPatchGateway cl gw gw' w = (None, w') \<longrightarrow> obj w = Some gw \<longrightarrow> obj w' = Some gw') \<and>
     (\<forall>gw gw' w err w'. clPatchGateway cl gw gw' w = (Some err, w') \<longrightarrow> obj w' = obj w) \<and>
     (\<forall>w. obj (snd (clNow cl w)) = obj w) \<and>
     (\<forall>w. obj (snd (clGetCGS cl key w)) = obj w)"

lemma gatewayStoreD:
  assumes "gatewayStore cl key obj"
  shows "\<And>w gw w'. clGetGateway cl key w = (Inr gw, w') \<Longrightarrow> obj w = Some gw"
    and "\<And>w gw w'. clGetGateway cl key w = (Inr gw, w') \<Longrightarrow> obj w' = Some gw"
    and "\<And>w err w'. clGetGateway cl key w = (Inl err, w') \<Longrightarrow> obj w' = obj w"
    and "\<And>gw gw' w w'. clPatchGateway cl gw gw' w = (None, w') \<Longrightarrow> obj w = Some gw \<Longrightarrow> obj w' = Some gw'"
    and "\<And>gw gw' w err w'. clPatchGateway cl gw gw' w = (Some err, w') \<Longrightarrow> obj w' = obj w"
    and "\<And>w now w'. clNow cl w = (now, w') \<Longrightarrow> obj w' = obj w"
    and "\<And>w r w'. clGetCGS cl key w = (r, w') \<Longrightarrow> obj w' = obj w"
proof -
  note s = assms [unfolded gatewayStore_def]
  show "\<And>w gw w'. clGetGateway cl key w = (Inr gw, w') \<Longrightarrow> obj w = Some gw"
    and "\<And>w gw w'. clGetGateway cl key w = (Inr gw, w') \<Longrightarrow> obj w' = Some gw"
    and "\<And>w err w'. clGetGateway cl key w = (Inl err, w') \<Longrightarrow> obj w' = obj w"
    and "\<And>gw gw' w w'. clPatchGateway cl gw gw' w = (None, w') \<Longrightarrow> obj w = Some gw \<Longrightarrow> obj w' = Some gw'"
    and "\<And>gw gw' w err w'. clPatchGateway cl gw gw' w = (Some err, w') \<Longrightarrow> obj w' = obj w"
    using s by blast+
  show "\<And>w now w'. clNow cl w = (now, w') \<Longrightarrow> obj w' = obj w"
    and "\<And>w r w'. clGetCGS cl key w = (r, w') \<Longrightarrow> obj w' = obj w"
    using s by (metis snd_conv)+
qed

definition suspended :: "gateway \<Rightarrow> bool" where
  "suspended gw \<longleftrightarrow> mapGet (gwAnnotations gw) AnnotationReconcile = AnnotationReconcileDisabled"

text \<open>The Gateways that are the controller's to reconcile.\<close>

definition reconcilable :: "gateway \<Rightarrow> gateway_class \<Rightarrow> bool" where
  "reconcilable gw gc \<longleftrightarrow>
     gcControllerName gc = ControllerName \<and> \<not> gwDeleted gw \<and> Finalizer \<in> set (gwFinalizers gw) \<and>
     (\<exists>ready. condFind (gcConditions gc) ConditionReady = Some ready \<and> condStatus ready = ConditionTrue)"

lemma Reconcile_suspended:
  assumes "clGetGateway (enCluster en) key w = (Inr gw, w1)" and "suspended gw"
    and "\<not> gwDeleted gw" and "Finalizer \<in> set (gwFinalizers gw)"
  shows "\<exists>eo. Reconcile en key w = Some ((0, eo), snd (clGetClass (enCluster en) (gwClassName gw) w1))"
  using assms
  by (auto simp: Reconcile_def suspended_def Let_def split: prod.split sum.split option.split)

lemma Reconcile_resumed:
  assumes "clGetGateway (enCluster en) key w = (Inr gw, w1)" and "\<not> suspended gw"
    and "clGetClass (enCluster en) (gwClassName gw) w1 = (Inr gc, w2)" and "reconcilable gw gc"
  shows "Reconcile en key w = reconcile en gw gc w2"
  using assms by (auto simp: Reconcile_def suspended_def reconcilable_def Let_def)

section \<open>The closures\<close>

lemma suspendAttempt_ok:
  assumes "gatewayStore cl key obj" and "suspendAttempt cl key t = (None, (skipped, w'))"
  shows "\<exists>gw. obj w' = Some gw \<and> suspended gw"
  using assms(2) gatewayStoreD [OF assms(1)]
  by (auto simp: suspendAttempt_def suspended_def mapGet_def split: prod.splits sum.splits if_splits)

text \<open>On a suspended Gateway the other two requests fail and leave it as it is.\<close>

lemma attempt_suspended:
  assumes "gatewayStore cl key obj" and "obj (snd t) = Some gw" and "suspended gw"
    and "f = reconcileAttempt cl fmt key \<or> f = rotateAttempt cl fmt key"
  shows "\<exists>e t'. f t = (Some e, t') \<and> obj (snd t') = Some gw"
proof -
  obtain skipped w where t: "t = (skipped, w)" by (cases t)
  obtain r w1 where g: "clGetGateway cl key w = (r, w1)" by (cases "clGetGateway cl key w")
  show ?thesis
  proof (cases r)
    case (Inl err)
    then show ?thesis using assms(2,4) t g gatewayStoreD(3) [OF assms(1), of w err w1]
      by (auto simp: reconcileAttempt_def rotateAttempt_def)
  next
    case (Inr gw1)
    then show ?thesis
      using assms(2-4) t g gatewayStoreD(1,2) [OF assms(1), of w gw1 w1]
      by (auto simp: reconcileAttempt_def rotateAttempt_def suspended_def)
  qed
qed

lemma retry_suspended:
  assumes "gatewayStore cl key obj" and "onLastCall retry" and "obj w = Some gw" and "suspended gw"
    and "f = reconcileAttempt cl fmt key \<or> f = rotateAttempt cl fmt key"
  shows "\<exists>e skipped w'. retry f (skip, w) = (Some e, (skipped, w')) \<and> obj w' = Some gw"
proof -
  let ?P = "\<lambda>t. obj (snd t) = Some gw"
  note step = attempt_suspended [OF assms(1) _ assms(4,5)]
  have keep: "\<And>t e t'. ?P t \<Longrightarrow> f t = (Some e, t') \<Longrightarrow> ?P t'" using step by fastforce
  have "?P (skip, w)" using assms(3) by simp
  then have "\<exists>t. ?P t \<and> retry f (skip, w) = f t"
    by (rule onLastCallD [where P = ?P, OF assms(2)]) (erule (1) keep)
  then obtain t where "?P t" "retry f (skip, w) = f t" by (elim exE conjE)
  then show ?thesis using step [of t] by (metis surj_pair snd_conv)
qed

definition resumedGateway :: "gateway \<Rightarrow> string \<Rightarrow> gateway" where
  "resumedGateway gw stamp =
     gw\<lparr>gwAnnotations := (gwAnnotations gw)
          (AnnotationReconcile \<mapsto> AnnotationReconcileEnabled, AnnotationReconcileRequestedAt \<mapsto> stamp)\<rparr>"

lemma resumedGateway_enabled: "\<not> suspended (resumedGateway gw stamp)"
  by (simp add: resumedGateway_def suspended_def mapGet_def AnnotationReconcile_def
      AnnotationReconcileRequestedAt_def)

lemma resumeAttempt_suspended:
  assumes "gatewayStore cl key obj" and "obj w = Some gw" and "suspended gw"
    and "resumeAttempt cl fmt key (skipped, w) = (eo, (skipped', w'))"
  shows "skipped' = skipped \<and>
     (case eo of None \<Rightarrow> \<exists>now. obj w' = Some (resumedGateway gw (fmt now)) | Some e \<Rightarrow> obj w' = Some gw)"
proof -
  note st = gatewayStoreD [OF assms(1)]
  obtain r w1 where g: "clGetGateway cl key w = (r, w1)" by (cases "clGetGateway cl key w")
  show ?thesis
  proof (cases r)
    case (Inl err)
    then show ?thesis using assms(2,4) g st(3) [of w err w1] by (auto simp: resumeAttempt_def)
  next
    case (Inr gw1)
    with g have g1: "clGetGateway cl key w = (Inr gw1, w1)" by simp
    have gw1: "gw1 = gw" and o1: "obj w1 = Some gw" using st(1,2) [OF g1] assms(2) by auto
    obtain now w2 where n: "clNow cl w1 = (now, w2)" by (cases "clNow cl w1")
    have o2: "obj w2 = Some gw" using st(6) [OF n] o1 by simp
    obtain po w3 where p: "clPatchGateway cl gw (resumedGateway gw (fmt now)) w2 = (po, w3)"
      by (cases "clPatchGateway cl gw (resumedGateway gw (fmt now)) w2")
    have "resumeAttempt cl fmt key (skipped, w) = (po, (skipped, w3))"
      using assms(3) g1 n p unfolding gw1 by (simp add: resumeAttempt_def suspended_def resumedGateway_def)
    then have e: "eo = po" "skipped' = skipped" "w' = w3" using assms(4) by simp_all
    show ?thesis using st(4,5) p o2 unfolding e by (cases po) auto
  qed
qed

lemma retry_resume:
  assumes "gatewayStore cl key obj" and "onLastCall retry" and "obj w = Some gw" and "suspended gw"
    and "retry (resumeAttempt cl fmt key) (False, w) = (None, (skipped, w'))"
  shows "\<not> skipped \<and> (\<exists>now. obj w' = Some (resumedGateway gw (fmt now)))"
proof -
  let ?P = "\<lambda>t. \<not> fst t \<and> obj (snd t) = Some gw"
  have step: "?P t'" if "?P t" "resumeAttempt cl fmt key t = (Some e, t')" for t e t'
  proof -
    have "resumeAttempt cl fmt key (fst t, snd t) = (Some e, (fst t', snd t'))" using that(2) by simp
    from resumeAttempt_suspended [OF assms(1) _ assms(4) this] that(1) show ?thesis by simp
  qed
  have "?P (False, w)" using assms(3) by simp
  then have "\<exists>t. ?P t \<and> retry (resumeAttempt cl fmt key) (False, w) = resumeAttempt cl fmt key t"
    by (rule onLastCallD [where P = ?P, OF assms(2)]) (erule (1) step)
  then obtain t where t: "\<not> fst t" "obj (snd t) = Some gw"
      "retry (resumeAttempt cl fmt key) (False, w) = resumeAttempt cl fmt key t" by (elim exE conjE)
  have "resumeAttempt cl fmt key (fst t, snd t) = (None, (skipped, w'))" using t(3) assms(5) by simp
  from resumeAttempt_suspended [OF assms(1) t(2) assms(4) this] t(1) show ?thesis by simp
qed

lemma suspend_effect:
  assumes "gatewayStore (enCluster en) key obj" and "onLastCall retry"
    and "suspendGateway (enCluster en) retry key w = (Inr lines, w1)"
    and "clGetGateway (enCluster en) key w1 = (Inr gw, w2)"
  shows "suspended gw \<and>
    (\<not> gwDeleted gw \<and> Finalizer \<in> set (gwFinalizers gw) \<longrightarrow>
       (\<exists>eo. Reconcile en key w1 = Some ((0, eo), snd (clGetClass (enCluster en) (gwClassName gw) w2))))"
proof -
  let ?cl = "enCluster en"
  from assms(3) obtain skipped where r: "retry (suspendAttempt ?cl key) (False, w) = (None, (skipped, w1))"
    by (auto simp: suspendGateway_def split: prod.splits option.splits)
  obtain t where "retry (suspendAttempt ?cl key) (False, w) = suspendAttempt ?cl key t"
    using onLastCallD [where P = "\<lambda>t. True", OF assms(2)] by blast
  with r have "suspendAttempt ?cl key t = (None, (skipped, w1))" by simp
  from suspendAttempt_ok [OF assms(1) this] have "\<exists>gw. obj w1 = Some gw \<and> suspended gw" .
  then have "suspended gw" using gatewayStoreD(1) [OF assms(1,4)] by simp
  then show ?thesis using Reconcile_suspended [OF assms(4)] by simp
qed

lemma snapshot_keeps:
  assumes "gatewayStore cl key obj" and "obj w = Some gw" and "snapshotLastHandledReconcileAt cl key w = (r, w0)"
  shows "obj w0 = Some gw"
  using gatewayStoreD(7) [OF assms(1)] assms(2,3)
  by (auto simp: snapshotLastHandledReconcileAt_def split: prod.splits sum.splits if_splits)

lemma suspended_closed:
  assumes "gatewayStore cl key obj" and "onLastCall retry" and "obj w = Some gw" and "suspended gw"
  shows "\<exists>err w1. reconcileGateway cl fmt retry key wait polls w = Some (Inl err, w1) \<and> obj w1 = Some gw"
    and "\<exists>err w1. preflightAndPatch cl fmt retry key w = (Some err, w1) \<and> obj w1 = Some gw"
proof -
  obtain r w0 where snap: "snapshotLastHandledReconcileAt cl key w = (r, w0)" by (rule prod.exhaust)
  then have o0: "obj w0 = Some gw" by (rule snapshot_keeps [OF assms(1,3)])
  show "\<exists>err w1. reconcileGateway cl fmt retry key wait polls w = Some (Inl err, w1) \<and> obj w1 = Some gw"
    using retry_suspended [OF assms(1,2) o0 assms(4), of "reconcileAttempt cl fmt key" fmt False] snap o0
    by (cases r) (auto simp: reconcileGateway_def)
  show "\<exists>err w1. preflightAndPatch cl fmt retry key w = (Some err, w1) \<and> obj w1 = Some gw"
    using retry_suspended [OF assms(1-4), of "rotateAttempt cl fmt key" fmt False]
    by (auto simp: preflightAndPatch_def)
qed

lemma resume_effect:
  assumes "gatewayStore cl key obj" and "onLastCall retry" and "obj w = Some gw" and "suspended gw"
    and "resumeGateway cl fmt retry key False polls w = Some (Inr lines, w1)"
    and "clGetGateway cl key w1 = (Inr gw1, w2)"
  shows "\<exists>now. gw1 = resumedGateway gw (fmt now)"
proof -
  obtain old w0 where snap: "snapshotLastHandledReconcileAt cl key w = (Inr old, w0)"
    using assms(5) by (auto simp: resumeGateway_def split: prod.splits sum.splits)
  then have o0: "obj w0 = Some gw" by (rule snapshot_keeps [OF assms(1,3)])
  obtain skipped where r: "retry (resumeAttempt cl fmt key) (False, w0) = (None, (skipped, w1))"
    using assms(5) snap by (auto simp: resumeGateway_def finishWait_def split: prod.splits option.splits if_splits)
  show ?thesis
    using retry_resume [OF assms(1,2) o0 assms(4) r] gatewayStoreD(1) [OF assms(1,6)] by auto
qed

section \<open>Properties\<close>

text \<open>
  C35. Suspending and resuming a Gateway controls its reconciliation, and nothing gets around it:
  once suspend reports success the Gateway is stored as suspended, and a reconciliation does
  nothing beyond reading it and its class; as long as it is stored so, requests to reconcile it
  and to rotate its token fail and leave it unchanged; and once resume of a suspended Gateway
  reports success it is stored with the request, and the controller reconciles it as soon as
  its class is ready.
\<close>

theorem suspend_resume_control:
  assumes "gatewayStore (enCluster en) key obj" and "onLastCall retry"
  shows "(\<forall>w lines w1 gw w2. suspendGateway (enCluster en) retry key w = (Inr lines, w1) \<longrightarrow>
        clGetGateway (enCluster en) key w1 = (Inr gw, w2) \<longrightarrow>
        suspended gw \<and>
        (\<not> gwDeleted gw \<and> Finalizer \<in> set (gwFinalizers gw) \<longrightarrow>
           (\<exists>eo. Reconcile en key w1 = Some ((0, eo), snd (clGetClass (enCluster en) (gwClassName gw) w2))))) \<and>
     (\<forall>w gw wait polls. obj w = Some gw \<and> suspended gw \<longrightarrow>
        (\<exists>err w1. reconcileGateway (enCluster en) fmt retry key wait polls w = Some (Inl err, w1) \<and> obj w1 = Some gw) \<and>
        (\<exists>err w1. preflightAndPatch (enCluster en) fmt retry key w = (Some err, w1) \<and> obj w1 = Some gw)) \<and>
     (\<forall>w gw polls lines w1 gw1 w2. obj w = Some gw \<and> suspended gw \<longrightarrow>
        resumeGateway (enCluster en) fmt retry key False polls w = Some (Inr lines, w1) \<longrightarrow>
        clGetGateway (enCluster en) key w1 = (Inr gw1, w2) \<longrightarrow>
        (\<exists>now. gw1 = resumedGateway gw (fmt now)) \<and>
        (\<forall>gc w3. clGetClass (enCluster en) (gwClassName gw1) w2 = (Inr gc, w3) \<and> reconcilable gw1 gc \<longrightarrow>
           Reconcile en key w1 = reconcile en gw1 gc w3))"
proof (intro conjI allI impI)
  fix w lines w1 gw w2
  assume "suspendGateway (enCluster en) retry key w = (Inr lines, w1)" "clGetGateway (enCluster en) key w1 = (Inr gw, w2)"
  note e = suspend_effect [OF assms this]
  show "suspended gw" using e by simp
  show "\<exists>eo. Reconcile en key w1 = Some ((0, eo), snd (clGetClass (enCluster en) (gwClassName gw) w2))"
    if "\<not> gwDeleted gw \<and> Finalizer \<in> set (gwFinalizers gw)" using e that by simp
next
  fix w gw wait polls
  assume "obj w = Some gw \<and> suspended gw"
  note c = suspended_closed [OF assms conjunct1 [OF this] conjunct2 [OF this]]
  show "\<exists>err w1. reconcileGateway (enCluster en) fmt retry key wait polls w = Some (Inl err, w1) \<and> obj w1 = Some gw"
    by (rule c(1))
  show "\<exists>err w1. preflightAndPatch (enCluster en) fmt retry key w = (Some err, w1) \<and> obj w1 = Some gw"
    by (rule c(2))
next
  fix w gw polls lines w1 gw1 w2
  assume o: "obj w = Some gw \<and> suspended gw"
    and r: "resumeGateway (enCluster en) fmt retry key False polls w = Some (Inr lines, w1)"
    and g: "clGetGateway (enCluster en) key w1 = (Inr gw1, w2)"
  show now: "\<exists>now. gw1 = resumedGateway gw (fmt now)"
    using resume_effect [OF assms _ _ r g] o by blast
  show "Reconcile en key w1 = reconcile en gw1 gc w3"
    if "clGetClass (enCluster en) (gwClassName gw1) w2 = (Inr gc, w3) \<and> reconcilable gw1 gc" for gc w3
    using Reconcile_resumed [OF g _ conjunct1 [OF that]] now resumedGateway_enabled that by blast
qed

section \<open>The wait\<close>

text \<open>The stored CGS, while reads and writes of it succeed.\<close>

definition cgsStore :: "'w cluster \<Rightarrow> namespaced_name \<Rightarrow> ('w \<Rightarrow> cgs_object option) \<Rightarrow> bool" where
  "cgsStore cl key obj \<longleftrightarrow>
     (\<forall>w c. obj w = Some c \<longrightarrow> (\<exists>w'. clGetCGS cl key w = (Inr c, w') \<and> obj w' = Some c)) \<and>
     (\<forall>w c c'. obj w = Some c \<longrightarrow> (\<exists>w'. clPatchCGSStatus cl c c' w = (None, w') \<and> obj w' = Some c'))"

lemma waitForReconciliation_Tick:
  assumes "cgsStore cl key obj" and "obj (others w) = Some c"
    and "cgsLastHandledReconcileAt (cgsStatus c) \<noteq> oldValue"
    and "condFind (cgsConditions (cgsStatus c)) ConditionReady = Some rc"
    and "condStatus rc = ConditionTrue \<or> condStatus rc = ConditionFalse"
  shows "\<exists>w'. waitForReconciliation cl key oldValue (Tick others # ps) w =
     Some (if condStatus rc = ConditionTrue then None
           else Some (ErrText (''reconciliation failed: '' @ condMessage rc)), w')"
proof -
  obtain w' where "clGetCGS cl key (others w) = (Inr c, w')" using assms(1,2) unfolding cgsStore_def by blast
  then show ?thesis using assms(3-5) by auto
qed

lemma desiredConditionsOf_ready:
  "condFind (desiredConditionsOf gw now readiness dns) ConditionReady =
     Some \<lparr>condType = ConditionReady, condStatus = grReadyStatus readiness,
       condObservedGeneration = gwGeneration gw, condLastTransitionTime = now,
       condReason = grReadyReason readiness, condMessage = grReadyMsg readiness\<rparr>"
  by (simp add: desiredConditionsOf_def)

lemma mirrorConditions_ready:
  assumes "cgsStore cl key obj" and "obj w = Some c"
  shows "\<exists>c' rc. obj (mirrorConditions cl gw (Some c) (desiredConditionsOf gw now readiness dns) force w) = Some c' \<and>
     cgsLastHandledReconcileAt (cgsStatus c') = cgsLastHandledReconcileAt (cgsStatus c) \<and>
     condFind (cgsConditions (cgsStatus c')) ConditionReady = Some rc \<and>
     condStatus rc = grReadyStatus readiness \<and> condMessage rc = grReadyMsg readiness"
proof (cases "anyChanged (cgsConditions (cgsStatus c)) (desiredConditionsOf gw now readiness dns) (gwGeneration gw) \<or> force")
  case True
  let ?d = "desiredConditionsOf gw now readiness dns"
  let ?c' = "c\<lparr>cgsStatus := (cgsStatus c)\<lparr>cgsConditions := condSet (cgsConditions (cgsStatus c)) ?d\<rparr>\<rparr>"
  obtain w' where "clPatchCGSStatus cl c ?c' w = (None, w')" "obj w' = Some ?c'"
    using assms unfolding cgsStore_def by blast
  then have "obj (mirrorConditions cl gw (Some c) ?d force w) = Some ?c'"
    using True by (simp add: mirrorConditions_def)
  then show ?thesis
    by (simp add: condSet_map condFind_map_keep desiredConditionsOf_ready)
next
  case False
  let ?d = "desiredConditionsOf gw now readiness dns"
  have "mirrorConditions cl gw (Some c) ?d force w = w" using False by (simp add: mirrorConditions_def)
  moreover have "\<not> condChanged (cgsConditions (cgsStatus c)) ConditionReady (grReadyStatus readiness)
      (grReadyReason readiness) (grReadyMsg readiness) (gwGeneration gw)"
    using False by (auto simp: anyChanged_def desiredConditionsOf_def Let_def)
  ultimately show ?thesis using assms(2) by (auto simp: condChanged_iff)
qed

text \<open>
  C36. The wait of resume and reconcile can take the outcome of the previous reconciliation for that
  of the requested one: reconcileCGS records the request as handled and keeps the old conditions,
  and only a later write mirrors the new ones.  A poll between the two returns success for a
  Gateway that was Ready before, whatever the requested reconciliation found; the same poll
  after the second write returns the failure.
\<close>

theorem wait_accepts_stale_ready:
  assumes "cgsStore cl key obj" and "obj w = Some c" and "\<not> cgsDeleted c"
    and "mapGet (gwAnnotations gw) AnnotationReconcileRequestedAt \<noteq> cgsLastHandledReconcileAt (cgsStatus c)"
    and "condFind (cgsConditions (cgsStatus c)) ConditionReady = Some rc" and "condStatus rc = ConditionTrue"
  shows "\<exists>c' w1 w2 w3. snd (reconcileCGS cl timeEq gw (Some c) params t replicas tokenResult readiness w) = ((Some c', None), w1) \<and>
     waitForReconciliation cl key (cgsLastHandledReconcileAt (cgsStatus c)) (Tick id # ps) w1 = Some (None, w2) \<and>
     (grReadyStatus readiness = ConditionFalse \<longrightarrow>
        waitForReconciliation cl key (cgsLastHandledReconcileAt (cgsStatus c))
          (Tick (mirrorConditions cl gw (Some c') (desiredConditionsOf gw now readiness dns) force) # ps) w1 =
        Some (Some (ErrText (''reconciliation failed: '' @ grReadyMsg readiness)), w3))"
proof -
  let ?old = "cgsLastHandledReconcileAt (cgsStatus c)"
  define status where "status = (desiredCGSStatus gw (Some c) params t replicas tokenResult readiness)
      \<lparr>cgsConditions := cgsConditions (cgsStatus c)\<rparr>"
  define c' where "c' = c\<lparr>cgsStatus := status\<rparr>"
  have last: "cgsLastHandledReconcileAt status \<noteq> ?old"
    using assms(4) by (simp add: status_def desiredCGSStatus_def Let_def)
  have conds: "cgsConditions status = cgsConditions (cgsStatus c)" by (simp add: status_def)
  have "\<not> cgsDeepEqual timeEq (cgsStatus c) status"
  proof
    assume "cgsDeepEqual timeEq (cgsStatus c) status"
    then have "cgsLastHandledReconcileAt (withoutNext (cgsStatus c)) = cgsLastHandledReconcileAt (withoutNext status)"
      by (simp add: cgsDeepEqual_def)
    then show False using last by (simp add: withoutNext_def)
  qed
  moreover obtain w1 where w1: "clPatchCGSStatus cl c c' w = (None, w1)" "obj w1 = Some c'"
    using assms(1,2) unfolding cgsStore_def by blast
  ultimately have run: "snd (reconcileCGS cl timeEq gw (Some c) params t replicas tokenResult readiness w) = ((Some c', None), w1)"
    using assms(3) by (simp add: reconcileCGS_def Let_def status_def [symmetric] c'_def [symmetric])
  have stale: "\<exists>w2. waitForReconciliation cl key ?old (Tick id # ps) w1 = Some (None, w2)"
    using waitForReconciliation_Tick [OF assms(1), of id w1 c' ?old rc ps] w1(2) last conds assms(5,6)
    by (simp add: c'_def)
  let ?mirror = "mirrorConditions cl gw (Some c') (desiredConditionsOf gw now readiness dns) force"
  have "\<exists>w3. waitForReconciliation cl key ?old (Tick ?mirror # ps) w1 =
      Some (Some (ErrText (''reconciliation failed: '' @ grReadyMsg readiness)), w3)"
    if f: "grReadyStatus readiness = ConditionFalse"
  proof -
    obtain c2 rc2 where "obj (?mirror w1) = Some c2" "cgsLastHandledReconcileAt (cgsStatus c2) \<noteq> ?old"
      "condFind (cgsConditions (cgsStatus c2)) ConditionReady = Some rc2"
      "condStatus rc2 = ConditionFalse" "condMessage rc2 = grReadyMsg readiness"
      using mirrorConditions_ready [OF assms(1) w1(2), of gw now readiness dns force] last f by (auto simp: c'_def)
    from waitForReconciliation_Tick [where others = ?mirror, OF assms(1) this(1-3)] this(4,5)
    show ?thesis by simp
  qed
  then show ?thesis using run stale by blast
qed

section \<open>Witnesses\<close>

text \<open>A cluster that stores one Gateway and one CGS, and the controller's environment on it.\<close>

type_synonym cli_world = "gateway \<times> cgs_object"

definition cliKube :: "cli_world cluster" where
  "cliKube = idleCluster
     \<lparr>clGetGateway := \<lambda>n w. (Inr (fst w), w),
      clPatchGateway := \<lambda>a b w. (None, (b, snd w)),
      clGetClass := \<lambda>n w. (Inr (finClass\<lparr>gcConditions := [\<lparr>condType = ConditionReady, condStatus = ConditionTrue,
        condObservedGeneration = 1, condLastTransitionTime = 0, condReason = ''R'', condMessage = ''m''\<rparr>]\<rparr>), w),
      clGetCGS := \<lambda>n w. (Inr (snd w), w),
      clPatchCGSStatus := \<lambda>a b w. (None, (fst w, b))\<rparr>"

text \<open>An environment whose libraries answer with errors, on any cluster.\<close>

definition idleEnv :: "'w cluster \<Rightarrow> 'w env" where
  "idleEnv cl =
     \<lparr>enCluster = cl, enKube = \<lparr>kGetRoute = \<lambda>k n w. (Inl finNotFound, w),
        kPatchRouteStatus = \<lambda>a b w. (None, w), kEvent = \<lambda>e w. w\<rparr>,
      enRouteRetry = \<lambda>f. f, enClassRetry = \<lambda>f. f,
      enReleaseRetry = \<lambda>f. f, enTerminalText = \<lambda>s. s, enMapOrder = \<lambda>d. d,
      enGatewaysByHost = \<lambda>h w. (Inr [], w), enGetConfigMap = \<lambda>n w. (Inl finNotFound, w),
      enUnmarshalYAML = \<lambda>s. Inl finNotFound, enMarshalYAML = \<lambda>c. Inl finNotFound,
      enGrants = \<lambda>w n. Inr [], enNamespaceLabels = \<lambda>w n. Inl finNotFound,
      enParseSelector = \<lambda>s. Inl finNotFound, enSort = \<lambda>k rs. rs, enParseDuration = \<lambda>s. Inl finNotFound,
      enCronParse = \<lambda>s. Inl finNotFound, enParseNano = \<lambda>s. Inl finNotFound,
      enParse3339 = \<lambda>s. Inl finNotFound, enFormat3339 = \<lambda>n. [], enSha256 = \<lambda>s. s,
      enSetOwner = \<lambda>g s. Inr s, enToUnstructured = \<lambda>ob. Inl finNotFound, enJson = finJson,
      enTunnelImage = ''tunnel'', enTimeEq = (=), enClusterName = ''k'',
      enNewClient = \<lambda>cfg. Inl finNotFound\<rparr>"

definition cliEnv :: "cli_world env" where
  "cliEnv = idleEnv cliKube"

lemma cliKube_stores:
  "gatewayStore cliKube key (\<lambda>w. Some (fst w))" "cgsStore cliKube key (\<lambda>w. Some (snd w))"
  by (auto simp: gatewayStore_def cgsStore_def cliKube_def idleCluster_def)

definition demoSuspended :: gateway where
  "demoSuspended = (namedGateway ''ns'' ''gw'')
     \<lparr>gwFinalizers := [Finalizer], gwAnnotations := [AnnotationReconcile \<mapsto> AnnotationReconcileDisabled]\<rparr>"

definition demoStatus :: cgs_object where
  "demoStatus = newCGS demoSuspended"

lemma demo_resume:
  "resumeGateway cliKube showInt (\<lambda>f. f) (''ns'', ''gw'') False [] (demoSuspended, demoStatus) =
     Some (Inr [''Resumed reconciliation for Gateway '' @ keyText (''ns'', ''gw'')],
       (resumedGateway demoSuspended (showInt 7), demoStatus))"
  by (simp add: resumeGateway_def snapshotLastHandledReconcileAt_def resumeAttempt_def finishWait_def
      cliKube_def idleCluster_def resumedGateway_def demoSuspended_def mapGet_def)

theorem suspend_resume_control_witness:
  "\<exists>gc w. Reconcile cliEnv (''ns'', ''gw'') (resumedGateway demoSuspended (showInt 7), demoStatus) =
     reconcile cliEnv (resumedGateway demoSuspended (showInt 7)) gc w"
proof -
  have e: "enCluster cliEnv = cliKube" by (simp add: cliEnv_def idleEnv_def)
  have last: "onLastCall (\<lambda>f. f)" by (auto simp: onLastCall_def)
  have sus: "suspended demoSuspended" by (simp add: suspended_def demoSuspended_def mapGet_def)
  let ?w = "(resumedGateway demoSuspended (showInt 7), demoStatus)"
  have g: "clGetGateway cliKube (''ns'', ''gw'') ?w = (Inr (fst ?w), ?w)" by (simp add: cliKube_def)
  obtain gc where gc: "clGetClass cliKube n ?w = (Inr gc, ?w)" "reconcilable (fst ?w) gc" for n
    by (auto simp: cliKube_def reconcilable_def finClass_def resumedGateway_def demoSuspended_def namedGateway_def)
  note p = suspend_resume_control [where en = cliEnv and fmt = showInt, unfolded e, OF cliKube_stores(1) last,
      of "(''ns'', ''gw'')"]
  note resume = conjunct2 [OF conjunct2 [OF p], rule_format, OF _ demo_resume g, of demoSuspended]
  have "Reconcile cliEnv (''ns'', ''gw'') ?w = reconcile cliEnv (fst ?w) gc ?w"
    by (rule conjunct2 [OF resume, rule_format]) (use sus gc in simp_all)
  then show ?thesis by auto
qed


definition demoTunnel :: tunnelState where
  "demoTunnel = \<lparr>tunName = ''t'', tunID = ''id''\<rparr>"

text \<open>
  The Gateway was Ready; the requested reconciliation finds its Deployments failed.
\<close>

definition demoHealthy :: cgs_object where
  "demoHealthy = demoStatus\<lparr>cgsStatus := (cgsStatus demoStatus)
     \<lparr>cgsConditions := [\<lparr>condType = ConditionReady, condStatus = ConditionTrue,
        condObservedGeneration = 1, condLastTransitionTime = 0, condReason = ''R'', condMessage = ''m''\<rparr>]\<rparr>\<rparr>"

definition demoFailed :: gatewayReadiness where
  "demoFailed =
     \<lparr>grReadyStatus = ConditionFalse, grReadyReason = ReasonReconciliationFailed, grReadyMsg = ''down'',
      grProgrammedStatus = ConditionFalse, grProgrammedReason = ''r'', grProgrammedMsg = ''m''\<rparr>"

theorem wait_accepts_stale_ready_witness:
  "\<exists>c' w1 w2 w3. snd (reconcileCGS cliKube (=) (resumedGateway demoSuspended ''now'') (Some demoHealthy) None
       demoTunnel [] emptyTokenResult demoFailed (demoSuspended, demoHealthy)) = ((Some c', None), w1) \<and>
     waitForReconciliation cliKube (''ns'', ''gw'') [] [Tick id] w1 = Some (None, w2) \<and>
     waitForReconciliation cliKube (''ns'', ''gw'') []
       [Tick (mirrorConditions cliKube (resumedGateway demoSuspended ''now'') (Some c')
          (desiredConditionsOf (resumedGateway demoSuspended ''now'') 7 demoFailed (buildDNSPolicy None)) False)] w1 =
     Some (Some (ErrText (''reconciliation failed: '' @ ''down'')), w3)"
proof -
  let ?gw = "resumedGateway demoSuspended ''now''" and ?w = "(demoSuspended, demoHealthy)"
  have l: "cgsLastHandledReconcileAt (cgsStatus demoHealthy) = []" and d: "\<not> cgsDeleted demoHealthy"
    by (simp_all add: demoHealthy_def demoStatus_def newCGS_def)
  obtain rc where rc: "condFind (cgsConditions (cgsStatus demoHealthy)) ConditionReady = Some rc"
      "condStatus rc = ConditionTrue"
    by (simp add: demoHealthy_def)
  have r: "mapGet (gwAnnotations ?gw) AnnotationReconcileRequestedAt \<noteq> []"
    by (simp add: resumedGateway_def mapGet_def)
  have f: "grReadyStatus demoFailed = ConditionFalse" "grReadyMsg demoFailed = ''down''"
    by (simp_all add: demoFailed_def)
  have o: "Some (snd ?w) = Some demoHealthy" by simp
  from wait_accepts_stale_ready [OF cliKube_stores(2) o d _ rc, where gw = ?gw and timeEq = "(=)"
      and params = None and t = demoTunnel and replicas = "[]" and tokenResult = emptyTokenResult
      and readiness = demoFailed and ps = "[]" and key = "(''ns'', ''gw'')" and now = 7
      and dns = "buildDNSPolicy None" and force = False] r
  show ?thesis unfolding l f by (simp only: simp_thms)
qed

end
