(* ===== verification/Discipline.thy ===== *)
theory Discipline
  imports GatewayFinalize
begin

text \<open>
  What a reconciliation may write.  \<open>api_write\<close> lists the guarded writes of the controller,
  \<open>allowed\<close> is the specification of those that a reconciliation of the Gateway \<open>key\<close> may make:
  only its own objects, only the parts of them that are the controller's, and only well-formed
  statuses.  The locale \<open>disciplined\<close> has an invariant that the reads, the events and the
  writes that are \<open>ok\<close> keep (\<open>api_laws\<close>), where every allowed write is \<open>ok\<close>; its lemmas show
  of every operation of the controller, up to \<^verbatim>\<open>Reconcile\<close>, that it keeps the invariant, since
  it only makes allowed writes.
\<close>

section \<open>The specification\<close>

definition ofKey :: "namespaced_name \<Rightarrow> gateway \<Rightarrow> bool" where
  "ofKey key gw \<longleftrightarrow> gwNamespace gw = fst key \<and> gwName gw = snd key"

text \<open>A condition list as the API accepts it: types are keys, a status is one of three,
  and there is a reason.\<close>

definition wfCondition :: "condition \<Rightarrow> bool" where
  "wfCondition c \<longleftrightarrow>
     condStatus c \<in> {ConditionTrue, ConditionFalse, ConditionUnknown} \<and> condReason c \<noteq> []"

definition wfConditions :: "condition list \<Rightarrow> bool" where
  "wfConditions cs \<longleftrightarrow>
     distinct (map condType cs) \<and> (\<forall>c\<in>set cs. wfCondition c)"

definition wfGateway :: "namespaced_name \<Rightarrow> gateway \<Rightarrow> bool" where
  "wfGateway key gw \<longleftrightarrow> ofKey key gw \<and> wfConditions (gwConditions gw) \<and>
     list_all (wfConditions \<circ> lsConditions) (gwStatusListeners gw)"

definition wfCGS :: "namespaced_name \<Rightarrow> cgs_object \<Rightarrow> bool" where
  "wfCGS key c \<longleftrightarrow>
     cgsNamespace c = fst key \<and> cgsName c = snd key \<and> wfConditions (cgsConditions (cgsStatus c))"

datatype api_write =
    WriteGateway gateway gateway
  | WriteGatewayStatus gateway gateway
  | WriteClass gateway_class gateway_class
  | WriteCGS cgs_object cgs_object
  | WriteCGSStatus cgs_object cgs_object
  | CreateCGS cgs_object
  | WriteRouteStatus routeObject routeObject
  | WriteObject kobj kobj
  | DeleteObject kobj
  | WriteSecret secret_obj
  | WriteConfigMap secret_obj

text \<open>Same list but for the finalizer \<open>f\<close>.\<close>

definition sameFinalizers :: "string \<Rightarrow> string list \<Rightarrow> string list \<Rightarrow> bool" where
  "sameFinalizers f fs fs' \<longleftrightarrow> removeFinalizer f fs' = removeFinalizer f fs"

definition othersEntries :: "namespaced_name \<Rightarrow> route_parent_status list \<Rightarrow> route_parent_status list" where
  "othersEntries key ps =
     filter (\<lambda>s. \<not> (rpsControllerName s = ControllerName \<and> prName (rpsParentRef s) = snd key \<and>
                     prNamespace (rpsParentRef s) = Some (fst key))) ps"

fun allowed :: "namespaced_name \<Rightarrow> api_write \<Rightarrow> bool" where
  "allowed key (WriteGateway g g') \<longleftrightarrow>
     wfGateway key g \<and> g' = g\<lparr>gwFinalizers := gwFinalizers g'\<rparr> \<and>
     sameFinalizers Finalizer (gwFinalizers g) (gwFinalizers g')"
| "allowed key (WriteGatewayStatus g g') \<longleftrightarrow>
     wfGateway key g' \<and>
     g' = g\<lparr>gwConditions := gwConditions g', gwStatusListeners := gwStatusListeners g',
            gwStatusAddresses := gwStatusAddresses g'\<rparr>"
| "allowed key (WriteClass gc gc') \<longleftrightarrow>
     gc' = gc\<lparr>gcFinalizers := gcFinalizers gc'\<rparr> \<and>
     sameFinalizers (GatewayClassFinalizerGatewaysExist @ ''/'' @ snd key @ ''.'' @ fst key)
       (gcFinalizers gc) (gcFinalizers gc')"
| "allowed key (WriteCGS c c') \<longleftrightarrow>
     wfCGS key c \<and> c' = c\<lparr>cgsFinalizers := removeFinalizer Finalizer (cgsFinalizers c)\<rparr>"
| "allowed key (WriteCGSStatus c c') \<longleftrightarrow>
     wfCGS key c \<and> wfConditions (cgsConditions (cgsStatus c')) \<and> c' = c\<lparr>cgsStatus := cgsStatus c'\<rparr>"
| "allowed key (CreateCGS c) \<longleftrightarrow> wfCGS key c \<and> cgsFinalizers c = [Finalizer]"
| "allowed key (WriteRouteStatus r r') \<longleftrightarrow>
     r' = setRouteParents r (routeParents r') \<and>
     othersEntries key (routeParents r') = othersEntries key (routeParents r) \<and>
     (\<forall>s\<in>set (routeParents r') - set (routeParents r). wfConditions (rpsConditions s))"
| "allowed key (WriteObject ob ob') \<longleftrightarrow>
     koNamespace ob = fst key \<and> ob' = ob\<lparr>koOwnerUIDs := koOwnerUIDs ob'\<rparr> \<and>
     (\<exists>uid\<in>set (koOwnerUIDs ob). koOwnerUIDs ob' = remove1 uid (koOwnerUIDs ob))"
| "allowed key (DeleteObject ob) \<longleftrightarrow>
     koNamespace ob = fst key \<and> koKind ob \<in> {KindDeployment, KindSecret, KindVPA}"
| "allowed key (WriteSecret s) \<longleftrightarrow> soNamespace s = fst key \<and> soName s = ''gateway-'' @ snd key"
| "allowed key (WriteConfigMap s) \<longleftrightarrow> soNamespace s = fst key \<and> soName s = ''gateway-'' @ snd key"

section \<open>Well-formed conditions\<close>

lemma reasons_nonempty:
  "ReasonProgressingWithRetry \<noteq> []" "ReasonReconciliationFailed \<noteq> []"
  "ReasonReconciliationSucceeded \<noteq> []" "ReasonEnabled \<noteq> []" "ReasonDisabled \<noteq> []"
  by code_simp+

lemma wf_keepTransition [simp]: "wfCondition (keepTransition ex d) = wfCondition d"
  by (simp add: wfCondition_def)

lemma wf_condSet: "wfConditions desired \<Longrightarrow> wfConditions (condSet ex desired)"
  by (simp add: wfConditions_def condSet_map comp_def)

lemma overwriteFirst_subset: "set (overwriteFirst cs d) \<subseteq> insert d (set cs)"
  by (induction cs) auto

lemma wf_condUpsert:
  assumes "wfConditions ex" and "wfCondition d"
  shows "wfConditions (condUpsert ex d)"
proof (cases "condFind ex (condType d)")
  case None
  with assms show ?thesis by (auto simp: wfConditions_def condUpsert_def condFind_None [symmetric])
next
  case (Some p)
  then show ?thesis
    using assms overwriteFirst_subset [of ex "keepTransition ex d"]
    by (auto simp: wfConditions_def condUpsert_def map_type_overwriteFirst)
qed

lemma wf_upserts:
  "wfConditions ex \<Longrightarrow> \<forall>d\<in>set ds. wfCondition d \<Longrightarrow> wfConditions (foldl condUpsert ex ds)"
  by (induction ds arbitrary: ex) (simp_all add: wf_condUpsert)

text \<open>The entries of other Gateways and controllers, as the code tells them apart.\<close>

lemma othersEntries_owns: "ofKey key gw \<Longrightarrow> othersEntries key = filter (\<lambda>s. \<not> ownsEntry gw s)"
  by (auto simp: othersEntries_def ownsEntry_def ofKey_def fun_eq_iff intro!: filter_cong)

lemma setParentConditions_new:
  assumes "s \<in> set (setParentConditions gw desired ps) - set ps"
  shows "\<exists>ex. rpsConditions s = condSet ex desired"
proof (cases "findRouteParentStatus ps gw")
  case None
  then show ?thesis using assms by (auto simp: setParentConditions_def)
next
  case (Some i)
  then show ?thesis
    using assms findRouteParentStatus_Some [OF Some]
    by (auto simp: setParentConditions_def dest!: set_update_subset_insert [THEN subsetD])
qed

lemma allowed_setParentConditions:
  assumes "ofKey key gw" and "wfConditions desired"
  shows "allowed key (WriteRouteStatus r (setRouteParents r (setParentConditions gw desired (routeParents r))))"
proof -
  have "wfConditions (rpsConditions s)"
    if "s \<in> set (setParentConditions gw desired (routeParents r)) - set (routeParents r)" for s
    using setParentConditions_new [OF that] wf_condSet [OF assms(2)] by auto
  then show ?thesis
    by (simp add: othersEntries_owns [OF assms(1)] setParentConditions_others)
qed

section \<open>Keeping an invariant\<close>

text \<open>
  \<open>runs Inv Q f\<close>: \<open>f\<close> keeps the invariant, and its result is \<open>Q\<close>; \<open>runsO\<close> is the same of a
  computation that may not return, \<open>runs3\<close> of one that gives two results.
\<close>

definition runs :: "('w \<Rightarrow> bool) \<Rightarrow> ('a \<Rightarrow> bool) \<Rightarrow> ('w \<Rightarrow> 'a \<times> 'w) \<Rightarrow> bool" where
  "runs Inv Q f \<longleftrightarrow> (\<forall>w r w'. Inv w \<longrightarrow> f w = (r, w') \<longrightarrow> Inv w' \<and> Q r)"

definition runsO :: "('w \<Rightarrow> bool) \<Rightarrow> ('a \<Rightarrow> bool) \<Rightarrow> ('w \<Rightarrow> ('a \<times> 'w) option) \<Rightarrow> bool" where
  "runsO Inv Q f \<longleftrightarrow> (\<forall>w r w'. Inv w \<longrightarrow> f w = Some (r, w') \<longrightarrow> Inv w' \<and> Q r)"

definition runs3 :: "('w \<Rightarrow> bool) \<Rightarrow> ('w \<Rightarrow> 'a \<times> 'b \<times> 'w) \<Rightarrow> bool" where
  "runs3 Inv f \<longleftrightarrow> (\<forall>w a b w'. Inv w \<longrightarrow> f w = (a, b, w') \<longrightarrow> Inv w')"

abbreviation keeps :: "('w \<Rightarrow> bool) \<Rightarrow> ('w \<Rightarrow> 'a \<times> 'w) \<Rightarrow> bool" where
  "keeps Inv \<equiv> runs Inv (\<lambda>r. True)"

abbreviation keepsO :: "('w \<Rightarrow> bool) \<Rightarrow> ('w \<Rightarrow> ('a \<times> 'w) option) \<Rightarrow> bool" where
  "keepsO Inv \<equiv> runsO Inv (\<lambda>r. True)"

abbreviation keepsClosure ::
  "('w \<Rightarrow> bool) \<Rightarrow> ('w \<times> 'c \<Rightarrow> 'a \<times> ('w \<times> 'c)) \<Rightarrow> bool" where
  "keepsClosure Inv \<equiv> runs (\<lambda>s. Inv (fst s)) (\<lambda>r. True)"

lemma runsI: "(\<And>w r w'. Inv w \<Longrightarrow> f w = (r, w') \<Longrightarrow> Inv w' \<and> Q r) \<Longrightarrow> runs Inv Q f"
  by (simp add: runs_def)

lemma runsD: "runs Inv Q f \<Longrightarrow> f w = (r, w') \<Longrightarrow> Inv w \<Longrightarrow> Inv w' \<and> Q r"
  by (simp add: runs_def)

lemma runsOI: "(\<And>w r w'. Inv w \<Longrightarrow> f w = Some (r, w') \<Longrightarrow> Inv w' \<and> Q r) \<Longrightarrow> runsO Inv Q f"
  by (simp add: runsO_def)

lemma runsOD: "runsO Inv Q f \<Longrightarrow> f w = Some (r, w') \<Longrightarrow> Inv w \<Longrightarrow> Inv w' \<and> Q r"
  by (simp add: runsO_def)

lemma runs3I: "(\<And>w a b w'. Inv w \<Longrightarrow> f w = (a, b, w') \<Longrightarrow> Inv w') \<Longrightarrow> runs3 Inv f"
  by (simp add: runs3_def)

lemma runs3D: "runs3 Inv f \<Longrightarrow> f w = (a, b, w') \<Longrightarrow> Inv w \<Longrightarrow> Inv w'"
  by (simp add: runs3_def)

lemma keepsD: "keeps Inv f \<Longrightarrow> f w = (r, w') \<Longrightarrow> Inv w \<Longrightarrow> Inv w'"
  by (simp add: runs_def)

lemma keepsClosureD: "keepsClosure Inv f \<Longrightarrow> f (w, c) = (r, (w', c')) \<Longrightarrow> Inv w \<Longrightarrow> Inv w'"
  unfolding runs_def by fastforce

text \<open>The conditions that a failing stage adds are well-formed.\<close>

definition wfFailure :: "failure + 'a \<Rightarrow> bool" where
  "wfFailure r \<longleftrightarrow> (\<forall>e cs. r = Inl (e, cs) \<longrightarrow> (\<forall>c\<in>set cs. wfCondition c))"

lemma wfFailure_simps [simp]:
  "wfFailure (Inr x)" "wfFailure (Inl (e, cs)) \<longleftrightarrow> (\<forall>c\<in>set cs. wfCondition c)"
  by (auto simp: wfFailure_def)

text \<open>The CGS the caller holds, if any, is well-formed.\<close>

abbreviation wfHeld :: "namespaced_name \<Rightarrow> cgs_object option \<Rightarrow> bool" where
  "wfHeld key cgs \<equiv> \<forall>c. cgs = Some c \<longrightarrow> wfCGS key c"

definition deletable :: "namespaced_name \<Rightarrow> kobj \<Rightarrow> bool" where
  "deletable key ob \<longleftrightarrow> koNamespace ob = fst key \<and> koKind ob \<in> {KindDeployment, KindSecret, KindVPA}"

definition wfReadiness :: "gatewayReadiness \<Rightarrow> bool" where
  "wfReadiness x \<longleftrightarrow>
     grReadyStatus x \<in> {ConditionTrue, ConditionFalse, ConditionUnknown} \<and> grReadyReason x \<noteq> [] \<and>
     grProgrammedStatus x \<in> {ConditionTrue, ConditionFalse, ConditionUnknown} \<and>
     grProgrammedReason x \<noteq> []"

text \<open>A Cloudflare client all of whose operations keep the invariant.\<close>

definition clientKeeps :: "('w \<Rightarrow> bool) \<Rightarrow> 'w client \<Rightarrow> bool" where
  "clientKeeps Inv tc \<longleftrightarrow>
     (\<forall>n. keeps Inv (CreateTunnel tc n)) \<and> (\<forall>n. keeps Inv (GetTunnelIDByName tc n)) \<and>
     (\<forall>n. keeps Inv (CleanupTunnelConnections tc n)) \<and> (\<forall>n. keeps Inv (DeleteTunnel tc n)) \<and>
     (\<forall>n. keeps Inv (GetTunnelToken tc n)) \<and> (\<forall>n s. keeps Inv (RotateTunnelSecret tc n s)) \<and>
     keeps Inv (ListZoneIDs tc) \<and> (\<forall>h. keeps Inv (FindZoneIDByHostname tc h)) \<and>
     (\<forall>z h. keeps Inv (GetDNSCNAMETarget tc z h)) \<and> (\<forall>z h t. keeps Inv (EnsureDNSCNAME tc z h t)) \<and>
     (\<forall>z h. keeps Inv (DeleteDNSCNAME tc z h)) \<and> (\<forall>z t. keeps Inv (ListDNSCNAMEsByTarget tc z t))"

lemma clientKeepsD:
  assumes "clientKeeps Inv tc"
  shows "keeps Inv (CreateTunnel tc n)" "keeps Inv (GetTunnelIDByName tc n)"
    "keeps Inv (CleanupTunnelConnections tc n)" "keeps Inv (DeleteTunnel tc n)"
    "keeps Inv (GetTunnelToken tc n)" "keeps Inv (RotateTunnelSecret tc n s)"
    "keeps Inv (ListZoneIDs tc)" "keeps Inv (FindZoneIDByHostname tc h)"
    "keeps Inv (GetDNSCNAMETarget tc z h)" "keeps Inv (EnsureDNSCNAME tc z h t)"
    "keeps Inv (DeleteDNSCNAME tc z h)" "keeps Inv (ListDNSCNAMEsByTarget tc z t)"
  using assms unfolding clientKeeps_def by blast+

section \<open>The contract\<close>

locale api_laws =
  fixes Inv :: "'w \<Rightarrow> bool"
    and en :: "'w env"
    and key :: namespaced_name
    and ok :: "api_write \<Rightarrow> bool"
  assumes d_now: "keeps Inv (clNow (enCluster en))"
    and d_rand: "keeps Inv (clRand32 (enCluster en))"
    and d_wait: "keeps Inv (clWaitSecond (enCluster en))"
    and d_event: "Inv w \<Longrightarrow> Inv (clEvent (enCluster en) ke w)"
    and d_list: "runs Inv (\<lambda>r. \<forall>obs. r = Inr obs \<longrightarrow>
          (\<forall>ob\<in>set obs. koKind ob = k \<and> koNamespace ob = ns)) (clList (enCluster en) k ns lbls)"
    and d_get: "runs Inv (\<lambda>r. \<forall>ob. r = Inr ob \<longrightarrow> koNamespace ob = ns) (clGet (enCluster en) k (ns, n))"
    and d_getDeployment: "keeps Inv (clGetDeployment (enCluster en) nn)"
    and d_apply: "keeps Inv (clApply (enCluster en) j)"
    and d_getSecret: "keeps Inv (clGetSecret (enCluster en) nn)"
    and d_getParams: "keeps Inv (clGetParams (enCluster en) nn)"
    and d_getGateway: "runs Inv (\<lambda>r. \<forall>gw. r = Inr gw \<longrightarrow> wfGateway key gw) (clGetGateway (enCluster en) key)"
    and d_getClass: "keeps Inv (clGetClass (enCluster en) n)"
    and d_listClasses: "keeps Inv (clListClasses (enCluster en) n)"
    and d_listHTTP: "keeps Inv (clListHTTPRoutes (enCluster en) n)"
    and d_listGRPC: "keeps Inv (clListGRPCRoutes (enCluster en) n)"
    and d_getCGS: "runs Inv (\<lambda>r. \<forall>c. r = Inr c \<longrightarrow> wfCGS key c) (clGetCGS (enCluster en) key)"
    and d_getRoute: "keeps Inv (kGetRoute (enKube en) k nn)"
    and d_routeEvent: "Inv w \<Longrightarrow> Inv (kEvent (enKube en) ev w)"
    and d_byHost: "keeps Inv (enGatewaysByHost en h)"
    and d_getConfigMap: "keeps Inv (enGetConfigMap en nn)"
    and d_client: "enNewClient en cfg = Inr tc \<Longrightarrow> clientKeeps Inv tc"
    and d_setOwner: "enSetOwner en gw s = Inr s' \<Longrightarrow> soName s' = soName s \<and> soNamespace s' = soNamespace s"
    and d_routeRetry: "keepsClosure Inv att1 \<Longrightarrow> keepsClosure Inv (enRouteRetry en att1)"
    and d_classRetry: "keepsClosure Inv att2 \<Longrightarrow> keepsClosure Inv (enClassRetry en att2)"
    and d_releaseRetry: "keepsClosure Inv att3 \<Longrightarrow> keepsClosure Inv (enReleaseRetry en att3)"
    and w_gateway: "ok (WriteGateway g g') \<Longrightarrow> keeps Inv (clPatchGateway (enCluster en) g g')"
    and w_gatewayStatus:
      "ok (WriteGatewayStatus g g') \<Longrightarrow> keeps Inv (clPatchGatewayStatus (enCluster en) g g')"
    and w_class: "ok (WriteClass gc gc') \<Longrightarrow> keeps Inv (clPatchClass (enCluster en) gc gc')"
    and w_cgs: "ok (WriteCGS c c') \<Longrightarrow> keeps Inv (clPatchCGS (enCluster en) c c')"
    and w_cgsStatus: "ok (WriteCGSStatus c c') \<Longrightarrow> keeps Inv (clPatchCGSStatus (enCluster en) c c')"
    and w_createCGS: "ok (CreateCGS c) \<Longrightarrow> keeps Inv (clCreateCGS (enCluster en) c)"
    and w_route: "ok (WriteRouteStatus r r') \<Longrightarrow> keeps Inv (kPatchRouteStatus (enKube en) r r')"
    and w_object: "ok (WriteObject ob ob') \<Longrightarrow> keeps Inv (clPatch (enCluster en) ob ob')"
    and w_delete: "ok (DeleteObject ob) \<Longrightarrow> keeps Inv (clDelete (enCluster en) ob)"
    and w_secret: "ok (WriteSecret s) \<Longrightarrow> keeps Inv (clCreateOrUpdateSecret (enCluster en) s f)"
    and w_configMap: "ok (WriteConfigMap s) \<Longrightarrow> keeps Inv (clCreateOrUpdateConfigMap (enCluster en) s f)"

locale disciplined = api_laws Inv en key ok
  for Inv :: "'w \<Rightarrow> bool" and en :: "'w env" and key :: namespaced_name and ok :: "api_write \<Rightarrow> bool" +
  assumes allowed_ok: "allowed key wr \<Longrightarrow> ok wr"
begin

lemmas reads = keepsD [OF d_now] keepsD [OF d_rand] keepsD [OF d_wait] keepsD [OF d_getDeployment]
  keepsD [OF d_apply] keepsD [OF d_getSecret] keepsD [OF d_getParams] keepsD [OF d_getClass]
  keepsD [OF d_listClasses] keepsD [OF d_listHTTP] keepsD [OF d_listGRPC] keepsD [OF d_getRoute]
  keepsD [OF d_byHost] keepsD [OF d_getConfigMap] runsD [OF d_list] runsD [OF d_get]
  runsD [OF d_getGateway] runsD [OF d_getCGS]

lemma w_allowed:
  "allowed key (WriteGateway g g') \<Longrightarrow> keeps Inv (clPatchGateway (enCluster en) g g')"
  "allowed key (WriteGatewayStatus g g') \<Longrightarrow> keeps Inv (clPatchGatewayStatus (enCluster en) g g')"
  "allowed key (WriteClass gc gc') \<Longrightarrow> keeps Inv (clPatchClass (enCluster en) gc gc')"
  "allowed key (WriteCGS c c') \<Longrightarrow> keeps Inv (clPatchCGS (enCluster en) c c')"
  "allowed key (WriteCGSStatus c c') \<Longrightarrow> keeps Inv (clPatchCGSStatus (enCluster en) c c')"
  "allowed key (CreateCGS c) \<Longrightarrow> keeps Inv (clCreateCGS (enCluster en) c)"
  "allowed key (WriteRouteStatus r r') \<Longrightarrow> keeps Inv (kPatchRouteStatus (enKube en) r r')"
  "allowed key (WriteObject ob ob') \<Longrightarrow> keeps Inv (clPatch (enCluster en) ob ob')"
  "allowed key (DeleteObject ob) \<Longrightarrow> keeps Inv (clDelete (enCluster en) ob)"
  "allowed key (WriteSecret s) \<Longrightarrow> keeps Inv (clCreateOrUpdateSecret (enCluster en) s f)"
  "allowed key (WriteConfigMap s) \<Longrightarrow> keeps Inv (clCreateOrUpdateConfigMap (enCluster en) s f)"
  by (rule w_gateway w_gatewayStatus w_class w_cgs w_cgsStatus w_createCGS w_route w_object w_delete
      w_secret w_configMap; rule allowed_ok; assumption)+

lemmas writes = w_allowed [THEN keepsD, rotated]

section \<open>Parameters, credentials and the class finalizer\<close>

lemma d_readParameters: "keeps Inv (readParameters (enCluster en) gw)"
  by (rule runsI)
    (auto simp: readParameters_def split: option.splits prod.splits sum.splits if_splits dest!: reads)

lemma d_readCredentials: "keeps Inv (readCredentials (enCluster en) lg gc gw params)"
proof -
  have s: "keeps Inv (readSecretCredentials (enCluster en) ns n)" for ns n
    by (rule runsI)
      (auto simp: readSecretCredentials_def Let_def split: prod.splits sum.splits if_splits dest!: reads)
  show ?thesis
    by (rule runsI)
      (auto simp: readCredentials_def readCredentialsFromGatewayClass_def
         split: option.splits prod.splits sum.splits if_splits dest!: keepsD [OF s])
qed

lemma d_removeClassAttempt:
  assumes "ofKey key gw"
  shows "keepsClosure Inv (removeClassFinalizerAttempt (enCluster en) (FinalizerGatewayClass gw))"
proof (rule runsI)
  fix s e s' assume "Inv (fst s)"
    "removeClassFinalizerAttempt (enCluster en) (FinalizerGatewayClass gw) s = (e, s')"
  moreover have "allowed key (WriteClass g (g\<lparr>gcFinalizers :=
      removeFinalizer (FinalizerGatewayClass gw) (gcFinalizers g)\<rparr>))" for g
    using assms by (simp add: sameFinalizers_def removeFinalizer_def FinalizerGatewayClass_def ofKey_def)
  ultimately show "Inv (fst s') \<and> True"
    by (auto simp: removeClassFinalizerAttempt_def Let_def split: prod.splits sum.splits if_splits
        dest!: reads dest: writes)
qed

lemma d_addClassAttempt:
  assumes "ofKey key gw"
  shows "keepsClosure Inv (addClassFinalizerAttempt (enCluster en) (FinalizerGatewayClass gw))"
proof (rule runsI)
  fix s e s' assume "Inv (fst s)"
    "addClassFinalizerAttempt (enCluster en) (FinalizerGatewayClass gw) s = (e, s')"
  moreover have "allowed key (WriteClass g (g\<lparr>gcFinalizers :=
      addFinalizer (FinalizerGatewayClass gw) (gcFinalizers g)\<rparr>))" for g
    using assms
    by (simp add: sameFinalizers_def removeFinalizer_def addFinalizer_def FinalizerGatewayClass_def ofKey_def)
  ultimately show "Inv (fst s') \<and> True"
    by (auto simp: addClassFinalizerAttempt_def Let_def split: prod.splits sum.splits if_splits
        dest!: reads dest: writes)
qed

lemma classLoop_kept:
  assumes "ofKey key gw"
  shows "Inv w \<Longrightarrow> removeClassFinalizerLoop (enCluster en) (enClassRetry en) (FinalizerGatewayClass gw)
      skip gcs w = (r, w') \<Longrightarrow> Inv w'"
proof (induction gcs arbitrary: w)
  case (Cons gc gcs)
  then show ?case
    by (auto split: if_splits prod.splits option.splits
        dest!: keepsClosureD [OF d_classRetry [OF d_removeClassAttempt [OF assms]]])
qed simp

lemma d_removeGatewayClassFinalizer:
  assumes "ofKey key gw"
  shows "keeps Inv (removeGatewayClassFinalizer (enCluster en) (enClassRetry en) gw skip)"
  by (rule runsI)
    (auto simp: removeGatewayClassFinalizer_def Let_def split: prod.splits sum.splits
       dest!: reads dest: classLoop_kept [OF assms])

lemma ensureClass_kept:
  assumes "ofKey key gw"
    and "ensureGatewayClassFinalizer (enCluster en) (enClassRetry en) gc gw w = (e, w', gc')" and "Inv w"
  shows "Inv w'"
  using assms(2,3)
  by (auto simp: ensureGatewayClassFinalizer_def split: prod.splits option.splits
      dest!: keepsD [OF d_removeGatewayClassFinalizer [OF assms(1)]]
        keepsClosureD [OF d_classRetry [OF d_addClassAttempt [OF assms(1)]]])

section \<open>Route statuses\<close>

text \<open>The three writers, whose conditions are well-formed, and the removal of the entry.\<close>

lemma d_deniedAttempt:
  assumes "ofKey key gw"
  shows "keepsClosure Inv (deniedAttempt (enKube en) gw now nn msg)"
proof (rule runsI)
  fix s e s' assume "Inv (fst s)" "deniedAttempt (enKube en) gw now nn msg s = (e, s')"
  moreover have "wfConditions [acceptedCondition ConditionFalse ''NotAllowedByListeners'' msg g now]" for g
    by (simp add: wfConditions_def wfCondition_def acceptedCondition_def)
  note w_allowed(7) [OF allowed_setParentConditions [OF assms this], THEN keepsD]
  ultimately show "Inv (fst s') \<and> True"
    by (auto simp: deniedAttempt_def Let_def split: prod.splits sum.splits if_splits option.splits
        dest!: reads)
qed

lemma d_rejectAttempt:
  assumes "ofKey key gw" and "reason \<noteq> []"
  shows "keepsClosure Inv (rejectAttempt (enKube en) gw now nn reason msg)"
proof (rule runsI)
  fix s e s' assume "Inv (fst s)" "rejectAttempt (enKube en) gw now nn reason msg s = (e, s')"
  moreover have "wfConditions [acceptedCondition ConditionFalse reason msg g now]" for g
    using assms(2) by (simp add: wfConditions_def wfCondition_def acceptedCondition_def)
  note w_allowed(7) [OF allowed_setParentConditions [OF assms(1) this], THEN keepsD]
  ultimately show "Inv (fst s') \<and> True"
    by (auto simp: rejectAttempt_def Let_def split: prod.splits sum.splits if_splits option.splits
        dest!: reads)
qed

lemma d_updateAttempt:
  assumes "ofKey key gw" and "\<And>g. wfConditions (desiredConditions rc msg g now)"
  shows "keepsClosure Inv (updateAttempt (enKube en) gw now nn rc msg)"
proof (rule runsI)
  fix s e s' assume "Inv (fst s)" "updateAttempt (enKube en) gw now nn rc msg s = (e, s')"
  moreover note w_allowed(7) [OF allowed_setParentConditions [OF assms], THEN keepsD]
  ultimately show "Inv (fst s') \<and> True"
    by (auto simp: updateAttempt_def Let_def split: prod.splits sum.splits if_splits option.splits
        dest!: reads)
qed

lemma d_removeAttempt:
  assumes "ofKey key gw"
  shows "keepsClosure Inv (removeAttempt (enKube en) gw nn ks)"
proof (rule runsI)
  fix s e s' assume "Inv (fst s)" "removeAttempt (enKube en) gw nn ks s = (e, s')"
  moreover have "allowed key (WriteRouteStatus r
      (setRouteParents r (filter (\<lambda>s. \<not> ownsEntry gw s) (routeParents r))))" for r
    by (auto simp: othersEntries_owns [OF assms])
  note w_allowed(7) [OF this, THEN keepsD]
  ultimately show "Inv (fst s') \<and> True"
    by (auto simp: removeAttempt_def Let_def split: prod.splits sum.splits if_splits option.splits
        dest!: reads)
qed

lemma d_rejectRouteStatus:
  assumes "ofKey key gw" and "reason \<noteq> []"
  shows "keeps Inv (rejectRouteStatus (enKube en) (enRouteRetry en) gw now r reason msg)"
  by (rule runsI)
    (auto simp: rejectRouteStatus_def split: prod.splits if_splits
       dest!: keepsClosureD [OF d_routeRetry [OF d_rejectAttempt [OF assms]]] intro: d_routeEvent)

lemma d_updateDeniedRouteStatus:
  assumes "ofKey key gw"
  shows "keeps Inv (updateDeniedRouteStatus (enKube en) (enRouteRetry en) gw now r)"
  by (rule runsI)
    (auto simp: updateDeniedRouteStatus_def Let_def split: prod.splits if_splits
       dest!: keepsClosureD [OF d_routeRetry [OF d_deniedAttempt [OF assms]]] intro: d_routeEvent)

lemma d_removeRouteStatus:
  assumes "ofKey key gw"
  shows "keeps Inv (removeRouteStatus (enKube en) (enRouteRetry en) gw r)"
  by (rule runsI)
    (auto simp: removeRouteStatus_def split: prod.splits if_splits
       dest!: keepsClosureD [OF d_routeRetry [OF d_removeAttempt [OF assms]]] intro: d_routeEvent)

lemma wf_desiredConditions:
  assumes "readyStatus \<in> {ConditionTrue, ConditionFalse, ConditionUnknown}" and "readyReason \<noteq> []"
  shows "wfConditions (desiredConditions
     (buildRouteConditions r deniedRefs dns dnsErr readyStatus readyReason readyMsg) msg g now)"
  using assms reasons_nonempty
  by (auto simp: desiredConditions_def buildRouteConditions_def Let_def wfConditions_def wfCondition_def
      split: option.splits)

lemma d_updateRouteStatus:
  assumes "ofKey key gw" and "rs \<in> {ConditionTrue, ConditionFalse, ConditionUnknown}" and "rr \<noteq> []"
  shows "keeps Inv (updateRouteStatus (enKube en) (enRouteRetry en) gw now r denied dns dnsErr rs rr rm)"
  by (rule runsI)
    (auto simp: updateRouteStatus_def Let_def split: prod.splits if_splits
       dest!: keepsClosureD [OF d_routeRetry [OF d_updateAttempt [OF assms(1)
         wf_desiredConditions [OF assms(2,3)]]]] intro: d_routeEvent)

lemma updateRouteStatuses_kept:
  assumes "ofKey key gw" and "rs \<in> {ConditionTrue, ConditionFalse, ConditionUnknown}" and "rr \<noteq> []"
  shows "Inv w \<Longrightarrow> updateRouteStatuses tt (enKube en) (enRouteRetry en) gw now routes denied dns dnsErr
      rs rr rm w = (errs, w') \<Longrightarrow> Inv w'"
  by (induction routes arbitrary: w errs w')
    (auto split: prod.splits dest!: keepsD [OF d_updateRouteStatus [OF assms]])

lemma removeStatusesLoop_kept:
  assumes "ofKey key gw"
  shows "Inv w \<Longrightarrow> removeStatusesLoop (enKube en) (enRouteRetry en) gw rs w = (e, w') \<Longrightarrow> Inv w'"
  by (induction rs arbitrary: w)
    (auto split: prod.splits option.splits dest!: keepsD [OF d_removeRouteStatus [OF assms]])

lemma d_removeRouteStatuses:
  assumes "ofKey key gw"
  shows "keeps Inv (removeRouteStatuses (enKube en) (enRouteRetry en) (clListHTTPRoutes (enCluster en))
     (clListGRPCRoutes (enCluster en)) gw)"
  by (rule runsI)
    (auto simp: removeRouteStatuses_def Let_def split: prod.splits sum.splits option.splits
       dest!: reads dest: removeStatusesLoop_kept [OF assms])

section \<open>Filtering the routes\<close>

lemma staleRoutesLoop_kept:
  assumes "ofKey key gw"
  shows "Inv w \<Longrightarrow> staleRoutesLoop en gw rs errs w = (errs', w') \<Longrightarrow> Inv w'"
  by (induction rs arbitrary: errs w)
    (auto split: prod.splits option.splits dest!: keepsD [OF d_removeRouteStatus [OF assms]])

lemma deniedRoutesLoop_kept:
  assumes "ofKey key gw"
  shows "Inv w \<Longrightarrow> deniedRoutesLoop en gw rs errs w = (errs', w') \<Longrightarrow> Inv w'"
  by (induction rs arbitrary: errs w)
    (auto split: prod.splits option.splits
       dest!: reads keepsD [OF d_updateDeniedRouteStatus [OF assms]])

lemma supportedRoutesLoop_kept:
  assumes "ofKey key gw"
  shows "Inv w \<Longrightarrow> supportedRoutesLoop en gw rs valid errs w = (valid', errs', w') \<Longrightarrow> Inv w'"
  by (induction rs arbitrary: valid errs w)
    (auto simp: Let_def split: if_splits prod.splits option.splits
       dest!: reads keepsD [OF d_rejectRouteStatus [OF assms], rotated])

lemma filterNoMatchLoop_kept:
  assumes "ofKey key gw"
  shows "Inv w \<Longrightarrow> filterNoMatchLoop tt (enKube en) (enRouteRetry en) gw now rs matched errs w
      = (matched', errs', w') \<Longrightarrow> Inv w'"
  by (induction rs arbitrary: matched errs w)
    (auto simp: Let_def split: if_splits prod.splits option.splits
       dest!: keepsD [OF d_rejectRouteStatus [OF assms], rotated])

lemma filterConflictsLoop_kept:
  assumes "ofKey key gw"
  shows "Inv w \<Longrightarrow> filterConflictsLoop tt (enKube en) (enRouteRetry en) gw now conflicts rs filtered errs w
      = (filtered', errs', w') \<Longrightarrow> Inv w'"
  by (induction rs arbitrary: filtered errs w)
    (auto simp: Let_def split: if_splits prod.splits option.splits
       dest!: keepsD [OF d_rejectRouteStatus [OF assms], rotated])

lemma getExisting_kept:
  "Inv w \<Longrightarrow> getExistingRouteConfig (enGetConfigMap en) um gw w = (r, w') \<Longrightarrow> Inv w'"
  by (auto simp: getExistingRouteConfig_def Let_def split: prod.splits sum.splits if_splits option.splits
      dest!: reads)

lemma d_filterConflictingRoutes:
  assumes "ofKey key gw"
  shows "keeps Inv (filterConflictingRoutes tt (enKube en) (enRouteRetry en) (enGetConfigMap en) um gw now rs)"
  by (rule runsI)
    (auto simp: filterConflictingRoutes_def Let_def split: prod.splits sum.splits if_splits
       dest: getExisting_kept filterConflictsLoop_kept [OF assms])

lemma d_filterRoutes:
  assumes "ofKey key gw"
  shows "keeps Inv (filterRoutes en gw allRoutes)"
proof (rule runsI)
  fix w r w' assume i: "Inv w" and f: "filterRoutes en gw allRoutes w = (r, w')"
  show "Inv w' \<and> True"
  proof (cases "listGatewayRoutes (enSort en) (enParseSelector en) (enNamespaceLabels en w) allRoutes gw")
    case (Inl e)
    then show ?thesis using i f by (simp add: filterRoutes_def Let_def)
  next
    case (Inr x)
    obtain rs denied stale where x: "x = (rs, denied, stale)" by (metis prod.exhaust)
    obtain e1 w1 where 1: "staleRoutesLoop en gw stale [] w = (e1, w1)" by (rule prod.exhaust)
    obtain e2 w2 where 2: "deniedRoutesLoop en gw denied e1 w1 = (e2, w2)" by (rule prod.exhaust)
    obtain n3 w3 where 3: "clNow (enCluster en) w2 = (n3, w3)" by (rule prod.exhaust)
    obtain m e4 w4 where 4: "filterNoMatchLoop (enTerminalText en) (enKube en) (enRouteRetry en) gw n3 rs
        [] [] w3 = (m, e4, w4)" by (metis prod.exhaust)
    obtain v e5 w5 where 5: "supportedRoutesLoop en gw m [] (e2 @ e4) w4 = (v, e5, w5)"
      by (metis prod.exhaust)
    obtain n6 w6 where 6: "clNow (enCluster en) w5 = (n6, w6)" by (rule prod.exhaust)
    obtain r7 w7 where 7: "filterConflictingRoutes (enTerminalText en) (enKube en) (enRouteRetry en)
        (enGetConfigMap en) (enUnmarshalYAML en) gw n6 v w6 = (r7, w7)" by (rule prod.exhaust)
    have "w' = w7"
      using f Inr x 1 2 3 4 5 6 7
      by (simp add: filterRoutes_def filterNoMatchingParentRoutes_def Let_def split: sum.splits prod.splits)
    moreover have "Inv w2"
      using staleRoutesLoop_kept [OF assms i 1] deniedRoutesLoop_kept [OF assms _ 2] by blast
    then have "Inv w5"
      using reads(1) [OF 3] filterNoMatchLoop_kept [OF assms _ 4] supportedRoutesLoop_kept [OF assms _ 5]
      by blast
    then have "Inv w7" using reads(1) [OF 6] keepsD [OF d_filterConflictingRoutes [OF assms] 7] by blast
    ultimately show ?thesis by simp
  qed
qed

section \<open>Preparation\<close>

lemma d_listAllRoutes: "keeps Inv (listAllRoutes (enCluster en) gw)"
  by (rule runsI)
    (auto simp: listAllRoutes_def Let_def split: prod.splits sum.splits dest!: reads)

lemma wf_invalidParameters: "wfCondition (invalidParametersCond msg)"
  by (simp add: wfCondition_def invalidParametersCond_def)

lemma wf_rejected:
  "reason \<noteq> [] \<Longrightarrow> wfCondition (gveCond (rejectedCond reason msg))"
  "wfCondition (gveCond (rejectedParameters msg))"
  by (simp_all add: wfCondition_def rejectedCond_def rejectedParameters_def rejectedAccepted_def)

lemma wf_validateGateway:
  assumes "validateGateway pd gw = Some e"
  shows "wfCondition (gveCond e)"
proof -
  have kinds: "listenerKindsLoop ks = Some e \<Longrightarrow> wfCondition (gveCond e)" for ks
    by (induction ks) (auto simp: Let_def wf_rejected split: if_splits option.splits)
  have interval: "validateInterval pd gw = Some e \<Longrightarrow> wfCondition (gveCond e)"
    by (auto simp: validateInterval_def wf_rejected split: option.splits sum.splits)
  show ?thesis
    using assms by (auto simp: validateGateway_def Let_def wf_rejected split: if_splits option.splits
        dest: kinds interval)
qed

lemma wf_validateParameters:
  assumes "validateParameters tt cp params = Some e"
  shows "wfCondition (gveCond e)"
proof -
  have zones: "zoneNamesLoop seen zs = Some e \<Longrightarrow> wfCondition (gveCond e)" for seen zs
    by (induction seen zs rule: zoneNamesLoop.induct) (auto simp: wf_rejected split: if_splits)
  have replicas: "replicaNamesLoop seen rs = Some e \<Longrightarrow> wfCondition (gveCond e)" for seen rs
    by (induction seen rs rule: replicaNamesLoop.induct) (auto simp: wf_rejected split: if_splits)
  show ?thesis
    using assms
    by (auto simp: validateParameters_def Let_def wf_rejected dest: zones replicas
        split: option.splits sum.splits)
qed

lemma d_readConfiguration:
  "runs Inv (\<lambda>r. wfFailure r \<and> (\<forall>p tc. r = Inr (p, tc) \<longrightarrow> clientKeeps Inv tc)) (readConfiguration en gw gc)"
  by (rule runsI)
    (auto simp: readConfiguration_def Let_def wf_invalidParameters wf_validateParameters
       split: prod.splits sum.splits option.splits
       dest!: keepsD [OF d_readParameters] keepsD [OF d_readCredentials] dest: d_client)

lemma d_prepareReconcile:
  assumes "ofKey key gw"
  shows "runs Inv (\<lambda>r. wfFailure r \<and> (\<forall>rs p tc. r = Inr (rs, p, tc) \<longrightarrow> clientKeeps Inv tc))
    (prepareReconcile en gw gc)"
  by (rule runsI)
    (auto simp: prepareReconcile_def Let_def wf_validateGateway
       split: prod.splits sum.splits option.splits
       dest!: ensureClass_kept [OF assms] keepsD [OF d_listAllRoutes] runsD [OF d_readConfiguration])

section \<open>The tunnel, its token and the DNS conflicts\<close>

lemma d_ensureTunnel:
  assumes "clientKeeps Inv tc"
  shows "keeps Inv (ensureTunnel tc t)"
  by (rule runsI)
    (auto simp: ensureTunnel_def Let_def split: prod.splits sum.splits if_splits
       dest!: clientKeepsD [OF assms, THEN keepsD])

lemma desiredAllLoop_kept:
  assumes "clientKeeps Inv tc"
  shows "Inv w \<Longrightarrow> desiredAllLoop tc hs desired w = (r, w') \<Longrightarrow> Inv w'"
  by (induction hs arbitrary: desired w)
    (auto split: prod.splits sum.splits dest!: clientKeepsD(8) [OF assms, THEN keepsD])

lemma zoneMapLoop_kept:
  assumes "clientKeeps Inv tc"
  shows "Inv w \<Longrightarrow> zoneMapLoop tt tc zs zm w = (r, w') \<Longrightarrow> Inv w'"
  by (induction zs arbitrary: zm w)
    (auto split: prod.splits sum.splits dest!: clientKeepsD(8) [OF assms, THEN keepsD])

lemma computeDesired_kept:
  assumes "clientKeeps Inv tc"
  shows "Inv w \<Longrightarrow> computeDesiredDNSHostnames tt tc dns hs w = (r, w') \<Longrightarrow> Inv w'"
  by (auto simp: computeDesiredDNSHostnames_def split: if_splits prod.splits sum.splits
      dest: desiredAllLoop_kept [OF assms] zoneMapLoop_kept [OF assms])

lemma findOwners_kept:
  "Inv w \<Longrightarrow> findHostnameRouteOwners (enGetConfigMap en) um gw h w = (r, w') \<Longrightarrow> Inv w'"
  by (auto simp: findHostnameRouteOwners_def split: prod.splits sum.splits option.splits
      dest: getExisting_kept)

lemma otherGatewaysLoop_kept:
  "Inv w \<Longrightarrow> otherGatewaysLoop (enGetConfigMap en) um gw h gws owners w = (r, w') \<Longrightarrow> Inv w'"
proof (induction gws arbitrary: owners w)
  case (Cons g gws)
  then show ?case
    by (auto simp: Let_def split: if_splits prod.splits sum.splits dest!: findOwners_kept [rotated])
qed simp

lemma dnsConflictsLoop_kept:
  assumes "clientKeeps Inv tc"
  shows "Inv w \<Longrightarrow> dnsConflictsLoop tc (enGatewaysByHost en) (enGetConfigMap en) um gw cur ds conflicts w
      = (r, w') \<Longrightarrow> Inv w'"
proof (induction ds arbitrary: conflicts w)
  case (Cons d ds)
  then show ?case
    by (cases d)
      (auto split: if_splits prod.splits sum.splits dest!: clientKeepsD(9) [OF assms, THEN keepsD]
         reads otherGatewaysLoop_kept [rotated])
qed simp

lemma dnsConflictsFilter_kept:
  assumes "ofKey key gw"
  shows "Inv w \<Longrightarrow> filterDNSConflictsLoop tt (enKube en) (enRouteRetry en) gw now conflicts rs filtered errs w
      = (filtered', errs', w') \<Longrightarrow> Inv w'"
  by (induction rs arbitrary: filtered errs w)
    (auto simp: Let_def split: if_splits prod.splits option.splits
       dest!: keepsD [OF d_rejectRouteStatus [OF assms], rotated])

lemma d_filterManagedDNSHostnameConflicts:
  assumes "ofKey key gw" and "clientKeeps Inv tc"
  shows "keeps Inv (filterManagedDNSHostnameConflicts tt ord (enKube en) (enRouteRetry en) tc
     (enGatewaysByHost en) (enGetConfigMap en) um gw now tid dns rs)"
proof -
  have find: "keeps Inv (findManagedDNSHostnameConflicts tt ord tc (enGatewaysByHost en)
      (enGetConfigMap en) um gw tid dns rs)"
    by (rule runsI)
      (auto simp: findManagedDNSHostnameConflicts_def split: if_splits prod.splits sum.splits
         dest: computeDesired_kept [OF assms(2)] dnsConflictsLoop_kept [OF assms(2), rotated])
  show ?thesis
    by (rule runsI)
      (auto simp: filterManagedDNSHostnameConflicts_def split: if_splits prod.splits sum.splits
         dest!: keepsD [OF find] dest: dnsConflictsFilter_kept [OF assms(1)])
qed

lemma d_findCGS:
  assumes "ofKey key gw"
  shows "runs Inv (\<lambda>r. \<forall>c. r = Inr (Some c) \<longrightarrow> wfCGS key c) (getCGS (enCluster en) gw)"
  by (rule runsI)
    (use assms in \<open>auto simp: getCGS_def ofKey_def split: prod.splits sum.splits if_splits
       dest!: runsD [OF d_getCGS]\<close>)

lemma maybeRotateToken_kept:
  assumes "clientKeeps Inv tc" and "Inv w"
    and "maybeRotateToken (enCluster en) pn p3 f3 cp gw tc t cgs params res w = Some (r, w')"
  shows "Inv w'"
  using assms(2,3)
  by (auto simp: maybeRotateToken_def Let_def
      split: prod.splits sum.splits if_splits option.splits
      dest!: reads clientKeepsD(6) [OF assms(1), THEN keepsD])

lemma d_tokenSecret:
  assumes "ofKey key gw" and "clientKeeps Inv tc"
  shows "keepsO Inv (reconcileTunnelTokenSecret (enCluster en) pn p3 f3 cp sha (enSetOwner en) gw tc t cgs params)"
proof (rule runsOI)
  fix w r w'
  assume "Inv w" "reconcileTunnelTokenSecret (enCluster en) pn p3 f3 cp sha (enSetOwner en) gw tc t cgs params w
      = Some (r, w')"
  moreover have "allowed key (WriteSecret s)"
    if "enSetOwner en gw (buildTunnelTokenSecret gw tok) = Inr s" for tok s
    using d_setOwner [OF that] assms(1)
    by (simp add: buildTunnelTokenSecret_def GatewayResourceName_def ofKey_def)
  note writes(10) [OF _ _ this]
  ultimately show "Inv w' \<and> True"
    by (auto simp: reconcileTunnelTokenSecret_def Let_def split: prod.splits sum.splits option.splits
        dest!: clientKeepsD(5) [OF assms(2), THEN keepsD] dest: maybeRotateToken_kept [OF assms(2)])
qed

lemma setTokenHash_frame:
  "setTokenHash h c = c\<lparr>cgsStatus := cgsStatus (setTokenHash h c)\<rparr>"
  "cgsConditions (cgsStatus (setTokenHash h c)) = cgsConditions (cgsStatus c)"
  "wfCGS key (setTokenHash h c) = wfCGS key c"
  by (simp_all add: setTokenHash_def wfCGS_def Let_def)

lemma d_patchCGSTokenHash:
  assumes "wfHeld key cgs"
  shows "runs Inv (\<lambda>r. wfHeld key (fst r)) (patchCGSTokenHash (enCluster en) cgs res)"
proof (rule runsI)
  fix w r w' assume i: "Inv w" and p: "patchCGSTokenHash (enCluster en) cgs res w = (r, w')"
  show "Inv w' \<and> wfHeld key (fst r)"
  proof (cases cgs)
    case None
    then show ?thesis using i p by (auto simp: patchCGSTokenHash_def)
  next
    case (Some c)
    with assms have c: "wfCGS key c" by simp
    then have "allowed key (WriteCGSStatus c (setTokenHash h c))" for h
      using setTokenHash_frame [of h c] by (simp add: wfCGS_def)
    note writes(5) [OF _ _ this]
    then show ?thesis
      using i p Some c
      by (auto simp: patchCGSTokenHash_def Let_def setTokenHash_frame(3) split: if_splits prod.splits option.splits)
  qed
qed

text \<open>What the tunnel stage hands on: a CGS that is well-formed.\<close>

lemma d_reconcileTunnel:
  assumes "ofKey key gw" and "clientKeeps Inv tc"
  shows "runsO Inv (\<lambda>r. \<forall>t kept cgs rest. r = Inr (t, kept, cgs, rest) \<longrightarrow> wfHeld key cgs)
    (reconcileTunnel en gw params tc rs)"
proof (rule runsOI)
  fix w r w' assume i: "Inv w" and f: "reconcileTunnel en gw params tc rs w = Some (r, w')"
  show "Inv w' \<and> (\<forall>t kept cgs rest. r = Inr (t, kept, cgs, rest) \<longrightarrow> wfHeld key cgs)"
    using i f
    by (auto simp: reconcileTunnel_def Let_def split: prod.splits sum.splits option.splits
        dest!: keepsD [OF d_ensureTunnel [OF assms(2)]] reads(1) runsD [OF d_findCGS [OF assms(1)]]
          keepsD [OF d_filterManagedDNSHostnameConflicts [OF assms]]
          runsOD [OF d_tokenSecret [OF assms]]
          runsD [OF d_patchCGSTokenHash, rotated])
qed

section \<open>The resources\<close>

lemma applyTyped_kept:
  "Inv w \<Longrightarrow> applyTyped (enCluster en) toUn a b t ch w = (r, w') \<Longrightarrow> Inv w'"
  by (auto simp: applyTyped_def split: sum.splits prod.splits dest!: reads)

lemma d_tunnelRBAC: "keeps Inv (reconcileTunnelRBAC (enCluster en) toUn gw)"
  by (rule runsI)
    (auto simp: reconcileTunnelRBAC_def Let_def split: prod.splits sum.splits dest!: applyTyped_kept [rotated])

lemma VPAsLoop_kept:
  "Inv w \<Longrightarrow> reconcileVPAsLoop (enCluster en) toUn gw ps rs ch w = (r, w') \<Longrightarrow> Inv w'"
  by (induction rs arbitrary: ch w)
    (auto simp: Let_def split: prod.splits sum.splits dest!: applyTyped_kept [rotated])

lemma d_VPAs: "keeps Inv (reconcileVPAs (enCluster en) toUn gw params rs)"
  by (rule runsI) (auto simp: reconcileVPAs_def dest: VPAsLoop_kept)

lemma applyOne_kept:
  "Inv w \<Longrightarrow> applyOneDeployment (enCluster en) jl img gw params r th w = (x, w') \<Longrightarrow> Inv w'"
  by (auto simp: applyOneDeployment_def Let_def split: sum.splits prod.splits dest!: reads)

lemma applyLoop_kept:
  "Inv w \<Longrightarrow> applyDeploymentsLoop (enCluster en) jl img gw params th rs ch w = (r, w') \<Longrightarrow> Inv w'"
  by (induction rs arbitrary: ch w)
    (auto simp: Let_def split: if_splits prod.splits sum.splits dest!: reads applyOne_kept [rotated])

lemma d_applyDeployments: "keeps Inv (applyTunnelDeployments (enCluster en) jl img gw params rs th)"
  by (rule runsI) (auto simp: applyTunnelDeployments_def dest: applyLoop_kept)

lemma deleteStale_kept:
  "Inv w \<Longrightarrow> \<forall>ob\<in>set obs. deletable key ob \<Longrightarrow>
   deleteStaleObjects tt (enCluster en) what desired obs acc w = (r, w') \<Longrightarrow> Inv w'"
proof (induction obs arbitrary: acc w)
  case (Cons ob obs)
  obtain ch errs where acc: "acc = (ch, errs)" by (rule prod.exhaust)
  have "allowed key (DeleteObject ob)" using Cons.prems(2) by (simp add: deletable_def)
  note d = w_allowed(9) [OF this, THEN keepsD]
  show ?case
    using Cons.prems Cons.IH unfolding acc
    by (auto split: if_splits prod.splits option.splits dest!: d)
qed simp

lemma cleanupResources_kept:
  assumes "ofKey key gw"
  shows "Inv w \<Longrightarrow> cleanupStaleTunnelResources tt (enCluster en) gw rs w = (r, w') \<Longrightarrow> Inv w'"
  using assms
  by (auto simp: cleanupStaleTunnelResources_def Let_def ofKey_def split: prod.splits sum.splits
      dest!: runsD [OF d_list] dest: deleteStale_kept [rotated 2, where obs = "_ :: kobj list"]
      simp: deletable_def)

lemma cleanupVPAs_kept:
  assumes "ofKey key gw"
  shows "Inv w \<Longrightarrow> cleanupStaleVPAs tt (enCluster en) gw names w = (r, w') \<Longrightarrow> Inv w'"
  using assms
  by (auto simp: cleanupStaleVPAs_def Let_def ofKey_def split: prod.splits sum.splits
      dest!: runsD [OF d_list] dest: deleteStale_kept [rotated 2] simp: deletable_def)

lemma d_routeConfigMap:
  assumes "ofKey key gw"
  shows "keeps Inv (reconcileRouteConfigMap (enCluster en) (enSetOwner en) lg marshal gw rs)"
proof (rule runsI)
  fix w r w'
  assume "Inv w" "reconcileRouteConfigMap (enCluster en) (enSetOwner en) lg marshal gw rs w = (r, w')"
  moreover have "allowed key (WriteConfigMap s)"
    if "enSetOwner en gw \<lparr>soName = GatewayResourceName gw, soNamespace = gwNamespace gw,
          soLabels = Map.empty, soAnnotations = Map.empty, soData = Map.empty, soOwner = None\<rparr> = Inr s" for s
    using d_setOwner [OF that] assms by (simp add: GatewayResourceName_def ofKey_def)
  note writes(11) [OF _ _ this]
  ultimately show "Inv w' \<and> True"
    by (auto simp: reconcileRouteConfigMap_def Let_def split: prod.splits sum.splits)
qed

lemma d_reconcileResources:
  assumes "ofKey key gw"
  shows "keeps Inv (reconcileResources en gw params rs tok)"
proof (rule runsI)
  fix w r w' assume i: "Inv w" and f: "reconcileResources en gw params rs tok w = (r, w')"
  have vpas: "keeps Inv (\<lambda>w. if autoscalingEnabled params
      then reconcileVPAs (enCluster en) toUn gw params reps w else (([], None), w))" for toUn reps
    by (rule runsI) (auto split: if_splits dest: keepsD [OF d_VPAs])
  show "Inv w' \<and> True"
    using i f
    by (auto simp: reconcileResources_def Let_def split: prod.splits sum.splits option.splits
        dest!: keepsD [OF d_routeConfigMap [OF assms]] keepsD [OF d_tunnelRBAC]
          keepsD [OF d_applyDeployments] keepsD [OF vpas] cleanupResources_kept [OF assms, rotated]
          cleanupVPAs_kept [OF assms, rotated] split del: if_split)
qed

section \<open>Reporting\<close>

lemma listActualLoop_kept:
  assumes "clientKeeps Inv tc"
  shows "Inv w \<Longrightarrow> listActualLoop tt tc target zs actual w = (r, w') \<Longrightarrow> Inv w'"
  by (induction zs arbitrary: actual w)
    (auto split: prod.splits sum.splits dest!: clientKeepsD(12) [OF assms, THEN keepsD])

lemma deleteAllLoop_kept:
  assumes "clientKeeps Inv tc"
  shows "Inv w \<Longrightarrow> deleteAllLoop tt tc rs ch w = (r, w') \<Longrightarrow> Inv w'"
  by (induction rs arbitrary: ch w)
    (auto split: prod.splits option.splits dest!: clientKeepsD(11) [OF assms, THEN keepsD])

lemma createLoop_kept:
  assumes "clientKeeps Inv tc"
  shows "Inv w \<Longrightarrow> createLoop tt tc target act ds ch w = (r, w') \<Longrightarrow> Inv w'"
  by (induction ds arbitrary: ch w)
    (auto split: if_splits prod.splits option.splits dest!: clientKeepsD(10) [OF assms, THEN keepsD])

lemma deleteStaleLoop_kept:
  assumes "clientKeeps Inv tc"
  shows "Inv w \<Longrightarrow> deleteStaleLoop tt tc desired rs ch w = (r, w') \<Longrightarrow> Inv w'"
  by (induction rs arbitrary: ch w)
    (auto split: if_splits prod.splits option.splits dest!: clientKeepsD(11) [OF assms, THEN keepsD])

lemma d_reconcileDNS:
  assumes "clientKeeps Inv tc"
  shows "keeps Inv (reconcileDNS tt ord tc tid dns hs)"
  by (rule runsI)
    (auto simp: reconcileDNS_def Let_def split: prod.splits sum.splits if_splits option.splits
       dest!: clientKeepsD(7) [OF assms, THEN keepsD] listActualLoop_kept [OF assms, rotated]
         deleteAllLoop_kept [OF assms, rotated] computeDesired_kept [OF assms, rotated]
         createLoop_kept [OF assms, rotated] deleteStaleLoop_kept [OF assms, rotated])

lemma readinessLoop_kept:
  "Inv w \<Longrightarrow> readinessLoop (enCluster en) gw th rs st w = (r, w') \<Longrightarrow> Inv w'"
proof (induction rs arbitrary: st w)
  case (Cons x rs)
  obtain a b c where st: "st = (a, b, c)" by (metis prod.exhaust)
  obtain res w1 where g: "clGetDeployment (enCluster en) (gwNamespace gw, GatewayReplicaName gw (repName x)) w
      = (res, w1)" by (rule prod.exhaust)
  show ?case using Cons.IH [OF reads(4) [OF g Cons.prems(1)]] Cons.prems(2) g unfolding st
    by (simp add: Let_def)
qed simp

lemma d_readiness: "runs Inv wfReadiness (checkAllDeploymentsReadiness (enCluster en) gw rs th)"
proof (rule runsI)
  fix w r w' assume i: "Inv w" and c: "checkAllDeploymentsReadiness (enCluster en) gw rs th w = (r, w')"
  obtain a b n w1 where l: "readinessLoop (enCluster en) gw th rs (True, False, []) w = ((a, b, n), w1)"
    by (metis prod.exhaust)
  show "Inv w' \<and> wfReadiness r"
    using c l readinessLoop_kept [OF i l] reasons_nonempty
    by (auto simp: checkAllDeploymentsReadiness_def Let_def wfReadiness_def split: if_splits)
qed

lemma wf_finalReadiness: "wfReadiness x \<Longrightarrow> wfReadiness (finalReadiness x errs)"
  using reasons_nonempty by (simp add: finalReadiness_def wfReadiness_def)

lemma wf_desiredConditionsOf: "wfReadiness x \<Longrightarrow> wfConditions (desiredConditionsOf gw now x dns)"
  using reasons_nonempty
  by (simp add: desiredConditionsOf_def buildDNSManagementCondition_def Let_def wfReadiness_def
      wfConditions_def wfCondition_def)

lemma wf_listenerStatuses:
  "list_all (wfConditions \<circ> lsConditions) (buildListenerStatuses gw attached now)"
  by (simp add: buildListenerStatuses_def listenerConditions_def list_all_length Let_def
      wfConditions_def wfCondition_def)

lemma mirrorConditions_kept:
  assumes "wfHeld key cgs" and "wfConditions desired" and "Inv w"
  shows "Inv (mirrorConditions (enCluster en) gw cgs desired force w)"
proof (cases cgs)
  case (Some c)
  with assms(1) have "allowed key (WriteCGSStatus c (c\<lparr>cgsStatus := (cgsStatus c)\<lparr>cgsConditions :=
      condSet (cgsConditions (cgsStatus c)) desired\<rparr>\<rparr>))"
    using wf_condSet [OF assms(2)] by simp
  from runsD [OF w_allowed(5) [OF this] _ assms(3)] show ?thesis
    using Some assms(3) by (simp add: mirrorConditions_def) (metis surj_pair snd_conv)
qed (simp add: mirrorConditions_def assms(3))

lemma d_patchGatewayStatus:
  assumes "wfGateway key gw" and "wfHeld key cgs" and "wfReadiness x"
    and "list_all (wfConditions \<circ> lsConditions) listeners"
  shows "keeps Inv (patchGatewayStatus (enCluster en) gw cgs t listeners changes errs x dns rq)"
proof (rule runsI)
  fix w r w'
  assume i: "Inv w" and p: "patchGatewayStatus (enCluster en) gw cgs t listeners changes errs x dns rq w = (r, w')"
  have ds: "wfConditions (desiredConditionsOf gw now (finalReadiness x es) dns)" for now es
    by (rule wf_desiredConditionsOf [OF wf_finalReadiness [OF assms(3)]])
  have "allowed key (WriteGatewayStatus gw (gw\<lparr>gwConditions := condSet (gwConditions gw)
      (desiredConditionsOf gw now (finalReadiness x es) dns),
      gwStatusListeners := listeners, gwStatusAddresses := as\<rparr>))" for now es as
    using assms(1,4) wf_condSet [OF ds] by (simp add: wfGateway_def ofKey_def)
  note patch = w_allowed(2) [OF this, THEN keepsD]
  show "Inv w' \<and> True"
    using p i
    by (auto simp: patchGatewayStatus_def Let_def split: if_splits prod.splits option.splits
        dest!: reads(1) patch intro!: d_event mirrorConditions_kept [OF assms(2) ds])
qed

lemma reconcileCGS_kept:
  assumes "ofKey key gw" and "wfHeld key cgs" and "Inv w"
    and "reconcileCGS (enCluster en) timeEq gw cgs params t rs tok x w = (own, (ret, eo), w')"
  shows "Inv w' \<and> wfHeld key own \<and> wfHeld key ret"
proof -
  have new: "wfCGS key (newCGS gw)" "cgsFinalizers (newCGS gw) = [Finalizer]"
    using assms(1) by (simp_all add: newCGS_def wfCGS_def ofKey_def wfConditions_def)
  have wn: "wfCGS key ((newCGS gw)\<lparr>cgsStatus := desiredCGSStatus gw cgs' params t rs tok x\<rparr>)" for cgs'
    using new(1) by (simp add: wfCGS_def wfConditions_def desiredCGSStatus_def Let_def)
  have n: "allowed key (CreateCGS (newCGS gw))"
    "allowed key (WriteCGSStatus (newCGS gw) ((newCGS gw)\<lparr>cgsStatus :=
       desiredCGSStatus gw cgs' params t rs tok x\<rparr>))" for cgs'
    using new wn by (simp_all add: wfCGS_def)
  have create: "Inv w2 \<and> wfHeld key c"
    if "Inv w1" "createCGS (enCluster en) gw (desiredCGSStatus gw cgs' params t rs tok x) w1 = ((c, e), w2)"
    for cgs' w1 c e w2
    using that wn
    by (auto simp: createCGS_def Let_def split: prod.splits option.splits if_splits
        dest!: keepsD [OF w_allowed(6) [OF n(1)]] keepsD [OF w_allowed(5) [OF n(2)]])
  show ?thesis
  proof (cases cgs)
    case None
    then show ?thesis using assms(3,4) by (auto simp: reconcileCGS_def Let_def dest!: create [rotated])
  next
    case (Some c)
    let ?c = "c\<lparr>cgsFinalizers := removeFinalizer Finalizer (cgsFinalizers c)\<rparr>"
    let ?s = "c\<lparr>cgsStatus := (desiredCGSStatus gw (Some c) params t rs tok x)
        \<lparr>cgsConditions := cgsConditions (cgsStatus c)\<rparr>\<rparr>"
    have c: "wfCGS key c" "wfCGS key ?c" "wfCGS key ?s" using assms(2) Some by (simp_all add: wfCGS_def)
    have a: "allowed key (WriteCGS c ?c)" "allowed key (WriteCGSStatus c ?s)"
      using c by (simp_all add: wfCGS_def)
    show ?thesis
      using assms(3,4) c unfolding Some
      by (auto simp: reconcileCGS_def Let_def split: if_splits prod.splits option.splits
          dest!: keepsD [OF w_allowed(4) [OF a(1)]] keepsD [OF w_allowed(5) [OF a(2)]] create [rotated])
  qed
qed

lemma d_reconcileStatuses:
  assumes "wfGateway key gw" and "clientKeeps Inv tc" and "wfHeld key cgs"
  shows "keeps Inv (reconcileStatuses en gw params tc t rs cgs tok denied changes errs)"
proof (rule runsI)
  fix w r w' assume i: "Inv w" and f: "reconcileStatuses en gw params tc t rs cgs tok denied changes errs w = (r, w')"
  have gw: "ofKey key gw" using assms(1) by (simp add: wfGateway_def)
  obtain now w0 where 0: "clNow (enCluster en) w = (now, w0)" by (rule prod.exhaust)
  obtain dc de w1 where 1: "reconcileDNS (enTerminalText en) (enMapOrder en) tc (tunID t)
      (buildDNSPolicy params) (concat (map hostnames rs)) w0 = ((dc, de), w1)" by (metis prod.exhaust)
  obtain x w2 where 2: "checkAllDeploymentsReadiness (enCluster en) gw (resolveReplicas params)
      (trrTokenHash tok) w1 = (x, w2)" by (rule prod.exhaust)
  obtain n3 w3 where 3: "clNow (enCluster en) w2 = (n3, w3)" by (rule prod.exhaust)
  obtain e4 w4 where 4: "updateRouteStatuses (enTerminalText en) (enKube en) (enRouteRetry en) gw n3 rs
      denied (buildDNSPolicy params) de (grReadyStatus x) (grReadyReason x) (grReadyMsg x) w3 = (e4, w4)"
    by (rule prod.exhaust)
  obtain own ret ce w5 where 5: "reconcileCGS (enCluster en) (enTimeEq en) gw cgs params t
      (resolveReplicas params) tok x w4 = (own, (ret, ce), w5)" by (metis prod.exhaust)
  obtain n6 w6 where 6: "clNow (enCluster en) w5 = (n6, w6)" by (rule prod.exhaust)
  obtain rq es where 7: "computeRequeueAfter (enTerminalText en) (enParseDuration en) gw tok n6 = (rq, es)"
    by (rule prod.exhaust)
  have x: "Inv w2 \<and> wfReadiness x"
    using reads(1) [OF 0 i] keepsD [OF d_reconcileDNS [OF assms(2)] 1] runsD [OF d_readiness 2] by blast
  then have "Inv w4"
    using reads(1) [OF 3] updateRouteStatuses_kept [OF gw _ _ _ 4] by (simp add: wfReadiness_def)
  note c = reconcileCGS_kept [OF gw assms(3) this 5]
  then have i6: "Inv w6" using reads(1) [OF 6] by blast
  have held: "wfHeld key (case ce of None \<Rightarrow> ret | Some e \<Rightarrow> own)" using c by (simp split: option.split)
  show "Inv w' \<and> True"
    using f 0 1 2 3 4 5 6 7 i6
    by (auto simp: reconcileStatuses_def reconcileDNSWithZoneChange_def Let_def
        dest!: keepsD [OF d_patchGatewayStatus [OF assms(1) held conjunct2 [OF x] wf_listenerStatuses]])
qed

lemma wf_errorConditions:
  "\<forall>c\<in>set extra. wfCondition c \<Longrightarrow> \<forall>c\<in>set (errorConditions tt gw now err extra). wfCondition c"
  using reasons_nonempty by (auto simp: errorConditions_def wfCondition_def)

lemma d_reconcileError:
  assumes "wfGateway key gw" and "\<forall>c\<in>set extra. wfCondition c"
  shows "keeps Inv (reconcileError tt (enCluster en) gw err extra)"
proof (rule runsI)
  fix w r w' assume i: "Inv w" and f: "reconcileError tt (enCluster en) gw err extra w = (r, w')"
  obtain now w1 where n: "clNow (enCluster en) w = (now, w1)" by (rule prod.exhaust)
  let ?ds = "errorConditions tt gw now err extra"
  let ?gw = "gw\<lparr>gwConditions := foldl condUpsert (gwConditions gw) ?ds\<rparr>"
  obtain p w2 where p: "clPatchGatewayStatus (enCluster en) gw ?gw w1 = (p, w2)" by (rule prod.exhaust)
  obtain q w3 where q: "getCGS (enCluster en) gw w2 = (q, w3)" by (rule prod.exhaust)
  have gw: "ofKey key gw" using assms(1) by (simp add: wfGateway_def)
  have up: "wfConditions cs \<Longrightarrow> wfConditions (foldl condUpsert cs ?ds)" for cs
    by (rule wf_upserts [OF _ wf_errorConditions [OF assms(2)]])
  have "allowed key (WriteGatewayStatus gw ?gw)" using assms(1) up by (simp add: wfGateway_def ofKey_def)
  from keepsD [OF w_allowed(2) [OF this] p reads(1) [OF n i]]
  have q2: "Inv w3" "\<And>c. q = Inr (Some c) \<Longrightarrow> wfCGS key c"
    using runsD [OF d_findCGS [OF gw] q] by simp_all
  let ?c = "\<lambda>c. c\<lparr>cgsStatus := (cgsStatus c)\<lparr>cgsLastHandledReconcileAt :=
      mapGet (gwAnnotations gw) AnnotationReconcileRequestedAt,
      cgsConditions := foldl condUpsert (cgsConditions (cgsStatus c)) ?ds\<rparr>\<rparr>"
  have "Inv (snd (clPatchCGSStatus (enCluster en) c (?c c) w3))" if "q = Inr (Some c)" for c
  proof -
    have "allowed key (WriteCGSStatus c (?c c))" using q2(2) [OF that] up by (simp add: wfCGS_def)
    from keepsD [OF w_allowed(5) [OF this] _ q2(1)] show ?thesis by (metis surj_pair snd_conv)
  qed
  then show "Inv w' \<and> True"
    using f n p q q2(1)
    by (auto simp: reconcileError_def Let_def split: sum.splits option.splits intro!: d_event)
qed

lemma d_finalizeError:
  assumes "wfGateway key gw"
  shows "keeps Inv (finalizeError tt (enCluster en) gw changes err)"
proof (rule runsI)
  fix w r w' assume i: "Inv w" and f: "finalizeError tt (enCluster en) gw changes err w = (r, w')"
  obtain now w1 where n: "clNow (enCluster en) w = (now, w1)" by (rule prod.exhaust)
  let ?d = "\<lparr>condType = ConditionReady, condStatus = ConditionUnknown,
      condObservedGeneration = gwGeneration gw, condLastTransitionTime = now,
      condReason = ReasonProgressingWithRetry, condMessage = errMsg tt err\<rparr>"
  let ?gw = "gw\<lparr>gwConditions := condUpsert (gwConditions gw) ?d\<rparr>"
  obtain p w2 where p: "clPatchGatewayStatus (enCluster en) gw ?gw w1 = (p, w2)" by (rule prod.exhaust)
  have "wfConditions (condUpsert (gwConditions gw) ?d)"
    by (rule wf_condUpsert) (use assms reasons_nonempty in \<open>simp_all add: wfGateway_def wfCondition_def\<close>)
  then have "allowed key (WriteGatewayStatus gw ?gw)" using assms by (simp add: wfGateway_def ofKey_def)
  from keepsD [OF w_allowed(2) [OF this] p reads(1) [OF n i]]
  show "Inv w' \<and> True" using f n p by (auto simp: finalizeError_def Let_def intro!: d_event)
qed

theorem reconcile_kept:
  assumes "wfGateway key gw" and "Inv w" and "reconcile en gw gc w = Some (r, w')"
  shows "Inv w'"
proof -
  have gw: "ofKey key gw" using assms(1) by (simp add: wfGateway_def)
  have failed: "Inv w3" if "failed = reconcileError tt (enCluster en) gw" "failed e cs w2 = (r, w3)"
    "\<forall>c\<in>set cs. wfCondition c" "Inv w2" for failed tt e cs w2 w3
    using keepsD [OF d_reconcileError [OF assms(1) that(3)]] that(1,2,4) by blast
  obtain p w1 where 1: "prepareReconcile en gw gc w = (p, w1)" by (rule prod.exhaust)
  note p = runsD [OF d_prepareReconcile [OF gw] 1 assms(2)]
  show ?thesis
  proof (cases p)
    case (Inl f)
    then show ?thesis
      using assms(3) 1 p
      by (cases f) (auto simp: reconcile_def Let_def dest: failed [OF refl])
  next
    case (Inr x)
    obtain rs params tc where x: "x = (rs, params, tc)" by (metis prod.exhaust)
    with Inr p have tc: "clientKeeps Inv tc" by simp
    show ?thesis
      using assms(3) 1 p Inr x
      by (auto simp: reconcile_def Let_def split: prod.splits sum.splits option.splits
          dest!: keepsD [OF d_filterRoutes [OF gw]] runsOD [OF d_reconcileTunnel [OF gw tc]]
            keepsD [OF d_reconcileResources [OF gw]]
            keepsD [OF d_reconcileStatuses [OF assms(1) tc], rotated]
          dest: failed [OF refl])
  qed
qed

section \<open>Finalization\<close>

lemma d_releaseAttempt:
  "keepsClosure Inv (releaseAttempt (enCluster en) uid k what (fst key, n))"
proof (rule runsI)
  fix s e s' assume i: "Inv (fst s)" and f: "releaseAttempt (enCluster en) uid k what (fst key, n) s = (e, s')"
  have "allowed key (WriteObject ob (ob\<lparr>koOwnerUIDs := remove1 uid (koOwnerUIDs ob)\<rparr>))"
    if "koNamespace ob = fst key" "uid \<in> set (koOwnerUIDs ob)" for ob
    using that by auto
  note patch = w_allowed(8) [OF this, THEN keepsD]
  show "Inv (fst s') \<and> True"
    using i f
    by (auto simp: releaseAttempt_def removeOwnerRef_def split: prod.splits sum.splits option.splits
        bool.splits if_splits dest!: runsD [OF d_get] dest: patch)
qed

lemma releaseLoop_kept:
  "Inv w \<Longrightarrow> \<forall>ob\<in>set obs. koNamespace ob = fst key \<Longrightarrow>
   releaseLoop (enCluster en) (enReleaseRetry en) uid k what obs removed w = (r, w') \<Longrightarrow> Inv w'"
  by (induction obs arbitrary: removed w)
    (auto simp: objectKey_def split: prod.splits option.splits
       dest!: keepsClosureD [OF d_releaseRetry [OF d_releaseAttempt]])

lemma releaseKind_kept:
  assumes "ofKey key gw"
  shows "Inv w \<Longrightarrow> releaseKind (enCluster en) (enReleaseRetry en) gw k lw what lbls removed w = (r, w')
     \<Longrightarrow> Inv w'"
  using assms
  by (auto simp: releaseKind_def ofKey_def split: prod.splits sum.splits dest!: runsD [OF d_list]
      dest: releaseLoop_kept)

lemma removeOwnerReferences_kept:
  assumes "ofKey key gw"
  shows "Inv w \<Longrightarrow> removeOwnerReferences (enCluster en) (enReleaseRetry en) gw w = (r, w') \<Longrightarrow> Inv w'"
proof -
  note kind = releaseKind_kept [OF assms, rotated]
  have cm: "Inv w \<Longrightarrow> removeOwnerReferencesFromRouteConfigMap (enCluster en) (enReleaseRetry en) gw w
      = (r, w') \<Longrightarrow> Inv w'" for w r w'
    by (auto simp: removeOwnerReferencesFromRouteConfigMap_def dest: kind)
  have rbac: "Inv w \<Longrightarrow> removeOwnerReferencesFromTunnelRBACResources (enCluster en) (enReleaseRetry en) gw w
      = (r, w') \<Longrightarrow> Inv w'" for w r w'
    by (auto simp: removeOwnerReferencesFromTunnelRBACResources_def Let_def
        split: prod.splits option.splits dest!: kind)
  have vpa: "Inv w \<Longrightarrow> removeOwnerReferencesFromVPAs (enCluster en) (enReleaseRetry en) gw w
      = (r, w') \<Longrightarrow> Inv w'" for w r w'
    using assms
    by (auto simp: removeOwnerReferencesFromVPAs_def ofKey_def split: prod.splits sum.splits
        dest!: runsD [OF d_list] dest: releaseLoop_kept)
  show "Inv w \<Longrightarrow> removeOwnerReferences (enCluster en) (enReleaseRetry en) gw w = (r, w') \<Longrightarrow> Inv w'"
    by (auto simp: removeOwnerReferences_def Let_def split: prod.splits option.splits
        dest!: kind cm [rotated] rbac [rotated] vpa [rotated])
qed

lemma events_kept: "Inv w \<Longrightarrow> Inv (fold (\<lambda>x. clEvent (enCluster en) (f x)) xs w)"
  by (induction xs arbitrary: w) (simp_all add: d_event)

lemma finalizeDisabled_kept:
  assumes "ofKey key gw"
  shows "Inv w \<Longrightarrow> finalizeDisabled en gw w = (r, w') \<Longrightarrow> Inv w'"
  by (auto simp: finalizeDisabled_def Let_def split: prod.splits option.splits
      dest!: removeOwnerReferences_kept [OF assms, rotated] intro!: events_kept)

lemma deleteDeployments_kept:
  "Inv w \<Longrightarrow> \<forall>ob\<in>set obs. deletable key ob \<Longrightarrow> deleteDeploymentsLoop (enCluster en) obs w = (r, w') \<Longrightarrow> Inv w'"
proof (induction obs arbitrary: w)
  case (Cons ob obs)
  have "allowed key (DeleteObject ob)" using Cons.prems(2) by (simp add: deletable_def)
  note d = w_allowed(9) [OF this, THEN keepsD]
  show ?case using Cons.prems Cons.IH by (auto split: prod.splits option.splits dest!: d)
qed simp

lemma waitGone_kept:
  assumes "Inv w" and "waitGone (enCluster en) n nn w = Some (r, w')"
  shows "Inv w'"
proof -
  let ?P = "\<lambda>cl n nn w p. cl = enCluster en \<longrightarrow> Inv w \<longrightarrow> Inv (snd p)"
  have "?P (enCluster en) n nn w (r, w')"
  proof (rule waitGone.raw_induct [where P = ?P, OF _ assms(2)], intro impI)
    fix loop cl n nn v p
    assume IH: "\<And>cl n nn w p. loop cl n nn w = Some p \<Longrightarrow> ?P cl n nn w p"
      and cl: "cl = enCluster en" and v: "Inv v"
      and run: "(let failed = (\<lambda>err. Some (ErrWrap (''waiting for tunnel deployment '' @ n @
             '' deletion: '') err))
         in case clGetDeployment cl nn v of
              (Inl err, w1) \<Rightarrow> Some (if errNotFound err then None else failed err, w1)
            | (Inr d, w1) \<Rightarrow>
                (case clWaitSecond cl w1 of
                   (Some err, w2) \<Rightarrow> Some (failed err, w2)
                 | (None, w2) \<Rightarrow> loop cl n nn w2)) = Some p"
    have "Inv (snd p)" if "loop (enCluster en) n nn x = Some p" "Inv x" for x
      using IH [OF that(1)] that(2) by blast
    note again = this
    show "Inv (snd p)"
      using run v unfolding cl by (auto intro: again simp: Let_def split: prod.splits sum.splits option.splits dest!: reads)
  qed
  then show ?thesis using assms(1) by simp
qed

lemma waitAllGone_kept: "Inv w \<Longrightarrow> waitAllGone (enCluster en) obs w = Some (r, w') \<Longrightarrow> Inv w'"
  by (induction obs arbitrary: w) (auto split: option.splits dest!: waitGone_kept [rotated])

lemma d_finalizeClient:
  "runs Inv (\<lambda>r. \<forall>tc. r = Inr tc \<longrightarrow> clientKeeps Inv tc) (finalizeClient en gw gc)"
  by (rule runsI)
    (auto simp: finalizeClient_def Let_def split: prod.splits sum.splits if_splits
       dest!: keepsD [OF d_readParameters] keepsD [OF d_readCredentials] dest: d_client)

lemma deleteTunnel_kept:
  assumes "clientKeeps Inv tc"
  shows "Inv w \<Longrightarrow> deleteTunnelAndDNS en gw tc changes w = (r, w') \<Longrightarrow> Inv w'"
  by (auto simp: deleteTunnelAndDNS_def Let_def split: prod.splits sum.splits if_splits option.splits
      dest!: clientKeepsD(2,3,4) [OF assms, THEN keepsD] keepsD [OF d_reconcileDNS [OF assms]])

lemma releaseCGS_kept:
  assumes "ofKey key gw"
  shows "Inv w \<Longrightarrow> releaseCGS en gw w = (r, w') \<Longrightarrow> Inv w'"
proof -
  have "allowed key (WriteCGS c (c\<lparr>cgsFinalizers := removeFinalizer Finalizer (cgsFinalizers c)\<rparr>))"
    if "wfCGS key c" for c
    using that by simp
  note patch = w_allowed(4) [OF this, THEN keepsD]
  show "Inv w \<Longrightarrow> releaseCGS en gw w = (r, w') \<Longrightarrow> Inv w'"
    by (auto simp: releaseCGS_def split: prod.splits sum.splits option.splits if_splits
        dest!: runsD [OF d_findCGS [OF assms]] dest: patch)
qed

lemma finalizeEnabled_kept:
  assumes "ofKey key gw" and "Inv w" and "finalizeEnabled en gw gc w = Some (r, w')"
  shows "Inv w'"
proof -
  have ns: "gwNamespace gw = fst key" using assms(1) by (simp add: ofKey_def)
  obtain l w1 where l: "clList (enCluster en) KindDeployment (gwNamespace gw)
      (GatewayResourceLabels (gwName gw) []) w = (l, w1)" by (rule prod.exhaust)
  have 1: "Inv w1" "\<forall>obs. l = Inr obs \<longrightarrow> (\<forall>ob\<in>set obs. deletable key ob)"
    using runsD [OF d_list l assms(2)] ns by (simp_all add: deletable_def)
  show ?thesis
    using assms(3) 1 l
    by (auto simp: finalizeEnabled_def Let_def split: prod.splits sum.splits option.splits
        dest!: deleteDeployments_kept [rotated 2] waitAllGone_kept [rotated]
          runsD [OF d_finalizeClient] deleteTunnel_kept [rotated 2] releaseCGS_kept [OF assms(1), rotated])
qed

lemma finalizeRest_kept:
  assumes "wfGateway key gw" and "Inv w" and "finalizeRest en gw changes w = (r, w')"
  shows "Inv w'"
proof -
  let ?gw = "gw\<lparr>gwFinalizers := removeFinalizer Finalizer (gwFinalizers gw)\<rparr>"
  have gw: "ofKey key gw" "wfGateway key ?gw" using assms(1) by (simp_all add: wfGateway_def ofKey_def)
  have "allowed key (WriteGateway gw ?gw)"
    using assms(1) by (simp add: sameFinalizers_def removeFinalizer_def)
  note patch = w_allowed(1) [OF this, THEN keepsD]
  show ?thesis
    using assms(2,3)
    by (auto simp: finalizeRest_def Let_def split: prod.splits option.splits if_splits
        dest!: keepsD [OF d_removeRouteStatuses [OF gw(1)]] keepsD [OF d_removeGatewayClassFinalizer [OF gw(1)]]
          keepsD [OF d_finalizeError [OF assms(1)]] keepsD [OF d_finalizeError [OF gw(2)]] patch intro!: d_event)
qed

lemma finalize_kept:
  assumes "wfGateway key gw" and "Inv w" and "finalize en gw gc w = Some (r, w')"
  shows "Inv w'"
proof -
  have gw: "ofKey key gw" using assms(1) by (simp add: wfGateway_def)
  show ?thesis
    using assms(2,3)
    by (auto simp: finalize_def split: if_splits prod.splits option.splits
        dest!: finalizeDisabled_kept [OF gw, rotated] finalizeEnabled_kept [OF gw, rotated]
          keepsD [OF d_finalizeError [OF assms(1)]] finalizeRest_kept [OF assms(1), rotated])
qed

section \<open>The entry point\<close>

theorem Reconcile_kept:
  assumes "Inv w" and "Reconcile en key w = Some (r, w')"
  shows "Inv w'"
proof -
  obtain g w1 where g: "clGetGateway (enCluster en) key w = (g, w1)" by (rule prod.exhaust)
  note 1 = runsD [OF d_getGateway g assms(1)]
  show ?thesis
  proof (cases g)
    case (Inr gw)
    with 1 have gw: "wfGateway key gw" by simp
    then have "allowed key (WriteGateway gw (gw\<lparr>gwFinalizers := addFinalizer Finalizer (gwFinalizers gw)\<rparr>))"
      by (simp add: wfGateway_def sameFinalizers_def removeFinalizer_def addFinalizer_def)
    note patch = w_allowed(1) [OF this, THEN keepsD]
    show ?thesis
      using assms(2) g 1 Inr
      by (auto simp: Reconcile_def Let_def split: prod.splits sum.splits if_splits option.splits
          dest!: reads(8) patch finalize_kept [OF gw, rotated] reconcile_kept [OF gw, rotated])
  qed (use assms(2) g 1 in \<open>auto simp: Reconcile_def\<close>)
qed

end

end
