(* ===== verification/DisciplineProps.thy ===== *)
theory DisciplineProps
  imports Discipline CliProps
begin

text \<open>
  What a reconciliation may write: the property, and a cluster that logs the guarded writes, on
  which it computes.
\<close>

section \<open>A cluster with a log\<close>

record aud_world =
  audGateway :: gateway
  audCGS :: cgs_object
  audLog :: "api_write list"

definition logged :: "api_write \<Rightarrow> aud_world \<Rightarrow> aud_world" where
  "logged wr w = w\<lparr>audLog := audLog w @ [wr]\<rparr>"

definition audKube :: "aud_world cluster" where
  "audKube = idleCluster
     \<lparr>clDelete := \<lambda>a w. (None, logged (DeleteObject a) w),
      clPatch := \<lambda>a b w. (None, logged (WriteObject a b) w),
      clCreateOrUpdateSecret := \<lambda>s f w. (Inr OperationResultNone, logged (WriteSecret s) w),
      clCreateOrUpdateConfigMap := \<lambda>s f w. (Inr OperationResultNone, logged (WriteConfigMap s) w),
      clGetGateway := \<lambda>n w. (Inr (audGateway w), w),
      clPatchGateway := \<lambda>a b w. (None, logged (WriteGateway a b) (w\<lparr>audGateway := b\<rparr>)),
      clPatchGatewayStatus := \<lambda>a b w. (None, logged (WriteGatewayStatus a b) (w\<lparr>audGateway := b\<rparr>)),
      clGetClass := \<lambda>n w. (Inr (finClass\<lparr>gcConditions := [\<lparr>condType = ConditionReady, condStatus = ConditionTrue,
        condObservedGeneration = 1, condLastTransitionTime = 0, condReason = ''R'', condMessage = ''m''\<rparr>]\<rparr>), w),
      clPatchClass := \<lambda>a b w. (None, logged (WriteClass a b) w),
      clGetCGS := \<lambda>n w. (Inr (audCGS w), w),
      clCreateCGS := \<lambda>c w. (None, logged (CreateCGS c) (w\<lparr>audCGS := c\<rparr>)),
      clPatchCGS := \<lambda>a b w. (None, logged (WriteCGS a b) (w\<lparr>audCGS := b\<rparr>)),
      clPatchCGSStatus := \<lambda>a b w. (None, logged (WriteCGSStatus a b) (w\<lparr>audCGS := b\<rparr>))\<rparr>"

definition audEnv :: "aud_world env" where
  "audEnv = (idleEnv audKube)\<lparr>enKube := \<lparr>kGetRoute = \<lambda>k n w. (Inl finNotFound, w),
     kPatchRouteStatus = \<lambda>a b w. (None, logged (WriteRouteStatus a b) w), kEvent = \<lambda>e w. w\<rparr>\<rparr>"

abbreviation audKey :: namespaced_name where
  "audKey \<equiv> (''ns'', ''gw'')"

definition audInv :: "aud_world \<Rightarrow> bool" where
  "audInv w \<longleftrightarrow> wfGateway audKey (audGateway w) \<and> wfCGS audKey (audCGS w) \<and>
     (\<forall>wr\<in>set (audLog w). allowed audKey wr)"

lemma audEnv_simps:
  "enCluster audEnv = audKube"
  "enKube audEnv = \<lparr>kGetRoute = \<lambda>k n w. (Inl finNotFound, w),
     kPatchRouteStatus = \<lambda>a b w. (None, logged (WriteRouteStatus a b) w), kEvent = \<lambda>e w. w\<rparr>"
  "enRouteRetry audEnv = (\<lambda>f. f)" "enClassRetry audEnv = (\<lambda>f. f)" "enReleaseRetry audEnv = (\<lambda>f. f)"
  "enNewClient audEnv = (\<lambda>cfg. Inl finNotFound)" "enSetOwner audEnv = (\<lambda>g s. Inr s)"
  "enGatewaysByHost audEnv = (\<lambda>h w. (Inr [], w))"
  "enGetConfigMap audEnv = (\<lambda>n w. (Inl finNotFound, w))"
  by (simp_all add: audEnv_def idleEnv_def)

lemma wf_written:
  "allowed key (WriteGateway g g') \<Longrightarrow> wfGateway key g'"
  "allowed key (WriteGatewayStatus g g') \<Longrightarrow> wfGateway key g'"
  "allowed key (CreateCGS c') \<Longrightarrow> wfCGS key c'"
  "allowed key (WriteCGS c c') \<Longrightarrow> wfCGS key c'"
  "allowed key (WriteCGSStatus c c') \<Longrightarrow> wfCGS key c'"
proof -
  assume "allowed key (WriteGateway g g')"
  then have w: "wfGateway key g" and e: "g' = g\<lparr>gwFinalizers := gwFinalizers g'\<rparr>" by simp_all
  from w show "wfGateway key g'" by (subst e) (simp add: wfGateway_def ofKey_def)
next
  show "allowed key (WriteGatewayStatus g g') \<Longrightarrow> wfGateway key g'"
    "allowed key (CreateCGS c') \<Longrightarrow> wfCGS key c'" by simp_all
next
  assume "allowed key (WriteCGS c c')"
  then show "wfCGS key c'" by (auto simp: wfCGS_def)
next
  assume "allowed key (WriteCGSStatus c c')"
  then have w: "wfCGS key c" "wfConditions (cgsConditions (cgsStatus c'))"
    and e: "c' = c\<lparr>cgsStatus := cgsStatus c'\<rparr>" by simp_all
  from w show "wfCGS key c'" by (subst e) (simp add: wfCGS_def)
qed

lemma audWrites:
  assumes "allowed audKey wr" and "\<And>w. f w = (r, logged wr (upd w))"
    and "\<And>w. audLog (upd w) = audLog w"
    and "\<And>w. wfGateway audKey (audGateway w) \<Longrightarrow> wfGateway audKey (audGateway (upd w))"
    and "\<And>w. wfCGS audKey (audCGS w) \<Longrightarrow> wfCGS audKey (audCGS (upd w))"
  shows "keeps audInv f"
  by (rule runsI) (use assms in \<open>auto simp: audInv_def logged_def\<close>)

lemma aud_writes:
  "allowed audKey (WriteGateway a b) \<Longrightarrow> keeps audInv (clPatchGateway (enCluster audEnv) a b)"
  "allowed audKey (WriteGatewayStatus a b) \<Longrightarrow> keeps audInv (clPatchGatewayStatus (enCluster audEnv) a b)"
  "allowed audKey (WriteClass gc gc') \<Longrightarrow> keeps audInv (clPatchClass (enCluster audEnv) gc gc')"
  "allowed audKey (WriteCGS c c') \<Longrightarrow> keeps audInv (clPatchCGS (enCluster audEnv) c c')"
  "allowed audKey (WriteCGSStatus c c') \<Longrightarrow> keeps audInv (clPatchCGSStatus (enCluster audEnv) c c')"
  "allowed audKey (CreateCGS c) \<Longrightarrow> keeps audInv (clCreateCGS (enCluster audEnv) c)"
  "allowed audKey (WriteRouteStatus r r') \<Longrightarrow> keeps audInv (kPatchRouteStatus (enKube audEnv) r r')"
  "allowed audKey (WriteObject ob ob') \<Longrightarrow> keeps audInv (clPatch (enCluster audEnv) ob ob')"
  "allowed audKey (DeleteObject ob) \<Longrightarrow> keeps audInv (clDelete (enCluster audEnv) ob)"
  "allowed audKey (WriteSecret s) \<Longrightarrow> keeps audInv (clCreateOrUpdateSecret (enCluster audEnv) s f)"
  "allowed audKey (WriteConfigMap s) \<Longrightarrow> keeps audInv (clCreateOrUpdateConfigMap (enCluster audEnv) s f)"
proof -
  assume a: "allowed audKey (WriteGateway a b)"
  show "keeps audInv (clPatchGateway (enCluster audEnv) a b)"
    by (rule audWrites [OF a, where upd = "\<lambda>w. w\<lparr>audGateway := b\<rparr>" and r = "None"])
      (use wf_written [of audKey] a in \<open>simp_all add: audEnv_simps audKube_def idleCluster_def del: allowed.simps\<close>)
next
  assume a: "allowed audKey (WriteGatewayStatus a b)"
  show "keeps audInv (clPatchGatewayStatus (enCluster audEnv) a b)"
    by (rule audWrites [OF a, where upd = "\<lambda>w. w\<lparr>audGateway := b\<rparr>" and r = "None"])
      (use wf_written [of audKey] a in \<open>simp_all add: audEnv_simps audKube_def idleCluster_def del: allowed.simps\<close>)
next
  assume a: "allowed audKey (WriteClass gc gc')"
  show "keeps audInv (clPatchClass (enCluster audEnv) gc gc')"
    by (rule audWrites [OF a, where upd = "\<lambda>w. w" and r = "None"])
      (use wf_written [of audKey] a in \<open>simp_all add: audEnv_simps audKube_def idleCluster_def del: allowed.simps\<close>)
next
  assume a: "allowed audKey (WriteCGS c c')"
  show "keeps audInv (clPatchCGS (enCluster audEnv) c c')"
    by (rule audWrites [OF a, where upd = "\<lambda>w. w\<lparr>audCGS := c'\<rparr>" and r = "None"])
      (use wf_written [of audKey] a in \<open>simp_all add: audEnv_simps audKube_def idleCluster_def del: allowed.simps\<close>)
next
  assume a: "allowed audKey (WriteCGSStatus c c')"
  show "keeps audInv (clPatchCGSStatus (enCluster audEnv) c c')"
    by (rule audWrites [OF a, where upd = "\<lambda>w. w\<lparr>audCGS := c'\<rparr>" and r = "None"])
      (use wf_written [of audKey] a in \<open>simp_all add: audEnv_simps audKube_def idleCluster_def del: allowed.simps\<close>)
next
  assume a: "allowed audKey (CreateCGS c)"
  show "keeps audInv (clCreateCGS (enCluster audEnv) c)"
    by (rule audWrites [OF a, where upd = "\<lambda>w. w\<lparr>audCGS := c\<rparr>" and r = "None"])
      (use wf_written [of audKey] a in \<open>simp_all add: audEnv_simps audKube_def idleCluster_def del: allowed.simps\<close>)
next
  assume a: "allowed audKey (WriteRouteStatus r r')"
  show "keeps audInv (kPatchRouteStatus (enKube audEnv) r r')"
    by (rule audWrites [OF a, where upd = "\<lambda>w. w" and r = "None"])
      (use wf_written [of audKey] a in \<open>simp_all add: audEnv_simps audKube_def idleCluster_def del: allowed.simps\<close>)
next
  assume a: "allowed audKey (WriteObject ob ob')"
  show "keeps audInv (clPatch (enCluster audEnv) ob ob')"
    by (rule audWrites [OF a, where upd = "\<lambda>w. w" and r = "None"])
      (use wf_written [of audKey] a in \<open>simp_all add: audEnv_simps audKube_def idleCluster_def del: allowed.simps\<close>)
next
  assume a: "allowed audKey (DeleteObject ob)"
  show "keeps audInv (clDelete (enCluster audEnv) ob)"
    by (rule audWrites [OF a, where upd = "\<lambda>w. w" and r = "None"])
      (use wf_written [of audKey] a in \<open>simp_all add: audEnv_simps audKube_def idleCluster_def del: allowed.simps\<close>)
next
  assume a: "allowed audKey (WriteSecret s)"
  show "keeps audInv (clCreateOrUpdateSecret (enCluster audEnv) s f)"
    by (rule audWrites [OF a, where upd = "\<lambda>w. w" and r = "Inr OperationResultNone"])
      (use wf_written [of audKey] a in \<open>simp_all add: audEnv_simps audKube_def idleCluster_def del: allowed.simps\<close>)
next
  assume a: "allowed audKey (WriteConfigMap s)"
  show "keeps audInv (clCreateOrUpdateConfigMap (enCluster audEnv) s f)"
    by (rule audWrites [OF a, where upd = "\<lambda>w. w" and r = "Inr OperationResultNone"])
      (use wf_written [of audKey] a in \<open>simp_all add: audEnv_simps audKube_def idleCluster_def del: allowed.simps\<close>)
qed

interpretation aud: disciplined audInv audEnv audKey "allowed audKey"
  by unfold_locales
    ((rule aud_writes, assumption) |
     (rule runsI, force simp: audEnv_simps audKube_def idleCluster_def audInv_def) |
     (simp add: audEnv_simps audKube_def idleCluster_def))+

section \<open>The property\<close>


text \<open>
  A Gateway without a listener, rejected: the class gets the finalizer, the Gateway and the
  CloudflareGatewayStatus the conditions.
\<close>

definition audStart :: aud_world where
  "audStart =
     \<lparr>audGateway = (namedGateway ''ns'' ''gw'')\<lparr>gwFinalizers := [Finalizer]\<rparr>,
      audCGS = newCGS (namedGateway ''ns'' ''gw''), audLog = []\<rparr>"

definition audEnd :: "(result \<times> aud_world) option" where
  "audEnd = Reconcile audEnv audKey audStart"

fun writeKind :: "api_write \<Rightarrow> string" where
  "writeKind (WriteGatewayStatus g g') = ''status''"
| "writeKind (WriteClass g g') = ''class''"
| "writeKind (WriteCGSStatus c c') = ''cgs''"
| "writeKind wr = ''other''"

lemma audEnd_log: "map_option (\<lambda>(r, w). map writeKind (audLog w)) audEnd = Some [''class'', ''status'', ''cgs'']"
  by code_simp

lemma audStart_inv: "audInv audStart"
  by (simp add: audInv_def audStart_def wfGateway_def wfCGS_def ofKey_def wfConditions_def newCGS_def
      namedGateway_def)


end
