(* ===== verification/OriginProxy.thy ===== *)
theory OriginProxy
  imports Proxy GoErrors
begin

text \<open>
  internal/cloudflare/tunnel.go: how requests from the tunnel reach the proxy in the same
  process: plain requests by its handler, WebSocket upgrades and gRPC by \<^verbatim>\<open>RoundTrip\<close>, with
  the response copied to the tunnel.  cloudflared's response writer and its stream pipe, and
  the HTTP transports, are not under src/: they are parameters over the world \<open>'w\<close>, which
  holds the connections.  A copy loop may not end: it is a partial function.
\<close>

section \<open>Connections\<close>

text \<open>\<^verbatim>\<open>connection.ResponseWriter\<close>; \<open>respFlush\<close> is there when it is an \<^verbatim>\<open>http.Flusher\<close>.\<close>

record 'w responder =
  WriteRespHeaders :: "int \<Rightarrow> (string \<times> string) list \<Rightarrow> 'w \<Rightarrow> go_error option \<times> 'w"
  respWrite :: "string \<Rightarrow> 'w \<Rightarrow> go_error option \<times> 'w"
  respFlush :: "('w \<Rightarrow> 'w) option"
  AddTrailer :: "string \<Rightarrow> string \<Rightarrow> 'w \<Rightarrow> 'w"

datatype read_error = EOF | ReadError go_error

text \<open>
  A response: a read of at most so many bytes gives bytes, an error or both; the trailers are
  there once the body has been read, in the order \<^verbatim>\<open>range\<close> visits them.
\<close>

record 'w http_response =
  resStatus :: int
  resHeader :: "(string \<times> string) list"
  resRead :: "int \<Rightarrow> 'w \<Rightarrow> (string \<times> read_error option) \<times> 'w"
  resClose :: "'w \<Rightarrow> 'w"
  resDuplex :: bool
  resTrailer :: "'w \<Rightarrow> (string \<times> string list) list"

record origin_request = request +
  orRequestURI :: string
  orContentLength :: int
  orHasBody :: bool

text \<open>What calling a round tripper comes to: a response, an error, or a nil dereference.\<close>

datatype round_trip_error = RoundTripErr go_error | NilPanic

type_synonym 'w round_tripper =
  "origin_request \<Rightarrow> 'w \<Rightarrow> (round_trip_error + 'w http_response) \<times> 'w"

datatype proxy_result = Returned "go_error option" | Panicked

section \<open>The proxy's round tripper\<close>

text \<open>
  \<^verbatim>\<open>Proxy.RoundTrip\<close>: \<open>send\<close> is a transport's round trip on the request with the scheme and
  the host of the backend.  The clock is read again when the response is there.
\<close>

definition RoundTrip ::
  "(http_cookie \<Rightarrow> string) \<Rightarrow> (transport \<Rightarrow> string \<Rightarrow> string \<Rightarrow> origin_request \<Rightarrow> 'w
       \<Rightarrow> (go_error + 'w http_response) \<times> 'w) \<Rightarrow> ('w \<Rightarrow> int)
     \<Rightarrow> proxy_config option \<Rightarrow> int \<Rightarrow> (int \<Rightarrow> int) \<Rightarrow> 'w round_tripper" where
  "RoundTrip cookieString send clock config now draw q w =
     (case resolveBackend config now draw (request.truncate q) of
        Inl e \<Rightarrow> (Inl (RoundTripErr (ErrText (resolveErrorText e))), w)
      | Inr (r, b, sessionHit, createdAt) \<Rightarrow>
          (case beURL b of
             None \<Rightarrow> (Inl NilPanic, w)
           | Some u \<Rightarrow>
               (case send (transportForRoute r) (urlScheme u) (urlHost u) q w of
                  (Inl e, w1) \<Rightarrow> (Inl (RoundTripErr e), w1)
                | (Inr resp, w1) \<Rightarrow>
                    (Inr (if needsSessionCookie r sessionHit
                          then resp\<lparr>resHeader := setSessionCookie cookieString (clock w1) r b sessionHit
                                      createdAt (resHeader resp)\<rparr>
                          else resp), w1))))"

section \<open>Copying a response\<close>

definition grpcBufSize :: int where
  "grpcBufSize = 32 * 1024"

text \<open>The loop of \<^verbatim>\<open>proxyGRPC\<close>: the error it returns, none at the end of the body.\<close>

partial_function (option) copyGRPC ::
  "'w responder \<Rightarrow> 'w http_response \<Rightarrow> 'w \<Rightarrow> (go_error option \<times> 'w) option" where
  "copyGRPC rw resp w =
     (case resRead resp grpcBufSize w of
        ((bytes, readErr), w1) \<Rightarrow>
          (case (if bytes \<noteq> []
                 then (case respWrite rw bytes w1 of
                         (Some err, w2) \<Rightarrow> (Some err, w2)
                       | (None, w2) \<Rightarrow>
                           (None, case respFlush rw of None \<Rightarrow> w2 | Some flush \<Rightarrow> flush w2))
                 else (None, w1)) of
             (Some err, w2) \<Rightarrow> Some (Some err, w2)
           | (None, w2) \<Rightarrow>
               (case readErr of
                  None \<Rightarrow> copyGRPC rw resp w2
                | Some EOF \<Rightarrow> Some (None, w2)
                | Some (ReadError err) \<Rightarrow> Some (Some err, w2))))"

declare copyGRPC.simps [code]

text \<open>\<^verbatim>\<open>io.Copy\<close> to the responder, with its buffer of 32 KiB and without flushing.\<close>

partial_function (option) ioCopy ::
  "'w responder \<Rightarrow> 'w http_response \<Rightarrow> 'w \<Rightarrow> (go_error option \<times> 'w) option" where
  "ioCopy rw resp w =
     (case resRead resp grpcBufSize w of
        ((bytes, readErr), w1) \<Rightarrow>
          (case (if bytes \<noteq> [] then respWrite rw bytes w1 else (None, w1)) of
             (Some err, w2) \<Rightarrow> Some (Some err, w2)
           | (None, w2) \<Rightarrow>
               (case readErr of
                  None \<Rightarrow> ioCopy rw resp w2
                | Some EOF \<Rightarrow> Some (None, w2)
                | Some (ReadError err) \<Rightarrow> Some (Some err, w2))))"

declare ioCopy.simps [code]

definition addTrailers :: "'w responder \<Rightarrow> (string \<times> string list) list \<Rightarrow> 'w \<Rightarrow> 'w" where
  "addTrailers rw trailers w =
     fold (\<lambda>(name, values). fold (AddTrailer rw name) values) trailers w"

section \<open>Dispatching\<close>

definition proxyGRPC ::
  "'w round_tripper \<Rightarrow> 'w responder \<Rightarrow> origin_request \<Rightarrow> 'w \<Rightarrow> (proxy_result \<times> 'w) option" where
  "proxyGRPC rt rw tr w =
     (case rt (tr\<lparr>orRequestURI := []\<rparr>) w of
        (Inl NilPanic, w1) \<Rightarrow> Some (Panicked, w1)
      | (Inl (RoundTripErr err), w1) \<Rightarrow>
          Some (Returned (Some (ErrWrap ''grpc roundtrip: '' err)), w1)
      | (Inr resp, w1) \<Rightarrow>
          (case WriteRespHeaders rw (resStatus resp) (resHeader resp) w1 of
             (Some err, w2) \<Rightarrow>
               Some (Returned (Some (ErrWrap ''writing grpc response headers: '' err)), resClose resp w2)
           | (None, w2) \<Rightarrow>
               (case copyGRPC rw resp w2 of
                  None \<Rightarrow> None
                | Some (Some err, w3) \<Rightarrow> Some (Returned (Some err), resClose resp w3)
                | Some (None, w3) \<Rightarrow>
                    Some (Returned None, resClose resp (addTrailers rw (resTrailer resp w3) w3)))))"

text \<open>
  \<^verbatim>\<open>http.Header\<close> keeps its names in canonical form; \<^verbatim>\<open>Set\<close> is given canonical names here, and
  \<^verbatim>\<open>Get\<close> makes its argument canonical: \<open>canonical\<close> is \<^verbatim>\<open>textproto.CanonicalMIMEHeaderKey\<close>.
\<close>

definition headerSet ::
  "(string \<Rightarrow> string) \<Rightarrow> string \<Rightarrow> string \<Rightarrow> (string \<Rightarrow> string) \<Rightarrow> (string \<Rightarrow> string)" where
  "headerSet canonical name value h = (\<lambda>n. if canonical n = name then value else h n)"

definition upgradeRequest :: "(string \<Rightarrow> string) \<Rightarrow> origin_request \<Rightarrow> origin_request" where
  "upgradeRequest canonical tr =
     tr\<lparr>rqHeader := headerSet canonical ''Sec-Websocket-Version'' ''13''
          (headerSet canonical ''Upgrade'' ''websocket''
            (headerSet canonical ''Connection'' ''Upgrade'' (rqHeader tr))),
        orRequestURI := [], orContentLength := 0, orHasBody := False\<rparr>"

text \<open>
  \<open>pipe\<close> is cloudflared's \<^verbatim>\<open>stream.Pipe\<close> between the tunnel and the body of the upgraded
  response.
\<close>

definition proxyWebSocket ::
  "(string \<Rightarrow> string) \<Rightarrow> ('w responder \<Rightarrow> origin_request \<Rightarrow> 'w http_response \<Rightarrow> 'w \<Rightarrow> 'w)
     \<Rightarrow> 'w round_tripper \<Rightarrow> 'w responder \<Rightarrow> origin_request \<Rightarrow> 'w \<Rightarrow> (proxy_result \<times> 'w) option" where
  "proxyWebSocket canonical pipe rt rw tr w =
     (case rt (upgradeRequest canonical tr) w of
        (Inl NilPanic, w1) \<Rightarrow> Some (Panicked, w1)
      | (Inl (RoundTripErr err), w1) \<Rightarrow>
          Some (Returned (Some (ErrWrap ''websocket roundtrip: '' err)), w1)
      | (Inr resp, w1) \<Rightarrow>
          (case WriteRespHeaders rw (resStatus resp) (resHeader resp) w1 of
             (Some err, w2) \<Rightarrow>
               Some (Returned (Some (ErrWrap ''writing websocket response headers: '' err)),
                     resClose resp w2)
           | (None, w2) \<Rightarrow>
               if resStatus resp \<noteq> 101
               then (case ioCopy rw resp w2 of
                       None \<Rightarrow> None
                     | Some (ignored, w3) \<Rightarrow> Some (Returned None, resClose resp w3))
               else if \<not> resDuplex resp
               then Some (Returned (Some (ErrText ''websocket response body is not a ReadWriteCloser'')),
                          resClose resp w2)
               else Some (Returned None, resClose resp (pipe rw tr resp w2))))"

definition originIsGRPC :: "origin_request \<Rightarrow> bool" where
  "originIsGRPC r \<longleftrightarrow> hasPrefix (rqHeader r ''Content-Type'') ''application/grpc''"

text \<open>\<open>handler\<close> is the in-process HTTP handler.\<close>

definition ProxyHTTP ::
  "(string \<Rightarrow> string) \<Rightarrow> ('w responder \<Rightarrow> origin_request \<Rightarrow> 'w http_response \<Rightarrow> 'w \<Rightarrow> 'w)
     \<Rightarrow> ('w responder \<Rightarrow> origin_request \<Rightarrow> 'w \<Rightarrow> 'w) \<Rightarrow> 'w round_tripper \<Rightarrow> 'w responder
     \<Rightarrow> origin_request \<Rightarrow> bool \<Rightarrow> 'w \<Rightarrow> (proxy_result \<times> 'w) option" where
  "ProxyHTTP canonical pipe handler rt rw tr isWebsocket w =
     (if isWebsocket then proxyWebSocket canonical pipe rt rw tr w
      else if originIsGRPC tr then proxyGRPC rt rw tr w
      else Some (Returned None, handler rw tr w))"

definition ProxyTCP :: "go_error option" where
  "ProxyTCP = Some (ErrText ''TCP proxying not yet supported'')"

section \<open>Versions and tokens\<close>

text \<open>The dependencies of the build info: paths and versions, if there is any.\<close>

definition cloudflaredVersion :: "(string \<times> string) list option \<Rightarrow> string" where
  "cloudflaredVersion info =
     (case info of
        None \<Rightarrow> ''DEV''
      | Some deps \<Rightarrow>
          (case find (\<lambda>(path, version). path = ''github.com/cloudflare/cloudflared'') deps of
             None \<Rightarrow> ''DEV''
           | Some (path, version) \<Rightarrow> version))"

definition parseTunnelToken ::
  "(string \<Rightarrow> go_error + string) \<Rightarrow> (string \<Rightarrow> go_error + 't) \<Rightarrow> string \<Rightarrow> go_error + 't" where
  "parseTunnelToken decodeBase64 unmarshal tokenStr =
     (case decodeBase64 tokenStr of Inl err \<Rightarrow> Inl err | Inr content \<Rightarrow> unmarshal content)"

section \<open>What a stream promises\<close>

text \<open>What the other end of the tunnel has received, in order.\<close>

datatype sent_item =
    SentHeaders int "(string \<times> string) list"
  | SentData string
  | SentTrailer string string

definition trailerItems :: "(string \<times> string list) list \<Rightarrow> sent_item list" where
  "trailerItems ts = concat (map (\<lambda>(n, vs). map (SentTrailer n) vs) ts)"

text \<open>
  \<open>sent\<close> observes what was sent and \<open>pending\<close> the reads the response body still answers.  A
  write that fails has sent a part; reading, flushing and closing send nothing.
\<close>

locale grpc_stream =
  fixes rw :: "'w responder"
    and resp :: "'w http_response"
    and sent :: "'w \<Rightarrow> sent_item list"
    and pending :: "'w \<Rightarrow> (string \<times> read_error option) list"
  assumes reads: "resRead resp bound w = (x, w') \<Longrightarrow> pending w \<noteq> [] \<Longrightarrow>
      pending w = x # pending w' \<and> sent w' = sent w"
    and writes: "respWrite rw bs w = (e, w') \<Longrightarrow> pending w' = pending w \<and>
      (\<exists>p q. bs = p @ q \<and> sent w' = sent w @ [SentData p] \<and> (e = None \<longrightarrow> q = []))"
    and flushes: "respFlush rw = Some flush \<Longrightarrow> pending (flush w) = pending w \<and> sent (flush w) = sent w"
    and headers: "WriteRespHeaders rw st h w = (e, w') \<Longrightarrow> pending w' = pending w \<and>
      sent w' = (if e = None then sent w @ [SentHeaders st h] else sent w)"
    and trailers: "sent (AddTrailer rw n v w) = sent w @ [SentTrailer n v]"
    and closes: "sent (resClose resp w) = sent w"
begin

lemma sent_addTrailers: "sent (addTrailers rw ts w) = sent w @ trailerItems ts"
proof -
  have one: "sent (fold (AddTrailer rw n) vs w) = sent w @ map (SentTrailer n) vs" for n vs w
    by (induction vs arbitrary: w) (simp_all add: trailers)
  show ?thesis
    unfolding addTrailers_def trailerItems_def
    by (induction ts arbitrary: w) (auto simp: one)
qed

text \<open>One turn of the loop: what it sends, and whether it goes on.\<close>

lemma copyGRPC_turn:
  assumes "pending w = (bs, re) # rest"
  obtains (failed) e w' p q where "copyGRPC rw resp w = Some (Some e, w')" "bs = p @ q"
      "sent w' = sent w @ [SentData p]"
  | (written) w2 where "pending w2 = rest" "sent w2 = sent w @ (if bs = [] then [] else [SentData bs])"
      "copyGRPC rw resp w = (case re of None \<Rightarrow> copyGRPC rw resp w2 | Some EOF \<Rightarrow> Some (None, w2)
         | Some (ReadError err) \<Rightarrow> Some (Some err, w2))"
proof -
  obtain x w1 where r: "resRead resp grpcBufSize w = (x, w1)" by (rule prod.exhaust)
  have 1: "x = (bs, re)" "pending w1 = rest" "sent w1 = sent w" using reads [OF r] assms by simp_all
  show thesis
  proof (cases "bs = []")
    case True
    have "copyGRPC rw resp w = (case re of None \<Rightarrow> copyGRPC rw resp w1 | Some EOF \<Rightarrow> Some (None, w1)
        | Some (ReadError err) \<Rightarrow> Some (Some err, w1))"
      using 1(1) r True by (subst copyGRPC.simps) simp
    then show thesis using written [of w1] 1(2,3) True by simp
  next
    case False
    obtain e w2 where w: "respWrite rw bs w1 = (e, w2)" by (rule prod.exhaust)
    obtain p q where 2: "bs = p @ q" "sent w2 = sent w1 @ [SentData p]" "e = None \<longrightarrow> q = []"
      "pending w2 = pending w1" using writes [OF w] by blast
    show thesis
    proof (cases e)
      case (Some err)
      have "copyGRPC rw resp w = Some (Some err, w2)"
        using 1(1) r w False Some by (subst copyGRPC.simps) simp
      then show thesis using failed 1(3) 2(1,2) by simp
    next
      case None
      let ?w3 = "case respFlush rw of None \<Rightarrow> w2 | Some flush \<Rightarrow> flush w2"
      have "pending ?w3 = rest" "sent ?w3 = sent w @ [SentData bs]"
        using 1 2 None flushes by (auto split: option.split)
      moreover have "copyGRPC rw resp w = (case re of None \<Rightarrow> copyGRPC rw resp ?w3 | Some EOF \<Rightarrow> Some (None, ?w3)
          | Some (ReadError err) \<Rightarrow> Some (Some err, ?w3))"
        using 1(1) None r w False by (subst copyGRPC.simps) simp
      ultimately show thesis using written [of ?w3] False by simp
    qed
  qed
qed

text \<open>
  On a body that ends, with \<^verbatim>\<open>io.EOF\<close> or an error, the loop returns; without an error it has
  sent all of a body that ended with \<^verbatim>\<open>io.EOF\<close>, with one a part.
\<close>

lemma copyGRPC_sends:
  assumes "pending w = map (\<lambda>bs. (bs, None)) bss @ [(final, Some ending)]"
  shows "\<exists>eo w' out. copyGRPC rw resp w = Some (eo, w') \<and> sent w' = sent w @ map SentData out \<and>
     (case eo of
        None \<Rightarrow> ending = EOF \<and> pending w' = [] \<and> out = filter (\<lambda>bs. bs \<noteq> []) (bss @ [final])
      | Some e \<Rightarrow> \<exists>rest. concat (bss @ [final]) = concat out @ rest)"
  using assms
proof (induction bss arbitrary: w)
  case Nil
  then have "pending w = (final, Some ending) # []" by simp
  then show ?case
  proof (cases rule: copyGRPC_turn)
    case (failed e w' p q)
    then show ?thesis by (intro exI [of _ "Some e"] exI [of _ w'] exI [of _ "[p]"]) simp
  next
    case (written w2)
    let ?out = "if final = [] then [] else [final]"
    show ?thesis
    proof (cases ending)
      case EOF
      then show ?thesis using written by (intro exI [of _ None] exI [of _ w2] exI [of _ ?out]) simp
    next
      case (ReadError e)
      then show ?thesis using written by (intro exI [of _ "Some e"] exI [of _ w2] exI [of _ ?out]) simp
    qed
  qed
next
  case (Cons bs bss)
  then have "pending w = (bs, None) # (map (\<lambda>bs. (bs, None)) bss @ [(final, Some ending)])" by simp
  then show ?case
  proof (cases rule: copyGRPC_turn)
    case (failed e w' p q)
    then show ?thesis by (intro exI [of _ "Some e"] exI [of _ w'] exI [of _ "[p]"]) simp
  next
    case (written w2)
    from Cons.IH [OF written(1)] obtain eo w' out where
      c: "copyGRPC rw resp w2 = Some (eo, w')" "sent w' = sent w2 @ map SentData out"
      "case eo of None \<Rightarrow> ending = EOF \<and> pending w' = [] \<and> out = filter (\<lambda>bs. bs \<noteq> []) (bss @ [final])
        | Some e \<Rightarrow> \<exists>rest. concat (bss @ [final]) = concat out @ rest" by blast
    let ?out = "(if bs = [] then [] else [bs]) @ out"
    show ?thesis
      using c written(2,3)
      by (intro exI [of _ eo] exI [of _ w'] exI [of _ ?out]) (auto split: option.splits)
  qed
qed

end

section \<open>The property\<close>

text \<open>
  C38. A gRPC response reaches the tunnel whole or is reported as failed.  On a body that ends the
  copying returns.  Without an error the other end has received the headers, every byte of the
  body in order and, after that, the trailers as they are once the body is read, and the body did
  end with \<^verbatim>\<open>io.EOF\<close>; with an error it has received at most a prefix of the body and no trailer,
  so a client never takes a truncated response for a complete one.
\<close>

theorem grpc_response_delivery:
  assumes "grpc_stream rw resp sent pending" and "originIsGRPC tr"
    and "rt (tr\<lparr>orRequestURI := []\<rparr>) w = (Inr resp, w1)"
    and "pending w1 = map (\<lambda>bs. (bs, None)) bss @ [(final, Some ending)]"
  shows "\<exists>eo w' out. ProxyHTTP canonical pipe handler rt rw tr False w = Some (Returned eo, w') \<and>
     sent w' = sent w1 @ out \<and>
     (case eo of
        None \<Rightarrow> ending = EOF \<and> (\<exists>w3. pending w3 = [] \<and>
          out = SentHeaders (resStatus resp) (resHeader resp) #
            map SentData (filter (\<lambda>bs. bs \<noteq> []) (bss @ [final])) @ trailerItems (resTrailer resp w3))
      | Some e \<Rightarrow> out = [] \<or> (\<exists>parts rest. concat (bss @ [final]) = concat parts @ rest \<and>
          out = SentHeaders (resStatus resp) (resHeader resp) # map SentData parts))"
proof -
  note s = assms(1)
  note law = grpc_stream.headers [OF s] and copy = grpc_stream.copyGRPC_sends [OF s]
    and close = grpc_stream.closes [OF s] and trail = grpc_stream.sent_addTrailers [OF s]
  let ?h = "SentHeaders (resStatus resp) (resHeader resp)"
  obtain he w2 where h: "WriteRespHeaders rw (resStatus resp) (resHeader resp) w1 = (he, w2)"
    by (rule prod.exhaust)
  show ?thesis
  proof (cases he)
    case (Some err)
    then show ?thesis
      using assms(2,3) h law [OF h]
      by (intro exI [of _ "Some (ErrWrap ''writing grpc response headers: '' err)"]
          exI [of _ "resClose resp w2"] exI [of _ "[]"])
        (simp add: ProxyHTTP_def proxyGRPC_def close)
  next
    case None
    then have 2: "pending w2 = pending w1" "sent w2 = sent w1 @ [?h]" using law [OF h] by simp_all
    from copy [of w2, unfolded 2(1), OF assms(4)] obtain eo w3 out where
      c: "copyGRPC rw resp w2 = Some (eo, w3)" "sent w3 = sent w2 @ map SentData out"
      "case eo of None \<Rightarrow> ending = EOF \<and> pending w3 = [] \<and> out = filter (\<lambda>bs. bs \<noteq> []) (bss @ [final])
        | Some e \<Rightarrow> \<exists>rest. concat (bss @ [final]) = concat out @ rest" by blast
    show ?thesis
    proof (cases eo)
      case None
      then show ?thesis
        using assms(2,3) h \<open>he = None\<close> 2 c
        by (intro exI [of _ None] exI [of _ "resClose resp (addTrailers rw (resTrailer resp w3) w3)"]
            exI [of _ "?h # map SentData out @ trailerItems (resTrailer resp w3)"])
          (auto simp: ProxyHTTP_def proxyGRPC_def close trail)
    next
      case (Some err)
      then show ?thesis
        using assms(2,3) h \<open>he = None\<close> 2 c
        by (intro exI [of _ "Some err"] exI [of _ "resClose resp w3"] exI [of _ "?h # map SentData out"])
          (auto simp: ProxyHTTP_def proxyGRPC_def close)
    qed
  qed
qed

text \<open>
  A gRPC request that the proxy cannot resolve is answered with nothing but an error, where a
  plain request gets the status and the header of \<^verbatim>\<open>ServeHTTP\<close>.
\<close>

lemma grpc_unresolved:
  assumes "originIsGRPC tr"
    and "resolveBackend config now draw (request.truncate (tr\<lparr>orRequestURI := []\<rparr>)) = Inl e"
  shows "ProxyHTTP canonical pipe handler (RoundTrip cookieString send clock config now draw) rw tr False w =
     Some (Returned (Some (ErrWrap ''grpc roundtrip: '' (ErrText (resolveErrorText e)))), w)"
  using assms by (simp add: ProxyHTTP_def proxyGRPC_def RoundTrip_def)

text \<open>A connection whose writes fail as scheduled: a failing write sends the first byte.\<close>

record stream_world =
  swPending :: "(string \<times> read_error option) list"
  swSent :: "sent_item list"
  swFaults :: "bool list"

definition simResponder :: "stream_world responder" where
  "simResponder =
     \<lparr>WriteRespHeaders = \<lambda>st h w. (None, w\<lparr>swSent := swSent w @ [SentHeaders st h]\<rparr>),
      respWrite = \<lambda>bs w.
        (case swFaults w of
           True # fs \<Rightarrow> (Some (ErrText ''broken pipe''),
             w\<lparr>swSent := swSent w @ [SentData (take 1 bs)], swFaults := fs\<rparr>)
         | fs \<Rightarrow> (None, w\<lparr>swSent := swSent w @ [SentData bs], swFaults := tl fs\<rparr>)),
      respFlush = Some (\<lambda>w. w),
      AddTrailer = \<lambda>n v w. w\<lparr>swSent := swSent w @ [SentTrailer n v]\<rparr>\<rparr>"

definition simResponse :: "stream_world http_response" where
  "simResponse =
     \<lparr>resStatus = 200, resHeader = [(''Content-Type'', ''application/grpc'')],
      resRead = \<lambda>n w. (case swPending w of [] \<Rightarrow> (([], Some EOF), w) | x # xs \<Rightarrow> (x, w\<lparr>swPending := xs\<rparr>)),
      resClose = (\<lambda>w. w), resDuplex = False,
      resTrailer = \<lambda>w. if swPending w = [] then [(''grpc-status'', [''0''])] else []\<rparr>"

interpretation sim_stream: grpc_stream simResponder simResponse swSent swPending
proof (unfold_locales, goal_cases)
  case (2 bs w e w')
  show ?case
  proof (cases "swFaults w")
    case Nil
    then show ?thesis using 2 by (auto simp: simResponder_def)
  next
    case (Cons b fs)
    show ?thesis
    proof (cases b)
      case True
      then have "e \<noteq> None" "w' = w\<lparr>swSent := swSent w @ [SentData (take 1 bs)], swFaults := fs\<rparr>"
        using 2 Cons by (auto simp: simResponder_def)
      then show ?thesis
        by (metis (no_types, lifting) append_take_drop_id stream_world.select_convs(1,2)
            stream_world.surjective stream_world.update_convs(2,3))
    next
      case False
      then show ?thesis using 2 Cons by (auto simp: simResponder_def)
    qed
  qed
qed (auto simp: simResponder_def simResponse_def split: list.splits)

definition grpcRequest :: origin_request where
  "grpcRequest = \<lparr>rqHost = ''a.b'', rqPath = ''/s'', rqHeader = (\<lambda>n. ''application/grpc+proto''),
     rqCookie = (\<lambda>n. None), orRequestURI = ''/s'', orContentLength = 0, orHasBody = True\<rparr>"

definition grpcRun :: "bool list \<Rightarrow> (proxy_result \<times> stream_world) option" where
  "grpcRun faults =
     ProxyHTTP id (\<lambda>rw tr r w. w) (\<lambda>rw tr w. w) (\<lambda>q w. (Inr simResponse, w)) simResponder grpcRequest False
       \<lparr>swPending = [(''ab'', None), ([], None), (''c'', Some EOF)], swSent = [], swFaults = faults\<rparr>"

text \<open>A response of three bytes, and the same when its second write fails.\<close>

theorem grpc_response_delivery_witness:
  "(\<exists>w'. grpcRun [] = Some (Returned None, w') \<and>
      swSent w' = [SentHeaders 200 [(''Content-Type'', ''application/grpc'')], SentData ''ab'', SentData ''c'',
        SentTrailer ''grpc-status'' ''0'']) \<and>
   (\<exists>e w'. grpcRun [False, True] = Some (Returned (Some e), w') \<and>
      SentTrailer ''grpc-status'' ''0'' \<notin> set (swSent w'))"
proof
  show "\<exists>w'. grpcRun [] = Some (Returned None, w') \<and>
      swSent w' = [SentHeaders 200 [(''Content-Type'', ''application/grpc'')], SentData ''ab'', SentData ''c'',
        SentTrailer ''grpc-status'' ''0'']"
  proof -
    have "map_option (\<lambda>(r, w). (r, swSent w)) (grpcRun []) = Some (Returned None,
        [SentHeaders 200 [(''Content-Type'', ''application/grpc'')], SentData ''ab'', SentData ''c'',
         SentTrailer ''grpc-status'' ''0''])"
      by code_simp
    then show ?thesis by (cases "grpcRun []") auto
  qed
next
  let ?w = "\<lparr>swPending = [(''ab'', None), ([], None), (''c'', Some EOF)], swSent = [], swFaults = [False, True]\<rparr>"
  have g: "originIsGRPC grpcRequest" by code_simp
  have p: "swPending ?w = map (\<lambda>bs. (bs, None)) [''ab'', []] @ [(''c'', Some EOF)]" by simp
  from grpc_response_delivery [where rt = "\<lambda>q w. (Inr simResponse, w)" and canonical = id
      and pipe = "\<lambda>rw tr r w. w" and handler = "\<lambda>rw tr w. w",
      OF sim_stream.grpc_stream_axioms g refl p]
  obtain eo w' out where r: "grpcRun [False, True] = Some (Returned eo, w')" "swSent w' = out"
    "case eo of None \<Rightarrow> True | Some e \<Rightarrow> out = [] \<or> (\<exists>parts. out = SentHeaders (resStatus simResponse)
       (resHeader simResponse) # map SentData parts)"
    unfolding grpcRun_def by (fastforce split: option.splits)
  moreover have "map_option (\<lambda>x. fst x = Returned None) (grpcRun [False, True]) = Some False" by code_simp
  ultimately show "\<exists>e w'. grpcRun [False, True] = Some (Returned (Some e), w') \<and>
      SentTrailer ''grpc-status'' ''0'' \<notin> set (swSent w')"
    by (cases eo) auto
qed

end
