(* ===== verification/Triggers.thy ===== *)
theory Triggers
  imports WatchProps CliProps
begin

text \<open>
  Which events reconcile a Gateway or a GatewayClass: the predicates of internal/predicates and
  the tables of watches in \<^verbatim>\<open>SetupWithManager\<close> of gateway_manager.go and
  gatewayclass_manager.go.  The predicates of controller-runtime are parameters; its
  documented dispatch is \<open>eventMatches\<close> and \<open>eventRequests\<close>: the map function of a watch is
  applied to the object of a matching event, on an update to the old and the new one.
\<close>

section \<open>Events and predicates\<close>

datatype 'o watch_event = CreateEvent 'o | UpdateEvent 'o 'o | DeleteEvent 'o | GenericEvent 'o

record 'o predicate =
  pdCreate :: "'o \<Rightarrow> bool"
  pdUpdate :: "'o \<Rightarrow> 'o \<Rightarrow> bool"
  pdDelete :: "'o \<Rightarrow> bool"
  pdGeneric :: "'o \<Rightarrow> bool"

fun eventMatches :: "'o predicate \<Rightarrow> 'o watch_event \<Rightarrow> bool" where
  "eventMatches p (CreateEvent o') = pdCreate p o'"
| "eventMatches p (UpdateEvent old new) = pdUpdate p old new"
| "eventMatches p (DeleteEvent o') = pdDelete p o'"
| "eventMatches p (GenericEvent o') = pdGeneric p o'"

text \<open>\<^verbatim>\<open>Debug\<close> logs the events that match; the log is left out.\<close>

definition Debug :: "string \<Rightarrow> 'o predicate \<Rightarrow> 'o predicate" where
  "Debug source inner =
     \<lparr>pdCreate = \<lambda>o'. if pdCreate inner o' then True else False,
      pdUpdate = \<lambda>old new. if pdUpdate inner old new then True else False,
      pdDelete = \<lambda>o'. if pdDelete inner o' then True else False,
      pdGeneric = \<lambda>o'. if pdGeneric inner o' then True else False\<rparr>"

text \<open>A function that \<^verbatim>\<open>predicate.Funcs\<close> leaves out matches every event.\<close>

definition ConditionStatusChanged :: "string \<Rightarrow> ('o \<Rightarrow> condition list) \<Rightarrow> 'o predicate" where
  "ConditionStatusChanged t getConditions =
     \<lparr>pdCreate = \<lambda>o'. True,
      pdUpdate = \<lambda>old new. conditionStatusChanged t (getConditions old) (getConditions new),
      pdDelete = \<lambda>o'. True,
      pdGeneric = \<lambda>o'. True\<rparr>"

section \<open>The objects watched\<close>

text \<open>
  \<open>WOwned\<close> is an object of a kind without more than its key and the Gateway that controls it, if
  any; a Namespace is its labels, a CustomResourceDefinition its name and annotations.
\<close>

datatype watched =
    WGateway gateway
  | WOwned string namespaced_name "namespaced_name option"
  | WClass gateway_class
  | WHTTPRoute http_route
  | WGRPCRoute grpc_route
  | WGrant string reference_grant
  | WNamespace "string \<Rightarrow> string option"
  | WParams gateway_params
  | WCRD string "string \<Rightarrow> string option"

abbreviation KindGatewayClass :: string where "KindGatewayClass \<equiv> ''GatewayClass''"
abbreviation KindReferenceGrant :: string where "KindReferenceGrant \<equiv> ''ReferenceGrant''"
abbreviation KindNamespace :: string where "KindNamespace \<equiv> ''Namespace''"
abbreviation KindCRD :: string where "KindCRD \<equiv> ''CustomResourceDefinition''"

fun watchedKind :: "watched \<Rightarrow> string" where
  "watchedKind (WGateway gw) = KindGateway"
| "watchedKind (WOwned k key owner) = k"
| "watchedKind (WClass gc) = KindGatewayClass"
| "watchedKind (WHTTPRoute r) = KindHTTPRoute"
| "watchedKind (WGRPCRoute r) = KindGRPCRoute"
| "watchedKind (WGrant ns g) = KindReferenceGrant"
| "watchedKind (WNamespace labels) = KindNamespace"
| "watchedKind (WParams p) = KindParameters"
| "watchedKind (WCRD n annotations) = KindCRD"

text \<open>controller-runtime's predicates, and \<^verbatim>\<open>predicate.Or\<close>.\<close>

record library_predicates =
  lpGenerationChanged :: "watched predicate"
  lpAnnotationChanged :: "watched predicate"
  lpResourceVersionChanged :: "watched predicate"
  lpLabelChanged :: "watched predicate"
  lpOr :: "watched predicate \<Rightarrow> watched predicate \<Rightarrow> watched predicate"

text \<open>The indexed queries of the map functions.\<close>

record watch_queries =
  wqByClass :: "string \<Rightarrow> go_error + gateway list"
  wqByParams :: "string \<Rightarrow> string \<Rightarrow> go_error + gateway list"
  wqBySelector :: "string \<Rightarrow> go_error + gateway list"
  wqParseSelector :: "label_selector \<Rightarrow> go_error + ((string \<Rightarrow> string option) \<Rightarrow> bool)"
  wqHTTPBackend :: "string \<Rightarrow> go_error + http_route list"
  wqGRPCBackend :: "string \<Rightarrow> go_error + grpc_route list"
  wqClasses :: "string \<Rightarrow> string option \<Rightarrow> go_error + gateway_class list"

type_synonym watch = "string \<times> (watched \<Rightarrow> namespaced_name list) \<times> watched predicate"

fun eventRequests :: "(watched \<Rightarrow> namespaced_name list) \<Rightarrow> watched watch_event \<Rightarrow> namespaced_name list" where
  "eventRequests h (CreateEvent o') = h o'"
| "eventRequests h (UpdateEvent old new) = h old @ h new"
| "eventRequests h (DeleteEvent o') = h o'"
| "eventRequests h (GenericEvent o') = h o'"

fun eventKind :: "watched watch_event \<Rightarrow> string" where
  "eventKind (CreateEvent o') = watchedKind o'"
| "eventKind (UpdateEvent old new) = watchedKind new"
| "eventKind (DeleteEvent o') = watchedKind o'"
| "eventKind (GenericEvent o') = watchedKind o'"

definition watchRequests :: "watch list \<Rightarrow> watched watch_event \<Rightarrow> namespaced_name list" where
  "watchRequests ws ev =
     concat (map (\<lambda>(k, h, p). if k = eventKind ev \<and> eventMatches p ev then eventRequests h ev else []) ws)"

section \<open>The Gateway controller's watches\<close>

fun gatewayClassConditions :: "watched \<Rightarrow> condition list" where
  "gatewayClassConditions (WClass gc) = gcConditions gc"
| "gatewayClassConditions o' = []"

text \<open>The handlers: the object itself, its controller, and the map functions.\<close>

fun forGateway :: "watched \<Rightarrow> namespaced_name list" where
  "forGateway (WGateway gw) = [gatewayKey gw]"
| "forGateway o' = []"

fun forOwner :: "watched \<Rightarrow> namespaced_name list" where
  "forOwner (WOwned k key (Some gw)) = [gw]"
| "forOwner o' = []"

fun mapToGateway :: "watch_queries \<Rightarrow> watched \<Rightarrow> namespaced_name list" where
  "mapToGateway wq (WClass gc) = mapGatewayClassToGateway (wqByClass wq) gc"
| "mapToGateway wq (WHTTPRoute r) = mapHTTPRouteToGateway r"
| "mapToGateway wq (WGRPCRoute r) = mapGRPCRouteToGateway r"
| "mapToGateway wq (WGrant ns g) = mapReferenceGrantToGateway (wqHTTPBackend wq) (wqGRPCBackend wq) ns g"
| "mapToGateway wq (WNamespace labels) = mapNamespaceToGateway (wqBySelector wq) (wqParseSelector wq) labels"
| "mapToGateway wq (WParams p) = mapParametersToGateway (wqByParams wq) p"
| "mapToGateway wq o' = []"

definition gatewaySetup :: "library_predicates \<Rightarrow> watch_queries \<Rightarrow> watch list" where
  "gatewaySetup lp wq =
     (let owned = (\<lambda>k. (k, forOwner, Debug k (lpResourceVersionChanged lp)));
          mapped = (\<lambda>k p. (k, mapToGateway wq, Debug k p))
      in [(KindGateway, forGateway,
           Debug KindGateway (lpOr lp (lpGenerationChanged lp) (lpAnnotationChanged lp))),
          owned KindDeployment, owned KindServiceAccount, owned KindRole, owned KindRoleBinding,
          owned KindSecret, owned KindConfigMap,
          mapped KindGatewayClass (ConditionStatusChanged ConditionReady gatewayClassConditions),
          mapped KindHTTPRoute (lpGenerationChanged lp), mapped KindGRPCRoute (lpGenerationChanged lp),
          mapped KindReferenceGrant (lpGenerationChanged lp), mapped KindNamespace (lpLabelChanged lp),
          mapped KindParameters (lpGenerationChanged lp)])"

section \<open>The GatewayClass controller's watches\<close>

fun crdName :: "watched \<Rightarrow> string" where
  "crdName (WCRD n annotations) = n"
| "crdName o' = []"

fun crdAnnotations :: "watched \<Rightarrow> (string \<Rightarrow> string option)" where
  "crdAnnotations (WCRD n annotations) = annotations"
| "crdAnnotations o' = Map.empty"

definition gatewayClassCRDVersionChanged :: "watched predicate" where
  "gatewayClassCRDVersionChanged =
     \<lparr>pdCreate = \<lambda>o'. crdEventMatches (crdName o'),
      pdUpdate = \<lambda>old new. crdUpdateMatches (crdName new) (crdAnnotations old) (crdAnnotations new),
      pdDelete = \<lambda>o'. crdEventMatches (crdName o'),
      pdGeneric = \<lambda>o'. crdEventMatches (crdName o')\<rparr>"

fun forClass :: "watched \<Rightarrow> namespaced_name list" where
  "forClass (WClass gc) = [([], gcName gc)]"
| "forClass o' = []"

fun mapToClass :: "watch_queries \<Rightarrow> watched \<Rightarrow> namespaced_name list" where
  "mapToClass wq (WCRD n annotations) = managedGatewayClasses (wqClasses wq) False ([], n)"
| "mapToClass wq (WOwned k key owner) = managedGatewayClasses (wqClasses wq) True key"
| "mapToClass wq o' = []"

definition classSetup :: "library_predicates \<Rightarrow> watch_queries \<Rightarrow> watch list" where
  "classSetup lp wq =
     [(KindGatewayClass, forClass,
       Debug KindGatewayClass (lpOr lp (lpGenerationChanged lp) (lpAnnotationChanged lp))),
      (KindCRD, mapToClass wq, Debug KindCRD gatewayClassCRDVersionChanged),
      (KindSecret, mapToClass wq, Debug KindSecret (lpResourceVersionChanged lp))]"

section \<open>Lemmas\<close>

lemma eventMatches_Debug [simp]: "eventMatches (Debug s p) ev = eventMatches p ev"
  by (cases ev) (simp_all add: Debug_def)

text \<open>Events on a class: only its own watch matches.\<close>

lemma watchRequests_class:
  assumes "eventKind ev = KindGatewayClass"
  shows "watchRequests (gatewaySetup lp wq) ev =
     (if eventMatches (ConditionStatusChanged ConditionReady gatewayClassConditions) ev
      then eventRequests (mapToGateway wq) ev else [])"
  using assms by (simp add: watchRequests_def gatewaySetup_def Let_def)

lemma mapGatewayClass_mem:
  assumes "gw \<in> set gws" and "inj_on gatewayKey (set gws)"
  shows "gatewayKey gw \<in> set (mapGatewayClassToGateway (\<lambda>n. Inr (listedBy gatewayClassNameIndex gws n)) gc)
     \<longleftrightarrow> gwClassName gw = gcName gc"
proof -
  have "gatewayKey gw \<in> gatewayKey ` {g \<in> set gws. gwClassName g = gcName gc} \<longleftrightarrow> gwClassName gw = gcName gc"
    using assms by (auto dest: inj_onD)
  then show ?thesis
    by (simp add: mapGatewayClassToGateway_def listedBy_def gatewayClassNameIndex_def eq_commute)
qed

section \<open>The property\<close>

text \<open>
  C39. A Gateway that waits for its class is woken.  A reconciliation of a Gateway whose class is
  not ready ends without an error and without a requeue, so it rests on the watches alone: an
  update of the class requests the Gateway exactly when the status of its Ready condition
  changes, and so when it becomes ready; the creation and the deletion of the class request it
  as well.  Other changes of the class, of its parametersRef for one, request no Gateway.
\<close>

theorem class_readiness_wakes:
  assumes "clGetGateway (enCluster en) (gatewayKey gw) w = (Inr gw, w1)"
    and "clGetClass (enCluster en) (gwClassName gw) w1 = (Inr gc, w2)"
    and "gcControllerName gc = ControllerName" and "\<not> gwDeleted gw" and "Finalizer \<in> set (gwFinalizers gw)"
    and "conditionStatus (gcConditions gc) ConditionReady \<noteq> ConditionTrue"
    and "gw \<in> set gws" and "inj_on gatewayKey (set gws)"
    and "wqByClass wq = (\<lambda>n. Inr (listedBy gatewayClassNameIndex gws n))"
    and "gcName old = gwClassName gw" and "gcName new = gwClassName gw"
  shows "Reconcile en (gatewayKey gw) w = Some ((0, None), w2) \<and>
    (gatewayKey gw \<in> set (watchRequests (gatewaySetup lp wq) (UpdateEvent (WClass old) (WClass new))) \<longleftrightarrow>
       conditionStatus (gcConditions old) ConditionReady \<noteq> conditionStatus (gcConditions new) ConditionReady) \<and>
    gatewayKey gw \<in> set (watchRequests (gatewaySetup lp wq) (CreateEvent (WClass new))) \<and>
    gatewayKey gw \<in> set (watchRequests (gatewaySetup lp wq) (DeleteEvent (WClass old)))"
proof (intro conjI)
  have "case condFind (gcConditions gc) ConditionReady of None \<Rightarrow> True | Some c \<Rightarrow> condStatus c \<noteq> ConditionTrue"
    using assms(6) by (simp add: conditionStatus_find split: option.splits)
  then show "Reconcile en (gatewayKey gw) w = Some ((0, None), w2)"
    using assms(1-5) by (auto simp: Reconcile_def Let_def split: option.splits)
  note m = mapGatewayClass_mem [OF assms(7,8)] assms(9-11)
  show "gatewayKey gw \<in> set (watchRequests (gatewaySetup lp wq) (UpdateEvent (WClass old) (WClass new))) \<longleftrightarrow>
       conditionStatus (gcConditions old) ConditionReady \<noteq> conditionStatus (gcConditions new) ConditionReady"
    by (simp add: watchRequests_class ConditionStatusChanged_def conditionStatusChanged_def m)
  show "gatewayKey gw \<in> set (watchRequests (gatewaySetup lp wq) (CreateEvent (WClass new)))"
    "gatewayKey gw \<in> set (watchRequests (gatewaySetup lp wq) (DeleteEvent (WClass old)))"
    by (simp_all add: watchRequests_class ConditionStatusChanged_def m)
qed

text \<open>A Gateway of a class without conditions, which then becomes ready.\<close>

definition waitingGateway :: gateway where
  "waitingGateway = (namedGateway ''ns'' ''gw'')\<lparr>gwClassName := ''cloudflare'', gwFinalizers := [Finalizer]\<rparr>"

definition waitingEnv :: "cli_world env" where
  "waitingEnv = idleEnv (cliKube\<lparr>clGetClass := \<lambda>n w. (Inr finClass, w)\<rparr>)"

definition readyClass :: gateway_class where
  "readyClass = finClass\<lparr>gcConditions := [\<lparr>condType = ConditionReady, condStatus = ConditionTrue,
     condObservedGeneration = 1, condLastTransitionTime = 0, condReason = ''R'', condMessage = ''m''\<rparr>]\<rparr>"

text \<open>Predicates of the library that let every event pass.\<close>

definition demoPredicates :: library_predicates where
  "demoPredicates =
     (let p = \<lparr>pdCreate = (\<lambda>o'. True), pdUpdate = (\<lambda>old new. True), pdDelete = (\<lambda>o'. True),
                pdGeneric = (\<lambda>o'. True)\<rparr>
      in \<lparr>lpGenerationChanged = p, lpAnnotationChanged = p, lpResourceVersionChanged = p, lpLabelChanged = p,
          lpOr = (\<lambda>a b. a)\<rparr>)"

theorem class_readiness_wakes_witness:
  "Reconcile waitingEnv (''ns'', ''gw'') (waitingGateway, demoStatus) =
     Some ((0, None), (waitingGateway, demoStatus)) \<and>
   (''ns'', ''gw'') \<in> set (watchRequests (gatewaySetup demoPredicates
      \<lparr>wqByClass = \<lambda>n. Inr (listedBy gatewayClassNameIndex [waitingGateway] n),
       wqByParams = \<lambda>n m. Inr [], wqBySelector = \<lambda>n. Inr [], wqParseSelector = \<lambda>s. Inl finNotFound,
       wqHTTPBackend = \<lambda>n. Inr [], wqGRPCBackend = \<lambda>n. Inr [], wqClasses = \<lambda>n s. Inr []\<rparr>)
      (UpdateEvent (WClass finClass) (WClass readyClass)))"
proof -
  let ?wq = "\<lparr>wqByClass = \<lambda>n. Inr (listedBy gatewayClassNameIndex [waitingGateway] n),
       wqByParams = \<lambda>n m. Inr [], wqBySelector = \<lambda>n. Inr [], wqParseSelector = \<lambda>s. Inl finNotFound,
       wqHTTPBackend = \<lambda>n. Inr [], wqGRPCBackend = \<lambda>n. Inr [], wqClasses = \<lambda>n s. Inr []\<rparr>"
  have key: "gatewayKey waitingGateway = (''ns'', ''gw'')"
    by (simp add: gatewayKey_def waitingGateway_def namedGateway_def)
  have e: "clGetGateway (enCluster waitingEnv) (gatewayKey waitingGateway) (waitingGateway, demoStatus) =
      (Inr waitingGateway, (waitingGateway, demoStatus))"
    "clGetClass (enCluster waitingEnv) (gwClassName waitingGateway) (waitingGateway, demoStatus) =
      (Inr finClass, (waitingGateway, demoStatus))"
    by (simp_all add: waitingEnv_def idleEnv_def cliKube_def)
  have c: "gcControllerName finClass = ControllerName" "\<not> gwDeleted waitingGateway"
    "Finalizer \<in> set (gwFinalizers waitingGateway)" "conditionStatus (gcConditions finClass) ConditionReady \<noteq> ConditionTrue"
    "gcName finClass = gwClassName waitingGateway" "gcName readyClass = gwClassName waitingGateway"
    "conditionStatus (gcConditions readyClass) ConditionReady = ConditionTrue"
    by (simp_all add: finClass_def readyClass_def waitingGateway_def namedGateway_def)
  from class_readiness_wakes [OF e c(1-4), of "[waitingGateway]" ?wq finClass readyClass demoPredicates] key c
  show ?thesis by simp
qed

end
