(* ===== verification/Load.thy ===== *)
theory Load
  imports GoErrors Complex_Main "HOL-Library.Multiset"
begin

text \<open>
  The load test of cfgwctl (cmd/cfgwctl/test_load.go): sending the requests, the success rate,
  and the checks of the distribution over weighted backends and over pods.  A \<^verbatim>\<open>float64\<close> is a
  rational number, an infinity or NaN; rounding and the square root are parameters, as are the
  requests, the Kubernetes client and the JSON decoder.  Printing is left out.  The two zeros of
  \<^verbatim>\<open>float64\<close> are one: the command divides by counts and means only, which are not negative zeros.
\<close>

section \<open>Floating point\<close>

datatype float64 = NaN | PosInf | NegInf | Finite rat

record float_env =
  feRound :: "rat \<Rightarrow> float64"
  feSqrt :: "rat \<Rightarrow> float64"
  feFormat :: "nat \<Rightarrow> float64 \<Rightarrow> string"

fun fSgn :: "float64 \<Rightarrow> rat" where
  "fSgn NaN = 0"
| "fSgn PosInf = 1"
| "fSgn NegInf = - 1"
| "fSgn (Finite x) = sgn x"

definition fInf :: "rat \<Rightarrow> float64" where
  "fInf s = (if s = 0 then NaN else if s > 0 then PosInf else NegInf)"

fun fNeg :: "float64 \<Rightarrow> float64" where
  "fNeg NaN = NaN"
| "fNeg PosInf = NegInf"
| "fNeg NegInf = PosInf"
| "fNeg (Finite x) = Finite (- x)"

fun fAdd :: "float_env \<Rightarrow> float64 \<Rightarrow> float64 \<Rightarrow> float64" where
  "fAdd fe (Finite x) (Finite y) = feRound fe (x + y)"
| "fAdd fe (Finite x) b = b"
| "fAdd fe a (Finite y) = a"
| "fAdd fe a b = (if a = b then a else NaN)"

definition fSub :: "float_env \<Rightarrow> float64 \<Rightarrow> float64 \<Rightarrow> float64" where
  "fSub fe a b = fAdd fe a (fNeg b)"

fun fMul :: "float_env \<Rightarrow> float64 \<Rightarrow> float64 \<Rightarrow> float64" where
  "fMul fe (Finite x) (Finite y) = feRound fe (x * y)"
| "fMul fe a b = fInf (fSgn a * fSgn b)"

fun fDiv :: "float_env \<Rightarrow> float64 \<Rightarrow> float64 \<Rightarrow> float64" where
  "fDiv fe (Finite x) (Finite y) = (if y = 0 then fInf (sgn x) else feRound fe (x / y))"
| "fDiv fe (Finite x) NaN = NaN"
| "fDiv fe (Finite x) b = Finite 0"
| "fDiv fe a (Finite y) = (if y = 0 then a else fInf (fSgn a * sgn y))"
| "fDiv fe a b = NaN"

fun fSqrt :: "float_env \<Rightarrow> float64 \<Rightarrow> float64" where
  "fSqrt fe (Finite x) = (if x < 0 then NaN else feSqrt fe x)"
| "fSqrt fe NegInf = NaN"
| "fSqrt fe a = a"

fun fAbs :: "float64 \<Rightarrow> float64" where
  "fAbs (Finite x) = Finite \<bar>x\<bar>"
| "fAbs NegInf = PosInf"
| "fAbs a = a"

text \<open>Every comparison with NaN is false.\<close>

fun fLess :: "float64 \<Rightarrow> float64 \<Rightarrow> bool" where
  "fLess (Finite x) (Finite y) = (x < y)"
| "fLess (Finite x) b = (b = PosInf)"
| "fLess NegInf b = (b \<noteq> NaN \<and> b \<noteq> NegInf)"
| "fLess a b = False"

text \<open>\<^verbatim>\<open>float64(n)\<close>, and \<^verbatim>\<open>x*100\<close> in a message.\<close>

definition fOfInt :: "float_env \<Rightarrow> int \<Rightarrow> float64" where
  "fOfInt fe i = feRound fe (of_int i)"

definition fPercent :: "float_env \<Rightarrow> nat \<Rightarrow> float64 \<Rightarrow> string" where
  "fPercent fe d x = feFormat fe d (fMul fe x (Finite 100)) @ ''%''"

section \<open>Sending the requests\<close>

text \<open>
  The answer to a request: an error, or the status and the host of the body, \<open>None\<close> when it does
  not decode.  The workers run concurrently, but each counter is atomic and each answer is
  counted on its own, so the counters depend on the answers alone (\<open>tally_mset\<close> below).
\<close>

type_synonym load_answer = "go_error + (int \<times> string option)"

record load_tally =
  ltOK2xx :: int
  ltErr5xx :: int
  ltOther :: int
  ltHostErrs :: int
  ltTotal :: int

definition status2xx :: "int \<Rightarrow> bool" where
  "status2xx s \<longleftrightarrow> 200 \<le> s \<and> s < 300"

definition sendOne :: "string \<Rightarrow> load_answer \<Rightarrow> load_tally \<Rightarrow> load_tally" where
  "sendOne hostname ans t0 =
     (let t1 = t0\<lparr>ltTotal := ltTotal t0 + 1\<rparr>
      in case ans of
           Inl err \<Rightarrow> t1\<lparr>ltOther := ltOther t1 + 1\<rparr>
         | Inr (s, body) \<Rightarrow>
             (let t2 = (if hostname \<noteq> [] \<and> status2xx s
                        then (case body of
                                None \<Rightarrow> t1
                              | Some h \<Rightarrow> if h \<noteq> hostname then t1\<lparr>ltHostErrs := ltHostErrs t1 + 1\<rparr> else t1)
                        else t1)
              in if status2xx s then t2\<lparr>ltOK2xx := ltOK2xx t2 + 1\<rparr>
                 else if s \<ge> 500 then t2\<lparr>ltErr5xx := ltErr5xx t2 + 1\<rparr>
                 else t2\<lparr>ltOther := ltOther t2 + 1\<rparr>))"

definition noTally :: load_tally where
  "noTally = \<lparr>ltOK2xx = 0, ltErr5xx = 0, ltOther = 0, ltHostErrs = 0, ltTotal = 0\<rparr>"

definition tallyOf :: "string \<Rightarrow> load_answer list \<Rightarrow> load_tally" where
  "tallyOf hostname answers = fold (sendOne hostname) answers noTally"

text \<open>
  How many requests are sent: with a duration, as many as the workers manage until the context
  is done (\<open>managed\<close>), otherwise the requested ones; none without a worker.  \<open>None\<close>: \<^verbatim>\<open>make\<close> of a
  channel of negative size panics.
\<close>

definition requestsSent :: "int \<Rightarrow> int \<Rightarrow> int \<Rightarrow> nat \<Rightarrow> nat option" where
  "requestsSent duration requests concurrency managed =
     (if duration > 0 then Some (if concurrency > 0 then managed else 0)
      else if requests < 0 then None
      else Some (if concurrency > 0 then nat requests else 0))"

definition successRate :: "float_env \<Rightarrow> load_tally \<Rightarrow> float64" where
  "successRate fe t = fDiv fe (fOfInt fe (ltOK2xx t)) (fOfInt fe (ltTotal t))"

definition rateError :: "float_env \<Rightarrow> float64 \<Rightarrow> load_tally \<Rightarrow> go_error" where
  "rateError fe minRate t =
     ErrText (''success rate '' @ fPercent fe 5 (successRate fe t) @ '' below minimum '' @ fPercent fe 5 minRate
       @ '' ('' @ showInt (ltOK2xx t) @ ''/'' @ showInt (ltTotal t) @ '', 5xx: '' @ showInt (ltErr5xx t)
       @ '', other: '' @ showInt (ltOther t) @ '')'')"

section \<open>The Kubernetes client\<close>

text \<open>Listing the names of the pods of a selector, and the raw answer of a pod's proxy to \<^verbatim>\<open>_count\<close>.\<close>

record 'w pods_api =
  paListPods :: "string \<Rightarrow> string \<Rightarrow> 'w \<Rightarrow> (go_error + string list) \<times> 'w"
  paProxyGet :: "string \<Rightarrow> string \<Rightarrow> 'w \<Rightarrow> (go_error + string) \<times> 'w"

text \<open>
  \<open>clientConfig\<close> loads the configuration, from the named file if one is given; \<open>newForConfig\<close> and
  \<open>decodeCount\<close> are the constructor of the client and the JSON decoder.
\<close>

record ('c, 'w) load_env =
  leFloat :: float_env
  leClientConfig :: "string option \<Rightarrow> go_error + 'c"
  leNewForConfig :: "'c \<Rightarrow> go_error + 'w pods_api"
  leDecodeCount :: "string \<Rightarrow> go_error + int"

definition buildClientset :: "('c, 'w) load_env \<Rightarrow> string \<Rightarrow> go_error + 'w pods_api" where
  "buildClientset le kubeconfig =
     (case leClientConfig le (if kubeconfig \<noteq> [] then Some kubeconfig else None) of
        Inl err \<Rightarrow> Inl (ErrWrap ''loading kubeconfig: '' err)
      | Inr config \<Rightarrow>
          (case leNewForConfig le config of
             Inl err \<Rightarrow> Inl (ErrWrap ''creating kubernetes client: '' err)
           | Inr clientset \<Rightarrow> Inr clientset))"

definition getPodCount ::
  "('c, 'w) load_env \<Rightarrow> 'w pods_api \<Rightarrow> string \<Rightarrow> string \<Rightarrow> int \<Rightarrow> 'w \<Rightarrow> (go_error + int) \<times> 'w" where
  "getPodCount le api namespace podName port w =
     (case paProxyGet api namespace (podName @ '':'' @ showInt port) w of
        (Inl err, w1) \<Rightarrow> (Inl (ErrWrap ''proxy request: '' err), w1)
      | (Inr raw, w1) \<Rightarrow>
          (case leDecodeCount le raw of
             Inl err \<Rightarrow> (Inl (ErrWrap ''parsing response: '' err), w1)
           | Inr c \<Rightarrow> (Inr c, w1)))"

text \<open>The loop over the pods, the same in both checks: the counts in the order of the pods.\<close>

fun podCountsLoop ::
  "('c, 'w) load_env \<Rightarrow> 'w pods_api \<Rightarrow> string \<Rightarrow> int \<Rightarrow> string list \<Rightarrow> 'w
     \<Rightarrow> (go_error + (string \<times> int) list) \<times> 'w" where
  "podCountsLoop le api namespace port [] w = (Inr [], w)"
| "podCountsLoop le api namespace port (pod # pods) w =
     (case getPodCount le api namespace pod port w of
        (Inl err, w1) \<Rightarrow> (Inl (ErrWrap (''getting count from pod '' @ pod @ '': '') err), w1)
      | (Inr c, w1) \<Rightarrow>
          (case podCountsLoop le api namespace port pods w1 of
             (Inl err, w2) \<Rightarrow> (Inl err, w2)
           | (Inr cs, w2) \<Rightarrow> (Inr ((pod, c) # cs), w2)))"

text \<open>\<^verbatim>\<open>int64\<close> and \<^verbatim>\<open>int\<close> sums wrap.\<close>

definition sumWrap :: "int list \<Rightarrow> int" where
  "sumWrap xs = foldl (\<lambda>acc x. wrap64 (acc + x)) 0 xs"

definition noPods :: "string \<Rightarrow> string \<Rightarrow> go_error" where
  "noPods selector namespace =
     ErrText (''no pods found matching selector '' @ goQuote selector @ '' in namespace '' @ goQuote namespace)"

section \<open>The weighted distribution\<close>

record backend_spec =
  bsSelector :: string
  bsWeight :: int

text \<open>The error of \<^verbatim>\<open>strconv.Atoi\<close>: out of range when the number is well formed.\<close>

definition atoiError :: "string \<Rightarrow> go_error" where
  "atoiError s =
     ErrText (''strconv.Atoi: parsing '' @ goQuote s @ '': ''
       @ (case parseSign s of (neg, ds) \<Rightarrow>
            if ds = [] \<or> \<not> list_all isDigit ds then ''invalid syntax'' else ''value out of range''))"

definition parseBackendFlag :: "string \<Rightarrow> go_error + backend_spec" where
  "parseBackendFlag s =
     (if CHR '':'' \<notin> set s
      then Inl (ErrText (''invalid --backend '' @ goQuote s @ '': expected selector:weight''))
      else
        (let sel = beforeLast (CHR '':'') s; digits = drop (length sel + 1) s
         in case parseInt64 digits of
              None \<Rightarrow> Inl (ErrWrap (''invalid weight in --backend '' @ goQuote s @ '': '') (atoiError digits))
            | Some w \<Rightarrow>
                if w < 0 then Inl (ErrText (''negative weight in --backend '' @ goQuote s))
                else Inr \<lparr>bsSelector = sel, bsWeight = w\<rparr>))"

fun parseBackendFlags :: "string list \<Rightarrow> go_error + backend_spec list" where
  "parseBackendFlags [] = Inr []"
| "parseBackendFlags (b # bs) =
     (case parseBackendFlag b of
        Inl err \<Rightarrow> Inl err
      | Inr spec \<Rightarrow>
          (case parseBackendFlags bs of Inl err \<Rightarrow> Inl err | Inr specs \<Rightarrow> Inr (spec # specs)))"

text \<open>The count of each group of pods.\<close>

fun groupLoop ::
  "('c, 'w) load_env \<Rightarrow> 'w pods_api \<Rightarrow> string \<Rightarrow> int \<Rightarrow> backend_spec list \<Rightarrow> 'w
     \<Rightarrow> (go_error + (backend_spec \<times> int) list) \<times> 'w" where
  "groupLoop le api namespace port [] w = (Inr [], w)"
| "groupLoop le api namespace port (spec # specs) w =
     (case paListPods api namespace (bsSelector spec) w of
        (Inl err, w1) \<Rightarrow>
          (Inl (ErrWrap (''listing pods for selector '' @ goQuote (bsSelector spec) @ '': '') err), w1)
      | (Inr pods, w1) \<Rightarrow>
          if pods = [] then (Inl (noPods (bsSelector spec) namespace), w1)
          else
            (case podCountsLoop le api namespace port pods w1 of
               (Inl err, w2) \<Rightarrow> (Inl err, w2)
             | (Inr cs, w2) \<Rightarrow>
                 (case groupLoop le api namespace port specs w2 of
                    (Inl err, w3) \<Rightarrow> (Inl err, w3)
                  | (Inr rs, w3) \<Rightarrow> (Inr ((spec, sumWrap (map snd cs)) # rs), w3))))"

definition actualShare :: "float_env \<Rightarrow> int \<Rightarrow> int \<Rightarrow> float64" where
  "actualShare fe c totalCount = fDiv fe (fOfInt fe c) (fOfInt fe totalCount)"

definition expectedShare :: "float_env \<Rightarrow> backend_spec \<Rightarrow> int \<Rightarrow> float64" where
  "expectedShare fe spec totalWeight = fDiv fe (fOfInt fe (bsWeight spec)) (fOfInt fe totalWeight)"

definition deviation :: "float_env \<Rightarrow> int \<Rightarrow> int \<Rightarrow> backend_spec \<Rightarrow> int \<Rightarrow> float64" where
  "deviation fe totalWeight totalCount spec c =
     fAbs (fSub fe (actualShare fe c totalCount) (expectedShare fe spec totalWeight))"

fun toleranceLoop ::
  "float_env \<Rightarrow> int \<Rightarrow> int \<Rightarrow> float64 \<Rightarrow> (backend_spec \<times> int) list \<Rightarrow> go_error option" where
  "toleranceLoop fe totalWeight totalCount tolerance [] = None"
| "toleranceLoop fe totalWeight totalCount tolerance ((spec, c) # rs) =
     (if bsWeight spec > 0 \<and> c = 0
      then Some (ErrText (''backend '' @ goQuote (bsSelector spec) @ '' (weight '' @ showInt (bsWeight spec)
             @ '') received 0 requests''))
      else if fLess tolerance (deviation fe totalWeight totalCount spec c)
      then Some (ErrText (''backend '' @ goQuote (bsSelector spec) @ '': actual share ''
             @ fPercent fe 1 (actualShare fe c totalCount) @ '' deviates ''
             @ fPercent fe 1 (deviation fe totalWeight totalCount spec c) @ '' from expected ''
             @ fPercent fe 1 (expectedShare fe spec totalWeight) @ '' (max tolerance ''
             @ fPercent fe 1 tolerance @ '')''))
      else toleranceLoop fe totalWeight totalCount tolerance rs)"

definition checkWeightedDistribution ::
  "('c, 'w) load_env \<Rightarrow> string \<Rightarrow> string list \<Rightarrow> int \<Rightarrow> float64 \<Rightarrow> string \<Rightarrow> 'w \<Rightarrow> go_error option \<times> 'w" where
  "checkWeightedDistribution le namespace backendFlags podPort tolerance kubeconfig w =
     (if namespace = [] then (Some (ErrText ''--namespace is required when using --backend''), w)
      else
        (case parseBackendFlags backendFlags of
           Inl err \<Rightarrow> (Some err, w)
         | Inr specs \<Rightarrow>
             (let totalWeight = sumWrap (map bsWeight specs)
              in if totalWeight = 0 then (Some (ErrText ''total weight must be > 0''), w)
                 else
                   (case buildClientset le kubeconfig of
                      Inl err \<Rightarrow> (Some err, w)
                    | Inr api \<Rightarrow>
                        (case groupLoop le api namespace podPort specs w of
                           (Inl err, w1) \<Rightarrow> (Some err, w1)
                         | (Inr results, w1) \<Rightarrow>
                             (toleranceLoop (leFloat le) totalWeight (sumWrap (map snd results)) tolerance results,
                              w1))))))"

section \<open>The even distribution\<close>

fun varianceLoop :: "float_env \<Rightarrow> float64 \<Rightarrow> int list \<Rightarrow> float64 \<Rightarrow> float64" where
  "varianceLoop fe mean [] acc = acc"
| "varianceLoop fe mean (c # cs) acc =
     (let diff = fSub fe (fOfInt fe c) mean
      in varianceLoop fe mean cs (fAdd fe acc (fMul fe diff diff)))"

definition variation :: "float_env \<Rightarrow> int list \<Rightarrow> float64" where
  "variation fe counts =
     (let len = fOfInt fe (int (length counts));
          mean = fDiv fe (fOfInt fe (sumWrap counts)) len;
          stddev = fSqrt fe (fDiv fe (varianceLoop fe mean counts (Finite 0)) len)
      in fDiv fe stddev mean)"

definition checkEvenDistribution ::
  "('c, 'w) load_env \<Rightarrow> string \<Rightarrow> string \<Rightarrow> int \<Rightarrow> float64 \<Rightarrow> string \<Rightarrow> 'w \<Rightarrow> go_error option \<times> 'w" where
  "checkEvenDistribution le namespace labelSelector podPort maxCV kubeconfig w =
     (if namespace = [] \<or> labelSelector = [] then (None, w)
      else
        (case buildClientset le kubeconfig of
           Inl err \<Rightarrow> (Some err, w)
         | Inr api \<Rightarrow>
             (case paListPods api namespace labelSelector w of
                (Inl err, w1) \<Rightarrow> (Some (ErrWrap ''listing pods: '' err), w1)
              | (Inr pods, w1) \<Rightarrow>
                  if pods = [] then (Some (noPods labelSelector namespace), w1)
                  else
                    (case podCountsLoop le api namespace podPort pods w1 of
                       (Inl err, w2) \<Rightarrow> (Some err, w2)
                     | (Inr counts, w2) \<Rightarrow>
                         (let fe = leFloat le; cv = variation fe (map snd counts)
                          in case find (\<lambda>pc. snd pc = 0) counts of
                               Some pc \<Rightarrow> (Some (ErrText (''pod '' @ fst pc @ '' received 0 requests'')), w2)
                             | None \<Rightarrow>
                                 if fLess maxCV cv
                                 then (Some (ErrText (''coefficient of variation '' @ feFormat fe 3 cv
                                        @ '' exceeds max '' @ feFormat fe 3 maxCV)), w2)
                                 else (None, w2))))))"

section \<open>The command\<close>

record load_flags =
  lfRequests :: int
  lfDuration :: int
  lfConcurrency :: int
  lfNamespace :: string
  lfLabelSelector :: string
  lfPodPort :: int
  lfMaxCV :: float64
  lfKubeconfig :: string
  lfBackends :: "string list"
  lfTolerance :: float64
  lfHostname :: string
  lfMinSuccessRate :: float64

text \<open>
  \<open>answer i\<close> is the answer counted in place \<open>i\<close>.  \<open>None\<close>: the command panics.
\<close>

definition testLoad ::
  "('c, 'w) load_env \<Rightarrow> load_flags \<Rightarrow> nat \<Rightarrow> (nat \<Rightarrow> load_answer) \<Rightarrow> 'w \<Rightarrow> (go_error option \<times> 'w) option" where
  "testLoad le fl managed answer w =
     (case requestsSent (lfDuration fl) (lfRequests fl) (lfConcurrency fl) managed of
        None \<Rightarrow> None
      | Some sent \<Rightarrow>
          (let t = tallyOf (lfHostname fl) (map answer [0..<sent])
           in if fLess (successRate (leFloat le) t) (lfMinSuccessRate fl)
              then Some (Some (rateError (leFloat le) (lfMinSuccessRate fl) t), w)
              else if lfHostname fl \<noteq> [] \<and> ltHostErrs t > 0
              then Some (Some (ErrText (showInt (ltHostErrs t) @ '' responses had incorrect host (expected ''
                     @ goQuote (lfHostname fl) @ '')'')), w)
              else if length (lfBackends fl) > 0
              then Some (checkWeightedDistribution le (lfNamespace fl) (lfBackends fl) (lfPodPort fl)
                     (lfTolerance fl) (lfKubeconfig fl) w)
              else Some (checkEvenDistribution le (lfNamespace fl) (lfLabelSelector fl) (lfPodPort fl)
                     (lfMaxCV fl) (lfKubeconfig fl) w)))"

section \<open>Lemmas on the tally\<close>

definition answered2xx :: "load_answer \<Rightarrow> bool" where
  "answered2xx a = (case a of Inl err \<Rightarrow> False | Inr (s, body) \<Rightarrow> status2xx s)"

definition otherHost :: "string \<Rightarrow> load_answer \<Rightarrow> bool" where
  "otherHost hostname a =
     (case a of Inr (s, Some h) \<Rightarrow> hostname \<noteq> [] \<and> status2xx s \<and> h \<noteq> hostname | _ \<Rightarrow> False)"

definition answered5xx :: "load_answer \<Rightarrow> bool" where
  "answered5xx a = (case a of Inl err \<Rightarrow> False | Inr (s, body) \<Rightarrow> s \<ge> 500)"

text \<open>What one answer adds to each counter.\<close>

lemma sendOne_adds:
  "sendOne h a t =
     \<lparr>ltOK2xx = ltOK2xx t + of_bool (answered2xx a), ltErr5xx = ltErr5xx t + of_bool (answered5xx a),
      ltOther = ltOther t + of_bool (\<not> answered2xx a \<and> \<not> answered5xx a),
      ltHostErrs = ltHostErrs t + of_bool (otherHost h a), ltTotal = ltTotal t + 1\<rparr>"
proof (cases a)
  case (Inl err)
  then show ?thesis by (simp add: sendOne_def answered2xx_def answered5xx_def otherHost_def)
next
  case (Inr sb)
  obtain s body where "sb = (s, body)" by (rule prod.exhaust)
  moreover have "status2xx s \<Longrightarrow> \<not> 500 \<le> s" by (simp add: status2xx_def)
  ultimately show ?thesis using Inr
    by (cases body; cases "status2xx s"; cases "500 \<le> s")
      (simp_all add: sendOne_def answered2xx_def answered5xx_def otherHost_def Let_def)
qed

lemma two_kinds: "answered2xx a \<Longrightarrow> \<not> answered5xx a"
  by (auto simp: answered2xx_def answered5xx_def status2xx_def split: sum.splits)

definition countOf :: "(load_answer \<Rightarrow> bool) \<Rightarrow> load_answer list \<Rightarrow> int" where
  "countOf P xs = int (length (filter P xs))"

lemma countOf_Cons: "countOf P (a # xs) = of_bool (P a) + countOf P xs"
  by (simp add: countOf_def)

lemma fold_sendOne:
  "fold (sendOne h) xs t =
     \<lparr>ltOK2xx = ltOK2xx t + countOf answered2xx xs, ltErr5xx = ltErr5xx t + countOf answered5xx xs,
      ltOther = ltOther t + countOf (\<lambda>a. \<not> answered2xx a \<and> \<not> answered5xx a) xs,
      ltHostErrs = ltHostErrs t + countOf (otherHost h) xs, ltTotal = ltTotal t + countOf (\<lambda>a. True) xs\<rparr>"
proof (induction xs arbitrary: t)
  case Nil
  then show ?case by (simp add: countOf_def)
next
  case (Cons a xs)
  show ?case
    unfolding fold_simps o_apply Cons.IH unfolding sendOne_adds load_tally.select_convs countOf_Cons of_bool_eq
    by (simp only: add.assoc)
qed

text \<open>The order in which the workers count does not matter: the counters are counts.\<close>

lemma tallyOf_counts:
  "tallyOf h xs =
     \<lparr>ltOK2xx = countOf answered2xx xs, ltErr5xx = countOf answered5xx xs,
      ltOther = countOf (\<lambda>a. \<not> answered2xx a \<and> \<not> answered5xx a) xs,
      ltHostErrs = countOf (otherHost h) xs, ltTotal = int (length xs)\<rparr>"
  by (simp only: tallyOf_def fold_sendOne noTally_def load_tally.select_convs add_0 countOf_def filter_True)
     simp

lemma tally_mset:
  assumes "mset xs = mset ys"
  shows "tallyOf h xs = tallyOf h ys"
proof -
  have "countOf P xs = countOf P ys" for P
    unfolding countOf_def by (metis assms mset_filter size_mset)
  moreover have "length xs = length ys" using assms by (rule mset_eq_length)
  ultimately show ?thesis by (simp only: tallyOf_counts)
qed

section \<open>The success rate\<close>

text \<open>
  What the rounding of \<^verbatim>\<open>float64\<close> promises where the rate needs it: integers of up to 53 bits and
  the largest number below 1 are exact, and rounding is monotone.
\<close>

definition ieeeRounding :: "(rat \<Rightarrow> float64) \<Rightarrow> bool" where
  "ieeeRounding rnd \<longleftrightarrow>
     (\<forall>i. \<bar>i\<bar> \<le> 2 ^ 53 \<longrightarrow> rnd (of_int i) = Finite (of_int i)) \<and>
     rnd (1 - 1 / 2 ^ 53) = Finite (1 - 1 / 2 ^ 53) \<and>
     (\<forall>x y. x \<le> y \<longrightarrow> \<not> fLess (rnd y) (rnd x) \<and> rnd x \<noteq> NaN)"

text \<open>
  The default threshold, 100%, is exact: below \<open>2 ^ 53\<close> requests the rate is below 1 exactly when
  some answer is not 2xx; no request at all gives NaN, which is not below anything.
\<close>

lemma rate_below_one:
  assumes "ieeeRounding (feRound fe)" and "length xs < 2 ^ 53"
  shows "fLess (successRate fe (tallyOf h xs)) (Finite 1) \<longleftrightarrow> (\<exists>a\<in>set xs. \<not> answered2xx a)"
proof -
  let ?k = "length (filter answered2xx xs)" and ?n = "length xs"
  let ?top = "1 - 1 / 2 ^ 53 :: rat"
  have le: "?k \<le> ?n" by (rule length_filter_le)
  have exact: "fOfInt fe (int m) = Finite (of_nat m)" if "m \<le> ?n" for m
  proof -
    from that assms(2) have "int m < 2 ^ 53"
      by (metis le_less_trans of_nat_less_iff of_nat_numeral of_nat_power)
    then have "\<bar>int m\<bar> \<le> 2 ^ 53" by simp
    then have "feRound fe (of_int (int m)) = Finite (of_int (int m))"
      using assms(1) unfolding ieeeRounding_def by blast
    then show ?thesis by (simp add: fOfInt_def)
  qed
  have all: "?k = ?n \<longleftrightarrow> (\<forall>a\<in>set xs. answered2xx a)"
    by (metis filter_True length_filter_less nat_neq_iff)
  have rate: "successRate fe (tallyOf h xs) =
      (if ?n = 0 then NaN else feRound fe (of_nat ?k / of_nat ?n))"
    using exact [OF le] exact [OF order_refl] by (auto simp: successRate_def tallyOf_counts countOf_def fInf_def)
  have one: "feRound fe 1 = Finite 1"
    using assms(1) unfolding ieeeRounding_def by (metis (no_types) abs_one of_int_1 one_le_numeral one_le_power)
  show ?thesis
  proof (cases "?k = ?n")
    case True
    then show ?thesis using rate one all by auto
  next
    case False
    then have k: "?k + 1 \<le> ?n" using le by linarith
    then have n: "(of_nat ?n :: rat) > 0" "(of_nat ?n :: rat) \<le> 2 ^ 53"
      using assms(2) by linarith (metis assms(2) less_imp_le of_nat_less_iff of_nat_numeral of_nat_power)
    have "(of_nat ?k :: rat) \<le> of_nat ?n - 1" using k by linarith
    then have "(of_nat ?k :: rat) / of_nat ?n \<le> (of_nat ?n - 1) / of_nat ?n"
      using n by (simp add: divide_right_mono)
    also have "\<dots> = 1 - 1 / of_nat ?n" using n by (simp add: field_simps)
    also have "\<dots> \<le> ?top" using n by (simp add: frac_le)
    finally have "\<not> fLess (feRound fe ?top) (feRound fe (of_nat ?k / of_nat ?n))"
      "feRound fe (of_nat ?k / of_nat ?n) \<noteq> NaN"
      using assms(1) unfolding ieeeRounding_def by blast+
    moreover have "feRound fe ?top = Finite ?top" using assms(1) unfolding ieeeRounding_def by blast
    ultimately have "\<not> fLess (Finite ?top) (feRound fe (of_nat ?k / of_nat ?n))"
      "feRound fe (of_nat ?k / of_nat ?n) \<noteq> NaN"
      by (simp_all only: not_False_eq_True)
    then have "fLess (feRound fe (of_nat ?k / of_nat ?n)) (Finite 1)"
      by (cases "feRound fe (of_nat ?k / of_nat ?n)") auto
    then show ?thesis using rate k False all by auto
  qed
qed

lemma load_fails_unless_2xx:
  assumes "ieeeRounding (feRound (leFloat le))"
    and "requestsSent (lfDuration fl) (lfRequests fl) (lfConcurrency fl) managed = Some sent"
    and "sent < 2 ^ 53" and "lfMinSuccessRate fl = Finite 1"
    and "i < sent" and "\<not> answered2xx (answer i)"
  shows "testLoad le fl managed answer w =
    Some (Some (rateError (leFloat le) (Finite 1) (tallyOf (lfHostname fl) (map answer [0..<sent]))), w)"
proof -
  have "\<exists>a\<in>set (map answer [0..<sent]). \<not> answered2xx a" using assms(5,6) by auto
  then have "fLess (successRate (leFloat le) (tallyOf (lfHostname fl) (map answer [0..<sent]))) (Finite 1)"
    using rate_below_one [OF assms(1), of "map answer [0..<sent]"] assms(3) by (simp del: bex_simps)
  then show ?thesis using assms(2,4) by (simp add: testLoad_def)
qed

text \<open>Without a request the check passes: the rate is NaN.\<close>

lemma passes_without_requests:
  assumes "ieeeRounding (feRound (leFloat le))" and "lfRequests fl = 0" and "lfDuration fl = 0"
    and "lfBackends fl = []" and "lfNamespace fl = []"
  shows "testLoad le fl managed answer w = Some (None, w)"
proof -
  have "feRound (leFloat le) 0 = Finite 0"
    using assms(1) unfolding ieeeRounding_def by (metis (no_types) abs_zero of_int_0 zero_le_numeral zero_le_power)
  then show ?thesis using assms(2-5)
    by (simp add: testLoad_def requestsSent_def tallyOf_def noTally_def successRate_def fOfInt_def fInf_def
        checkEvenDistribution_def)
qed

section \<open>The distribution checks\<close>

lemma toleranceLoop_None:
  "toleranceLoop fe tw tc tol rs = None \<longleftrightarrow>
     (\<forall>(spec, c)\<in>set rs. \<not> (bsWeight spec > 0 \<and> c = 0) \<and> \<not> fLess tol (deviation fe tw tc spec c))"
  by (induction fe tw tc tol rs rule: toleranceLoop.induct) auto

lemma parseBackendFlag_roundtrip:
  assumes "0 \<le> w" and "w < 2 ^ 63"
  shows "parseBackendFlag (sel @ '':'' @ showInt w) = Inr \<lparr>bsSelector = sel, bsWeight = w\<rparr>"
proof -
  have nc: "CHR '':'' \<notin> set (showInt w)"
    using assms(1) by (auto simp: showInt_def isDigit_def dest!: showNat_digits)
  then have "dropWhile (\<lambda>x. x \<noteq> CHR '':'') (rev (showInt w) @ [CHR '':'']) = [CHR '':'']"
    by (subst dropWhile_append2) auto
  then have "beforeLast (CHR '':'') (sel @ '':'' @ showInt w) = sel"
    using nc by (simp add: beforeLast_def dropWhile_append)
  moreover have "parseInt64 (showInt w) = Some w" using assms by (intro parseInt64_showInt) auto
  ultimately show ?thesis using assms(1) by (simp add: parseBackendFlag_def Let_def)
qed

end
