(* ===== verification/TestCommands.thy ===== *)
theory TestCommands
  imports Cli
begin

text \<open>
  The other commands of cfgwctl that decide something: the session test (test_session.go) and
  the backend it runs against (test_serve.go), the direct calls of the Cloudflare client
  (test_dns.go, test_tunnel.go), the version (version.go) and the version of the Gateway API in
  the build (controller.go).  What a command prints is part of its result where it is its
  output; the HTTP client with its cookie jar, the decoders and the build information are
  parameters.
\<close>

section \<open>The session test\<close>

text \<open>
  \<open>thGet\<close> is \<^verbatim>\<open>client.Get(url)\<close> with the jar: the status and the decoded body, its pod and host.
  \<open>thCookies\<close> is what the jar holds for the URL after it.
\<close>

record test_answer =
  taStatus :: int
  taBody :: "go_error + string \<times> string"

record 'w test_http =
  thGet :: "'w \<Rightarrow> (go_error + test_answer) \<times> 'w"
  thParseURL :: "go_error option"
  thCookies :: "'w \<Rightarrow> (string \<times> string) list"

definition ok2xx :: "int \<Rightarrow> bool" where
  "ok2xx s \<longleftrightarrow> \<not> (s < 200 \<or> s \<ge> 300)"

text \<open>The follow-up requests, from the \<open>i\<close>-th on.\<close>

fun followLoop ::
  "'w test_http \<Rightarrow> string \<Rightarrow> string \<Rightarrow> int \<Rightarrow> nat \<Rightarrow> 'w \<Rightarrow> go_error option \<times> 'w" where
  "followLoop th hostname pod i 0 w = (None, w)"
| "followLoop th hostname pod i (Suc left) w =
     (let req = ''request '' @ showInt (i + 1)
      in case thGet th w of
           (Inl err, w1) \<Rightarrow> (Some (ErrWrap (req @ '': '') err), w1)
         | (Inr ans, w1) \<Rightarrow>
             (case taBody ans of
                Inl err \<Rightarrow> (Some (ErrWrap (req @ '': decoding response: '') err), w1)
              | Inr (pod', host') \<Rightarrow>
                  if \<not> ok2xx (taStatus ans)
                  then (Some (ErrText (req @ '': status '' @ showInt (taStatus ans))), w1)
                  else if pod' \<noteq> pod
                  then (Some (ErrText (req @ '': expected pod '' @ goQuote pod @ '', got '' @ goQuote pod'
                         @ '' (session affinity broken)'')), w1)
                  else if hostname \<noteq> [] \<and> host' \<noteq> hostname
                  then (Some (ErrText (req @ '': expected host '' @ goQuote hostname @ '', got ''
                         @ goQuote host')), w1)
                  else followLoop th hostname pod (i + 1) left w1))"

definition testSession ::
  "'w test_http \<Rightarrow> string \<Rightarrow> string \<Rightarrow> int \<Rightarrow> 'w \<Rightarrow> go_error option \<times> 'w" where
  "testSession th cookieName hostname requests w =
     (case thGet th w of
        (Inl err, w1) \<Rightarrow> (Some (ErrWrap ''initial request: '' err), w1)
      | (Inr ans, w1) \<Rightarrow>
          if \<not> ok2xx (taStatus ans)
          then (Some (ErrText (''initial request returned status '' @ showInt (taStatus ans))), w1)
          else
            (case taBody ans of
               Inl err \<Rightarrow> (Some (ErrWrap ''decoding initial response: '' err), w1)
             | Inr (pod, host) \<Rightarrow>
                 if pod = [] then (Some (ErrText ''initial response missing 'pod' field''), w1)
                 else if hostname \<noteq> [] \<and> host \<noteq> hostname
                 then (Some (ErrText (''expected host '' @ goQuote hostname @ '', got '' @ goQuote host)), w1)
                 else
                   (case thParseURL th of
                      Some err \<Rightarrow> (Some (ErrWrap ''parsing URL: '' err), w1)
                    | None \<Rightarrow>
                        (case find (\<lambda>c. fst c = cookieName) (thCookies th w1) of
                           None \<Rightarrow> (Some (ErrText (''no '' @ goQuote cookieName @ '' cookie in response'')), w1)
                         | Some c \<Rightarrow> followLoop th hostname pod 0 (nat requests) w1))))"

section \<open>The test backend\<close>

text \<open>
  The server of test_serve.go for one request, by its path: nothing, the count, or the name of
  the pod and the host; the last is what counts.  The library redirects paths that are not clean.
\<close>

datatype serve_answer = ServeHealthy | ServeCount string int | ServeHost string string

definition servePodName :: "string \<Rightarrow> string" where
  "servePodName podEnv = (if podEnv = [] then ''unknown'' else podEnv)"

definition testServe :: "string \<Rightarrow> string \<Rightarrow> string \<Rightarrow> int \<Rightarrow> serve_answer \<times> int" where
  "testServe podName path host counter =
     (if path = ''/_healthz'' then (ServeHealthy, counter)
      else if path = ''/_count'' then (ServeCount podName counter, counter)
      else (ServeHost podName host, wrap64 (counter + 1)))"

section \<open>Direct calls of the Cloudflare client\<close>

text \<open>What \<^verbatim>\<open>printJSON\<close> writes; an error of the standard output is left out.\<close>

datatype cli_output =
    OutString string string
  | OutStrings string "string list"
  | OutTunnels "(string \<times> string) list"
  | OutNothing

definition newCloudflareClient ::
  "(string \<Rightarrow> string option \<Rightarrow> 'w sdk) \<Rightarrow> (go_error + string) option \<Rightarrow> (string \<Rightarrow> string)
     \<Rightarrow> go_error + 'w client" where
  "newCloudflareClient mkSDK file getenv =
     (case loadCloudflareCredentials file getenv of
        Inl err \<Rightarrow> Inl err
      | Inr cfg \<Rightarrow> NewClient mkSDK cfg)"

type_synonym 'w cf_command = "go_error + 'w client \<Rightarrow> 'w \<Rightarrow> (go_error + cli_output) \<times> 'w"

definition withClient :: "('w client \<Rightarrow> 'w \<Rightarrow> (go_error + cli_output) \<times> 'w) \<Rightarrow> 'w cf_command" where
  "withClient run made w = (case made of Inl err \<Rightarrow> (Inl err, w) | Inr c \<Rightarrow> run c w)"

definition outOf :: "('a \<Rightarrow> cli_output) \<Rightarrow> (go_error + 'a) \<times> 'w \<Rightarrow> (go_error + cli_output) \<times> 'w" where
  "outOf f r = (case r of (Inl err, w) \<Rightarrow> (Inl err, w) | (Inr x, w) \<Rightarrow> (Inr (f x), w))"

definition errOf :: "go_error option \<times> 'w \<Rightarrow> (go_error + cli_output) \<times> 'w" where
  "errOf r = (case r of (Some err, w) \<Rightarrow> (Inl err, w) | (None, w) \<Rightarrow> (Inr OutNothing, w))"

definition dnsListZones :: "'w cf_command" where
  "dnsListZones = withClient (\<lambda>c w. outOf (OutStrings ''zoneIds'') (ListZoneIDs c w))"

definition dnsFindZone :: "string \<Rightarrow> 'w cf_command" where
  "dnsFindZone hostname = withClient (\<lambda>c w. outOf (OutString ''zoneId'') (FindZoneIDByHostname c hostname w))"

definition dnsDeleteCNAME :: "string \<Rightarrow> string \<Rightarrow> 'w cf_command" where
  "dnsDeleteCNAME zid hostname = withClient (\<lambda>c w. errOf (DeleteDNSCNAME c zid hostname w))"

definition dnsListCNAMEs :: "string \<Rightarrow> string \<Rightarrow> 'w cf_command" where
  "dnsListCNAMEs zid target =
     withClient (\<lambda>c w. outOf (OutStrings ''hostnames'') (ListDNSCNAMEsByTarget c zid target w))"

definition tunnelList :: "'w cf_command" where
  "tunnelList =
     withClient (\<lambda>c w. outOf (\<lambda>ts. OutTunnels (map (\<lambda>t. (tunnelID t, tunnelName t)) ts)) (ListTunnels c w))"

definition tunnelGetID :: "string \<Rightarrow> 'w cf_command" where
  "tunnelGetID tname = withClient (\<lambda>c w. outOf (OutString ''tunnelId'') (GetTunnelIDByName c tname w))"

definition tunnelGetToken :: "string \<Rightarrow> 'w cf_command" where
  "tunnelGetToken tid = withClient (\<lambda>c w. outOf (OutString ''token'') (GetTunnelToken c tid w))"

definition tunnelDelete :: "string \<Rightarrow> 'w cf_command" where
  "tunnelDelete tid = withClient (\<lambda>c w. errOf (DeleteTunnel c tid w))"

definition tunnelCleanupConnections :: "string \<Rightarrow> 'w cf_command" where
  "tunnelCleanupConnections tid = withClient (\<lambda>c w. errOf (CleanupTunnelConnections c tid w))"

section \<open>Versions\<close>

text \<open>
  A controller Deployment as its namespace, name and the images of its containers; \<open>deployments\<close>
  is the list of those with the label, if the client can be built and the list succeeds.  The
  result is the lines printed: the command never fails.
\<close>

definition versionLines ::
  "string \<Rightarrow> go_error + (go_error + (string \<times> string \<times> string list) list) \<Rightarrow> string list" where
  "versionLines version deployments =
     (let line = ''cfgwctl version '' @ version
      in case deployments of
           Inl err \<Rightarrow> [line]
         | Inr (Inl err) \<Rightarrow> [line]
         | Inr (Inr ds) \<Rightarrow>
             if ds = [] then [line, ''controller: not found'']
             else line # map (\<lambda>(ns, dname, images).
                    ''controller: '' @ (case images of [] \<Rightarrow> [] | im # _ \<Rightarrow> im)
                      @ '' ('' @ KindDeployment @ ''/'' @ ns @ ''/'' @ dname @ '')'') ds)"

text \<open>\<open>buildInfo\<close>: the dependencies with their versions; \<open>newVersion\<close> is semver's parser.\<close>

fun gatewayAPILoop :: "(string \<Rightarrow> string + 'v) \<Rightarrow> (string \<times> string) list \<Rightarrow> go_error + 'v" where
  "gatewayAPILoop newVersion [] = Inl (ErrText ''gateway-api dependency not found in build info'')"
| "gatewayAPILoop newVersion ((path, version) # deps) =
     (if path = ''sigs.k8s.io/gateway-api''
      then (case newVersion version of
              Inl err \<Rightarrow> Inl (ErrText (''failed to parse gateway-api version '' @ [CHR 0x27] @ version
                          @ [CHR 0x27] @ '': '' @ err))
            | Inr v \<Rightarrow> Inr v)
      else gatewayAPILoop newVersion deps)"

definition getGatewayAPIVersion ::
  "(string \<Rightarrow> string + 'v) \<Rightarrow> (string \<times> string) list option \<Rightarrow> go_error + 'v" where
  "getGatewayAPIVersion newVersion buildInfo =
     (case buildInfo of
        None \<Rightarrow> Inl (ErrText ''failed to read build info'')
      | Some deps \<Rightarrow> gatewayAPILoop newVersion deps)"

section \<open>Lemmas\<close>

text \<open>The answers to successive requests.\<close>

fun answersOf :: "'w test_http \<Rightarrow> nat \<Rightarrow> 'w \<Rightarrow> (go_error + test_answer) list" where
  "answersOf th 0 w = []"
| "answersOf th (Suc k) w = (case thGet th w of (a, w1) \<Rightarrow> a # answersOf th k w1)"

definition answersAs :: "string \<Rightarrow> string \<Rightarrow> go_error + test_answer \<Rightarrow> bool" where
  "answersAs hostname pod a =
     (case a of
        Inl err \<Rightarrow> False
      | Inr ans \<Rightarrow> ok2xx (taStatus ans) \<and>
          (case taBody ans of Inl err \<Rightarrow> False | Inr (p, h) \<Rightarrow> p = pod \<and> (hostname = [] \<or> h = hostname)))"

lemma followLoop_None:
  "fst (followLoop th hostname pod i k w) = None \<longleftrightarrow> list_all (answersAs hostname pod) (answersOf th k w)"
  by (induction th hostname pod i k w rule: followLoop.induct)
    (auto simp: answersAs_def Let_def split: prod.splits sum.splits)

text \<open>
  The session test passes exactly when the first answer names a pod, a cookie of the name is
  then in the jar, and every answer is 2xx and from that pod, for the expected host.
\<close>

lemma testSession_None:
  assumes "thParseURL th = None"
  shows "fst (testSession th cookieName hostname requests w) = None \<longleftrightarrow>
     (\<exists>pod. pod \<noteq> [] \<and> cookieName \<in> fst ` set (thCookies th (snd (thGet th w))) \<and>
        list_all (answersAs hostname pod) (answersOf th (Suc (nat requests)) w))"
proof -
  obtain a w1 where g: "thGet th w = (a, w1)" by (rule prod.exhaust)
  have f: "find (\<lambda>c. fst c = cookieName) (thCookies th w1) = None \<longleftrightarrow>
      cookieName \<notin> fst ` set (thCookies th w1)"
    by (force simp: find_None_iff)
  show ?thesis
    using f followLoop_None [of th hostname _ 0 "nat requests" w1]
    by (auto simp: testSession_def g assms answersAs_def split: sum.splits option.splits prod.splits)
qed

end
