(* ===== verification/SessionTest.thy ===== *)
theory SessionTest
  imports Proxy TestCommands
begin

text \<open>
  The session test against the proxy: cfgwctl's requests go through its cookie jar to
  \<^verbatim>\<open>ServeHTTP\<close>, and the proxied request reaches the test backend of a pod, by the host of its
  URL.  The jar is that of net/http/cookiejar for one host: a cookie replaces one of its name and path, and is
  sent when its path matches the URL.  How a cookie is written and read and the environment of
  the pods are parameters; the counters of the backends are left out.
\<close>

section \<open>The site\<close>

text \<open>\<^verbatim>\<open>pathMatch\<close> of RFC 6265: the cookie's path is the URL's, or a prefix up to a slash.\<close>

definition cookiePathMatch :: "string \<Rightarrow> string \<Rightarrow> bool" where
  "cookiePathMatch path p \<longleftrightarrow>
     path = p \<or> prefix p path \<and> (suffix ''/'' p \<or> prefix (p @ ''/'') path)"

type_synonym jar = "(string \<times> string \<times> string) list"

definition jarPut :: "string \<times> string \<times> string \<Rightarrow> jar \<Rightarrow> jar" where
  "jarPut c jar = c # filter (\<lambda>(n, v, p). \<not> (n = fst c \<and> p = snd (snd c))) jar"

definition jarFor :: "string \<Rightarrow> jar \<Rightarrow> (string \<times> string) list" where
  "jarFor path jar = map (\<lambda>(n, v, p). (n, v)) (filter (\<lambda>(n, v, p). cookiePathMatch path p) jar)"

text \<open>A visit: the clock when the request arrives and when its response is edited, and the draw.\<close>

record visit =
  viNow :: int
  viAfter :: int
  viDraw :: "int \<Rightarrow> int"

record site =
  siJar :: jar
  siVisits :: "visit list"

record site_env =
  seConfig :: "proxy_config option"
  seCookieString :: "http_cookie \<Rightarrow> string"
  seReadCookie :: "string \<Rightarrow> (string \<times> string \<times> string) option"
  sePodEnv :: "string \<Rightarrow> string"
  seRequest :: request

fun jarStore :: "(string \<Rightarrow> (string \<times> string \<times> string) option) \<Rightarrow> (string \<times> string) list \<Rightarrow> jar \<Rightarrow> jar" where
  "jarStore rd [] jar = jar"
| "jarStore rd ((h, v) # hs) jar =
     (if h = ''Set-Cookie''
      then (case rd v of None \<Rightarrow> jarStore rd hs jar | Some c \<Rightarrow> jarStore rd hs (jarPut c jar))
      else jarStore rd hs jar)"

text \<open>The body the decoder sees: the pod and the host, each empty when it is missing.\<close>

fun servedBody :: "serve_answer \<Rightarrow> go_error + string \<times> string" where
  "servedBody ServeHealthy = Inl (ErrText ''EOF'')"
| "servedBody (ServeCount pod c) = Inr (pod, [])"
| "servedBody (ServeHost pod host) = Inr (pod, host)"

definition siteGet :: "site_env \<Rightarrow> site \<Rightarrow> (go_error + test_answer) \<times> site" where
  "siteGet se s =
     (case siVisits s of
        [] \<Rightarrow> (Inl ErrDeadlineExceeded, s)
      | v # vs \<Rightarrow>
          (let q = (seRequest se)\<lparr>rqCookie := map_of (jarFor (rqPath (seRequest se)) (siJar s))\<rparr>
           in case ServeHTTP (seCookieString se) (seConfig se) (viNow v) (viDraw v) q of
                Respond code content h \<Rightarrow>
                  (Inr \<lparr>taStatus = code, taBody = Inl (ErrText content)\<rparr>, s\<lparr>siVisits := vs\<rparr>)
              | ProxyTo scheme host tr edit \<Rightarrow>
                  (Inr \<lparr>taStatus = 200, taBody = servedBody (fst
                      (testServe (servePodName (sePodEnv se host)) (rqPath q) (rqHost q) 0))\<rparr>,
                   \<lparr>siJar = jarStore (seReadCookie se) (edit (viAfter v) []) (siJar s), siVisits = vs\<rparr>)
              | NilDereference \<Rightarrow> (Inl ErrUnexpectedEOF, s\<lparr>siVisits := vs\<rparr>)))"

definition siteHTTP :: "site_env \<Rightarrow> site test_http" where
  "siteHTTP se =
     \<lparr>thGet = siteGet se, thParseURL = None,
      thCookies = (\<lambda>s. jarFor (rqPath (seRequest se)) (siJar s))\<rparr>"

section \<open>Visits within the timeouts\<close>

text \<open>Every visit within the absolute timeout of the session and the idle timeout of the last.\<close>

fun steady :: "session_persistence \<Rightarrow> int \<Rightarrow> int \<Rightarrow> visit list \<Rightarrow> bool" where
  "steady sp created t [] = True"
| "steady sp created t (v # vs) =
     (t \<le> viNow v \<and> viNow v \<le> viAfter v \<and> viAfter v * second < 2 ^ 63 \<and>
      (spAbsolute sp > 0 \<longrightarrow> (viNow v - created) * second \<le> spAbsolute sp) \<and>
      (spIdle sp > 0 \<longrightarrow> (viNow v - t) * second \<le> spIdle sp) \<and>
      steady sp created (viAfter v) vs)"

lemma resolveSession_value:
  assumes "parsedRoute up sha r" and "roSession r = Some sp" and "spType sp = ''Cookie''"
    and "distinct (map beID (roBackends r))" and "b \<in> set (roBackends r)" and "0 < beWeight b"
    and "0 \<le> created" and "created \<le> t" and "t \<le> now" and "now * second < 2 ^ 63"
    and "spAbsolute sp > 0 \<longrightarrow> (now - created) * second \<le> spAbsolute sp"
    and "spIdle sp > 0 \<longrightarrow> (now - t) * second \<le> spIdle sp"
    and "rqCookie q (spSessionName sp) = Some (sessionCookieValue t (beID b) created (spIdle sp > 0))"
  shows "resolveSession now r q = Some (b, created)"
proof -
  have id: "beID b = backendID sha (beService b)"
    using assms(1,5) by (auto simp: parsedRoute_def parsedBackend_def list_all_iff)
  have range: "- (2 ^ 63) \<le> created" "created < 2 ^ 63" "- (2 ^ 63) \<le> t" "t < 2 ^ 63"
    using assms(7-10) by auto
  have parse: "parseSessionCookie (sessionCookieValue t (beID b) created (spIdle sp > 0)) =
      Some (beID b, created, if spIdle sp > 0 then t else created)"
    unfolding id by (rule parseSessionCookie_value [OF backendID_no_dot range])
  have elapsed: "elapsedSince now created = (now - created) * second"
    "elapsedSince now t = (now - t) * second"
    using assms(7-10) by (intro elapsedSince_exact; simp)+
  show ?thesis
    using assms(2,3,11-13) parse elapsed findBackendByID_distinct [OF assms(4-6)]
    by (auto simp: resolveSession_def)
qed

section \<open>Sticky sites\<close>

text \<open>
  A site whose URL is served by the route \<open>r\<close> with cookie sessions \<open>sp\<close>: the configuration is a
  parsed one, the route has a backend of positive weight and distinct IDs, the cookie of the
  session is written as it is read, and the URL is not one of the backend's own.
\<close>

definition stickySite ::
  "site_env \<Rightarrow> (string \<Rightarrow> go_error + url) \<Rightarrow> (string \<Rightarrow> string) \<Rightarrow> route \<Rightarrow> session_persistence \<Rightarrow> bool" where
  "stickySite se up sha r sp \<longleftrightarrow>
     (\<exists>cfg i. seConfig se = Some cfg \<and> parsedConfig up sha cfg \<and> r = cfgRoutes cfg ! i \<and>
        matchRoute cfg (rqHost (seRequest se)) (rqPath (seRequest se)) (isGRPC (seRequest se)) = Some i) \<and>
     roSession r = Some sp \<and> spType sp = ''Cookie'' \<and> spCookieLifetimeType sp \<noteq> ''Permanent'' \<and>
     weightsOk r \<and> distinct (map beID (roBackends r)) \<and> (\<exists>b\<in>set (roBackends r). beWeight b > 0) \<and>
     (\<forall>ck. ckName ck = spSessionName sp \<and> ckPath ck = routePrefix r \<longrightarrow> seCookieString se ck \<noteq> [] \<and>
        seReadCookie se (seCookieString se ck) = Some (ckName ck, ckValue ck, ckPath ck)) \<and>
     rqPath (seRequest se) \<noteq> ''/_healthz'' \<and> rqPath (seRequest se) \<noteq> ''/_count''"

definition rangedDraw :: "visit \<Rightarrow> bool" where
  "rangedDraw v \<longleftrightarrow> (\<forall>n > 0. 0 \<le> viDraw v n \<and> viDraw v n < n)"

lemma stickySite_route:
  assumes "stickySite se up sha r sp"
  shows "parsedRoute up sha r"
    and "resolveBackend (seConfig se) now draw ((seRequest se)\<lparr>rqCookie := ck\<rparr>) =
      (case resolveSession now r ((seRequest se)\<lparr>rqCookie := ck\<rparr>) of
         Some (b, createdAt) \<Rightarrow> Inr (r, b, True, createdAt)
       | None \<Rightarrow> (case pickBackend draw r of None \<Rightarrow> Inl ErrNoBackend | Some b \<Rightarrow> Inr (r, b, False, 0)))"
proof -
  obtain cfg i where c: "seConfig se = Some cfg" "parsedConfig up sha cfg" "r = cfgRoutes cfg ! i"
    "matchRoute cfg (rqHost (seRequest se)) (rqPath (seRequest se)) (isGRPC (seRequest se)) = Some i"
    using assms by (auto simp: stickySite_def)
  have "i < length (cfgRoutes cfg)"
    using matchRoute_spec [OF c(2), of "rqHost (seRequest se)" "rqPath (seRequest se)" "isGRPC (seRequest se)"] c(4)
    by (auto simp: routeMatches_def)
  with c(2,3) show "parsedRoute up sha r" by (auto simp: parsedConfig_def list_all_iff)
  show "resolveBackend (seConfig se) now draw ((seRequest se)\<lparr>rqCookie := ck\<rparr>) =
      (case resolveSession now r ((seRequest se)\<lparr>rqCookie := ck\<rparr>) of
         Some (b, createdAt) \<Rightarrow> Inr (r, b, True, createdAt)
       | None \<Rightarrow> (case pickBackend draw r of None \<Rightarrow> Inl ErrNoBackend | Some b \<Rightarrow> Inr (r, b, False, 0)))"
    using c(4) by (simp add: resolveBackend_def c(1) isGRPC_def Let_def flip: c(3))
qed

abbreviation siteCookie :: "route \<Rightarrow> session_persistence \<Rightarrow> backend \<Rightarrow> int \<Rightarrow> int \<Rightarrow> string \<times> string \<times> string" where
  "siteCookie r sp b created t \<equiv>
     (spSessionName sp, sessionCookieValue t (beID b) created (spIdle sp > 0), routePrefix r)"

lemma stickySite_url:
  assumes "stickySite se up sha r sp" and "b \<in> set (roBackends r)"
  obtains u where "beURL b = Some u"
  using stickySite_route(1) [OF assms(1)] assms(2)
  by (auto simp: parsedRoute_def parsedBackend_def list_all_iff)

lemma stickySite_served:
  "stickySite se up sha r sp \<Longrightarrow>
     servedBody (fst (testServe pod (rqPath (seRequest se)) host c)) = Inr (pod, host)"
  by (simp add: stickySite_def testServe_def)

text \<open>A request with the cookie of the session reaches its backend, and leaves the jar with it.\<close>

lemma siteGet_hit:
  assumes st: "stickySite se up sha r sp" and b: "b \<in> set (roBackends r)" "beWeight b > 0" "beURL b = Some u"
    and path: "cookiePathMatch (rqPath (seRequest se)) (routePrefix r)"
    and "0 \<le> created" and "created \<le> t" and "steady sp created t (v # vs)"
  shows "siteGet se \<lparr>siJar = [siteCookie r sp b created t], siVisits = v # vs\<rparr> =
    (Inr \<lparr>taStatus = 200, taBody = Inr (servePodName (sePodEnv se (urlHost u)), rqHost (seRequest se))\<rparr>,
     \<lparr>siJar = [siteCookie r sp b created (viAfter v)], siVisits = vs\<rparr>)"
proof -
  let ?q = "(seRequest se)\<lparr>rqCookie := map_of (jarFor (rqPath (seRequest se)) [siteCookie r sp b created t])\<rparr>"
  have sp: "roSession r = Some sp" "spType sp = ''Cookie''" "spCookieLifetimeType sp \<noteq> ''Permanent''"
    "distinct (map beID (roBackends r))"
    "\<And>ck. ckName ck = spSessionName sp \<Longrightarrow> ckPath ck = routePrefix r \<Longrightarrow> seCookieString se ck \<noteq> [] \<and>
        seReadCookie se (seCookieString se ck) = Some (ckName ck, ckValue ck, ckPath ck)"
    using st by (auto simp: stickySite_def)
  have "rqCookie ?q (spSessionName sp) = Some (sessionCookieValue t (beID b) created (spIdle sp > 0))"
    using path by (simp add: jarFor_def)
  then have "resolveSession (viNow v) r ?q = Some (b, created)"
    using assms(6-8) by (intro resolveSession_value [OF stickySite_route(1) [OF st] sp(1,2,4) b(1,2)]) auto
  then have "resolveBackend (seConfig se) (viNow v) (viDraw v) ?q = Inr (r, b, True, created)"
    by (simp add: stickySite_route(2) [OF st])
  then show ?thesis using sp(1-3) sp(5) [of "sessionCookie (viAfter v) r sp b True created"]
    by (auto simp: siteGet_def ServeHTTP_def stickySite_served [OF st] b(3) Let_def needsSessionCookie_def setSessionCookie_def
        sessionCookie_def jarPut_def routePrefix_def sessionCookieValue_def)
qed

lemma siteGet_first:
  assumes st: "stickySite se up sha r sp" and "rangedDraw v"
  shows "\<exists>b u. b \<in> set (roBackends r) \<and> beWeight b > 0 \<and> beURL b = Some u \<and>
    siteGet se \<lparr>siJar = [], siVisits = v # vs\<rparr> =
      (Inr \<lparr>taStatus = 200, taBody = Inr (servePodName (sePodEnv se (urlHost u)), rqHost (seRequest se))\<rparr>,
       \<lparr>siJar = [siteCookie r sp b (viAfter v) (viAfter v)], siVisits = vs\<rparr>)"
proof -
  let ?q = "(seRequest se)\<lparr>rqCookie := map_of (jarFor (rqPath (seRequest se)) [])\<rparr>"
  have sp: "roSession r = Some sp" "spType sp = ''Cookie''" "spCookieLifetimeType sp \<noteq> ''Permanent''"
    "weightsOk r" "\<exists>b\<in>set (roBackends r). beWeight b > 0"
    "\<And>ck. ckName ck = spSessionName sp \<Longrightarrow> ckPath ck = routePrefix r \<Longrightarrow> seCookieString se ck \<noteq> [] \<and>
        seReadCookie se (seCookieString se ck) = Some (ckName ck, ckValue ck, ckPath ck)"
    using st by (auto simp: stickySite_def)
  have "0 \<le> x" if "x \<in> set (map beWeight (roBackends r))" for x
    using sp(4) that by (auto simp: weightsOk_def list_all_iff)
  from sum_list_nonneg_eq_0_iff [OF this] have "sum_list (map beWeight (roBackends r)) \<noteq> 0"
    using sp(5) by force
  then obtain b where b: "pickBackend (viDraw v) r = Some b" "b \<in> set (roBackends r)" "beWeight b > 0"
    using pickBackend_Some [OF sp(4), of "viDraw v"] stickySite_route(1) [OF st] assms(2)
    by (auto simp: parsedRoute_def rangedDraw_def)
  obtain u where u: "beURL b = Some u" using stickySite_url [OF st b(2)] .
  have "resolveSession (viNow v) r ?q = None"
    using sp(1,2) by (simp add: resolveSession_def jarFor_def)
  then have "resolveBackend (seConfig se) (viNow v) (viDraw v) ?q = Inr (r, b, False, 0)"
    using b(1) by (simp add: stickySite_route(2) [OF st])
  then have "siteGet se \<lparr>siJar = [], siVisits = v # vs\<rparr> =
      (Inr \<lparr>taStatus = 200, taBody = Inr (servePodName (sePodEnv se (urlHost u)), rqHost (seRequest se))\<rparr>,
       \<lparr>siJar = [siteCookie r sp b (viAfter v) (viAfter v)], siVisits = vs\<rparr>)"
    using sp(1-3) sp(6) [of "sessionCookie (viAfter v) r sp b False 0"]
    by (auto simp: siteGet_def ServeHTTP_def stickySite_served [OF st] u Let_def needsSessionCookie_def setSessionCookie_def
        sessionCookie_def jarPut_def routePrefix_def)
  then show ?thesis using b(2,3) u by blast
qed

lemma followLoop_sticky:
  assumes st: "stickySite se up sha r sp" and b: "b \<in> set (roBackends r)" "beWeight b > 0" "beURL b = Some u"
    and path: "cookiePathMatch (rqPath (seRequest se)) (routePrefix r)"
    and "0 \<le> created" and "created \<le> t" and "steady sp created t vs"
    and "hostname = [] \<or> hostname = rqHost (seRequest se)"
  shows "fst (followLoop (siteHTTP se) hostname (servePodName (sePodEnv se (urlHost u))) i (length vs)
    \<lparr>siJar = [siteCookie r sp b created t], siVisits = vs\<rparr>) = None"
  using assms(7,8)
proof (induction vs arbitrary: t i)
  case Nil
  then show ?case by simp
next
  case (Cons v vs)
  have "created \<le> viAfter v" "steady sp created (viAfter v) vs" using Cons.prems by auto
  from Cons.IH [OF this] show ?case
    using siteGet_hit [OF st b path assms(6) Cons.prems] assms(9)
    by (auto simp: siteHTTP_def ok2xx_def Let_def)
qed

section \<open>The property\<close>

text \<open>
  C40. The session test passes against the proxy.  On a URL served by a route with cookie sessions
  of session lifetime, with the cookie's path covering the URL, the test passes whatever backend
  the first request draws, however many requests follow and whatever the later draws are, as long
  as no visit exceeds the absolute timeout of the session or the idle timeout of the visit before:
  every follow-up request reaches the pod of the first.
\<close>

theorem session_test_passes:
  assumes "stickySite se up sha r sp" and "cookiePathMatch (rqPath (seRequest se)) (routePrefix r)"
    and "rangedDraw v" and "0 \<le> viAfter v" and "steady sp (viAfter v) (viAfter v) vs"
    and "hostname = [] \<or> hostname = rqHost (seRequest se)"
  shows "fst (testSession (siteHTTP se) (spSessionName sp) hostname (int (length vs))
    \<lparr>siJar = [], siVisits = v # vs\<rparr>) = None"
proof -
  obtain b u where b: "b \<in> set (roBackends r)" "beWeight b > 0" "beURL b = Some u"
    and g: "siteGet se \<lparr>siJar = [], siVisits = v # vs\<rparr> =
      (Inr \<lparr>taStatus = 200, taBody = Inr (servePodName (sePodEnv se (urlHost u)), rqHost (seRequest se))\<rparr>,
       \<lparr>siJar = [siteCookie r sp b (viAfter v) (viAfter v)], siVisits = vs\<rparr>)"
    using siteGet_first [OF assms(1,3)] by blast
  have "servePodName (sePodEnv se (urlHost u)) \<noteq> []" by (simp add: servePodName_def)
  with followLoop_sticky [OF assms(1) b assms(2,4) order_refl assms(5,6), of 0] show ?thesis
    using g assms(2,6) by (auto simp: testSession_def siteHTTP_def ok2xx_def jarFor_def)
qed

text \<open>
  A route for the prefix /foo also serves /foobar, but its cookie is not sent there: two requests
  that draw different backends fail the test.
\<close>

definition twoPodRoute :: route where
  "twoPodRoute =
     (demoRoute ''a'' ''/foo''
        (map (\<lambda>s. \<lparr>beService = s, beWeight = 1, beURL = Some \<lparr>urlScheme = ''http'', urlHost = s\<rparr>,
            beID = backendID demoDigest s\<rparr>) [''s1'', ''s2'']))
       \<lparr>roSession := Some \<lparr>spType = ''Cookie'', spSessionName = ''sid'', spAbsoluteTimeout = ''1h'',
          spIdleTimeout = ''1m'', spCookieLifetimeType = ''Session'', spAbsolute = 3600 * second,
          spIdle = 60 * second\<rparr>, roTotalWeight := 2\<rparr>"

definition twoPodSite :: "string \<Rightarrow> site_env" where
  "twoPodSite path =
     \<lparr>seConfig = Some \<lparr>cfgRoutes = [twoPodRoute], cfgByHost = hostIndex [twoPodRoute]\<rparr>,
      seCookieString = (\<lambda>ck. CHR ''='' # ckValue ck),
      seReadCookie = (\<lambda>s. Some (''sid'', tl s, ''/foo'')),
      sePodEnv = (\<lambda>h. CHR ''p'' # h),
      seRequest = \<lparr>rqHost = ''a'', rqPath = path, rqHeader = (\<lambda>h. []), rqCookie = (\<lambda>n. None)\<rparr>\<rparr>"

abbreviation twoVisits :: site where
  "twoVisits \<equiv> \<lparr>siJar = [],
     siVisits = [\<lparr>viNow = 1000, viAfter = 1000, viDraw = (\<lambda>n. 0)\<rparr>,
       \<lparr>viNow = 1010, viAfter = 1011, viDraw = (\<lambda>n. n - 1)\<rparr>]\<rparr>"

theorem session_test_passes_witness:
  "fst (testSession (siteHTTP (twoPodSite ''/foo/x'')) ''sid'' ''a'' 1 twoVisits) = None"
proof -
  let ?se = "twoPodSite ''/foo/x''" and ?sp = "the (roSession twoPodRoute)"
  have m: "matchRoute \<lparr>cfgRoutes = [twoPodRoute], cfgByHost = hostIndex [twoPodRoute]\<rparr> ''a'' ''/foo/x'' False = Some 0"
    by code_simp
  have d: "distinct (map beID (roBackends twoPodRoute))" by code_simp
  have "stickySite ?se demoURL demoDigest twoPodRoute ?sp"
    unfolding stickySite_def using m d
    by (auto simp: isGRPC_def twoPodSite_def twoPodRoute_def demoRoute_def parsedConfig_def parsedRoute_def parsedBackend_def
        demoURL_def wrapInt_def routePrefix_def weightsOk_def)
  moreover have "cookiePathMatch (rqPath (seRequest ?se)) (routePrefix twoPodRoute)" by code_simp
  moreover have "spSessionName ?sp = ''sid''" "rqHost (seRequest ?se) = ''a''"
    "spAbsolute ?sp = 3600 * second" "spIdle ?sp = 60 * second"
    by (simp_all add: twoPodRoute_def demoRoute_def twoPodSite_def)
  ultimately show ?thesis
    using session_test_passes [of ?se demoURL demoDigest twoPodRoute ?sp "\<lparr>viNow = 1000, viAfter = 1000, viDraw = (\<lambda>n. 0)\<rparr>"
        "[\<lparr>viNow = 1010, viAfter = 1011, viDraw = (\<lambda>n. n - 1)\<rparr>]" "''a''"]
    by (simp add: rangedDraw_def)
qed

lemma twoPodSite_get:
  assumes "matchRoute \<lparr>cfgRoutes = [twoPodRoute], cfgByHost = hostIndex [twoPodRoute]\<rparr> ''a'' path False = Some 0"
    and "viDraw v 2 = 0" and "path \<noteq> ''/_healthz''" and "path \<noteq> ''/_count''"
  shows "\<exists>x. siteGet (twoPodSite path) \<lparr>siJar = [], siVisits = v # vs\<rparr> =
    (Inr \<lparr>taStatus = 200, taBody = Inr (''ps1'', ''a'')\<rparr>,
     \<lparr>siJar = [(''sid'', x, ''/foo'')], siVisits = vs\<rparr>)"
  using assms by (simp add: siteGet_def twoPodSite_def ServeHTTP_def resolveBackend_def isGRPC_def Let_def
      resolveSession_def pickBackend_def wrapInt_def needsSessionCookie_def setSessionCookie_def
      twoPodRoute_def demoRoute_def jarFor_def jarPut_def testServe_def servePodName_def)

lemma affinity_lost:
  "fst (testSession (siteHTTP (twoPodSite ''/foobar'')) ''sid'' [] 1 twoVisits) =
     Some (ErrText ''no \"sid\" cookie in response'')"
proof -
  have m: "matchRoute \<lparr>cfgRoutes = [twoPodRoute], cfgByHost = hostIndex [twoPodRoute]\<rparr> ''a'' ''/foobar'' False = Some 0"
    by code_simp
  have q: "goQuote ''sid'' = CHR 0x22 # ''sid'' @ [CHR 0x22]" by code_simp
  obtain x where "siteGet (twoPodSite ''/foobar'') twoVisits =
      (Inr \<lparr>taStatus = 200, taBody = Inr (''ps1'', ''a'')\<rparr>,
       \<lparr>siJar = [(''sid'', x, ''/foo'')], siVisits = [\<lparr>viNow = 1010, viAfter = 1011, viDraw = (\<lambda>n. n - 1)\<rparr>]\<rparr>)"
    using twoPodSite_get [OF m, of "\<lparr>viNow = 1000, viAfter = 1000, viDraw = (\<lambda>n. 0)\<rparr>"] by auto
  moreover have "jarFor (rqPath (seRequest (twoPodSite ''/foobar''))) [(''sid'', x, ''/foo'')] = []"
    by (simp add: jarFor_def cookiePathMatch_def twoPodSite_def suffix_to_prefix)
  ultimately show ?thesis by (simp add: testSession_def siteHTTP_def ok2xx_def q)
qed

end
