(* ===== verification/Spec2Isabelle.thy ===== *)
theory Spec2Isabelle
  imports Proxy DnsTheorems DeploymentProps FinalizationProps Rotation WatchProps GatewayClass RotationReport CliProps
    DisciplineProps OriginProxy Triggers Load SessionTest
begin

text \<open>
  A verification development for cloudflare-gateway-controller, the Kubernetes controller that
  serves Gateway API Gateways through Cloudflare tunnels, and for its command line cfgwctl.

  \<^bold>\<open>The program.\<close>  The controller (internal/controller) reconciles Gateways and GatewayClasses.
  For a Gateway it validates the object and its parameters, reads the credentials of the
  Cloudflare account, collects the HTTPRoutes and GRPCRoutes that attach, rejects those in
  conflict, ensures a tunnel of the account and its token, writes the routes to a ConfigMap,
  applies one Deployment per replica in a rolling update, reconciles the DNS records of the
  hostnames, and reports on the statuses of the Gateway, the routes and its own
  CloudflareGatewayStatus.  The Cloudflare client (internal/cloudflare) does the requests to the
  account, with retries.  A replica runs the tunnel process: cloudflared hands requests to the
  origin proxy (internal/cloudflare/tunnel.go), which hands them to the proxy (internal/proxy),
  which serves the routes of the ConfigMap.  cfgwctl (cmd/cfgwctl) suspends, resumes and requests
  reconciliations, rotates the token and watches the rollout, and tests a deployment.

  \<^bold>\<open>How the code is modelled.\<close>  A struct is a record or a datatype, a pointer an option, a slice a
  list, a map a partial function, or an association list where the order of \<^verbatim>\<open>range\<close> matters,
  which is then a parameter.  Strings are byte strings.  \<^verbatim>\<open>int\<close>, \<^verbatim>\<open>int64\<close> and \<^verbatim>\<open>int32\<close> are
  \<open>int\<close> with the wrap-around written out where the code computes with unchecked values (\<open>wrap64\<close>,
  \<open>wrap32\<close> in Prelude).  An error is a value of \<open>go_error\<close> (GoErrors), and a fallible function
  gives \<open>go_error + 'a\<close>; a panic is a value of its own.  A function with effects takes and returns
  the world \<open>'w\<close>, a type variable: whatever the Kubernetes API, the Cloudflare account, the clock
  and the connections are.  What it calls of them is a record of functions over \<open>'w\<close>, so that
  every call may fail in every way: \<open>sdk\<close> (the Cloudflare SDK, CloudflareClient), \<open>cluster\<close>
  (the Kubernetes client, Cluster), \<open>kube\<close> (reads and status patches of routes, RouteStatus),
  \<open>env\<close> (everything a reconciliation needs, GatewayReconcile).  \<^verbatim>\<open>retry.RetryOnConflict\<close> is a
  parameter applied to the closure, which is a definition on the world and the variables it
  captures.  Logging is left out.

  \<^bold>\<open>The theories.\<close>
  \<^item> Shared: Prelude (Go's strings, integers and loops), GoErrors (errors), Conditions
    (internal/conditions), GatewayApi (the objects and the types of api/v1), Naming
    (api/v1/meta_types.go, groupversion_info.go).
  \<^item> Cloudflare: CloudflareClient (client.go) and Retry (retry.go); DnsContract, ZoneContract and
    TunnelContract state what the operations on records, zones and tunnels promise as locales, show
    the client to keep them on any SDK that behaves as documented, and the retrying client on any
    client that does (sublocales), and interpret them on accounts with scheduled faults.
  \<^item> Data plane: ProxyConfig (config.go, configmap_watcher.go), Proxy (proxy.go), OriginProxy
    (tunnel.go, with the locale \<open>grpc_stream\<close> for the copying of a response).
  \<^item> Routing: ReferenceGrants (referencegrant.go), RouteObjects (route.go and the proxy routes of
    gateway_routes.go), DnsPolicy and Dns (gateway_dns.go) with DnsTheorems, RouteStatus and
    RouteConflicts (gateway_routes.go, gateway_routes_configmap.go), GatewayRoutes (validation,
    attached routes and listeners, gateway_routes.go).
  \<^item> Tunnel: Schedule (internal/schedule), TunnelToken, Deployments, Rollout and DeploymentProps
    (gateway_tunnel.go), Resources (RBAC of gateway_tunnel.go, gateway_vpa.go, the ConfigMap),
    Rotation (when the token is rotated and how that is recorded).
  \<^item> Gateway controller: Cluster (the API calls), GatewayHelpers (gateway_helpers.go), GatewayStatus,
    GatewayReconcile and GatewayFinalize (gateway_controller.go: \<^verbatim>\<open>Reconcile\<close>, \<^verbatim>\<open>reconcile\<close>,
    \<^verbatim>\<open>finalize\<close> and all they call, in their order); Framing, Finalization and FinalizationProps
    (what finalization leaves behind), Discipline and DisciplineProps (what a reconciliation may
    write).
  \<^item> Watches: Watches (map functions of gateway_manager.go and gatewayclass_manager.go, indexes.go)
    with WatchProps, Triggers (internal/predicates and the tables of \<^verbatim>\<open>SetupWithManager\<close>).
  \<^item> GatewayClass: Preflight (preflight.go), GatewayClass (gatewayclass_controller.go).
  \<^item> cfgwctl: WatchRotation and RotationReport (watch_rotation.go), Cli and CliProps (commands on a
    Gateway, kubernetes.go, cloudflare.go), Load (test_load.go), TestCommands (test_session.go,
    test_serve.go, test_dns.go, test_tunnel.go, version.go), SessionTest.

  \<^bold>\<open>What is shown.\<close>
  \<^item> The proxy picks the best route and a live backend by weight, keeps sessions until their
    timeouts, answers every request, and always serves the last valid configuration; a gRPC
    response arrives whole or as failed; cfgwctl's session test passes against it.
  \<^item> The Cloudflare operations through the retrying client do what their contract says, whatever
    fails and whether or not a failed request took effect; the zone found is the longest.
  \<^item> A reference across namespaces needs a grant, only granted rules are served, no route takes a
    hostname from its owner, and which routes are rejected for conflicts is exact.
  \<^item> The DNS reconciliation changes records of its own tunnel and of desired hostnames only; after
    success the desired records are there and the stale ones gone; a second one does nothing.
  \<^item> One rollout at a time; readiness of the Gateway from its Deployments; placement overrides
    change what they should; the token is rotated exactly when asked for or due, the search for the
    previous trigger returns, and how rotations can be repeated when their record is lost.
  \<^item> Finalization removes the finalizer only when nothing is left behind, in the right order; a
    reconciliation makes well-typed writes of its own objects only; status attempts settle.
  \<^item> Every event on a route, a grant or a class reconciles the Gateways it concerns, and which
    events do not; the verdict on a GatewayClass, and that it settles.
  \<^item> The rotation report passes exactly when the rollout was in order, and a successful watch saw
    one; suspending and resuming control the reconciliation; where waiting takes a stale outcome.

  Properties are named C and a number where they are stated.  Their proofs rest on the contracts
  above, proved in the locales \<open>dns_client\<close>, \<open>dns_zones\<close>, \<open>tunnel_client\<close>, \<open>sdk_dns\<close>,
  \<open>sdk_zones\<close>, \<open>sdk_tunnels\<close>, \<open>retried_dns\<close>, \<open>retried_zones\<close>, \<open>retried_tunnels\<close>,
  \<open>deployment_api\<close>, \<open>reference_check\<close>, \<open>status_writer\<close>, \<open>proxy_route_source\<close>, \<open>quiet_env\<close>,
  \<open>finalization\<close>, \<open>api_laws\<close>, \<open>disciplined\<close> and \<open>grpc_stream\<close>.  Their hypotheses on code that is
  not under src/ are its documented behaviour: that a listing gives what is stored, that a write
  that fails has taken effect or not, that a read changes nothing, that a closure given to
  \<^verbatim>\<open>retry.RetryOnConflict\<close> is run until it does not conflict, that rounding is monotone.

  \<^bold>\<open>Loops and bounds.\<close>  Loops over lists are structural recursions.  The retry loops count down the
  attempts left.  Three loops end for reasons outside their text and are
  partial functions, \<open>None\<close> meaning that they do not return: the binary search for the previous
  trigger (proved to return for every schedule whose \<^verbatim>\<open>Next\<close> is a successor), the wait for a
  deleted Deployment (it returns when the object goes or the context ends) and the copying of a
  response (proved to return for a body that ends).  The waits of cfgwctl run over the list of the
  events or polls they get, so a longer list is more fuel and running out of it is \<open>None\<close>.  Fixed
  bounds of the code (the look back of five years of the cron search, the length of an event, the
  size of the copy buffer) are constants of the model.

  \<^bold>\<open>Not modelled.\<close>
  \<^item> RunTunnel, createTunnelTLSConfig (internal/cloudflare/tunnel.go) and cmd/cfgwctl/tunnel.go wire
    the cloudflared SDK, the informers and the health server together.
  \<^item> The run of the controller command (controller.go) builds the manager and registers the
    reconcilers; the registration of the indexes is wiring as well.
  \<^item> The cobra commands and flags of cfgwctl, building clients from a kubeconfig, hints after errors
    and printed output, except where the output is the result.
  \<^item> api/v1/zz_generated.deepcopy.go is generated, and values need no copies; the registration of
    the types with the scheme.
  \<^item> Encoders and decoders of JSON, YAML, URLs, times and cron expressions, and the digest, are
    libraries and parameters.  Concurrency of reconciliations of the same Gateway is excluded by
    the work queue of controller-runtime; other clients of the API act between the calls through
    the world.
\<close>

end
